(* ===== verification/Prelude.thy ===== *)
theory Prelude
  imports Main "HOL-Library.List_Lexorder" "HOL-Library.Char_ord"
begin

text \<open>
  Shared vocabulary of the development: results (\<open>Result<T, E>\<close> as a sum with the error on the
  left), machine integers as naturals with their width written out, the ordered map that stands
  for \<open>BTreeMap\<close> (a list of pairs in strictly increasing key order), and the list operations the
  sources use (\<open>iter().find\<close>, \<open>iter_mut().find\<close>).

  Strings are lists of bytes, as a Rust \<open>String\<close> is UTF-8; their order is the lexicographic
  order on bytes, which is the order of \<open>String\<close>.
\<close>

named_theorems result_simps "how the result combinators behave on success and on failure"
named_theorems bt_simps "lookup, insertion and removal in ordered maps"

section \<open>Results\<close>

type_synonym ('e, 'a) result = "'e + 'a"

text \<open>\<open>and_then r f\<close> is the \<open>?\<close> operator: an error ends the computation.\<close>

definition and_then :: "('e, 'a) result \<Rightarrow> ('a \<Rightarrow> ('e, 'b) result) \<Rightarrow> ('e, 'b) result" where
  "and_then r f = (case r of Inl e \<Rightarrow> Inl e | Inr x \<Rightarrow> f x)"

definition map_err :: "('e \<Rightarrow> 'f) \<Rightarrow> ('e, 'a) result \<Rightarrow> ('f, 'a) result" where
  "map_err g r = (case r of Inl e \<Rightarrow> Inl (g e) | Inr x \<Rightarrow> Inr x)"

definition ok_or :: "'e \<Rightarrow> 'a option \<Rightarrow> ('e, 'a) result" where
  "ok_or e v = (case v of None \<Rightarrow> Inl e | Some x \<Rightarrow> Inr x)"

text \<open>\<open>collect::<Result<Vec<_>, _>>()\<close>: the first error, or all the values in order.\<close>

fun collect :: "('e, 'a) result list \<Rightarrow> ('e, 'a list) result" where
  "collect [] = Inr []"
| "collect (r # rs) = and_then r (\<lambda>x. and_then (collect rs) (\<lambda>xs. Inr (x # xs)))"

definition is_ok :: "('e, 'a) result \<Rightarrow> bool" where
  "is_ok r = (case r of Inl _ \<Rightarrow> False | Inr _ \<Rightarrow> True)"

section \<open>Machine integers\<close>

text \<open>
  Integers of the sources are naturals here, with the bound written out wherever the code checks
  it or relies on it. An unchecked \<open>+\<close> on \<open>u64\<close> wraps, as it does in a release build.
\<close>

definition u64_max :: nat where "u64_max = 2 ^ 64 - 1"
definition u32_max :: nat where "u32_max = 2 ^ 32 - 1"
definition u16_max :: nat where "u16_max = 2 ^ 16 - 1"
definition u8_max :: nat where "u8_max = 2 ^ 8 - 1"
definition i64_max :: nat where "i64_max = 2 ^ 63 - 1"

definition u64_add :: "nat \<Rightarrow> nat \<Rightarrow> nat" where
  "u64_add a b = (a + b) mod 2 ^ 64"

definition u64_saturating_add :: "nat \<Rightarrow> nat \<Rightarrow> nat" where
  "u64_saturating_add a b = min (a + b) u64_max"

definition u64_saturating_mul :: "nat \<Rightarrow> nat \<Rightarrow> nat" where
  "u64_saturating_mul a b = min (a * b) u64_max"

definition u64_checked_add :: "nat \<Rightarrow> nat \<Rightarrow> nat option" where
  "u64_checked_add a b = (if a + b \<le> u64_max then Some (a + b) else None)"

text \<open>\<open>i64::try_from\<close> on a \<open>u64\<close>.\<close>

definition i64_try_from :: "nat \<Rightarrow> nat option" where
  "i64_try_from n = (if n \<le> i64_max then Some n else None)"

section \<open>Ordered maps\<close>

type_synonym ('k, 'v) bt_map = "('k \<times> 'v) list"

definition bt_empty :: "('k, 'v) bt_map" where "bt_empty = []"

fun bt_get :: "('k, 'v) bt_map \<Rightarrow> 'k \<Rightarrow> 'v option" where
  "bt_get [] k = None"
| "bt_get ((k', v') # m) k = (if k = k' then Some v' else bt_get m k)"

fun bt_insert :: "'k::linorder \<Rightarrow> 'v \<Rightarrow> ('k, 'v) bt_map \<Rightarrow> ('k, 'v) bt_map" where
  "bt_insert k v [] = [(k, v)]"
| "bt_insert k v ((k', v') # m) =
     (if k < k' then (k, v) # (k', v') # m
      else if k = k' then (k, v) # m
      else (k', v') # bt_insert k v m)"

fun bt_remove :: "'k \<Rightarrow> ('k, 'v) bt_map \<Rightarrow> ('k, 'v) bt_map" where
  "bt_remove k [] = []"
| "bt_remove k ((k', v') # m) = (if k = k' then m else (k', v') # bt_remove k m)"

definition bt_contains_key :: "('k, 'v) bt_map \<Rightarrow> 'k \<Rightarrow> bool" where
  "bt_contains_key m k = (bt_get m k \<noteq> None)"

definition bt_keys :: "('k, 'v) bt_map \<Rightarrow> 'k list" where
  "bt_keys m = map fst m"

definition bt_values :: "('k, 'v) bt_map \<Rightarrow> 'v list" where
  "bt_values m = map snd m"

fun bt_extend :: "('k::linorder, 'v) bt_map \<Rightarrow> ('k \<times> 'v) list \<Rightarrow> ('k, 'v) bt_map" where
  "bt_extend m [] = m"
| "bt_extend m ((k, v) # kvs) = bt_extend (bt_insert k v m) kvs"

definition bt_sorted :: "('k::linorder, 'v) bt_map \<Rightarrow> bool" where
  "bt_sorted m = sorted_wrt (<) (map fst m)"

section \<open>Searching and updating the first match\<close>

text \<open>\<open>iter_mut().find(p)\<close> followed by a mutation of what it found.\<close>

fun update_first :: "('a \<Rightarrow> bool) \<Rightarrow> ('a \<Rightarrow> 'a) \<Rightarrow> 'a list \<Rightarrow> 'a list" where
  "update_first p f [] = []"
| "update_first p f (x # xs) = (if p x then f x # xs else x # update_first p f xs)"

text \<open>\<open>iter().rev().find(p)\<close>\<close>

definition rfind :: "('a \<Rightarrow> bool) \<Rightarrow> 'a list \<Rightarrow> 'a option" where
  "rfind p xs = List.find p (rev xs)"

section \<open>Lemmas on results\<close>

lemma and_then_Inl [simp, result_simps]: "and_then (Inl e) f = Inl e"
  by (simp add: and_then_def)

lemma and_then_Inr [simp, result_simps]: "and_then (Inr x) f = f x"
  by (simp add: and_then_def)

lemma and_then_eq_Inr: "and_then r f = Inr y \<longleftrightarrow> (\<exists>x. r = Inr x \<and> f x = Inr y)"
  by (cases r) simp_all

lemma and_then_eq_Inl: "and_then r f = Inl e \<longleftrightarrow> r = Inl e \<or> (\<exists>x. r = Inr x \<and> f x = Inl e)"
  by (cases r) simp_all

lemma map_err_Inl [simp, result_simps]: "map_err g (Inl e) = Inl (g e)"
  by (simp add: map_err_def)

lemma map_err_Inr [simp, result_simps]: "map_err g (Inr x) = Inr x"
  by (simp add: map_err_def)

lemma map_err_eq_Inr [simp]: "map_err g r = Inr x \<longleftrightarrow> r = Inr x"
  by (cases r) simp_all

lemma ok_or_None [simp, result_simps]: "ok_or e None = Inl e"
  by (simp add: ok_or_def)

lemma ok_or_Some [simp, result_simps]: "ok_or e (Some x) = Inr x"
  by (simp add: ok_or_def)

lemma ok_or_eq_Inr [simp]: "ok_or e v = Inr x \<longleftrightarrow> v = Some x"
  by (cases v) simp_all

lemma ok_or_eq_Inl [simp]: "ok_or e v = Inl e' \<longleftrightarrow> v = None \<and> e' = e"
  by (cases v) auto

lemma is_ok_simps [simp]: "is_ok (Inr x)" "\<not> is_ok (Inl e)"
  by (simp_all add: is_ok_def)

lemma is_ok_iff: "is_ok r \<longleftrightarrow> (\<exists>x. r = Inr x)"
  by (cases r) simp_all

lemma collect_map_Inr [simp]: "collect (map (\<lambda>x. Inr (f x)) xs) = Inr (map f xs)"
  by (induction xs) simp_all

lemma collect_eq_Inr: "collect rs = Inr xs \<longleftrightarrow> rs = map Inr xs"
  by (induction rs arbitrary: xs) (auto simp: and_then_eq_Inr)

lemma collect_append:
  "collect (rs @ ss) = and_then (collect rs) (\<lambda>xs. and_then (collect ss) (\<lambda>ys. Inr (xs @ ys)))"
proof (induction rs)
  case Nil
  show ?case by (cases "collect ss") simp_all
next
  case (Cons r rs)
  then show ?case
    by (cases r; cases "collect rs"; cases "collect ss") simp_all
qed

section \<open>Lemmas on integers\<close>

lemma u64_add_no_wrap: "a + b \<le> u64_max \<Longrightarrow> u64_add a b = a + b"
  by (simp add: u64_add_def u64_max_def)

lemma u64_add_bound: "u64_add a b \<le> u64_max"
proof -
  have "(a + b) mod 2 ^ 64 < (2 ^ 64 :: nat)" by simp
  then show ?thesis unfolding u64_add_def u64_max_def by linarith
qed

lemma i64_try_from_Some [simp]: "i64_try_from n = Some m \<longleftrightarrow> m = n \<and> n \<le> i64_max"
  by (auto simp: i64_try_from_def)

lemma i64_try_from_None [simp]: "i64_try_from n = None \<longleftrightarrow> i64_max < n"
  by (auto simp: i64_try_from_def)

lemma i64_max_less_u64_max: "i64_max < u64_max"
  by (simp add: i64_max_def u64_max_def)

section \<open>Lemmas on ordered maps\<close>

lemma bt_get_empty [simp, bt_simps]: "bt_get bt_empty k = None"
  by (simp add: bt_empty_def)

lemma bt_get_insert [simp, bt_simps]:
  "bt_get (bt_insert k v m) k' = (if k' = k then Some v else bt_get m k')"
  by (induction m) auto

lemma bt_get_Some_in: "bt_get m k = Some v \<Longrightarrow> (k, v) \<in> set m"
  by (induction m) (auto split: if_splits)

lemma bt_get_None_iff: "bt_get m k = None \<longleftrightarrow> k \<notin> fst ` set m"
proof (induction m)
  case (Cons kv m)
  then show ?case by (cases kv) simp
qed simp

lemma bt_sorted_Nil [simp]: "bt_sorted []"
  by (simp add: bt_sorted_def)

lemma bt_sorted_empty [simp]: "bt_sorted bt_empty"
  by (simp add: bt_empty_def)

lemma bt_sorted_Cons:
  "bt_sorted ((k, v) # m) \<longleftrightarrow> (\<forall>k' v'. (k', v') \<in> set m \<longrightarrow> k < k') \<and> bt_sorted m"
  by (force simp: bt_sorted_def)

lemma in_bt_insert: "(k', v') \<in> set (bt_insert k v m) \<Longrightarrow> (k', v') = (k, v) \<or> (k', v') \<in> set m"
  by (induction k v m rule: bt_insert.induct) (auto split: if_splits)

lemma bt_sorted_insert [simp]: "bt_sorted m \<Longrightarrow> bt_sorted (bt_insert k v m)"
proof (induction k v m rule: bt_insert.induct)
  case (2 k v k' v' m)
  consider "k < k'" | "k = k'" | "k' < k" by (rule linorder_cases)
  then show ?case
  proof cases
    case 1
    with 2 show ?thesis by (auto simp: bt_sorted_Cons)
  next
    case 2
    with "2.prems" show ?thesis by (simp add: bt_sorted_Cons)
  next
    case 3
    with 2 have "bt_sorted (bt_insert k v m)" by (simp add: bt_sorted_Cons)
    with 2 3 show ?thesis by (auto simp: bt_sorted_Cons dest: in_bt_insert)
  qed
qed (simp add: bt_sorted_Cons)

lemma in_bt_remove: "(k', v') \<in> set (bt_remove k m) \<Longrightarrow> (k', v') \<in> set m"
  by (induction k m rule: bt_remove.induct) (auto split: if_splits)

lemma bt_sorted_remove [simp]: "bt_sorted m \<Longrightarrow> bt_sorted (bt_remove k m)"
  by (induction k m rule: bt_remove.induct) (auto simp: bt_sorted_Cons dest: in_bt_remove)

lemma bt_get_above: "(\<forall>k' v'. (k', v') \<in> set m \<longrightarrow> k < k') \<Longrightarrow> bt_get (m :: ('k::linorder, 'v) bt_map) k = None"
  by (induction m k rule: bt_get.induct) auto

lemma bt_get_remove [bt_simps]:
  "bt_sorted m \<Longrightarrow> bt_get (bt_remove k m) k' = (if k' = k then None else bt_get m k')"
  by (induction k m rule: bt_remove.induct) (auto simp: bt_sorted_Cons intro: bt_get_above)

lemma bt_in_get: "bt_sorted m \<Longrightarrow> (k, v) \<in> set m \<Longrightarrow> bt_get m k = Some v"
  by (induction m k rule: bt_get.induct) (auto simp: bt_sorted_Cons)

lemma bt_insert_same: "bt_get m k = Some x \<Longrightarrow> bt_sorted m \<Longrightarrow> bt_insert k x m = m"
proof (induction k x m rule: bt_insert.induct)
  case (2 k v k' v' m)
  then show ?case
    using bt_get_Some_in [of m k v] by (cases "k = k'") (fastforce simp: bt_sorted_Cons)+
qed simp

lemma bt_in_iff_get: "bt_sorted m \<Longrightarrow> (k, v) \<in> set m \<longleftrightarrow> bt_get m k = Some v"
  by (blast intro: bt_in_get bt_get_Some_in)

lemma bt_values_iff:
  assumes "bt_sorted m"
  shows "v \<in> set (bt_values m) \<longleftrightarrow> (\<exists>k. bt_get m k = Some v)"
proof -
  have "v \<in> set (bt_values m) \<longleftrightarrow> (\<exists>k. (k, v) \<in> set m)"
    by (force simp: bt_values_def)
  with assms show ?thesis by (simp add: bt_in_iff_get)
qed

lemma bt_contains_key_iff [simp]: "bt_contains_key m k \<longleftrightarrow> (\<exists>v. bt_get m k = Some v)"
  by (simp add: bt_contains_key_def)

lemma bt_sorted_extend: "bt_sorted m \<Longrightarrow> bt_sorted (bt_extend m kvs)"
  by (induction m kvs rule: bt_extend.induct) simp_all

lemma bt_get_extend:
  "bt_get (bt_extend m kvs) k =
     (case map_of (rev kvs) k of Some v \<Rightarrow> Some v | None \<Rightarrow> bt_get m k)"
  by (induction m kvs rule: bt_extend.induct)
     (auto simp: map_add_def split: option.splits)

section \<open>The ordered-map interface\<close>

text \<open>
  What the components rely on when they keep a \<open>BTreeMap\<close>: lookups see the last insertion,
  removal forgets a key, every operation keeps the keys in order, and the values are exactly what
  the lookups return. The lemmas of the locale are the facts the clients use.
\<close>

locale ordered_map =
  fixes empty :: "'m"
    and get :: "'m \<Rightarrow> 'k::linorder \<Rightarrow> 'v option"
    and ins :: "'k \<Rightarrow> 'v \<Rightarrow> 'm \<Rightarrow> 'm"
    and del :: "'k \<Rightarrow> 'm \<Rightarrow> 'm"
    and vals :: "'m \<Rightarrow> 'v list"
    and ok :: "'m \<Rightarrow> bool"
  assumes get_empty: "get empty k = None"
    and get_ins: "ok m \<Longrightarrow> get (ins k v m) k' = (if k' = k then Some v else get m k')"
    and get_del: "ok m \<Longrightarrow> get (del k m) k' = (if k' = k then None else get m k')"
    and vals_iff: "ok m \<Longrightarrow> v \<in> set (vals m) \<longleftrightarrow> (\<exists>k. get m k = Some v)"
    and ok_empty: "ok empty"
    and ok_ins: "ok m \<Longrightarrow> ok (ins k v m)"
    and ok_del: "ok m \<Longrightarrow> ok (del k m)"
begin

text \<open>A property of all values survives an insertion that satisfies it, and every removal.\<close>

lemma all_vals_ins:
  assumes "ok m" and "\<And>w. w \<in> set (vals m) \<Longrightarrow> P w" and "P v"
    and "w \<in> set (vals (ins k v m))"
  shows "P w"
proof -
  from assms(1,4) obtain k' where "get (ins k v m) k' = Some w"
    by (auto simp: vals_iff ok_ins)
  with assms(1) have "w = v \<or> get m k' = Some w"
    by (auto simp: get_ins split: if_splits)
  with assms(1-3) show ?thesis by (auto simp: vals_iff)
qed

lemma all_vals_del:
  assumes "ok m" and "\<And>w. w \<in> set (vals m) \<Longrightarrow> P w" and "w \<in> set (vals (del k m))"
  shows "P w"
proof -
  from assms(1,3) obtain k' where "get (del k m) k' = Some w"
    by (auto simp: vals_iff ok_del)
  with assms(1) have "get m k' = Some w"
    by (auto simp: get_del split: if_splits)
  with assms(1,2) show ?thesis by (auto simp: vals_iff)
qed

lemma ins_in_vals: "ok m \<Longrightarrow> v \<in> set (vals (ins k v m))"
  by (auto simp: vals_iff ok_ins get_ins)

end

interpretation bt: ordered_map bt_empty bt_get bt_insert bt_remove bt_values bt_sorted
  by unfold_locales (simp_all add: bt_get_remove bt_values_iff)

section \<open>Lemmas on searching\<close>

lemma find_Some_iff_set: "List.find p xs = Some x \<Longrightarrow> x \<in> set xs \<and> p x"
  by (induction xs) (auto split: if_splits)

lemma find_None_set: "List.find p xs = None \<longleftrightarrow> (\<forall>x \<in> set xs. \<not> p x)"
  by (induction xs) auto

lemma length_update_first [simp]: "length (update_first p f xs) = length xs"
  by (induction xs) auto

lemma map_update_first:
  "(\<And>x. g (f x) = g x) \<Longrightarrow> map g (update_first p f xs) = map g xs"
  by (induction xs) auto

lemma set_update_first:
  "y \<in> set (update_first p f xs) \<Longrightarrow>
   y \<in> set xs \<or> (\<exists>x. List.find p xs = Some x \<and> y = f x)"
  by (induction xs) (auto split: if_splits)

lemma find_update_first:
  "List.find p xs = Some x \<Longrightarrow> p (f x) \<Longrightarrow> List.find p (update_first p f xs) = Some (f x)"
  by (induction xs) (auto split: if_splits)

end
