(* ===== verification/Text.thy ===== *)
theory Text
  imports Prelude
begin

text \<open>
  The string operations of the Rust standard library that the sources use, on byte strings:
  trimming (Unicode white space in its UTF-8 encoding), prefixes and suffixes, \<open>split_once\<close>,
  \<open>lines\<close>, UTF-8 validity, lossy decoding and character boundaries, and the byte-bounded truncation
  \<open>truncate_utf8\<close> of \<open>supervisor.rs\<close>.
\<close>

section \<open>Bytes\<close>

abbreviation LF :: char where "LF \<equiv> CHR 0x0A"
abbreviation CR :: char where "CR \<equiv> CHR 0x0D"

definition byte :: "char \<Rightarrow> nat" where
  "byte c = of_char c"

definition is_continuation :: "char \<Rightarrow> bool" where
  "is_continuation c = (0x80 \<le> byte c \<and> byte c < 0xC0)"

definition is_ascii_alphanumeric :: "char \<Rightarrow> bool" where
  "is_ascii_alphanumeric c =
     ((0x30 \<le> byte c \<and> byte c \<le> 0x39) \<or> (0x41 \<le> byte c \<and> byte c \<le> 0x5A) \<or>
      (0x61 \<le> byte c \<and> byte c \<le> 0x7A))"

section \<open>Trimming\<close>

definition is_ascii_ws :: "char \<Rightarrow> bool" where
  "is_ascii_ws c = ((0x09 \<le> byte c \<and> byte c \<le> 0x0D) \<or> byte c = 0x20)"

text \<open>The two-byte and three-byte encodings of the other \<open>White_Space\<close> characters.\<close>

definition is_ws2 :: "char \<Rightarrow> char \<Rightarrow> bool" where
  "is_ws2 a b = (byte a = 0xC2 \<and> (byte b = 0x85 \<or> byte b = 0xA0))"

definition is_ws3 :: "char \<Rightarrow> char \<Rightarrow> char \<Rightarrow> bool" where
  "is_ws3 a b c =
     ((byte a = 0xE1 \<and> byte b = 0x9A \<and> byte c = 0x80) \<or>
      (byte a = 0xE2 \<and> byte b = 0x80 \<and>
         ((0x80 \<le> byte c \<and> byte c \<le> 0x8A) \<or> byte c = 0xA8 \<or> byte c = 0xA9 \<or> byte c = 0xAF)) \<or>
      (byte a = 0xE2 \<and> byte b = 0x81 \<and> byte c = 0x9F) \<or>
      (byte a = 0xE3 \<and> byte b = 0x80 \<and> byte c = 0x80))"

text \<open>How many bytes of white space a string starts with: one character's worth, or none.\<close>

fun ws_head :: "string \<Rightarrow> nat" where
  "ws_head (a # b # c # s) =
     (if is_ascii_ws a then 1 else if is_ws2 a b then 2 else if is_ws3 a b c then 3 else 0)"
| "ws_head (a # b # s) = (if is_ascii_ws a then 1 else if is_ws2 a b then 2 else 0)"
| "ws_head (a # s) = (if is_ascii_ws a then 1 else 0)"
| "ws_head [] = 0"

fun ws_last :: "string \<Rightarrow> nat" where
  "ws_last (c # b # a # s) =
     (if is_ascii_ws c then 1 else if is_ws2 b c then 2 else if is_ws3 a b c then 3 else 0)"
| "ws_last (c # b # s) = (if is_ascii_ws c then 1 else if is_ws2 b c then 2 else 0)"
| "ws_last (c # s) = (if is_ascii_ws c then 1 else 0)"
| "ws_last [] = 0"

function trim_start :: "string \<Rightarrow> string" where
  "trim_start s = (if s = [] \<or> ws_head s = 0 then s else trim_start (drop (ws_head s) s))"
  by pat_completeness auto
termination
  by (relation "measure length") auto

function trim_rev :: "string \<Rightarrow> string" where
  "trim_rev s = (if s = [] \<or> ws_last s = 0 then s else trim_rev (drop (ws_last s) s))"
  by pat_completeness auto
termination
  by (relation "measure length") auto

declare trim_start.simps [simp del] trim_rev.simps [simp del]

definition trim_end :: "string \<Rightarrow> string" where
  "trim_end s = rev (trim_rev (rev s))"

definition trim :: "string \<Rightarrow> string" where
  "trim s = trim_end (trim_start s)"

section \<open>Prefixes, suffixes, splitting\<close>

fun strip_prefix :: "string \<Rightarrow> string \<Rightarrow> string option" where
  "strip_prefix [] s = Some s"
| "strip_prefix (c # p) [] = None"
| "strip_prefix (c # p) (d # s) = (if c = d then strip_prefix p s else None)"

definition starts_with :: "string \<Rightarrow> string \<Rightarrow> bool" where
  "starts_with p s = (strip_prefix p s \<noteq> None)"

definition strip_suffix :: "string \<Rightarrow> string \<Rightarrow> string option" where
  "strip_suffix p s = map_option rev (strip_prefix (rev p) (rev s))"

definition ends_with :: "string \<Rightarrow> string \<Rightarrow> bool" where
  "ends_with p s = (strip_suffix p s \<noteq> None)"

definition trim_end_matches :: "(char \<Rightarrow> bool) \<Rightarrow> string \<Rightarrow> string" where
  "trim_end_matches p s = rev (dropWhile p (rev s))"

text \<open>\<open>split_once\<close> at a character: the parts before and after its first occurrence.\<close>

fun split_once :: "char \<Rightarrow> string \<Rightarrow> (string \<times> string) option" where
  "split_once d [] = None"
| "split_once d (c # s) =
     (if c = d then Some ([], s)
      else map_option (\<lambda>(a, b). (c # a, b)) (split_once d s))"

text \<open>\<open>split_inclusive('\n')\<close>: the pieces end with the newline, the last one may lack it.\<close>

fun split_inclusive_lf :: "string \<Rightarrow> string list" where
  "split_inclusive_lf [] = []"
| "split_inclusive_lf (c # s) =
     (if c = LF then [c] # split_inclusive_lf s
      else case split_inclusive_lf s of [] \<Rightarrow> [[c]] | l # ls \<Rightarrow> (c # l) # ls)"

text \<open>One line of \<open>lines()\<close>: without its newline and, if it had one, without a carriage return.\<close>

definition strip_line :: "string \<Rightarrow> string" where
  "strip_line l =
     (case strip_suffix [LF] l of
        None \<Rightarrow> l
      | Some l' \<Rightarrow> (case strip_suffix [CR] l' of None \<Rightarrow> l' | Some l'' \<Rightarrow> l''))"

definition lines :: "string \<Rightarrow> string list" where
  "lines s = map strip_line (split_inclusive_lf s)"

fun join_lf :: "string list \<Rightarrow> string" where
  "join_lf [] = []"
| "join_lf [l] = l"
| "join_lf (l # ls) = l @ [LF] @ join_lf ls"

section \<open>UTF-8\<close>

text \<open>\<open>std::str::from_utf8\<close> accepts exactly these byte strings.\<close>

fun valid_utf8 :: "string \<Rightarrow> bool" where
  "valid_utf8 [] = True"
| "valid_utf8 (a # s) =
     (if byte a < 0x80 then valid_utf8 s
      else if 0xC2 \<le> byte a \<and> byte a \<le> 0xDF then
        (case s of b # s' \<Rightarrow> is_continuation b \<and> valid_utf8 s' | _ \<Rightarrow> False)
      else if 0xE0 \<le> byte a \<and> byte a \<le> 0xEF then
        (case s of b # c # s' \<Rightarrow>
           is_continuation b \<and> is_continuation c \<and>
           (byte a = 0xE0 \<longrightarrow> 0xA0 \<le> byte b) \<and> (byte a = 0xED \<longrightarrow> byte b \<le> 0x9F) \<and> valid_utf8 s'
         | _ \<Rightarrow> False)
      else if 0xF0 \<le> byte a \<and> byte a \<le> 0xF4 then
        (case s of b # c # d # s' \<Rightarrow>
           is_continuation b \<and> is_continuation c \<and> is_continuation d \<and>
           (byte a = 0xF0 \<longrightarrow> 0x90 \<le> byte b) \<and> (byte a = 0xF4 \<longrightarrow> byte b \<le> 0x8F) \<and> valid_utf8 s'
         | _ \<Rightarrow> False)
      else False)"

definition replacement :: string where
  "replacement = [CHR 0xEF, CHR 0xBF, CHR 0xBD]"

text \<open>The second byte that a leading byte admits, and how many continuation bytes follow.\<close>

definition second_ok :: "char \<Rightarrow> char \<Rightarrow> bool" where
  "second_ok a b \<longleftrightarrow> is_continuation b \<and>
     (byte a = 0xE0 \<longrightarrow> 0xA0 \<le> byte b) \<and> (byte a = 0xED \<longrightarrow> byte b \<le> 0x9F) \<and>
     (byte a = 0xF0 \<longrightarrow> 0x90 \<le> byte b) \<and> (byte a = 0xF4 \<longrightarrow> byte b \<le> 0x8F)"

text \<open>
  \<open>String::from_utf8_lossy\<close>: the longest start of a character that cannot be completed becomes one
  replacement character.
\<close>

fun from_utf8_lossy :: "string \<Rightarrow> string" where
  "from_utf8_lossy [] = []"
| "from_utf8_lossy (a # s) =
     (if byte a < 0x80 then a # from_utf8_lossy s
      else if 0xC2 \<le> byte a \<and> byte a \<le> 0xDF then
        (case s of
           b # s' \<Rightarrow> if is_continuation b then a # b # from_utf8_lossy s' else replacement @ from_utf8_lossy s
         | [] \<Rightarrow> replacement)
      else if 0xE0 \<le> byte a \<and> byte a \<le> 0xEF then
        (case s of
           b # c # s' \<Rightarrow>
             if \<not> second_ok a b then replacement @ from_utf8_lossy s
             else if is_continuation c then a # b # c # from_utf8_lossy s'
             else replacement @ from_utf8_lossy (c # s')
         | [b] \<Rightarrow> if second_ok a b then replacement else replacement @ from_utf8_lossy [b]
         | [] \<Rightarrow> replacement)
      else if 0xF0 \<le> byte a \<and> byte a \<le> 0xF4 then
        (case s of
           b # c # d # s' \<Rightarrow>
             if \<not> second_ok a b then replacement @ from_utf8_lossy s
             else if \<not> is_continuation c then replacement @ from_utf8_lossy (c # d # s')
             else if is_continuation d then a # b # c # d # from_utf8_lossy s'
             else replacement @ from_utf8_lossy (d # s')
         | [b, c] \<Rightarrow>
             if \<not> second_ok a b then replacement @ from_utf8_lossy [b, c]
             else if is_continuation c then replacement
             else replacement @ from_utf8_lossy [c]
         | [b] \<Rightarrow> if second_ok a b then replacement else replacement @ from_utf8_lossy [b]
         | [] \<Rightarrow> replacement)
      else replacement @ from_utf8_lossy s)"

definition is_char_boundary :: "string \<Rightarrow> nat \<Rightarrow> bool" where
  "is_char_boundary s i =
     (i = 0 \<or> i = length s \<or> (i < length s \<and> \<not> is_continuation (s ! i)))"

text \<open>The \<open>while !value.is_char_boundary(end)\<close> loop; position 0 is always a boundary.\<close>

fun boundary_below :: "string \<Rightarrow> nat \<Rightarrow> nat" where
  "boundary_below s 0 = 0"
| "boundary_below s (Suc i) = (if is_char_boundary s (Suc i) then Suc i else boundary_below s i)"

definition truncate_utf8 :: "string \<Rightarrow> nat \<Rightarrow> string \<times> bool" where
  "truncate_utf8 value max_bytes =
     (if length value \<le> max_bytes then (value, False)
      else (take (boundary_below value max_bytes) value, True))"

section \<open>Lemmas on prefixes and splitting\<close>

lemma strip_prefix_Some_iff: "strip_prefix p s = Some r \<longleftrightarrow> s = p @ r"
  by (induction p s rule: strip_prefix.induct) auto

lemma starts_with_iff: "starts_with p s \<longleftrightarrow> (\<exists>r. s = p @ r)"
  by (auto simp: starts_with_def strip_prefix_Some_iff)

lemma strip_suffix_Some_iff: "strip_suffix p s = Some r \<longleftrightarrow> s = r @ p"
proof
  assume "strip_suffix p s = Some r"
  then have "rev s = rev p @ rev r"
    by (auto simp: strip_suffix_def strip_prefix_Some_iff)
  then show "s = r @ p" by (simp add: rev_append [symmetric] del: rev_append)
next
  assume "s = r @ p"
  then have "strip_prefix (rev p) (rev s) = Some (rev r)"
    by (simp add: strip_prefix_Some_iff)
  then show "strip_suffix p s = Some r" by (simp add: strip_suffix_def)
qed

lemma ends_with_iff: "ends_with p s \<longleftrightarrow> (\<exists>r. s = r @ p)"
  by (auto simp: ends_with_def strip_suffix_Some_iff)

lemma split_once_append: "d \<notin> set a \<Longrightarrow> split_once d (a @ d # b) = Some (a, b)"
  by (induction a) auto

lemma split_once_Some: "split_once d s = Some (a, b) \<Longrightarrow> s = a @ d # b \<and> d \<notin> set a"
  by (induction s arbitrary: a) (auto split: if_splits)

lemma concat_split_inclusive_lf: "concat (split_inclusive_lf s) = s"
  by (induction s) (auto split: list.splits)

lemma strip_line_last: "LF \<notin> set l \<Longrightarrow> strip_line l = l"
proof -
  assume "LF \<notin> set l"
  then have "strip_suffix [LF] l = None" by (cases "strip_suffix [LF] l") (auto simp: strip_suffix_Some_iff)
  then show ?thesis by (simp add: strip_line_def)
qed

section \<open>Lemmas on UTF-8 truncation\<close>

lemma boundary_below_le: "boundary_below s n \<le> n"
  by (induction n) (auto intro: le_SucI)

lemma boundary_below_boundary: "is_char_boundary s (boundary_below s n)"
  by (induction n) (auto simp: is_char_boundary_def)

lemma boundary_below_greatest:
  "i \<le> n \<Longrightarrow> is_char_boundary s i \<Longrightarrow> i \<le> boundary_below s n"
  by (induction n) (auto simp: le_Suc_eq)

lemma is_char_boundary_drop:
  "is_char_boundary (a # s) (Suc i) \<Longrightarrow> is_char_boundary s i \<or> (i = 0 \<and> s \<noteq> [])"
  by (auto simp: is_char_boundary_def)

lemma valid_utf8_take:
  "valid_utf8 s \<Longrightarrow> is_char_boundary s n \<Longrightarrow> n \<le> length s \<Longrightarrow> valid_utf8 (take n s)"
proof (induction s arbitrary: n rule: valid_utf8.induct)
  case (2 a s)
  show ?case
  proof (cases n)
    case (Suc m)
    consider (one) "byte a < 0x80"
      | (two) "0xC2 \<le> byte a" "byte a \<le> 0xDF"
      | (three) "0xE0 \<le> byte a" "byte a \<le> 0xEF"
      | (four) "0xF0 \<le> byte a" "byte a \<le> 0xF4"
      using "2.prems"(1) by (auto split: if_splits)
    then show ?thesis
    proof cases
      case one
      with 2 Suc show ?thesis by (auto simp: is_char_boundary_def)
    next
      case two
      with "2.prems" obtain b s' where s: "s = b # s'" "is_continuation b" "valid_utf8 s'"
        by (auto split: list.splits)
      with "2.prems" Suc obtain k where "m = Suc k" "is_char_boundary s' k" "k \<le> length s'"
        by (cases m) (auto simp: is_char_boundary_def)
      with two s Suc "2.IH"(2) show ?thesis by simp
    next
      case three
      with "2.prems" obtain b c s' where s: "s = b # c # s'"
        "is_continuation b" "is_continuation c" "valid_utf8 s'"
        "byte a = 0xE0 \<longrightarrow> 0xA0 \<le> byte b" "byte a = 0xED \<longrightarrow> byte b \<le> 0x9F"
        by (auto split: list.splits)
      with "2.prems" Suc obtain k where "m = Suc (Suc k)" "is_char_boundary s' k" "k \<le> length s'"
        by (cases m; cases "m - 1") (auto simp: is_char_boundary_def)
      with three s Suc "2.IH"(3) show ?thesis by simp
    next
      case four
      with "2.prems" obtain b c d s' where s: "s = b # c # d # s'"
        "is_continuation b" "is_continuation c" "is_continuation d" "valid_utf8 s'"
        "byte a = 0xF0 \<longrightarrow> 0x90 \<le> byte b" "byte a = 0xF4 \<longrightarrow> byte b \<le> 0x8F"
        by (auto split: list.splits)
      with "2.prems" Suc obtain k
        where "m = Suc (Suc (Suc k))" "is_char_boundary s' k" "k \<le> length s'"
        by (cases m; cases "m - 1"; cases "m - 2") (auto simp: is_char_boundary_def)
      with four s Suc "2.IH"(4) show ?thesis by simp
    qed
  qed simp
qed simp

section \<open>Lossy decoding\<close>

lemma lossy_valid: "valid_utf8 s \<Longrightarrow> from_utf8_lossy s = s"
proof (induction s rule: valid_utf8.induct)
  case (2 a s)
  consider (one) "byte a < 0x80"
    | (two) "0xC2 \<le> byte a" "byte a \<le> 0xDF"
    | (three) "0xE0 \<le> byte a" "byte a \<le> 0xEF"
    | (four) "0xF0 \<le> byte a" "byte a \<le> 0xF4"
    using "2.prems" by (auto split: if_splits)
  then show ?case
  proof cases
    case one
    with 2 show ?thesis by simp
  next
    case two
    with "2.prems" obtain b s' where "s = b # s'" by (auto split: list.splits)
    with two 2 show ?thesis by simp
  next
    case three
    with "2.prems" obtain b c s' where "s = b # c # s'" by (auto split: list.splits)
    with three 2 show ?thesis by (auto simp: second_ok_def)
  next
    case four
    with "2.prems" obtain b c d s' where "s = b # c # d # s'" by (auto split: list.splits)
    with four 2 show ?thesis by (auto simp: second_ok_def)
  qed
qed simp

lemma lossy_length: "length (from_utf8_lossy s) \<le> 3 * length s"
proof (induction "length s" arbitrary: s rule: less_induct)
  case less
  show ?case
  proof (cases s)
    case (Cons a t)
    define bound where "bound u \<longleftrightarrow> length (from_utf8_lossy u) \<le> 3 * length u" for u
    have "bound u" if "length u \<le> length t" for u
      unfolding bound_def using Cons that by (intro less) simp
    then have rest: "bound t" "bound (tl t)" "bound (tl (tl t))" "bound (tl (tl (tl t)))" by simp_all
    have three: "length replacement = 3" by (simp add: replacement_def)
    note step = from_utf8_lossy.simps(2) [of a t]
    show ?thesis
    proof (cases t)
      case Nil
      with step Cons three show ?thesis by (simp del: from_utf8_lossy.simps(2) add: from_utf8_lossy.simps(1))
    next
      case (Cons b t2)
      note t = Cons
      show ?thesis
      proof (cases t2)
        case Nil
        with step t \<open>s = a # t\<close> three rest show ?thesis
          by (simp del: from_utf8_lossy.simps(2) add: bound_def)
      next
        case (Cons c t3)
        with step t \<open>s = a # t\<close> three rest show ?thesis
          by (cases t3) (simp_all del: from_utf8_lossy.simps(2) add: bound_def)
      qed
    qed
  qed simp
qed

end
