(* ===== verification/Json.thy ===== *)
theory Json
  imports Text
begin

text \<open>
  \<open>serde_json::Value\<close> and the accessors the sources call on it. Objects are ordered maps (the
  build does not enable \<open>preserve_order\<close>, so \<open>serde_json::Map\<close> is a \<open>BTreeMap\<close>). A number is
  what \<open>serde_json::Number\<close> holds: a non-negative integer, a negative one, or the bits of a
  float. The printed text of a value is not modelled; where the code uses it, the printer is an
  argument.
\<close>

datatype json_number = N_Pos nat | N_Neg int | N_Float nat

datatype json =
    JNull
  | JBool bool
  | JNum json_number
  | JStr string
  | JArr "json list"
  | JObj "(string, json) bt_map"

section \<open>Building values\<close>

text \<open>\<open>json!({...})\<close> inserts the entries one by one.\<close>

definition jobj :: "(string \<times> json) list \<Rightarrow> json" where
  "jobj kvs = JObj (bt_extend bt_empty kvs)"

abbreviation jnat :: "nat \<Rightarrow> json" where
  "jnat n \<equiv> JNum (N_Pos n)"

definition jopt :: "('a \<Rightarrow> json) \<Rightarrow> 'a option \<Rightarrow> json" where
  "jopt f v = (case v of None \<Rightarrow> JNull | Some x \<Rightarrow> f x)"

section \<open>Accessors\<close>

definition jget :: "json \<Rightarrow> string \<Rightarrow> json option" where
  "jget v k = (case v of JObj m \<Rightarrow> bt_get m k | _ \<Rightarrow> None)"

definition as_str :: "json \<Rightarrow> string option" where
  "as_str v = (case v of JStr s \<Rightarrow> Some s | _ \<Rightarrow> None)"

definition as_array :: "json \<Rightarrow> json list option" where
  "as_array v = (case v of JArr xs \<Rightarrow> Some xs | _ \<Rightarrow> None)"

definition as_object :: "json \<Rightarrow> (string, json) bt_map option" where
  "as_object v = (case v of JObj m \<Rightarrow> Some m | _ \<Rightarrow> None)"

definition as_bool :: "json \<Rightarrow> bool option" where
  "as_bool v = (case v of JBool b \<Rightarrow> Some b | _ \<Rightarrow> None)"

definition as_u64 :: "json \<Rightarrow> nat option" where
  "as_u64 v = (case v of JNum (N_Pos n) \<Rightarrow> Some n | _ \<Rightarrow> None)"

definition is_null :: "json \<Rightarrow> bool" where
  "is_null v = (v = JNull)"

definition is_object :: "json \<Rightarrow> bool" where
  "is_object v = (as_object v \<noteq> None)"

text \<open>\<open>v.get(k).and_then(Value::as_str)\<close> and its kin.\<close>

definition get_str :: "json \<Rightarrow> string \<Rightarrow> string option" where
  "get_str v k = Option.bind (jget v k) as_str"

definition get_array :: "json \<Rightarrow> string \<Rightarrow> json list option" where
  "get_array v k = Option.bind (jget v k) as_array"

definition unwrap_or :: "'a \<Rightarrow> 'a option \<Rightarrow> 'a" where
  "unwrap_or d v = (case v of None \<Rightarrow> d | Some x \<Rightarrow> x)"

definition or_else :: "'a option \<Rightarrow> 'a option \<Rightarrow> 'a option" where
  "or_else a b = (case a of None \<Rightarrow> b | Some x \<Rightarrow> Some x)"

section \<open>JSON pointers\<close>

fun split_on :: "char \<Rightarrow> string \<Rightarrow> string list" where
  "split_on d [] = [[]]"
| "split_on d (c # s) =
     (if c = d then [] # split_on d s
      else case split_on d s of l # ls \<Rightarrow> (c # l) # ls | [] \<Rightarrow> [[c]])"

text \<open>A token with \<open>~1\<close> replaced by \<open>/\<close> and then \<open>~0\<close> by \<open>~\<close>, each left to right.\<close>

fun replace2 :: "char \<Rightarrow> char \<Rightarrow> char \<Rightarrow> string \<Rightarrow> string" where
  "replace2 a b r (x # y # s) =
     (if x = a \<and> y = b then r # replace2 a b r s else x # replace2 a b r (y # s))"
| "replace2 a b r s = s"

definition pointer_token :: "string \<Rightarrow> string" where
  "pointer_token t =
     replace2 (CHR ''~'') (CHR ''0'') (CHR ''~'') (replace2 (CHR ''~'') (CHR ''1'') (CHR ''/'') t)"

definition is_digit :: "char \<Rightarrow> bool" where
  "is_digit c = (0x30 \<le> byte c \<and> byte c \<le> 0x39)"

fun digits_value :: "nat \<Rightarrow> string \<Rightarrow> nat" where
  "digits_value acc [] = acc"
| "digits_value acc (c # s) = digits_value (10 * acc + (byte c - 0x30)) s"

text \<open>\<open>str::parse::<u64>\<close>: digits with an optional plus sign, within the width.\<close>

definition parse_u64 :: "string \<Rightarrow> nat option" where
  "parse_u64 s =
     (let d = (case s of c # s' \<Rightarrow> if c = CHR ''+'' then s' else s | [] \<Rightarrow> s)
      in if d \<noteq> [] \<and> list_all is_digit d \<and> digits_value 0 d \<le> u64_max
         then Some (digits_value 0 d) else None)"

text \<open>The decimal digits of a number, as \<open>to_string\<close> and \<open>format!\<close> print it.\<close>

fun decimal :: "nat \<Rightarrow> string" where
  "decimal n =
     (if n < 10 then [char_of (0x30 + n)] else decimal (n div 10) @ [char_of (0x30 + n mod 10)])"

declare decimal.simps [simp del]

definition pointer_index :: "string \<Rightarrow> nat option" where
  "pointer_index s =
     (if starts_with ''+'' s \<or> (starts_with ''0'' s \<and> length s \<noteq> 1) then None
      else parse_u64 s)"

fun pointer_walk :: "json \<Rightarrow> string list \<Rightarrow> json option" where
  "pointer_walk v [] = Some v"
| "pointer_walk v (t # ts) =
     (case v of
        JObj m \<Rightarrow> Option.bind (bt_get m t) (\<lambda>w. pointer_walk w ts)
      | JArr xs \<Rightarrow>
          (case pointer_index t of
             Some i \<Rightarrow> if i < length xs then pointer_walk (xs ! i) ts else None
           | None \<Rightarrow> None)
      | _ \<Rightarrow> None)"

definition pointer :: "json \<Rightarrow> string \<Rightarrow> json option" where
  "pointer v p =
     (if p = [] then Some v
      else if \<not> starts_with ''/'' p then None
      else pointer_walk v (map pointer_token (tl (split_on (CHR ''/'') p))))"

section \<open>Lemmas\<close>

lemma byte_digit: "d < 10 \<Longrightarrow> byte (char_of (0x30 + d :: nat)) = 0x30 + d"
  by (simp add: byte_def)

lemma digits_value_append:
  "digits_value acc (s @ t) = digits_value (digits_value acc s) t"
  by (induction s arbitrary: acc) simp_all

lemma decimal_digits: "decimal n \<noteq> [] \<and> list_all is_digit (decimal n)"
proof (induction n rule: decimal.induct)
  case (1 n)
  have "n mod 10 < 10" by simp
  then have "is_digit (char_of (0x30 + n mod 10))" by (simp add: is_digit_def byte_digit)
  moreover have "is_digit (char_of (0x30 + n))" if "n < 10"
    using that by (simp add: is_digit_def byte_digit)
  ultimately show ?case
    using 1 by (simp add: decimal.simps [of n])
qed

lemma digits_value_decimal: "digits_value 0 (decimal n) = n"
proof (induction n rule: decimal.induct)
  case (1 n)
  have "byte (char_of (0x30 + n mod 10)) = 0x30 + n mod 10" by (rule byte_digit) simp
  moreover have "byte (char_of (0x30 + n)) = 0x30 + n" if "n < 10"
    using that by (rule byte_digit)
  ultimately show ?case
    using 1 by (simp add: decimal.simps [of n] digits_value_append)
qed

text \<open>Parsing what was printed gives the number back.\<close>

lemma parse_u64_decimal: "n \<le> u64_max \<Longrightarrow> parse_u64 (decimal n) = Some n"
proof -
  assume n: "n \<le> u64_max"
  obtain c s where d: "decimal n = c # s" using decimal_digits [of n] by (cases "decimal n") auto
  have "is_digit c" using decimal_digits [of n] d by simp
  then have "c \<noteq> CHR ''+''" by (auto simp: is_digit_def byte_def)
  then show ?thesis
    using d decimal_digits [of n] digits_value_decimal [of n] n by (simp add: parse_u64_def)
qed

lemma decimal_inject: "decimal m = decimal n \<Longrightarrow> m = n"
  by (metis digits_value_decimal)

lemma jget_JObj [simp]: "jget (JObj m) k = bt_get m k"
  by (simp add: jget_def)

lemma as_simps [simp]:
  "as_str (JStr s) = Some s" "as_array (JArr xs) = Some xs" "as_object (JObj m) = Some m"
  "as_bool (JBool b) = Some b" "as_u64 (jnat n) = Some n"
  by (simp_all add: as_str_def as_array_def as_object_def as_bool_def as_u64_def)

lemma as_str_Some_iff: "as_str v = Some s \<longleftrightarrow> v = JStr s"
  by (cases v) (auto simp: as_str_def)

lemma as_array_Some_iff: "as_array v = Some xs \<longleftrightarrow> v = JArr xs"
  by (cases v) (auto simp: as_array_def)

lemma as_object_Some_iff: "as_object v = Some m \<longleftrightarrow> v = JObj m"
  by (cases v) (auto simp: as_object_def)

lemma as_object_None_iff: "as_object v = None \<longleftrightarrow> \<not> is_object v"
  by (simp add: is_object_def)

lemma is_object_iff [simp]: "is_object v \<longleftrightarrow> (\<exists>m. v = JObj m)"
  by (cases v) (auto simp: is_object_def as_object_def)

lemma unwrap_or_simps [simp]: "unwrap_or d None = d" "unwrap_or d (Some x) = x"
  by (simp_all add: unwrap_or_def)

lemma or_else_simps [simp]:
  "or_else None b = b" "or_else (Some x) b = Some x" "or_else a None = a"
  by (simp_all add: or_else_def split: option.splits)

lemma or_else_assoc: "or_else (or_else a b) c = or_else a (or_else b c)"
  by (cases a) simp_all

lemma jget_jobj: "jget (jobj kvs) k = map_of (rev kvs) k"
  by (simp add: jobj_def bt_get_extend split: option.splits)

end
