(* ===== verification/Context.thy ===== *)
theory Context
  imports Json
begin

text \<open>
  \<open>piqo-core/src/context.rs\<close> and \<open>piqo-core/src/orchestration.rs\<close>: the records of context
  compaction and of delegated agents, and the token estimate that decides when a transcript is
  compacted. Field names carry a prefix per record, since record fields share one name space.
\<close>

type_synonym event_id = nat

datatype compaction_strategy = Deterministic | Llm

record context_fact =
  cf_fact_id :: string
  cf_value :: string

record tool_correlation =
  tc_call_id :: string
  tc_tool_name :: string
  tc_run_id :: string

record context_artifact =
  ca_artifact_id :: string
  ca_supersedes_artifact_id :: "string option"
  ca_strategy :: compaction_strategy
  ca_strategy_version :: nat
  ca_source_start_event_id :: event_id
  ca_source_end_event_id :: event_id
  ca_context_window_tokens :: nat
  ca_output_reserve_tokens :: nat
  ca_estimated_input_tokens :: nat
  ca_target_input_tokens :: nat
  ca_estimator_version :: string
  ca_summary :: string
  ca_tool_correlations :: "tool_correlation list"

record context_projection =
  cp_durable_facts :: "context_fact list"
  cp_active_artifact :: "context_artifact option"
  cp_last_failure :: "string option"
  cp_last_bypass_reason :: "string option"

definition context_projection_default :: context_projection where
  "context_projection_default =
     \<lparr>cp_durable_facts = [], cp_active_artifact = None, cp_last_failure = None,
      cp_last_bypass_reason = None\<rparr>"

definition CONTEXT_ESTIMATOR_VERSION :: string where
  "CONTEXT_ESTIMATOR_VERSION = ''utf8_bytes_v1''"

record agent_budget =
  ab_max_model_turns :: nat
  ab_max_duration_seconds :: nat
  ab_max_tree_duration_seconds :: nat
  ab_max_tree_tokens :: nat
  ab_max_context_bytes :: nat
  ab_max_result_bytes :: nat

record agent_link =
  al_instance_id :: string
  al_profile_id :: string
  al_parent_session_id :: string
  al_parent_run_id :: string
  al_parent_call_id :: string
  al_child_session_id :: string
  al_child_run_id :: string
  al_depth :: nat
  al_budget :: agent_budget
  al_permission_ceiling :: json

datatype agent_terminal_status = T_Completed | T_Failed | T_Cancelled | T_Interrupted

record agent_result =
  ar_instance_id :: string
  ar_profile_id :: string
  ar_child_session_id :: string
  ar_child_run_id :: string
  ar_status :: agent_terminal_status
  ar_output :: "json option"
  ar_output_truncated :: bool
  ar_usage :: "json option"
  ar_error :: "string option"

record delegated_context_ref =
  dr_source_session_id :: string
  dr_message_id :: string
  dr_last_event_id :: nat

text \<open>
  \<open>estimate_tokens\<close>: \<open>usize\<close> is 64 bits wide, so the conversions to \<open>u64\<close> cannot fail; every
  step saturates.
\<close>

definition estimate_tokens :: "nat \<Rightarrow> nat \<Rightarrow> nat \<Rightarrow> nat" where
  "estimate_tokens serialized_bytes transcript_items tool_definitions =
     u64_saturating_add
       (u64_saturating_add (min serialized_bytes u64_max) 2 div 3)
       (u64_saturating_mul (u64_saturating_add transcript_items tool_definitions) 8)"

section \<open>Lemmas\<close>

lemma estimate_tokens_bound: "estimate_tokens b i t \<le> u64_max"
  by (simp add: estimate_tokens_def u64_saturating_add_def)

lemma estimate_tokens_exact:
  assumes "b + 2 \<le> u64_max" and "(b + 2) div 3 + (i + t) * 8 \<le> u64_max"
  shows "estimate_tokens b i t = (b + 2) div 3 + (i + t) * 8"
  using assms
  by (simp add: estimate_tokens_def u64_saturating_add_def u64_saturating_mul_def)

lemma estimate_tokens_mono:
  assumes "b \<le> b'" and "i \<le> i'" and "t \<le> t'"
  shows "estimate_tokens b i t \<le> estimate_tokens b' i' t'"
proof -
  have "min (min b u64_max + 2) u64_max div 3 \<le> min (min b' u64_max + 2) u64_max div 3"
    using assms(1) by (intro div_le_mono) auto
  moreover have "min (min (i + t) u64_max * 8) u64_max \<le> min (min (i' + t') u64_max * 8) u64_max"
    using assms(2,3) by (intro min.mono mult_le_mono1 add_mono order_refl)
  ultimately show ?thesis
    unfolding estimate_tokens_def u64_saturating_add_def u64_saturating_mul_def
    by (meson add_mono min.mono order_refl)
qed

end
