(* ===== verification/Permissions.thy ===== *)
theory Permissions
  imports Json
begin

text \<open>
  \<open>piqo-core/src/permissions.rs\<close>: the pure permission evaluator. A policy is an ordered list of
  exact-match rules and a default decision; the first rule that matches decides.
\<close>

datatype permission_decision = Allow | Ask | Deny

datatype permission_scope = Sc_Once | Sc_Session | Sc_Project | Sc_Configuration

datatype permission_decision_source =
    Src_Default
  | Src_Configuration
  | Src_InteractiveConfiguration
  | Src_ProjectRule
  | Src_SessionRule
  | Src_RequestApproval

record permission_evaluation =
  pe_decision :: permission_decision
  pe_source :: permission_decision_source
  pe_matching_rule :: "string option"

record tool_request =
  tr_agent_id :: string
  tr_tool_name :: string
  tr_arguments :: json

record permission_rule =
  pr_agent_id :: "string option"
  pr_tool_name :: string
  pr_decision :: permission_decision

definition permission_rule_new ::
  "string option \<Rightarrow> string \<Rightarrow> permission_decision \<Rightarrow> permission_rule" where
  "permission_rule_new agent_id tool_name decision =
     \<lparr>pr_agent_id = agent_id, pr_tool_name = tool_name, pr_decision = decision\<rparr>"

definition rule_matches :: "permission_rule \<Rightarrow> tool_request \<Rightarrow> bool" where
  "rule_matches rule request =
     (pr_tool_name rule = tr_tool_name request \<and>
      (case pr_agent_id rule of None \<Rightarrow> True | Some a \<Rightarrow> a = tr_agent_id request))"

record permission_policy =
  pp_rules :: "permission_rule list"
  pp_default_decision :: permission_decision

definition policy_new :: "permission_decision \<Rightarrow> permission_policy" where
  "policy_new default_decision = \<lparr>pp_rules = [], pp_default_decision = default_decision\<rparr>"

definition add_rule :: "permission_policy \<Rightarrow> permission_rule \<Rightarrow> permission_policy" where
  "add_rule policy rule = policy\<lparr>pp_rules := pp_rules policy @ [rule]\<rparr>"

definition evaluate_explained :: "permission_policy \<Rightarrow> tool_request \<Rightarrow> permission_evaluation" where
  "evaluate_explained policy request =
     (case List.find (\<lambda>rule. rule_matches rule request) (pp_rules policy) of
        None \<Rightarrow> \<lparr>pe_decision = pp_default_decision policy, pe_source = Src_Default,
                 pe_matching_rule = None\<rparr>
      | Some rule \<Rightarrow>
          \<lparr>pe_decision = pr_decision rule, pe_source = Src_Configuration,
           pe_matching_rule =
             Some ((case pr_agent_id rule of None \<Rightarrow> ''*'' | Some a \<Rightarrow> a) @ '':'' @ pr_tool_name rule)\<rparr>)"

definition evaluate :: "permission_policy \<Rightarrow> tool_request \<Rightarrow> permission_decision" where
  "evaluate policy request = pe_decision (evaluate_explained policy request)"

section \<open>The authorisation contract\<close>

text \<open>
  What a caller may assume of an ordered rule set, whatever its representation: without a match
  the default stands, a match already present keeps deciding when rules are added behind it, and
  a rule added behind a silent policy decides for the requests it matches.
\<close>

locale rule_policy =
  fixes eval :: "'p \<Rightarrow> 'q \<Rightarrow> 'd"
    and silent :: "'p \<Rightarrow> 'q \<Rightarrow> bool"
    and add :: "'p \<Rightarrow> 'r \<Rightarrow> 'p"
    and matches :: "'r \<Rightarrow> 'q \<Rightarrow> bool"
    and decides :: "'r \<Rightarrow> 'd"
    and default :: "'p \<Rightarrow> 'd"
  assumes eval_silent: "silent p q \<Longrightarrow> eval p q = default p"
    and eval_add_keep: "\<not> silent p q \<Longrightarrow> eval (add p r) q = eval p q"
    and eval_add_new: "silent p q \<Longrightarrow> matches r q \<Longrightarrow> eval (add p r) q = decides r"
    and silent_add: "silent (add p r) q \<longleftrightarrow> silent p q \<and> \<not> matches r q"
    and default_add: "default (add p r) = default p"
begin

lemma eval_foldl_keep: "\<not> silent p q \<Longrightarrow> eval (foldl add p rs) q = eval p q"
  by (induction rs arbitrary: p) (auto simp: silent_add eval_add_keep)

text \<open>The first of a sequence of added rules that matches decides.\<close>

lemma eval_foldl_first:
  assumes "silent p q" and "\<forall>r \<in> set before. \<not> matches r q" and "matches r q"
  shows "eval (foldl add p (before @ r # after)) q = decides r"
proof -
  have "silent (foldl add p before) q"
    using assms(1,2) by (induction before arbitrary: p) (auto simp: silent_add)
  with assms(3) show ?thesis
    by (simp add: eval_foldl_keep silent_add eval_add_new)
qed

lemma eval_foldl_none:
  assumes "silent p q" and "\<forall>r \<in> set rs. \<not> matches r q"
  shows "eval (foldl add p rs) q = default p"
proof -
  have "silent (foldl add p rs) q \<and> default (foldl add p rs) = default p"
    using assms by (induction rs arbitrary: p) (auto simp: silent_add default_add)
  then show ?thesis by (simp add: eval_silent)
qed

end

definition policy_silent :: "permission_policy \<Rightarrow> tool_request \<Rightarrow> bool" where
  "policy_silent policy request =
     (List.find (\<lambda>rule. rule_matches rule request) (pp_rules policy) = None)"

lemma find_append:
  "List.find p (xs @ ys) = (case List.find p xs of None \<Rightarrow> List.find p ys | Some x \<Rightarrow> Some x)"
  by (induction xs) auto

interpretation policy: rule_policy evaluate policy_silent add_rule rule_matches pr_decision
  pp_default_decision
  by unfold_locales
    (auto simp: evaluate_def evaluate_explained_def policy_silent_def add_rule_def find_append
      split: option.splits if_splits)

end
