(* ===== verification/Events.thy ===== *)
theory Events
  imports Context Permissions
begin

text \<open>
  \<open>piqo-core/src/event_log.rs\<close>: the semantic events and the in-memory append-only log, with the
  enumerations of \<open>session.rs\<close> that the events carry. Constructors of enumerations that share
  variant names in Rust carry a prefix (\<open>S_\<close> session phase, \<open>A_\<close> agent phase).
\<close>

datatype agent_phase = A_Created | A_Running | A_WaitingForPermission | A_Finished | A_Failed

datatype session_phase = S_Created | S_Running | S_Interrupted | S_Finished | S_Failed

datatype message_role = Role_System | Role_User | Role_Assistant | Role_Tool

datatype message_author = Au_System | Au_User | Au_Agent string | Au_Tool string

datatype content_block = Text string | Json json

datatype (plugins only: code size) semantic_event =
    SessionCreated "string option"
  | SessionPhaseChanged session_phase session_phase "string option"
  | SessionInterrupted string
  | SessionForked string event_id
  | MessageStarted string string message_role message_author
  | MessageContentAppended string content_block
  | MessageCompleted string
  | MessageInterrupted string
  | RunQueued string "string option" string string json
  | RunStarted string string nat
  | RunAttemptStarted string string nat
  | RunAttemptFailed string string string bool
  | RunCompleted string "json option"
  | RunFailed string string
  | RunCancelled string "string option"
  | RunInterrupted string string
  | RunRequiresAction string "string list"
  | QueuePaused
  | QueueResumed
  | ToolCallEmitted string string string string string json string bool
  | ToolExecutionStarted string string string
  | ToolResult string string string string json
  | AgentPhaseChanged string agent_phase
  | PermissionRequested string string "string option" string string json
  | PermissionResolved string permission_decision "permission_decision_source option"
      "permission_scope option" "string option" "string option"
  | AgentSpawned string "string option" "agent_link option" "nat option"
  | AgentFinished string "agent_result option"
  | AgentContextCaptured string "delegated_context_ref list"
  | AgentResultDelivered string string string agent_result
  | ContextFactRecorded context_fact
  | ContextCompactionStarted string string compaction_strategy event_id event_id
  | ContextCompacted string context_artifact
  | ContextCompactionFailed string string string
  | ContextCompactionBypassed string string

text \<open>\<open>default_message_author\<close>: what \<open>serde\<close> fills in for an event written without an author.\<close>

definition default_message_author :: message_author where
  "default_message_author = Au_System"

record recorded_event =
  re_id :: event_id
  re_session_id :: string
  re_schema_version :: nat
  re_occurred_at :: string
  re_event :: semantic_event
  re_raw_data :: "json option"

type_synonym event_log = "recorded_event list"

datatype event_log_error = UnknownEvent event_id

definition log_new :: event_log where
  "log_new = []"

definition last_id :: "event_log \<Rightarrow> event_id option" where
  "last_id log = (case rev log of [] \<Rightarrow> None | e # _ \<Rightarrow> Some (re_id e))"

definition next_log_id :: "event_log \<Rightarrow> event_id" where
  "next_log_id log = (case last_id log of None \<Rightarrow> 1 | Some n \<Rightarrow> u64_add n 1)"

definition log_append :: "event_log \<Rightarrow> semantic_event \<Rightarrow> event_id \<times> event_log" where
  "log_append log event =
     (let id = next_log_id log
      in (id, log @ [\<lparr>re_id = id, re_session_id = [], re_schema_version = 1,
                      re_occurred_at = [], re_event = event, re_raw_data = None\<rparr>]))"

definition append_for_session ::
  "event_log \<Rightarrow> string \<Rightarrow> string \<Rightarrow> semantic_event \<Rightarrow> event_id \<times> event_log" where
  "append_for_session log session_id occurred_at event =
     (let id = next_log_id log
      in (id, log @ [\<lparr>re_id = id, re_session_id = session_id, re_schema_version = 1,
                      re_occurred_at = occurred_at, re_event = event, re_raw_data = None\<rparr>]))"

definition replay_from :: "event_log \<Rightarrow> event_id \<Rightarrow> recorded_event list" where
  "replay_from log after = filter (\<lambda>e. after < re_id e) log"

definition fork_at :: "event_log \<Rightarrow> event_id \<Rightarrow> (event_log_error, event_log) result" where
  "fork_at log event_id =
     (if \<not> list_ex (\<lambda>e. re_id e = event_id) log then Inl (UnknownEvent event_id)
      else Inr (filter (\<lambda>e. re_id e \<le> event_id) log))"

section \<open>Well-formed logs\<close>

text \<open>Consecutive ids from a given start; a log's ids are \<open>1, 2, 3, \<dots>\<close>.\<close>

fun consecutive :: "nat \<Rightarrow> event_log \<Rightarrow> bool" where
  "consecutive n [] = True"
| "consecutive n (e # es) = (re_id e = n \<and> consecutive (Suc n) es)"

abbreviation log_ok :: "event_log \<Rightarrow> bool" where
  "log_ok \<equiv> consecutive 1"

lemma consecutive_append:
  "consecutive n (es @ fs) \<longleftrightarrow> consecutive n es \<and> consecutive (n + length es) fs"
  by (induction es arbitrary: n) auto

lemma consecutive_take: "consecutive n es \<Longrightarrow> consecutive n (take k es)"
  by (metis append_take_drop_id consecutive_append)

lemma consecutive_nth: "consecutive n es \<Longrightarrow> i < length es \<Longrightarrow> re_id (es ! i) = n + i"
  by (induction es arbitrary: n i) (auto simp: nth_Cons split: nat.splits)

lemma consecutive_last: "consecutive n es \<Longrightarrow> es \<noteq> [] \<Longrightarrow> re_id (last es) = n + (length es - 1)"
  by (simp add: last_conv_nth consecutive_nth)

lemma filter_ids_le:
  "consecutive a log \<Longrightarrow> filter (\<lambda>e. re_id e \<le> n) log = take (Suc n - a) log"
proof (induction log arbitrary: a)
  case (Cons e log)
  from Cons.prems Cons.IH [of "Suc a"]
  have "filter (\<lambda>e. re_id e \<le> n) log = take (n - a) log" by simp
  with Cons.prems show ?case by (cases "a \<le> n") (auto simp: Suc_diff_le)
qed simp

lemma filter_ids_gt:
  "consecutive a log \<Longrightarrow> filter (\<lambda>e. n < re_id e) log = drop (Suc n - a) log"
proof (induction log arbitrary: a)
  case (Cons e log)
  from Cons.prems Cons.IH [of "Suc a"]
  have "filter (\<lambda>e. n < re_id e) log = drop (n - a) log" by simp
  with Cons.prems show ?case by (cases "a \<le> n") (auto simp: Suc_diff_le)
qed simp

lemma consecutive_has_id:
  "consecutive a log \<Longrightarrow> list_ex (\<lambda>e. re_id e = n) log \<longleftrightarrow> a \<le> n \<and> n < a + length log"
  by (induction log arbitrary: a) auto

lemma last_id_ok:
  "log_ok log \<Longrightarrow> last_id log = (if log = [] then None else Some (length log))"
  by (cases log rule: rev_cases) (simp_all add: last_id_def consecutive_append)

lemma next_log_id_ok:
  "log_ok log \<Longrightarrow> length log < u64_max \<Longrightarrow> next_log_id log = Suc (length log)"
  by (simp add: next_log_id_def last_id_ok u64_add_no_wrap)

lemma log_append_ok:
  "log_ok log \<Longrightarrow> length log < u64_max \<Longrightarrow> log_ok (snd (log_append log event))"
  by (simp add: log_append_def Let_def consecutive_append next_log_id_ok)

lemma append_for_session_ok:
  "log_ok log \<Longrightarrow> length log < u64_max \<Longrightarrow> log_ok (snd (append_for_session log sid t event))"
  by (simp add: append_for_session_def Let_def consecutive_append next_log_id_ok)

lemma replay_from_ok: "log_ok log \<Longrightarrow> replay_from log after = drop after log"
  by (simp add: replay_from_def filter_ids_gt)

lemma fork_at_ok:
  "log_ok log \<Longrightarrow> fork_at log n =
    (if 1 \<le> n \<and> n \<le> length log then Inr (take n log) else Inl (UnknownEvent n))"
  by (auto simp: fork_at_def consecutive_has_id filter_ids_le)

end
