(* ===== verification/Core_Guarantees.thy ===== *)
theory Core_Guarantees
  imports Events
begin

text \<open>
  The guarantees of the smaller parts of the core crate: the in-memory event log, the permission
  evaluator, the context estimator, and the byte-bounded truncation the supervisor applies to
  tool output.
\<close>

text \<open>The event log numbers its events 1, 2, 3 and so on; appending gives the next number and
  keeps the numbering; replaying after an id returns exactly the later events, in order; forking
  at an id returns the log up to and including it, and an id the log does not have is an error.\<close>

theorem event_log_contract:
  assumes "log_ok log" and "length log < u64_max"
  shows "log_append log e = (Suc (length log), snd (log_append log e)) \<and>
         log_ok (snd (log_append log e)) \<and>
         take (length log) (snd (log_append log e)) = log \<and>
         replay_from log n = drop n log \<and>
         fork_at log n =
           (if 1 \<le> n \<and> n \<le> length log then Inr (take n log) else Inl (UnknownEvent n))"
  using assms log_append_ok [OF assms] replay_from_ok [OF assms(1)] fork_at_ok [OF assms(1)]
  by (simp add: log_append_def Let_def next_log_id_ok)

definition example_log :: event_log where
  "example_log = snd (log_append (snd (log_append log_new QueuePaused)) QueueResumed)"

theorem event_log_contract_witness:
  "log_ok example_log \<and> fork_at example_log 1 = Inr (take 1 example_log) \<and>
   fork_at example_log 3 = Inl (UnknownEvent 3)"
proof -
  have ok: "log_ok example_log" "length example_log < u64_max" and len: "length example_log = 2"
    by (simp_all add: example_log_def log_append_def log_new_def next_log_id_def last_id_def
        u64_add_def u64_max_def)
  from event_log_contract [OF ok, of QueuePaused 1] event_log_contract [OF ok, of QueuePaused 3]
    ok len show ?thesis by simp
qed

text \<open>The first matching rule decides. For a policy built by adding rules in order to an empty
  policy, a request gets the decision of the first rule that matches it, and the default when
  none does; rules behind the first match never change the decision.\<close>

theorem first_rule_decides:
  assumes "\<forall>rule \<in> set earlier. \<not> rule_matches rule request"
  shows "evaluate (foldl add_rule (policy_new d) earlier) request = d \<and>
         (\<forall>rule later. rule_matches rule request \<longrightarrow>
            evaluate (foldl add_rule (policy_new d) (earlier @ rule # later)) request =
            pr_decision rule)"
proof -
  have s: "policy_silent (policy_new d) request" by (simp add: policy_silent_def policy_new_def)
  from policy.eval_foldl_none [OF s assms] policy.eval_foldl_first [OF s assms] show ?thesis
    by (simp add: policy_new_def)
qed

theorem first_rule_decides_witness:
  "evaluate (foldl add_rule (policy_new Ask)
     [permission_rule_new (Some ''plan'') ''bash'' Deny, permission_rule_new None ''bash'' Allow])
     \<lparr>tr_agent_id = ''build'', tr_tool_name = ''bash'', tr_arguments = JNull\<rparr> = Allow"
proof -
  let ?q = "\<lparr>tr_agent_id = ''build'', tr_tool_name = ''bash'', tr_arguments = JNull\<rparr>"
  have "\<forall>rule \<in> set [permission_rule_new (Some ''plan'') ''bash'' Deny]. \<not> rule_matches rule ?q"
    by (simp add: rule_matches_def permission_rule_new_def)
  note first_rule_decides [OF this, of Ask, THEN conjunct2, rule_format,
      of "permission_rule_new None ''bash'' Allow" "[]"]
  then show ?thesis by (simp add: rule_matches_def permission_rule_new_def)
qed

text \<open>Truncating tool output. \<open>truncate_utf8\<close> never exceeds the byte limit, returns a prefix of
  the value that is valid UTF-8 whenever the value is, reports truncation exactly when the value
  is longer than the limit, and cuts at the last character boundary within the limit, so nothing
  that still fits is lost.\<close>

theorem truncate_utf8_correct:
  assumes "truncate_utf8 s n = (t, was_cut)" and "valid_utf8 s"
  shows "length t \<le> n \<and> (\<exists>rest. s = t @ rest) \<and> valid_utf8 t \<and> (was_cut \<longleftrightarrow> n < length s) \<and>
         (\<forall>i. i \<le> n \<and> i \<le> length s \<and> is_char_boundary s i \<longrightarrow> i \<le> length t)"
proof (cases "length s \<le> n")
  case True
  with assms show ?thesis by (auto simp: truncate_utf8_def)
next
  case False
  let ?k = "boundary_below s n"
  have k: "?k \<le> n" "?k \<le> length s" using boundary_below_le [of s n] False by simp_all
  with False assms(1) have t: "t = take ?k s" "length t = ?k" "was_cut"
    by (auto simp: truncate_utf8_def)
  have "valid_utf8 t"
    using valid_utf8_take [OF assms(2) boundary_below_boundary k(2)] t by simp
  moreover have "\<exists>rest. s = t @ rest" using t(1) by (metis append_take_drop_id)
  ultimately show ?thesis
    using t k False boundary_below_greatest [of _ n s] by auto
qed

theorem truncate_utf8_correct_witness:
  "length (fst (truncate_utf8 [CHR ''a'', CHR 0xC3, CHR 0xA9] 2)) \<le> 2 \<and>
   valid_utf8 (fst (truncate_utf8 [CHR ''a'', CHR 0xC3, CHR 0xA9] 2))"
  using truncate_utf8_correct [of "[CHR ''a'', CHR 0xC3, CHR 0xA9]" 2 "''a''" True]
  by (simp add: truncate_utf8_def numeral_2_eq_2 is_char_boundary_def is_continuation_def byte_def)

text \<open>The context estimate is a \<open>u64\<close> that never wraps, never shrinks when a request gains
  bytes, transcript items or tool definitions, and equals a third of the bytes rounded up plus
  eight tokens per item and definition whenever that sum fits.\<close>

theorem estimate_tokens_contract:
  "estimate_tokens b i t \<le> u64_max \<and>
   estimate_tokens b i t \<le> estimate_tokens (b + b') (i + i') (t + t') \<and>
   (b + 2 \<le> u64_max \<and> (b + 2) div 3 + (i + t) * 8 \<le> u64_max \<longrightarrow>
      estimate_tokens b i t = (b + 2) div 3 + (i + t) * 8)"
  using estimate_tokens_bound estimate_tokens_mono [of b "b + b'" i "i + i'" t "t + t'"]
    estimate_tokens_exact [of b i t]
  by simp

theorem estimate_tokens_contract_witness:
  "estimate_tokens 100 3 2 = 74 \<and> estimate_tokens 100 3 2 \<le> estimate_tokens 200 3 2"
  using estimate_tokens_contract [of 100 3 2 100 0 0] by (simp add: u64_max_def)

end
