(* ===== verification/Session.thy ===== *)
theory Session
  imports Events
begin

text \<open>
  \<open>piqo-core/src/session.rs\<close>: the session state machine and the projection of an event log onto
  messages, runs, tool calls, permissions, agents and context. Each arm of
  \<open>SessionProjection::apply\<close> is one definition here; \<open>apply\<close> dispatches on the event.

  In Rust \<open>apply\<close> mutates in place and may leave a partly updated projection behind when it
  fails. Every caller (\<open>project\<close>, \<open>append_events\<close>, \<open>fork_session\<close>) then drops the projection,
  so the model returns the error alone.
\<close>

section \<open>State\<close>

record session_state =
  ss_session_id :: string
  ss_phase :: session_phase
  ss_revision :: nat
  ss_last_event_id :: "nat option"

datatype run_status =
    R_Queued | R_Running | R_RequiresAction | R_Completed | R_Failed | R_Cancelled | R_Interrupted

record message_projection =
  mp_message_id :: string
  mp_role :: message_role
  mp_agent_id :: "string option"
  mp_author :: message_author
  mp_blocks :: "content_block list"
  mp_completed :: bool
  mp_interrupted :: bool
  mp_first_event_id :: nat
  mp_last_event_id :: nat

record tool_call_projection =
  tp_call_id :: string
  tp_assistant_message_id :: string
  tp_agent_id :: string
  tp_tool_name :: string
  tp_arguments :: json
  tp_raw_arguments :: string
  tp_native :: bool
  tp_execution_id :: "string option"
  tp_result :: "json option"

record run_projection =
  rp_run_id :: string
  rp_retry_of :: "string option"
  rp_provider :: string
  rp_model :: string
  rp_request :: json
  rp_status :: run_status
  rp_attempt_id :: "string option"
  rp_attempts :: nat
  rp_error :: "string option"
  rp_usage :: "json option"
  rp_queue_priority :: int
  rp_tool_calls :: "(string, tool_call_projection) bt_map"

record permission_projection =
  pj_request_id :: string
  pj_run_id :: string
  pj_call_id :: "string option"
  pj_agent_id :: string
  pj_tool_name :: string
  pj_arguments :: json
  pj_decision :: "permission_decision option"

record agent_projection =
  ap_agent_id :: string
  ap_parent_id :: "string option"
  ap_link :: "agent_link option"
  ap_config_revision :: "nat option"
  ap_context :: "delegated_context_ref list"
  ap_result :: "agent_result option"

record session_projection =
  sp_state :: session_state
  sp_messages :: "message_projection list"
  sp_agents :: "(string, agent_phase) bt_map"
  sp_agent_instances :: "(string, agent_projection) bt_map"
  sp_pending_permissions :: "(string, permission_projection) bt_map"
  sp_runs :: "(string, run_projection) bt_map"
  sp_queue_paused :: bool
  sp_context :: context_projection

section \<open>Errors\<close>

record session_transition_error =
  te_from :: session_phase
  te_to :: session_phase

datatype projection_error =
    DuplicateCreation
  | InvalidTransition session_transition_error
  | DuplicateMessage string
  | UnknownMessage string
  | DuplicateToolCall string
  | UnknownToolCall string
  | DuplicatePermissionRequest string
  | UnknownPermissionRequest string
  | ConflictingPermissionResolution string
  | ConflictingToolResult string
  | ExternalToolExecution string
  | ConflictingToolExecution string
  | MessageAlreadyClosed string
  | DuplicateAgent string
  | UnknownAgent string
  | ConflictingAgentResult string
  | ConflictingAgentContext string
  | DuplicateRun string
  | UnknownRun string
  | InvalidRunTransition string run_status run_status

section \<open>The session state machine\<close>

definition state_new :: "string \<Rightarrow> session_state" where
  "state_new session_id =
     \<lparr>ss_session_id = session_id, ss_phase = S_Created, ss_revision = 0, ss_last_event_id = None\<rparr>"

definition transition ::
  "session_phase \<Rightarrow> session_phase list \<Rightarrow> session_state
   \<Rightarrow> (session_transition_error, session_state) result" where
  "transition next allowed_from st =
     (if ss_phase st \<notin> set allowed_from then Inl \<lparr>te_from = ss_phase st, te_to = next\<rparr>
      else Inr (st\<lparr>ss_phase := next, ss_revision := u64_add (ss_revision st) 1\<rparr>))"

definition state_start :: "session_state \<Rightarrow> (session_transition_error, session_state) result" where
  "state_start = transition S_Running [S_Created, S_Finished, S_Interrupted, S_Failed]"

definition state_finish :: "session_state \<Rightarrow> (session_transition_error, session_state) result" where
  "state_finish = transition S_Finished [S_Running]"

definition state_interrupt :: "session_state \<Rightarrow> (session_transition_error, session_state) result" where
  "state_interrupt = transition S_Interrupted [S_Running]"

definition state_resume :: "session_state \<Rightarrow> (session_transition_error, session_state) result" where
  "state_resume = state_start"

definition state_fail :: "session_state \<Rightarrow> (session_transition_error, session_state) result" where
  "state_fail = transition S_Failed [S_Created, S_Running, S_Interrupted]"

fun allowed_sources :: "session_phase \<Rightarrow> session_phase list" where
  "allowed_sources S_Created = []"
| "allowed_sources S_Running = [S_Created, S_Finished, S_Interrupted, S_Failed]"
| "allowed_sources S_Interrupted = [S_Running]"
| "allowed_sources S_Finished = [S_Running]"
| "allowed_sources S_Failed = [S_Created, S_Running, S_Interrupted]"

definition state_apply ::
  "session_state \<Rightarrow> nat \<Rightarrow> semantic_event \<Rightarrow> (projection_error, session_state) result" where
  "state_apply st event_id event =
     and_then
       (case event of
          SessionCreated _ \<Rightarrow>
            if ss_revision st \<noteq> 0 \<or> ss_last_event_id st \<noteq> None then Inl DuplicateCreation
            else Inr st
        | SessionPhaseChanged from to _ \<Rightarrow>
            if ss_phase st \<noteq> from
            then Inl (InvalidTransition \<lparr>te_from = ss_phase st, te_to = to\<rparr>)
            else map_err InvalidTransition (transition to (allowed_sources to) st)
        | SessionInterrupted _ \<Rightarrow> map_err InvalidTransition (state_interrupt st)
        | SessionForked _ _ \<Rightarrow>
            Inr (st\<lparr>ss_phase := S_Interrupted, ss_revision := u64_add (ss_revision st) 1\<rparr>)
        | _ \<Rightarrow> Inr st)
       (\<lambda>st'. Inr (st'\<lparr>ss_last_event_id := Some event_id\<rparr>))"

section \<open>The projection\<close>

definition projection_new :: "string \<Rightarrow> session_projection" where
  "projection_new session_id =
     \<lparr>sp_state = state_new session_id, sp_messages = [], sp_agents = bt_empty,
      sp_agent_instances = bt_empty, sp_pending_permissions = bt_empty, sp_runs = bt_empty,
      sp_queue_paused = False, sp_context = context_projection_default\<rparr>"

definition projected_author :: "message_author \<Rightarrow> message_role \<Rightarrow> string \<Rightarrow> message_author" where
  "projected_author author role agent_id =
     (case (author, role, agent_id = []) of
        (Au_System, Role_User, _) \<Rightarrow> Au_User
      | (Au_System, Role_Assistant, False) \<Rightarrow> Au_Agent agent_id
      | (Au_System, Role_Tool, False) \<Rightarrow> Au_Tool agent_id
      | _ \<Rightarrow> author)"

definition message_started ::
  "nat \<Rightarrow> string \<Rightarrow> string \<Rightarrow> message_role \<Rightarrow> message_author \<Rightarrow> session_projection
   \<Rightarrow> (projection_error, session_projection) result" where
  "message_started event_id message_id agent_id role author p =
     (if list_ex (\<lambda>m. mp_message_id m = message_id) (sp_messages p)
      then Inl (DuplicateMessage message_id)
      else Inr (p\<lparr>sp_messages := sp_messages p @
        [\<lparr>mp_message_id = message_id, mp_role = role,
          mp_agent_id = (if agent_id = [] then None else Some agent_id),
          mp_author = projected_author author role agent_id, mp_blocks = [],
          mp_completed = False, mp_interrupted = False,
          mp_first_event_id = event_id, mp_last_event_id = event_id\<rparr>]\<rparr>))"

text \<open>
  The three arms that find an open message and change it: unknown and closed messages are
  errors; the change also records the event as the message's last one.
\<close>

definition update_open_message ::
  "nat \<Rightarrow> string \<Rightarrow> (message_projection \<Rightarrow> message_projection) \<Rightarrow> session_projection
   \<Rightarrow> (projection_error, session_projection) result" where
  "update_open_message event_id message_id change p =
     (case List.find (\<lambda>m. mp_message_id m = message_id) (sp_messages p) of
        None \<Rightarrow> Inl (UnknownMessage message_id)
      | Some m \<Rightarrow>
          if mp_completed m \<or> mp_interrupted m then Inl (MessageAlreadyClosed message_id)
          else Inr (p\<lparr>sp_messages :=
                 update_first (\<lambda>m. mp_message_id m = message_id)
                   (\<lambda>m. (change m)\<lparr>mp_last_event_id := event_id\<rparr>) (sp_messages p)\<rparr>))"

definition message_content_appended ::
  "nat \<Rightarrow> string \<Rightarrow> content_block \<Rightarrow> session_projection
   \<Rightarrow> (projection_error, session_projection) result" where
  "message_content_appended event_id message_id block =
     update_open_message event_id message_id (\<lambda>m. m\<lparr>mp_blocks := mp_blocks m @ [block]\<rparr>)"

definition message_completed ::
  "nat \<Rightarrow> string \<Rightarrow> session_projection \<Rightarrow> (projection_error, session_projection) result" where
  "message_completed event_id message_id =
     update_open_message event_id message_id (\<lambda>m. m\<lparr>mp_completed := True\<rparr>)"

definition message_interrupted ::
  "nat \<Rightarrow> string \<Rightarrow> session_projection \<Rightarrow> (projection_error, session_projection) result" where
  "message_interrupted event_id message_id =
     update_open_message event_id message_id (\<lambda>m. m\<lparr>mp_interrupted := True\<rparr>)"

definition agent_spawned ::
  "string \<Rightarrow> string option \<Rightarrow> agent_link option \<Rightarrow> nat option \<Rightarrow> session_projection
   \<Rightarrow> (projection_error, session_projection) result" where
  "agent_spawned agent_id parent_id link config_revision p =
     (if bt_contains_key (sp_agents p) agent_id then Inl (DuplicateAgent agent_id)
      else Inr (p\<lparr>sp_agents := bt_insert agent_id A_Created (sp_agents p),
                  sp_agent_instances := bt_insert agent_id
                    \<lparr>ap_agent_id = agent_id, ap_parent_id = parent_id, ap_link = link,
                     ap_config_revision = config_revision, ap_context = [], ap_result = None\<rparr>
                    (sp_agent_instances p)\<rparr>))"

definition agent_finished ::
  "string \<Rightarrow> agent_result option \<Rightarrow> session_projection
   \<Rightarrow> (projection_error, session_projection) result" where
  "agent_finished agent_id result p =
     (let p' = p\<lparr>sp_agents := bt_insert agent_id A_Finished (sp_agents p)\<rparr>
      in case bt_get (sp_agent_instances p') agent_id of
           None \<Rightarrow> Inl (UnknownAgent agent_id)
         | Some instance \<Rightarrow>
             (case (ap_result instance, result) of
                (None, r) \<Rightarrow>
                  Inr (p'\<lparr>sp_agent_instances :=
                    bt_insert agent_id (instance\<lparr>ap_result := r\<rparr>) (sp_agent_instances p')\<rparr>)
              | (Some existing, Some r) \<Rightarrow>
                  if existing = r then Inr p' else Inl (ConflictingAgentResult agent_id)
              | (Some existing, None) \<Rightarrow> Inr p'))"

definition agent_context_captured ::
  "string \<Rightarrow> delegated_context_ref list \<Rightarrow> session_projection
   \<Rightarrow> (projection_error, session_projection) result" where
  "agent_context_captured agent_id references p =
     (case bt_get (sp_agent_instances p) agent_id of
        None \<Rightarrow> Inl (UnknownAgent agent_id)
      | Some instance \<Rightarrow>
          if ap_context instance \<noteq> [] \<and> ap_context instance \<noteq> references
          then Inl (ConflictingAgentContext agent_id)
          else Inr (p\<lparr>sp_agent_instances :=
                 bt_insert agent_id (instance\<lparr>ap_context := references\<rparr>) (sp_agent_instances p)\<rparr>))"

definition agent_result_delivered ::
  "string \<Rightarrow> agent_result \<Rightarrow> session_projection
   \<Rightarrow> (projection_error, session_projection) result" where
  "agent_result_delivered agent_id result p =
     (case bt_get (sp_agent_instances p) agent_id of
        None \<Rightarrow> Inl (UnknownAgent agent_id)
      | Some instance \<Rightarrow>
          (case ap_result instance of
             None \<Rightarrow> Inr (p\<lparr>sp_agent_instances :=
                 bt_insert agent_id (instance\<lparr>ap_result := Some result\<rparr>) (sp_agent_instances p)\<rparr>)
           | Some existing \<Rightarrow>
               if existing = result then Inr p else Inl (ConflictingAgentResult agent_id)))"

definition permission_requested ::
  "string \<Rightarrow> string \<Rightarrow> string option \<Rightarrow> string \<Rightarrow> string \<Rightarrow> json \<Rightarrow> session_projection
   \<Rightarrow> (projection_error, session_projection) result" where
  "permission_requested request_id run_id call_id agent_id tool_name arguments p =
     (if bt_contains_key (sp_pending_permissions p) request_id
      then Inl (DuplicatePermissionRequest request_id)
      else Inr (p\<lparr>sp_pending_permissions := bt_insert request_id
             \<lparr>pj_request_id = request_id, pj_run_id = run_id, pj_call_id = call_id,
              pj_agent_id = agent_id, pj_tool_name = tool_name, pj_arguments = arguments,
              pj_decision = None\<rparr> (sp_pending_permissions p)\<rparr>))"

definition permission_resolved ::
  "string \<Rightarrow> permission_decision \<Rightarrow> session_projection
   \<Rightarrow> (projection_error, session_projection) result" where
  "permission_resolved request_id decision p =
     (case bt_get (sp_pending_permissions p) request_id of
        None \<Rightarrow> Inl (UnknownPermissionRequest request_id)
      | Some pending \<Rightarrow>
          (case pj_decision pending of
             None \<Rightarrow> Inr (p\<lparr>sp_pending_permissions :=
                 bt_insert request_id (pending\<lparr>pj_decision := Some decision\<rparr>)
                   (sp_pending_permissions p)\<rparr>)
           | Some existing \<Rightarrow>
               if existing = decision then Inr p
               else Inl (ConflictingPermissionResolution request_id)))"

definition run_queued ::
  "string \<Rightarrow> string option \<Rightarrow> string \<Rightarrow> string \<Rightarrow> json \<Rightarrow> session_projection
   \<Rightarrow> (projection_error, session_projection) result" where
  "run_queued run_id retry_of provider model request p =
     (if bt_contains_key (sp_runs p) run_id then Inl (DuplicateRun run_id)
      else Inr (p\<lparr>sp_runs := bt_insert run_id
             \<lparr>rp_run_id = run_id, rp_retry_of = retry_of, rp_provider = provider,
              rp_model = model, rp_request = request, rp_status = R_Queued,
              rp_attempt_id = None, rp_attempts = 0, rp_error = None, rp_usage = None,
              rp_queue_priority = (if retry_of \<noteq> None then -1 else 0),
              rp_tool_calls = bt_empty\<rparr> (sp_runs p)\<rparr>))"

text \<open>\<open>self.runs.get_mut(run_id).ok_or_else(UnknownRun)?\<close> followed by a check and a change.\<close>

definition update_run ::
  "string \<Rightarrow> (run_projection \<Rightarrow> (projection_error, run_projection) result) \<Rightarrow> session_projection
   \<Rightarrow> (projection_error, session_projection) result" where
  "update_run run_id change p =
     (case bt_get (sp_runs p) run_id of
        None \<Rightarrow> Inl (UnknownRun run_id)
      | Some run \<Rightarrow>
          and_then (change run) (\<lambda>run'. Inr (p\<lparr>sp_runs := bt_insert run_id run' (sp_runs p)\<rparr>)))"

definition run_started ::
  "string \<Rightarrow> string \<Rightarrow> nat \<Rightarrow> session_projection
   \<Rightarrow> (projection_error, session_projection) result" where
  "run_started run_id attempt_id attempt p =
     and_then
       (update_run run_id (\<lambda>run.
          if rp_status run \<notin> {R_Queued, R_RequiresAction}
          then Inl (InvalidRunTransition run_id (rp_status run) R_Running)
          else Inr (run\<lparr>rp_status := R_Running, rp_attempt_id := Some attempt_id,
                        rp_attempts := attempt\<rparr>)) p)
       (\<lambda>p'. Inr (p'\<lparr>sp_queue_paused := False\<rparr>))"

definition set_run_terminal ::
  "string \<Rightarrow> run_status \<Rightarrow> string option \<Rightarrow> session_projection
   \<Rightarrow> (projection_error, session_projection) result" where
  "set_run_terminal run_id status error =
     update_run run_id (\<lambda>run.
       if rp_status run \<notin> {R_Queued, R_Running, R_RequiresAction}
       then Inl (InvalidRunTransition run_id (rp_status run) status)
       else Inr (run\<lparr>rp_status := status, rp_error := error\<rparr>))"

definition run_completed ::
  "string \<Rightarrow> json option \<Rightarrow> session_projection
   \<Rightarrow> (projection_error, session_projection) result" where
  "run_completed run_id usage p =
     and_then (set_run_terminal run_id R_Completed None p)
       (update_run run_id (\<lambda>run. Inr (run\<lparr>rp_usage := usage\<rparr>)))"

definition run_attempt_started ::
  "string \<Rightarrow> string \<Rightarrow> nat \<Rightarrow> session_projection
   \<Rightarrow> (projection_error, session_projection) result" where
  "run_attempt_started run_id attempt_id attempt =
     update_run run_id (\<lambda>run.
       if rp_status run \<noteq> R_Running
       then Inl (InvalidRunTransition run_id (rp_status run) R_Running)
       else Inr (run\<lparr>rp_attempt_id := Some attempt_id, rp_attempts := attempt\<rparr>))"

definition pause_after :: "(projection_error, session_projection) result
   \<Rightarrow> (projection_error, session_projection) result" where
  "pause_after r = and_then r (\<lambda>p. Inr (p\<lparr>sp_queue_paused := True\<rparr>))"

definition run_requires_action ::
  "string \<Rightarrow> session_projection \<Rightarrow> (projection_error, session_projection) result" where
  "run_requires_action run_id p =
     pause_after (update_run run_id (\<lambda>run.
       if rp_status run \<noteq> R_Running
       then Inl (InvalidRunTransition run_id (rp_status run) R_RequiresAction)
       else Inr (run\<lparr>rp_status := R_RequiresAction\<rparr>)) p)"

definition tool_call_emitted ::
  "string \<Rightarrow> tool_call_projection \<Rightarrow> session_projection
   \<Rightarrow> (projection_error, session_projection) result" where
  "tool_call_emitted run_id call =
     update_run run_id (\<lambda>run.
       if bt_contains_key (rp_tool_calls run) (tp_call_id call)
       then Inl (DuplicateToolCall (tp_call_id call))
       else Inr (run\<lparr>rp_tool_calls := bt_insert (tp_call_id call) call (rp_tool_calls run)\<rparr>))"

text \<open>\<open>run.tool_calls.get_mut(call_id).ok_or_else(UnknownToolCall)?\<close> inside a run.\<close>

definition update_tool_call ::
  "string \<Rightarrow> string \<Rightarrow> (tool_call_projection \<Rightarrow> (projection_error, tool_call_projection) result)
   \<Rightarrow> session_projection \<Rightarrow> (projection_error, session_projection) result" where
  "update_tool_call run_id call_id change =
     update_run run_id (\<lambda>run.
       case bt_get (rp_tool_calls run) call_id of
         None \<Rightarrow> Inl (UnknownToolCall call_id)
       | Some call \<Rightarrow>
           and_then (change call)
             (\<lambda>call'. Inr (run\<lparr>rp_tool_calls := bt_insert call_id call' (rp_tool_calls run)\<rparr>)))"

definition tool_execution_started ::
  "string \<Rightarrow> string \<Rightarrow> string \<Rightarrow> session_projection
   \<Rightarrow> (projection_error, session_projection) result" where
  "tool_execution_started run_id call_id execution_id =
     update_tool_call run_id call_id (\<lambda>call.
       if \<not> tp_native call then Inl (ExternalToolExecution call_id)
       else case tp_execution_id call of
              None \<Rightarrow> Inr (call\<lparr>tp_execution_id := Some execution_id\<rparr>)
            | Some existing \<Rightarrow>
                if existing = execution_id then Inr call
                else Inl (ConflictingToolExecution call_id))"

definition tool_result ::
  "string \<Rightarrow> string \<Rightarrow> json \<Rightarrow> session_projection
   \<Rightarrow> (projection_error, session_projection) result" where
  "tool_result run_id call_id result =
     update_tool_call run_id call_id (\<lambda>call.
       case tp_result call of
         None \<Rightarrow> Inr (call\<lparr>tp_result := Some result\<rparr>)
       | Some existing \<Rightarrow>
           if existing = result then Inr call else Inl (ConflictingToolResult call_id))"

definition run_attempt_failed ::
  "string \<Rightarrow> string \<Rightarrow> session_projection \<Rightarrow> (projection_error, session_projection) result" where
  "run_attempt_failed run_id error =
     update_run run_id (\<lambda>run. Inr (run\<lparr>rp_error := Some error\<rparr>))"

definition context_fact_recorded :: "context_fact \<Rightarrow> session_projection \<Rightarrow> session_projection" where
  "context_fact_recorded fct p =
     (if list_ex (\<lambda>f. cf_fact_id f = cf_fact_id fct) (cp_durable_facts (sp_context p)) then p
      else p\<lparr>sp_context := (sp_context p)\<lparr>cp_durable_facts :=
               cp_durable_facts (sp_context p) @ [fct]\<rparr>\<rparr>)"

definition context_compacted :: "context_artifact \<Rightarrow> session_projection \<Rightarrow> session_projection" where
  "context_compacted artifact p =
     p\<lparr>sp_context := (sp_context p)\<lparr>cp_active_artifact := Some artifact, cp_last_failure := None,
                                    cp_last_bypass_reason := None\<rparr>\<rparr>"

text \<open>The second half of \<open>SessionProjection::apply\<close>, after the state machine has moved.\<close>

definition project_event ::
  "nat \<Rightarrow> semantic_event \<Rightarrow> session_projection
   \<Rightarrow> (projection_error, session_projection) result" where
  "project_event event_id event p =
     (case event of
        MessageStarted message_id agent_id role author \<Rightarrow>
          message_started event_id message_id agent_id role author p
      | MessageContentAppended message_id block \<Rightarrow>
          message_content_appended event_id message_id block p
      | MessageCompleted message_id \<Rightarrow> message_completed event_id message_id p
      | MessageInterrupted message_id \<Rightarrow> message_interrupted event_id message_id p
      | AgentSpawned agent_id parent_id link config_revision \<Rightarrow>
          agent_spawned agent_id parent_id link config_revision p
      | AgentPhaseChanged agent_id phase \<Rightarrow>
          Inr (p\<lparr>sp_agents := bt_insert agent_id phase (sp_agents p)\<rparr>)
      | AgentFinished agent_id result \<Rightarrow> agent_finished agent_id result p
      | AgentContextCaptured agent_id references \<Rightarrow> agent_context_captured agent_id references p
      | AgentResultDelivered agent_id _ _ result \<Rightarrow> agent_result_delivered agent_id result p
      | PermissionRequested request_id run_id call_id agent_id tool_name arguments \<Rightarrow>
          permission_requested request_id run_id call_id agent_id tool_name arguments p
      | PermissionResolved request_id decision _ _ _ _ \<Rightarrow> permission_resolved request_id decision p
      | RunQueued run_id retry_of provider model request \<Rightarrow>
          run_queued run_id retry_of provider model request p
      | RunStarted run_id attempt_id attempt \<Rightarrow> run_started run_id attempt_id attempt p
      | RunCompleted run_id usage \<Rightarrow> run_completed run_id usage p
      | RunAttemptStarted run_id attempt_id attempt \<Rightarrow>
          run_attempt_started run_id attempt_id attempt p
      | RunFailed run_id error \<Rightarrow> pause_after (set_run_terminal run_id R_Failed (Some error) p)
      | RunCancelled run_id _ \<Rightarrow> pause_after (set_run_terminal run_id R_Cancelled None p)
      | RunInterrupted run_id reason \<Rightarrow>
          pause_after (set_run_terminal run_id R_Interrupted (Some reason) p)
      | RunRequiresAction run_id _ \<Rightarrow> run_requires_action run_id p
      | ToolCallEmitted run_id assistant_message_id call_id agent_id tool_name arguments
            raw_arguments native \<Rightarrow>
          tool_call_emitted run_id
            \<lparr>tp_call_id = call_id, tp_assistant_message_id = assistant_message_id,
             tp_agent_id = agent_id, tp_tool_name = tool_name, tp_arguments = arguments,
             tp_raw_arguments = raw_arguments, tp_native = native, tp_execution_id = None,
             tp_result = None\<rparr> p
      | ToolExecutionStarted run_id call_id execution_id \<Rightarrow>
          tool_execution_started run_id call_id execution_id p
      | ToolResult run_id call_id _ _ result \<Rightarrow> tool_result run_id call_id result p
      | RunAttemptFailed run_id _ error _ \<Rightarrow> run_attempt_failed run_id error p
      | QueuePaused \<Rightarrow> Inr (p\<lparr>sp_queue_paused := True\<rparr>)
      | QueueResumed \<Rightarrow> Inr (p\<lparr>sp_queue_paused := False\<rparr>)
      | SessionForked _ _ \<Rightarrow> Inr (p\<lparr>sp_queue_paused := True\<rparr>)
      | ContextFactRecorded fct \<Rightarrow> Inr (context_fact_recorded fct p)
      | ContextCompacted _ artifact \<Rightarrow> Inr (context_compacted artifact p)
      | ContextCompactionFailed _ _ code \<Rightarrow>
          Inr (p\<lparr>sp_context := (sp_context p)\<lparr>cp_last_failure := Some code\<rparr>\<rparr>)
      | ContextCompactionBypassed _ reason \<Rightarrow>
          Inr (p\<lparr>sp_context := (sp_context p)\<lparr>cp_last_bypass_reason := Some reason\<rparr>\<rparr>)
      | _ \<Rightarrow> Inr p)"

definition apply_event ::
  "session_projection \<Rightarrow> nat \<Rightarrow> semantic_event
   \<Rightarrow> (projection_error, session_projection) result" where
  "apply_event p event_id event =
     and_then (state_apply (sp_state p) event_id event)
       (\<lambda>st. project_event event_id event (p\<lparr>sp_state := st\<rparr>))"

section \<open>Queries\<close>

definition active_run :: "session_projection \<Rightarrow> run_projection option" where
  "active_run p = List.find (\<lambda>run. rp_status run = R_Running) (bt_values (sp_runs p))"

text \<open>The comparison of \<open>queued_runs\<close>: priority first, then the run id.\<close>

definition run_le :: "run_projection \<Rightarrow> run_projection \<Rightarrow> bool" where
  "run_le l r =
     (rp_queue_priority l < rp_queue_priority r \<or>
      (rp_queue_priority l = rp_queue_priority r \<and> rp_run_id l \<le> rp_run_id r))"

fun run_insort :: "run_projection \<Rightarrow> run_projection list \<Rightarrow> run_projection list" where
  "run_insort r [] = [r]"
| "run_insort r (x # xs) = (if run_le r x then r # x # xs else x # run_insort r xs)"

fun run_sort :: "run_projection list \<Rightarrow> run_projection list" where
  "run_sort [] = []"
| "run_sort (x # xs) = run_insort x (run_sort xs)"

definition queued_runs :: "session_projection \<Rightarrow> run_projection list" where
  "queued_runs p = run_sort (filter (\<lambda>run. rp_status run = R_Queued) (bt_values (sp_runs p)))"

definition run_ready :: "run_projection \<Rightarrow> bool" where
  "run_ready run =
     (rp_status run = R_RequiresAction \<and> rp_tool_calls run \<noteq> [] \<and>
      list_all (\<lambda>call. tp_result call \<noteq> None) (bt_values (rp_tool_calls run)))"

definition ready_action_run :: "session_projection \<Rightarrow> run_projection option" where
  "ready_action_run p = List.find run_ready (bt_values (sp_runs p))"

text \<open>Applying a list of events in order, with consecutive ids; the loop of \<open>project\<close>.\<close>

fun apply_events ::
  "session_projection \<Rightarrow> nat \<Rightarrow> semantic_event list
   \<Rightarrow> (projection_error, session_projection) result" where
  "apply_events p n [] = Inr p"
| "apply_events p n (e # es) =
     and_then (apply_event p n e) (\<lambda>p'. apply_events p' (Suc n) es)"

end
