(* ===== verification/Evolution.thy ===== *)
theory Evolution
  imports Session
begin

text \<open>
  What an event may do to what is already there. The log is append-only, and so is the
  projection: ids, requests and authors never change, message text only grows, a closed message
  is frozen, a terminal run keeps its status, and every write-once field (a tool result, an
  execution claim, a permission decision, an agent result) keeps the value it got first.
\<close>

section \<open>Evolution of single entries\<close>

definition keeps :: "'a option \<Rightarrow> 'a option \<Rightarrow> bool" where
  "keeps old new = (old = None \<or> new = old)"

definition run_terminal :: "run_status \<Rightarrow> bool" where
  "run_terminal s = (s \<in> {R_Completed, R_Failed, R_Cancelled, R_Interrupted})"

definition message_closed :: "message_projection \<Rightarrow> bool" where
  "message_closed m = (mp_completed m \<or> mp_interrupted m)"

definition message_evolves :: "message_projection \<Rightarrow> message_projection \<Rightarrow> bool" where
  "message_evolves m m' =
     (mp_message_id m' = mp_message_id m \<and> mp_role m' = mp_role m \<and>
      mp_agent_id m' = mp_agent_id m \<and> mp_author m' = mp_author m \<and>
      mp_first_event_id m' = mp_first_event_id m \<and>
      take (length (mp_blocks m)) (mp_blocks m') = mp_blocks m \<and>
      (message_closed m \<longrightarrow> m' = m))"

definition call_evolves :: "tool_call_projection \<Rightarrow> tool_call_projection \<Rightarrow> bool" where
  "call_evolves c c' =
     (c' = c\<lparr>tp_execution_id := tp_execution_id c', tp_result := tp_result c'\<rparr> \<and>
      keeps (tp_execution_id c) (tp_execution_id c') \<and> keeps (tp_result c) (tp_result c'))"

definition permission_evolves :: "permission_projection \<Rightarrow> permission_projection \<Rightarrow> bool" where
  "permission_evolves q q' =
     (q' = q\<lparr>pj_decision := pj_decision q'\<rparr> \<and> keeps (pj_decision q) (pj_decision q'))"

definition agent_evolves :: "agent_projection \<Rightarrow> agent_projection \<Rightarrow> bool" where
  "agent_evolves a a' =
     (a' = a\<lparr>ap_context := ap_context a', ap_result := ap_result a'\<rparr> \<and>
      (ap_context a \<noteq> [] \<longrightarrow> ap_context a' = ap_context a) \<and>
      keeps (ap_result a) (ap_result a'))"

text \<open>A map evolves when no key is lost and each value evolves.\<close>

definition map_evolves :: "('v \<Rightarrow> 'v \<Rightarrow> bool) \<Rightarrow> ('k, 'v) bt_map \<Rightarrow> ('k, 'v) bt_map \<Rightarrow> bool" where
  "map_evolves ev m m' = (\<forall>k v. bt_get m k = Some v \<longrightarrow> (\<exists>v'. bt_get m' k = Some v' \<and> ev v v'))"

definition run_evolves :: "run_projection \<Rightarrow> run_projection \<Rightarrow> bool" where
  "run_evolves r r' =
     (rp_run_id r' = rp_run_id r \<and> rp_retry_of r' = rp_retry_of r \<and>
      rp_provider r' = rp_provider r \<and> rp_model r' = rp_model r \<and>
      rp_request r' = rp_request r \<and> rp_queue_priority r' = rp_queue_priority r \<and>
      (run_terminal (rp_status r) \<longrightarrow> rp_status r' = rp_status r) \<and>
      map_evolves call_evolves (rp_tool_calls r) (rp_tool_calls r'))"

definition projection_evolves :: "session_projection \<Rightarrow> session_projection \<Rightarrow> bool" where
  "projection_evolves p p' =
     (ss_session_id (sp_state p') = ss_session_id (sp_state p) \<and>
      length (sp_messages p) \<le> length (sp_messages p') \<and>
      (\<forall>i < length (sp_messages p). message_evolves (sp_messages p ! i) (sp_messages p' ! i)) \<and>
      map_evolves run_evolves (sp_runs p) (sp_runs p') \<and>
      map_evolves permission_evolves (sp_pending_permissions p) (sp_pending_permissions p') \<and>
      map_evolves agent_evolves (sp_agent_instances p) (sp_agent_instances p'))"

section \<open>Evolution lifts to maps\<close>

locale evolving =
  fixes ev :: "'v \<Rightarrow> 'v \<Rightarrow> bool"
  assumes ev_refl [simp]: "ev v v"
    and ev_trans: "ev u v \<Longrightarrow> ev v w \<Longrightarrow> ev u w"
begin

lemma lift_refl [simp]: "map_evolves ev m m"
  by (simp add: map_evolves_def)

lemma lift_trans: "map_evolves ev m1 m2 \<Longrightarrow> map_evolves ev m2 m3 \<Longrightarrow> map_evolves ev m1 m3"
  unfolding map_evolves_def by (meson ev_trans)

lemma lift_insert:
  "(case bt_get m k of None \<Rightarrow> True | Some v \<Rightarrow> ev v v') \<Longrightarrow> map_evolves ev m (bt_insert k v' m)"
  by (auto simp: map_evolves_def)

end

lemma keeps_refl [simp]: "keeps v v"
  by (simp add: keeps_def)

lemma keeps_None [simp]: "keeps None v"
  by (simp add: keeps_def)

lemma keeps_trans: "keeps u v \<Longrightarrow> keeps v w \<Longrightarrow> keeps u w"
  by (auto simp: keeps_def)

lemma keeps_Some [simp]: "keeps (Some v) w \<longleftrightarrow> w = Some v"
  by (auto simp: keeps_def)

interpretation message: evolving message_evolves
proof
  fix u v w
  show "message_evolves u u" by (simp add: message_evolves_def)
  assume *: "message_evolves u v" "message_evolves v w"
  then have "take (length (mp_blocks u)) (mp_blocks w) = mp_blocks u"
    unfolding message_evolves_def
    by (metis length_take min.cobounded1 min_absorb2 take_take)
  with * show "message_evolves u w"
    by (auto simp: message_evolves_def message_closed_def)
qed

interpretation call: evolving call_evolves
proof
  fix u v w
  show "call_evolves u u" by (simp add: call_evolves_def)
  assume "call_evolves u v" "call_evolves v w"
  then show "call_evolves u w"
    by (cases u; cases v; cases w) (auto simp: call_evolves_def intro: keeps_trans)
qed

interpretation permission: evolving permission_evolves
proof
  fix u v w
  show "permission_evolves u u" by (simp add: permission_evolves_def)
  assume "permission_evolves u v" "permission_evolves v w"
  then show "permission_evolves u w"
    by (cases u; cases v; cases w) (auto simp: permission_evolves_def intro: keeps_trans)
qed

interpretation agent: evolving agent_evolves
proof
  fix u v w
  show "agent_evolves u u" by (simp add: agent_evolves_def)
  assume "agent_evolves u v" "agent_evolves v w"
  then show "agent_evolves u w"
    by (cases u; cases v; cases w) (auto simp: agent_evolves_def intro: keeps_trans)
qed

interpretation run: evolving run_evolves
proof
  fix u v w
  show "run_evolves u u" by (simp add: run_evolves_def)
  assume "run_evolves u v" "run_evolves v w"
  then show "run_evolves u w"
    by (auto simp: run_evolves_def intro: call.lift_trans)
qed

lemma projection_evolves_refl [simp]: "projection_evolves p p"
  by (simp add: projection_evolves_def)

lemma projection_evolves_trans:
  assumes "projection_evolves p q" and "projection_evolves q r"
  shows "projection_evolves p r"
proof -
  have "message_evolves (sp_messages p ! i) (sp_messages r ! i)" if "i < length (sp_messages p)" for i
    using assms that unfolding projection_evolves_def by (meson message.ev_trans order_less_le_trans)
  with assms show ?thesis
    by (auto simp: projection_evolves_def
        intro: run.lift_trans permission.lift_trans agent.lift_trans)
qed

section \<open>Every arm of apply evolves the projection\<close>

named_theorems arm_defs "the arms of SessionProjection::apply and their helpers"

lemmas [arm_defs] =
  message_started_def message_content_appended_def message_completed_def message_interrupted_def
  agent_spawned_def agent_finished_def agent_context_captured_def agent_result_delivered_def
  permission_requested_def permission_resolved_def run_queued_def run_started_def
  run_completed_def run_attempt_started_def run_requires_action_def pause_after_def
  set_run_terminal_def tool_call_emitted_def tool_execution_started_def tool_result_def
  run_attempt_failed_def context_fact_recorded_def context_compacted_def

lemma update_run_Inr:
  "update_run run_id change p = Inr p' \<longleftrightarrow>
   (\<exists>run run'. bt_get (sp_runs p) run_id = Some run \<and> change run = Inr run' \<and>
      p' = p\<lparr>sp_runs := bt_insert run_id run' (sp_runs p)\<rparr>)"
  by (auto simp: update_run_def and_then_eq_Inr split: option.splits)

lemma update_run_evolves:
  assumes "update_run run_id change p = Inr p'"
    and "\<And>run run'. change run = Inr run' \<Longrightarrow> run_evolves run run'"
  shows "projection_evolves p p'"
  using assms by (auto simp: update_run_Inr projection_evolves_def intro!: run.lift_insert)

lemma update_tool_call_evolves:
  assumes "update_tool_call run_id call_id change p = Inr p'"
    and "\<And>call call'. change call = Inr call' \<Longrightarrow> call_evolves call call'"
  shows "projection_evolves p p'"
  using assms(1) unfolding update_tool_call_def
proof (rule update_run_evolves)
  fix run run' :: run_projection
  assume "(case bt_get (rp_tool_calls run) call_id of None \<Rightarrow> Inl (UnknownToolCall call_id)
    | Some call \<Rightarrow> and_then (change call)
        (\<lambda>call'. Inr (run\<lparr>rp_tool_calls := bt_insert call_id call' (rp_tool_calls run)\<rparr>))) = Inr run'"
  then show "run_evolves run run'"
    by (auto simp: run_evolves_def and_then_eq_Inr split: option.splits
        intro!: call.lift_insert assms(2))
qed

lemma update_open_message_evolves:
  assumes "update_open_message event_id message_id change p = Inr p'"
    and "\<And>m. \<not> message_closed m \<Longrightarrow> message_evolves m ((change m)\<lparr>mp_last_event_id := event_id\<rparr>)"
  shows "projection_evolves p p'"
proof -
  let ?f = "\<lambda>m. (change m)\<lparr>mp_last_event_id := event_id\<rparr>"
  let ?q = "\<lambda>m. mp_message_id m = message_id"
  from assms(1) obtain m where m: "List.find ?q (sp_messages p) = Some m" "\<not> message_closed m"
    and p': "p' = p\<lparr>sp_messages := update_first ?q ?f (sp_messages p)\<rparr>"
    by (auto simp: update_open_message_def message_closed_def split: option.splits if_splits)
  have "message_evolves (ms ! i) (update_first ?q ?f ms ! i)"
    if "List.find ?q ms = Some m" "i < length ms" for ms i
    using that m(2) assms(2)
    by (induction ms arbitrary: i) (auto simp: nth_Cons split: nat.splits if_splits)
  with m(1) show ?thesis by (simp add: p' projection_evolves_def)
qed

lemma message_arms_evolve:
  "message_content_appended n i b p = Inr p' \<Longrightarrow> projection_evolves p p'"
  "message_completed n i p = Inr p' \<Longrightarrow> projection_evolves p p'"
  "message_interrupted n i p = Inr p' \<Longrightarrow> projection_evolves p p'"
  unfolding message_content_appended_def message_completed_def message_interrupted_def
  by (erule update_open_message_evolves; simp add: message_evolves_def)+

lemma message_started_evolves:
  "message_started n i a r au p = Inr p' \<Longrightarrow> projection_evolves p p'"
  by (auto simp: message_started_def projection_evolves_def nth_append split: if_splits)

lemma agent_arms_evolve:
  "agent_spawned a b c d p = Inr p' \<Longrightarrow> bt_get (sp_agent_instances p) a = None \<Longrightarrow>
   projection_evolves p p'"
  "agent_finished a r p = Inr p' \<Longrightarrow> projection_evolves p p'"
  "agent_context_captured a refs p = Inr p' \<Longrightarrow> projection_evolves p p'"
  "agent_result_delivered a r' p = Inr p' \<Longrightarrow> projection_evolves p p'"
  by (auto simp: arm_defs projection_evolves_def agent_evolves_def Let_def
      intro!: agent.lift_insert split: option.splits if_splits)

lemma permission_arms_evolve:
  "permission_requested a b c d e f p = Inr p' \<Longrightarrow> projection_evolves p p'"
  "permission_resolved a g p = Inr p' \<Longrightarrow> projection_evolves p p'"
  by (auto simp: arm_defs projection_evolves_def permission_evolves_def
      intro!: permission.lift_insert split: option.splits if_splits)

lemma run_queued_evolves: "run_queued a b c d e p = Inr p' \<Longrightarrow> projection_evolves p p'"
  by (auto simp: run_queued_def projection_evolves_def intro!: run.lift_insert
      split: if_splits)

lemma set_run_terminal_evolves:
  "set_run_terminal r s e p = Inr p' \<Longrightarrow> projection_evolves p p'"
  unfolding set_run_terminal_def
  by (erule update_run_evolves) (auto simp: run_evolves_def run_terminal_def split: if_splits)

lemma queue_flag_evolves:
  "projection_evolves p q \<Longrightarrow> projection_evolves p (q\<lparr>sp_queue_paused := b\<rparr>)"
  by (simp add: projection_evolves_def)

lemma pause_after_evolves:
  "pause_after r = Inr p' \<Longrightarrow> (\<And>q. r = Inr q \<Longrightarrow> projection_evolves p q) \<Longrightarrow>
   projection_evolves p p'"
  by (auto simp: pause_after_def and_then_eq_Inr intro: queue_flag_evolves)

lemma run_completed_evolves:
  "run_completed r u p = Inr p' \<Longrightarrow> projection_evolves p p'"
proof -
  assume "run_completed r u p = Inr p'"
  then obtain q where q: "set_run_terminal r R_Completed None p = Inr q"
    and q': "update_run r (\<lambda>run. Inr (run\<lparr>rp_usage := u\<rparr>)) q = Inr p'"
    by (auto simp: run_completed_def and_then_eq_Inr)
  from q' have "projection_evolves q p'"
    by (rule update_run_evolves) (auto simp: run_evolves_def)
  with set_run_terminal_evolves [OF q] show "projection_evolves p p'"
    by (rule projection_evolves_trans)
qed

lemma run_started_evolves: "run_started r a n p = Inr p' \<Longrightarrow> projection_evolves p p'"
  unfolding run_started_def and_then_eq_Inr
  by (auto intro!: queue_flag_evolves
      elim!: update_run_evolves simp: run_evolves_def run_terminal_def split: if_splits)

lemma run_arms_evolve:
  "run_attempt_started r a n p = Inr p' \<Longrightarrow> projection_evolves p p'"
  "run_attempt_failed r e p = Inr p' \<Longrightarrow> projection_evolves p p'"
  unfolding run_attempt_started_def run_attempt_failed_def
  by (erule update_run_evolves; auto simp: run_evolves_def split: if_splits)+

lemma run_requires_action_evolves:
  "run_requires_action r p = Inr p' \<Longrightarrow> projection_evolves p p'"
  unfolding run_requires_action_def
  by (erule pause_after_evolves, erule update_run_evolves)
     (auto simp: run_evolves_def run_terminal_def split: if_splits)

lemma tool_call_emitted_evolves: "tool_call_emitted r c p = Inr p' \<Longrightarrow> projection_evolves p p'"
  unfolding tool_call_emitted_def
  by (erule update_run_evolves)
     (auto simp: run_evolves_def intro!: call.lift_insert split: if_splits)

lemma tool_arms_evolve:
  "tool_execution_started r c x p = Inr p' \<Longrightarrow> projection_evolves p p'"
  "tool_result r c v p = Inr p' \<Longrightarrow> projection_evolves p p'"
  unfolding tool_execution_started_def tool_result_def
  by (erule update_tool_call_evolves;
      auto simp: call_evolves_def split: if_splits option.splits)+

lemmas arms_evolve =
  message_arms_evolve message_started_evolves agent_arms_evolve(2-4) permission_arms_evolve
  run_queued_evolves run_completed_evolves run_started_evolves run_arms_evolve
  run_requires_action_evolves tool_call_emitted_evolves tool_arms_evolve

end
