(* ===== verification/Session_Invariant.thy ===== *)
theory Session_Invariant
  imports Evolution
begin

text \<open>
  The well-formedness invariant of a session projection, that every event keeps it, and the
  scheduling queries over well-formed projections. With the evolution relation this gives the
  guarantees the rest of the server builds on.
\<close>

section \<open>The invariant\<close>

definition map_all :: "('k \<Rightarrow> 'v \<Rightarrow> bool) \<Rightarrow> ('k, 'v) bt_map \<Rightarrow> bool" where
  "map_all P m = (\<forall>k v. bt_get m k = Some v \<longrightarrow> P k v)"

definition call_ok :: "string \<Rightarrow> tool_call_projection \<Rightarrow> bool" where
  "call_ok k c = (tp_call_id c = k \<and> (tp_execution_id c \<noteq> None \<longrightarrow> tp_native c))"

definition run_ok :: "string \<Rightarrow> run_projection \<Rightarrow> bool" where
  "run_ok k r =
     (rp_run_id r = k \<and> rp_queue_priority r = (if rp_retry_of r = None then 0 else -1) \<and>
      bt_sorted (rp_tool_calls r) \<and> map_all call_ok (rp_tool_calls r))"

definition runs_ok :: "(string, run_projection) bt_map \<Rightarrow> bool" where
  "runs_ok rs = (bt_sorted rs \<and> map_all run_ok rs)"

definition permissions_ok :: "(string, permission_projection) bt_map \<Rightarrow> bool" where
  "permissions_ok qs = (bt_sorted qs \<and> map_all (\<lambda>k q. pj_request_id q = k) qs)"

definition agents_ok ::
  "(string, agent_phase) bt_map \<Rightarrow> (string, agent_projection) bt_map \<Rightarrow> bool" where
  "agents_ok phases instances =
     (bt_sorted phases \<and> bt_sorted instances \<and>
      map_all (\<lambda>k a. ap_agent_id a = k \<and> bt_contains_key phases k) instances)"

definition message_ok :: "nat \<Rightarrow> message_projection \<Rightarrow> bool" where
  "message_ok n m =
     (\<not> (mp_completed m \<and> mp_interrupted m) \<and> mp_first_event_id m \<le> mp_last_event_id m \<and>
      mp_last_event_id m \<le> n)"

definition messages_ok :: "nat \<Rightarrow> message_projection list \<Rightarrow> bool" where
  "messages_ok n ms = (distinct (map mp_message_id ms) \<and> (\<forall>m \<in> set ms. message_ok n m))"

definition facts_ok :: "context_projection \<Rightarrow> bool" where
  "facts_ok c = distinct (map cf_fact_id (cp_durable_facts c))"

definition last_event :: "session_projection \<Rightarrow> nat" where
  "last_event p = unwrap_or 0 (ss_last_event_id (sp_state p))"

definition proj_ok :: "session_projection \<Rightarrow> bool" where
  "proj_ok p =
     (messages_ok (last_event p) (sp_messages p) \<and> runs_ok (sp_runs p) \<and>
      permissions_ok (sp_pending_permissions p) \<and>
      agents_ok (sp_agents p) (sp_agent_instances p) \<and> facts_ok (sp_context p))"

section \<open>Components\<close>

lemma map_all_empty [simp]: "map_all P bt_empty"
  by (simp add: map_all_def)

lemma map_all_insert: "map_all P m \<Longrightarrow> P k v \<Longrightarrow> map_all P (bt_insert k v m)"
  by (auto simp: map_all_def)

lemma map_allD: "map_all P m \<Longrightarrow> bt_get m k = Some v \<Longrightarrow> P k v"
  by (simp add: map_all_def)

lemma runs_ok_insert: "runs_ok rs \<Longrightarrow> run_ok k r \<Longrightarrow> runs_ok (bt_insert k r rs)"
  by (simp add: runs_ok_def map_all_insert)

lemma runs_ok_get: "runs_ok rs \<Longrightarrow> bt_get rs k = Some r \<Longrightarrow> run_ok k r"
  by (auto simp: runs_ok_def dest: map_allD)

lemma permissions_ok_insert:
  "permissions_ok qs \<Longrightarrow> pj_request_id q = k \<Longrightarrow> permissions_ok (bt_insert k q qs)"
  by (simp add: permissions_ok_def map_all_def)

lemma permissions_ok_get:
  "bt_get qs k = Some q \<Longrightarrow> permissions_ok qs \<Longrightarrow> pj_request_id q = k"
  by (auto simp: permissions_ok_def dest: map_allD)

lemma agents_ok_phase: "agents_ok ph ins \<Longrightarrow> agents_ok (bt_insert k a ph) ins"
  by (auto simp: agents_ok_def map_all_def)

lemma agents_ok_instance:
  "agents_ok ph ins \<Longrightarrow> ap_agent_id a = k \<Longrightarrow> bt_contains_key ph k \<Longrightarrow>
   agents_ok ph (bt_insert k a ins)"
  by (auto simp: agents_ok_def map_all_def)

lemma agents_ok_get:
  "bt_get ins k = Some a \<Longrightarrow> agents_ok ph ins \<Longrightarrow> ap_agent_id a = k \<and> bt_contains_key ph k"
  by (auto simp: agents_ok_def dest: map_allD)

lemma message_ok_mono: "message_ok n m \<Longrightarrow> n \<le> n' \<Longrightarrow> message_ok n' m"
  by (auto simp: message_ok_def)

lemma messages_ok_mono: "messages_ok n ms \<Longrightarrow> n \<le> n' \<Longrightarrow> messages_ok n' ms"
  by (auto simp: messages_ok_def intro: message_ok_mono)

lemma messages_ok_snoc:
  "messages_ok n ms \<Longrightarrow> \<forall>x \<in> set ms. mp_message_id x \<noteq> mp_message_id m \<Longrightarrow> message_ok n m \<Longrightarrow>
   messages_ok n (ms @ [m])"
  by (auto simp: messages_ok_def)

lemma messages_ok_update:
  assumes "messages_ok n ms" and "\<And>m. mp_message_id (f m) = mp_message_id m"
    and "\<And>m. List.find q ms = Some m \<Longrightarrow> message_ok n (f m)"
  shows "messages_ok n (update_first q f ms)"
  using assms by (auto simp: messages_ok_def map_update_first dest!: set_update_first)

section \<open>Every event keeps the invariant\<close>

lemma update_run_ok:
  assumes "update_run run_id change p = Inr p'" and "proj_ok p"
    and "\<And>run run'. run_ok run_id run \<Longrightarrow> change run = Inr run' \<Longrightarrow> run_ok run_id run'"
  shows "proj_ok p'"
proof -
  from assms(1) obtain run run' where run: "bt_get (sp_runs p) run_id = Some run"
    and ch: "change run = Inr run'" and p': "p' = p\<lparr>sp_runs := bt_insert run_id run' (sp_runs p)\<rparr>"
    by (auto simp: update_run_Inr)
  from assms(2) run have "run_ok run_id run" by (auto simp: proj_ok_def intro: runs_ok_get)
  from assms(3) [OF this ch] assms(2) show ?thesis
    by (simp add: p' proj_ok_def last_event_def runs_ok_insert)
qed

lemma update_tool_call_ok:
  assumes "update_tool_call run_id call_id change p = Inr p'" and "proj_ok p"
    and "\<And>c c'. call_ok call_id c \<Longrightarrow> change c = Inr c' \<Longrightarrow> call_ok call_id c'"
  shows "proj_ok p'"
  using assms(1,2) unfolding update_tool_call_def
proof (rule update_run_ok)
  fix run run' :: run_projection
  assume ok: "run_ok run_id run" and
    "(case bt_get (rp_tool_calls run) call_id of None \<Rightarrow> Inl (UnknownToolCall call_id)
    | Some call \<Rightarrow> and_then (change call)
        (\<lambda>call'. Inr (run\<lparr>rp_tool_calls := bt_insert call_id call' (rp_tool_calls run)\<rparr>))) = Inr run'"
  then obtain c c' where c: "bt_get (rp_tool_calls run) call_id = Some c" "change c = Inr c'"
    and run': "run' = run\<lparr>rp_tool_calls := bt_insert call_id c' (rp_tool_calls run)\<rparr>"
    by (auto simp: and_then_eq_Inr split: option.splits)
  from ok c(1) have "call_ok call_id c" by (auto simp: run_ok_def intro: map_allD)
  from assms(3) [OF this c(2)] ok show "run_ok run_id run'"
    by (simp add: run' run_ok_def map_all_insert)
qed

lemma update_open_message_ok:
  assumes "update_open_message n message_id change p = Inr p'" and "proj_ok p"
    and "last_event p = n" and "\<And>m. mp_message_id (change m) = mp_message_id m"
    and "\<And>m. mp_first_event_id (change m) = mp_first_event_id m"
    and "\<And>m. \<not> message_closed m \<Longrightarrow> \<not> (mp_completed (change m) \<and> mp_interrupted (change m))"
  shows "proj_ok p'"
proof -
  let ?q = "\<lambda>m. mp_message_id m = message_id"
  let ?f = "\<lambda>m. (change m)\<lparr>mp_last_event_id := n\<rparr>"
  from assms(1) obtain m where m: "List.find ?q (sp_messages p) = Some m" "\<not> message_closed m"
    and p': "p' = p\<lparr>sp_messages := update_first ?q ?f (sp_messages p)\<rparr>"
    by (auto simp: update_open_message_def message_closed_def split: option.splits if_splits)
  from assms(2,3) have ok: "messages_ok n (sp_messages p)" by (simp add: proj_ok_def)
  with m(1) have "message_ok n m"
    by (auto simp: messages_ok_def dest: find_Some_iff_set)
  with assms(5,6) m(2) have "message_ok n (?f m)" by (auto simp: message_ok_def)
  with ok m(1) assms(4) have "messages_ok n (update_first ?q ?f (sp_messages p))"
    by (auto intro!: messages_ok_update)
  with assms(2,3) show ?thesis by (simp add: p' proj_ok_def last_event_def)
qed

lemma message_arms_ok:
  assumes "proj_ok p" and "last_event p = n"
  shows "message_content_appended n i b p = Inr p' \<Longrightarrow> proj_ok p'"
    and "message_completed n i p = Inr p' \<Longrightarrow> proj_ok p'"
    and "message_interrupted n i p = Inr p' \<Longrightarrow> proj_ok p'"
  unfolding message_content_appended_def message_completed_def message_interrupted_def
  by (erule update_open_message_ok [OF _ assms]; simp add: message_closed_def)+

lemma message_started_ok:
  "proj_ok p \<Longrightarrow> last_event p = n \<Longrightarrow> message_started n i a r au p = Inr p' \<Longrightarrow> proj_ok p'"
  by (auto simp: message_started_def proj_ok_def last_event_def list_ex_iff message_ok_def
      intro!: messages_ok_snoc split: if_splits)

lemma agent_arms_ok:
  assumes "proj_ok p"
  shows "agent_spawned a b c d p = Inr p' \<Longrightarrow> proj_ok p'"
    and "agent_finished a r p = Inr p' \<Longrightarrow> proj_ok p'"
    and "agent_context_captured a refs p = Inr p' \<Longrightarrow> proj_ok p'"
    and "agent_result_delivered a r' p = Inr p' \<Longrightarrow> proj_ok p'"
proof -
  have ok: "agents_ok (sp_agents p) (sp_agent_instances p)" using assms by (simp add: proj_ok_def)
  have new: "agents_ok (bt_insert a ph (sp_agents p)) (bt_insert a i (sp_agent_instances p))"
    if "ap_agent_id i = a" for ph i
    using ok that by (simp add: agents_ok_instance agents_ok_phase)
  have upd: "agents_ok (sp_agents p) (bt_insert a i (sp_agent_instances p))"
    if "bt_get (sp_agent_instances p) a = Some i'" "ap_agent_id i = ap_agent_id i'" for i i'
    using agents_ok_get [OF that(1) ok] that(2) by (intro agents_ok_instance [OF ok]) simp_all
  show "agent_spawned a b c d p = Inr p' \<Longrightarrow> proj_ok p'"
    using assms new by (auto simp: agent_spawned_def proj_ok_def last_event_def split: if_splits)
  show "agent_finished a r p = Inr p' \<Longrightarrow> proj_ok p'"
    using assms new agents_ok_get [OF _ ok] agents_ok_phase [OF ok]
    by (auto simp: agent_finished_def proj_ok_def last_event_def Let_def
        split: option.splits if_splits)
  show "agent_context_captured a refs p = Inr p' \<Longrightarrow> proj_ok p'"
    using assms upd
    by (auto simp: agent_context_captured_def proj_ok_def last_event_def split: option.splits if_splits)
  show "agent_result_delivered a r' p = Inr p' \<Longrightarrow> proj_ok p'"
    using assms upd
    by (auto simp: agent_result_delivered_def proj_ok_def last_event_def split: option.splits if_splits)
qed

lemma permission_arms_ok:
  assumes "proj_ok p"
  shows "permission_requested a b c d e f p = Inr p' \<Longrightarrow> proj_ok p'"
    and "permission_resolved a g p = Inr p' \<Longrightarrow> proj_ok p'"
proof -
  have key: "pj_request_id q = a" if "bt_get (sp_pending_permissions p) a = Some q" for q
    using permissions_ok_get [OF that] assms by (simp add: proj_ok_def)
  show "permission_requested a b c d e f p = Inr p' \<Longrightarrow> proj_ok p'"
    using assms
    by (auto simp: permission_requested_def proj_ok_def last_event_def split: if_splits
        intro!: permissions_ok_insert)
  show "permission_resolved a g p = Inr p' \<Longrightarrow> proj_ok p'"
    using assms key
    by (auto simp: permission_resolved_def proj_ok_def last_event_def permissions_ok_insert
        split: option.splits if_splits)
qed

lemma queue_flag_ok [simp]: "proj_ok (p\<lparr>sp_queue_paused := b\<rparr>) = proj_ok p"
  by (simp add: proj_ok_def last_event_def)

lemma run_queued_ok: "proj_ok p \<Longrightarrow> run_queued a b c d e p = Inr p' \<Longrightarrow> proj_ok p'"
  by (auto simp: run_queued_def proj_ok_def last_event_def run_ok_def intro!: runs_ok_insert
      split: if_splits)

lemma set_run_terminal_ok: "proj_ok p \<Longrightarrow> set_run_terminal r s e p = Inr p' \<Longrightarrow> proj_ok p'"
  unfolding set_run_terminal_def
  by (erule update_run_ok) (auto simp: run_ok_def split: if_splits)

lemma pause_after_ok: "pause_after r = Inr p' \<Longrightarrow> (\<And>q. r = Inr q \<Longrightarrow> proj_ok q) \<Longrightarrow> proj_ok p'"
  by (auto simp: pause_after_def and_then_eq_Inr)

lemma run_completed_ok:
  assumes "proj_ok p" and "run_completed r u p = Inr p'"
  shows "proj_ok p'"
proof -
  from assms(2) obtain q where q: "set_run_terminal r R_Completed None p = Inr q"
    and q': "update_run r (\<lambda>run. Inr (run\<lparr>rp_usage := u\<rparr>)) q = Inr p'"
    by (auto simp: run_completed_def and_then_eq_Inr)
  from q' set_run_terminal_ok [OF assms(1) q] show ?thesis
    by (rule update_run_ok) (auto simp: run_ok_def)
qed

lemma run_arms_ok:
  assumes "proj_ok p"
  shows "run_started r a n p = Inr p' \<Longrightarrow> proj_ok p'"
    and "run_attempt_started r a n p = Inr p' \<Longrightarrow> proj_ok p'"
    and "run_attempt_failed r e p = Inr p' \<Longrightarrow> proj_ok p'"
    and "run_requires_action r p = Inr p' \<Longrightarrow> proj_ok p'"
    and "tool_call_emitted r c p = Inr p' \<Longrightarrow> tp_execution_id c = None \<Longrightarrow> proj_ok p'"
  unfolding run_started_def run_attempt_started_def run_attempt_failed_def
    run_requires_action_def tool_call_emitted_def pause_after_def and_then_eq_Inr
  using assms
  by (auto elim!: update_run_ok simp: run_ok_def call_ok_def map_all_insert split: if_splits)

lemma tool_arms_ok:
  assumes "proj_ok p"
  shows "tool_execution_started r c x p = Inr p' \<Longrightarrow> proj_ok p'"
    and "tool_result r c v p = Inr p' \<Longrightarrow> proj_ok p'"
  unfolding tool_execution_started_def tool_result_def
  by (erule update_tool_call_ok [OF _ assms];
      auto simp: call_ok_def split: if_splits option.splits)+

lemma context_arms_ok:
  "proj_ok p \<Longrightarrow> proj_ok (context_fact_recorded fct p)"
  "proj_ok p \<Longrightarrow> proj_ok (context_compacted artifact p)"
  "proj_ok p \<Longrightarrow> proj_ok (p\<lparr>sp_context := (sp_context p)\<lparr>cp_last_failure := x\<rparr>\<rparr>)"
  "proj_ok p \<Longrightarrow> proj_ok (p\<lparr>sp_context := (sp_context p)\<lparr>cp_last_bypass_reason := x\<rparr>\<rparr>)"
  by (auto simp: arm_defs proj_ok_def last_event_def facts_ok_def list_ex_iff)

lemma agent_phase_ok: "proj_ok p \<Longrightarrow> proj_ok (p\<lparr>sp_agents := bt_insert k a (sp_agents p)\<rparr>)"
  by (simp add: proj_ok_def last_event_def agents_ok_phase)

lemmas arms_ok =
  message_arms_ok message_started_ok agent_arms_ok permission_arms_ok run_queued_ok
  run_completed_ok run_arms_ok tool_arms_ok context_arms_ok agent_phase_ok

lemma project_event_ok:
  assumes "proj_ok p" and "last_event p = n" and "project_event n e p = Inr p'"
  shows "proj_ok p'"
  using assms
  by (cases e)
     (auto simp: project_event_def intro: arms_ok elim!: pause_after_ok dest: set_run_terminal_ok)

lemma state_apply_Inr:
  "state_apply st n e = Inr st' \<Longrightarrow>
   ss_last_event_id st' = Some n \<and> ss_session_id st' = ss_session_id st"
  by (cases e)
     (auto simp: state_apply_def and_then_eq_Inr transition_def state_interrupt_def
       split: if_splits)

lemma proj_ok_state:
  assumes "proj_ok p" and "last_event p \<le> n" and "ss_last_event_id st = Some n"
  shows "proj_ok (p\<lparr>sp_state := st\<rparr>)"
  using assms by (auto simp: proj_ok_def last_event_def intro: messages_ok_mono)

lemma apply_event_ok:
  assumes "proj_ok p" and "last_event p \<le> n" and "apply_event p n e = Inr p'"
  shows "proj_ok p'"
proof -
  from assms(3) obtain st where st: "state_apply (sp_state p) n e = Inr st"
    and p': "project_event n e (p\<lparr>sp_state := st\<rparr>) = Inr p'"
    by (auto simp: apply_event_def and_then_eq_Inr)
  from state_apply_Inr [OF st] have st': "ss_last_event_id st = Some n" by simp
  show ?thesis
  proof (rule project_event_ok [OF _ _ p'])
    show "proj_ok (p\<lparr>sp_state := st\<rparr>)" using assms(1,2) st' by (rule proj_ok_state)
    show "last_event (p\<lparr>sp_state := st\<rparr>) = n" using st' by (simp add: last_event_def)
  qed
qed

end
