(* ===== verification/Session_Properties.thy ===== *)
theory Session_Properties
  imports Session_Invariant "HOL-Library.Multiset"
begin

text \<open>
  The guarantees of the session projection: replay keeps it well-formed and never rewrites
  history, runs and phases move along their state machines only, resolving things twice is
  harmless and resolving them differently is an error, and the scheduler's queries return what
  they promise.
\<close>

section \<open>State machines as relations\<close>

inductive run_step :: "run_status \<Rightarrow> run_status \<Rightarrow> bool" where
  start: "run_step R_Queued R_Running"
| pause: "run_step R_Running R_RequiresAction"
| continue: "run_step R_RequiresAction R_Running"
| finish: "\<not> run_terminal s \<Longrightarrow> run_terminal t \<Longrightarrow> run_step s t"

inductive_simps run_step_simps: "run_step s t"

text \<open>Phases, by the event that moves them; every other event leaves the phase alone.\<close>

fun moves_phase :: "semantic_event \<Rightarrow> bool" where
  "moves_phase (SessionPhaseChanged _ _ _) = True"
| "moves_phase (SessionInterrupted _) = True"
| "moves_phase (SessionForked _ _) = True"
| "moves_phase _ = False"

inductive phase_step :: "semantic_event \<Rightarrow> session_phase \<Rightarrow> session_phase \<Rightarrow> bool" where
  change: "s \<in> set (allowed_sources t) \<Longrightarrow> phase_step (SessionPhaseChanged s t c) s t"
| interrupt: "phase_step (SessionInterrupted reason) S_Running S_Interrupted"
| branch: "phase_step (SessionForked parent at) s S_Interrupted"
| stay: "\<not> moves_phase e \<Longrightarrow> phase_step e s s"

inductive_simps phase_step_simps: "phase_step e s t"

code_pred run_step .

section \<open>Replay\<close>

lemma apply_events_append:
  "apply_events p n (es @ fs) =
   and_then (apply_events p n es) (\<lambda>q. apply_events q (n + length es) fs)"
proof (induction es arbitrary: p n)
  case (Cons e es)
  show ?case by (cases "apply_event p n e") (simp_all add: Cons.IH)
qed simp

lemma proj_ok_new: "proj_ok (projection_new sid)"
  by (simp add: proj_ok_def projection_new_def messages_ok_def runs_ok_def permissions_ok_def
      agents_ok_def facts_ok_def context_projection_default_def)

lemma last_event_new [simp]: "last_event (projection_new sid) = 0"
  by (simp add: last_event_def projection_new_def state_new_def)

lemma update_run_state: "update_run r c p = Inr p' \<Longrightarrow> sp_state p' = sp_state p"
  by (auto simp: update_run_Inr)

lemma project_event_state: "project_event n e p = Inr p' \<Longrightarrow> sp_state p' = sp_state p"
  by (cases e)
     (auto simp: project_event_def arm_defs update_tool_call_def update_open_message_def
       and_then_eq_Inr Let_def split: option.splits if_splits dest!: update_run_state)

lemma apply_event_state:
  "apply_event p n e = Inr p' \<Longrightarrow> state_apply (sp_state p) n e = Inr (sp_state p')"
  by (auto simp: apply_event_def and_then_eq_Inr dest: project_event_state)

lemma apply_event_last: "apply_event p n e = Inr p' \<Longrightarrow> last_event p' = n"
  by (auto dest!: apply_event_state state_apply_Inr simp: last_event_def)

lemma proj_ok_agent_fresh:
  "proj_ok p \<Longrightarrow> \<not> bt_contains_key (sp_agents p) a \<Longrightarrow> bt_get (sp_agent_instances p) a = None"
  by (cases "bt_get (sp_agent_instances p) a")
     (auto simp: proj_ok_def agents_ok_def map_all_def)

lemma agent_spawned_evolves:
  "proj_ok p \<Longrightarrow> agent_spawned a b c d p = Inr p' \<Longrightarrow> projection_evolves p p'"
proof -
  assume ok: "proj_ok p" and sp: "agent_spawned a b c d p = Inr p'"
  from sp have "\<not> bt_contains_key (sp_agents p) a"
    by (auto simp: agent_spawned_def split: if_splits)
  from agent_arms_evolve(1) [OF sp proj_ok_agent_fresh [OF ok this]]
  show "projection_evolves p p'" .
qed

lemma context_arms_evolve:
  "projection_evolves p (context_fact_recorded fct p)"
  "projection_evolves p (context_compacted artifact p)"
  "projection_evolves p (p\<lparr>sp_context := c\<rparr>)"
  "projection_evolves p (p\<lparr>sp_agents := ag\<rparr>)"
  "projection_evolves p (p\<lparr>sp_queue_paused := b\<rparr>)"
  by (simp_all add: projection_evolves_def context_fact_recorded_def context_compacted_def)

lemma project_event_evolves:
  assumes "proj_ok p" and "project_event n e p = Inr p'"
  shows "projection_evolves p p'"
  using assms
  by (cases e)
     (auto simp: project_event_def context_arms_evolve
       intro: arms_evolve agent_spawned_evolves elim!: pause_after_evolves
       dest: set_run_terminal_evolves)

lemma apply_event_evolves:
  assumes "proj_ok p" and "last_event p \<le> n" and "apply_event p n e = Inr p'"
  shows "projection_evolves p p'"
proof -
  from assms(3) obtain st where st: "state_apply (sp_state p) n e = Inr st"
    and p': "project_event n e (p\<lparr>sp_state := st\<rparr>) = Inr p'"
    by (auto simp: apply_event_def and_then_eq_Inr)
  note st' = state_apply_Inr [OF st]
  from assms(1,2) st' have "proj_ok (p\<lparr>sp_state := st\<rparr>)" by (blast intro: proj_ok_state)
  from project_event_evolves [OF this p'] st' show ?thesis
    by (simp add: projection_evolves_def)
qed

lemma apply_events_ok:
  "apply_events p n es = Inr p' \<Longrightarrow> proj_ok p \<Longrightarrow> last_event p < n \<Longrightarrow>
   proj_ok p' \<and> projection_evolves p p' \<and>
   last_event p' = (if es = [] then last_event p else n + length es - 1)"
proof (induction es arbitrary: p n)
  case (Cons e es)
  from Cons.prems(1) obtain q where q: "apply_event p n e = Inr q"
    and rest: "apply_events q (Suc n) es = Inr p'"
    by (auto simp: and_then_eq_Inr)
  from Cons.prems(3) have "last_event p \<le> n" by simp
  with q Cons.prems(2) have "proj_ok q" "projection_evolves p q" "last_event q = n"
    by (blast intro: apply_event_ok apply_event_evolves apply_event_last)+
  with Cons.IH [OF rest] show ?case
    by (auto intro: projection_evolves_trans)
qed simp

lemma state_apply_revision:
  "state_apply st n e = Inr st' \<Longrightarrow> ss_revision st' \<le> Suc (ss_revision st)"
  by (cases e)
     (auto simp: state_apply_def and_then_eq_Inr transition_def state_interrupt_def u64_add_def
       intro: order_trans [OF mod_less_eq_dividend] split: if_splits)

lemma apply_events_revision:
  "apply_events p n es = Inr p' \<Longrightarrow>
   ss_revision (sp_state p') \<le> ss_revision (sp_state p) + length es"
proof (induction es arbitrary: p n)
  case (Cons e es)
  from Cons.prems obtain q where q: "apply_event p n e = Inr q"
    and rest: "apply_events q (Suc n) es = Inr p'"
    by (auto simp: and_then_eq_Inr)
  from state_apply_revision [OF apply_event_state [OF q]] Cons.IH [OF rest] show ?case by simp
qed simp

lemma replay_well_formed_prefix:
  assumes "apply_events (projection_new sid) 1 es = Inr p"
  shows "proj_ok p \<and> last_event p = length es"
  using apply_events_ok [OF assms proj_ok_new] by (auto split: if_splits)

section \<open>Steps of runs and phases\<close>

definition status_step :: "run_projection \<Rightarrow> run_projection \<Rightarrow> bool" where
  "status_step r r' = (rp_status r' = rp_status r \<or> run_step (rp_status r) (rp_status r'))"

definition runs_step :: "session_projection \<Rightarrow> session_projection \<Rightarrow> bool" where
  "runs_step p p' =
     (\<forall>k r r'. bt_get (sp_runs p) k = Some r \<longrightarrow> bt_get (sp_runs p') k = Some r' \<longrightarrow> status_step r r')"

lemma status_step_refl [simp]: "status_step r r"
  by (simp add: status_step_def)

lemma runs_step_same: "sp_runs p' = sp_runs p \<Longrightarrow> runs_step p p'"
  by (simp add: runs_step_def)

lemma update_run_steps:
  assumes "update_run run_id change p = Inr p'"
    and "\<And>r r'. change r = Inr r' \<Longrightarrow> status_step r r'"
  shows "runs_step p p'"
  using assms by (auto simp: update_run_Inr runs_step_def split: if_splits)

lemma runs_step_flag [simp]: "runs_step p (q\<lparr>sp_queue_paused := b\<rparr>) = runs_step p q"
  by (simp add: runs_step_def)

lemma pause_after_steps:
  "pause_after r = Inr p' \<Longrightarrow> (\<And>q. r = Inr q \<Longrightarrow> runs_step p q) \<Longrightarrow> runs_step p p'"
  by (auto simp: pause_after_def and_then_eq_Inr)

lemma set_run_terminal_steps:
  assumes "set_run_terminal r s e p = Inr p'" and "run_terminal s"
  shows "runs_step p p'"
  using assms(1) unfolding set_run_terminal_def
proof (rule update_run_steps)
  fix q q' :: run_projection
  assume "(if rp_status q \<notin> {R_Queued, R_Running, R_RequiresAction}
     then Inl (InvalidRunTransition r (rp_status q) s)
     else Inr (q\<lparr>rp_status := s, rp_error := e\<rparr>)) = Inr q'"
  with assms(2) show "status_step q q'"
    by (auto simp: status_step_def run_terminal_def run_step_simps split: if_splits)
qed

lemma run_completed_steps:
  assumes "run_completed r u p = Inr p'"
  shows "runs_step p p'"
proof -
  from assms obtain q where q: "set_run_terminal r R_Completed None p = Inr q"
    and q': "update_run r (\<lambda>run. Inr (run\<lparr>rp_usage := u\<rparr>)) q = Inr p'"
    by (auto simp: run_completed_def and_then_eq_Inr)
  from q have "runs_step p q" by (rule set_run_terminal_steps) (simp add: run_terminal_def)
  moreover from q' obtain run where run: "bt_get (sp_runs q) r = Some run"
    and p': "p' = q\<lparr>sp_runs := bt_insert r (run\<lparr>rp_usage := u\<rparr>) (sp_runs q)\<rparr>"
    by (auto simp: update_run_Inr)
  ultimately show ?thesis
    unfolding runs_step_def p' by (auto simp: status_step_def)
qed

lemma run_started_steps: "run_started r a n p = Inr p' \<Longrightarrow> runs_step p p'"
  unfolding run_started_def and_then_eq_Inr
  by (auto elim!: update_run_steps simp: status_step_def run_step_simps split: if_splits)

lemma run_arms_steps:
  "run_attempt_started r a n p = Inr p' \<Longrightarrow> runs_step p p'"
  "run_attempt_failed r e p = Inr p' \<Longrightarrow> runs_step p p'"
  "tool_call_emitted r c p = Inr p' \<Longrightarrow> runs_step p p'"
  unfolding run_attempt_started_def run_attempt_failed_def tool_call_emitted_def
  by (erule update_run_steps; auto simp: status_step_def split: if_splits)+

lemma run_requires_action_steps: "run_requires_action r p = Inr p' \<Longrightarrow> runs_step p p'"
  unfolding run_requires_action_def
  by (erule pause_after_steps, erule update_run_steps)
     (auto simp: status_step_def run_step_simps split: if_splits)

lemma tool_arms_steps:
  "tool_execution_started r c x p = Inr p' \<Longrightarrow> runs_step p p'"
  "tool_result r c v p = Inr p' \<Longrightarrow> runs_step p p'"
  unfolding tool_execution_started_def tool_result_def update_tool_call_def
  by (erule update_run_steps; auto simp: status_step_def and_then_eq_Inr split: option.splits)+

lemma run_queued_steps: "run_queued a b c d e p = Inr p' \<Longrightarrow> runs_step p p'"
  by (auto simp: run_queued_def runs_step_def split: if_splits)

lemma other_arms_runs:
  "update_open_message n i ch p = Inr p' \<Longrightarrow> sp_runs p' = sp_runs p"
  "message_started n i a r au p = Inr p' \<Longrightarrow> sp_runs p' = sp_runs p"
  "agent_spawned a b c d p = Inr p' \<Longrightarrow> sp_runs p' = sp_runs p"
  "agent_finished a x p = Inr p' \<Longrightarrow> sp_runs p' = sp_runs p"
  "agent_context_captured a refs p = Inr p' \<Longrightarrow> sp_runs p' = sp_runs p"
  "agent_result_delivered a y p = Inr p' \<Longrightarrow> sp_runs p' = sp_runs p"
  "permission_requested a i b a a v p = Inr p' \<Longrightarrow> sp_runs p' = sp_runs p"
  "permission_resolved a g p = Inr p' \<Longrightarrow> sp_runs p' = sp_runs p"
  "sp_runs (context_fact_recorded fct p) = sp_runs p"
  "sp_runs (context_compacted artifact p) = sp_runs p"
  by (auto simp: update_open_message_def arm_defs Let_def split: option.splits if_splits)

lemma permission_requested_runs:
  "permission_requested a b c d e f p = Inr p' \<Longrightarrow> sp_runs p' = sp_runs p"
  by (auto simp: permission_requested_def split: if_splits)

lemmas arms_steps =
  run_completed_steps run_started_steps run_arms_steps run_requires_action_steps tool_arms_steps
  run_queued_steps runs_step_same [OF other_arms_runs(1)] runs_step_same [OF other_arms_runs(2)]
  runs_step_same [OF other_arms_runs(3)] runs_step_same [OF other_arms_runs(4)]
  runs_step_same [OF other_arms_runs(5)] runs_step_same [OF other_arms_runs(6)]
  runs_step_same [OF permission_requested_runs] runs_step_same [OF other_arms_runs(8)]

lemma project_event_steps: "project_event n e p = Inr p' \<Longrightarrow> runs_step p p'"
  by (cases e)
     (auto simp: project_event_def other_arms_runs message_content_appended_def
       message_completed_def message_interrupted_def run_terminal_def
       intro: arms_steps runs_step_same elim!: pause_after_steps set_run_terminal_steps)

lemma apply_event_steps: "apply_event p n e = Inr p' \<Longrightarrow> runs_step p p'"
proof -
  assume "apply_event p n e = Inr p'"
  then obtain st where "project_event n e (p\<lparr>sp_state := st\<rparr>) = Inr p'"
    by (auto simp: apply_event_def and_then_eq_Inr)
  then have "runs_step (p\<lparr>sp_state := st\<rparr>) p'" by (rule project_event_steps)
  then show ?thesis by (simp add: runs_step_def)
qed

lemma state_apply_phase:
  "state_apply st n e = Inr st' \<Longrightarrow> phase_step e (ss_phase st) (ss_phase st')"
  by (cases e)
     (auto simp: state_apply_def and_then_eq_Inr transition_def state_interrupt_def phase_step_simps
       split: if_splits)

section \<open>Sorting the queue\<close>

lemma run_le_total: "run_le a b \<or> run_le b a"
  by (auto simp: run_le_def)

lemma run_le_trans: "run_le a b \<Longrightarrow> run_le b c \<Longrightarrow> run_le a c"
  by (auto simp: run_le_def)

lemma mset_run_insort: "mset (run_insort r xs) = add_mset r (mset xs)"
  by (induction xs) auto

lemma mset_run_sort [simp]: "mset (run_sort xs) = mset xs"
  by (induction xs) (auto simp: mset_run_insort)

lemma set_run_insort: "set (run_insort r xs) = insert r (set xs)"
  using mset_run_insort [of r xs] by (metis set_mset_add_mset_insert set_mset_mset)

lemma sorted_run_insort: "sorted_wrt run_le xs \<Longrightarrow> sorted_wrt run_le (run_insort r xs)"
  using run_le_total by (induction xs) (auto simp: set_run_insort intro: run_le_trans)

lemma sorted_run_sort: "sorted_wrt run_le (run_sort xs)"
  by (induction xs) (simp_all add: sorted_run_insort)

lemma set_run_sort [simp]: "set (run_sort xs) = set xs"
  using mset_run_sort by (metis set_mset_mset)

lemma set_queued_runs:
  "proj_ok p \<Longrightarrow> set (queued_runs p) = {r. rp_status r = R_Queued \<and> bt_get (sp_runs p) (rp_run_id r) = Some r}"
proof -
  assume ok: "proj_ok p"
  then have s: "bt_sorted (sp_runs p)" by (simp add: proj_ok_def runs_ok_def)
  have "r \<in> set (bt_values (sp_runs p)) \<longleftrightarrow> bt_get (sp_runs p) (rp_run_id r) = Some r" for r
    using ok runs_ok_get [of "sp_runs p"] by (auto simp: bt.vals_iff [OF s] proj_ok_def run_ok_def)
  then show ?thesis by (auto simp: queued_runs_def)
qed


lemma find_run_ready:
  assumes "proj_ok p"
  shows "(\<exists>r. ready_action_run p = Some r) \<longleftrightarrow>
         (\<exists>k r. bt_get (sp_runs p) k = Some r \<and> run_ready r)"
proof -
  from assms have s: "bt_sorted (sp_runs p)" by (simp add: proj_ok_def runs_ok_def)
  have "(\<exists>r. ready_action_run p = Some r) \<longleftrightarrow> (\<exists>r. r \<in> set (bt_values (sp_runs p)) \<and> run_ready r)"
    unfolding ready_action_run_def
    using find_None_set [of run_ready "bt_values (sp_runs p)"]
    by (cases "List.find run_ready (bt_values (sp_runs p))") (auto dest: find_Some_iff_set)
  then show ?thesis unfolding bt_values_iff [OF s] by blast
qed

lemma distinct_ids_queue:
  assumes "proj_ok p"
  shows "distinct (map rp_run_id (queued_runs p))"
proof -
  from assms have s: "bt_sorted (sp_runs p)" and r: "map_all run_ok (sp_runs p)"
    by (simp_all add: proj_ok_def runs_ok_def)
  have ids: "map rp_run_id (bt_values (sp_runs p)) = map fst (sp_runs p)"
    using r s by (auto simp: bt_values_def map_all_def run_ok_def bt_in_iff_get [symmetric])
  from s have "distinct (map fst (sp_runs p))"
    by (simp add: bt_sorted_def strict_sorted_iff)
  with ids have "distinct (map rp_run_id (filter (\<lambda>r. rp_status r = R_Queued) (bt_values (sp_runs p))))"
    by (metis distinct_map_filter)
  then show ?thesis
    unfolding queued_runs_def
    by (metis (no_types) mset_run_sort mset_map mset_eq_imp_distinct_iff)
qed

section \<open>A session to evaluate on\<close>

text \<open>A turn that pauses for one external tool call, its result, and a retry in the queue.\<close>

definition example_turn :: "semantic_event list" where
  "example_turn =
     [SessionCreated None,
      RunQueued ''r1'' None ''openai'' ''m'' JNull,
      SessionPhaseChanged S_Created S_Running None,
      RunStarted ''r1'' ''a1'' 1,
      MessageStarted ''m1'' ''build'' Role_Assistant Au_System,
      MessageContentAppended ''m1'' (Text ''hi''),
      MessageCompleted ''m1'',
      ToolCallEmitted ''r1'' ''m1'' ''c1'' ''build'' ''deploy'' JNull ''{}'' False,
      RunRequiresAction ''r1'' [''c1''],
      SessionPhaseChanged S_Running S_Interrupted None]"

definition example_more :: "semantic_event list" where
  "example_more =
     [ToolResult ''r1'' ''c1'' ''build'' ''deploy'' (JBool True),
      RunQueued ''r0'' None ''openai'' ''m'' JNull,
      RunQueued ''r2'' (Some ''r1'') ''openai'' ''m'' JNull]"

definition example_projection :: "semantic_event list \<Rightarrow> session_projection" where
  "example_projection es =
     (case apply_events (projection_new ''s'') 1 es of Inr p \<Rightarrow> p | Inl _ \<Rightarrow> projection_new ''s'')"

lemmas replay_defs =
  apply_event_def state_apply_def project_event_def projection_new_def state_new_def
  transition_def state_interrupt_def arm_defs update_run_def update_tool_call_def
  update_open_message_def message_content_appended_def message_completed_def
  message_interrupted_def set_run_terminal_def pause_after_def u64_add_def bt_empty_def
  context_projection_default_def projected_author_def

lemma example_turn_ok:
  "apply_events (projection_new ''s'') 1 example_turn = Inr (example_projection example_turn)"
  by (simp add: example_projection_def example_turn_def replay_defs)

lemma example_more_ok:
  "apply_events (projection_new ''s'') 1 (example_turn @ example_more)
   = Inr (example_projection (example_turn @ example_more))"
  by (simp add: example_projection_def example_turn_def example_more_def replay_defs)

end
