(* ===== verification/Session_Guarantees.thy ===== *)
theory Session_Guarantees
  imports Session_Properties
begin

text \<open>
  What the session projection and the event log promise, each followed by an evaluation on a
  concrete session: replay keeps the projection well-formed and never rewrites history, runs and
  phases follow their state machines, results and decisions are write-once, and the scheduler's
  queries return exactly the queued and the resumable runs.
\<close>

section \<open>Replay\<close>

text \<open>C1. Replaying any list of events from an empty projection, if no event is rejected, gives a
  well-formed projection: map keys agree with the ids stored under them, message ids and fact
  ids are unique, no message is both completed and interrupted, message event ids lie within the
  log, an execution claim belongs to a native call only, retries have priority -1. Its last event
  is the number of events, its revision is at most that, and it keeps the session's id.\<close>

theorem replay_well_formed:
  assumes "apply_events (projection_new sid) 1 es = Inr p"
  shows "proj_ok p \<and> last_event p = length es \<and> ss_revision (sp_state p) \<le> length es \<and>
         ss_session_id (sp_state p) = sid"
proof -
  have "proj_ok p \<and> projection_evolves (projection_new sid) p \<and>
        last_event p = (if es = [] then 0 else 1 + length es - 1)"
    using apply_events_ok [OF assms proj_ok_new] by simp
  moreover have "ss_revision (sp_state p) \<le> length es"
    using apply_events_revision [OF assms] by (simp add: projection_new_def state_new_def)
  ultimately show ?thesis
    by (auto simp: projection_evolves_def projection_new_def state_new_def split: if_splits)
qed

theorem replay_well_formed_witness:
  "proj_ok (example_projection example_turn) \<and> last_event (example_projection example_turn) = 10"
  using replay_well_formed [OF example_turn_ok] by (simp add: example_turn_def)



text \<open>A run that has completed, failed, been cancelled or been interrupted keeps that status
  whatever events follow, and a tool call that has a result keeps that result.\<close>

theorem settled_stays_settled:
  assumes "proj_ok p" and "last_event p < n" and "apply_events p n es = Inr q"
    and "bt_get (sp_runs p) k = Some r"
  shows "\<exists>r'. bt_get (sp_runs q) k = Some r' \<and>
           (run_terminal (rp_status r) \<longrightarrow> rp_status r' = rp_status r) \<and>
           (\<forall>c call v. bt_get (rp_tool_calls r) c = Some call \<and> tp_result call = Some v \<longrightarrow>
              (\<exists>call'. bt_get (rp_tool_calls r') c = Some call' \<and> tp_result call' = Some v))"
proof -
  from apply_events_ok [OF assms(3,1,2)] have "map_evolves run_evolves (sp_runs p) (sp_runs q)"
    by (simp add: projection_evolves_def)
  with assms(4) obtain r' where r': "bt_get (sp_runs q) k = Some r'" and ev: "run_evolves r r'"
    by (auto simp: map_evolves_def)
  have "\<exists>call'. bt_get (rp_tool_calls r') c = Some call' \<and> tp_result call' = Some v"
    if "bt_get (rp_tool_calls r) c = Some call" "tp_result call = Some v" for c call v
    using ev that by (fastforce simp: run_evolves_def map_evolves_def call_evolves_def)
  with r' ev show ?thesis by (auto simp: run_evolves_def)
qed

theorem settled_stays_settled_witness:
  "\<exists>q r'. apply_events (example_projection (example_turn @ example_more)) 14
            [RunFailed ''r2'' ''x''] = Inr q \<and>
          bt_get (sp_runs q) ''r1'' = Some r'"
proof -
  let ?p = "example_projection (example_turn @ example_more)"
  have ok: "proj_ok ?p" "last_event ?p < 14"
    using replay_well_formed_prefix [OF example_more_ok]
    by (simp_all add: example_turn_def example_more_def)
  obtain q where q: "apply_events ?p 14 [RunFailed ''r2'' ''x''] = Inr q"
    by (simp add: example_projection_def example_turn_def example_more_def replay_defs)
  obtain r where r: "bt_get (sp_runs ?p) ''r1'' = Some r"
    by (simp add: example_projection_def example_turn_def example_more_def replay_defs)
  from settled_stays_settled [OF ok q r] q show ?thesis by blast
qed

section \<open>State machines\<close>

text \<open>C32. A run's status moves only along its machine, whatever event is applied: queued to
  running, running to requires-action and back, and from any of the three to a terminal status.\<close>

theorem run_status_machine:
  assumes "apply_event p n e = Inr q"
    and "bt_get (sp_runs p) k = Some r" and "bt_get (sp_runs q) k = Some r'"
  shows "rp_status r' = rp_status r \<or> run_step (rp_status r) (rp_status r')"
  using apply_event_steps [OF assms(1)] assms(2,3) by (auto simp: runs_step_def status_step_def)

theorem run_status_machine_witness:
  "\<exists>q r r'. apply_event (example_projection example_turn) 11 (RunStarted ''r1'' ''a2'' 2) = Inr q \<and>
     bt_get (sp_runs (example_projection example_turn)) ''r1'' = Some r \<and>
     bt_get (sp_runs q) ''r1'' = Some r' \<and> rp_status r = R_RequiresAction \<and>
     run_step (rp_status r) (rp_status r')"
proof -
  let ?p = "example_projection example_turn"
  obtain q where q: "apply_event ?p 11 (RunStarted ''r1'' ''a2'' 2) = Inr q"
    and "bt_get (sp_runs q) ''r1'' \<noteq> None" and st: "\<And>r. bt_get (sp_runs q) ''r1'' = Some r \<Longrightarrow> rp_status r = R_Running"
    by (simp add: example_projection_def example_turn_def replay_defs)
  then obtain r' where r': "bt_get (sp_runs q) ''r1'' = Some r'" by blast
  obtain r where r: "bt_get (sp_runs ?p) ''r1'' = Some r" "rp_status r = R_RequiresAction"
    by (simp add: example_projection_def example_turn_def replay_defs)
  from run_status_machine [OF q r(1) r'] st [OF r'] r q r' show ?thesis by auto
qed

text \<open>A session's phase moves only by the three events that carry a move: a phase change
  leaves exactly the phase it names and enters one that \<open>allowed_sources\<close> lets it enter, an
  interruption leaves the running phase, a fork enters the interrupted phase; every other event
  leaves the phase as it was.\<close>

theorem session_phase_machine:
  assumes "apply_event p n e = Inr q"
  shows "phase_step e (ss_phase (sp_state p)) (ss_phase (sp_state q))"
  using state_apply_phase [OF apply_event_state [OF assms]] .

theorem session_phase_machine_witness:
  "\<exists>q. apply_event (example_projection example_turn) 11
         (SessionPhaseChanged S_Interrupted S_Running None) = Inr q \<and>
       ss_phase (sp_state q) = S_Running"
proof -
  obtain q where q: "apply_event (example_projection example_turn) 11
      (SessionPhaseChanged S_Interrupted S_Running None) = Inr q"
    by (simp add: example_projection_def example_turn_def replay_defs)
  from session_phase_machine [OF q] q show ?thesis by (auto simp: phase_step_simps)
qed

section \<open>Write-once results\<close>

lemma update_tool_call_Inr:
  "update_tool_call r c change p = Inr q \<longleftrightarrow>
   (\<exists>run call call'. bt_get (sp_runs p) r = Some run \<and> bt_get (rp_tool_calls run) c = Some call \<and>
      change call = Inr call' \<and>
      q = p\<lparr>sp_runs := bt_insert r
        (run\<lparr>rp_tool_calls := bt_insert c call' (rp_tool_calls run)\<rparr>) (sp_runs p)\<rparr>)"
  unfolding update_tool_call_def update_run_Inr
  by (auto simp: and_then_eq_Inr split: option.splits)

text \<open>Submitting a tool result twice. Once a result event has been accepted, the same result
  for the same call is accepted again and changes nothing but the event position, and any other
  result is rejected with \<open>ConflictingToolResult\<close>.\<close>

theorem tool_result_write_once:
  assumes "proj_ok p" and "last_event p \<le> n"
    and "apply_event p n (ToolResult r c a t v) = Inr q"
  shows "apply_event q m (ToolResult r c a' t' w) =
         (if w = v then Inr (q\<lparr>sp_state := (sp_state q)\<lparr>ss_last_event_id := Some m\<rparr>\<rparr>)
          else Inl (ConflictingToolResult c))"
proof -
  from assms(3) obtain run call where run: "bt_get (sp_runs q) r = Some run"
    and call: "bt_get (rp_tool_calls run) c = Some call" "tp_result call = Some v"
    by (auto simp: apply_event_def state_apply_def project_event_def tool_result_def
        update_tool_call_Inr split: option.splits if_splits)
  from assms have "proj_ok q" by (rule apply_event_ok)
  then have s: "bt_sorted (sp_runs q)" "bt_sorted (rp_tool_calls run)"
    using runs_ok_get [OF _ run] by (auto simp: proj_ok_def runs_ok_def run_ok_def)
  note same = bt_insert_same [OF call(1) s(2)] bt_insert_same [OF run s(1)]
  show ?thesis
    using run call same
    by (simp add: apply_event_def state_apply_def project_event_def tool_result_def
        update_tool_call_def update_run_def)
qed

theorem tool_result_write_once_witness:
  "\<exists>q. apply_event (example_projection example_turn) 11
         (ToolResult ''r1'' ''c1'' ''b'' ''deploy'' JNull) = Inr q \<and>
       apply_event q 12 (ToolResult ''r1'' ''c1'' ''b'' ''deploy'' (JBool True))
         = Inl (ConflictingToolResult ''c1'')"
proof -
  let ?p = "example_projection example_turn"
  have ok: "proj_ok ?p" "last_event ?p \<le> 11"
    using replay_well_formed_prefix [OF example_turn_ok] by (simp_all add: example_turn_def)
  obtain q where q: "apply_event ?p 11 (ToolResult ''r1'' ''c1'' ''b'' ''deploy'' JNull) = Inr q"
    by (simp add: example_projection_def example_turn_def replay_defs)
  from tool_result_write_once [OF ok q] q show ?thesis by auto
qed

text \<open>Resolving a permission request twice. Once a resolution has been accepted, the same
  decision is accepted again and changes nothing but the event position, whatever source, scope,
  reason or rule it carries, and the other decision is rejected.\<close>

theorem permission_write_once:
  assumes "apply_event p n (PermissionResolved i d src scope reason rule) = Inr q"
  shows "apply_event q m (PermissionResolved i d' src' scope' reason' rule') =
         (if d' = d then Inr (q\<lparr>sp_state := (sp_state q)\<lparr>ss_last_event_id := Some m\<rparr>\<rparr>)
          else Inl (ConflictingPermissionResolution i))"
proof -
  from assms obtain pending where "bt_get (sp_pending_permissions q) i = Some pending"
    and "pj_decision pending = Some d"
    by (auto simp: apply_event_def state_apply_def project_event_def permission_resolved_def
        and_then_eq_Inr split: option.splits if_splits)
  then show ?thesis
    by (auto simp: apply_event_def state_apply_def project_event_def permission_resolved_def)
qed

definition example_permission :: "semantic_event list" where
  "example_permission = [PermissionRequested ''q1'' ''r1'' (Some ''c1'') ''build'' ''bash'' JNull]"

theorem permission_write_once_witness:
  "\<exists>q. apply_event (example_projection example_permission) 2
         (PermissionResolved ''q1'' Allow None None None None) = Inr q \<and>
       apply_event q 3 (PermissionResolved ''q1'' Deny None None None None)
         = Inl (ConflictingPermissionResolution ''q1'')"
proof -
  obtain q where q: "apply_event (example_projection example_permission) 2
      (PermissionResolved ''q1'' Allow None None None None) = Inr q"
    by (simp add: example_projection_def example_permission_def replay_defs)
  from permission_write_once [OF q] q show ?thesis by auto
qed

section \<open>Scheduling queries\<close>

text \<open>The run queue. \<open>queued_runs\<close> lists exactly the queued runs, each once, retries before
  first attempts and within each group in the order of their ids.\<close>

theorem queue_order:
  assumes "proj_ok p"
  shows "set (queued_runs p) =
           {r. rp_status r = R_Queued \<and> bt_get (sp_runs p) (rp_run_id r) = Some r} \<and>
         distinct (map rp_run_id (queued_runs p)) \<and>
         sorted_wrt (\<lambda>a b. (rp_retry_of a \<noteq> None \<and> rp_retry_of b = None) \<or>
              ((rp_retry_of a = None \<longleftrightarrow> rp_retry_of b = None) \<and> rp_run_id a \<le> rp_run_id b))
           (queued_runs p)"
proof -
  have pr: "rp_queue_priority r = (if rp_retry_of r = None then 0 else -1)"
    if "r \<in> set (queued_runs p)" for r
    using that assms runs_ok_get [of "sp_runs p"]
    by (auto simp: set_queued_runs [OF assms] proj_ok_def run_ok_def)
  have "sorted_wrt run_le (queued_runs p)"
    by (simp add: queued_runs_def sorted_run_sort)
  then have "sorted_wrt (\<lambda>a b. (rp_retry_of a \<noteq> None \<and> rp_retry_of b = None) \<or>
              ((rp_retry_of a = None \<longleftrightarrow> rp_retry_of b = None) \<and> rp_run_id a \<le> rp_run_id b))
           (queued_runs p)"
    by (rule sorted_wrt_mono_rel [rotated]) (auto simp: run_le_def pr split: if_splits)
  with assms set_queued_runs distinct_ids_queue show ?thesis by blast
qed

theorem queue_order_witness:
  "map rp_run_id (queued_runs (example_projection (example_turn @ example_more)))
     = [''r2'', ''r0''] \<and>
   distinct (map rp_run_id (queued_runs (example_projection (example_turn @ example_more))))"
proof -
  let ?p = "example_projection (example_turn @ example_more)"
  have "proj_ok ?p" using replay_well_formed_prefix [OF example_more_ok] by simp
  note this [THEN queue_order]
  moreover have "map rp_run_id (queued_runs ?p) = [''r2'', ''r0'']"
    by (simp add: example_projection_def example_turn_def example_more_def replay_defs
        queued_runs_def bt_values_def run_le_def)
  ultimately show ?thesis by blast
qed

text \<open>Resuming a paused run. \<open>ready_action_run\<close> returns a run of the session that waits for
  action, has emitted tool calls, and has a result for every one of them; it returns nothing only
  when no such run exists.\<close>

theorem ready_action_run_complete:
  assumes "proj_ok p"
  shows "(\<forall>r. ready_action_run p = Some r \<longrightarrow>
            bt_get (sp_runs p) (rp_run_id r) = Some r \<and> rp_status r = R_RequiresAction \<and>
            rp_tool_calls r \<noteq> [] \<and>
            (\<forall>c call. bt_get (rp_tool_calls r) c = Some call \<longrightarrow> tp_result call \<noteq> None)) \<and>
         (ready_action_run p = None \<longleftrightarrow>
            (\<forall>k r. bt_get (sp_runs p) k = Some r \<longrightarrow> \<not> run_ready r))"
proof -
  from assms have s: "bt_sorted (sp_runs p)" and ok: "runs_ok (sp_runs p)"
    by (simp_all add: proj_ok_def runs_ok_def)
  have "bt_get (sp_runs p) (rp_run_id r) = Some r \<and> bt_sorted (rp_tool_calls r) \<and> run_ready r"
    if "ready_action_run p = Some r" for r
  proof -
    from that obtain k where k: "bt_get (sp_runs p) k = Some r" and r: "run_ready r"
      using find_Some_iff_set [of run_ready "bt_values (sp_runs p)" r]
      by (auto simp: ready_action_run_def bt_values_iff [OF s])
    from runs_ok_get [OF ok k] k r show ?thesis by (simp add: run_ok_def)
  qed
  moreover have "ready_action_run p = None \<longleftrightarrow> (\<forall>k r. bt_get (sp_runs p) k = Some r \<longrightarrow> \<not> run_ready r)"
    using find_run_ready [OF assms] by (metis not_None_eq)
  moreover have "tp_result call \<noteq> None"
    if "run_ready r" "bt_sorted (rp_tool_calls r)" "bt_get (rp_tool_calls r) c = Some call"
    for r c call
    using that bt_values_iff [of "rp_tool_calls r" call]
    by (auto simp: run_ready_def list_all_iff)
  moreover have "rp_status r = R_RequiresAction \<and> rp_tool_calls r \<noteq> []" if "run_ready r" for r
    using that by (simp add: run_ready_def)
  ultimately show ?thesis by blast
qed

theorem ready_action_run_witness:
  "\<exists>r. ready_action_run (example_projection (example_turn @ example_more)) = Some r \<and>
       rp_run_id r = ''r1'' \<and> rp_status r = R_RequiresAction"
proof -
  let ?p = "example_projection (example_turn @ example_more)"
  have ok: "proj_ok ?p" using replay_well_formed_prefix [OF example_more_ok] by simp
  obtain r where "ready_action_run ?p = Some r" "rp_run_id r = ''r1''"
    by (simp add: example_projection_def example_turn_def example_more_def replay_defs
        ready_action_run_def bt_values_def run_ready_def)
  with ready_action_run_complete [OF ok] show ?thesis by blast
qed

end
