(* ===== verification/Provider.thy ===== *)
theory Provider
  imports Json
begin

text \<open>
  The crate \<open>piqo-provider\<close>: merging request bodies (\<open>body.rs\<close>) and turning provider responses
  into deltas (\<open>transport.rs\<close>). The JSON parser and printer of \<open>serde_json\<close> are arguments
  (\<open>from_str\<close>, \<open>to_text\<close>), and so is what \<open>reqwest\<close> does with a request (\<open>transport_env\<close>).
\<close>

section \<open>Request bodies\<close>

datatype body_merge_error = LayerIsNotAnObject nat

fun merge_layers ::
  "nat \<Rightarrow> (string, json) bt_map \<Rightarrow> json list \<Rightarrow> (body_merge_error, json) result" where
  "merge_layers index merged [] = Inr (JObj merged)"
| "merge_layers index merged (layer # layers) =
     and_then (ok_or (LayerIsNotAnObject index) (as_object layer))
       (\<lambda>object. merge_layers (Suc index) (bt_extend merged object) layers)"

definition merge_request_bodies :: "json list \<Rightarrow> (body_merge_error, json) result" where
  "merge_request_bodies layers = merge_layers 0 bt_empty layers"

section \<open>Protocols, deltas, errors\<close>

datatype provider_protocol = ChatCompletions | Responses

datatype provider_delta =
    D_Text string
  | D_ToolCall "string option" "string option" string
  | D_ToolCallDelta "nat option" "string option" "string option" string
  | D_Usage json
  | D_Completed
  | D_RequiresAction

record discovered_model =
  dm_id :: string
  dm_metadata :: json

datatype provider_transport_error =
    TransportHttp
  | UnsupportedProtocol string
  | InvalidResponse
  | MissingField string
  | InvalidJson
  | MalformedSse string
  | InvalidHeader string
  | HttpStatus nat
  | MalformedModelCatalog

definition protocol_from_str :: "string \<Rightarrow> (provider_transport_error, provider_protocol) result" where
  "protocol_from_str value =
     (if value \<in> {''chat_completions'', ''chat-completion'', ''chat''} then Inr ChatCompletions
      else if value \<in> {''responses'', ''response''} then Inr Responses
      else Inl (UnsupportedProtocol value))"

section \<open>The model catalog\<close>

definition parse_model :: "json \<Rightarrow> (provider_transport_error, discovered_model) result" where
  "parse_model model =
     and_then
       (ok_or MalformedModelCatalog
          (case get_str model ''id'' of
             Some name \<Rightarrow> if trim name \<noteq> [] then Some name else None
           | None \<Rightarrow> None))
       (\<lambda>name. Inr \<lparr>dm_id = name, dm_metadata = model\<rparr>)"

text \<open>\<open>dedup_by\<close>: of consecutive equal elements the first stays.\<close>

fun dedup_by :: "('a \<Rightarrow> 'a \<Rightarrow> bool) \<Rightarrow> 'a list \<Rightarrow> 'a list" where
  "dedup_by same (x # y # xs) =
     (if same y x then dedup_by same (x # xs) else x # dedup_by same (y # xs))"
| "dedup_by same xs = xs"

definition parse_model_catalog ::
  "json \<Rightarrow> (provider_transport_error, discovered_model list) result" where
  "parse_model_catalog value =
     and_then (ok_or MalformedModelCatalog (get_array value ''data''))
       (\<lambda>data. and_then (collect (map parse_model data))
         (\<lambda>models. Inr (dedup_by (\<lambda>l r. dm_id l = dm_id r) (sort_key dm_id models))))"

section \<open>Requests\<close>

text \<open>
  What \<open>reqwest\<close> does: whether the address parses, the header name or value a text makes (names are
  in lower case), and what a request answers within the connection timeout: a status and the JSON of
  the body, if it is JSON.
\<close>

record provider_request =
  tq_post :: bool
  tq_endpoint :: string
  tq_body :: "json option"
  tq_headers :: "(string \<times> string) list"

record transport_env =
  tv_url_ok :: "string \<Rightarrow> bool"
  tv_header_name :: "string \<Rightarrow> string option"
  tv_header_value :: "string \<Rightarrow> string option"
  tv_execute :: "provider_request \<Rightarrow> nat \<Rightarrow> (nat \<times> json option) option"

definition build_request ::
  "transport_env \<Rightarrow> string \<Rightarrow> json \<Rightarrow> (provider_transport_error, provider_request) result" where
  "build_request env endpoint value =
     (if tv_url_ok env endpoint
      then Inr \<lparr>tq_post = True, tq_endpoint = endpoint, tq_body = Some value,
                tq_headers = [(''content-type'', ''application/json'')]\<rparr>
      else Inl TransportHttp)"

definition insert_header :: "string \<Rightarrow> string \<Rightarrow> (string \<times> string) list \<Rightarrow> (string \<times> string) list" where
  "insert_header name v headers = filter (\<lambda>(n, _). n \<noteq> name) headers @ [(name, v)]"

fun add_headers ::
  "transport_env \<Rightarrow> (string \<times> string) list \<Rightarrow> (string \<times> string) list
   \<Rightarrow> (provider_transport_error, (string \<times> string) list) result" where
  "add_headers env headers [] = Inr headers"
| "add_headers env headers ((name, v) # rest) =
     and_then (ok_or (InvalidHeader ''invalid name'') (tv_header_name env name)) (\<lambda>name.
     and_then (ok_or (InvalidHeader ''invalid value'') (tv_header_value env v)) (\<lambda>v.
     add_headers env (insert_header name v headers) rest))"

definition build_request_with_headers ::
  "transport_env \<Rightarrow> string \<Rightarrow> json \<Rightarrow> (string \<times> string) list
   \<Rightarrow> (provider_transport_error, provider_request) result" where
  "build_request_with_headers env endpoint value headers =
     and_then (build_request env endpoint value) (\<lambda>request.
     and_then (add_headers env (tq_headers request) headers) (\<lambda>hs.
     Inr (request\<lparr>tq_headers := hs\<rparr>)))"

definition discover_models ::
  "transport_env \<Rightarrow> string \<Rightarrow> (string \<times> string) list \<Rightarrow> nat
   \<Rightarrow> (provider_transport_error, discovered_model list) result" where
  "discover_models env endpoint headers connect_timeout =
     and_then (if tv_url_ok env endpoint then Inr () else Inl TransportHttp) (\<lambda>_.
     and_then (add_headers env [] headers) (\<lambda>hs.
     and_then (ok_or TransportHttp (tv_execute env
         \<lparr>tq_post = False, tq_endpoint = endpoint, tq_body = None, tq_headers = hs\<rparr> connect_timeout))
       (\<lambda>(status, value).
        if status < 200 \<or> 300 \<le> status then Inl (HttpStatus status)
        else and_then (ok_or TransportHttp value) parse_model_catalog)))"

section \<open>Chat completions\<close>

definition usage_delta :: "json \<Rightarrow> provider_delta list" where
  "usage_delta value =
     (case jget value ''usage'' of
        Some usage \<Rightarrow> if is_null usage then [] else [D_Usage usage]
      | None \<Rightarrow> [])"

definition chat_call_delta :: "bool \<Rightarrow> json \<Rightarrow> provider_delta" where
  "chat_call_delta streaming call =
     (let function = jget call ''function'';
          arguments = unwrap_or [] (Option.bind (Option.bind function (\<lambda>v. jget v ''arguments'')) as_str);
          name = Option.bind (Option.bind function (\<lambda>v. jget v ''name'')) as_str;
          index = Option.bind (jget call ''index'') as_u64;
          call_id = or_else (get_str call ''id'')
                      (map_option (\<lambda>i. ''stream-index-'' @ decimal i) index)
      in if streaming then D_ToolCallDelta index call_id name arguments
         else D_ToolCall call_id name arguments)"

definition chat_choice_deltas :: "bool \<Rightarrow> json \<Rightarrow> provider_delta list" where
  "chat_choice_deltas streaming choice =
     (let delta = or_else (jget choice ''delta'') (jget choice ''message'')
      in (case Option.bind (Option.bind delta (\<lambda>v. jget v ''content'')) as_str of
            Some text \<Rightarrow> if text = [] then [] else [D_Text text]
          | None \<Rightarrow> []) @
         (case Option.bind (Option.bind delta (\<lambda>v. jget v ''tool_calls'')) as_array of
            Some calls \<Rightarrow> map (chat_call_delta streaming) calls
          | None \<Rightarrow> []))"

definition parse_chat_event ::
  "json \<Rightarrow> bool \<Rightarrow> (provider_transport_error, provider_delta list) result" where
  "parse_chat_event value streaming =
     Inr (usage_delta value @
          (case get_array value ''choices'' of
             Some choices \<Rightarrow> concat (map (chat_choice_deltas streaming) choices)
           | None \<Rightarrow> []))"

section \<open>Responses\<close>

definition responses_item_deltas :: "json \<Rightarrow> provider_delta list" where
  "responses_item_deltas item =
     (case get_str item ''type'' of
        None \<Rightarrow> []
      | Some kind \<Rightarrow>
          if kind = ''message'' then
            (case get_array item ''content'' of
               Some contents \<Rightarrow>
                 concat (map (\<lambda>content. case get_str content ''text'' of
                                          Some text \<Rightarrow> [D_Text text] | None \<Rightarrow> []) contents)
             | None \<Rightarrow> [])
          else if kind = ''function_call'' then
            [D_ToolCall (get_str item ''call_id'') (get_str item ''name'')
               (unwrap_or [] (get_str item ''arguments''))]
          else [])"

definition response_kind :: "string option \<Rightarrow> json \<Rightarrow> string" where
  "response_kind event_type value = unwrap_or [] (or_else event_type (get_str value ''type''))"

definition parse_responses_event ::
  "(json \<Rightarrow> string) \<Rightarrow> string option \<Rightarrow> json
   \<Rightarrow> (provider_transport_error, provider_delta list) result" where
  "parse_responses_event to_text event_type value =
     (let kind = response_kind event_type value
      in if kind = ''response.output_text.delta'' then
           Inr (case get_str value ''delta'' of Some text \<Rightarrow> [D_Text text] | None \<Rightarrow> [])
         else if kind = ''response.function_call_arguments.delta'' then Inr []
         else if kind = ''response.function_call_arguments.done'' then
           Inr [D_ToolCall (get_str value ''item_id'') (get_str value ''name'')
                  (unwrap_or [] (get_str value ''arguments''))]
         else if kind = ''response.completed'' then
           Inr ((case pointer value ''/response/usage'' of
                   Some usage \<Rightarrow> [D_Usage usage] | None \<Rightarrow> []) @ [D_Completed])
         else if kind = ''response.failed'' \<or> kind = ''error'' then
           Inl (MalformedSse (to_text value))
         else if kind = ''response.requires_action'' then Inr [D_RequiresAction]
         else if kind = ''response'' \<or> kind = [] then
           Inr (usage_delta value @
                (case get_array value ''output'' of
                   Some items \<Rightarrow> concat (map responses_item_deltas items)
                 | None \<Rightarrow> []))
         else Inr [])"

section \<open>Entry points\<close>

definition parse_sse_event ::
  "(string \<Rightarrow> json option) \<Rightarrow> (json \<Rightarrow> string) \<Rightarrow> provider_protocol \<Rightarrow> string option \<Rightarrow> string
   \<Rightarrow> (provider_transport_error, provider_delta list) result" where
  "parse_sse_event from_str to_text protocol event_type data =
     (if trim data = ''[DONE]'' then Inr [D_Completed]
      else and_then (ok_or InvalidJson (from_str data))
        (\<lambda>value. case protocol of
                   ChatCompletions \<Rightarrow> parse_chat_event value True
                 | Responses \<Rightarrow> parse_responses_event to_text event_type value))"

definition parse_non_stream_response ::
  "(string \<Rightarrow> json option) \<Rightarrow> (json \<Rightarrow> string) \<Rightarrow> provider_protocol \<Rightarrow> string
   \<Rightarrow> (provider_transport_error, provider_delta list) result" where
  "parse_non_stream_response from_str to_text protocol body =
     and_then (ok_or InvalidJson (from_str body))
       (\<lambda>value. and_then
         (case protocol of
            ChatCompletions \<Rightarrow> parse_chat_event value False
          | Responses \<Rightarrow> parse_responses_event to_text None value)
         (\<lambda>deltas. Inr (deltas @ [D_Completed])))"

section \<open>Lemmas on bodies\<close>

text \<open>The reference: the value of a key is the one in the last layer that has it.\<close>

fun last_layer :: "json list \<Rightarrow> string \<Rightarrow> json option" where
  "last_layer [] k = None"
| "last_layer (l # ls) k = or_else (last_layer ls k) (jget l k)"

definition layers_ok :: "json list \<Rightarrow> bool" where
  "layers_ok layers =
     list_all (\<lambda>l. case as_object l of None \<Rightarrow> False | Some m \<Rightarrow> bt_sorted m) layers"

lemma map_of_rev_sorted: "bt_sorted m \<Longrightarrow> map_of (rev m) k = bt_get m k"
proof -
  assume s: "bt_sorted m"
  then have d: "distinct (map fst m)" by (simp add: bt_sorted_def strict_sorted_iff)
  then have "map_of (rev m) k = map_of m k" by (metis map_of_inject_set set_rev distinct_rev rev_map)
  also have "\<dots> = bt_get m k" by (induction m k rule: bt_get.induct) auto
  finally show ?thesis .
qed

lemma merge_layers_get:
  "layers_ok layers \<Longrightarrow> bt_sorted merged \<Longrightarrow>
   \<exists>m. merge_layers i merged layers = Inr (JObj m) \<and> bt_sorted m \<and>
       (\<forall>k. bt_get m k = or_else (last_layer layers k) (bt_get merged k))"
proof (induction i merged layers rule: merge_layers.induct)
  case (2 index merged layer layers)
  from "2.prems"(1) obtain ob where ob: "layer = JObj ob" "bt_sorted ob" and ls: "layers_ok layers"
    by (auto simp: layers_ok_def as_object_Some_iff split: option.splits)
  have "bt_sorted (bt_extend merged ob)" using "2.prems"(2) by (rule bt_sorted_extend)
  moreover have "bt_get (bt_extend merged ob) k = or_else (bt_get ob k) (bt_get merged k)" for k
    by (simp add: bt_get_extend map_of_rev_sorted ob(2) or_else_def split: option.splits)
  ultimately show ?case
    using "2.IH" [of ob] ls ob by (simp add: or_else_assoc)
qed (simp add: layers_ok_def)

lemma merge_layers_error:
  "(\<forall>l \<in> set good. is_object l) \<Longrightarrow> \<not> is_object bad \<Longrightarrow>
   merge_layers i merged (good @ bad # rest) = Inl (LayerIsNotAnObject (i + length good))"
proof (induction good arbitrary: i merged)
  case Nil
  then show ?case by (cases bad) (simp_all add: as_object_def)
next
  case (Cons l good)
  then obtain m where "l = JObj m" by auto
  with Cons.IH [of "Suc i" "bt_extend merged m"] Cons.prems show ?case by simp
qed

section \<open>Lemmas on headers\<close>

lemma insert_header_get:
  "map_of (insert_header name v headers) n = (if n = name then Some v else map_of headers n)"
proof -
  have "map_of (filter (\<lambda>(n, _). n \<noteq> name) headers) n = (if n = name then None else map_of headers n)"
    by (induction headers) auto
  then show ?thesis by (auto simp: insert_header_def map_add_def split: option.splits)
qed

text \<open>A configured header is sent, unless a later one has the same name.\<close>

lemma add_headers_get:
  assumes "add_headers env hs headers = Inr hs'"
  shows "map_of hs' n = (case find (\<lambda>(name, _). tv_header_name env name = Some n) (rev headers) of
           Some (_, v) \<Rightarrow> tv_header_value env v
         | None \<Rightarrow> map_of hs n)"
  using assms
proof (induction headers arbitrary: hs)
  case (Cons h headers)
  obtain name v where h: "h = (name, v)" by (cases h)
  from Cons.prems h obtain n' v' where n: "tv_header_name env name = Some n'" "tv_header_value env v = Some v'"
    "add_headers env (insert_header n' v' hs) headers = Inr hs'"
    by (auto simp: and_then_eq_Inr ok_or_eq_Inr)
  have found: "find P (xs @ [x]) = (case find P xs of Some y \<Rightarrow> Some y | None \<Rightarrow> if P x then Some x else None)"
    for P xs and x :: "string \<times> string"
    by (induction xs) auto
  show ?case
    using Cons.IH [OF n(3)] n(1,2) h by (auto simp: found insert_header_get split: option.splits)
qed simp

section \<open>Lemmas on the catalog\<close>

lemma dedup_by_set: "set (dedup_by same xs) \<subseteq> set xs"
  by (induction same xs rule: dedup_by.induct) auto

lemma dedup_by_hd: "xs \<noteq> [] \<Longrightarrow> dedup_by same xs \<noteq> [] \<and> hd (dedup_by same xs) = hd xs"
  by (induction same xs rule: dedup_by.induct) auto

lemma dedup_by_sorted:
  "sorted (map f xs) \<Longrightarrow>
   sorted_wrt (<) (map f (dedup_by (\<lambda>l r. f l = f r) xs)) \<and>
   f ` set (dedup_by (\<lambda>l r. f l = f r) xs) = f ` set xs"
proof (induction "\<lambda>l r. f l = f r" xs rule: dedup_by.induct)
  case (1 x y xs)
  show ?case
  proof (cases "f y = f x")
    case True
    with 1 show ?thesis by auto
  next
    case False
    with 1(3) have lt: "\<forall>z \<in> set (y # xs). f x < f z" by force
    with 1(2) [OF False] 1(3) have ih:
      "sorted_wrt (<) (map f (dedup_by (\<lambda>l r. f l = f r) (y # xs)))"
      "f ` set (dedup_by (\<lambda>l r. f l = f r) (y # xs)) = f ` set (y # xs)" by auto
    have "\<forall>z \<in> set (dedup_by (\<lambda>l r. f l = f r) (y # xs)). f x < f z"
      using lt dedup_by_set [of "\<lambda>l r. f l = f r" "y # xs"] by blast
    with ih False lt show ?thesis by auto
  qed
qed auto

text \<open>What survives is the first of its group.\<close>

lemma dedup_by_first:
  "sorted (map f xs) \<Longrightarrow> x \<in> set (dedup_by (\<lambda>l r. f l = f r) xs) \<Longrightarrow>
   List.find (\<lambda>z. f z = f x) xs = Some x"
proof (induction "\<lambda>l r. f l = f r" xs rule: dedup_by.induct)
  case (1 y z xs)
  show ?case
  proof (cases "f z = f y")
    case True
    with 1 show ?thesis by (auto split: if_splits)
  next
    case False
    with 1(3) have lt: "\<forall>w \<in> set (z # xs). f y < f w" by force
    from 1(4) False consider "x = y" | "x \<in> set (dedup_by (\<lambda>l r. f l = f r) (z # xs))"
      by auto
    then show ?thesis
    proof cases
      case 2
      from dedup_by_set 2 have "x \<in> set (z # xs)" by (rule subsetD)
      with lt have "f y < f x" by blast
      then have ne: "f y \<noteq> f x" by simp
      from 1(3) have "sorted (map f (z # xs))" by simp
      from 1(2) [OF False this 2] ne show ?thesis by simp
    qed simp
  qed
qed (auto split: if_splits)

lemma find_filter_hd: "List.find p xs = (case filter p xs of [] \<Rightarrow> None | x # _ \<Rightarrow> Some x)"
  by (induction xs) auto

lemma find_sort_key:
  "List.find (\<lambda>z. f z = (k :: 'b::linorder)) (sort_key f xs) = List.find (\<lambda>z. f z = k) xs"
  by (simp add: find_filter_hd sort_key_stable)


lemma parse_model_Inr:
  "parse_model v = Inr m \<longleftrightarrow>
   (\<exists>i. get_str v ''id'' = Some i \<and> trim i \<noteq> [] \<and> m = \<lparr>dm_id = i, dm_metadata = v\<rparr>)"
  by (auto simp: parse_model_def and_then_eq_Inr split: option.splits if_splits)

lemma parse_models:
  "map parse_model data = map Inr models \<Longrightarrow>
   data = map dm_metadata models \<and>
   (\<forall>m \<in> set models. get_str (dm_metadata m) ''id'' = Some (dm_id m) \<and> trim (dm_id m) \<noteq> [])"
proof (induction data arbitrary: models)
  case (Cons d data)
  then obtain m ms where "models = m # ms" "parse_model d = Inr m" "map parse_model data = map Inr ms"
    by (cases models) auto
  with Cons.IH [of ms] show ?case by (auto simp: parse_model_Inr)
qed simp

lemma parse_model_Inl: "parse_model v = Inl e \<Longrightarrow> e = MalformedModelCatalog"
  by (auto simp: parse_model_def and_then_eq_Inl split: option.splits if_splits)

lemma collect_Inl_in: "collect rs = Inl e \<Longrightarrow> Inl e \<in> set rs"
  by (induction rs) (auto simp: and_then_eq_Inl)

lemma parse_model_catalog_Inr:
  assumes "parse_model_catalog v = Inr ms"
  obtains data models where "get_array v ''data'' = Some data"
    and "map parse_model data = map Inr models"
    and "ms = dedup_by (\<lambda>l r. dm_id l = dm_id r) (sort_key dm_id models)"
  using assms by (auto simp: parse_model_catalog_def and_then_eq_Inr collect_eq_Inr)

section \<open>Guarantees\<close>

text \<open>Merging request bodies. When every layer is an object, the merge succeeds, its keys are
  those of all the layers, and each key has the value of the last layer that has it; no key is
  renamed or lost.\<close>

theorem merge_request_bodies_last_wins:
  assumes "layers_ok layers"
  shows "\<exists>v. merge_request_bodies layers = Inr v \<and> is_object v \<and>
             (\<forall>k. jget v k = last_layer layers k)"
  using merge_layers_get [OF assms bt_sorted_empty, of 0]
  by (auto simp: merge_request_bodies_def)

theorem merge_request_bodies_witness:
  "\<exists>v. merge_request_bodies [jobj [(''a'', jnat 1), (''b'', JNull)], jobj [(''a'', jnat 2)]] = Inr v \<and>
       jget v ''a'' = Some (jnat 2) \<and> jget v ''b'' = Some JNull"
proof -
  have "layers_ok [jobj [(''a'', jnat 1), (''b'', JNull)], jobj [(''a'', jnat 2)]]"
    by (simp add: layers_ok_def jobj_def bt_sorted_extend)
  from merge_request_bodies_last_wins [OF this] show ?thesis
    by (auto simp: jget_jobj)
qed

text \<open>The first layer that is not an object is reported by its position, whatever follows it.\<close>

theorem merge_request_bodies_error:
  assumes "\<forall>l \<in> set good. is_object l" and "\<not> is_object bad"
  shows "merge_request_bodies (good @ bad # rest) = Inl (LayerIsNotAnObject (length good))"
  using merge_layers_error [OF assms, of 0 bt_empty rest] by (simp add: merge_request_bodies_def)

theorem merge_request_bodies_error_witness:
  "merge_request_bodies [jobj [], JNull, JBool True] = Inl (LayerIsNotAnObject 1)"
  using merge_request_bodies_error [of "[jobj []]" JNull "[JBool True]"] by (simp add: jobj_def)

text \<open>Parsing a model catalog. On success the models are in strictly increasing order of their
  ids, their ids are exactly those of the entries, none is blank, and each one is the first entry
  with its id; any entry without a usable id, or a missing list, rejects the catalog.\<close>

theorem parse_model_catalog_correct:
  assumes "parse_model_catalog v = Inr ms"
  shows "\<exists>data. get_array v ''data'' = Some data \<and>
           sorted_wrt (<) (map dm_id ms) \<and>
           {Some (dm_id m) | m. m \<in> set ms} = (\<lambda>d. get_str d ''id'') ` set data \<and>
           (\<forall>m \<in> set ms. trim (dm_id m) \<noteq> [] \<and>
              List.find (\<lambda>d. get_str d ''id'' = Some (dm_id m)) data = Some (dm_metadata m))"
proof -
  from assms obtain data models where d: "get_array v ''data'' = Some data"
    and p: "map parse_model data = map Inr models"
    and ms: "ms = dedup_by (\<lambda>l r. dm_id l = dm_id r) (sort_key dm_id models)"
    by (rule parse_model_catalog_Inr)
  have data: "data = map dm_metadata models"
    and ok: "\<forall>m \<in> set models. get_str (dm_metadata m) ''id'' = Some (dm_id m) \<and> trim (dm_id m) \<noteq> []"
    using parse_models [OF p] by blast+
  have s: "sorted (map dm_id (sort_key dm_id models))" by simp
  have sorted: "sorted_wrt (<) (map dm_id ms)" and ids: "dm_id ` set ms = dm_id ` set models"
    using dedup_by_sorted [OF s] by (simp_all add: ms)
  have sub: "set ms \<subseteq> set models"
    using dedup_by_set [of "\<lambda>l r. dm_id l = dm_id r" "sort_key dm_id models"] by (simp add: ms)
  have find_data: "List.find (\<lambda>d. get_str d ''id'' = Some i) data =
      map_option dm_metadata (List.find (\<lambda>m. dm_id m = i) models)" for i
    unfolding data using ok by (induction models) auto
  have "List.find (\<lambda>z. dm_id z = dm_id m) models = Some m" if "m \<in> set ms" for m
    using dedup_by_first [OF s, of m] that by (simp add: ms find_sort_key)
  with sub ok find_data have each: "\<forall>m \<in> set ms. trim (dm_id m) \<noteq> [] \<and>
      List.find (\<lambda>d. get_str d ''id'' = Some (dm_id m)) data = Some (dm_metadata m)"
    by auto
  have "{Some (dm_id m) | m. m \<in> set ms} = Some ` (dm_id ` set ms)" by auto
  also have "\<dots> = (\<lambda>d. get_str d ''id'') ` set data"
    unfolding ids data using ok by (auto simp: image_iff)
  finally show ?thesis using d sorted each by blast
qed

theorem parse_model_catalog_witness:
  "\<exists>ms. parse_model_catalog (jobj [(''data'', JArr [jobj [(''id'', JStr ''b'')],
          jobj [(''id'', JStr ''a'')], jobj [(''id'', JStr ''b''), (''x'', JNull)]])]) = Inr ms \<and>
        sorted_wrt (<) (map dm_id ms) \<and> length ms = 2"
proof -
  let ?v = "jobj [(''data'', JArr [jobj [(''id'', JStr ''b'')],
          jobj [(''id'', JStr ''a'')], jobj [(''id'', JStr ''b''), (''x'', JNull)]])]"
  obtain ms where ms: "parse_model_catalog ?v = Inr ms" "length ms = 2"
    by (simp add: parse_model_catalog_def parse_model_def get_array_def get_str_def jobj_def
        bt_empty_def trim_def trim_end_def trim_start.simps trim_rev.simps is_ascii_ws_def byte_def)
  from parse_model_catalog_correct [OF ms(1)] ms show ?thesis by blast
qed

section \<open>Streams\<close>

definition delta_text :: "provider_delta \<Rightarrow> string" where
  "delta_text d = (case d of D_Text t \<Rightarrow> t | _ \<Rightarrow> [])"

definition delta_call :: "provider_delta \<Rightarrow> bool" where
  "delta_call d = (case d of D_ToolCall _ _ _ \<Rightarrow> True | D_ToolCallDelta _ _ _ _ \<Rightarrow> True | _ \<Rightarrow> False)"

text \<open>What one frame of a response stream stands for: a fragment of text, or a finished call.\<close>

definition frame_text :: "string option \<times> json \<Rightarrow> string" where
  "frame_text fr =
     (if response_kind (fst fr) (snd fr) = ''response.output_text.delta''
      then unwrap_or [] (get_str (snd fr) ''delta'') else [])"

definition frame_calls :: "string option \<times> json \<Rightarrow> provider_delta list" where
  "frame_calls fr =
     (if response_kind (fst fr) (snd fr) = ''response.function_call_arguments.done''
      then [D_ToolCall (get_str (snd fr) ''item_id'') (get_str (snd fr) ''name'')
              (unwrap_or [] (get_str (snd fr) ''arguments''))] else [])"

abbreviation is_frame :: "string option \<times> json \<Rightarrow> bool" where
  "is_frame fr \<equiv> response_kind (fst fr) (snd fr) \<notin> {[], ''response''}"

lemma frame_effect:
  assumes "parse_responses_event to_text (fst fr) (snd fr) = Inr ds" and "is_frame fr"
  shows "concat (map delta_text ds) = frame_text fr \<and> filter delta_call ds = frame_calls fr"
  using assms
  by (auto simp: parse_responses_event_def Let_def frame_text_def frame_calls_def delta_text_def
      delta_call_def split: if_splits option.splits)

text \<open>C40. Streaming from the Responses protocol. For any stream of typed frames that parses, the
  text of the deltas is the concatenation of the \<open>output_text.delta\<close> fragments, in order and each
  once, and the tool calls are those of the \<open>function_call_arguments.done\<close> frames: the summary
  frames add no text and the argument fragments add no call.\<close>

theorem responses_stream_exact:
  assumes "collect (map (\<lambda>fr. parse_responses_event to_text (fst fr) (snd fr)) frames) = Inr dss"
    and "\<forall>fr \<in> set frames. is_frame fr"
  shows "concat (map delta_text (concat dss)) = concat (map frame_text frames) \<and>
         filter delta_call (concat dss) = concat (map frame_calls frames)"
  using assms
proof (induction frames arbitrary: dss)
  case (Cons fr frames)
  then obtain ds rest where "dss = ds # rest"
    and "parse_responses_event to_text (fst fr) (snd fr) = Inr ds"
    and "collect (map (\<lambda>fr. parse_responses_event to_text (fst fr) (snd fr)) frames) = Inr rest"
    by (auto simp: and_then_eq_Inr)
  with Cons.IH [of rest] Cons.prems(2) frame_effect [of to_text fr ds] show ?case by auto
qed simp

definition example_frames :: "(string option \<times> json) list" where
  "example_frames =
     [(Some ''response.output_text.delta'', jobj [(''delta'', JStr ''he'')]),
      (Some ''response.output_text.delta'', jobj [(''delta'', JStr ''y'')]),
      (Some ''response.output_text.done'', jobj [(''text'', JStr ''hey'')]),
      (Some ''response.completed'', jobj [])]"

theorem responses_stream_exact_witness:
  "\<exists>dss. collect (map (\<lambda>fr. parse_responses_event (\<lambda>_. []) (fst fr) (snd fr)) example_frames) = Inr dss \<and>
         concat (map delta_text (concat dss)) = ''hey''"
proof -
  obtain dss where dss: "collect (map (\<lambda>fr. parse_responses_event (\<lambda>_. []) (fst fr) (snd fr))
      example_frames) = Inr dss"
    by (simp add: example_frames_def parse_responses_event_def response_kind_def Let_def)
  have "\<forall>fr \<in> set example_frames. is_frame fr"
    by (simp add: example_frames_def response_kind_def)
  from responses_stream_exact [OF dss this] dss show ?thesis
    by (simp add: example_frames_def frame_text_def response_kind_def get_str_def jget_jobj)
qed

text \<open>When a response is an error. A frame is rejected exactly when its data is not JSON or, in
  the Responses protocol, when it is a failure or error frame; \<open>[DONE]\<close> always ends the stream,
  and a response that is not streamed ends with completion.\<close>

theorem parse_sse_event_errors:
  "(is_ok (parse_sse_event from_str to_text protocol event_type data) \<longleftrightarrow>
      trim data = ''[DONE]'' \<or>
      (\<exists>v. from_str data = Some v \<and>
         \<not> (protocol = Responses \<and>
            (response_kind event_type v = ''response.failed'' \<or> response_kind event_type v = ''error'')))) \<and>
   (\<forall>ds. parse_non_stream_response from_str to_text protocol data = Inr ds \<longrightarrow> last ds = D_Completed)"
  by (cases "from_str data"; cases protocol)
     (auto simp: parse_sse_event_def parse_chat_event_def parse_responses_event_def Let_def
       parse_non_stream_response_def and_then_eq_Inr)

theorem parse_sse_event_errors_witness:
  "\<not> is_ok (parse_sse_event (\<lambda>_. Some JNull) (\<lambda>_. []) Responses (Some ''error'') ''x'')"
  using parse_sse_event_errors [of "\<lambda>_. Some JNull" "\<lambda>_. []" Responses "Some ''error''" "''x''"]
  by (simp add: response_kind_def trim_def trim_end_def trim_start.simps trim_rev.simps
      is_ascii_ws_def byte_def)

end
