(* ===== verification/Store.thy ===== *)
theory Store
  imports Session Provider "HOL-Library.Product_Lexorder"
begin

text \<open>
  \<open>piqo-server/src/storage.rs\<close> and the tables of \<open>piqo-server/migrations\<close>. A table is the list of
  its rows in insertion order; a statement is the function SQLite documents for it, constraints
  included. A transaction that fails is rolled back, so an operation returns either an error, with
  the store as it was, or a value and the new store.

  Arguments stand for what is not in the sources: the clock and the id generator, and the
  \<open>serde\<close> conversions of events to and from JSON and of JSON to and from text. Integer columns
  are naturals, because the integrity triggers reject negative values; a value above \<open>i64::MAX\<close>
  cannot be bound. I/O failures of the database are not modelled, and the reason texts of
  \<open>CorruptSession\<close> are left out.
\<close>

section \<open>Errors\<close>

datatype store_error =
    Database
  | Migration
  | JsonError
  | SessionNotFound string
  | ProjectNotFound string
  | ProjectPathConflict string
  | ProjectDeleting string
  | EventNotFound string nat
  | UnsupportedSchemaVersion nat
  | CorruptSession string
  | InvalidProjection projection_error
  | InvalidCursor
  | InvalidRequest string
  | Conflict string
  | E_QueuePaused
  | QueueNotPaused
  | RunNotFound string
  | ToolCallNotFound string
  | ToolCallWrongRun string string
  | ToolResultConflict string
  | CallerOwnedTranscript
  | NativeToolManaged string
  | McpToolManaged string
  | ProviderNotFound string
  | ProviderUnavailable string
  | ProviderProtocolError string
  | ShuttingDown
  | ShutdownTimeout
  | RunCapacityExceeded
  | SseCapacityExceeded
  | InvalidRetention
  | PermissionRuleNotFound string
  | InvalidPermissionScope
  | AgentLinkConflict string
  | E_Io
  | CorruptDatabase
  | BackupUnavailable

section \<open>Conversions\<close>

record serde =
  to_value :: "semantic_event \<Rightarrow> json"
  from_value :: "json \<Rightarrow> semantic_event option"
  to_text :: "json \<Rightarrow> string"
  from_text :: "string \<Rightarrow> json option"

datatype history_retention = Forever | OneYear | SixMonths | ThreeMonths | OneMonth

fun retention_as_str :: "history_retention \<Rightarrow> string" where
  "retention_as_str Forever = ''forever''"
| "retention_as_str OneYear = ''one_year''"
| "retention_as_str SixMonths = ''six_months''"
| "retention_as_str ThreeMonths = ''three_months''"
| "retention_as_str OneMonth = ''one_month''"

definition retention_parse :: "string \<Rightarrow> (store_error, history_retention) result" where
  "retention_parse value =
     (if value = ''forever'' then Inr Forever
      else if value = ''one_year'' then Inr OneYear
      else if value = ''six_months'' then Inr SixMonths
      else if value = ''three_months'' then Inr ThreeMonths
      else if value = ''one_month'' then Inr OneMonth
      else Inl InvalidRetention)"

fun phase_name :: "session_phase \<Rightarrow> string" where
  "phase_name S_Created = ''created''"
| "phase_name S_Running = ''running''"
| "phase_name S_Interrupted = ''interrupted''"
| "phase_name S_Finished = ''finished''"
| "phase_name S_Failed = ''failed''"

text \<open>\<open>parse_phase\<close> reads the name through \<open>serde\<close>'s snake-case variant names.\<close>

definition parse_phase :: "string \<Rightarrow> (store_error, session_phase) result" where
  "parse_phase value =
     ok_or (CorruptSession ''unknown'')
       (List.find (\<lambda>p. phase_name p = value)
          [S_Created, S_Running, S_Interrupted, S_Finished, S_Failed])"

definition encode_cursor :: "string \<Rightarrow> string \<Rightarrow> string" where
  "encode_cursor created_at sid = created_at @ ''|'' @ sid"

definition decode_cursor :: "string \<Rightarrow> (store_error, string \<times> string) result" where
  "decode_cursor cursor =
     and_then (ok_or InvalidCursor (split_once (CHR ''|'') cursor))
       (\<lambda>(created_at, id). if created_at = [] \<or> id = [] then Inl InvalidCursor
                           else Inr (created_at, id))"

fun permission_scope_name :: "permission_scope \<Rightarrow> string" where
  "permission_scope_name Sc_Once = ''once''"
| "permission_scope_name Sc_Session = ''session''"
| "permission_scope_name Sc_Project = ''project''"
| "permission_scope_name Sc_Configuration = ''configuration''"

definition EVENT_SCHEMA_VERSION :: nat where "EVENT_SCHEMA_VERSION = 1"

section \<open>Tables\<close>

record session_row =
  sr_id :: string
  sr_title :: "string option"
  sr_project_id :: "string option"
  sr_parent_session_id :: "string option"
  sr_forked_at_event_id :: "nat option"
  sr_created_at :: string
  sr_updated_at :: string
  sr_phase :: string
  sr_revision :: nat
  sr_last_event_id :: nat
  sr_history_retention :: string

record event_row =
  er_session_id :: string
  er_event_id :: nat
  er_schema_version :: nat
  er_type :: string
  er_data :: string
  er_occurred_at :: string

record project_row =
  pw_id :: string
  pw_name :: string
  pw_path :: string
  pw_created_at :: string
  pw_updated_at :: string

record permission_rule_row =
  rr_id :: string
  rr_scope :: string
  rr_session_id :: "string option"
  rr_project_id :: "string option"
  rr_agent_id :: string
  rr_tool_name :: string
  rr_created_at :: string

record permission_rule_record =
  pc_id :: string
  pc_scope :: permission_scope
  pc_session_id :: "string option"
  pc_project_id :: "string option"
  pc_agent_id :: string
  pc_tool_name :: string
  pc_created_at :: string

record agent_link_record =
  lr_instance_id :: string
  lr_profile_id :: string
  lr_parent_session_id :: string
  lr_parent_run_id :: string
  lr_parent_call_id :: string
  lr_child_session_id :: string
  lr_child_run_id :: string
  lr_depth :: nat
  lr_budget :: agent_budget
  lr_permission_ceiling :: json
  lr_created_at :: string

record session_summary =
  sm_id :: string
  sm_title :: "string option"
  sm_project_id :: "string option"
  sm_parent_session_id :: "string option"
  sm_forked_at_event_id :: "nat option"
  sm_created_at :: string
  sm_updated_at :: string
  sm_phase :: session_phase
  sm_revision :: nat
  sm_last_event_id :: nat
  sm_history_retention :: history_retention

record session_snapshot =
  sn_summary :: session_summary
  sn_projection :: session_projection

text \<open>The database and, beside it, the in-memory projection cache.\<close>

record store =
  st_sessions :: "session_row list"
  st_events :: "event_row list"
  st_projects :: "project_row list"
  st_rules :: "permission_rule_row list"
  st_links :: "agent_link_record list"
  st_cache :: "(string, session_projection) bt_map"

definition store_empty :: store where
  "store_empty = \<lparr>st_sessions = [], st_events = [], st_projects = [], st_rules = [],
                  st_links = [], st_cache = bt_empty\<rparr>"

section \<open>Statements\<close>

definition find_session :: "store \<Rightarrow> string \<Rightarrow> session_row option" where
  "find_session st sid = List.find (\<lambda>r. sr_id r = sid) (st_sessions st)"

definition update_session :: "string \<Rightarrow> (session_row \<Rightarrow> session_row) \<Rightarrow> store \<Rightarrow> store" where
  "update_session sid f st =
     st\<lparr>st_sessions := map (\<lambda>r. if sr_id r = sid then f r else r) (st_sessions st)\<rparr>"

definition find_project :: "store \<Rightarrow> string \<Rightarrow> project_row option" where
  "find_project st pid = List.find (\<lambda>r. pw_id r = pid) (st_projects st)"

text \<open>\<open>INSERT INTO sessions\<close>: the primary key and the two foreign keys are checked.\<close>

definition insert_session :: "session_row \<Rightarrow> store \<Rightarrow> (store_error, store) result" where
  "insert_session row st =
     (if find_session st (sr_id row) \<noteq> None then Inl Database
      else if (case sr_project_id row of None \<Rightarrow> False | Some pid \<Rightarrow> find_project st pid = None)
      then Inl Database
      else if (case sr_parent_session_id row of None \<Rightarrow> False | Some s \<Rightarrow> find_session st s = None)
      then Inl Database
      else Inr (st\<lparr>st_sessions := st_sessions st @ [row]\<rparr>))"

text \<open>\<open>INSERT INTO events\<close>: the foreign key, the primary key and the envelope trigger.\<close>

definition insert_event :: "event_row \<Rightarrow> store \<Rightarrow> (store_error, store) result" where
  "insert_event row st =
     (if find_session st (er_session_id row) = None then Inl Database
      else if er_event_id row = 0 \<or> er_schema_version row = 0 then Inl Database
      else if list_ex (\<lambda>r. er_session_id r = er_session_id row \<and> er_event_id r = er_event_id row)
                (st_events st)
      then Inl Database
      else Inr (st\<lparr>st_events := st_events st @ [row]\<rparr>))"

definition insert_event_row ::
  "serde \<Rightarrow> string \<Rightarrow> nat \<Rightarrow> string \<Rightarrow> semantic_event \<Rightarrow> store \<Rightarrow> (store_error, store) result" where
  "insert_event_row sd session_id event_id occurred_at event st =
     (let value = to_value sd event
      in and_then (ok_or (CorruptSession session_id) (get_str value ''type''))
        (\<lambda>event_type.
          let data = unwrap_or JNull (jget value ''data'')
          in and_then (ok_or InvalidCursor (i64_try_from event_id))
            (\<lambda>event_id'. insert_event
               \<lparr>er_session_id = session_id, er_event_id = event_id',
                er_schema_version = EVENT_SCHEMA_VERSION, er_type = event_type,
                er_data = to_text sd data, er_occurred_at = occurred_at\<rparr> st)))"

definition recorded_from_row ::
  "serde \<Rightarrow> string \<Rightarrow> event_row \<Rightarrow> (store_error, recorded_event) result" where
  "recorded_from_row sd session_id row =
     (if u16_max < er_schema_version row then Inl (UnsupportedSchemaVersion u16_max)
      else if er_schema_version row \<noteq> EVENT_SCHEMA_VERSION
      then Inl (UnsupportedSchemaVersion (er_schema_version row))
      else and_then (ok_or JsonError (from_text sd (er_data row)))
        (\<lambda>data. and_then
          (ok_or JsonError (from_value sd
             (jobj [(''type'', JStr (er_type row)), (''data'', data)])))
          (\<lambda>event. Inr \<lparr>re_id = er_event_id row, re_session_id = session_id,
                         re_schema_version = er_schema_version row,
                         re_occurred_at = er_occurred_at row, re_event = event,
                         re_raw_data = Some data\<rparr>)))"

text \<open>\<open>SELECT \<dots> FROM events WHERE session_id = ? ORDER BY event_id ASC\<close>\<close>

definition session_rows :: "store \<Rightarrow> string \<Rightarrow> event_row list" where
  "session_rows st sid =
     sort_key er_event_id (filter (\<lambda>r. er_session_id r = sid) (st_events st))"

definition select_events :: "serde \<Rightarrow> store \<Rightarrow> string \<Rightarrow> (store_error, recorded_event list) result" where
  "select_events sd st sid = collect (map (recorded_from_row sd sid) (session_rows st sid))"

section \<open>Projecting a log\<close>

fun project_loop ::
  "string \<Rightarrow> nat \<Rightarrow> session_projection \<Rightarrow> recorded_event list
   \<Rightarrow> (store_error, session_projection) result" where
  "project_loop sid expected p [] = Inr p"
| "project_loop sid expected p (e # es) =
     (if re_id e \<noteq> Suc expected \<or> re_schema_version e \<noteq> EVENT_SCHEMA_VERSION
      then Inl (CorruptSession sid)
      else and_then (map_err InvalidProjection (apply_event p (re_id e) (re_event e)))
             (\<lambda>p'. project_loop sid (Suc expected) p' es))"

definition project_log ::
  "string \<Rightarrow> recorded_event list \<Rightarrow> (store_error, session_projection) result" where
  "project_log sid es =
     and_then (project_loop sid 0 (projection_new sid) es)
       (\<lambda>p. if es = [] then Inl (CorruptSession sid) else Inr p)"

section \<open>Reading sessions\<close>

definition summary_from_row :: "session_row \<Rightarrow> (store_error, session_summary) result" where
  "summary_from_row row =
     and_then (parse_phase (sr_phase row))
       (\<lambda>phase. and_then (retention_parse (sr_history_retention row))
         (\<lambda>retention. Inr
           \<lparr>sm_id = sr_id row, sm_title = sr_title row, sm_project_id = sr_project_id row,
            sm_parent_session_id = sr_parent_session_id row,
            sm_forked_at_event_id = sr_forked_at_event_id row,
            sm_created_at = sr_created_at row, sm_updated_at = sr_updated_at row,
            sm_phase = phase, sm_revision = sr_revision row,
            sm_last_event_id = sr_last_event_id row, sm_history_retention = retention\<rparr>))"

definition get_session :: "string \<Rightarrow> store \<Rightarrow> (store_error, session_summary) result" where
  "get_session sid st =
     and_then (ok_or (SessionNotFound sid) (find_session st sid)) summary_from_row"

definition ensure_session :: "string \<Rightarrow> store \<Rightarrow> (store_error, unit) result" where
  "ensure_session sid st =
     (if find_session st sid \<noteq> None then Inr () else Inl (SessionNotFound sid))"

definition store_events ::
  "serde \<Rightarrow> string \<Rightarrow> nat \<Rightarrow> nat \<Rightarrow> store \<Rightarrow> (store_error, recorded_event list) result" where
  "store_events sd sid after limit st =
     and_then (ensure_session sid st)
       (\<lambda>_. and_then (ok_or InvalidCursor (i64_try_from after))
         (\<lambda>after'.
           let rows = filter (\<lambda>r. after' < er_event_id r) (session_rows st sid);
               rows = (if limit = u32_max then rows else take (max 1 (min limit 200)) rows)
           in collect (map (recorded_from_row sd sid) rows)))"

definition projection ::
  "serde \<Rightarrow> string \<Rightarrow> store \<Rightarrow> (store_error, session_projection \<times> store) result" where
  "projection sd sid st =
     (case bt_get (st_cache st) sid of
        Some p \<Rightarrow> Inr (p, st)
      | None \<Rightarrow>
          and_then (store_events sd sid 0 u32_max st)
            (\<lambda>es. and_then (project_log sid es)
              (\<lambda>p. Inr (p, st\<lparr>st_cache := bt_insert sid p (st_cache st)\<rparr>))))"

definition get_session_snapshot ::
  "serde \<Rightarrow> string \<Rightarrow> store \<Rightarrow> (store_error, session_snapshot) result" where
  "get_session_snapshot sd sid st =
     and_then (get_session sid st)
       (\<lambda>summary. and_then (select_events sd st sid)
         (\<lambda>es. and_then (project_log sid es)
           (\<lambda>p. if ss_last_event_id (sp_state p) \<noteq> Some (sm_last_event_id summary)
                then Inl (CorruptSession sid)
                else Inr \<lparr>sn_summary = summary, sn_projection = p\<rparr>)))"

definition update_session_retention ::
  "string \<Rightarrow> history_retention \<Rightarrow> store \<Rightarrow> (store_error, session_summary \<times> store) result" where
  "update_session_retention sid retention st =
     (if find_session st sid = None then Inl (SessionNotFound sid)
      else let st' = update_session sid
                 (\<lambda>r. r\<lparr>sr_history_retention := retention_as_str retention\<rparr>) st
           in and_then (get_session sid st') (\<lambda>summary. Inr (summary, st')))"

section \<open>Writing sessions\<close>

definition create_session_with_retention ::
  "serde \<Rightarrow> string \<Rightarrow> string \<Rightarrow> string option \<Rightarrow> string option \<Rightarrow> history_retention \<Rightarrow> store
   \<Rightarrow> (store_error, session_summary \<times> store) result" where
  "create_session_with_retention sd sid time title project_id retention st =
     and_then
       (case project_id of
          None \<Rightarrow> Inr ()
        | Some pid \<Rightarrow> if find_project st pid \<noteq> None then Inr () else Inl (ProjectNotFound pid))
       (\<lambda>_. and_then
         (insert_session
            \<lparr>sr_id = sid, sr_title = title, sr_project_id = project_id,
             sr_parent_session_id = None, sr_forked_at_event_id = None, sr_created_at = time,
             sr_updated_at = time, sr_phase = ''created'', sr_revision = 0,
             sr_last_event_id = 1, sr_history_retention = retention_as_str retention\<rparr> st)
         (\<lambda>st1. and_then (insert_event_row sd sid 1 time (SessionCreated title) st1)
           (\<lambda>st2. and_then (get_session sid st2) (\<lambda>summary. Inr (summary, st2)))))"

definition create_session ::
  "serde \<Rightarrow> string \<Rightarrow> string \<Rightarrow> string option \<Rightarrow> string option \<Rightarrow> store
   \<Rightarrow> (store_error, session_summary \<times> store) result" where
  "create_session sd sid time title project_id st =
     create_session_with_retention sd sid time title project_id Forever st"

text \<open>
  \<open>UPDATE sessions SET last_event_id = last_event_id + 1 \<dots> RETURNING last_event_id\<close>. Past
  \<open>i64::MAX\<close> SQLite's sum is a real number, which cannot be read back as an integer.
\<close>

definition next_event_id :: "string \<Rightarrow> store \<Rightarrow> (store_error, nat \<times> store) result" where
  "next_event_id sid st =
     and_then (ok_or (SessionNotFound sid) (find_session st sid))
       (\<lambda>row. let n = Suc (sr_last_event_id row)
              in if i64_max < n then Inl Database
                 else Inr (n, update_session sid (\<lambda>r. r\<lparr>sr_last_event_id := n\<rparr>) st))"

text \<open>The body of the loop of \<open>append_events\<close>; \<open>clock\<close> gives the time at which an event is written.\<close>

fun append_loop ::
  "serde \<Rightarrow> string \<Rightarrow> (nat \<Rightarrow> string) \<Rightarrow> session_projection \<Rightarrow> store \<Rightarrow> semantic_event list
   \<Rightarrow> (store_error, recorded_event list \<times> session_projection \<times> store) result" where
  "append_loop sd sid clock p st [] = Inr ([], p, st)"
| "append_loop sd sid clock p st (event # events) =
     and_then (next_event_id sid st)
       (\<lambda>(event_id, st1). and_then (map_err InvalidProjection (apply_event p event_id event))
         (\<lambda>p'. let occurred_at = clock event_id in
           and_then (insert_event_row sd sid event_id occurred_at event st1)
             (\<lambda>st2. and_then (ok_or InvalidCursor (i64_try_from (ss_revision (sp_state p'))))
               (\<lambda>revision.
                 let st3 = update_session sid
                       (\<lambda>r. r\<lparr>sr_phase := phase_name (ss_phase (sp_state p')),
                              sr_revision := revision, sr_updated_at := occurred_at\<rparr>) st2
                 in and_then (append_loop sd sid clock p' st3 events)
                   (\<lambda>(recorded, q, st4).
                     Inr (\<lparr>re_id = event_id, re_session_id = sid,
                           re_schema_version = EVENT_SCHEMA_VERSION,
                           re_occurred_at = occurred_at, re_event = event,
                           re_raw_data = None\<rparr> # recorded, q, st4))))))"

text \<open>
  \<open>append_events\<close> reads the cache before it opens its transaction: \<open>append_commit\<close> is the part
  after that read.
\<close>

definition append_commit ::
  "serde \<Rightarrow> (nat \<Rightarrow> string) \<Rightarrow> string \<Rightarrow> semantic_event list \<Rightarrow> session_projection option \<Rightarrow> store
   \<Rightarrow> (store_error, recorded_event list \<times> store) result" where
  "append_commit sd clock sid events cached st =
     and_then
       (case cached of
          Some p \<Rightarrow> Inr p
        | None \<Rightarrow> and_then (select_events sd st sid) (project_log sid))
       (\<lambda>p. and_then (append_loop sd sid clock p st events)
         (\<lambda>(recorded, p', st'). Inr (recorded, st'\<lparr>st_cache := bt_insert sid p' (st_cache st')\<rparr>)))"

definition append_events ::
  "serde \<Rightarrow> (nat \<Rightarrow> string) \<Rightarrow> string \<Rightarrow> semantic_event list \<Rightarrow> store
   \<Rightarrow> (store_error, recorded_event list \<times> store) result" where
  "append_events sd clock sid events st =
     (if events = [] then Inr ([], st)
      else append_commit sd clock sid events (bt_get (st_cache st) sid) st)"

definition append_event ::
  "serde \<Rightarrow> (nat \<Rightarrow> string) \<Rightarrow> string \<Rightarrow> semantic_event \<Rightarrow> store
   \<Rightarrow> (store_error, recorded_event \<times> store) result" where
  "append_event sd clock sid event st =
     and_then (append_events sd clock sid [event] st)
       (\<lambda>(recorded, st'). case recorded of
          [] \<Rightarrow> Inl (CorruptSession sid)
        | r # _ \<Rightarrow> Inr (r, st'))"

section \<open>Forking\<close>

fun branch_loop ::
  "serde \<Rightarrow> string \<Rightarrow> string \<Rightarrow> nat \<Rightarrow> session_projection \<Rightarrow> store \<Rightarrow> semantic_event list
   \<Rightarrow> (store_error, session_projection \<times> store) result" where
  "branch_loop sd sid time next_id p st [] = Inr (p, st)"
| "branch_loop sd sid time next_id p st (event # events) =
     and_then (map_err InvalidProjection (apply_event p next_id event))
       (\<lambda>p'. and_then (insert_event_row sd sid next_id time event st)
         (\<lambda>st1. and_then (ok_or InvalidCursor (i64_try_from (ss_revision (sp_state p'))))
           (\<lambda>revision. and_then (ok_or InvalidCursor (i64_try_from next_id))
             (\<lambda>last.
               let st2 = update_session sid
                     (\<lambda>r. r\<lparr>sr_phase := phase_name (ss_phase (sp_state p')),
                            sr_revision := revision, sr_last_event_id := last,
                            sr_updated_at := time\<rparr>) st1
               in and_then (ok_or InvalidCursor (u64_checked_add next_id 1))
                 (\<lambda>next_id'. branch_loop sd sid time next_id' p' st2 events)))))"

definition copy_events :: "string \<Rightarrow> event_row list \<Rightarrow> store \<Rightarrow> (store_error, store) result" where
  "copy_events sid rows st =
     foldl (\<lambda>r row. and_then r (insert_event (row\<lparr>er_session_id := sid\<rparr>))) (Inr st) rows"

definition branch_events :: "string \<Rightarrow> nat \<Rightarrow> session_projection \<Rightarrow> semantic_event list" where
  "branch_events parent at p =
     [SessionForked parent at] @
     (case active_run p of
        Some run \<Rightarrow> [RunInterrupted (rp_run_id run) ''forked_branch'']
      | None \<Rightarrow> []) @
     [QueuePaused]"

definition fork_session ::
  "serde \<Rightarrow> string \<Rightarrow> string \<Rightarrow> string \<Rightarrow> nat \<Rightarrow> string option \<Rightarrow> store
   \<Rightarrow> (store_error, session_summary \<times> store) result" where
  "fork_session sd sid time parent at title st =
     and_then (ok_or (SessionNotFound parent) (find_session st parent))
       (\<lambda>prow. and_then (ok_or InvalidCursor (i64_try_from at))
         (\<lambda>at'.
           let rows = filter (\<lambda>r. er_event_id r \<le> at') (session_rows st parent)
           in if rows = [] \<or> er_event_id (last rows) \<noteq> at' then Inl (EventNotFound parent at)
              else and_then (collect (map (recorded_from_row sd parent) rows))
                (\<lambda>parent_events. and_then (project_log parent parent_events)
                  (\<lambda>p. and_then (ok_or InvalidCursor (i64_try_from (ss_revision (sp_state p))))
                    (\<lambda>revision. and_then
                      (insert_session
                         \<lparr>sr_id = sid, sr_title = title, sr_project_id = sr_project_id prow,
                          sr_parent_session_id = Some parent, sr_forked_at_event_id = Some at',
                          sr_created_at = time, sr_updated_at = time,
                          sr_phase = phase_name (ss_phase (sp_state p)), sr_revision = revision,
                          sr_last_event_id = at', sr_history_retention = ''forever''\<rparr> st)
                      (\<lambda>st1. and_then (copy_events sid rows st1)
                        (\<lambda>st2. and_then (ok_or InvalidCursor (u64_checked_add at 1))
                          (\<lambda>next_id. and_then
                            (branch_loop sd sid time next_id p st2 (branch_events parent at p))
                            (\<lambda>(_, st3). and_then (get_session sid st3)
                              (\<lambda>summary. Inr (summary, st3)))))))))))"

section \<open>Start-up\<close>

fun validate_rows :: "serde \<Rightarrow> store \<Rightarrow> session_row list \<Rightarrow> (store_error, unit) result" where
  "validate_rows sd st [] = Inr ()"
| "validate_rows sd st (row # rows) =
     and_then (store_events sd (sr_id row) 0 u32_max st)
       (\<lambda>es. and_then (project_log (sr_id row) es)
         (\<lambda>p. and_then (parse_phase (sr_phase row))
           (\<lambda>phase.
             if ss_phase (sp_state p) \<noteq> phase \<or> ss_revision (sp_state p) \<noteq> sr_revision row \<or>
                unwrap_or 0 (ss_last_event_id (sp_state p)) \<noteq> sr_last_event_id row
             then Inl (CorruptSession (sr_id row))
             else validate_rows sd st rows)))"

definition validate_all :: "serde \<Rightarrow> store \<Rightarrow> (store_error, unit) result" where
  "validate_all sd st = validate_rows sd st (st_sessions st)"

text \<open>
  \<open>recover_running_sessions\<close> appends in several transactions: an error ends it, and what was
  already appended stays. It returns the store beside the outcome.
\<close>

fun recover_sessions ::
  "serde \<Rightarrow> (nat \<Rightarrow> string) \<Rightarrow> string list \<Rightarrow> store
   \<Rightarrow> (store_error, recorded_event list) result \<times> store" where
  "recover_sessions sd clock [] st = (Inr [], st)"
| "recover_sessions sd clock (sid # sids) st =
     (case append_event sd clock sid (SessionInterrupted ''server_restart'') st of
        Inl e \<Rightarrow> (Inl e, st)
      | Inr (interrupted, st1) \<Rightarrow>
          (case projection sd sid st1 of
             Inl e \<Rightarrow> (Inl e, st1)
           | Inr (p, st2) \<Rightarrow>
               (case (case active_run p of
                        None \<Rightarrow> Inr st2
                      | Some run \<Rightarrow>
                          and_then (append_event sd clock sid
                              (RunInterrupted (rp_run_id run) ''server_restart'') st2)
                            (\<lambda>(_, st3). Inr st3)) of
                  Inl e \<Rightarrow> (Inl e, st2)
                | Inr st3 \<Rightarrow>
                    (case recover_sessions sd clock sids st3 of
                       (Inl e, st4) \<Rightarrow> (Inl e, st4)
                     | (Inr es, st4) \<Rightarrow> (Inr (interrupted # es), st4)))))"

definition recover_running_sessions ::
  "serde \<Rightarrow> (nat \<Rightarrow> string) \<Rightarrow> store
   \<Rightarrow> (store_error, recorded_event list) result \<times> store" where
  "recover_running_sessions sd clock st =
     recover_sessions sd clock
       (map sr_id (filter (\<lambda>r. sr_phase r = ''running'') (st_sessions st))) st"

section \<open>Pages\<close>

text \<open>\<open>ORDER BY created_at DESC, id DESC\<close>, from the cursor on, at most \<open>limit\<close> rows and a cursor
  when there are more.\<close>

definition page_rows ::
  "('r \<Rightarrow> string \<times> string) \<Rightarrow> (string \<times> string) option \<Rightarrow> nat \<Rightarrow> 'r list \<Rightarrow> 'r list" where
  "page_rows key from limit rows =
     take (limit + 1)
       (rev (sort_key key
          (filter (\<lambda>r. case from of None \<Rightarrow> True | Some k \<Rightarrow> key r < k) rows)))"

definition session_key :: "session_row \<Rightarrow> string \<times> string" where
  "session_key r = (sr_created_at r, sr_id r)"

definition list_sessions_where ::
  "(session_row \<Rightarrow> bool) \<Rightarrow> string option \<Rightarrow> nat \<Rightarrow> store
   \<Rightarrow> (store_error, session_summary list \<times> string option) result" where
  "list_sessions_where clause cursor limit st =
     and_then
       (case cursor of None \<Rightarrow> Inr None | Some c \<Rightarrow> and_then (decode_cursor c) (\<lambda>k. Inr (Some k)))
       (\<lambda>from.
         let limit = max 1 (min limit 200);
             rows = page_rows session_key from limit (filter clause (st_sessions st));
             has_more = limit < length rows
         in and_then (collect (map summary_from_row (take limit rows)))
           (\<lambda>summaries. Inr (summaries,
              if has_more \<and> summaries \<noteq> []
              then Some (encode_cursor (sm_created_at (last summaries)) (sm_id (last summaries)))
              else None)))"

definition list_sessions ::
  "string option \<Rightarrow> nat \<Rightarrow> store
   \<Rightarrow> (store_error, session_summary list \<times> string option) result" where
  "list_sessions = list_sessions_where (\<lambda>_. True)"

definition list_unassigned_sessions ::
  "string option \<Rightarrow> nat \<Rightarrow> store
   \<Rightarrow> (store_error, session_summary list \<times> string option) result" where
  "list_unassigned_sessions = list_sessions_where (\<lambda>r. sr_project_id r = None)"

definition get_project :: "string \<Rightarrow> store \<Rightarrow> (store_error, project_row) result" where
  "get_project pid st = ok_or (ProjectNotFound pid) (find_project st pid)"

definition list_project_sessions ::
  "string \<Rightarrow> string option \<Rightarrow> nat \<Rightarrow> store
   \<Rightarrow> (store_error, session_summary list \<times> string option) result" where
  "list_project_sessions pid cursor limit st =
     and_then (get_project pid st)
       (\<lambda>_. list_sessions_where (\<lambda>r. sr_project_id r = Some pid) cursor limit st)"

definition project_key :: "project_row \<Rightarrow> string \<times> string" where
  "project_key r = (pw_created_at r, pw_id r)"

definition list_projects ::
  "string option \<Rightarrow> nat \<Rightarrow> store \<Rightarrow> (store_error, project_row list \<times> string option) result" where
  "list_projects cursor limit st =
     and_then
       (case cursor of None \<Rightarrow> Inr None | Some c \<Rightarrow> and_then (decode_cursor c) (\<lambda>k. Inr (Some k)))
       (\<lambda>from.
         let limit = max 1 (min limit 200);
             rows = page_rows project_key from limit (st_projects st);
             projects = take limit rows
         in Inr (projects,
              if limit < length rows
              then Some (encode_cursor (pw_created_at (last projects)) (pw_id (last projects)))
              else None))"

section \<open>Projects\<close>

text \<open>\<open>CHECK (length(trim(name)) > 0)\<close>: SQLite trims spaces and counts up to the first NUL.\<close>

definition project_name_ok :: "string \<Rightarrow> bool" where
  "project_name_ok name =
     (takeWhile (\<lambda>c. c \<noteq> CHR 0x00)
        (trim_end_matches (\<lambda>c. c = CHR '' '') (dropWhile (\<lambda>c. c = CHR '' '') name)) \<noteq> [])"

definition create_project ::
  "string \<Rightarrow> string \<Rightarrow> string \<Rightarrow> string \<Rightarrow> store \<Rightarrow> (store_error, project_row \<times> store) result" where
  "create_project pid time name path st =
     (if \<not> project_name_ok name then Inl Database
      else if list_ex (\<lambda>r. pw_id r = pid \<or> pw_path r = path) (st_projects st)
      then Inl (ProjectPathConflict path)
      else let st' = st\<lparr>st_projects := st_projects st @
                 [\<lparr>pw_id = pid, pw_name = name, pw_path = path, pw_created_at = time,
                   pw_updated_at = time\<rparr>]\<rparr>
           in and_then (get_project pid st') (\<lambda>p. Inr (p, st')))"

definition update_project ::
  "string \<Rightarrow> string \<Rightarrow> string option \<Rightarrow> string option \<Rightarrow> store
   \<Rightarrow> (store_error, project_row \<times> store) result" where
  "update_project time pid name path st =
     and_then (get_project pid st)
       (\<lambda>current.
         let name = unwrap_or (pw_name current) name;
             path = unwrap_or (pw_path current) path
         in if \<not> project_name_ok name then Inl Database
            else if list_ex (\<lambda>r. pw_id r \<noteq> pid \<and> pw_path r = path) (st_projects st)
            then Inl (ProjectPathConflict path)
            else let st' = st\<lparr>st_projects := map (\<lambda>r. if pw_id r = pid
                       then r\<lparr>pw_name := name, pw_path := path, pw_updated_at := time\<rparr> else r)
                       (st_projects st)\<rparr>
                 in and_then (get_project pid st') (\<lambda>p. Inr (p, st')))"

definition project_session_ids :: "string \<Rightarrow> store \<Rightarrow> (store_error, string list) result" where
  "project_session_ids pid st =
     and_then (get_project pid st)
       (\<lambda>_. Inr (sort (map sr_id (filter (\<lambda>r. sr_project_id r = Some pid) (st_sessions st)))))"

text \<open>
  \<open>DELETE FROM projects\<close> with its cascades: the project's sessions, their events, and the rules
  and links that refer to them. A fork left behind whose parent is deleted would violate its
  foreign key and abort the statement.
\<close>

definition delete_project_rows :: "string \<Rightarrow> store \<Rightarrow> (store_error, store) result" where
  "delete_project_rows pid st =
     (let gone = (\<lambda>r. sr_project_id r = Some pid);
          gone_id = (\<lambda>sid. list_ex (\<lambda>r. gone r \<and> sr_id r = sid) (st_sessions st));
          kept = filter (\<lambda>r. \<not> gone r) (st_sessions st)
      in if list_ex (\<lambda>r. case sr_parent_session_id r of None \<Rightarrow> False | Some s \<Rightarrow> gone_id s) kept
         then Inl Database
         else Inr (st\<lparr>st_projects := filter (\<lambda>p. pw_id p \<noteq> pid) (st_projects st),
                      st_sessions := kept,
                      st_events := filter (\<lambda>e. \<not> gone_id (er_session_id e)) (st_events st),
                      st_rules := filter (\<lambda>r. rr_project_id r \<noteq> Some pid \<and>
                          (case rr_session_id r of None \<Rightarrow> True | Some s \<Rightarrow> \<not> gone_id s))
                        (st_rules st),
                      st_links := filter (\<lambda>l. \<not> gone_id (lr_parent_session_id l) \<and>
                          \<not> gone_id (lr_child_session_id l)) (st_links st)\<rparr>))"

definition delete_project :: "string \<Rightarrow> store \<Rightarrow> (store_error, store) result" where
  "delete_project pid st =
     and_then (project_session_ids pid st)
       (\<lambda>ids. and_then (delete_project_rows pid st)
         (\<lambda>st'. Inr (st'\<lparr>st_cache := foldl (\<lambda>c sid. bt_remove sid c) (st_cache st') ids\<rparr>)))"

definition session_ids :: "store \<Rightarrow> string list" where
  "session_ids st = sort (map sr_id (st_sessions st))"

section \<open>Permission rules\<close>

definition permission_rule_from_row ::
  "permission_rule_row \<Rightarrow> (store_error, permission_rule_record) result" where
  "permission_rule_from_row row =
     and_then
       (if rr_scope row = ''session'' then Inr Sc_Session
        else if rr_scope row = ''project'' then Inr Sc_Project
        else if rr_scope row = ''configuration'' then Inr Sc_Configuration
        else Inl InvalidPermissionScope)
       (\<lambda>scope. Inr \<lparr>pc_id = rr_id row, pc_scope = scope, pc_session_id = rr_session_id row,
                      pc_project_id = rr_project_id row, pc_agent_id = rr_agent_id row,
                      pc_tool_name = rr_tool_name row, pc_created_at = rr_created_at row\<rparr>)"

definition permission_rules :: "store \<Rightarrow> (store_error, permission_rule_record list) result" where
  "permission_rules st =
     collect (map permission_rule_from_row
       (rev (sort_key (\<lambda>r. (rr_created_at r, rr_id r)) (st_rules st))))"

definition rule_rank :: "permission_rule_row \<Rightarrow> nat" where
  "rule_rank r =
     (if rr_scope r = ''session'' then 3 else if rr_scope r = ''project'' then 2 else 1)"

definition rule_applies ::
  "string \<Rightarrow> string option \<Rightarrow> string \<Rightarrow> string \<Rightarrow> permission_rule_row \<Rightarrow> bool" where
  "rule_applies sid pid agent_id tool_name r =
     (rr_agent_id r = agent_id \<and> rr_tool_name r = tool_name \<and>
      ((rr_scope r = ''session'' \<and> rr_session_id r = Some sid) \<or>
       (rr_scope r = ''project'' \<and> pid \<noteq> None \<and> rr_project_id r = pid) \<or>
       rr_scope r = ''configuration''))"

text \<open>Of rules that tie in rank and time, SQL leaves open which comes first; here, the newest row.\<close>

definition matching_permission_rule ::
  "string \<Rightarrow> string option \<Rightarrow> string \<Rightarrow> string \<Rightarrow> store
   \<Rightarrow> (store_error, permission_rule_record option) result" where
  "matching_permission_rule sid pid agent_id tool_name st =
     (case rev (sort_key (\<lambda>r. (rule_rank r, rr_created_at r))
                  (filter (rule_applies sid pid agent_id tool_name) (st_rules st))) of
        [] \<Rightarrow> Inr None
      | row # _ \<Rightarrow> and_then (permission_rule_from_row row) (\<lambda>rule. Inr (Some rule)))"

text \<open>The \<open>CHECK\<close> constraint of \<open>permission_rules\<close> and its two foreign keys.\<close>

definition rule_row_ok :: "permission_rule_row \<Rightarrow> store \<Rightarrow> bool" where
  "rule_row_ok r st =
     (((rr_scope r = ''session'' \<and> rr_session_id r \<noteq> None \<and> rr_project_id r = None) \<or>
       (rr_scope r = ''project'' \<and> rr_session_id r = None \<and> rr_project_id r \<noteq> None) \<or>
       (rr_scope r = ''configuration'' \<and> rr_session_id r = None \<and> rr_project_id r = None)) \<and>
      (case rr_session_id r of None \<Rightarrow> True | Some s \<Rightarrow> find_session st s \<noteq> None) \<and>
      (case rr_project_id r of None \<Rightarrow> True | Some p \<Rightarrow> find_project st p \<noteq> None))"

definition create_permission_rule ::
  "string \<Rightarrow> string \<Rightarrow> permission_scope \<Rightarrow> string option \<Rightarrow> string option \<Rightarrow> string \<Rightarrow> string \<Rightarrow> store
   \<Rightarrow> (store_error, permission_rule_record \<times> store) result" where
  "create_permission_rule rid time scope sid pid agent_id tool_name st =
     (if scope = Sc_Once then Inl InvalidPermissionScope
      else let row = \<lparr>rr_id = rid, rr_scope = permission_scope_name scope, rr_session_id = sid,
                      rr_project_id = pid, rr_agent_id = agent_id, rr_tool_name = tool_name,
                      rr_created_at = time\<rparr>
           in if \<not> rule_row_ok row st \<or> list_ex (\<lambda>r. rr_id r = rid) (st_rules st)
              then Inl Database
              else Inr (\<lparr>pc_id = rid, pc_scope = scope, pc_session_id = sid,
                         pc_project_id = pid, pc_agent_id = agent_id,
                         pc_tool_name = tool_name, pc_created_at = time\<rparr>,
                        st\<lparr>st_rules := st_rules st @ [row]\<rparr>))"

definition delete_permission_rule :: "string \<Rightarrow> store \<Rightarrow> (store_error, store) result" where
  "delete_permission_rule rid st =
     (if \<not> list_ex (\<lambda>r. rr_id r = rid) (st_rules st) then Inl (PermissionRuleNotFound rid)
      else Inr (st\<lparr>st_rules := filter (\<lambda>r. rr_id r \<noteq> rid) (st_rules st)\<rparr>))"

section \<open>Agent links\<close>

text \<open>The budget and ceiling columns hold JSON text that is written and read by \<open>serde\<close>; the rows
  carry the values.\<close>

definition create_agent_link :: "agent_link_record \<Rightarrow> store \<Rightarrow> (store_error, store) result" where
  "create_agent_link r st =
     (if list_ex (\<lambda>l. lr_instance_id l = lr_instance_id r \<or> lr_parent_call_id l = lr_parent_call_id r \<or>
                      lr_child_session_id l = lr_child_session_id r) (st_links st) \<or>
         lr_depth r = 0 \<or> find_session st (lr_parent_session_id r) = None \<or>
         find_session st (lr_child_session_id r) = None
      then Inl (AgentLinkConflict (lr_parent_call_id r))
      else Inr (st\<lparr>st_links := st_links st @ [r]\<rparr>))"

definition agent_links :: "string \<Rightarrow> store \<Rightarrow> (store_error, agent_link_record list) result" where
  "agent_links sid st =
     and_then (ensure_session sid st)
       (\<lambda>_. Inr (sort_key (\<lambda>l. (lr_created_at l, lr_instance_id l))
          (filter (\<lambda>l. lr_parent_session_id l = sid \<or> lr_child_session_id l = sid) (st_links st))))"

end
