(* ===== verification/Store_Invariant.thy ===== *)
theory Store_Invariant
  imports Store Session_Properties
begin

text \<open>
  What the store promises. The log of each session is contiguous and replays; the phase,
  revision and last event id kept in the session's row are those of the replayed log; the cached
  projections are the replayed ones. Every operation keeps this, an append does to the log what
  the abstract specification says (a guarded append to a list of events), and the start-up
  validation accepts every store that has it.
\<close>

section \<open>Events that survive storage\<close>

text \<open>
  An event is storable when \<open>serde\<close> gives it a type tag and reads back what it wrote: the
  documented round trip of a derived \<open>Serialize\<close>/\<open>Deserialize\<close> pair on a value.
\<close>

definition storable :: "serde \<Rightarrow> semantic_event \<Rightarrow> bool" where
  "storable sd e =
     (case get_str (to_value sd e) ''type'' of
        None \<Rightarrow> False
      | Some t \<Rightarrow>
          (case from_text sd (to_text sd (unwrap_or JNull (jget (to_value sd e) ''data''))) of
             None \<Rightarrow> False
           | Some d \<Rightarrow> from_value sd (jobj [(''type'', JStr t), (''data'', d)]) = Some e))"

section \<open>The invariant\<close>

definition replay :: "serde \<Rightarrow> store \<Rightarrow> string \<Rightarrow> (store_error, session_projection) result" where
  "replay sd st sid = and_then (select_events sd st sid) (project_log sid)"

text \<open>A session's row agrees with the replay of its log.\<close>

definition row_agrees :: "serde \<Rightarrow> store \<Rightarrow> session_row \<Rightarrow> bool" where
  "row_agrees sd st r =
     (case replay sd st (sr_id r) of
        Inl _ \<Rightarrow> False
      | Inr p \<Rightarrow>
          sr_phase r = phase_name (ss_phase (sp_state p)) \<and>
          sr_revision r = ss_revision (sp_state p) \<and>
          sr_last_event_id r = length (session_rows st (sr_id r)) \<and>
          sr_last_event_id r \<le> i64_max)"

definition retention_ok :: "session_row \<Rightarrow> bool" where
  "retention_ok r = is_ok (retention_parse (sr_history_retention r))"

definition cache_ok :: "serde \<Rightarrow> store \<Rightarrow> bool" where
  "cache_ok sd st =
     (bt_sorted (st_cache st) \<and>
      list_all (\<lambda>(sid, p). find_session st sid \<noteq> None \<and> replay sd st sid = Inr p) (st_cache st))"

definition refs_ok :: "store \<Rightarrow> bool" where
  "refs_ok st =
     (distinct (map sr_id (st_sessions st)) \<and>
      list_all (\<lambda>e. find_session st (er_session_id e) \<noteq> None) (st_events st) \<and>
      list_all (\<lambda>r. case sr_project_id r of None \<Rightarrow> True | Some p \<Rightarrow> find_project st p \<noteq> None)
        (st_sessions st))"

definition store_ok :: "serde \<Rightarrow> store \<Rightarrow> bool" where
  "store_ok sd st =
     (refs_ok st \<and> list_all (\<lambda>r. row_agrees sd st r \<and> retention_ok r) (st_sessions st) \<and>
      cache_ok sd st)"

text \<open>The abstraction: a session is the list of its events.\<close>

definition session_log :: "serde \<Rightarrow> store \<Rightarrow> string \<Rightarrow> semantic_event list" where
  "session_log sd st sid =
     (case select_events sd st sid of Inl _ \<Rightarrow> [] | Inr es \<Rightarrow> map re_event es)"

section \<open>Projecting\<close>

definition versions_ok :: "recorded_event list \<Rightarrow> bool" where
  "versions_ok es = list_all (\<lambda>e. re_schema_version e = EVENT_SCHEMA_VERSION) es"

lemma versions_ok_simps [simp]:
  "versions_ok []"
  "versions_ok (e # es) \<longleftrightarrow> re_schema_version e = EVENT_SCHEMA_VERSION \<and> versions_ok es"
  by (simp_all add: versions_ok_def)

lemma project_loop_ok:
  "consecutive (Suc n) es \<Longrightarrow> versions_ok es \<Longrightarrow>
   project_loop sid n p es = map_err InvalidProjection (apply_events p (Suc n) (map re_event es))"
proof (induction es arbitrary: n p)
  case (Cons e es)
  then show ?case by (cases "apply_event p (Suc n) (re_event e)") simp_all
qed simp

lemma project_loop_Inr:
  "project_loop sid n p es = Inr q \<Longrightarrow> consecutive (Suc n) es \<and> versions_ok es"
  by (induction es arbitrary: n p) (auto simp: and_then_eq_Inr split: if_splits)

lemma project_log_Inr:
  "project_log sid es = Inr p \<longleftrightarrow>
   es \<noteq> [] \<and> log_ok es \<and> versions_ok es \<and>
   apply_events (projection_new sid) 1 (map re_event es) = Inr p"
proof
  assume "project_log sid es = Inr p"
  then have l: "project_loop sid 0 (projection_new sid) es = Inr p" and ne: "es \<noteq> []"
    by (auto simp: project_log_def and_then_eq_Inr split: if_splits)
  from project_loop_Inr [OF l] have "log_ok es" "versions_ok es" by simp_all
  moreover from this l project_loop_ok [of 0 es sid "projection_new sid"]
  have "map_err InvalidProjection (apply_events (projection_new sid) 1 (map re_event es)) = Inr p"
    by simp
  ultimately show "es \<noteq> [] \<and> log_ok es \<and> versions_ok es \<and>
    apply_events (projection_new sid) 1 (map re_event es) = Inr p"
    using ne by (simp only: map_err_eq_Inr) simp
next
  assume "es \<noteq> [] \<and> log_ok es \<and> versions_ok es \<and>
    apply_events (projection_new sid) 1 (map re_event es) = Inr p"
  then show "project_log sid es = Inr p"
    using project_loop_ok [of 0 es sid "projection_new sid"] by (simp add: project_log_def)
qed

section \<open>Rows\<close>

definition event_row_of ::
  "serde \<Rightarrow> string \<Rightarrow> (nat \<Rightarrow> string) \<Rightarrow> nat \<Rightarrow> semantic_event \<Rightarrow> event_row" where
  "event_row_of sd sid clock n e =
     \<lparr>er_session_id = sid, er_event_id = n, er_schema_version = EVENT_SCHEMA_VERSION,
      er_type = unwrap_or [] (get_str (to_value sd e) ''type''),
      er_data = to_text sd (unwrap_or JNull (jget (to_value sd e) ''data'')),
      er_occurred_at = clock n\<rparr>"

fun event_rows ::
  "serde \<Rightarrow> string \<Rightarrow> (nat \<Rightarrow> string) \<Rightarrow> nat \<Rightarrow> semantic_event list \<Rightarrow> event_row list" where
  "event_rows sd sid clock n [] = []"
| "event_rows sd sid clock n (e # es) =
     event_row_of sd sid clock n e # event_rows sd sid clock (Suc n) es"

lemma event_row_of_simps [simp]:
  "er_session_id (event_row_of sd sid clock n e) = sid"
  "er_event_id (event_row_of sd sid clock n e) = n"
  by (simp_all add: event_row_of_def)

lemma length_event_rows [simp]: "length (event_rows sd sid clock n es) = length es"
  by (induction es arbitrary: n) simp_all

lemma event_rows_append:
  "event_rows sd sid clock n (es @ fs) =
   event_rows sd sid clock n es @ event_rows sd sid clock (n + length es) fs"
  by (induction es arbitrary: n) simp_all

lemma event_rows_in:
  "r \<in> set (event_rows sd sid clock n es) \<Longrightarrow>
   er_session_id r = sid \<and> n \<le> er_event_id r \<and> er_event_id r < n + length es"
  by (induction es arbitrary: n) fastforce+

lemma event_rows_ids: "map er_event_id (event_rows sd sid clock n es) = [n..<n + length es]"
  by (induction es arbitrary: n) (simp_all add: upt_rec)

lemma storable_row:
  assumes "storable sd e"
  shows "\<exists>d. recorded_from_row sd sid (event_row_of sd sid clock n e) =
    Inr \<lparr>re_id = n, re_session_id = sid, re_schema_version = EVENT_SCHEMA_VERSION,
         re_occurred_at = clock n, re_event = e, re_raw_data = Some d\<rparr>"
proof -
  have "EVENT_SCHEMA_VERSION \<le> u16_max" by (simp add: EVENT_SCHEMA_VERSION_def u16_max_def)
  with assms show ?thesis
    by (auto simp: storable_def recorded_from_row_def event_row_of_def split: option.splits)
qed

lemma collect_event_rows:
  assumes "list_all (storable sd) es"
  shows "\<exists>recs. collect (map (recorded_from_row sd sid) (event_rows sd sid clock n es)) = Inr recs \<and>
           consecutive n recs \<and> versions_ok recs \<and> map re_event recs = es"
  using assms
proof (induction es arbitrary: n)
  case (Cons e es)
  from Cons.prems have "storable sd e" and es: "list_all (storable sd) es" by simp_all
  from storable_row [OF this(1), of sid clock n] Cons.IH [OF es, of "Suc n"]
  show ?case by auto
qed simp

lemma recorded_from_row_id: "recorded_from_row sd sid row = Inr e \<Longrightarrow> re_id e = er_event_id row"
  by (auto simp: recorded_from_row_def and_then_eq_Inr split: if_splits)

lemma collect_rows_ids:
  "collect (map (recorded_from_row sd sid) rows) = Inr es \<Longrightarrow> map re_id es = map er_event_id rows"
proof (induction rows arbitrary: es)
  case (Cons r rows)
  then show ?case by (auto simp: and_then_eq_Inr dest: recorded_from_row_id)
qed simp

lemma consecutive_ids: "consecutive n es \<longleftrightarrow> map re_id es = [n..<n + length es]"
proof (induction es arbitrary: n)
  case (Cons e es)
  have "[n..<n + length (e # es)] = n # [Suc n..<Suc n + length es]" by (simp add: upt_rec)
  with Cons show ?case by auto
qed simp

section \<open>Sorting appended rows\<close>

lemma sort_key_append_above:
  fixes f :: "'a \<Rightarrow> nat"
  assumes "\<And>x y. x \<in> set xs \<Longrightarrow> y \<in> set ys \<Longrightarrow> f x < f y" and "sorted (map f ys)"
  shows "sort_key f (xs @ ys) = sort_key f xs @ ys"
proof (rule properties_for_sort_key)
  show "mset (sort_key f xs @ ys) = mset (xs @ ys)" by simp
  show "filter (\<lambda>x. f k = f x) (sort_key f xs @ ys) = filter (\<lambda>x. f k = f x) (xs @ ys)" for k
    using sort_key_stable [of f "f k" xs] by (simp add: eq_commute)
  show "sorted (map f (sort_key f xs @ ys))"
    using assms by (auto simp: sorted_append less_imp_le)
qed

definition ids_below :: "store \<Rightarrow> string \<Rightarrow> nat \<Rightarrow> bool" where
  "ids_below st sid n = list_all (\<lambda>r. er_session_id r = sid \<longrightarrow> er_event_id r \<le> n) (st_events st)"

lemma session_rows_same: "st_events st' = st_events st \<Longrightarrow> session_rows st' sid = session_rows st sid"
  by (simp add: session_rows_def)

lemma select_events_same:
  "session_rows st' sid = session_rows st sid \<Longrightarrow> select_events sd st' sid = select_events sd st sid"
  by (simp add: select_events_def)

lemma replay_same:
  "session_rows st' sid = session_rows st sid \<Longrightarrow> replay sd st' sid = replay sd st sid"
  by (simp add: replay_def select_events_def)

lemma filter_event_rows:
  "filter (\<lambda>r. er_session_id r = sid') (event_rows sd sid clock n es) =
   (if sid' = sid then event_rows sd sid clock n es else [])"
  by (induction es arbitrary: n) auto

lemma session_rows_append:
  assumes "st_events st' = st_events st @ event_rows sd sid clock (Suc n) es"
    and "ids_below st sid n"
  shows "session_rows st' sid = session_rows st sid @ event_rows sd sid clock (Suc n) es"
    and "sid' \<noteq> sid \<Longrightarrow> session_rows st' sid' = session_rows st sid'"
proof -
  let ?new = "event_rows sd sid clock (Suc n) es"
  have "sort_key er_event_id (filter (\<lambda>r. er_session_id r = sid) (st_events st) @ ?new)
        = session_rows st sid @ ?new"
    unfolding session_rows_def
  proof (rule sort_key_append_above)
    show "er_event_id x < er_event_id y"
      if "x \<in> set (filter (\<lambda>r. er_session_id r = sid) (st_events st))" "y \<in> set ?new" for x y
      using that assms(2) event_rows_in [OF that(2)] by (auto simp: ids_below_def list_all_iff)
    show "sorted (map er_event_id ?new)" unfolding event_rows_ids by (rule sorted_upt)
  qed
  then show "session_rows st' sid = session_rows st sid @ ?new"
    by (simp add: session_rows_def [of st'] assms(1) filter_event_rows)
  show "sid' \<noteq> sid \<Longrightarrow> session_rows st' sid' = session_rows st sid'"
    by (simp add: session_rows_def assms(1) filter_event_rows)
qed

section \<open>The effect of an append\<close>

definition row_after ::
  "(nat \<Rightarrow> string) \<Rightarrow> nat \<Rightarrow> session_projection \<Rightarrow> session_row \<Rightarrow> session_row" where
  "row_after clock n q r =
     r\<lparr>sr_last_event_id := n, sr_phase := phase_name (ss_phase (sp_state q)),
       sr_revision := ss_revision (sp_state q), sr_updated_at := clock n\<rparr>"

definition appended ::
  "serde \<Rightarrow> string \<Rightarrow> (nat \<Rightarrow> string) \<Rightarrow> nat \<Rightarrow> semantic_event list \<Rightarrow> session_projection \<Rightarrow> store
   \<Rightarrow> store" where
  "appended sd sid clock n es q st =
     (if es = [] then st
      else update_session sid (row_after clock (n + length es) q)
        (st\<lparr>st_events := st_events st @ event_rows sd sid clock (Suc n) es\<rparr>))"

lemma update_session_simps [simp]:
  "st_events (update_session sid f st) = st_events st"
  "st_projects (update_session sid f st) = st_projects st"
  "st_rules (update_session sid f st) = st_rules st"
  "st_links (update_session sid f st) = st_links st"
  "st_cache (update_session sid f st) = st_cache st"
  by (simp_all add: update_session_def)

lemma find_map_id:
  "(\<And>r. sr_id (f r) = sr_id r) \<Longrightarrow>
   List.find (\<lambda>r. sr_id r = k) (map (\<lambda>r. if sr_id r = sid then f r else r) rs) =
   map_option (\<lambda>r. if sr_id r = sid then f r else r) (List.find (\<lambda>r. sr_id r = k) rs)"
  by (induction rs) auto

lemma find_update_session:
  assumes "\<And>r. sr_id (f r) = sr_id r"
  shows "find_session (update_session sid f st) k =
         (if k = sid then map_option f (find_session st k) else find_session st k)"
proof -
  have "map_option (\<lambda>r. if sr_id r = sid then f r else r) (find_session st k) =
        (if k = sid then map_option f (find_session st k) else find_session st k)"
    using find_Some_iff_set [of "\<lambda>r. sr_id r = k" "st_sessions st"]
    by (cases "find_session st k") (auto simp: find_session_def)
  then show ?thesis
    using find_map_id [of f k sid "st_sessions st", OF assms]
    by (simp add: find_session_def update_session_def)
qed

lemma find_session_cong: "st_sessions st' = st_sessions st \<Longrightarrow> find_session st' k = find_session st k"
  by (simp add: find_session_def)

lemma update_session_twice:
  "(\<And>r. sr_id (f r) = sr_id r) \<Longrightarrow>
   update_session sid g (update_session sid f st) = update_session sid (g \<circ> f) st"
  by (simp add: update_session_def)

lemma update_session_events:
  "(update_session sid f st)\<lparr>st_events := x\<rparr> = update_session sid f (st\<lparr>st_events := x\<rparr>)"
  by (simp add: update_session_def)

lemma row_after_id [simp]: "sr_id (row_after clock n q r) = sr_id r"
  by (simp add: row_after_def)

lemma row_after_twice: "row_after clock n q \<circ> row_after clock m p = row_after clock n q"
  by (rule ext) (simp add: row_after_def)

lemma appended_step:
  "appended sd sid clock (Suc n) es q (appended sd sid clock n [e] p st) =
   (if es = [] then appended sd sid clock n [e] p st else appended sd sid clock n (e # es) q st)"
  by (cases es)
     (simp_all add: appended_def update_session_events update_session_twice row_after_twice)

lemma appended_simps [simp]:
  "st_projects (appended sd sid clock n es q st) = st_projects st"
  "st_rules (appended sd sid clock n es q st) = st_rules st"
  "st_links (appended sd sid clock n es q st) = st_links st"
  "st_cache (appended sd sid clock n es q st) = st_cache st"
  "st_events (appended sd sid clock n es q st) =
     st_events st @ event_rows sd sid clock (Suc n) es"
  by (auto simp: appended_def)

lemma find_appended:
  "find_session (appended sd sid clock n es q st) k =
   (if k = sid \<and> es \<noteq> [] then map_option (row_after clock (n + length es) q) (find_session st k)
    else find_session st k)"
  by (simp add: appended_def find_update_session) (simp add: find_session_def)

lemma insert_event_row_ok:
  assumes "storable sd e" and "find_session st sid \<noteq> None" and "ids_below st sid n"
    and "Suc n \<le> i64_max"
  shows "insert_event_row sd sid (Suc n) (clock (Suc n)) e st =
         Inr (st\<lparr>st_events := st_events st @ [event_row_of sd sid clock (Suc n) e]\<rparr>)"
  using assms
  by (auto simp: insert_event_row_def storable_def insert_event_def event_row_of_def
      EVENT_SCHEMA_VERSION_def ids_below_def list_all_iff list_ex_iff Let_def i64_try_from_def
      split: option.splits)

lemma ids_below_appended:
  "ids_below st sid n \<Longrightarrow> ids_below (appended sd sid clock n es q st) sid (n + length es)"
  by (fastforce simp: ids_below_def list_all_iff dest: event_rows_in)

definition recorded_of ::
  "string \<Rightarrow> (nat \<Rightarrow> string) \<Rightarrow> nat \<Rightarrow> semantic_event \<Rightarrow> recorded_event" where
  "recorded_of sid clock n e =
     \<lparr>re_id = n, re_session_id = sid, re_schema_version = EVENT_SCHEMA_VERSION,
      re_occurred_at = clock n, re_event = e, re_raw_data = None\<rparr>"

fun recorded_list ::
  "string \<Rightarrow> (nat \<Rightarrow> string) \<Rightarrow> nat \<Rightarrow> semantic_event list \<Rightarrow> recorded_event list" where
  "recorded_list sid clock n [] = []"
| "recorded_list sid clock n (e # es) = recorded_of sid clock n e # recorded_list sid clock (Suc n) es"

lemma append_step:
  assumes "storable sd e" and "find_session st sid = Some r" and "sr_last_event_id r = n"
    and "ids_below st sid n" and "Suc n \<le> i64_max" and "ss_revision (sp_state p) \<le> n"
  shows "append_loop sd sid clock p st (e # es) =
    and_then (map_err InvalidProjection (apply_event p (Suc n) e))
      (\<lambda>p'. and_then (append_loop sd sid clock p' (appended sd sid clock n [e] p' st) es)
        (\<lambda>(recs, q, st'). Inr (recorded_of sid clock (Suc n) e # recs, q, st')))"
proof (cases "apply_event p (Suc n) e")
  case (Inl err)
  with assms show ?thesis by (simp add: next_event_id_def Let_def)
next
  case (Inr p')
  let ?st1 = "update_session sid (\<lambda>r. r\<lparr>sr_last_event_id := Suc n\<rparr>) st"
  have ins: "insert_event_row sd sid (Suc n) (clock (Suc n)) e ?st1 =
      Inr (?st1\<lparr>st_events := st_events st @ [event_row_of sd sid clock (Suc n) e]\<rparr>)"
    using insert_event_row_ok [of sd e ?st1 sid n clock] assms
    by (simp add: find_update_session ids_below_def)
  have rev: "ss_revision (sp_state p') \<le> i64_max"
    using state_apply_revision [OF apply_event_state [OF Inr]] assms(5,6) by simp
  have eq: "update_session sid
      (\<lambda>r. r\<lparr>sr_phase := phase_name (ss_phase (sp_state p')),
             sr_revision := ss_revision (sp_state p'), sr_updated_at := clock (Suc n)\<rparr>)
      (?st1\<lparr>st_events := st_events st @ [event_row_of sd sid clock (Suc n) e]\<rparr>)
    = appended sd sid clock n [e] p' st"
    unfolding update_session_events
    by (simp add: appended_def update_session_twice) (simp add: update_session_def row_after_def o_def)
  show ?thesis
    using Inr ins rev assms eq
    by (simp add: next_event_id_def Let_def i64_try_from_def recorded_of_def)
qed

lemma append_loop_ok:
  assumes "list_all (storable sd) es" and "find_session st sid = Some r"
    and "sr_last_event_id r = n" and "ids_below st sid n" and "n + length es \<le> i64_max"
    and "ss_revision (sp_state p) \<le> n"
  shows "append_loop sd sid clock p st es =
    and_then (map_err InvalidProjection (apply_events p (Suc n) es))
      (\<lambda>q. Inr (recorded_list sid clock (Suc n) es, q, appended sd sid clock n es q st))"
  using assms
proof (induction es arbitrary: n p st r)
  case Nil
  then show ?case by (simp add: appended_def)
next
  case (Cons e es)
  note step = append_step [of sd e st sid r n p clock es]
  show ?case
  proof (cases "apply_event p (Suc n) e")
    case (Inl err)
    with step Cons.prems show ?thesis by simp
  next
    case (Inr p')
    let ?st = "appended sd sid clock n [e] p' st"
    have "append_loop sd sid clock p' ?st es =
      and_then (map_err InvalidProjection (apply_events p' (Suc (Suc n)) es))
        (\<lambda>q. Inr (recorded_list sid clock (Suc (Suc n)) es, q, appended sd sid clock (Suc n) es q ?st))"
    proof (rule Cons.IH)
      show "find_session ?st sid = Some (row_after clock (Suc n) p' r)"
        using Cons.prems by (simp add: find_appended)
      show "ids_below ?st sid (Suc n)"
        using ids_below_appended [of st sid n sd clock "[e]" p'] Cons.prems by simp
      show "ss_revision (sp_state p') \<le> Suc n"
        using state_apply_revision [OF apply_event_state [OF Inr]] Cons.prems by simp
    qed (use Cons.prems in \<open>simp_all add: row_after_def\<close>)
    with step Cons.prems Inr show ?thesis
      by (cases "apply_events p' (Suc (Suc n)) es"; cases es) (simp_all add: appended_step)
  qed
qed

section \<open>What the invariant says of a session\<close>

lemma find_session_in: "find_session st sid = Some r \<Longrightarrow> r \<in> set (st_sessions st) \<and> sr_id r = sid"
  unfolding find_session_def by (rule find_Some_iff_set)

lemma in_find_session:
  "distinct (map sr_id (st_sessions st)) \<Longrightarrow> r \<in> set (st_sessions st) \<Longrightarrow>
   find_session st (sr_id r) = Some r"
proof -
  assume d: "distinct (map sr_id (st_sessions st))" and r: "r \<in> set (st_sessions st)"
  have "List.find (\<lambda>x. sr_id x = sr_id r) rs = Some r"
    if "distinct (map sr_id rs)" "r \<in> set rs" for rs
    using that by (induction rs) auto
  from this [OF d r] show ?thesis by (simp add: find_session_def)
qed

lemma select_events_length:
  "select_events sd st sid = Inr recs \<Longrightarrow> length recs = length (session_rows st sid)"
  unfolding select_events_def collect_eq_Inr by (metis length_map)

lemma log_ok_ids_below:
  assumes "select_events sd st sid = Inr recs" and "log_ok recs"
  shows "ids_below st sid (length recs)"
proof -
  have "map er_event_id (session_rows st sid) = [1..<1 + length recs]"
    using assms collect_rows_ids [of sd sid "session_rows st sid" recs]
    by (simp add: select_events_def consecutive_ids)
  then have "er_event_id ` set (session_rows st sid) = set [1..<1 + length recs]"
    by (metis set_map)
  moreover have "set (session_rows st sid) = {r \<in> set (st_events st). er_session_id r = sid}"
    by (auto simp: session_rows_def)
  ultimately have "er_event_id r \<in> set [1..<1 + length recs]"
    if "r \<in> set (st_events st)" "er_session_id r = sid" for r
    using that by blast
  then show ?thesis by (fastforce simp: ids_below_def list_all_iff)
qed

text \<open>Everything the invariant gives about one session: its log and the projection of it.\<close>

definition session_view ::
  "serde \<Rightarrow> store \<Rightarrow> string \<Rightarrow> session_row \<Rightarrow> recorded_event list \<Rightarrow> session_projection \<Rightarrow> bool" where
  "session_view sd st sid r recs p \<longleftrightarrow>
     select_events sd st sid = Inr recs \<and> replay sd st sid = Inr p \<and>
     recs \<noteq> [] \<and> log_ok recs \<and> versions_ok recs \<and>
     apply_events (projection_new sid) 1 (map re_event recs) = Inr p \<and>
     sr_phase r = phase_name (ss_phase (sp_state p)) \<and>
     sr_revision r = ss_revision (sp_state p) \<and>
     sr_last_event_id r = length recs \<and> length recs \<le> i64_max \<and>
     ids_below st sid (length recs) \<and> ss_revision (sp_state p) \<le> length recs"

lemma session_facts:
  assumes "store_ok sd st" and "find_session st sid = Some r"
  obtains recs p where "session_view sd st sid r recs p"
proof -
  from find_session_in [OF assms(2)] assms(1) have ra: "row_agrees sd st r" and id: "sr_id r = sid"
    by (auto simp: store_ok_def list_all_iff)
  from ra id obtain p where p: "replay sd st sid = Inr p"
    and row: "sr_phase r = phase_name (ss_phase (sp_state p))"
      "sr_revision r = ss_revision (sp_state p)"
      "sr_last_event_id r = length (session_rows st sid)" "sr_last_event_id r \<le> i64_max"
    by (auto simp: row_agrees_def split: sum.splits)
  from p obtain recs where recs: "select_events sd st sid = Inr recs"
    and pl: "project_log sid recs = Inr p"
    by (auto simp: replay_def and_then_eq_Inr)
  from pl have fs: "recs \<noteq> []" "log_ok recs" "versions_ok recs"
    "apply_events (projection_new sid) 1 (map re_event recs) = Inr p"
    by (simp_all add: project_log_Inr)
  have len: "length recs = length (session_rows st sid)" by (rule select_events_length [OF recs])
  have "ss_revision (sp_state p) \<le> length recs"
    using apply_events_revision [OF fs(4)] by (simp add: projection_new_def state_new_def)
  with recs p fs row len log_ok_ids_below [OF recs fs(2)] have "session_view sd st sid r recs p"
    by (simp add: session_view_def)
  then show thesis by (rule that)
qed

lemma cache_get:
  assumes "store_ok sd st" and "bt_get (st_cache st) sid = Some p"
  shows "replay sd st sid = Inr p \<and> find_session st sid \<noteq> None"
  using assms bt_get_Some_in [of "st_cache st" sid p]
  by (auto simp: store_ok_def cache_ok_def list_all_iff)

section \<open>Appending\<close>

lemma append_events_exact:
  assumes "store_ok sd st" and "find_session st sid = Some r" and "list_all (storable sd) es"
    and "es \<noteq> []" and "replay sd st sid = Inr p" and "sr_last_event_id r = n"
    and "n + length es \<le> i64_max"
  shows "append_events sd clock sid es st =
    and_then (map_err InvalidProjection (apply_events p (Suc n) es))
      (\<lambda>q. Inr (recorded_list sid clock (Suc n) es,
         (appended sd sid clock n es q st)\<lparr>st_cache := bt_insert sid q (st_cache st)\<rparr>))"
proof -
  have base: "(case bt_get (st_cache st) sid of
      Some p \<Rightarrow> Inr p | None \<Rightarrow> and_then (select_events sd st sid) (project_log sid)) = Inr p"
    using assms(5) cache_get [OF assms(1)] by (auto simp: replay_def split: option.splits)
  obtain recs p' where "session_view sd st sid r recs p'"
    using assms(1,2) by (rule session_facts)
  then have "sr_last_event_id r = length recs" "ids_below st sid (length recs)"
    "ss_revision (sp_state p) \<le> length recs"
    using assms(5) by (auto simp: session_view_def)
  with append_loop_ok [OF assms(3,2,6), of p clock] assms(6,7)
  have loop: "append_loop sd sid clock p st es =
    and_then (map_err InvalidProjection (apply_events p (Suc n) es))
      (\<lambda>q. Inr (recorded_list sid clock (Suc n) es, q, appended sd sid clock n es q st))"
    by simp
  show ?thesis
    unfolding append_events_def append_commit_def base
    using assms(4) loop by (cases "apply_events p (Suc n) es") simp_all
qed

lemma refs_ok_appended:
  assumes "refs_ok st" and "find_session st sid \<noteq> None"
  shows "refs_ok ((appended sd sid clock n es q st)\<lparr>st_cache := c\<rparr>)"
proof -
  let ?st = "(appended sd sid clock n es q st)\<lparr>st_cache := c\<rparr>"
  have ids: "map sr_id (st_sessions ?st) = map sr_id (st_sessions st)"
    by (auto simp: appended_def update_session_def)
  have f: "find_session ?st k \<noteq> None" if "find_session st k \<noteq> None" for k
    using that assms(2) find_session_cong [of ?st "appended sd sid clock n es q st" k]
    by (auto simp: find_appended)
  have ev: "find_session ?st (er_session_id e) \<noteq> None" if "e \<in> set (st_events ?st)" for e
    using that assms f by (auto simp: refs_ok_def list_all_iff dest!: event_rows_in)
  have pr: "map sr_project_id (st_sessions ?st) = map sr_project_id (st_sessions st)"
    by (auto simp: appended_def update_session_def row_after_def)
  have "\<forall>p. Some p \<in> set (map sr_project_id (st_sessions st)) \<longrightarrow> find_project st p \<noteq> None"
    using assms(1) by (auto simp: refs_ok_def list_all_iff split: option.splits)
  then have "list_all (\<lambda>r. case sr_project_id r of None \<Rightarrow> True | Some p \<Rightarrow> find_project ?st p \<noteq> None)
      (st_sessions ?st)"
    unfolding pr [symmetric]
    by (fastforce simp: list_all_iff find_project_def image_iff split: option.splits)
  with ids ev assms(1) show ?thesis by (simp add: refs_ok_def list_all_iff)
qed

lemma select_appended:
  assumes "select_events sd st sid = Inr recs" and "log_ok recs" and "list_all (storable sd) es"
    and "session_rows st' sid = session_rows st sid @ event_rows sd sid clock (Suc (length recs)) es"
  shows "\<exists>new. select_events sd st' sid = Inr (recs @ new) \<and> log_ok (recs @ new) \<and>
               versions_ok new \<and> map re_event new = es"
proof -
  from collect_event_rows [OF assms(3), of sid clock "Suc (length recs)"] obtain new
    where new: "collect (map (recorded_from_row sd sid)
        (event_rows sd sid clock (Suc (length recs)) es)) = Inr new"
      "consecutive (Suc (length recs)) new" "versions_ok new" "map re_event new = es" by blast
  have "select_events sd st' sid = Inr (recs @ new)"
    using assms(1) new(1) by (simp add: select_events_def assms(4) collect_append)
  with new assms(2) show ?thesis by (auto simp: consecutive_append)
qed

lemma project_log_append:
  assumes "log_ok (recs @ new)" and "versions_ok recs" and "versions_ok new" and "recs \<noteq> []"
    and "apply_events (projection_new sid) 1 (map re_event recs) = Inr p"
    and "apply_events p (Suc (length recs)) (map re_event new) = Inr q"
  shows "project_log sid (recs @ new) = Inr q"
  using assms by (simp add: project_log_Inr apply_events_append versions_ok_def)

lemma cache_ok_iff:
  "cache_ok sd st \<longleftrightarrow> bt_sorted (st_cache st) \<and>
   (\<forall>sid p. bt_get (st_cache st) sid = Some p \<longrightarrow> find_session st sid \<noteq> None \<and> replay sd st sid = Inr p)"
  by (auto simp: cache_ok_def list_all_iff bt_in_iff_get dest: bt_get_Some_in)

lemma row_agreesI:
  assumes "replay sd st (sr_id r) = Inr p" and "sr_phase r = phase_name (ss_phase (sp_state p))"
    and "sr_revision r = ss_revision (sp_state p)"
    and "sr_last_event_id r = length (session_rows st (sr_id r))" and "sr_last_event_id r \<le> i64_max"
  shows "row_agrees sd st r"
  using assms by (simp add: row_agrees_def)

lemma row_agrees_same:
  "session_rows st' (sr_id r) = session_rows st (sr_id r) \<Longrightarrow> row_agrees sd st' r = row_agrees sd st r"
  by (simp add: row_agrees_def replay_def select_events_def cong: sum.case_cong)

text \<open>
  The one step that changes a log: the rows of \<open>sid\<close> gain the rows of \<open>es\<close>, its session row is
  brought up to date, nothing else moves. Everything that appends goes through this lemma.
\<close>

lemma appended_ok:
  assumes ok: "store_ok sd st" and find: "find_session st sid = Some r"
    and view: "session_view sd st sid r recs p" and es: "list_all (storable sd) es" "es \<noteq> []"
    and step: "apply_events p (Suc (length recs)) es = Inr q"
    and room: "length recs + length es \<le> i64_max"
    and st': "st' = (appended sd sid clock (length recs) es q st)\<lparr>st_cache := bt_insert sid q (st_cache st)\<rparr>"
  shows "store_ok sd st'" and "replay sd st' sid = Inr q"
    and "session_log sd st' sid = session_log sd st sid @ es"
    and "k \<noteq> sid \<Longrightarrow> session_log sd st' k = session_log sd st k"
proof -
  have ev: "st_events st' = st_events st @ event_rows sd sid clock (Suc (length recs)) es"
    by (simp add: st')
  from view have below: "ids_below st sid (length recs)" by (simp add: session_view_def)
  note rows = session_rows_append [OF ev below]
  from view have sel: "select_events sd st sid = Inr recs" and lok: "log_ok recs"
    and vok: "versions_ok recs" "recs \<noteq> []"
    and ap: "apply_events (projection_new sid) 1 (map re_event recs) = Inr p"
    by (simp_all add: session_view_def)
  from select_appended [OF sel lok es(1) rows(1)] obtain new
    where new: "select_events sd st' sid = Inr (recs @ new)" "log_ok (recs @ new)"
      "versions_ok new" "map re_event new = es" by blast
  from project_log_append [OF new(2) vok(1) new(3) vok(2) ap] step new(4)
  have "project_log sid (recs @ new) = Inr q" by simp
  with new(1) show rq: "replay sd st' sid = Inr q" by (simp add: replay_def)
  show "session_log sd st' sid = session_log sd st sid @ es"
    using new sel by (simp add: session_log_def)
  show "k \<noteq> sid \<Longrightarrow> session_log sd st' k = session_log sd st k"
    using rows(2) by (simp add: session_log_def select_events_def)
  have refs: "refs_ok st'"
    unfolding st' using ok find by (intro refs_ok_appended) (simp_all add: store_ok_def)
  have same: "replay sd st' k = replay sd st k" if "k \<noteq> sid" for k
    using rows(2) [OF that] by (rule replay_same)
  have len: "length (session_rows st' sid) = length recs + length es"
    using rows(1) select_events_length [OF sel] by simp
  have "row_agrees sd st' r' \<and> retention_ok r'" if "r' \<in> set (st_sessions st')" for r'
  proof (cases "sr_id r' = sid")
    case True
    with that es(2) obtain r0 where r0: "r0 \<in> set (st_sessions st)" "sr_id r0 = sid"
      "r' = row_after clock (length recs + length es) q r0"
      by (auto simp: st' appended_def update_session_def split: if_splits)
    have "row_agrees sd st' r'"
      using r0 rq len room by (intro row_agreesI [of _ _ _ q]) (simp_all add: row_after_def)
    with r0 ok show ?thesis
      by (auto simp: store_ok_def list_all_iff retention_ok_def row_after_def)
  next
    case False
    with that es(2) have "r' \<in> set (st_sessions st)"
      by (auto simp: st' appended_def update_session_def split: if_splits)
    with ok False row_agrees_same [OF rows(2) [OF False]] show ?thesis
      by (auto simp: store_ok_def list_all_iff)
  qed
  moreover have "cache_ok sd st'"
  proof -
    have c: "st_cache st' = bt_insert sid q (st_cache st)" by (simp add: st')
    have f: "find_session st' k \<noteq> None" if "find_session st k \<noteq> None" for k
      using that find_session_cong [of st' "appended sd sid clock (length recs) es q st" k]
      by (auto simp: st' find_appended)
    from ok have "cache_ok sd st" by (simp add: store_ok_def)
    with f find rq same show ?thesis unfolding cache_ok_iff c by auto
  qed
  ultimately show "store_ok sd st'"
    using refs by (simp add: store_ok_def list_all_iff)
qed

end
