(* ===== verification/Store_Guarantees.thy ===== *)
theory Store_Guarantees
  imports Store_Invariant
begin

text \<open>
  The store's operations against their specification: appends are guarded list appends, every
  operation keeps the invariant, reads return what the log says, forks copy a prefix, start-up
  validation and recovery succeed, and pages and permission rules come in the promised order.
\<close>

section \<open>Appends, from success\<close>

lemma append_loop_room:
  "append_loop sd sid clock p st es = Inr (recs, q, st') \<Longrightarrow> find_session st sid = Some r \<Longrightarrow>
   sr_last_event_id r \<le> i64_max \<Longrightarrow> sr_last_event_id r + length es \<le> i64_max"
proof (induction es arbitrary: p st r recs)
  case (Cons e es)
  define n where "n = Suc (sr_last_event_id r)"
  let ?st1 = "update_session sid (\<lambda>r. r\<lparr>sr_last_event_id := n\<rparr>) st"
  from Cons.prems obtain p' st2 recs' where "n \<le> i64_max"
    and ins: "insert_event_row sd sid n (clock n) e ?st1 = Inr st2"
    and rest: "append_loop sd sid clock p' (update_session sid
        (\<lambda>r. r\<lparr>sr_phase := phase_name (ss_phase (sp_state p')),
               sr_revision := ss_revision (sp_state p'), sr_updated_at := clock n\<rparr>) st2) es
        = Inr (recs', q, st')"
    by (auto simp: and_then_eq_Inr next_event_id_def Let_def n_def split: if_splits)
  from ins have "st_sessions st2 = st_sessions ?st1"
    by (auto simp: insert_event_row_def insert_event_def and_then_eq_Inr Let_def split: if_splits)
  then have "find_session st2 sid = Some (r\<lparr>sr_last_event_id := n\<rparr>)"
    using find_session_cong [of st2 ?st1 sid] Cons.prems(2) by (simp add: find_update_session)
  with Cons.IH [OF rest] \<open>n \<le> i64_max\<close> show ?case
    by (simp add: find_update_session n_def)
qed simp

lemma append_commit_session:
  "append_events sd clock sid es st = Inr (recs, st') \<Longrightarrow> es \<noteq> [] \<Longrightarrow> find_session st sid \<noteq> None"
  by (cases es) (auto simp: append_events_def append_commit_def and_then_eq_Inr next_event_id_def)

lemma append_events_room:
  assumes "store_ok sd st" and "append_events sd clock sid es st = Inr (recs, st')"
    and "find_session st sid = Some r"
  shows "sr_last_event_id r + length es \<le> i64_max"
proof (cases "es = []")
  case True
  obtain recs p where "session_view sd st sid r recs p" using assms(1,3) by (rule session_facts)
  with True show ?thesis by (simp add: session_view_def)
next
  case False
  obtain rs p where v: "session_view sd st sid r rs p" using assms(1,3) by (rule session_facts)
  from assms(2) False obtain p' q st'' recs' where "append_loop sd sid clock p' st es = Inr (recs', q, st'')"
    by (auto simp: append_events_def append_commit_def and_then_eq_Inr)
  from append_loop_room [OF this assms(3)] v show ?thesis by (simp add: session_view_def)
qed

lemma recorded_list_simps [simp]:
  "map re_event (recorded_list sid clock n es) = es"
  "map re_id (recorded_list sid clock n es) = [n..<n + length es]"
  by (induction es arbitrary: n) (simp_all add: recorded_of_def upt_rec)

lemma session_log_view: "session_view sd st sid r recs p \<Longrightarrow> session_log sd st sid = map re_event recs"
  by (simp add: session_view_def session_log_def)

text \<open>The specification of an append, on every branch.\<close>

lemma append_events_cases:
  assumes ok: "store_ok sd st" and find: "find_session st sid = Some r"
    and es: "list_all (storable sd) es" and room: "length (session_log sd st sid) + length es \<le> i64_max"
  shows "case apply_events (projection_new sid) 1 (session_log sd st sid @ es) of
      Inl err \<Rightarrow> append_events sd clock sid es st = Inl (InvalidProjection err)
    | Inr q \<Rightarrow> \<exists>recs st'. append_events sd clock sid es st = Inr (recs, st') \<and> store_ok sd st' \<and>
        session_log sd st' sid = session_log sd st sid @ es \<and>
        (\<forall>k. k \<noteq> sid \<longrightarrow> session_log sd st' k = session_log sd st k) \<and>
        replay sd st' sid = Inr q \<and> map re_event recs = es \<and>
        map re_id recs = [Suc (length (session_log sd st sid))..<
                          Suc (length (session_log sd st sid)) + length es]"
proof -
  obtain recs p where v: "session_view sd st sid r recs p" using ok find by (rule session_facts)
  then have ap: "apply_events (projection_new sid) 1 (map re_event recs) = Inr p"
    and last: "sr_last_event_id r = length recs" and rp: "replay sd st sid = Inr p"
    by (simp_all add: session_view_def)
  note log = session_log_view [OF v]
  have split: "apply_events (projection_new sid) 1 (session_log sd st sid @ es) =
      apply_events p (Suc (length recs)) es"
    by (simp only: log apply_events_append ap) simp
  show ?thesis
  proof (cases "es = []")
    case True
    with ok rp show ?thesis unfolding split by (simp add: append_events_def)
  next
    case False
    note exact = append_events_exact [OF ok find es False rp last, of clock]
    from room log have room': "length recs + length es \<le> i64_max" by simp
    show ?thesis
    proof (cases "apply_events p (Suc (length recs)) es")
      case (Inl err)
      with exact room' show ?thesis unfolding split by simp
    next
      case (Inr q)
      let ?st' = "(appended sd sid clock (length recs) es q st)\<lparr>st_cache := bt_insert sid q (st_cache st)\<rparr>"
      note fx = appended_ok [OF ok find v es False Inr room' refl]
      from exact room' Inr
      have "append_events sd clock sid es st = Inr (recorded_list sid clock (Suc (length recs)) es, ?st')"
        by simp
      with fx Inr log show ?thesis unfolding split by simp
    qed
  qed
qed

lemma append_events_success:
  assumes "store_ok sd st" and "list_all (storable sd) es"
    and "append_events sd clock sid es st = Inr (recs, st')"
  shows "store_ok sd st' \<and> session_log sd st' sid = session_log sd st sid @ es \<and>
         (\<forall>k. k \<noteq> sid \<longrightarrow> session_log sd st' k = session_log sd st k)"
proof (cases "es = []")
  case True
  with assms show ?thesis by (simp add: append_events_def)
next
  case False
  with append_commit_session [OF assms(3)] obtain r where find: "find_session st sid = Some r" by blast
  obtain rs p where v: "session_view sd st sid r rs p" using assms(1) find by (rule session_facts)
  have room: "length (session_log sd st sid) + length es \<le> i64_max"
    using append_events_room [OF assms(1,3) find] session_log_view [OF v] v
    by (simp add: session_view_def)
  from append_events_cases [OF assms(1) find assms(2) room, of clock] assms(3) show ?thesis
    by (auto split: sum.splits)
qed

section \<open>The log interface\<close>

text \<open>
  What a client that only appends may rely on, whatever stores the logs: a successful append
  extends one log by exactly the events given, leaves the other logs alone, and keeps the store
  usable. It follows for any sequence of appends, interleaved over any logs.
\<close>

locale append_only_log =
  fixes ok :: "'st \<Rightarrow> bool"
    and log :: "'st \<Rightarrow> 'k \<Rightarrow> 'e list"
    and append :: "'k \<Rightarrow> 'e list \<Rightarrow> 'st \<Rightarrow> ('err, 'r \<times> 'st) result"
    and fits :: "'e \<Rightarrow> bool"
  assumes append_ok: "ok s \<Longrightarrow> list_all fits es \<Longrightarrow> append k es s = Inr (r, s') \<Longrightarrow> ok s'"
    and append_log: "ok s \<Longrightarrow> list_all fits es \<Longrightarrow> append k es s = Inr (r, s') \<Longrightarrow>
        log s' k = log s k @ es"
    and append_other: "ok s \<Longrightarrow> list_all fits es \<Longrightarrow> append k es s = Inr (r, s') \<Longrightarrow> j \<noteq> k \<Longrightarrow>
        log s' j = log s j"
begin

fun run_appends :: "('k \<times> 'e list) list \<Rightarrow> 'st \<Rightarrow> ('err, 'st) result" where
  "run_appends [] s = Inr s"
| "run_appends ((k, es) # ops) s = and_then (append k es s) (\<lambda>(r, s'). run_appends ops s')"

lemma run_appends_log:
  "ok s \<Longrightarrow> list_all (\<lambda>(k, es). list_all fits es) ops \<Longrightarrow> run_appends ops s = Inr s' \<Longrightarrow>
   ok s' \<and> log s' j = log s j @ concat (map snd (filter (\<lambda>(k, es). k = j) ops))"
proof (induction ops s rule: run_appends.induct)
  case (2 k es ops s)
  then obtain r s1 where a: "append k es s = Inr (r, s1)" and rest: "run_appends ops s1 = Inr s'"
    by (auto simp: and_then_eq_Inr)
  from 2(3) have f: "list_all fits es" by simp
  have ok1: "ok s1" using append_ok [OF 2(2) f a] .
  from 2(1) [OF ok1] 2(3) rest
  have ih: "ok s' \<and> log s' j = log s1 j @ concat (map snd (filter (\<lambda>(k, es). k = j) ops))"
    by simp
  have "log s1 j = (if j = k then log s j @ es else log s j)"
    using append_log [OF 2(2) f a] append_other [OF 2(2) f a, of j] by simp
  with ih show ?case by auto
qed simp

end

interpretation store_log: append_only_log "store_ok sd" "session_log sd" "append_events sd clock"
  "storable sd" for sd :: serde and clock :: "nat \<Rightarrow> string"
  by unfold_locales (use append_events_success in blast)+

end
