(* ===== verification/Store_Sessions.thy ===== *)
theory Store_Sessions
  imports Store_Guarantees
begin

text \<open>
  Creating and forking sessions, reading projections and snapshots, start-up validation: each
  keeps the invariant of the store, and a fork replays to the parent's state at the fork point,
  closed by the branch events.
\<close>

section \<open>A new session\<close>

lemma find_session_snoc:
  "st_sessions st' = st_sessions st @ [row] \<Longrightarrow>
   find_session st' k = (case find_session st k of
      Some r \<Rightarrow> Some r | None \<Rightarrow> if sr_id row = k then Some row else None)"
  by (simp add: find_session_def find_append split: option.splits)

lemma no_session_no_rows:
  assumes "refs_ok st" and "find_session st sid = None"
  shows "filter (\<lambda>r. er_session_id r = sid) (st_events st) = []"
  using assms by (auto simp: refs_ok_def list_all_iff filter_empty_conv)

lemma new_session_ok:
  assumes ok: "store_ok sd st" and fresh: "find_session st sid = None" and id: "sr_id row = sid"
    and sess: "st_sessions st' = st_sessions st @ [row]" and ev: "st_events st' = st_events st @ rows"
    and frame: "st_cache st' = st_cache st" "st_projects st' = st_projects st"
    and rows: "\<And>r. r \<in> set rows \<Longrightarrow> er_session_id r = sid" "sorted (map er_event_id rows)"
    and recs: "collect (map (recorded_from_row sd sid) rows) = Inr recs"
    and p: "project_log sid recs = Inr p"
    and row: "sr_phase row = phase_name (ss_phase (sp_state p))"
      "sr_revision row = ss_revision (sp_state p)" "sr_last_event_id row = length rows"
      "length rows \<le> i64_max" "retention_ok row"
      "case sr_project_id row of None \<Rightarrow> True | Some q \<Rightarrow> find_project st q \<noteq> None"
  shows "store_ok sd st'" and "session_log sd st' sid = map re_event recs"
    and "k \<noteq> sid \<Longrightarrow> session_log sd st' k = session_log sd st k"
    and "find_session st' sid = Some row" and "replay sd st' sid = Inr p"
proof -
  have refs: "refs_ok st" using ok by (simp add: store_ok_def)
  have srows: "session_rows st' sid = rows"
    using no_session_no_rows [OF refs fresh] rows
    by (simp add: session_rows_def ev sorted_sort_id sort_key_id_if_sorted)
  have other: "session_rows st' k = session_rows st k" if "k \<noteq> sid" for k
    using rows(1) that by (auto simp: session_rows_def ev filter_empty_conv)
  show rp: "replay sd st' sid = Inr p"
    using recs p by (simp add: replay_def select_events_def srows)
  show "session_log sd st' sid = map re_event recs"
    using recs by (simp add: session_log_def select_events_def srows)
  show "k \<noteq> sid \<Longrightarrow> session_log sd st' k = session_log sd st k"
    using other by (simp add: session_log_def select_events_def)
  have find: "find_session st' k = (if k = sid then Some row else find_session st k)" for k
    using find_session_snoc [OF sess, of k] fresh id by (auto split: option.splits)
  then show "find_session st' sid = Some row" by simp
  have fp: "find_project st' q = find_project st q" for q by (simp add: find_project_def frame)
  have "sr_id row \<notin> set (map sr_id (st_sessions st))"
    using fresh id find_None_set [of "\<lambda>r. sr_id r = sid" "st_sessions st"]
    by (auto simp: find_session_def)
  then have "refs_ok st'"
    using refs rows(1) row(6)
    by (auto simp: refs_ok_def sess ev find fp list_all_iff split: option.splits)
  moreover have "row_agrees sd st' r \<and> retention_ok r" if "r \<in> set (st_sessions st')" for r
  proof (cases "r = row")
    case True
    with row rp srows id show ?thesis by (auto intro: row_agreesI)
  next
    case False
    with that have r: "r \<in> set (st_sessions st)" by (simp add: sess)
    then have "sr_id r \<noteq> sid"
      using fresh find_None_set [of "\<lambda>r. sr_id r = sid" "st_sessions st"]
      by (auto simp: find_session_def)
    from row_agrees_same [OF other [OF this]] r ok show ?thesis
      by (auto simp: store_ok_def list_all_iff)
  qed
  moreover have "cache_ok sd st'"
  proof -
    have "bt_sorted (st_cache st)" and c: "\<And>k q. bt_get (st_cache st) k = Some q \<Longrightarrow>
        find_session st k \<noteq> None \<and> replay sd st k = Inr q"
      using ok by (auto simp: store_ok_def cache_ok_iff)
    moreover have "find_session st' k \<noteq> None \<and> replay sd st' k = Inr q"
      if "bt_get (st_cache st) k = Some q" for k q
    proof -
      from c [OF that] fresh have "k \<noteq> sid" by auto
      from c [OF that] find replay_same [OF other [OF this]] this show ?thesis by simp
    qed
    ultimately show ?thesis by (simp add: cache_ok_iff frame)
  qed
  ultimately show "store_ok sd st'" by (simp add: store_ok_def list_all_iff)
qed

section \<open>Reading a row back\<close>

lemma parse_phase_name [simp]: "parse_phase (phase_name ph) = Inr ph"
  by (cases ph) (simp_all add: parse_phase_def)

lemma retention_parse_as_str [simp]: "retention_parse (retention_as_str h) = Inr h"
  by (cases h) (simp_all add: retention_parse_def)

lemma summary_from_row_ok:
  assumes "sr_phase r = phase_name ph" and "retention_ok r"
  shows "\<exists>s. summary_from_row r = Inr s \<and> sm_phase s = ph \<and> sm_id s = sr_id r \<and>
    sm_last_event_id s = sr_last_event_id r \<and> sm_revision s = sr_revision r \<and>
    sm_title s = sr_title r \<and> sm_parent_session_id s = sr_parent_session_id r \<and>
    sm_project_id s = sr_project_id r"
proof -
  from assms(2) obtain h where "retention_parse (sr_history_retention r) = Inr h"
    by (auto simp: retention_ok_def is_ok_iff)
  with assms(1) show ?thesis by (simp add: summary_from_row_def)
qed

lemma get_session_ok:
  assumes "store_ok sd st" and "find_session st sid = Some r" and "replay sd st sid = Inr p"
  shows "\<exists>s. get_session sid st = Inr s \<and> sm_phase s = ss_phase (sp_state p) \<and> sm_id s = sid \<and>
    sm_last_event_id s = length (session_log sd st sid) \<and>
    sm_revision s = ss_revision (sp_state p) \<and> sm_parent_session_id s = sr_parent_session_id r"
proof -
  obtain recs p' where v: "session_view sd st sid r recs p'" using assms(1,2) by (rule session_facts)
  have "r \<in> set (st_sessions st)" and id: "sr_id r = sid" using find_session_in [OF assms(2)] by simp_all
  then have "retention_ok r" using assms(1) by (simp add: store_ok_def list_all_iff)
  with v assms(3) summary_from_row_ok [of r "ss_phase (sp_state p)"] session_log_view [OF v] id
  show ?thesis by (auto simp: get_session_def assms(2) session_view_def)
qed

section \<open>Creation\<close>

lemma apply_created:
  "\<exists>p. apply_events (projection_new sid) 1 [SessionCreated title] = Inr p \<and>
       ss_phase (sp_state p) = S_Created \<and> ss_revision (sp_state p) = 0"
  by (simp add: apply_event_def state_apply_def project_event_def projection_new_def state_new_def)

lemma create_session_ok:
  assumes ok: "store_ok sd st" and fresh: "find_session st sid = None"
    and proj: "case project_id of None \<Rightarrow> True | Some q \<Rightarrow> find_project st q \<noteq> None"
    and ev: "storable sd (SessionCreated title)"
  shows "\<exists>s st'. create_session_with_retention sd sid time title project_id h st = Inr (s, st') \<and>
    store_ok sd st' \<and> session_log sd st' sid = [SessionCreated title] \<and>
    (\<forall>k. k \<noteq> sid \<longrightarrow> session_log sd st' k = session_log sd st k) \<and>
    sm_id s = sid \<and> sm_phase s = S_Created \<and> sm_last_event_id s = 1 \<and> sm_project_id s = project_id"
proof -
  define row where "row = \<lparr>sr_id = sid, sr_title = title, sr_project_id = project_id,
     sr_parent_session_id = None, sr_forked_at_event_id = None, sr_created_at = time,
     sr_updated_at = time, sr_phase = ''created'', sr_revision = 0,
     sr_last_event_id = 1, sr_history_retention = retention_as_str h\<rparr>"
  define st1 where "st1 = st\<lparr>st_sessions := st_sessions st @ [row]\<rparr>"
  let ?rows = "event_rows sd sid (\<lambda>_. time) 1 [SessionCreated title]"
  define st2 where "st2 = st1\<lparr>st_events := st_events st1 @ ?rows\<rparr>"
  have ins: "insert_session row st = Inr st1"
    using fresh proj by (auto simp: insert_session_def row_def st1_def split: option.splits)
  have refs: "refs_ok st" using ok by (simp add: store_ok_def)
  have "ids_below st1 sid 0"
    using no_session_no_rows [OF refs fresh]
    by (auto simp: ids_below_def st1_def list_all_iff filter_empty_conv)
  moreover have "find_session st1 sid \<noteq> None"
    using find_session_snoc [of st1 st row sid] fresh by (simp add: st1_def row_def)
  ultimately have iev: "insert_event_row sd sid 1 time (SessionCreated title) st1 = Inr st2"
    using insert_event_row_ok [of sd "SessionCreated title" st1 sid 0 "\<lambda>_. time"] ev
    by (simp add: st2_def i64_max_def)
  from apply_created obtain p where p: "apply_events (projection_new sid) 1 [SessionCreated title] = Inr p"
    "ss_phase (sp_state p) = S_Created" "ss_revision (sp_state p) = 0" by blast
  from collect_event_rows [of sd "[SessionCreated title]" sid "\<lambda>_. time" 1] ev obtain recs
    where recs: "collect (map (recorded_from_row sd sid) ?rows) = Inr recs" "log_ok recs"
      "versions_ok recs" "map re_event recs = [SessionCreated title]" by auto
  have pl: "project_log sid recs = Inr p" using recs p by (auto simp: project_log_Inr)
  note fx = new_session_ok [where st' = st2 and row = row and rows = ?rows, OF ok fresh]
  have res: "store_ok sd st2" "session_log sd st2 sid = [SessionCreated title]"
    "\<And>k. k \<noteq> sid \<Longrightarrow> session_log sd st2 k = session_log sd st k"
    "find_session st2 sid = Some row" "replay sd st2 sid = Inr p"
    using fx [OF _ _ _ _ _ _ _ recs(1) pl] recs(4) p proj
    by (auto simp: row_def st2_def st1_def retention_ok_def i64_max_def)
  from summary_from_row_ok [of row S_Created] obtain s where s: "summary_from_row row = Inr s"
    "sm_phase s = S_Created" "sm_id s = sid" "sm_last_event_id s = 1" "sm_project_id s = project_id"
    by (auto simp: row_def retention_ok_def)
  have guard: "(case project_id of None \<Rightarrow> Inr ()
      | Some pid \<Rightarrow> if find_project st pid \<noteq> None then Inr () else Inl (ProjectNotFound pid))
      = (Inr () :: (store_error, unit) result)"
    using proj by (cases project_id) auto
  have "create_session_with_retention sd sid time title project_id h st = Inr (s, st2)"
    unfolding create_session_with_retention_def guard row_def [symmetric]
    using ins iev s res(4) by (simp add: get_session_def)
  with res s show ?thesis by blast
qed

section \<open>Projections under another session id\<close>

text \<open>
  A fork replays the parent's events under its own id. No event looks at the id, so replay
  commutes with renaming the session.
\<close>

definition rename :: "string \<Rightarrow> session_projection \<Rightarrow> session_projection" where
  "rename sid p = p\<lparr>sp_state := (sp_state p)\<lparr>ss_session_id := sid\<rparr>\<rparr>"

definition map_ok :: "('a \<Rightarrow> 'b) \<Rightarrow> ('e, 'a) result \<Rightarrow> ('e, 'b) result" where
  "map_ok f r = and_then r (\<lambda>x. Inr (f x))"

lemma map_ok_simps [simp]: "map_ok f (Inr x) = Inr (f x)" "map_ok f (Inl e) = Inl e"
  by (simp_all add: map_ok_def)

lemma and_then_map_ok: "and_then (map_ok f r) g = and_then r (\<lambda>x. g (f x))"
  by (cases r) simp_all

lemma map_ok_and_then: "map_ok f (and_then r h) = and_then r (\<lambda>x. map_ok f (h x))"
  by (cases r) simp_all

lemma rename_simps [simp]:
  "sp_messages (rename sid p) = sp_messages p" "sp_agents (rename sid p) = sp_agents p"
  "sp_agent_instances (rename sid p) = sp_agent_instances p"
  "sp_pending_permissions (rename sid p) = sp_pending_permissions p"
  "sp_runs (rename sid p) = sp_runs p" "sp_queue_paused (rename sid p) = sp_queue_paused p"
  "sp_context (rename sid p) = sp_context p"
  "ss_phase (sp_state (rename sid p)) = ss_phase (sp_state p)"
  "ss_revision (sp_state (rename sid p)) = ss_revision (sp_state p)"
  "ss_last_event_id (sp_state (rename sid p)) = ss_last_event_id (sp_state p)"
  by (simp_all add: rename_def)

lemma project_event_state_frame:
  "project_event n e (p\<lparr>sp_state := st\<rparr>) = map_ok (\<lambda>q. q\<lparr>sp_state := st\<rparr>) (project_event n e p)"
proof -
  have run: "update_run k ch (p\<lparr>sp_state := st\<rparr>) = map_ok (\<lambda>q. q\<lparr>sp_state := st\<rparr>) (update_run k ch p)"
    for k ch p
    by (auto simp: update_run_def map_ok_def and_then_def split: option.splits sum.splits)
  have ter: "set_run_terminal k s x (p\<lparr>sp_state := st\<rparr>) =
      map_ok (\<lambda>q. q\<lparr>sp_state := st\<rparr>) (set_run_terminal k s x p)" for k s x
    by (simp add: set_run_terminal_def run)
  have flag: "p\<lparr>sp_state := st\<rparr>\<lparr>sp_queue_paused := b\<rparr> = p\<lparr>sp_queue_paused := b\<rparr>\<lparr>sp_state := st\<rparr>"
    for p :: session_projection and b by simp
  have msg: "update_open_message n i ch (p\<lparr>sp_state := st\<rparr>) =
      map_ok (\<lambda>q. q\<lparr>sp_state := st\<rparr>) (update_open_message n i ch p)" for i ch
    by (simp add: update_open_message_def split: option.splits)
  show ?thesis
    by (cases e)
       (auto simp: project_event_def message_started_def message_content_appended_def
         message_completed_def message_interrupted_def agent_spawned_def agent_finished_def
         agent_context_captured_def agent_result_delivered_def permission_requested_def
         permission_resolved_def run_queued_def run_started_def run_completed_def
         run_attempt_started_def run_requires_action_def tool_call_emitted_def update_tool_call_def
         tool_execution_started_def tool_result_def run_attempt_failed_def
         context_fact_recorded_def context_compacted_def run ter msg flag Let_def pause_after_def
         and_then_map_ok map_ok_and_then split: option.splits)
qed

lemma state_apply_rename:
  "state_apply (st\<lparr>ss_session_id := sid\<rparr>) n e = map_ok (\<lambda>s. s\<lparr>ss_session_id := sid\<rparr>) (state_apply st n e)"
  by (cases e) (simp_all add: state_apply_def state_interrupt_def transition_def)

lemma apply_event_rename:
  "apply_event (rename sid p) n e = map_ok (rename sid) (apply_event p n e)"
proof (cases "state_apply (sp_state p) n e")
  case (Inr st)
  have "project_event n e ((rename sid p)\<lparr>sp_state := st\<lparr>ss_session_id := sid\<rparr>\<rparr>) =
        map_ok (rename sid) (project_event n e (p\<lparr>sp_state := st\<rparr>))"
    unfolding rename_def
    using project_event_state_frame [of n e "st\<lparr>ss_session_id := sid\<rparr>" p]
      project_event_state_frame [of n e st p]
    by (cases "project_event n e p") simp_all
  with Inr show ?thesis
    by (simp add: apply_event_def state_apply_rename rename_def)
qed (simp add: apply_event_def state_apply_rename rename_def)

lemma apply_events_rename:
  "apply_events (rename sid p) n es = map_ok (rename sid) (apply_events p n es)"
proof (induction es arbitrary: p n)
  case (Cons e es)
  then show ?case by (cases "apply_event p n e") (simp_all add: apply_event_rename)
qed simp

lemma rename_new: "rename sid (projection_new k) = projection_new sid"
  by (simp add: rename_def projection_new_def state_new_def)

section \<open>Forking\<close>

lemma filter_upto:
  "map f xs = [a..<a + length xs] \<Longrightarrow> filter (\<lambda>x. f x \<le> (n::nat)) xs = take (Suc n - a) xs"
proof (induction xs arbitrary: a)
  case (Cons x xs)
  have "[a..<a + length (x # xs)] = a # [Suc a..<Suc a + length xs]" by (simp add: upt_rec)
  with Cons.prems have "f x = a" "map f xs = [Suc a..<Suc a + length xs]" by simp_all
  with Cons.IH [of "Suc a"] show ?case by (cases "a \<le> n") (auto simp: Suc_diff_le)
qed simp

lemma filter_after:
  "map f xs = [a..<a + length xs] \<Longrightarrow> filter (\<lambda>x. (n::nat) < f x) xs = drop (Suc n - a) xs"
proof (induction xs arbitrary: a)
  case (Cons x xs)
  have "[a..<a + length (x # xs)] = a # [Suc a..<Suc a + length xs]" by (simp add: upt_rec)
  with Cons.prems have "f x = a" "map f xs = [Suc a..<Suc a + length xs]" by simp_all
  with Cons.IH [of "Suc a"] show ?case by (cases "a \<le> n") (auto simp: Suc_diff_le)
qed simp

lemma session_view_ids:
  assumes "session_view sd st sid r recs p"
  shows "map er_event_id (session_rows st sid) = [1..<1 + length (session_rows st sid)]"
proof -
  from assms have sel: "select_events sd st sid = Inr recs" and ok: "log_ok recs"
    by (simp_all add: session_view_def)
  have "map er_event_id (session_rows st sid) = map re_id recs"
    using collect_rows_ids [of sd sid "session_rows st sid" recs] sel
    by (simp add: select_events_def)
  also have "\<dots> = [1..<1 + length recs]" using ok by (simp only: consecutive_ids)
  finally show ?thesis by (simp only: select_events_length [OF sel])
qed

lemma copy_events_ok:
  assumes "find_session st sid \<noteq> None" and "distinct (map er_event_id rows)"
    and "\<And>r. r \<in> set rows \<Longrightarrow> 0 < er_event_id r \<and> 0 < er_schema_version r"
    and "\<And>e r. e \<in> set (st_events st) \<Longrightarrow> r \<in> set rows \<Longrightarrow> er_session_id e = sid \<Longrightarrow>
           er_event_id e \<noteq> er_event_id r"
  shows "copy_events sid rows st =
         Inr (st\<lparr>st_events := st_events st @ map (\<lambda>r. r\<lparr>er_session_id := sid\<rparr>) rows\<rparr>)"
  using assms
proof (induction rows arbitrary: st)
  case (Cons row rows)
  let ?st = "st\<lparr>st_events := st_events st @ [row\<lparr>er_session_id := sid\<rparr>]\<rparr>"
  have ins: "insert_event (row\<lparr>er_session_id := sid\<rparr>) st = Inr ?st"
    using Cons.prems by (auto simp: insert_event_def list_ex_iff)
  have "copy_events sid rows ?st =
      Inr (?st\<lparr>st_events := st_events ?st @ map (\<lambda>r. r\<lparr>er_session_id := sid\<rparr>) rows\<rparr>)"
  proof (rule Cons.IH)
    show "find_session ?st sid \<noteq> None" using Cons.prems(1) by (simp add: find_session_def)
    show "er_event_id e \<noteq> er_event_id r"
      if "e \<in> set (st_events ?st)" "r \<in> set rows" "er_session_id e = sid" for e r
    proof (cases "e \<in> set (st_events st)")
      case True
      with that Cons.prems(4) show ?thesis by simp
    next
      case False
      with that have "er_event_id e = er_event_id row" by auto
      with that(2) Cons.prems(2) show ?thesis by auto
    qed
  qed (use Cons.prems in auto)
  with ins show ?case by (simp add: copy_events_def)
qed (simp add: copy_events_def)

lemma branch_loop_ok:
  assumes "list_all (storable sd) es" and "find_session st sid = Some r"
    and "ids_below st sid n" and "n + length es \<le> i64_max" and "ss_revision (sp_state p) \<le> n"
  shows "branch_loop sd sid time (Suc n) p st es =
    and_then (map_err InvalidProjection (apply_events p (Suc n) es))
      (\<lambda>q. Inr (q, appended sd sid (\<lambda>_. time) n es q st))"
  using assms
proof (induction es arbitrary: n p st r)
  case Nil
  then show ?case by (simp add: appended_def)
next
  case (Cons e es)
  show ?case
  proof (cases "apply_event p (Suc n) e")
    case (Inr p')
    let ?st = "appended sd sid (\<lambda>_. time) n [e] p' st"
    have ins: "insert_event_row sd sid (Suc n) time e st =
        Inr (st\<lparr>st_events := st_events st @ [event_row_of sd sid (\<lambda>_. time) (Suc n) e]\<rparr>)"
      using insert_event_row_ok [of sd e st sid n "\<lambda>_. time"] Cons.prems by simp
    have rev: "ss_revision (sp_state p') \<le> Suc n"
      using state_apply_revision [OF apply_event_state [OF Inr]] Cons.prems by simp
    have eq: "update_session sid (\<lambda>r. r\<lparr>sr_phase := phase_name (ss_phase (sp_state p')),
          sr_revision := ss_revision (sp_state p'), sr_last_event_id := Suc n,
          sr_updated_at := time\<rparr>)
        (st\<lparr>st_events := st_events st @ [event_row_of sd sid (\<lambda>_. time) (Suc n) e]\<rparr>) = ?st"
      by (simp add: appended_def update_session_def row_after_def)
    have "branch_loop sd sid time (Suc (Suc n)) p' ?st es =
      and_then (map_err InvalidProjection (apply_events p' (Suc (Suc n)) es))
        (\<lambda>q. Inr (q, appended sd sid (\<lambda>_. time) (Suc n) es q ?st))"
    proof (rule Cons.IH)
      show "find_session ?st sid = Some (row_after (\<lambda>_. time) (Suc n) p' r)"
        using Cons.prems by (simp add: find_appended)
      show "ids_below ?st sid (Suc n)"
        using ids_below_appended [of st sid n sd "\<lambda>_. time" "[e]" p'] Cons.prems by simp
    qed (use Cons.prems rev in simp_all)
    moreover have "Suc (Suc n) \<le> u64_max" "Suc n \<le> i64_max" "ss_revision (sp_state p') \<le> i64_max"
      using Cons.prems rev by (auto simp: i64_max_def u64_max_def)
    ultimately show ?thesis
      using Inr ins eq
      by (cases "apply_events p' (Suc (Suc n)) es"; cases es)
         (simp_all add: Let_def i64_try_from_def u64_checked_add_def appended_step)
  qed simp
qed

lemma store_ok_cache:
  assumes "store_ok sd st" and "bt_sorted c"
    and "\<And>k p. bt_get c k = Some p \<Longrightarrow> bt_get (st_cache st) k = Some p"
  shows "store_ok sd (st\<lparr>st_cache := c\<rparr>)"
proof -
  let ?st = "st\<lparr>st_cache := c\<rparr>"
  have s: "session_rows ?st k = session_rows st k" "find_session ?st k = find_session st k"
    "find_project ?st k = find_project st k" for k
    by (simp_all add: session_rows_def find_session_def find_project_def)
  have r: "replay sd ?st k = replay sd st k" "row_agrees sd ?st r = row_agrees sd st r" for k r
    by (simp_all add: replay_same [OF s(1)] row_agrees_same [OF s(1)])
  have refs: "refs_ok ?st = refs_ok st" by (simp add: refs_ok_def s cong: option.case_cong)
  from assms have "cache_ok sd ?st" by (simp add: store_ok_def cache_ok_iff s r)
  with assms(1) refs r show ?thesis by (simp add: store_ok_def)
qed

lemma active_run_get:
  assumes "proj_ok p" and "active_run p = Some run"
  shows "bt_get (sp_runs p) (rp_run_id run) = Some run \<and> rp_status run = R_Running"
proof -
  from assms(1) have s: "bt_sorted (sp_runs p)" and ok: "runs_ok (sp_runs p)"
    by (simp_all add: proj_ok_def runs_ok_def)
  from find_Some_iff_set [OF assms(2) [unfolded active_run_def]]
  obtain k where k: "bt_get (sp_runs p) k = Some run" and st: "rp_status run = R_Running"
    by (auto simp: bt_values_iff [OF s])
  from runs_ok_get [OF ok k] k st show ?thesis by (simp add: run_ok_def)
qed

lemma branch_applies:
  assumes "proj_ok p"
  shows "\<exists>q. apply_events p n (branch_events parent at p) = Inr q \<and>
             ss_phase (sp_state q) = S_Interrupted \<and> sp_queue_paused q \<and>
             sp_messages q = sp_messages p"
  using active_run_get [OF assms]
  by (cases "active_run p")
     (auto simp: branch_events_def apply_event_def state_apply_def project_event_def
       pause_after_def set_run_terminal_def update_run_def)

lemma recorded_from_row_move:
  "recorded_from_row sd sid (row\<lparr>er_session_id := sid\<rparr>) =
   map_ok (\<lambda>e. e\<lparr>re_session_id := sid\<rparr>) (recorded_from_row sd parent row)"
  by (simp add: recorded_from_row_def map_ok_and_then)

lemma collect_move:
  "collect (map (recorded_from_row sd parent) rows) = Inr recs \<Longrightarrow>
   collect (map (recorded_from_row sd sid) (map (\<lambda>r. r\<lparr>er_session_id := sid\<rparr>) rows)) =
   Inr (map (\<lambda>e. e\<lparr>re_session_id := sid\<rparr>) recs)"
proof (induction rows arbitrary: recs)
  case (Cons r rows)
  then obtain e es where "recs = e # es" "recorded_from_row sd parent r = Inr e"
    "collect (map (recorded_from_row sd parent) rows) = Inr es"
    by (auto simp: and_then_eq_Inr)
  with Cons.IH [of es] show ?case by (simp add: recorded_from_row_move [of sd sid r parent])
qed simp

lemma project_log_move:
  assumes "project_log parent recs = Inr p"
  shows "project_log sid (map (\<lambda>e. e\<lparr>re_session_id := sid\<rparr>) recs) = Inr (rename sid p)"
proof -
  let ?recs = "map (\<lambda>e. e\<lparr>re_session_id := sid\<rparr>) recs"
  have ev: "map re_event ?recs = map re_event recs" by simp
  have "consecutive n ?recs = consecutive n recs" for n
    by (simp add: consecutive_ids) (simp add: o_def)
  moreover have "versions_ok ?recs = versions_ok recs" by (simp add: versions_ok_def list_all_iff)
  moreover have "apply_events (projection_new sid) 1 (map re_event ?recs) = Inr (rename sid p)"
    using assms apply_events_rename [of sid "projection_new parent" 1 "map re_event recs"]
    unfolding ev by (simp add: project_log_Inr rename_new)
  ultimately show ?thesis using assms by (simp add: project_log_Inr)
qed

text \<open>What replaying a prefix of a stored log gives.\<close>

lemma prefix_view:
  assumes "session_view sd st sid r recs p" and "1 \<le> at" and "at \<le> length recs"
  obtains p' where "project_log sid (take at recs) = Inr p'"
    and "apply_events (projection_new sid) 1 (take at (map re_event recs)) = Inr p'"
    and "proj_ok p'" and "last_event p' = at" and "ss_revision (sp_state p') \<le> at"
    and "collect (map (recorded_from_row sd sid) (take at (session_rows st sid))) = Inr (take at recs)"
proof -
  from assms(1) have v: "log_ok recs" "versions_ok recs"
    "apply_events (projection_new sid) 1 (map re_event recs) = Inr p"
    "select_events sd st sid = Inr recs"
    by (simp_all add: session_view_def)
  from v(3) have "apply_events (projection_new sid) 1
      (take at (map re_event recs) @ drop at (map re_event recs)) = Inr p" by simp
  then obtain p' where p': "apply_events (projection_new sid) 1 (take at (map re_event recs)) = Inr p'"
    by (auto simp only: apply_events_append and_then_eq_Inr)
  have "take at recs \<noteq> []" using assms(2,3) by auto
  moreover have "versions_ok (take at recs)"
    using v(2) by (auto simp: versions_ok_def list_all_iff dest: in_set_takeD)
  ultimately have pl: "project_log sid (take at recs) = Inr p'"
    using p' consecutive_take [OF v(1), of at] by (simp add: project_log_Inr take_map)
  have "map (recorded_from_row sd sid) (take at (session_rows st sid)) = map Inr (take at recs)"
    using v(4) by (simp add: select_events_def collect_eq_Inr flip: take_map)
  then have c: "collect (map (recorded_from_row sd sid) (take at (session_rows st sid))) = Inr (take at recs)"
    by (simp add: collect_eq_Inr)
  have len: "length (take at (map re_event recs)) = at" using assms(3) by simp
  note ok = replay_well_formed_prefix [OF p']
  have "ss_revision (sp_state p') \<le> at"
    using apply_events_revision [OF p'] len by (simp add: projection_new_def state_new_def)
  with that [OF pl p' _ _ _ c] ok len show thesis by simp
qed

lemma collect_all_ok: "collect (map f xs) = Inr ys \<Longrightarrow> x \<in> set xs \<Longrightarrow> is_ok (f x)"
  by (induction xs arbitrary: ys) (auto simp: and_then_eq_Inr)

lemma recorded_from_row_version:
  "is_ok (recorded_from_row sd sid r) \<Longrightarrow> er_schema_version r = EVENT_SCHEMA_VERSION"
  by (auto simp: recorded_from_row_def split: if_splits)

definition fork_row ::
  "string \<Rightarrow> string \<Rightarrow> string option \<Rightarrow> session_row \<Rightarrow> nat \<Rightarrow> session_projection \<Rightarrow> session_row" where
  "fork_row sid time title prow at p =
     \<lparr>sr_id = sid, sr_title = title, sr_project_id = sr_project_id prow,
      sr_parent_session_id = Some (sr_id prow), sr_forked_at_event_id = Some at,
      sr_created_at = time, sr_updated_at = time, sr_phase = phase_name (ss_phase (sp_state p)),
      sr_revision = ss_revision (sp_state p), sr_last_event_id = at,
      sr_history_retention = ''forever''\<rparr>"

definition fork_copy ::
  "string \<Rightarrow> session_row \<Rightarrow> event_row list \<Rightarrow> store \<Rightarrow> store" where
  "fork_copy sid row rows st =
     st\<lparr>st_sessions := st_sessions st @ [row],
        st_events := st_events st @ map (\<lambda>r. r\<lparr>er_session_id := sid\<rparr>) rows\<rparr>"

lemma fork_insert_ok:
  assumes ok: "store_ok sd st" and find: "find_session st parent = Some prow"
    and fresh: "find_session st sid = None" and view: "session_view sd st parent prow recs p0"
    and at: "1 \<le> at" "at \<le> length recs"
  shows "and_then (insert_session (fork_row sid time title prow at p) st)
           (copy_events sid (take at (session_rows st parent))) =
         Inr (fork_copy sid (fork_row sid time title prow at p) (take at (session_rows st parent)) st)"
proof -
  let ?row = "fork_row sid time title prow at p" and ?rows = "take at (session_rows st parent)"
  have prow: "prow \<in> set (st_sessions st)" "sr_id prow = parent" using find_session_in [OF find] by simp_all
  have refs: "refs_ok st" using ok by (simp add: store_ok_def)
  have "case sr_project_id prow of None \<Rightarrow> True | Some q \<Rightarrow> find_project st q \<noteq> None"
    using refs prow by (simp add: refs_ok_def list_all_iff)
  then have ins: "insert_session ?row st = Inr (st\<lparr>st_sessions := st_sessions st @ [?row]\<rparr>)"
    using fresh find prow by (auto simp: insert_session_def fork_row_def split: option.splits)
  have ids: "map er_event_id ?rows = take at [1..<1 + length (session_rows st parent)]"
    unfolding session_view_ids [OF view, symmetric] by (simp add: take_map)
  have ver: "er_schema_version r = EVENT_SCHEMA_VERSION" if "r \<in> set ?rows" for r
    using view collect_all_ok [of "recorded_from_row sd parent" "session_rows st parent" recs r]
      in_set_takeD [OF that] recorded_from_row_version [of sd parent r]
    by (simp add: session_view_def select_events_def)
  have "er_event_id r \<in> set (take at [1..<1 + length (session_rows st parent)])" if "r \<in> set ?rows" for r
    using that by (metis ids imageI set_map)
  then have pos: "0 < er_event_id r" if "r \<in> set ?rows" for r
    using that in_set_takeD by fastforce
  have "copy_events sid ?rows (st\<lparr>st_sessions := st_sessions st @ [?row]\<rparr>) =
      Inr (fork_copy sid ?row ?rows st)"
    unfolding fork_copy_def
  proof (subst copy_events_ok)
    show "find_session (st\<lparr>st_sessions := st_sessions st @ [?row]\<rparr>) sid \<noteq> None"
      by (simp add: find_session_def find_append fork_row_def split: option.splits)
    show "distinct (map er_event_id ?rows)" unfolding ids by (rule distinct_take) simp
    show "0 < er_event_id r \<and> 0 < er_schema_version r" if "r \<in> set ?rows" for r
      using pos ver that by (simp add: EVENT_SCHEMA_VERSION_def)
    show "er_event_id e \<noteq> er_event_id r"
      if "e \<in> set (st_events (st\<lparr>st_sessions := st_sessions st @ [?row]\<rparr>))" "er_session_id e = sid" for e r
      using no_session_no_rows [OF refs fresh] that by (auto simp: filter_empty_conv)
  qed simp
  with ins show ?thesis by simp
qed

lemma fork_copied:
  assumes ok: "store_ok sd st" and find: "find_session st parent = Some prow"
    and fresh: "find_session st sid = None" and view: "session_view sd st parent prow recs p0"
    and at: "1 \<le> at" "at \<le> length recs"
    and p: "project_log parent (take at recs) = Inr p"
    and c: "collect (map (recorded_from_row sd parent) (take at (session_rows st parent))) = Inr (take at recs)"
    and st2: "st2 = fork_copy sid (fork_row sid time title prow at p) (take at (session_rows st parent)) st"
  shows "store_ok sd st2" and "session_log sd st2 sid = take at (map re_event recs)"
    and "k \<noteq> sid \<Longrightarrow> session_log sd st2 k = session_log sd st k"
    and "find_session st2 sid = Some (fork_row sid time title prow at p)"
    and "replay sd st2 sid = Inr (rename sid p)"
proof -
  let ?row = "fork_row sid time title prow at p"
  let ?rows = "map (\<lambda>r. r\<lparr>er_session_id := sid\<rparr>) (take at (session_rows st parent))"
  have prow: "prow \<in> set (st_sessions st)" "sr_id prow = parent" using find_session_in [OF find] by simp_all
  then have pr: "case sr_project_id ?row of None \<Rightarrow> True | Some q \<Rightarrow> find_project st q \<noteq> None"
    using ok by (simp add: store_ok_def refs_ok_def list_all_iff fork_row_def)
  have len: "length ?rows = at"
    using at view select_events_length [of sd st parent recs] by (simp add: session_view_def)
  have "map er_event_id ?rows = take at [1..<1 + length (session_rows st parent)]"
    unfolding session_view_ids [OF view, symmetric] by (simp add: take_map o_def)
  then have so: "sorted (map er_event_id ?rows)" using sorted_wrt_take [OF sorted_upt] by metis
  have ret: "retention_ok ?row" by (simp add: retention_ok_def fork_row_def retention_parse_def)
  have big: "length ?rows \<le> i64_max" using at view len by (simp add: session_view_def)
  have shape: "sr_id ?row = sid" "st_sessions st2 = st_sessions st @ [?row]"
    "st_events st2 = st_events st @ ?rows" "st_cache st2 = st_cache st" "st_projects st2 = st_projects st"
    by (simp_all add: st2 fork_copy_def fork_row_def)
  have own: "er_session_id r = sid" if "r \<in> set ?rows" for r using that by auto
  have vals: "sr_phase ?row = phase_name (ss_phase (sp_state (rename sid p)))"
    "sr_revision ?row = ss_revision (sp_state (rename sid p))" "sr_last_event_id ?row = length ?rows"
    using len by (simp_all add: fork_row_def)
  note fx = new_session_ok [OF ok fresh shape own so collect_move [OF c] project_log_move [OF p]
      vals big ret pr]
  show "store_ok sd st2" and "find_session st2 sid = Some ?row"
    and "replay sd st2 sid = Inr (rename sid p)"
    by (rule fx; assumption)+
  show "k \<noteq> sid \<Longrightarrow> session_log sd st2 k = session_log sd st k" by (rule fx)
  show "session_log sd st2 sid = take at (map re_event recs)"
    using fx(2) by (simp add: take_map o_def)
qed

lemma appended_rename: "appended sd sid clock n es (rename k q) st = appended sd sid clock n es q st"
proof -
  have "row_after clock m (rename k q) = row_after clock m q" for m
    by (rule ext) (simp add: row_after_def)
  then show ?thesis by (simp add: appended_def)
qed

lemma branch_events_rename: "branch_events parent at (rename sid p) = branch_events parent at p"
  by (simp add: branch_events_def active_run_def)

lemma length_branch_events: "branch_events parent at p \<noteq> []" "length (branch_events parent at p) \<le> 3"
  by (simp_all add: branch_events_def split: option.splits)

text \<open>The branch events on top of the copied prefix.\<close>

lemma fork_branch:
  assumes ok2: "store_ok sd st2" and find2: "find_session st2 sid = Some row"
    and rp: "replay sd st2 sid = Inr (rename sid p)" and pok: "proj_ok p"
    and last: "sr_last_event_id row = at" and room: "at + length (branch_events parent at p) \<le> i64_max"
    and rev: "ss_revision (sp_state p) \<le> at" and nc: "bt_get (st_cache st2) sid = None"
    and sto: "storable sd (SessionForked parent at)" "storable sd QueuePaused"
      "\<And>run. storable sd (RunInterrupted run ''forked_branch'')"
  shows "\<exists>q st3. branch_loop sd sid time (Suc at) p st2 (branch_events parent at p) = Inr (q, st3) \<and>
    store_ok sd st3 \<and> session_log sd st3 sid = session_log sd st2 sid @ branch_events parent at p \<and>
    (\<forall>k. k \<noteq> sid \<longrightarrow> session_log sd st3 k = session_log sd st2 k) \<and>
    replay sd st3 sid = Inr (rename sid q) \<and> ss_phase (sp_state q) = S_Interrupted \<and>
    sp_queue_paused q \<and> sp_messages q = sp_messages p \<and>
    (\<exists>row3. find_session st3 sid = Some row3 \<and> sr_parent_session_id row3 = sr_parent_session_id row)"
proof -
  let ?bes = "branch_events parent at p"
  have bes: "list_all (storable sd) ?bes" using sto by (simp add: branch_events_def split: option.splits)
  from branch_applies [OF pok] obtain q where q: "apply_events p (Suc at) ?bes = Inr q"
    "ss_phase (sp_state q) = S_Interrupted" "sp_queue_paused q" "sp_messages q = sp_messages p" by blast
  define st3 where "st3 = appended sd sid (\<lambda>_. time) at ?bes q st2"
  obtain recs2 p2 where v2: "session_view sd st2 sid row recs2 p2"
    using ok2 find2 by (rule session_facts)
  have n2: "length recs2 = at" and p2: "p2 = rename sid p" and below: "ids_below st2 sid at"
    using v2 rp last by (simp_all add: session_view_def)
  have room2: "length recs2 + length ?bes \<le> i64_max"
    using room n2 by simp
  have loop: "branch_loop sd sid time (Suc at) p st2 ?bes = Inr (q, st3)"
    using branch_loop_ok [OF bes find2 below _ rev] room2 n2 q(1) by (simp add: st3_def)
  have q2: "apply_events p2 (Suc (length recs2)) ?bes = Inr (rename sid q)"
    using apply_events_rename [of sid p "Suc at" ?bes] q(1) n2 p2 by simp
  let ?st = "st3\<lparr>st_cache := bt_insert sid (rename sid q) (st_cache st2)\<rparr>"
  have st: "?st = (appended sd sid (\<lambda>_. time) (length recs2) ?bes (rename sid q) st2)
      \<lparr>st_cache := bt_insert sid (rename sid q) (st_cache st2)\<rparr>"
    by (simp add: st3_def n2 appended_rename)
  note ap3 = appended_ok [OF ok2 find2 v2 bes length_branch_events(1) q2 room2 st]
  have srt: "bt_sorted (st_cache st2)" using ok2 by (simp add: store_ok_def cache_ok_def)
  have "store_ok sd (?st\<lparr>st_cache := st_cache st2\<rparr>)"
    by (rule store_ok_cache [OF ap3(1) srt]) (use nc in auto)
  moreover have "?st\<lparr>st_cache := st_cache st2\<rparr> = st3" by (simp add: st3_def)
  ultimately have ok3: "store_ok sd st3" by simp
  have rows3: "session_rows ?st k = session_rows st3 k" for k by (simp add: session_rows_def)
  have log3: "session_log sd ?st k = session_log sd st3 k" "replay sd ?st k = replay sd st3 k" for k
    by (simp_all add: session_log_def select_events_def replay_def rows3)
  have f3: "find_session st3 sid = Some (row_after (\<lambda>_. time) (at + length ?bes) q row)"
    using find2 length_branch_events(1) by (simp add: st3_def find_appended)
  have par: "sr_parent_session_id (row_after (\<lambda>_. time) (at + length ?bes) q row) = sr_parent_session_id row"
    by (simp add: row_after_def)
  from loop ok3 ap3(2,3) q(2-4) log3 f3 par have "branch_loop sd sid time (Suc at) p st2 ?bes = Inr (q, st3)"
    "store_ok sd st3" "session_log sd st3 sid = session_log sd st2 sid @ ?bes"
    "replay sd st3 sid = Inr (rename sid q)" by simp_all
  moreover have "\<forall>k. k \<noteq> sid \<longrightarrow> session_log sd st3 k = session_log sd st2 k"
    using ap3(4) log3 by simp
  ultimately show ?thesis using q(2-4) f3 par by blast
qed

lemma last_take_row:
  assumes "session_view sd st sid r recs p" and "1 \<le> at" and "at \<le> length recs"
  shows "take at (session_rows st sid) \<noteq> [] \<and> er_event_id (last (take at (session_rows st sid))) = at"
proof -
  let ?rows = "take at (session_rows st sid)"
  have len: "length (session_rows st sid) = length recs"
    using assms(1) select_events_length [of sd st sid recs] by (simp add: session_view_def)
  have ne: "?rows \<noteq> []" using assms(2,3) len by auto
  then have "er_event_id (last ?rows) = last (map er_event_id ?rows)" by (simp add: last_map)
  also have "map er_event_id ?rows = take at [1..<1 + length (session_rows st sid)]"
    unfolding session_view_ids [OF assms(1), symmetric] by (simp add: take_map)
  also have "\<dots> = [1..<1 + at]" using assms(2,3) len by (simp add: take_upt del: upt_Suc)
  finally show ?thesis using ne assms(2) by simp
qed

lemma fork_session_room:
  assumes ok: "store_ok sd st" and find: "find_session st parent = Some prow"
    and fresh: "find_session st sid = None"
    and at: "1 \<le> at" "at \<le> length (session_log sd st parent)" and room: "\<And>p. apply_events (projection_new parent) 1 (take at (session_log sd st parent)) = Inr p \<Longrightarrow>
      at + length (branch_events parent at p) \<le> i64_max"
    and sto: "storable sd (SessionForked parent at)" "storable sd QueuePaused"
      "\<And>run. storable sd (RunInterrupted run ''forked_branch'')"
  shows "\<exists>s st' p q. fork_session sd sid time parent at title st = Inr (s, st') \<and> store_ok sd st' \<and>
    apply_events (projection_new parent) 1 (take at (session_log sd st parent)) = Inr p \<and>
    session_log sd st' sid = take at (session_log sd st parent) @ branch_events parent at p \<and>
    (\<forall>k. k \<noteq> sid \<longrightarrow> session_log sd st' k = session_log sd st k) \<and>
    replay sd st' sid = Inr q \<and> ss_phase (sp_state q) = S_Interrupted \<and> sp_queue_paused q \<and>
    sp_messages q = sp_messages p \<and> sm_id s = sid \<and> sm_parent_session_id s = Some parent \<and>
    sm_phase s = S_Interrupted"
proof -
  obtain recs p0 where view: "session_view sd st parent prow recs p0" using ok find by (rule session_facts)
  note log = session_log_view [OF view]
  with at have at': "1 \<le> at" "at \<le> length recs" by simp_all
  obtain p where p: "project_log parent (take at recs) = Inr p"
    and ap: "apply_events (projection_new parent) 1 (take at (map re_event recs)) = Inr p"
    and pok: "proj_ok p" and rev: "ss_revision (sp_state p) \<le> at"
    and c: "collect (map (recorded_from_row sd parent) (take at (session_rows st parent))) = Inr (take at recs)"
    by (rule prefix_view [OF view at'])
  have room': "at + length (branch_events parent at p) \<le> i64_max"
    using room ap log by (simp add: take_map)
  let ?row = "fork_row sid time title prow at p" and ?rows = "take at (session_rows st parent)"
  define st2 where "st2 = fork_copy sid ?row ?rows st"
  note copied = fork_copied [OF ok find fresh view at' p c st2_def]
  have nc: "bt_get (st_cache st2) sid = None"
    using cache_get [OF ok, of sid] fresh by (cases "bt_get (st_cache st) sid") (auto simp: st2_def fork_copy_def)
  have "sr_last_event_id ?row = at" by (simp add: fork_row_def)
  from fork_branch [OF copied(1,4,5) pok this room' rev nc sto] obtain q st3 row3 where
    loop: "branch_loop sd sid time (Suc at) p st2 (branch_events parent at p) = Inr (q, st3)"
    and st3: "store_ok sd st3" "session_log sd st3 sid = session_log sd st2 sid @ branch_events parent at p"
      "\<forall>k. k \<noteq> sid \<longrightarrow> session_log sd st3 k = session_log sd st2 k" "replay sd st3 sid = Inr (rename sid q)"
    and q: "ss_phase (sp_state q) = S_Interrupted" "sp_queue_paused q" "sp_messages q = sp_messages p"
    and row3: "find_session st3 sid = Some row3" "sr_parent_session_id row3 = sr_parent_session_id ?row"
    by blast
  have prow: "sr_id prow = parent" using find_session_in [OF find] by simp
  from get_session_ok [OF st3(1) row3(1) st3(4)] q(1) row3(2) prow obtain s where s: "get_session sid st3 = Inr s"
    "sm_phase s = S_Interrupted" "sm_id s = sid" "sm_parent_session_id s = Some parent"
    by (auto simp: fork_row_def)
  have filt: "filter (\<lambda>r. er_event_id r \<le> at) (session_rows st parent) = ?rows"
    using filter_upto [OF session_view_ids [OF view], of at] by simp
  have big: "at \<le> i64_max" "ss_revision (sp_state p) \<le> i64_max" "at + 1 \<le> u64_max"
    using room' rev by (simp_all add: i64_max_def u64_max_def)
  obtain st1 where ins: "insert_session ?row st = Inr st1" and cp: "copy_events sid ?rows st1 = Inr st2"
    using fork_insert_ok [OF ok find fresh view at', of time title p] by (auto simp: and_then_eq_Inr st2_def)
  have "fork_session sd sid time parent at title st = Inr (s, st3)"
    using find filt last_take_row [OF view at'] c p big ins cp loop s(1) prow
    by (simp add: fork_session_def Let_def i64_try_from_def u64_checked_add_def fork_row_def)
  then show ?thesis
    using st3 copied(2,3) ap q s log
    by (intro exI [of _ s] exI [of _ st3] exI [of _ p] exI [of _ "rename sid q"]) simp
qed

lemma fork_session_ok:
  assumes ok: "store_ok sd st" and find: "find_session st parent = Some prow"
    and fresh: "find_session st sid = None"
    and at: "1 \<le> at" "at \<le> length (session_log sd st parent)" and room: "at + 3 \<le> i64_max"
    and sto: "storable sd (SessionForked parent at)" "storable sd QueuePaused"
      "\<And>run. storable sd (RunInterrupted run ''forked_branch'')"
  shows "\<exists>s st' p q. fork_session sd sid time parent at title st = Inr (s, st') \<and> store_ok sd st' \<and>
    apply_events (projection_new parent) 1 (take at (session_log sd st parent)) = Inr p \<and>
    session_log sd st' sid = take at (session_log sd st parent) @ branch_events parent at p \<and>
    (\<forall>k. k \<noteq> sid \<longrightarrow> session_log sd st' k = session_log sd st k) \<and>
    replay sd st' sid = Inr q \<and> ss_phase (sp_state q) = S_Interrupted \<and> sp_queue_paused q \<and>
    sp_messages q = sp_messages p \<and> sm_id s = sid \<and> sm_parent_session_id s = Some parent \<and>
    sm_phase s = S_Interrupted"
proof -
  have "at + length (branch_events parent at p) \<le> i64_max" for p
    using room length_branch_events(2) [of parent at p] by simp
  from fork_session_room [OF ok find fresh at this sto] show ?thesis by blast
qed

end
