(* ===== verification/Store_Reads.thy ===== *)
theory Store_Reads
  imports Store_Sessions
begin

text \<open>
  Reading the store and restarting the server: event pages are slices of the log, the cached
  projection is the replayed one, start-up validation accepts every well-formed store, and
  recovery leaves no session running.
\<close>

section \<open>The log determines the session\<close>

lemma session_log_empty_iff:
  assumes "store_ok sd st"
  shows "session_log sd st k = [] \<longleftrightarrow> find_session st k = None"
proof (cases "find_session st k")
  case None
  have "refs_ok st" using assms by (simp add: store_ok_def)
  from no_session_no_rows [OF this None] None show ?thesis
    by (simp add: session_log_def select_events_def session_rows_def)
next
  case (Some r)
  obtain recs p where v: "session_view sd st k r recs p" using assms Some by (rule session_facts)
  with Some session_log_view [OF v] show ?thesis by (simp add: session_view_def)
qed

lemma session_row_replay:
  assumes "store_ok sd st" and "find_session st k = Some r"
  shows "\<exists>p. apply_events (projection_new k) 1 (session_log sd st k) = Inr p \<and> replay sd st k = Inr p \<and>
     sr_phase r = phase_name (ss_phase (sp_state p)) \<and> length (session_log sd st k) \<le> i64_max \<and>
     proj_ok p \<and> sr_last_event_id r = length (session_log sd st k)"
proof -
  obtain recs p where v: "session_view sd st k r recs p" using assms by (rule session_facts)
  then have ap: "apply_events (projection_new k) 1 (map re_event recs) = Inr p"
    by (simp add: session_view_def)
  from replay_well_formed_prefix [OF ap] v ap session_log_view [OF v] show ?thesis
    by (auto simp: session_view_def)
qed

lemma phase_name_inj: "phase_name a = phase_name b \<Longrightarrow> a = b"
  by (cases a; cases b) simp_all

lemma running_iff:
  assumes "store_ok sd st" and "find_session st k = Some r"
  shows "sr_phase r = ''running'' \<longleftrightarrow>
    (\<exists>p. apply_events (projection_new k) 1 (session_log sd st k) = Inr p \<and> ss_phase (sp_state p) = S_Running)"
  using session_row_replay [OF assms] phase_name_inj [of _ S_Running] by auto

section \<open>Pages of events\<close>

lemma store_events_slice:
  assumes "store_ok sd st" and "find_session st sid = Some r" and "after \<le> i64_max"
    and "select_events sd st sid = Inr recs"
  shows "store_events sd sid after limit st =
    Inr (let page = drop after recs in if limit = u32_max then page else take (max 1 (min limit 200)) page)"
proof -
  obtain recs' p where v: "session_view sd st sid r recs' p" using assms(1,2) by (rule session_facts)
  have "map (recorded_from_row sd sid) (session_rows st sid) = map Inr recs"
    using assms(4) by (simp add: select_events_def collect_eq_Inr)
  then have c: "collect (map (recorded_from_row sd sid) (take k (drop after (session_rows st sid)))) =
      Inr (take k (drop after recs))" for k
    by (simp add: collect_eq_Inr flip: take_map drop_map)
  have c': "collect (map (recorded_from_row sd sid) (drop after (session_rows st sid))) = Inr (drop after recs)"
    using c [of "length (session_rows st sid)"] select_events_length [OF assms(4)] by simp
  have f: "filter (\<lambda>r. after < er_event_id r) (session_rows st sid) = drop after (session_rows st sid)"
    using filter_after [OF session_view_ids [OF v], of after] by simp
  show ?thesis
    using assms(2,3) f c c' by (simp add: store_events_def ensure_session_def i64_try_from_def Let_def)
qed

lemma store_events_all:
  assumes "store_ok sd st" and "find_session st sid = Some r"
  shows "store_events sd sid 0 u32_max st = select_events sd st sid"
proof -
  obtain recs p where v: "session_view sd st sid r recs p" using assms by (rule session_facts)
  then have s: "select_events sd st sid = Inr recs" by (simp add: session_view_def)
  from store_events_slice [OF assms _ s, of 0 u32_max] s show ?thesis by (simp add: i64_max_def)
qed

section \<open>Projections and snapshots\<close>

lemma projection_ok:
  assumes "store_ok sd st" and "find_session st sid = Some r" and "replay sd st sid = Inr p"
  shows "\<exists>st'. projection sd sid st = Inr (p, st') \<and> store_ok sd st' \<and>
    (\<forall>k. session_log sd st' k = session_log sd st k)"
proof (cases "bt_get (st_cache st) sid")
  case None
  let ?st = "st\<lparr>st_cache := bt_insert sid p (st_cache st)\<rparr>"
  have "projection sd sid st = Inr (p, ?st)"
    using None assms store_events_all [OF assms(1,2)]
    by (auto simp: projection_def replay_def and_then_eq_Inr)
  moreover have rows: "session_rows ?st k = session_rows st k" for k by (simp add: session_rows_def)
  have "store_ok sd ?st"
  proof -
    have s: "find_session ?st k = find_session st k" "find_project ?st k = find_project st k" for k
      by (simp_all add: find_session_def find_project_def)
    have r: "replay sd ?st k = replay sd st k" "row_agrees sd ?st r = row_agrees sd st r" for k r
      by (simp_all add: replay_same [OF rows] row_agrees_same [OF rows])
    have refs: "refs_ok ?st = refs_ok st" by (simp add: refs_ok_def s cong: option.case_cong)
    have "cache_ok sd ?st" using assms by (auto simp: store_ok_def cache_ok_iff s r)
    with assms(1) refs r show ?thesis by (simp add: store_ok_def)
  qed
  moreover have "session_log sd ?st k = session_log sd st k" for k
    by (simp add: session_log_def select_events_def rows)
  ultimately show ?thesis by blast
next
  case (Some p')
  with cache_get [OF assms(1) Some] assms show ?thesis by (simp add: projection_def)
qed

lemma snapshot_ok:
  assumes "store_ok sd st" and "find_session st sid = Some r" and "replay sd st sid = Inr p"
  shows "\<exists>sn. get_session_snapshot sd sid st = Inr sn \<and> sn_projection sn = p \<and>
    sm_last_event_id (sn_summary sn) = length (session_log sd st sid) \<and>
    sm_phase (sn_summary sn) = ss_phase (sp_state p)"
proof -
  obtain recs p' where v: "session_view sd st sid r recs p'" using assms(1,2) by (rule session_facts)
  with assms(3) have ap: "apply_events (projection_new sid) 1 (map re_event recs) = Inr p"
    and ne: "recs \<noteq> []" by (simp_all add: session_view_def)
  from replay_well_formed_prefix [OF ap] have le: "last_event p = length recs" by simp
  with ne have last: "ss_last_event_id (sp_state p) = Some (length recs)"
    by (cases "ss_last_event_id (sp_state p)") (auto simp: last_event_def)
  from get_session_ok [OF assms] obtain s where s: "get_session sid st = Inr s"
    "sm_last_event_id s = length (session_log sd st sid)" "sm_phase s = ss_phase (sp_state p)" by blast
  from assms(3) obtain es where es: "select_events sd st sid = Inr es" "project_log sid es = Inr p"
    by (auto simp: replay_def and_then_eq_Inr)
  show ?thesis
    using s es last session_log_view [OF v] by (simp add: get_session_snapshot_def)
qed

section \<open>Start-up\<close>

lemma validate_rows_ok:
  assumes "store_ok sd st"
  shows "set rows \<subseteq> set (st_sessions st) \<Longrightarrow> validate_rows sd st rows = Inr ()"
proof (induction rows)
  case (Cons row rows)
  then have "row \<in> set (st_sessions st)" by simp
  with assms have find: "find_session st (sr_id row) = Some row"
    by (intro in_find_session) (simp_all add: store_ok_def refs_ok_def)
  obtain recs p where v: "session_view sd st (sr_id row) row recs p" using assms find by (rule session_facts)
  then have ap: "apply_events (projection_new (sr_id row)) 1 (map re_event recs) = Inr p"
    by (simp add: session_view_def)
  from replay_well_formed_prefix [OF ap] have "unwrap_or 0 (ss_last_event_id (sp_state p)) = length recs"
    by (simp add: last_event_def)
  with v Cons store_events_all [OF assms find] show ?case
    by (auto simp: session_view_def replay_def and_then_eq_Inr)
qed simp

section \<open>Recovery\<close>

lemma append_event_cases:
  assumes "store_ok sd st" and "find_session st sid = Some r" and "storable sd e"
    and "length (session_log sd st sid) < i64_max"
    and "apply_events (projection_new sid) 1 (session_log sd st sid @ [e]) = Inr q"
  shows "\<exists>rec st'. append_event sd clock sid e st = Inr (rec, st') \<and> re_event rec = e \<and> store_ok sd st' \<and>
    session_log sd st' sid = session_log sd st sid @ [e] \<and>
    (\<forall>k. k \<noteq> sid \<longrightarrow> session_log sd st' k = session_log sd st k) \<and> replay sd st' sid = Inr q"
proof -
  from append_events_cases [OF assms(1,2), of "[e]" clock] assms(3-5)
  obtain recs st' where "append_events sd clock sid [e] st = Inr (recs, st')" "store_ok sd st'"
    "session_log sd st' sid = session_log sd st sid @ [e]"
    "\<forall>k. k \<noteq> sid \<longrightarrow> session_log sd st' k = session_log sd st k" "replay sd st' sid = Inr q"
    "map re_event recs = [e]" by auto
  then show ?thesis by (auto simp: append_event_def)
qed

lemma apply_interrupt:
  assumes "ss_phase (sp_state p) = S_Running"
  shows "\<exists>q. apply_event p n (SessionInterrupted reason) = Inr q \<and> ss_phase (sp_state q) = S_Interrupted"
  using assms
  by (simp add: apply_event_def state_apply_def state_interrupt_def transition_def project_event_def)

lemma apply_run_interrupted:
  assumes "proj_ok p" and "active_run p = Some run"
  shows "\<exists>q. apply_event p n (RunInterrupted (rp_run_id run) reason) = Inr q \<and>
             ss_phase (sp_state q) = ss_phase (sp_state p)"
  using active_run_get [OF assms]
  by (simp add: apply_event_def state_apply_def project_event_def pause_after_def
      set_run_terminal_def update_run_def)

lemma apply_events_snoc:
  "apply_events p n es = Inr q \<Longrightarrow> apply_event q (n + length es) e = Inr q' \<Longrightarrow>
   apply_events p n (es @ [e]) = Inr q'"
  by (simp add: apply_events_append)

lemma recover_step:
  assumes ok: "store_ok sd st" and find: "find_session st sid = Some r" and run: "sr_phase r = ''running''"
    and room: "length (session_log sd st sid) + 2 \<le> i64_max"
    and sto: "storable sd (SessionInterrupted ''server_restart'')"
      "\<And>run. storable sd (RunInterrupted run ''server_restart'')"
  shows "\<exists>rec st3. recover_sessions sd clock (sid # sids) st =
      (case recover_sessions sd clock sids st3 of
         (Inl e, st4) \<Rightarrow> (Inl e, st4) | (Inr es, st4) \<Rightarrow> (Inr (rec # es), st4)) \<and>
    store_ok sd st3 \<and> (\<forall>k. k \<noteq> sid \<longrightarrow> session_log sd st3 k = session_log sd st k) \<and>
    (\<exists>q. apply_events (projection_new sid) 1 (session_log sd st3 sid) = Inr q \<and>
         ss_phase (sp_state q) = S_Interrupted) \<and>
    (\<exists>more. session_log sd st3 sid = session_log sd st sid @ more \<and> length more \<le> 2)"
proof -
  let ?log = "session_log sd st sid" and ?i = "SessionInterrupted ''server_restart''"
  from running_iff [OF ok find] run obtain p where p: "apply_events (projection_new sid) 1 ?log = Inr p"
    "ss_phase (sp_state p) = S_Running" by blast
  from apply_interrupt [OF p(2)] obtain q where q: "apply_event p (1 + length ?log) ?i = Inr q"
    "ss_phase (sp_state q) = S_Interrupted" by blast
  note ap = apply_events_snoc [OF p(1) q(1)]
  from append_event_cases [OF ok find sto(1) _ ap, of clock] room obtain rec st1 where
    a1: "append_event sd clock sid ?i st = Inr (rec, st1)" and ok1: "store_ok sd st1"
    and log1: "session_log sd st1 sid = ?log @ [?i]" "\<forall>k. k \<noteq> sid \<longrightarrow> session_log sd st1 k = session_log sd st k"
    and r1: "replay sd st1 sid = Inr q" by auto
  obtain row1 where find1: "find_session st1 sid = Some row1"
    using session_log_empty_iff [OF ok1, of sid] log1 by fastforce
  from projection_ok [OF ok1 find1 r1] obtain st2 where pr: "projection sd sid st1 = Inr (q, st2)"
    and ok2: "store_ok sd st2" and log2: "\<And>k. session_log sd st2 k = session_log sd st1 k" by blast
  obtain row2 where find2: "find_session st2 sid = Some row2"
    using session_log_empty_iff [OF ok2, of sid] log1 log2 by fastforce
  show ?thesis
  proof (cases "active_run q")
    case None
    with a1 pr ok2 log1 log2 ap q(2) show ?thesis
      by (intro exI [of _ rec] exI [of _ st2]) simp
  next
    case (Some run)
    from replay_well_formed_prefix [OF ap] have "proj_ok q" by simp
    from apply_run_interrupted [OF this Some, of "1 + length (?log @ [?i])" "''server_restart''"]
    obtain q2 where q2: "apply_event q (1 + length (?log @ [?i])) (RunInterrupted (rp_run_id run) ''server_restart'') = Inr q2"
      "ss_phase (sp_state q2) = S_Interrupted" using q(2) by auto
    note ap2 = apply_events_snoc [OF ap q2(1)]
    from append_event_cases [OF ok2 find2 sto(2) _ ap2 [folded log1(1) log2], of clock] room log1 log2
    obtain rec3 st3 where "append_event sd clock sid (RunInterrupted (rp_run_id run) ''server_restart'') st2 = Inr (rec3, st3)"
      "store_ok sd st3" "session_log sd st3 sid = (?log @ [?i]) @ [RunInterrupted (rp_run_id run) ''server_restart'']"
      "\<forall>k. k \<noteq> sid \<longrightarrow> session_log sd st3 k = session_log sd st2 k" by auto
    with a1 pr Some log1 log2 ap2 q2(2) show ?thesis
      by (intro exI [of _ rec] exI [of _ st3]) simp
  qed
qed

lemma recover_sessions_ok:
  assumes "store_ok sd st" and "distinct sids"
    and "\<forall>sid \<in> set sids. (\<exists>r. find_session st sid = Some r \<and> sr_phase r = ''running'') \<and>
           length (session_log sd st sid) + 2 \<le> i64_max"
    and sto: "storable sd (SessionInterrupted ''server_restart'')"
      "\<And>run. storable sd (RunInterrupted run ''server_restart'')"
  shows "\<exists>es st'. recover_sessions sd clock sids st = (Inr es, st') \<and> length es = length sids \<and>
    store_ok sd st' \<and> (\<forall>k. k \<notin> set sids \<longrightarrow> session_log sd st' k = session_log sd st k) \<and>
    (\<forall>k \<in> set sids. (\<exists>q. apply_events (projection_new k) 1 (session_log sd st' k) = Inr q \<and>
        ss_phase (sp_state q) = S_Interrupted) \<and> (\<exists>more. session_log sd st' k = session_log sd st k @ more \<and> length more \<le> 2))"
  using assms(1-3)
proof (induction sids arbitrary: st)
  case (Cons sid sids)
  then obtain r where r: "find_session st sid = Some r" "sr_phase r = ''running''"
    and room: "length (session_log sd st sid) + 2 \<le> i64_max" by auto
  from recover_step [OF Cons.prems(1) r room sto, of clock sids] obtain rec st3 where
    step: "recover_sessions sd clock (sid # sids) st =
      (case recover_sessions sd clock sids st3 of
         (Inl e, st4) \<Rightarrow> (Inl e, st4) | (Inr es, st4) \<Rightarrow> (Inr (rec # es), st4))"
    and ok3: "store_ok sd st3" and other: "\<forall>k. k \<noteq> sid \<longrightarrow> session_log sd st3 k = session_log sd st k"
    and own: "\<exists>q. apply_events (projection_new sid) 1 (session_log sd st3 sid) = Inr q \<and>
         ss_phase (sp_state q) = S_Interrupted" "\<exists>more. session_log sd st3 sid = session_log sd st sid @ more \<and> length more \<le> 2"
    by blast
  have "(\<exists>r. find_session st3 k = Some r \<and> sr_phase r = ''running'') \<and>
      length (session_log sd st3 k) + 2 \<le> i64_max" if "k \<in> set sids" for k
  proof -
    from that Cons.prems(2) have k: "k \<noteq> sid" by auto
    from that Cons.prems(3) obtain r where "find_session st k = Some r" "sr_phase r = ''running''"
      and rm: "length (session_log sd st k) + 2 \<le> i64_max" by auto
    with running_iff [OF Cons.prems(1)] obtain p where
      "apply_events (projection_new k) 1 (session_log sd st k) = Inr p" "ss_phase (sp_state p) = S_Running"
      and ne: "session_log sd st k \<noteq> []"
      using session_log_empty_iff [OF Cons.prems(1), of k] by auto
    moreover from ne session_log_empty_iff [OF ok3, of k] other k obtain r3
      where "find_session st3 k = Some r3" by auto
    ultimately show ?thesis using running_iff [OF ok3] other k rm by auto
  qed
  with Cons.IH [OF ok3] Cons.prems(2) obtain es st' where ih: "recover_sessions sd clock sids st3 = (Inr es, st')"
    "length es = length sids" "store_ok sd st'"
    "\<forall>k. k \<notin> set sids \<longrightarrow> session_log sd st' k = session_log sd st3 k"
    "\<forall>k \<in> set sids. (\<exists>q. apply_events (projection_new k) 1 (session_log sd st' k) = Inr q \<and>
        ss_phase (sp_state q) = S_Interrupted) \<and> (\<exists>more. session_log sd st' k = session_log sd st3 k @ more \<and> length more \<le> 2)"
    by auto
  have "sid \<notin> set sids" "k \<in> set sids \<Longrightarrow> k \<noteq> sid" for k using Cons.prems(2) by auto
  with ih other own step show ?case by auto
qed simp

lemma recover_running_ok:
  assumes "store_ok sd st"
    and "\<And>k. find_session st k \<noteq> None \<Longrightarrow> length (session_log sd st k) + 2 \<le> i64_max"
    and "storable sd (SessionInterrupted ''server_restart'')"
    and "\<And>run. storable sd (RunInterrupted run ''server_restart'')"
  shows "\<exists>es st'. recover_running_sessions sd clock st = (Inr es, st') \<and> store_ok sd st' \<and>
    length es = length (filter (\<lambda>r. sr_phase r = ''running'') (st_sessions st)) \<and>
    (\<forall>r \<in> set (st_sessions st'). sr_phase r \<noteq> ''running'') \<and>
    (\<forall>k. \<exists>more. session_log sd st' k = session_log sd st k @ more \<and> length more \<le> 2) \<and>
    (\<forall>r \<in> set (st_sessions st). sr_phase r \<noteq> ''running'' \<longrightarrow>
       session_log sd st' (sr_id r) = session_log sd st (sr_id r))"
proof -
  let ?run = "filter (\<lambda>r. sr_phase r = ''running'') (st_sessions st)"
  have d: "distinct (map sr_id (st_sessions st))" using assms(1) by (simp add: store_ok_def refs_ok_def)
  have "distinct (map sr_id ?run)" using d by (rule distinct_map_filter)
  moreover have "\<forall>sid \<in> set (map sr_id ?run). (\<exists>r. find_session st sid = Some r \<and> sr_phase r = ''running'') \<and>
      length (session_log sd st sid) + 2 \<le> i64_max"
    using in_find_session [OF d] assms(2) by fastforce
  ultimately obtain es st' where r: "recover_running_sessions sd clock st = (Inr es, st')"
    "length es = length ?run" "store_ok sd st'"
    "\<forall>k. k \<notin> set (map sr_id ?run) \<longrightarrow> session_log sd st' k = session_log sd st k"
    "\<forall>k \<in> set (map sr_id ?run). (\<exists>q. apply_events (projection_new k) 1 (session_log sd st' k) = Inr q \<and>
        ss_phase (sp_state q) = S_Interrupted) \<and> (\<exists>more. session_log sd st' k = session_log sd st k @ more \<and> length more \<le> 2)"
    using recover_sessions_ok [OF assms(1), of "map sr_id ?run" clock] assms(3,4)
    by (auto simp: recover_running_sessions_def)
  have mem: "k \<in> set (map sr_id ?run) \<longleftrightarrow>
      (\<exists>r. r \<in> set (st_sessions st) \<and> sr_id r = k \<and> sr_phase r = ''running'')" for k by auto
  have idle: "sr_id r \<notin> set (map sr_id ?run)" if "r \<in> set (st_sessions st)" "sr_phase r \<noteq> ''running''" for r
    using that in_find_session [OF d] by (fastforce dest: arg_cong [of _ _ "find_session st"])
  have "sr_phase r' \<noteq> ''running''" if r': "r' \<in> set (st_sessions st')" for r'
  proof -
    let ?k = "sr_id r'"
    have d': "distinct (map sr_id (st_sessions st'))" using r(3) by (simp add: store_ok_def refs_ok_def)
    note f' = in_find_session [OF d' r']
    show ?thesis
    proof (cases "?k \<in> set (map sr_id ?run)")
      case True
      with r(5) running_iff [OF r(3) f'] show ?thesis by auto
    next
      case False
      with r(4) have log: "session_log sd st' ?k = session_log sd st ?k" by simp
      with session_log_empty_iff [OF r(3), of ?k] f' session_log_empty_iff [OF assms(1), of ?k]
      obtain r0 where r0: "find_session st ?k = Some r0" by auto
      from find_session_in [OF r0] False mem have "sr_phase r0 \<noteq> ''running''" by blast
      with running_iff [OF r(3) f'] running_iff [OF assms(1) r0] log show ?thesis by simp
    qed
  qed
  moreover have "\<exists>more. session_log sd st' k = session_log sd st k @ more \<and> length more \<le> 2" for k
    using r(4,5) by (cases "k \<in> set (map sr_id ?run)") auto
  ultimately show ?thesis using r(1-3) r(4) idle by blast
qed

section \<open>Deleting a project\<close>

lemma foldl_remove_get:
  "bt_sorted c \<Longrightarrow> bt_sorted (foldl (\<lambda>c k. bt_remove k c) c ks) \<and>
   bt_get (foldl (\<lambda>c k. bt_remove k c) c ks) j = (if j \<in> set ks then None else bt_get c j)"
  by (induction ks arbitrary: c) (auto simp: bt_get_remove)

definition in_project :: "store \<Rightarrow> string \<Rightarrow> string \<Rightarrow> bool" where
  "in_project st pid sid =
     (case find_session st sid of None \<Rightarrow> False | Some r \<Rightarrow> sr_project_id r = Some pid)"

lemma in_project_iff:
  assumes "distinct (map sr_id (st_sessions st))"
  shows "in_project st pid sid \<longleftrightarrow> (\<exists>r \<in> set (st_sessions st). sr_id r = sid \<and> sr_project_id r = Some pid)"
proof
  assume "in_project st pid sid"
  then obtain r where "find_session st sid = Some r" "sr_project_id r = Some pid"
    by (auto simp: in_project_def split: option.splits)
  with find_session_in [OF this(1)] show "\<exists>r \<in> set (st_sessions st). sr_id r = sid \<and> sr_project_id r = Some pid"
    by blast
next
  assume "\<exists>r \<in> set (st_sessions st). sr_id r = sid \<and> sr_project_id r = Some pid"
  then show "in_project st pid sid"
    using in_find_session [OF assms] by (auto simp: in_project_def)
qed

lemma find_filter_sessions:
  assumes "distinct (map sr_id rs)"
  shows "List.find (\<lambda>r. sr_id r = k) (filter P rs) =
    (case List.find (\<lambda>r. sr_id r = k) rs of None \<Rightarrow> None | Some r \<Rightarrow> if P r then Some r else None)"
  using assms
proof (induction rs)
  case (Cons r rs)
  show ?case
  proof (cases "sr_id r = k")
    case True
    with Cons.prems have "\<forall>x \<in> set rs. sr_id x \<noteq> k" by (metis distinct.simps(2) imageI list.map(2) set_map)
    then have "List.find (\<lambda>r. sr_id r = k) rs = None" by (simp add: find_None_set)
    with True Cons show ?thesis by auto
  next
    case False
    with Cons show ?thesis by auto
  qed
qed simp

lemma delete_project_ok:
  assumes ok: "store_ok sd st" and del: "delete_project pid st = Inr st'"
  shows "store_ok sd st' \<and> find_project st' pid = None \<and>
    (\<forall>k. session_log sd st' k = (if in_project st pid k then [] else session_log sd st k)) \<and>
    (\<forall>r \<in> set (st_sessions st'). sr_project_id r \<noteq> Some pid) \<and>
    (\<forall>l \<in> set (st_links st'). \<not> in_project st pid (lr_parent_session_id l) \<and>
        \<not> in_project st pid (lr_child_session_id l)) \<and>
    (\<forall>r \<in> set (st_rules st'). rr_project_id r \<noteq> Some pid \<and>
        (\<forall>s. rr_session_id r = Some s \<longrightarrow> \<not> in_project st pid s))"
proof -
  have dist: "distinct (map sr_id (st_sessions st))" using ok by (simp add: store_ok_def refs_ok_def)
  note inp = in_project_iff [OF dist, of pid]
  have gone: "list_ex (\<lambda>r. sr_project_id r = Some pid \<and> sr_id r = k) (st_sessions st) = in_project st pid k" for k
    unfolding inp by (auto simp: list_ex_iff)
  define ids where "ids = sort (map sr_id (filter (\<lambda>r. sr_project_id r = Some pid) (st_sessions st)))"
  have ids: "set ids = {k. in_project st pid k}" unfolding inp by (auto simp: ids_def)
  from del obtain st1 where d: "delete_project_rows pid st = Inr st1"
    and st': "st' = st1\<lparr>st_cache := foldl (\<lambda>c sid. bt_remove sid c) (st_cache st1) ids\<rparr>"
    by (auto simp: delete_project_def project_session_ids_def and_then_eq_Inr ids_def)
  from d have shape: "st_projects st1 = filter (\<lambda>p. pw_id p \<noteq> pid) (st_projects st)"
    "st_sessions st1 = filter (\<lambda>r. sr_project_id r \<noteq> Some pid) (st_sessions st)"
    "st_events st1 = filter (\<lambda>e. \<not> in_project st pid (er_session_id e)) (st_events st)"
    "st_cache st1 = st_cache st"
    "st_rules st1 = filter (\<lambda>r. rr_project_id r \<noteq> Some pid \<and>
        (case rr_session_id r of None \<Rightarrow> True | Some s \<Rightarrow> \<not> in_project st pid s)) (st_rules st)"
    "st_links st1 = filter (\<lambda>l. \<not> in_project st pid (lr_parent_session_id l) \<and>
        \<not> in_project st pid (lr_child_session_id l)) (st_links st)"
    by (auto simp: delete_project_rows_def Let_def gone split: if_splits cong: option.case_cong)
  have find: "find_session st' k = (if in_project st pid k then None else find_session st k)" for k
    using find_filter_sessions [OF dist, of k "\<lambda>r. sr_project_id r \<noteq> Some pid"]
    by (auto simp: st' find_session_def shape in_project_def split: option.splits)
  have rows: "session_rows st' k = (if in_project st pid k then [] else session_rows st k)" for k
  proof (cases "in_project st pid k")
    case True
    then have "filter (\<lambda>r. er_session_id r = k) (st_events st') = []"
      by (auto simp: st' shape filter_empty_conv)
    with True show ?thesis by (simp add: session_rows_def)
  next
    case False
    then have "filter (\<lambda>r. er_session_id r = k) (filter (\<lambda>e. \<not> in_project st pid (er_session_id e)) (st_events st))
        = filter (\<lambda>r. er_session_id r = k) (st_events st)"
      by (induction "st_events st" rule: list.induct) (auto intro!: filter_cong simp: filter_filter)
    with False show ?thesis by (simp add: session_rows_def st' shape)
  qed
  have kept: "\<not> in_project st pid (sr_id r)" if "r \<in> set (st_sessions st')" for r
    using that in_find_session [OF dist, of r] by (auto simp: st' shape in_project_def)
  have fp: "find_project st' q = (if q = pid then None else find_project st q)" for q
  proof -
    have "List.find (\<lambda>r. pw_id r = q) (filter (\<lambda>p. pw_id p \<noteq> pid) ps) =
        (if q = pid then None else List.find (\<lambda>r. pw_id r = q) ps)" for ps :: "project_row list"
      by (induction ps) auto
    then show ?thesis by (simp add: st' find_project_def shape)
  qed
  have "refs_ok st'"
  proof -
    have "distinct (map sr_id (st_sessions st'))"
      using dist by (simp add: st' shape distinct_map_filter)
    moreover have "find_session st' (er_session_id e) \<noteq> None" if "e \<in> set (st_events st')" for e
      using that ok find by (auto simp: st' shape store_ok_def refs_ok_def list_all_iff)
    moreover have "case sr_project_id r of None \<Rightarrow> True | Some p \<Rightarrow> find_project st' p \<noteq> None"
      if "r \<in> set (st_sessions st')" for r
      using that ok fp by (auto simp: st' shape store_ok_def refs_ok_def list_all_iff split: option.splits)
    ultimately show ?thesis by (simp add: refs_ok_def list_all_iff)
  qed
  moreover have "row_agrees sd st' r \<and> retention_ok r" if "r \<in> set (st_sessions st')" for r
  proof -
    from kept [OF that] rows have "session_rows st' (sr_id r) = session_rows st (sr_id r)" by simp
    from row_agrees_same [OF this] that ok show ?thesis
      by (auto simp: st' shape store_ok_def list_all_iff)
  qed
  moreover have "cache_ok sd st'"
  proof -
    have c: "bt_sorted (st_cache st)" using ok by (simp add: store_ok_def cache_ok_def)
    note g = foldl_remove_get [OF c, of ids]
    have "find_session st' k \<noteq> None \<and> replay sd st' k = Inr p" if "bt_get (st_cache st') k = Some p" for k p
    proof -
      from that g ids shape have "\<not> in_project st pid k" "bt_get (st_cache st) k = Some p"
        by (auto simp: st' split: if_splits)
      with cache_get [OF ok] find rows show ?thesis by (simp add: replay_def select_events_def)
    qed
    with g shape show ?thesis by (simp add: cache_ok_iff st')
  qed
  moreover have "session_log sd st' k = (if in_project st pid k then [] else session_log sd st k)" for k
    by (simp add: session_log_def select_events_def rows)
  ultimately show ?thesis
    using fp by (auto simp: store_ok_def list_all_iff st' shape split: option.splits)
qed

end
