(* ===== verification/Store_Example.thy ===== *)
theory Store_Example
  imports Store_Reads
begin

text \<open>
  A concrete pair of conversions for the events the evaluations use. The values follow the
  layout that the \<open>serde\<close> attributes of \<open>SemanticEvent\<close> ask for (a \<open>type\<close> tag and a \<open>data\<close>
  object); the text form is a small tagged encoding that reads back what it wrote.
\<close>

definition example_to_value :: "semantic_event \<Rightarrow> json" where
  "example_to_value e =
     (case e of
        SessionCreated t \<Rightarrow>
          jobj [(''type'', JStr ''session_created''), (''data'', jobj [(''title'', jopt JStr t)])]
      | SessionPhaseChanged _ _ None \<Rightarrow>
          jobj [(''type'', JStr ''session_phase_changed''),
                (''data'', jobj [(''from'', JStr ''created''), (''to'', JStr ''running''),
                                 (''reason'', JNull)])]
      | SessionPhaseChanged _ _ (Some r) \<Rightarrow>
          jobj [(''type'', JStr ''session_phase_changed''),
                (''data'', jobj [(''from'', JStr ''running''), (''to'', JStr ''interrupted''),
                                 (''reason'', JStr r)])]
      | SessionInterrupted r \<Rightarrow>
          jobj [(''type'', JStr ''session_interrupted''), (''data'', jobj [(''reason'', JStr r)])]
      | SessionForked s n \<Rightarrow>
          jobj [(''type'', JStr ''session_forked''),
                (''data'', jobj [(''parent_session_id'', JStr s), (''at_event_id'', jnat n)])]
      | RunInterrupted i r \<Rightarrow>
          jobj [(''type'', JStr ''run_interrupted''),
                (''data'', jobj [(''run_id'', JStr i), (''reason'', JStr r)])]
      | QueuePaused \<Rightarrow> jobj [(''type'', JStr ''queue_paused'')]
      | QueueResumed \<Rightarrow> jobj [(''type'', JStr ''queue_resumed'')]
      | RunQueued i _ p m _ \<Rightarrow>
          jobj [(''type'', JStr ''run_queued''),
                (''data'', jobj [(''run_id'', JStr i), (''provider'', JStr p), (''model'', JStr m)])]
      | _ \<Rightarrow> JNull)"

definition example_from_value :: "json \<Rightarrow> semantic_event option" where
  "example_from_value v =
     (case (get_str v ''type'', jget v ''data'') of
        (Some t, Some d) \<Rightarrow>
          if t = ''session_created'' then Some (SessionCreated (get_str d ''title''))
          else if t = ''session_phase_changed'' then
            Some (case get_str d ''reason'' of
                    None \<Rightarrow> SessionPhaseChanged S_Created S_Running None
                  | Some r \<Rightarrow> SessionPhaseChanged S_Running S_Interrupted (Some r))
          else if t = ''session_interrupted'' then map_option SessionInterrupted (get_str d ''reason'')
          else if t = ''session_forked'' then
            (case (get_str d ''parent_session_id'', Option.bind (jget d ''at_event_id'') as_u64) of
               (Some s, Some n) \<Rightarrow> Some (SessionForked s n) | _ \<Rightarrow> None)
          else if t = ''run_interrupted'' then
            (case (get_str d ''run_id'', get_str d ''reason'') of
               (Some i, Some r) \<Rightarrow> Some (RunInterrupted i r) | _ \<Rightarrow> None)
          else if t = ''queue_paused'' then Some QueuePaused
          else if t = ''queue_resumed'' then Some QueueResumed
          else if t = ''run_queued'' then
            (case (get_str d ''run_id'', get_str d ''provider'', get_str d ''model'') of
               (Some i, Some p, Some m) \<Rightarrow> Some (RunQueued i None p m JNull) | _ \<Rightarrow> None)
          else None
      | _ \<Rightarrow> None)"

definition example_to_text :: "json \<Rightarrow> string" where
  "example_to_text v =
     (case v of
        JObj [(k, JNull)] \<Rightarrow> ''t''
      | JObj [(k, JStr r)] \<Rightarrow> (if k = ''title'' then CHR ''c'' else CHR ''r'') # r
      | JObj [(k, JStr m), (l, JStr p), (j, JStr i)] \<Rightarrow>
          if k = ''from'' then CHR ''s'' # p else CHR ''w'' # m @ LF # p @ LF # i
      | JObj [(k, JNum (N_Pos n)), (l, JStr s)] \<Rightarrow> CHR ''f'' # replicate n (CHR ''.'') @ LF # s
      | JObj [(k, JStr r), (l, JStr i)] \<Rightarrow> CHR ''q'' # r @ LF # i
      | JObj _ \<Rightarrow> ''p''
      | _ \<Rightarrow> ''null'')"

definition example_from_text :: "string \<Rightarrow> json option" where
  "example_from_text t =
     (case t of
        [] \<Rightarrow> None
      | c # s \<Rightarrow>
          if c = CHR ''t'' then Some (jobj [(''title'', JNull)])
          else if c = CHR ''c'' then Some (jobj [(''title'', JStr s)])
          else if c = CHR ''r'' then Some (jobj [(''reason'', JStr s)])
          else if c = CHR ''w'' then
            (case split_once LF s of
               None \<Rightarrow> None
             | Some (m, rest) \<Rightarrow>
                 map_option (\<lambda>(p, i). jobj [(''run_id'', JStr i), (''provider'', JStr p), (''model'', JStr m)])
                   (split_once LF rest))
          else if c = CHR ''f'' then
            map_option (\<lambda>(d, r). jobj [(''parent_session_id'', JStr r), (''at_event_id'', jnat (length d))])
              (split_once LF s)
          else if c = CHR ''q'' then
            map_option (\<lambda>(r, i). jobj [(''run_id'', JStr i), (''reason'', JStr r)]) (split_once LF s)
          else if c = CHR ''s'' then
            Some (jobj [(''from'', JStr ''running''), (''to'', JStr ''interrupted''), (''reason'', JStr s)])
          else if c = CHR ''p'' then
            Some (jobj [(''from'', JStr ''created''), (''to'', JStr ''running''), (''reason'', JNull)])
          else if t = ''null'' then Some JNull
          else None)"

definition example_serde :: serde where
  "example_serde = \<lparr>to_value = example_to_value, from_value = example_from_value,
                    to_text = example_to_text, from_text = example_from_text\<rparr>"

lemma jobj_eval: "jobj kvs = JObj (bt_extend [] kvs)"
  by (simp add: jobj_def bt_empty_def)

lemmas example_defs = example_serde_def example_to_value_def example_from_value_def
  example_to_text_def example_from_text_def jobj_eval get_str_def storable_def jopt_def as_str_def

lemma example_storable:
  "storable example_serde (SessionCreated title)"
  "storable example_serde QueuePaused"
  "storable example_serde (SessionPhaseChanged S_Created S_Running None)"
  "storable example_serde (SessionInterrupted r)"
  "storable example_serde QueueResumed"
  "storable example_serde (SessionPhaseChanged S_Running S_Interrupted (Some r))"
  by (simp_all add: example_defs split: option.splits)

lemma example_storable_queued:
  "LF \<notin> set m \<Longrightarrow> LF \<notin> set p \<Longrightarrow> storable example_serde (RunQueued i None p m JNull)"
  using split_once_append [of LF m "p @ LF # i"] split_once_append [of LF p i]
  by (simp add: example_defs)

lemma example_storable_fork: "storable example_serde (SessionForked s n)"
  using split_once_append [of LF "replicate n (CHR ''.'')" s]
  by (simp add: example_defs)

lemma example_storable_run: "LF \<notin> set r \<Longrightarrow> storable example_serde (RunInterrupted i r)"
  using split_once_append [of LF r i] by (simp add: example_defs)

text \<open>A store with one session, \<open>s\<close>, and the same after it has started to run.\<close>

lemma store_ok_empty: "store_ok sd store_empty"
  by (simp add: store_ok_def refs_ok_def cache_ok_def store_empty_def bt_empty_def)

lemma example_store:
  obtains st where "store_ok example_serde st" and "find_session st ''s'' \<noteq> None"
    and "session_log example_serde st ''s'' = [SessionCreated None]"
    and "\<forall>k. k \<noteq> ''s'' \<longrightarrow> find_session st k = None"
proof -
  have "find_session store_empty ''s'' = None" by (simp add: find_session_def store_empty_def)
  from create_session_ok [OF store_ok_empty this _ example_storable(1) [of None], of None "''t0''" Forever]
  obtain st where st: "store_ok example_serde st"
    "session_log example_serde st ''s'' = [SessionCreated None]"
    "\<forall>k. k \<noteq> ''s'' \<longrightarrow> session_log example_serde st k = session_log example_serde store_empty k"
    by auto
  have "find_session st k = None" if "k \<noteq> ''s''" for k
  proof -
    have "session_log example_serde store_empty k = []"
      by (simp add: session_log_def select_events_def session_rows_def store_empty_def)
    with st(3) that session_log_empty_iff [OF st(1), of k] show ?thesis by simp
  qed
  moreover have "find_session st ''s'' \<noteq> None"
    using session_log_empty_iff [OF st(1), of "''s''"] st(2) by simp
  ultimately show thesis using that st(1,2) by blast
qed

lemma example_running:
  obtains st r where "store_ok example_serde st" and "find_session st ''s'' = Some r"
    and "sr_phase r = ''running''"
    and "session_log example_serde st ''s'' = [SessionCreated None, SessionPhaseChanged S_Created S_Running None]"
    and "\<forall>k. k \<noteq> ''s'' \<longrightarrow> find_session st k = None"
proof -
  let ?e = "SessionPhaseChanged S_Created S_Running None"
  obtain st where st: "store_ok example_serde st" "find_session st ''s'' \<noteq> None"
    "session_log example_serde st ''s'' = [SessionCreated None]"
    "\<forall>k. k \<noteq> ''s'' \<longrightarrow> find_session st k = None" by (rule example_store)
  then obtain r where r: "find_session st ''s'' = Some r" by blast
  obtain q where q: "apply_events (projection_new ''s'') 1 (session_log example_serde st ''s'' @ [?e]) = Inr q"
    and ph: "ss_phase (sp_state q) = S_Running"
    by (simp add: st(3) replay_defs)
  from append_event_cases [OF st(1) r example_storable(3) _ q, of "\<lambda>_. ''t1''"] st(3)
  obtain st' where st': "store_ok example_serde st'"
    "session_log example_serde st' ''s'' = [SessionCreated None, ?e]"
    "\<forall>k. k \<noteq> ''s'' \<longrightarrow> session_log example_serde st' k = session_log example_serde st k"
    by (auto simp: i64_max_def)
  then obtain r' where r': "find_session st' ''s'' = Some r'"
    using session_log_empty_iff [OF st'(1), of "''s''"] by auto
  have "sr_phase r' = ''running''"
    using running_iff [OF st'(1) r'] q ph st(3) st'(2) by simp
  moreover have "find_session st' k = None" if "k \<noteq> ''s''" for k
    using that st(4) st'(3) session_log_empty_iff [OF st(1), of k] session_log_empty_iff [OF st'(1), of k]
    by simp
  ultimately show thesis using st'(1,2) r' that by blast
qed

end
