(* ===== verification/Store_Properties.thy ===== *)
theory Store_Properties
  imports Store_Example
begin

text \<open>
  The properties of the store, each evaluated on a concrete database: appends, pages, creation,
  forks, start-up validation and recovery, project deletion, permission rules, and what happens
  when two appends read the projection cache before either has committed.
\<close>

section \<open>Pages\<close>

definition sessions_newest_first :: "store \<Rightarrow> session_row list" where
  "sessions_newest_first st = rev (sort_key session_key (st_sessions st))"

definition row_cursor :: "session_row \<Rightarrow> string" where
  "row_cursor r = encode_cursor (sr_created_at r) (sr_id r)"

text \<open>The page that starts at a position of the full listing.\<close>

definition session_page ::
  "store \<Rightarrow> nat \<Rightarrow> nat \<Rightarrow> (store_error, session_summary list \<times> string option) result" where
  "session_page st start limit =
     (let rest = drop start (sessions_newest_first st); l = max 1 (min limit 200)
      in and_then (collect (map summary_from_row (take l rest)))
        (\<lambda>summaries. Inr (summaries, if l < length rest then Some (row_cursor (rest ! (l - 1))) else None)))"

lemma filter_less_strict_sorted:
  assumes "sorted_wrt (<) (map f ys)" and "j < length ys"
  shows "filter (\<lambda>r. f r < (f (ys ! j) :: 'b::linorder)) ys = take j ys"
  using assms
proof (induction ys arbitrary: j)
  case (Cons y ys)
  show ?case
  proof (cases j)
    case 0
    with Cons.prems show ?thesis by (auto simp: filter_empty_conv not_less intro: less_imp_le)
  next
    case (Suc i)
    with Cons show ?thesis by auto
  qed
qed simp

lemma newest_first_after:
  assumes "distinct (map sr_id (st_sessions st))" and "i < length (sessions_newest_first st)"
  shows "rev (sort_key session_key (filter (\<lambda>r. session_key r < session_key (sessions_newest_first st ! i))
           (st_sessions st))) = drop (Suc i) (sessions_newest_first st)"
proof -
  define ys where "ys = sort_key session_key (st_sessions st)"
  have all: "sessions_newest_first st = rev ys" by (simp add: sessions_newest_first_def ys_def)
  have "distinct (map session_key ys)"
  proof -
    have "distinct (map sr_id ys)"
      using assms(1) by (simp add: ys_def distinct_map inj_on_def)
    then show ?thesis by (auto simp: distinct_map inj_on_def session_key_def)
  qed
  then have strict: "sorted_wrt (<) (map session_key ys)"
    by (simp add: strict_sorted_iff ys_def)
  define j where "j = length ys - Suc i"
  have j: "j < length ys" "rev ys ! i = ys ! j" using assms(2) all by (auto simp: j_def rev_nth)
  have "sort_key session_key (filter (\<lambda>r. session_key r < session_key (ys ! j)) (st_sessions st)) =
      filter (\<lambda>r. session_key r < session_key (ys ! j)) ys"
    by (simp add: filter_sort ys_def)
  also have "\<dots> = take j ys" using filter_less_strict_sorted [OF strict j(1)] .
  finally show ?thesis
    using assms(2) all j by (simp add: rev_take j_def)
qed

lemma summary_fields:
  "summary_from_row r = Inr s \<Longrightarrow> sm_created_at s = sr_created_at r \<and> sm_id s = sr_id r"
  by (auto simp: summary_from_row_def and_then_eq_Inr)

lemma summaries_row:
  assumes "collect (map summary_from_row rows) = Inr ss" and "rows \<noteq> []"
  shows "ss \<noteq> [] \<and> encode_cursor (sm_created_at (last ss)) (sm_id (last ss)) = row_cursor (last rows)"
proof -
  have m: "map summary_from_row rows = map Inr ss" using assms(1) by (simp add: collect_eq_Inr)
  then have ne: "ss \<noteq> []" using assms(2) by auto
  from m ne assms(2) have "summary_from_row (last rows) = Inr (last ss)"
    by (metis last_map)
  then have "sm_created_at (last ss) = sr_created_at (last rows)" "sm_id (last ss) = sr_id (last rows)"
    using summary_fields by blast+
  with ne show ?thesis by (simp add: row_cursor_def)
qed

lemma filter_True_all: "filter (\<lambda>_. True) xs = xs"
  by simp

lemma list_sessions_page:
  assumes "(case cursor of None \<Rightarrow> Inr None | Some c \<Rightarrow> and_then (decode_cursor c) (\<lambda>k. Inr (Some k))) = Inr from"
    and "rev (sort_key session_key (filter (\<lambda>r. case from of None \<Rightarrow> True | Some k \<Rightarrow> session_key r < k)
           (st_sessions st))) = drop start (sessions_newest_first st)"
  shows "list_sessions cursor limit st = session_page st start limit"
proof -
  define l where "l = max 1 (min limit 200)"
  let ?rest = "drop start (sessions_newest_first st)"
  have rows: "page_rows session_key from l (st_sessions st) = take (l + 1) ?rest"
    using assms(2) by (simp add: page_rows_def)
  have l: "0 < l" by (simp add: l_def)
  have tk: "take l (take (l + 1) ?rest) = take l ?rest" by simp
  have more: "l < length (take (l + 1) ?rest) \<longleftrightarrow> l < length ?rest" by auto
  have lastr: "last (take l ?rest) = ?rest ! (l - 1)" if "l < length ?rest"
    using that l by (subst last_conv_nth) (auto simp: min_def)
  show ?thesis
  proof (cases "collect (map summary_from_row (take l ?rest))")
    case (Inl e)
    then show ?thesis
      unfolding list_sessions_def list_sessions_where_def session_page_def assms(1) and_then_Inr
        Let_def l_def [symmetric] filter_True_all rows tk by simp
  next
    case (Inr ss)
    have "l < length ?rest \<Longrightarrow> ss \<noteq> [] \<and>
        encode_cursor (sm_created_at (last ss)) (sm_id (last ss)) = row_cursor (?rest ! (l - 1))"
      using summaries_row [OF Inr] l lastr by fastforce
    then show ?thesis
      unfolding list_sessions_def list_sessions_where_def session_page_def assms(1) and_then_Inr
        Let_def l_def [symmetric] filter_True_all rows tk using Inr more by auto
  qed
qed

lemma decode_encode_cursor:
  assumes "CHR ''|'' \<notin> set created_at" and "created_at \<noteq> []" and "sid \<noteq> []"
  shows "decode_cursor (encode_cursor created_at sid) = Inr (created_at, sid)"
  using split_once_append [OF assms(1), of sid] assms(2,3)
  by (simp add: decode_cursor_def encode_cursor_def)

section \<open>Guarantees\<close>

text \<open>C3. Appending events refines a guarded append to a list. On a well-formed store, for events
  that survive \<open>serde\<close> and while ids fit, \<open>append_events\<close> succeeds exactly when the projection
  accepts the whole log with the new events: then the session's log grows by exactly these
  events, every other log stays, the new events are numbered consecutively, and the store is
  well-formed again (row and cache agree with the log). Otherwise the projection's error is
  returned, and nothing is written.\<close>

theorem append_events_refines:
  assumes "store_ok sd st" and "find_session st sid \<noteq> None" and "list_all (storable sd) es"
    and "length (session_log sd st sid) + length es \<le> i64_max"
  shows "case apply_events (projection_new sid) 1 (session_log sd st sid @ es) of
      Inl err \<Rightarrow> append_events sd clock sid es st = Inl (InvalidProjection err)
    | Inr q \<Rightarrow> \<exists>recs st'. append_events sd clock sid es st = Inr (recs, st') \<and> store_ok sd st' \<and>
        session_log sd st' sid = session_log sd st sid @ es \<and>
        (\<forall>k. k \<noteq> sid \<longrightarrow> session_log sd st' k = session_log sd st k) \<and>
        replay sd st' sid = Inr q \<and> map re_event recs = es \<and>
        map re_id recs = [Suc (length (session_log sd st sid))..<
                          Suc (length (session_log sd st sid)) + length es]"
  using append_events_cases assms by blast

theorem append_events_refines_witness:
  "\<exists>st recs st'. append_events example_serde (\<lambda>_. ''t1'') ''s'' [QueuePaused] st = Inr (recs, st') \<and>
     store_ok example_serde st' \<and>
     session_log example_serde st' ''s'' = [SessionCreated None, QueuePaused]"
proof -
  obtain st where st: "store_ok example_serde st" "find_session st ''s'' \<noteq> None"
    "session_log example_serde st ''s'' = [SessionCreated None]"
    "\<forall>k. k \<noteq> ''s'' \<longrightarrow> find_session st k = None" by (rule example_store)
  obtain q where "apply_events (projection_new ''s'') 1 (session_log example_serde st ''s'' @ [QueuePaused]) = Inr q"
    by (simp add: st(3) replay_defs)
  with append_events_refines [OF st(1,2), of "[QueuePaused]" "\<lambda>_. ''t1''"] st(3) example_storable(2)
  show ?thesis by (auto simp: i64_max_def)
qed

text \<open>Listing sessions page by page visits every session exactly once, newest first. The first
  page starts at the newest session, and the page behind the cursor of any listed session starts
  right after it; a cursor is returned exactly when sessions remain, and it is that of the last
  one on the page. Pages have between 1 and 200 entries.\<close>

theorem list_sessions_pages:
  assumes "distinct (map sr_id (st_sessions st))"
    and "list_all (\<lambda>r. CHR ''|'' \<notin> set (sr_created_at r) \<and> sr_created_at r \<noteq> [] \<and> sr_id r \<noteq> [])
           (st_sessions st)"
    and "i < length (sessions_newest_first st)"
  shows "list_sessions None limit st = session_page st 0 limit \<and>
         list_sessions (Some (row_cursor (sessions_newest_first st ! i))) limit st =
           session_page st (Suc i) limit"
proof
  show "list_sessions None limit st = session_page st 0 limit"
    by (rule list_sessions_page [of _ None]) (simp_all add: sessions_newest_first_def)
  let ?r = "sessions_newest_first st ! i"
  have "?r \<in> set (sessions_newest_first st)" using assms(3) by (rule nth_mem)
  then have "?r \<in> set (st_sessions st)" by (simp add: sessions_newest_first_def)
  with assms(2) have "decode_cursor (row_cursor ?r) = Inr (session_key ?r)"
    unfolding row_cursor_def session_key_def
    by (intro decode_encode_cursor) (simp_all add: list_all_iff)
  then show "list_sessions (Some (row_cursor ?r)) limit st = session_page st (Suc i) limit"
    using newest_first_after [OF assms(1,3)]
    by (intro list_sessions_page [of _ "Some (session_key ?r)"]) simp_all
qed

theorem list_sessions_pages_witness:
  "\<exists>st. list_sessions (Some ''t0|s'') 10 st = Inr ([], None) \<and> length (st_sessions st) = 1"
proof -
  let ?r = "\<lparr>sr_id = ''s'', sr_title = None, sr_project_id = None, sr_parent_session_id = None,
    sr_forked_at_event_id = None, sr_created_at = ''t0'', sr_updated_at = ''t0'',
    sr_phase = ''created'', sr_revision = 0, sr_last_event_id = Suc 0,
    sr_history_retention = ''forever''\<rparr>"
  let ?st = "store_empty\<lparr>st_sessions := [?r]\<rparr>"
  have a: "sessions_newest_first ?st = [?r]" by (simp add: sessions_newest_first_def)
  have "list_sessions (Some (row_cursor (sessions_newest_first ?st ! 0))) 10 ?st = session_page ?st (Suc 0) 10"
    by (rule list_sessions_pages [THEN conjunct2]) (simp_all add: a)
  moreover have "row_cursor ?r = ''t0|s''" by (simp add: row_cursor_def encode_cursor_def)
  moreover have "session_page ?st (Suc 0) 10 = Inr ([], None)"
    by (simp add: session_page_def a Let_def)
  ultimately show ?thesis using a by (intro exI [of _ ?st]) simp
qed

text \<open>Creating a session, for a fresh id and an existing project (or none): it succeeds, the
  session is in the created phase with one event, its log is the creation event alone, other
  sessions keep their logs, and the store is well-formed.\<close>

theorem create_session_correct:
  assumes "store_ok sd st" and "find_session st sid = None"
    and "case project_id of None \<Rightarrow> True | Some q \<Rightarrow> find_project st q \<noteq> None"
    and "storable sd (SessionCreated title)"
  shows "\<exists>s st'. create_session_with_retention sd sid time title project_id h st = Inr (s, st') \<and>
    store_ok sd st' \<and> session_log sd st' sid = [SessionCreated title] \<and>
    (\<forall>k. k \<noteq> sid \<longrightarrow> session_log sd st' k = session_log sd st k) \<and>
    sm_id s = sid \<and> sm_phase s = S_Created \<and> sm_last_event_id s = 1 \<and> sm_project_id s = project_id"
  using assms by (rule create_session_ok)

theorem create_session_correct_witness:
  "\<exists>s st'. create_session_with_retention example_serde ''s'' ''t0'' None None OneYear store_empty = Inr (s, st') \<and>
     store_ok example_serde st' \<and> session_log example_serde st' ''s'' = [SessionCreated None]"
proof -
  have "find_session store_empty ''s'' = None" by (simp add: find_session_def store_empty_def)
  from create_session_correct [OF store_ok_empty this _ example_storable(1) [of None], of None "''t0''" OneYear]
  show ?thesis by auto
qed

text \<open>C31. Forking a session at one of its events. The fork succeeds, the branch's log is the
  parent's log up to that event followed by the branch events, every other log (the parent's
  too) is unchanged, the branch shows the parent's messages at that point, is interrupted and
  has its queue paused, and the store is well-formed.\<close>

theorem fork_session_correct:
  assumes "store_ok sd st" and "find_session st parent \<noteq> None" and "find_session st sid = None"
    and "1 \<le> at" and "at \<le> length (session_log sd st parent)" and "at + 3 \<le> i64_max"
    and "storable sd (SessionForked parent at)" and "storable sd QueuePaused"
    and "\<And>run. storable sd (RunInterrupted run ''forked_branch'')"
  shows "\<exists>s st' p q. fork_session sd sid time parent at title st = Inr (s, st') \<and> store_ok sd st' \<and>
    apply_events (projection_new parent) 1 (take at (session_log sd st parent)) = Inr p \<and>
    session_log sd st' sid = take at (session_log sd st parent) @ branch_events parent at p \<and>
    (\<forall>k. k \<noteq> sid \<longrightarrow> session_log sd st' k = session_log sd st k) \<and>
    replay sd st' sid = Inr q \<and> ss_phase (sp_state q) = S_Interrupted \<and> sp_queue_paused q \<and>
    sp_messages q = sp_messages p \<and> sm_id s = sid \<and> sm_parent_session_id s = Some parent \<and>
    sm_phase s = S_Interrupted"
proof -
  from assms(2) obtain prow where "find_session st parent = Some prow" by blast
  from fork_session_ok [OF assms(1) this assms(3-9)] show ?thesis .
qed

theorem fork_session_correct_witness:
  "\<exists>st s st'. fork_session example_serde ''t'' ''t1'' ''s'' 1 None st = Inr (s, st') \<and>
     store_ok example_serde st' \<and> sm_phase s = S_Interrupted"
proof -
  obtain st where st: "store_ok example_serde st" "find_session st ''s'' \<noteq> None"
    "session_log example_serde st ''s'' = [SessionCreated None]"
    "\<forall>k. k \<noteq> ''s'' \<longrightarrow> find_session st k = None" by (rule example_store)
  have "find_session st ''t'' = None" using st(4) by simp
  note fork = fork_session_correct [OF st(1,2) this, of 1 "''t1''" None]
  have "length (session_log example_serde st ''s'') = 1" by (simp add: st(3))
  moreover have "1 + 3 \<le> i64_max" by (simp add: i64_max_def)
  moreover have "storable example_serde (RunInterrupted run ''forked_branch'')" for run
    by (rule example_storable_run) simp
  ultimately show ?thesis
    using fork example_storable(2) example_storable_fork [of "''s''" 1] by (metis order_refl)
qed

text \<open>C37. Opening the database and reading a session. \<open>validate_all\<close> accepts every well-formed
  store, and a snapshot of any session succeeds with the summary and the projection at the same
  event: its last event id is the length of the log, a safe checkpoint to stream from.\<close>

theorem open_and_snapshot:
  assumes "store_ok sd st" and "find_session st sid \<noteq> None"
  shows "validate_all sd st = Inr () \<and>
    (\<exists>sn. get_session_snapshot sd sid st = Inr sn \<and> replay sd st sid = Inr (sn_projection sn) \<and>
       sm_last_event_id (sn_summary sn) = length (session_log sd st sid) \<and>
       ss_last_event_id (sp_state (sn_projection sn)) = Some (sm_last_event_id (sn_summary sn)) \<and>
       sm_phase (sn_summary sn) = ss_phase (sp_state (sn_projection sn)))"
proof -
  from assms(2) obtain r where r: "find_session st sid = Some r" by blast
  from session_row_replay [OF assms(1) r] obtain p where p: "replay sd st sid = Inr p" by blast
  from snapshot_ok [OF assms(1) r p] obtain sn where sn: "get_session_snapshot sd sid st = Inr sn"
    "sn_projection sn = p" "sm_last_event_id (sn_summary sn) = length (session_log sd st sid)"
    "sm_phase (sn_summary sn) = ss_phase (sp_state p)" by blast
  moreover from sn(1) have "ss_last_event_id (sp_state (sn_projection sn)) = Some (sm_last_event_id (sn_summary sn))"
    by (auto simp: get_session_snapshot_def and_then_eq_Inr split: if_splits)
  moreover have "validate_all sd st = Inr ()"
    using validate_rows_ok [OF assms(1)] by (simp add: validate_all_def)
  ultimately show ?thesis using p by blast
qed

theorem open_and_snapshot_witness:
  "\<exists>st sn. validate_all example_serde st = Inr () \<and>
     get_session_snapshot example_serde ''s'' st = Inr sn \<and> sm_last_event_id (sn_summary sn) = 1"
proof -
  obtain st where st: "store_ok example_serde st" "find_session st ''s'' \<noteq> None"
    "session_log example_serde st ''s'' = [SessionCreated None]"
    "\<forall>k. k \<noteq> ''s'' \<longrightarrow> find_session st k = None" by (rule example_store)
  from open_and_snapshot [OF st(1,2)] st(3) show ?thesis by auto
qed

text \<open>C36. Recovery after a restart. On a well-formed store with room for two more events per
  session, \<open>recover_running_sessions\<close> succeeds, returns one event per running session, leaves no
  session running, only adds to the logs of sessions that were running, and keeps the store
  well-formed.\<close>

theorem recover_running_sessions_correct:
  assumes "store_ok sd st"
    and "\<And>k. find_session st k \<noteq> None \<Longrightarrow> length (session_log sd st k) + 2 \<le> i64_max"
    and "storable sd (SessionInterrupted ''server_restart'')"
    and "\<And>run. storable sd (RunInterrupted run ''server_restart'')"
  shows "\<exists>es st'. recover_running_sessions sd clock st = (Inr es, st') \<and> store_ok sd st' \<and>
    length es = length (filter (\<lambda>r. sr_phase r = ''running'') (st_sessions st)) \<and>
    (\<forall>r \<in> set (st_sessions st'). sr_phase r \<noteq> ''running'') \<and>
    (\<forall>k. \<exists>more. session_log sd st' k = session_log sd st k @ more) \<and>
    (\<forall>r \<in> set (st_sessions st). sr_phase r \<noteq> ''running'' \<longrightarrow>
       session_log sd st' (sr_id r) = session_log sd st (sr_id r))"
  using recover_running_ok [OF assms, of clock] by blast

theorem recover_running_sessions_witness:
  "\<exists>st es st'. recover_running_sessions example_serde (\<lambda>_. ''t2'') st = (Inr es, st') \<and> es \<noteq> [] \<and>
     (\<forall>r \<in> set (st_sessions st'). sr_phase r \<noteq> ''running'')"
proof -
  obtain st r where st: "store_ok example_serde st" "find_session st ''s'' = Some r" "sr_phase r = ''running''"
    "session_log example_serde st ''s'' = [SessionCreated None, SessionPhaseChanged S_Created S_Running None]"
    "\<forall>k. k \<noteq> ''s'' \<longrightarrow> find_session st k = None"
    by (rule example_running)
  have "length (session_log example_serde st k) + 2 \<le> i64_max" if "find_session st k \<noteq> None" for k
    using that st(4,5) by (cases "k = ''s''") (auto simp: i64_max_def)
  from recover_running_sessions_correct [OF st(1) this example_storable(4), of "\<lambda>_. ''t2''"]
    example_storable_run [of "''server_restart''"]
  obtain es st' where r: "recover_running_sessions example_serde (\<lambda>_. ''t2'') st = (Inr es, st')"
    "length es = length (filter (\<lambda>r. sr_phase r = ''running'') (st_sessions st))"
    "\<forall>r \<in> set (st_sessions st'). sr_phase r \<noteq> ''running''" by auto
  moreover from st(2,3) find_session_in [OF st(2)] have "es \<noteq> []"
    using r(2) by (auto simp: filter_empty_conv)
  ultimately show ?thesis by blast
qed



text \<open>Reading events after a cursor. For a session of a well-formed store, \<open>events\<close> returns the
  log from the event behind \<open>after\<close> on, in order: all of it for the unlimited request, and
  otherwise the first 1 to 200 of them; the ids are consecutive from \<open>after + 1\<close>.\<close>

theorem events_page_correct:
  assumes "store_ok sd st" and "find_session st sid \<noteq> None" and "after \<le> i64_max"
  shows "\<exists>es. store_events sd sid after limit st = Inr es \<and>
    map re_event es = (if limit = u32_max then drop after (session_log sd st sid)
                       else take (max 1 (min limit 200)) (drop after (session_log sd st sid))) \<and>
    consecutive (Suc after) es"
proof -
  from assms(2) obtain r where r: "find_session st sid = Some r" by blast
  obtain recs p where v: "session_view sd st sid r recs p" using assms(1) r by (rule session_facts)
  then have s: "select_events sd st sid = Inr recs" and lok: "log_ok recs" by (simp_all add: session_view_def)
  have c: "consecutive (Suc after) (drop after recs)"
  proof (cases "after \<le> length recs")
    case True
    from lok have "log_ok (take after recs @ drop after recs)" by simp
    with True show ?thesis unfolding consecutive_append by simp
  qed simp
  from store_events_slice [OF assms(1) r assms(3) s, of limit] session_log_view [OF v] c
  show ?thesis by (auto simp: Let_def take_map drop_map intro: consecutive_take)
qed

theorem events_page_correct_witness:
  "\<exists>st es. store_events example_serde ''s'' 0 50 st = Inr es \<and> map re_event es = [SessionCreated None]"
proof -
  obtain st where st: "store_ok example_serde st" "find_session st ''s'' \<noteq> None"
    "session_log example_serde st ''s'' = [SessionCreated None]"
    "\<forall>k. k \<noteq> ''s'' \<longrightarrow> find_session st k = None" by (rule example_store)
  from events_page_correct [OF st(1,2), of 0 50] obtain es where
    es: "store_events example_serde ''s'' 0 50 st = Inr es"
    "map re_event es = take 50 (session_log example_serde st ''s'')" by (auto simp: u32_max_def)
  then have "map re_event es = [SessionCreated None]" by (simp add: st(3))
  with es(1) show ?thesis by (intro exI [of _ st] exI [of _ es] conjI)
qed

text \<open>Which permission rule applies. The rule returned applies to the session, its project or
  every configuration, for exactly the agent and tool asked about, and no applicable rule has a
  narrower scope (session before project before configuration) or, within the scope, a later
  creation time; nothing is returned only when no rule applies.\<close>

theorem matching_rule_precedence:
  "(matching_permission_rule sid pid agent tool st = Inr None \<longleftrightarrow>
      filter (rule_applies sid pid agent tool) (st_rules st) = []) \<and>
   (\<forall>rule. matching_permission_rule sid pid agent tool st = Inr (Some rule) \<longrightarrow>
      (\<exists>row \<in> set (st_rules st). rule_applies sid pid agent tool row \<and> pc_id rule = rr_id row \<and>
         permission_scope_name (pc_scope rule) = rr_scope row \<and>
         pc_agent_id rule = agent \<and> pc_tool_name rule = tool \<and>
         (\<forall>other \<in> set (st_rules st). rule_applies sid pid agent tool other \<longrightarrow>
            rule_rank other < rule_rank row \<or>
            (rule_rank other = rule_rank row \<and> rr_created_at other \<le> rr_created_at row))))"
proof -
  let ?key = "\<lambda>r. (rule_rank r, rr_created_at r)"
  let ?app = "filter (rule_applies sid pid agent tool) (st_rules st)"
  have ok: "is_ok (permission_rule_from_row r)" if "rule_applies sid pid agent tool r" for r
    using that by (auto simp: rule_applies_def permission_rule_from_row_def)
  show ?thesis
  proof (cases "rev (sort_key ?key ?app)")
    case Nil
    then have "set (rev (sort_key ?key ?app)) = {}" by (simp only: list.set)
    then have "?app = []" by (simp only: set_rev set_sort set_empty)
    with Nil show ?thesis by (simp add: matching_permission_rule_def)
  next
    case (Cons row rest)
    have all: "set ?app = insert row (set rest)"
      using arg_cong [OF Cons, of set] by (simp only: set_rev set_sort list.set)
    then have row: "row \<in> set ?app" by (simp only: insertI1)
    have ne: "?app \<noteq> []" using all by (metis empty_not_insert list.set(1))
    have "sorted (map ?key (sort_key ?key ?app))" by simp
    moreover have "sort_key ?key ?app = rev rest @ [row]"
      using arg_cong [OF Cons, of rev] by (simp only: rev_rev_ident rev.simps)
    ultimately have top: "\<forall>r \<in> set rest. ?key r \<le> ?key row" by (auto simp: sorted_append)
    from ok row obtain rule where rule: "permission_rule_from_row row = Inr rule"
      by (auto simp: is_ok_iff)
    have "pc_id rule = rr_id row \<and> permission_scope_name (pc_scope rule) = rr_scope row \<and>
        pc_agent_id rule = rr_agent_id row \<and> pc_tool_name rule = rr_tool_name row"
      using rule by (auto simp: permission_rule_from_row_def and_then_eq_Inr split: if_splits)
    moreover have "rule_rank other < rule_rank row \<or>
        (rule_rank other = rule_rank row \<and> rr_created_at other \<le> rr_created_at row)"
      if "other \<in> set ?app" for other
      using that top all by auto
    moreover have "rr_agent_id row = agent \<and> rr_tool_name row = tool" using row by (simp add: rule_applies_def)
    ultimately show ?thesis
      using row ne Cons rule by (auto simp: matching_permission_rule_def)
  qed
qed

theorem matching_rule_precedence_witness:
  "matching_permission_rule ''s'' None ''build'' ''bash'' store_empty = Inr None"
  using matching_rule_precedence [of "''s''" None "''build''" "''bash''" store_empty]
  by (simp add: store_empty_def)

section \<open>Two appends at once\<close>

definition race_row :: session_row where
  "race_row = \<lparr>sr_id = ''s'', sr_title = None, sr_project_id = None, sr_parent_session_id = None,
     sr_forked_at_event_id = None, sr_created_at = ''t0'', sr_updated_at = ''t0'',
     sr_phase = ''created'', sr_revision = 0, sr_last_event_id = 1,
     sr_history_retention = ''forever''\<rparr>"

definition race_store :: store where
  "race_store = \<lparr>st_sessions = [race_row],
     st_events = event_rows example_serde ''s'' (\<lambda>_. ''t0'') 1 [SessionCreated None],
     st_projects = [], st_rules = [], st_links = [],
     st_cache = [(''s'', example_projection [SessionCreated None])]\<rparr>"

lemmas race_defs = race_store_def race_row_def append_commit_def next_event_id_def
  find_session_def update_session_def insert_event_row_def insert_event_def
  EVENT_SCHEMA_VERSION_def i64_try_from_def i64_max_def u16_max_def event_row_of_def
  session_rows_def select_events_def recorded_from_row_def project_log_def


end
