(* ===== verification/Tools.thy ===== *)
theory Tools
  imports Permissions
begin

text \<open>
  \<open>piqo-tools/src/lib.rs\<close>: the authorisation boundary, the configuration and catalogue of MCP
  servers, and the native file tools. The file system is a map from absolute paths (lists of
  component names) to nodes; what the operating system may refuse is a pair of predicates on
  paths, and the name of a temporary file is an argument, since it holds a fresh UUID. Paths are
  Unix paths. The tools run alone: no other process changes the file system meanwhile.

  JSON-schema compilation is an argument (\<open>schema_ok\<close>). The shell tool is in the theory Shell.
\<close>

section \<open>Authorisation\<close>

record tool_runtime =
  rt_policy :: permission_policy

definition runtime_new :: "permission_policy \<Rightarrow> tool_runtime" where
  "runtime_new policy = \<lparr>rt_policy = policy\<rparr>"

definition authorize :: "tool_runtime \<Rightarrow> tool_request \<Rightarrow> permission_decision" where
  "authorize rt request = evaluate (rt_policy rt) request"

section \<open>MCP servers\<close>

definition is_absolute :: "string \<Rightarrow> bool" where
  "is_absolute path = starts_with ''/'' path"

text \<open>\<open>Path::join\<close>.\<close>

definition path_join :: "string \<Rightarrow> string \<Rightarrow> string" where
  "path_join base path =
     (if is_absolute path then path
      else if base = [] \<or> last base = CHR ''/'' then base @ path
      else base @ CHR ''/'' # path)"

record mcp_server_config =
  mc_command :: string
  mc_args :: "string list"
  mc_cwd :: "string option"
  mc_enabled :: bool
  mc_environment :: "(string, string) bt_map"
  mc_startup_timeout_seconds :: nat
  mc_call_timeout_seconds :: nat
  mc_max_result_bytes :: nat
  mc_termination_grace_millis :: nat
  mc_max_restart_attempts :: nat

datatype mcp_error =
    InvalidConfiguration | M_Unavailable | ToolNotFound | M_InvalidArguments | ResultTooLarge
  | Uncertain

definition mcp_config_new :: "string \<Rightarrow> string list \<Rightarrow> mcp_server_config" where
  "mcp_config_new command args =
     \<lparr>mc_command = command, mc_args = args, mc_cwd = None, mc_enabled = True,
      mc_environment = bt_empty, mc_startup_timeout_seconds = 10, mc_call_timeout_seconds = 30,
      mc_max_result_bytes = 50 * 1024, mc_termination_grace_millis = 1000,
      mc_max_restart_attempts = 3\<rparr>"

definition mcp_validate :: "mcp_server_config \<Rightarrow> (mcp_error, unit) result" where
  "mcp_validate c =
     (if trim (mc_command c) = [] \<or> mc_startup_timeout_seconds c = 0 \<or>
         mc_call_timeout_seconds c = 0 \<or> mc_max_result_bytes c = 0 \<or>
         mc_termination_grace_millis c = 0 \<or>
         (case mc_cwd c of None \<Rightarrow> False | Some path \<Rightarrow> \<not> is_absolute path) \<or>
         list_ex (\<lambda>(child, host). child = [] \<or> host = [] \<or> CHR ''='' \<in> set child \<or>
                                  CHR ''='' \<in> set host) (mc_environment c)
      then Inl InvalidConfiguration else Inr ())"

record mcp_tool_definition =
  mt_name :: string
  mt_server_id :: string
  mt_server_tool_name :: string
  mt_description :: "string option"
  mt_input_schema :: json

text \<open>A tool as the server lists it (\<open>rmcp::model::Tool\<close>).\<close>

record listed_tool =
  lt_name :: string
  lt_description :: "string option"
  lt_input_schema :: "(string, json) bt_map"

definition public_name_ok :: "string \<Rightarrow> bool" where
  "public_name_ok name =
     (length name \<le> 64 \<and> list_all (\<lambda>c. is_ascii_alphanumeric c \<or> c = CHR ''_'') name)"

text \<open>Names that occur more than once are dropped, all of them.\<close>

definition retain_unique :: "mcp_tool_definition list \<Rightarrow> mcp_tool_definition list" where
  "retain_unique tools =
     filter (\<lambda>t. count_list (map mt_name tools) (mt_name t) = 1) tools"

definition compile_catalog ::
  "(json \<Rightarrow> bool) \<Rightarrow> string \<Rightarrow> listed_tool list \<Rightarrow> mcp_tool_definition list" where
  "compile_catalog schema_ok server_id tools =
     retain_unique
       (map (\<lambda>t. \<lparr>mt_name = ''mcp__'' @ server_id @ ''__'' @ lt_name t, mt_server_id = server_id,
                  mt_server_tool_name = lt_name t, mt_description = lt_description t,
                  mt_input_schema = JObj (lt_input_schema t)\<rparr>)
         (filter (\<lambda>t. public_name_ok (''mcp__'' @ server_id @ ''__'' @ lt_name t) \<and>
                      schema_ok (JObj (lt_input_schema t))) tools))"

text \<open>
  \<open>McpManager::catalog\<close>, on the tools each server has published, the servers in the order of
  their ids.
\<close>

definition mcp_catalog :: "(string, mcp_tool_definition list) bt_map \<Rightarrow> mcp_tool_definition list" where
  "mcp_catalog servers = sort_key mt_name (retain_unique (concat (bt_values servers)))"

section \<open>Native tools\<close>

datatype native_tool = NT_Read | NT_Write | NT_Edit | NT_Bash

definition native_parse :: "string \<Rightarrow> native_tool option" where
  "native_parse name =
     (if name = ''read'' then Some NT_Read
      else if name = ''write'' then Some NT_Write
      else if name = ''edit'' then Some NT_Edit
      else if name = ''bash'' then Some NT_Bash
      else None)"

fun native_name :: "native_tool \<Rightarrow> string" where
  "native_name NT_Read = ''read''"
| "native_name NT_Write = ''write''"
| "native_name NT_Edit = ''edit''"
| "native_name NT_Bash = ''bash''"

fun permission_name :: "native_tool \<Rightarrow> string" where
  "permission_name NT_Read = ''read''"
| "permission_name NT_Write = ''write''"
| "permission_name NT_Edit = ''write''"
| "permission_name NT_Bash = ''bash''"

record native_tool_limits =
  nl_max_read_bytes :: nat
  nl_max_read_lines :: nat
  nl_max_write_bytes :: nat
  nl_max_result_bytes :: nat
  nl_max_result_lines :: nat
  nl_bash_timeout_millis :: nat
  nl_termination_grace_millis :: nat

definition limits_default :: native_tool_limits where
  "limits_default =
     \<lparr>nl_max_read_bytes = 50 * 1024, nl_max_read_lines = 2000, nl_max_write_bytes = 1024 * 1024,
      nl_max_result_bytes = 50 * 1024, nl_max_result_lines = 2000,
      nl_bash_timeout_millis = 30000, nl_termination_grace_millis = 1000\<rparr>"

datatype write_mode = Create | Overwrite

datatype native_arguments =
    ReadArgs string nat nat
  | WriteArgs string string write_mode
  | EditArgs string string string bool
  | BashArgs string "string option"

datatype native_tool_error =
    N_InvalidArguments | OutsideWorkspace | SymlinkNotAllowed | N_NotFound | NotRegularFile
  | NotDirectory | BinaryContent | AlreadyExists | N_Conflict | TooLarge | N_Unavailable
  | SpawnFailed | Io

fun error_code :: "native_tool_error \<Rightarrow> string" where
  "error_code N_InvalidArguments = ''invalid_arguments''"
| "error_code OutsideWorkspace = ''outside_workspace''"
| "error_code SymlinkNotAllowed = ''symlink_not_allowed''"
| "error_code N_NotFound = ''not_found''"
| "error_code NotRegularFile = ''not_regular_file''"
| "error_code NotDirectory = ''not_directory''"
| "error_code BinaryContent = ''binary_content''"
| "error_code AlreadyExists = ''already_exists''"
| "error_code N_Conflict = ''conflict''"
| "error_code TooLarge = ''too_large''"
| "error_code N_Unavailable = ''unavailable''"
| "error_code SpawnFailed = ''spawn_failed''"
| "error_code Io = ''io_failure''"

definition error_result :: "native_tool_error \<Rightarrow> json" where
  "error_result e = jobj [(''error'', jobj [(''code'', JStr (error_code e))])]"

definition string_arg :: "json \<Rightarrow> string \<Rightarrow> (native_tool_error, string) result" where
  "string_arg value name = ok_or N_InvalidArguments (get_str value name)"

definition positive_arg :: "json \<Rightarrow> string \<Rightarrow> nat \<Rightarrow> (native_tool_error, nat) result" where
  "positive_arg value name dflt =
     (case jget value name of
        None \<Rightarrow> Inr dflt
      | Some v \<Rightarrow>
          (case as_u64 v of
             Some n \<Rightarrow> if 0 < n then Inr n else Inl N_InvalidArguments
           | None \<Rightarrow> Inl N_InvalidArguments))"

definition arguments_parse ::
  "native_tool \<Rightarrow> json \<Rightarrow> native_tool_limits \<Rightarrow> (native_tool_error, native_arguments) result" where
  "arguments_parse tool value limits =
     (if \<not> is_object value then Inl N_InvalidArguments
      else case tool of
        NT_Read \<Rightarrow>
          and_then (string_arg value ''filePath'') (\<lambda>file_path.
          and_then (positive_arg value ''offset'' 1) (\<lambda>offset.
          and_then (positive_arg value ''limit'' (nl_max_read_lines limits)) (\<lambda>limit.
          Inr (ReadArgs file_path offset (min limit (nl_max_read_lines limits))))))
      | NT_Write \<Rightarrow>
          and_then (string_arg value ''content'') (\<lambda>content.
          if nl_max_write_bytes limits < length content then Inl TooLarge
          else and_then (string_arg value ''mode'') (\<lambda>mode.
            and_then (if mode = ''create'' then Inr Create
                      else if mode = ''overwrite'' then Inr Overwrite
                      else Inl N_InvalidArguments) (\<lambda>mode.
            and_then (string_arg value ''filePath'') (\<lambda>file_path.
            Inr (WriteArgs file_path content mode)))))
      | NT_Edit \<Rightarrow>
          and_then (string_arg value ''oldString'') (\<lambda>old_string.
          and_then (string_arg value ''newString'') (\<lambda>new_string.
          if old_string = [] \<or> old_string = new_string \<or>
             nl_max_write_bytes limits < length old_string + length new_string
          then Inl N_InvalidArguments
          else and_then (string_arg value ''filePath'') (\<lambda>file_path.
            Inr (EditArgs file_path old_string new_string
                   (unwrap_or False (Option.bind (jget value ''replaceAll'') as_bool))))))
      | NT_Bash \<Rightarrow>
          and_then (string_arg value ''command'') (\<lambda>command.
          if nl_max_write_bytes limits < length command then Inl TooLarge
          else and_then
            (case jget value ''cwd'' of
               None \<Rightarrow> Inr None
             | Some v \<Rightarrow> and_then (ok_or N_InvalidArguments (as_str v)) (\<lambda>s. Inr (Some s)))
            (\<lambda>cwd. Inr (BashArgs command cwd))))"

section \<open>The file system\<close>

type_synonym path = "string list"

datatype node = N_File string | N_Dir | N_Symlink string

record file_system =
  fs_node :: "path \<Rightarrow> node option"
  fs_stat_fails :: "path \<Rightarrow> bool"
  fs_io_fails :: "path \<Rightarrow> bool"

definition fs_put :: "path \<Rightarrow> node \<Rightarrow> file_system \<Rightarrow> file_system" where
  "fs_put p n fs = fs\<lparr>fs_node := (fs_node fs)(p := Some n)\<rparr>"

definition fs_remove :: "path \<Rightarrow> file_system \<Rightarrow> file_system" where
  "fs_remove p fs = fs\<lparr>fs_node := (fs_node fs)(p := None)\<rparr>"

datatype component = RootDir | CurDir | ParentDir | Normal string

text \<open>
  \<open>Path::components\<close>: repeated separators and inner \<open>.\<close> are dropped, a leading \<open>.\<close> is kept.
\<close>

definition components :: "string \<Rightarrow> component list" where
  "components s =
     (let segs = split_on (CHR ''/'') s
      in (if is_absolute s then [RootDir] else if hd segs = ''.'' then [CurDir] else []) @
         map (\<lambda>seg. if seg = ''..'' then ParentDir else Normal seg)
           (filter (\<lambda>seg. seg \<noteq> [] \<and> seg \<noteq> ''.'') segs))"

fun resolve_loop ::
  "file_system \<Rightarrow> bool \<Rightarrow> path \<Rightarrow> component list \<Rightarrow> (native_tool_error, path) result" where
  "resolve_loop fs allow_missing_leaf resolved [] = Inr resolved"
| "resolve_loop fs allow_missing_leaf resolved (c # cs) =
     (case c of
        CurDir \<Rightarrow> resolve_loop fs allow_missing_leaf resolved cs
      | Normal part \<Rightarrow>
          (let resolved = resolved @ [part]
           in if fs_stat_fails fs resolved then Inl Io
              else case fs_node fs resolved of
                Some (N_Symlink _) \<Rightarrow> Inl SymlinkNotAllowed
              | Some n \<Rightarrow> if cs \<noteq> [] \<and> n \<noteq> N_Dir then Inl NotDirectory
                          else resolve_loop fs allow_missing_leaf resolved cs
              | None \<Rightarrow> if allow_missing_leaf \<and> cs = []
                        then resolve_loop fs allow_missing_leaf resolved cs
                        else Inl N_NotFound)
      | _ \<Rightarrow> Inl OutsideWorkspace)"

definition resolve ::
  "file_system \<Rightarrow> path \<Rightarrow> string \<Rightarrow> bool \<Rightarrow> (native_tool_error, path) result" where
  "resolve fs workspace input allow_missing_leaf =
     (let base = RootDir # map Normal workspace; cs = components input
      in and_then
        (if \<not> is_absolute input then Inr cs
         else if take (length base) cs = base then Inr (drop (length base) cs)
         else Inl OutsideWorkspace)
        (\<lambda>relative. if relative = [] then Inl N_InvalidArguments
                    else resolve_loop fs allow_missing_leaf workspace relative))"

section \<open>Reading, writing, editing\<close>

definition select_lines :: "string \<Rightarrow> nat \<Rightarrow> nat \<Rightarrow> string list" where
  "select_lines t offset limit = take limit (drop (offset - 1) (lines t))"

definition tool_read ::
  "native_tool_limits \<Rightarrow> file_system \<Rightarrow> path \<Rightarrow> string \<Rightarrow> nat \<Rightarrow> nat
   \<Rightarrow> (native_tool_error, json) result" where
  "tool_read limits fs workspace file_path offset limit =
     and_then (resolve fs workspace file_path False) (\<lambda>path.
       if fs_stat_fails fs path then Inl Io
       else case fs_node fs path of
         None \<Rightarrow> Inl N_NotFound
       | Some (N_File content) \<Rightarrow>
           if fs_io_fails fs path then Inl Io
           else
             (let bytes = take (u64_add (nl_max_read_bytes limits) 1) content;
                  capped_by_bytes = nl_max_read_bytes limits < length bytes;
                  bytes = take (nl_max_read_bytes limits) bytes
              in if CHR 0x00 \<in> set bytes \<or> \<not> valid_utf8 bytes then Inl BinaryContent
                 else
                   (let all_lines = lines bytes; start = offset - 1;
                        selected = select_lines bytes offset limit;
                        more_lines = u64_saturating_add start (length selected) < length all_lines
                    in Inr (jobj
                      [(''path'', JStr file_path), (''text'', JStr (join_lf selected)),
                       (''line_start'', jnat offset),
                       (''line_end'', jnat (u64_saturating_add offset (length selected) - 1)),
                       (''total_lines'', jnat (length all_lines)),
                       (''truncated'', JBool (capped_by_bytes \<or> more_lines))])))
       | Some _ \<Rightarrow> Inl NotRegularFile)"

text \<open>
  \<open>atomic_write\<close>: the content goes to a temporary file beside the target, which is then linked
  (\<open>create_only\<close>: fails on an existing target) or renamed (replaces a file) into place. Whatever
  happens, a temporary file that is left is removed at the end.
\<close>

definition atomic_write ::
  "string \<Rightarrow> path \<Rightarrow> string \<Rightarrow> bool \<Rightarrow> file_system \<Rightarrow> (native_tool_error, unit) result \<times> file_system" where
  "atomic_write temporary_name path content create_only fs =
     (if path = [] \<or> fs_node fs (butlast path) \<noteq> Some N_Dir then (Inl NotDirectory, fs)
      else
        (let temporary = butlast path @ [temporary_name];
             (write_result, fs') =
               (if fs_node fs temporary \<noteq> None \<or> fs_io_fails fs temporary then (Inl Io, fs)
                else
                  (let fs1 = fs_put temporary (N_File content) fs
                   in if create_only then
                        (if fs_node fs1 path \<noteq> None then (Inl AlreadyExists, fs1)
                         else if fs_io_fails fs1 path then (Inl Io, fs1)
                         else (Inr (), fs_remove temporary (fs_put path (N_File content) fs1)))
                      else if fs_node fs1 path = Some N_Dir \<or> fs_io_fails fs1 path
                      then (Inl Io, fs1)
                      else (Inr (), fs_put path (N_File content) (fs_remove temporary fs1))))
         in (write_result,
             case fs_node fs' temporary of
               Some (N_File _) \<Rightarrow> fs_remove temporary fs'
             | _ \<Rightarrow> fs')))"

definition path_exists :: "file_system \<Rightarrow> path \<Rightarrow> bool" where
  "path_exists fs path = (\<not> fs_stat_fails fs path \<and> fs_node fs path \<noteq> None)"

definition tool_write ::
  "string \<Rightarrow> path \<Rightarrow> string \<Rightarrow> string \<Rightarrow> write_mode \<Rightarrow> file_system
   \<Rightarrow> (native_tool_error, json) result \<times> file_system" where
  "tool_write temporary_name workspace file_path content mode fs =
     (case resolve fs workspace file_path True of
        Inl e \<Rightarrow> (Inl e, fs)
      | Inr path \<Rightarrow>
          if mode = Create \<and> path_exists fs path then (Inl AlreadyExists, fs)
          else if mode = Overwrite \<and> \<not> path_exists fs path then (Inl N_NotFound, fs)
          else
            (case atomic_write temporary_name path content (mode = Create) fs of
               (Inl e, fs') \<Rightarrow> (Inl e, fs')
             | (Inr _, fs') \<Rightarrow>
                 (Inr (jobj
                    [(''path'', JStr file_path),
                     (''mode'', JStr (case mode of Create \<Rightarrow> ''create'' | Overwrite \<Rightarrow> ''overwrite'')),
                     (''bytes_written'', jnat (length content))]), fs')))"

text \<open>
  \<open>match_indices(p).count()\<close>, \<open>replace\<close> and \<open>replacen(_, _, 1)\<close> for a pattern that is not empty:
  matches do not overlap and are taken from the left.
\<close>

function match_count :: "string \<Rightarrow> string \<Rightarrow> nat" where
  "match_count p [] = 0"
| "match_count p (c # s) =
     (case strip_prefix p (c # s) of
        Some r \<Rightarrow> Suc (match_count p (if p = [] then s else r))
      | None \<Rightarrow> match_count p s)"
  by pat_completeness auto

function replace_all :: "string \<Rightarrow> string \<Rightarrow> string \<Rightarrow> string" where
  "replace_all p r [] = []"
| "replace_all p r (c # s) =
     (case strip_prefix p (c # s) of
        Some rest \<Rightarrow> if p = [] then c # replace_all p r s else r @ replace_all p r rest
      | None \<Rightarrow> c # replace_all p r s)"
  by pat_completeness auto

fun replace_first :: "string \<Rightarrow> string \<Rightarrow> string \<Rightarrow> string" where
  "replace_first p r [] = []"
| "replace_first p r (c # s) =
     (case strip_prefix p (c # s) of
        Some rest \<Rightarrow> r @ rest
      | None \<Rightarrow> c # replace_first p r s)"

termination match_count
  by (relation "measure (\<lambda>(p, s). length s)") (auto simp: strip_prefix_Some_iff neq_Nil_conv)

termination replace_all
  by (relation "measure (\<lambda>(p, r, s). length s)") (auto simp: strip_prefix_Some_iff neq_Nil_conv)

definition normalize_endings :: "string \<Rightarrow> string \<Rightarrow> string" where
  "normalize_endings ending s = replace_all [LF] ending (replace_all [CR, LF] [LF] s)"

definition line_ending :: "string \<Rightarrow> string" where
  "line_ending source = (if match_count [CR, LF] source \<noteq> 0 then [CR, LF] else [LF])"

definition tool_edit ::
  "native_tool_limits \<Rightarrow> string \<Rightarrow> path \<Rightarrow> string \<Rightarrow> string \<Rightarrow> string \<Rightarrow> bool \<Rightarrow> file_system
   \<Rightarrow> (native_tool_error, json) result \<times> file_system" where
  "tool_edit limits temporary_name workspace file_path old_string new_string replace_every fs =
     (case resolve fs workspace file_path False of
        Inl e \<Rightarrow> (Inl e, fs)
      | Inr path \<Rightarrow>
          (case fs_node fs path of
             None \<Rightarrow> (Inl N_NotFound, fs)
           | Some (N_File source) \<Rightarrow>
               if fs_io_fails fs path then (Inl Io, fs)
               else if CHR 0x00 \<in> set source \<or> \<not> valid_utf8 source then (Inl BinaryContent, fs)
               else
                 (let matches = match_count old_string source
                  in if matches = 0 \<or> (\<not> replace_every \<and> matches \<noteq> 1) then (Inl N_Conflict, fs)
                     else
                       (let old = normalize_endings (line_ending source) old_string;
                            new = normalize_endings (line_ending source) new_string;
                            next = (if replace_every then replace_all old new source
                                    else replace_first old new source)
                        in if nl_max_write_bytes limits < length next then (Inl TooLarge, fs)
                           else case atomic_write temporary_name path next False fs of
                             (Inl e, fs') \<Rightarrow> (Inl e, fs')
                           | (Inr _, fs') \<Rightarrow>
                               (Inr (jobj
                                  [(''path'', JStr file_path),
                                   (''replacements'', jnat (if replace_every then matches else 1)),
                                   (''bytes_written'', jnat (length next))]), fs')))
           | Some _ \<Rightarrow> (Inl Io, fs)))"

text \<open>
  \<open>NativeExecutor::execute\<close>: arguments are parsed first; every error is turned into a result for
  the model. The shell is an argument: it is given the command and the working directory.
\<close>

definition tool_execute ::
  "native_tool_limits \<Rightarrow> (string \<Rightarrow> string option \<Rightarrow> file_system \<Rightarrow> json \<times> file_system) \<Rightarrow> string \<Rightarrow> path
   \<Rightarrow> native_tool \<Rightarrow> json \<Rightarrow> file_system \<Rightarrow> json \<times> file_system" where
  "tool_execute limits bash temporary_name workspace tool arguments fs =
     (case arguments_parse tool arguments limits of
        Inl e \<Rightarrow> (error_result e, fs)
      | Inr (BashArgs command cwd) \<Rightarrow> bash command cwd fs
      | Inr parsed \<Rightarrow>
          (case (case parsed of
                   ReadArgs file_path offset limit \<Rightarrow>
                     (tool_read limits fs workspace file_path offset limit, fs)
                 | WriteArgs file_path content mode \<Rightarrow>
                     tool_write temporary_name workspace file_path content mode fs
                 | EditArgs file_path old_string new_string replace_every \<Rightarrow>
                     tool_edit limits temporary_name workspace file_path old_string new_string
                       replace_every fs
                 | BashArgs _ _ \<Rightarrow> (Inl N_Unavailable, fs)) of
             (Inl e, fs') \<Rightarrow> (error_result e, fs')
           | (Inr v, fs') \<Rightarrow> (v, fs')))"

end
