(* ===== verification/Tools_Guarantees.thy ===== *)
theory Tools_Guarantees
  imports Tools
begin

text \<open>
  What the tool runtime guarantees: paths are resolved inside the workspace and never through a
  symbolic link, the file tools change nothing outside of it, a write is all or nothing, an edit
  replaces the one match it found, and the MCP catalogue has no ambiguous names.
\<close>

section \<open>Path resolution\<close>

definition clean_name :: "string \<Rightarrow> bool" where
  "clean_name s = (s \<noteq> [] \<and> s \<noteq> ''.'' \<and> s \<noteq> ''..'' \<and> CHR ''/'' \<notin> set s)"

lemma split_on_free: "t \<in> set (split_on d s) \<Longrightarrow> d \<notin> set t"
proof (induction s arbitrary: t)
  case (Cons c s)
  then show ?case by (cases "split_on d s") (auto split: if_splits)
qed simp

lemma components_clean: "Normal part \<in> set (components s) \<Longrightarrow> clean_name part"
  by (auto simp: components_def Let_def clean_name_def split: if_splits dest: split_on_free)

text \<open>The directories between \<open>base\<close> and \<open>p\<close>, and the node at \<open>p\<close>, as \<open>resolve\<close> saw them.\<close>

definition plain_path :: "file_system \<Rightarrow> path \<Rightarrow> path \<Rightarrow> bool" where
  "plain_path fs base p \<longleftrightarrow>
     (\<forall>k. length base < k \<longrightarrow> k < length p \<longrightarrow> fs_node fs (take k p) = Some N_Dir) \<and>
     (p \<noteq> base \<longrightarrow> (\<forall>t. fs_node fs p \<noteq> Some (N_Symlink t)))"

lemma plain_path_step:
  assumes "plain_path fs (r @ [x]) p" and "p = r @ [x] @ rel"
    and "rel \<noteq> [] \<Longrightarrow> fs_node fs (r @ [x]) = Some N_Dir"
    and "\<And>t. fs_node fs (r @ [x]) \<noteq> Some (N_Symlink t)"
  shows "plain_path fs r p"
  unfolding plain_path_def
proof (intro conjI allI impI)
  fix k assume "length r < k" and "k < length p"
  then show "fs_node fs (take k p) = Some N_Dir"
    using assms(1-3) by (cases "k = Suc (length r)") (auto simp: plain_path_def)
next
  fix t show "fs_node fs p \<noteq> Some (N_Symlink t)"
    using assms(1,2,4) by (cases "rel = []") (auto simp: plain_path_def)
qed

lemma resolve_loop_ok:
  assumes "resolve_loop fs m r cs = Inr p"
  shows "\<exists>rel. p = r @ rel \<and> (\<forall>x \<in> set rel. Normal x \<in> set cs) \<and> plain_path fs r p \<and>
           (rel \<noteq> [] \<longrightarrow> \<not> m \<longrightarrow> fs_node fs p \<noteq> None)"
  using assms
proof (induction cs arbitrary: r)
  case Nil
  then show ?case by (simp add: plain_path_def)
next
  case (Cons c cs)
  show ?case
  proof (cases c)
    case CurDir
    with Cons show ?thesis by auto
  next
    case (Normal part)
    let ?r = "r @ [part]"
    have rec: "resolve_loop fs m ?r cs = Inr p"
      using Cons.prems Normal by (auto simp: Let_def split: if_splits option.splits node.splits)
    have nolink: "\<And>t. fs_node fs ?r \<noteq> Some (N_Symlink t)"
      using Cons.prems Normal by (auto simp: Let_def split: if_splits option.splits node.splits)
    have dir: "cs \<noteq> [] \<Longrightarrow> fs_node fs ?r = Some N_Dir"
      using Cons.prems Normal by (auto simp: Let_def split: if_splits option.splits node.splits)
    have leaf: "\<not> m \<Longrightarrow> fs_node fs ?r \<noteq> None"
      using Cons.prems Normal by (auto simp: Let_def split: if_splits option.splits node.splits)
    have "\<exists>rel. p = ?r @ rel \<and> (\<forall>x \<in> set rel. Normal x \<in> set cs) \<and> plain_path fs ?r p \<and>
            (rel \<noteq> [] \<longrightarrow> \<not> m \<longrightarrow> fs_node fs p \<noteq> None)"
      by (rule Cons.IH [OF rec])
    then obtain rel where rel: "p = ?r @ rel" "\<forall>x \<in> set rel. Normal x \<in> set cs"
      "plain_path fs ?r p" "rel \<noteq> [] \<longrightarrow> \<not> m \<longrightarrow> fs_node fs p \<noteq> None" by blast
    have "rel \<noteq> [] \<Longrightarrow> cs \<noteq> []" using rel(2) by (cases rel) auto
    with dir have "rel \<noteq> [] \<Longrightarrow> fs_node fs ?r = Some N_Dir" by simp
    with rel nolink have "plain_path fs r p" by (intro plain_path_step [of fs r part p rel]) auto
    moreover have "\<not> m \<longrightarrow> fs_node fs p \<noteq> None" using rel leaf by (cases "rel = []") auto
    ultimately show ?thesis using rel Normal by (intro exI [of _ "part # rel"]) auto
  qed (use Cons.prems in simp_all)
qed

lemma resolve_ok:
  assumes "resolve fs ws input m = Inr p"
  obtains rel where "p = ws @ rel" and "\<forall>x \<in> set rel. clean_name x" and "plain_path fs ws p"
    and "rel \<noteq> [] \<longrightarrow> \<not> m \<longrightarrow> fs_node fs p \<noteq> None"
proof -
  from assms obtain cs where cs: "resolve_loop fs m ws cs = Inr p"
    "set cs \<subseteq> set (components input)"
    by (auto simp: resolve_def Let_def and_then_def dest: in_set_dropD split: if_splits)
  from resolve_loop_ok [OF cs(1)] cs(2) that components_clean show ?thesis by blast
qed

section \<open>Atomic writes\<close>

abbreviation temporary_of :: "path \<Rightarrow> string \<Rightarrow> path" where
  "temporary_of p name \<equiv> butlast p @ [name]"

lemma fs_put_simps [simp]:
  "fs_node (fs_put p n fs) q = (if q = p then Some n else fs_node fs q)"
  "fs_node (fs_remove p fs) q = (if q = p then None else fs_node fs q)"
  "fs_stat_fails (fs_put p n fs) = fs_stat_fails fs" "fs_io_fails (fs_put p n fs) = fs_io_fails fs"
  by (simp_all add: fs_put_def fs_remove_def)

lemma fs_remove_put: "fs_node fs t = None \<Longrightarrow> fs_remove t (fs_put t n fs) = fs"
  by (simp add: fs_put_def fs_remove_def fun_upd_idem)

lemma fs_remove_put_other:
  "t \<noteq> p \<Longrightarrow> fs_node fs t = None \<Longrightarrow> fs_remove t (fs_put p m (fs_put t n fs)) = fs_put p m fs"
  by (simp add: fs_put_def fs_remove_def fun_upd_twist fun_upd_idem)

text \<open>A write either fails and leaves the file system as it was, or sets the one path.\<close>

lemma atomic_write_other:
  assumes t: "t = temporary_of p name" and "fs_node fs t = None" and "p \<noteq> t"
  shows "atomic_write name p content create_only fs =
    (if p = [] \<or> fs_node fs (butlast p) \<noteq> Some N_Dir then (Inl NotDirectory, fs)
     else if fs_io_fails fs t then (Inl Io, fs)
     else if create_only \<and> fs_node fs p \<noteq> None then (Inl AlreadyExists, fs)
     else if fs_io_fails fs p \<or> fs_node fs p = Some N_Dir then (Inl Io, fs)
     else (Inr (), fs_put p (N_File content) fs))"
  unfolding atomic_write_def t [symmetric] Let_def
  using assms(2,3) assms(3) [symmetric] fs_remove_put_other [of t p fs]
  by (simp add: fs_remove_put)

lemma atomic_write_same:
  assumes t: "p = temporary_of p name" and "fs_node fs p = None"
  shows "fst (atomic_write name p content create_only fs) = Inr () \<Longrightarrow> \<not> create_only \<and> p \<noteq> []"
    and "fst (atomic_write name p content create_only fs) = Inl e \<Longrightarrow>
         snd (atomic_write name p content create_only fs) = fs"
  unfolding atomic_write_def t [symmetric] Let_def
  using assms(2) fs_remove_put [OF assms(2)]
  by (auto split: if_splits)

lemma atomic_write_cases:
  assumes aw: "atomic_write name p content create_only fs = (r, fs')"
    and fresh: "fs_node fs (temporary_of p name) = None"
  shows "(\<exists>e. r = Inl e \<and> fs' = fs) \<or>
         (r = Inr () \<and> p \<noteq> [] \<and> fs_node fs p \<noteq> Some N_Dir \<and>
          (create_only \<longrightarrow> fs_node fs p = None) \<and>
          (p \<noteq> temporary_of p name \<longrightarrow> fs' = fs_put p (N_File content) fs) \<and>
          (create_only \<longrightarrow> p \<noteq> temporary_of p name))"
proof (cases "p = temporary_of p name")
  case True
  with fresh have none: "fs_node fs p = None" by simp
  note same = atomic_write_same [OF True none, of content create_only]
  from same aw none True show ?thesis by (cases r) auto
next
  case False
  have "(r, fs') = (if p = [] \<or> fs_node fs (butlast p) \<noteq> Some N_Dir then (Inl NotDirectory, fs)
     else if fs_io_fails fs (temporary_of p name) then (Inl Io, fs)
     else if create_only \<and> fs_node fs p \<noteq> None then (Inl AlreadyExists, fs)
     else if fs_io_fails fs p \<or> fs_node fs p = Some N_Dir then (Inl Io, fs)
     else (Inr (), fs_put p (N_File content) fs))"
    using atomic_write_other [OF refl fresh False] aw by simp
  with False show ?thesis by (simp split: if_splits)
qed

section \<open>The file tools\<close>

definition inside :: "path \<Rightarrow> path \<Rightarrow> bool" where
  "inside ws p = (take (length ws) p = ws)"

text \<open>What a file tool may do: nothing, or set one path strictly below the workspace.\<close>

definition one_write :: "path \<Rightarrow> file_system \<Rightarrow> file_system \<Rightarrow> bool" where
  "one_write ws fs fs' \<longleftrightarrow>
     fs' = fs \<or> (\<exists>rel content. rel \<noteq> [] \<and> (\<forall>x \<in> set rel. clean_name x) \<and>
       plain_path fs ws (ws @ rel) \<and> fs' = fs_put (ws @ rel) (N_File content) fs)"

definition fresh_name :: "file_system \<Rightarrow> string \<Rightarrow> bool" where
  "fresh_name fs name \<longleftrightarrow> (\<forall>d. fs_node fs (d @ [name]) = None)"

lemma tool_write_cases:
  assumes "tool_write name ws file_path content mode fs = (r, fs')"
    and ws: "fs_node fs ws = Some N_Dir" and fresh: "fresh_name fs name"
  shows "(\<exists>e. r = Inl e \<and> fs' = fs) \<or>
         (\<exists>v rel. r = Inr v \<and> resolve fs ws file_path True = Inr (ws @ rel) \<and> rel \<noteq> [] \<and>
            (mode = Create \<longleftrightarrow> fs_node fs (ws @ rel) = None) \<and>
            fs' = fs_put (ws @ rel) (N_File content) fs)"
proof (cases "resolve fs ws file_path True")
  case (Inl e)
  with assms(1) show ?thesis by (auto simp: tool_write_def)
next
  case (Inr p)
  then obtain rel where p: "p = ws @ rel" by (rule resolve_ok)
  show ?thesis
  proof (cases "(mode = Create \<and> path_exists fs p) \<or> (mode = Overwrite \<and> \<not> path_exists fs p)")
    case True
    with assms(1) Inr show ?thesis by (auto simp: tool_write_def)
  next
    case False
    obtain w fs1 where aw: "atomic_write name p content (mode = Create) fs = (w, fs1)"
      by fastforce
    have free: "fs_node fs (temporary_of p name) = None" using fresh by (simp add: fresh_name_def)
    have exists: "mode \<noteq> Create \<Longrightarrow> fs_node fs p \<noteq> None"
      using False by (cases mode) (auto simp: path_exists_def)
    then have neq: "mode \<noteq> Create \<Longrightarrow> p \<noteq> temporary_of p name" using free by metis
    have res: "fs' = fs1 \<and> (case w of Inl e \<Rightarrow> r = Inl e | Inr _ \<Rightarrow> \<exists>v. r = Inr v)"
      using assms(1) Inr False aw by (auto simp: tool_write_def split: sum.splits)
    from atomic_write_cases [OF aw free] show ?thesis
    proof (elim disjE exE conjE)
      fix e assume "w = Inl e" "fs1 = fs"
      with res show ?thesis by simp
    next
      assume w: "w = Inr ()" "fs_node fs p \<noteq> Some N_Dir"
        "mode = Create \<longrightarrow> fs_node fs p = None"
        "p \<noteq> temporary_of p name \<longrightarrow> fs1 = fs_put p (N_File content) fs"
        "mode = Create \<longrightarrow> p \<noteq> temporary_of p name"
      have "fs1 = fs_put p (N_File content) fs" using w(4,5) neq by (cases "mode = Create") auto
      moreover have "rel \<noteq> []" using w(2) ws p by auto
      moreover have "mode = Create \<longleftrightarrow> fs_node fs p = None" using w(3) exists by blast
      ultimately show ?thesis using res w(1) Inr p by auto
    qed
  qed
qed

text \<open>The content an edit writes.\<close>

definition edited :: "string \<Rightarrow> string \<Rightarrow> string \<Rightarrow> bool \<Rightarrow> string" where
  "edited source old_string new_string replace_every =
     (let old = normalize_endings (line_ending source) old_string;
          new = normalize_endings (line_ending source) new_string
      in if replace_every then replace_all old new source else replace_first old new source)"

lemma tool_edit_cases:
  assumes "tool_edit limits name ws file_path old_string new_string every fs = (r, fs')"
    and ws: "fs_node fs ws = Some N_Dir" and fresh: "fresh_name fs name"
  shows "(\<exists>e. r = Inl e \<and> fs' = fs) \<or>
         (\<exists>v rel source. r = Inr v \<and> resolve fs ws file_path False = Inr (ws @ rel) \<and> rel \<noteq> [] \<and>
            fs_node fs (ws @ rel) = Some (N_File source) \<and>
            match_count old_string source \<noteq> 0 \<and> (every \<or> match_count old_string source = 1) \<and>
            length (edited source old_string new_string every) \<le> nl_max_write_bytes limits \<and>
            fs' = fs_put (ws @ rel) (N_File (edited source old_string new_string every)) fs)"
proof (cases "\<exists>e. r = Inl e \<and> fs' = fs")
  case False
  from False assms(1) obtain p source where p: "resolve fs ws file_path False = Inr p"
    and src: "fs_node fs p = Some (N_File source)"
    by (auto simp: tool_edit_def split: sum.splits option.splits node.splits)
  let ?next = "edited source old_string new_string every"
  obtain w fs1 where aw: "atomic_write name p ?next False fs = (w, fs1)" by fastforce
  from p obtain rel where rel: "p = ws @ rel" by (rule resolve_ok)
  with ws src have "rel \<noteq> []" by auto
  have free: "fs_node fs (temporary_of p name) = None" using fresh by (simp add: fresh_name_def)
  then have neq: "p \<noteq> temporary_of p name" using src by (metis option.distinct(1))
  have step: "match_count old_string source \<noteq> 0 \<and> (every \<or> match_count old_string source = 1) \<and>
      length ?next \<le> nl_max_write_bytes limits \<and> fs' = fs1 \<and>
      (case w of Inl e \<Rightarrow> r = Inl e | Inr _ \<Rightarrow> \<exists>v. r = Inr v)"
    using False assms(1) p src aw
    by (auto simp: tool_edit_def edited_def Let_def split: if_splits sum.splits)
  from atomic_write_cases [OF aw free] False step have "w = Inr ()"
    "fs1 = fs_put p (N_File ?next) fs" using neq by auto
  with step p rel src \<open>rel \<noteq> []\<close> show ?thesis by auto
qed blast

lemma tool_execute_one_write:
  assumes "tool \<noteq> NT_Bash" and ws: "fs_node fs ws = Some N_Dir" and fresh: "fresh_name fs name"
  shows "one_write ws fs (snd (tool_execute limits bash name ws tool arguments fs))"
proof -
  have wrote: "one_write ws fs (snd (tool_write name ws fp c m fs))" for fp c m
  proof -
    obtain r fs' where e: "tool_write name ws fp c m fs = (r, fs')" by fastforce
    from tool_write_cases [OF e ws fresh] e show ?thesis
      unfolding one_write_def by (fastforce elim: resolve_ok)
  qed
  have edits: "one_write ws fs (snd (tool_edit limits name ws fp old_s new_s all_of fs))"
    for fp old_s new_s all_of
  proof -
    obtain r fs' where e: "tool_edit limits name ws fp old_s new_s all_of fs = (r, fs')" by fastforce
    from tool_edit_cases [OF e ws fresh] e show ?thesis
      unfolding one_write_def by (fastforce elim: resolve_ok)
  qed
  have same: "one_write ws fs fs" by (simp add: one_write_def)
  have nobash: "arguments_parse tool arguments limits \<noteq> Inr (BashArgs c d)" for c d
    using assms(1)
    by (cases tool) (auto simp: arguments_parse_def and_then_def split: sum.splits if_splits)
  have pass: "snd (case q of (Inl e, fs') \<Rightarrow> (error_result e, fs') | (Inr v, fs') \<Rightarrow> (v, fs')) = snd q"
    for q :: "(native_tool_error, json) result \<times> file_system"
    by (simp split: prod.splits sum.splits)
  show ?thesis
  proof (cases "arguments_parse tool arguments limits")
    case (Inl e)
    then show ?thesis by (simp add: tool_execute_def same)
  next
    case (Inr parsed)
    with nobash same wrote edits show ?thesis
      by (cases parsed) (auto simp: tool_execute_def pass split: sum.splits)
  qed
qed

section \<open>Sequences of tool calls\<close>

text \<open>
  The contract of a tool that is confined to a place: a permitted call keeps the state usable and
  changes nothing elsewhere. A session makes many calls; the contract holds for all of them.
\<close>

locale confined_tool =
  fixes run :: "'call \<Rightarrow> 's \<Rightarrow> 'r \<times> 's"
    and usable :: "'s \<Rightarrow> bool"
    and permitted :: "'call \<Rightarrow> 's \<Rightarrow> bool"
    and look :: "'s \<Rightarrow> 'p \<Rightarrow> 'v"
    and within :: "'p \<Rightarrow> bool"
  assumes run_usable: "usable s \<Longrightarrow> permitted c s \<Longrightarrow> usable (snd (run c s))"
    and run_frame: "usable s \<Longrightarrow> permitted c s \<Longrightarrow> \<not> within p \<Longrightarrow> look (snd (run c s)) p = look s p"
begin

lemma run_all:
  assumes "usable s"
    and "\<forall>i < length cs. permitted (cs ! i) (foldl (\<lambda>s c. snd (run c s)) s (take i cs))"
  shows "usable (foldl (\<lambda>s c. snd (run c s)) s cs) \<and>
         (\<not> within p \<longrightarrow> look (foldl (\<lambda>s c. snd (run c s)) s cs) p = look s p)"
  using assms
proof (induction cs rule: rev_induct)
  case (snoc c cs)
  have perm: "\<forall>i < length cs. permitted (cs ! i) (foldl (\<lambda>s c. snd (run c s)) s (take i cs))"
  proof (intro allI impI)
    fix i assume "i < length cs"
    with snoc.prems(2) [rule_format, of i]
    show "permitted (cs ! i) (foldl (\<lambda>s c. snd (run c s)) s (take i cs))"
      by (simp add: nth_append)
  qed
  have last: "permitted c (foldl (\<lambda>s c. snd (run c s)) s cs)"
    using snoc.prems(2) [rule_format, of "length cs"] by simp
  from snoc.IH [OF snoc.prems(1) perm] last show ?case by (simp add: run_usable run_frame)
qed simp

end

type_synonym file_call = "string \<times> native_tool \<times> json"

definition file_call_run ::
  "native_tool_limits \<Rightarrow> (string \<Rightarrow> string option \<Rightarrow> file_system \<Rightarrow> json \<times> file_system) \<Rightarrow> path
   \<Rightarrow> file_call \<Rightarrow> file_system \<Rightarrow> json \<times> file_system" where
  "file_call_run limits bash ws call fs =
     (case call of (name, tool, arguments) \<Rightarrow> tool_execute limits bash name ws tool arguments fs)"

definition file_call_permitted :: "file_call \<Rightarrow> file_system \<Rightarrow> bool" where
  "file_call_permitted call fs =
     (case call of (name, tool, _) \<Rightarrow> tool \<noteq> NT_Bash \<and> fresh_name fs name)"

lemma one_write_frame:
  "one_write ws fs fs' \<Longrightarrow> \<not> inside ws p \<Longrightarrow> fs_node fs' p = fs_node fs p"
  by (auto simp: one_write_def inside_def)

lemma one_write_root:
  "one_write ws fs fs' \<Longrightarrow> fs_node fs' ws = fs_node fs ws"
  by (auto simp: one_write_def)

interpretation file_tools: confined_tool "file_call_run limits bash ws"
  "\<lambda>fs. fs_node fs ws = Some N_Dir" file_call_permitted fs_node "inside ws"
  by unfold_locales
    (auto simp: file_call_run_def file_call_permitted_def one_write_root [OF tool_execute_one_write]
      one_write_frame [OF tool_execute_one_write])

section \<open>Replacing\<close>

lemma strip_prefix_absent: "d \<in> set p \<Longrightarrow> d \<notin> set s \<Longrightarrow> strip_prefix p s = None"
  by (cases "strip_prefix p s") (auto simp: strip_prefix_Some_iff)

lemma replace_all_id: "d \<in> set p \<Longrightarrow> d \<notin> set s \<Longrightarrow> replace_all p r s = s"
  by (induction s) (simp_all add: strip_prefix_absent)

lemma match_count_absent: "d \<in> set p \<Longrightarrow> d \<notin> set s \<Longrightarrow> match_count p s = 0"
  by (induction s) (simp_all add: strip_prefix_absent)

lemma replace_all_same: "p \<noteq> [] \<Longrightarrow> replace_all p p s = s"
proof (induction "length s" arbitrary: s rule: less_induct)
  case less
  show ?case
  proof (cases s)
    case (Cons c s')
    show ?thesis
    proof (cases "strip_prefix p s")
      case (Some rest)
      then have "s = p @ rest" by (simp add: strip_prefix_Some_iff)
      moreover from this less.prems have "replace_all p p rest = rest" by (intro less.hyps) auto
      moreover have "replace_all p p (c # s') = p @ replace_all p p rest"
        using Some Cons less.prems by simp
      ultimately show ?thesis using Cons by simp
    qed (use Cons less in simp)
  qed simp
qed

lemma replace_first_match:
  assumes "match_count p s \<noteq> 0" and "p \<noteq> []"
  shows "\<exists>pre post. s = pre @ p @ post \<and> replace_first p r s = pre @ r @ post"
  using assms(1)
proof (induction s)
  case (Cons c s)
  show ?case
  proof (cases "strip_prefix p (c # s)")
    case None
    with Cons obtain pre post where "s = pre @ p @ post" "replace_first p r s = pre @ r @ post"
      by auto
    with None show ?thesis by (intro exI [of _ "c # pre"] exI [of _ post]) simp
  next
    case (Some rest)
    then have "c # s = [] @ p @ rest" by (simp add: strip_prefix_Some_iff)
    moreover from Some have "replace_first p r (c # s) = [] @ r @ rest" by simp
    ultimately show ?thesis by blast
  qed
qed simp

text \<open>Line endings are left alone where there are none to convert.\<close>

definition endings_agree :: "string \<Rightarrow> string \<Rightarrow> bool" where
  "endings_agree source s = (LF \<notin> set s \<or> (CR \<notin> set s \<and> CR \<notin> set source))"

lemma normalize_endings_id: "endings_agree source s \<Longrightarrow> normalize_endings (line_ending source) s = s"
  by (auto simp: endings_agree_def normalize_endings_def line_ending_def replace_all_same
      replace_all_id [of LF] replace_all_id [of CR] match_count_absent [of CR])

section \<open>The MCP catalogue\<close>

lemma distinct_filter_count:
  "\<forall>n \<in> set (filter P ns). count_list ns n = 1 \<Longrightarrow> distinct (filter P ns)"
proof (induction ns)
  case (Cons a ns)
  have "\<forall>n \<in> set (filter P ns). count_list ns n = 1"
  proof
    fix n assume n: "n \<in> set (filter P ns)"
    with Cons.prems have "count_list (a # ns) n = 1" by auto
    moreover from n have "count_list ns n \<noteq> 0" by (simp add: count_list_0_iff)
    ultimately show "count_list ns n = 1" by (auto split: if_splits)
  qed
  moreover have "P a \<Longrightarrow> a \<notin> set ns"
    using Cons.prems by (auto simp: count_list_0_iff)
  ultimately show ?case using Cons.IH by auto
qed simp

lemma retain_unique_distinct: "distinct (map mt_name (retain_unique tools))"
proof -
  have "map mt_name (retain_unique tools) =
      filter (\<lambda>n. count_list (map mt_name tools) n = 1) (map mt_name tools)"
    by (simp add: retain_unique_def filter_map comp_def)
  then show ?thesis by (simp only:) (rule distinct_filter_count, simp)
qed

section \<open>Properties\<close>

text \<open>An example workspace: a directory with a text file and a link out of it.\<close>

definition example_fs :: "string \<Rightarrow> file_system" where
  "example_fs content =
     \<lparr>fs_node = (\<lambda>p. if p = [] \<or> p = [''w''] then Some N_Dir
                     else if p = [''w'', ''f''] then Some (N_File content)
                     else if p = [''w'', ''out''] then Some (N_Symlink ''/'')
                     else None),
      fs_stat_fails = (\<lambda>_. False), fs_io_fails = (\<lambda>_. False)\<rparr>"

lemma example_fs_simps [simp]:
  "fs_node (example_fs content) p =
     (if p = [] \<or> p = [''w''] then Some N_Dir
      else if p = [''w'', ''f''] then Some (N_File content)
      else if p = [''w'', ''out''] then Some (N_Symlink ''/'') else None)"
  "fs_stat_fails (example_fs content) p = False" "fs_io_fails (example_fs content) p = False"
  by (simp_all add: example_fs_def)

lemma example_fs_fresh: "fresh_name (example_fs content) ''t''"
  by (simp add: fresh_name_def append_eq_Cons_conv)

lemma example_fs_root: "fs_node (example_fs content) [''w''] = Some N_Dir"
  by simp

text \<open>A path that resolves is the workspace followed by ordinary names: no empty, dot, dot-dot
  or slash-bearing component, every directory on the way below the workspace is a real directory
  and the target itself is not a symbolic link; unless a missing leaf is allowed, a target below
  the workspace exists. Absolute inputs outside the workspace and inputs with a parent component
  never resolve.\<close>

theorem resolve_confined:
  assumes "resolve fs ws input allow_missing = Inr p"
  shows "\<exists>rel. p = ws @ rel \<and>
           (\<forall>x \<in> set rel. x \<noteq> [] \<and> x \<noteq> ''.'' \<and> x \<noteq> ''..'' \<and> CHR ''/'' \<notin> set x) \<and>
           (\<forall>k. length ws < k \<longrightarrow> k < length p \<longrightarrow> fs_node fs (take k p) = Some N_Dir) \<and>
           (rel \<noteq> [] \<longrightarrow> (\<forall>t. fs_node fs p \<noteq> Some (N_Symlink t))) \<and>
           (rel \<noteq> [] \<longrightarrow> \<not> allow_missing \<longrightarrow> fs_node fs p \<noteq> None)"
proof -
  obtain rel where "p = ws @ rel" "\<forall>x \<in> set rel. clean_name x" "plain_path fs ws p"
    "rel \<noteq> [] \<longrightarrow> \<not> allow_missing \<longrightarrow> fs_node fs p \<noteq> None"
    using assms by (rule resolve_ok)
  then show ?thesis by (intro exI [of _ rel]) (auto simp: clean_name_def plain_path_def)
qed

theorem resolve_confined_witness:
  "resolve (example_fs []) [''w''] ''/w/f'' False = Inr [''w'', ''f''] \<and>
   (\<exists>rel. [''w'', ''f''] = [''w''] @ rel \<and> (\<forall>x \<in> set rel. CHR ''/'' \<notin> set x))"
proof -
  have r: "resolve (example_fs []) [''w''] ''/w/f'' False = Inr [''w'', ''f'']"
    by (simp add: resolve_def components_def is_absolute_def starts_with_def and_then_def
        Let_def)
  from resolve_confined [OF r] r show ?thesis by blast
qed



text \<open>A write is all or nothing: it fails and leaves the file system as it was, or it sets the
  resolved path, strictly below the workspace, to the content given, and nothing else. In create
  mode the path did not exist, in overwrite mode it did.\<close>

theorem write_all_or_nothing:
  assumes "fs_node fs ws = Some N_Dir" and "fresh_name fs name"
    and "tool_write name ws file_path content mode fs = (r, fs')"
  shows "(\<exists>e. r = Inl e) \<and> fs' = fs \<or>
         (\<exists>v rel. r = Inr v \<and> resolve fs ws file_path True = Inr (ws @ rel) \<and> rel \<noteq> [] \<and>
            (mode = Create \<longleftrightarrow> fs_node fs (ws @ rel) = None) \<and>
            fs_node fs' = (fs_node fs)(ws @ rel := Some (N_File content)))"
  using tool_write_cases [OF assms(3,1,2)] by (fastforce simp: fs_put_def)

theorem write_all_or_nothing_witness:
  "\<exists>r fs'. tool_write ''t'' [''w''] ''g'' ''hi'' Create (example_fs []) = (r, fs') \<and>
     (\<exists>v. r = Inr v) \<and> fs_node fs' [''w'', ''g''] = Some (N_File ''hi'')"
proof -
  obtain r fs' where w: "tool_write ''t'' [''w''] ''g'' ''hi'' Create (example_fs []) = (r, fs')"
    by fastforce
  have res: "resolve (example_fs []) [''w''] ''g'' True = Inr [''w'', ''g'']"
    by (simp add: resolve_def components_def is_absolute_def starts_with_def and_then_def
        Let_def)
  have ok: "\<exists>v. r = Inr v"
    using w by (auto simp: tool_write_def res path_exists_def atomic_write_def Let_def)
  from write_all_or_nothing [OF example_fs_root example_fs_fresh w] ok res
  have "fs_node fs' [''w'', ''g''] = Some (N_File ''hi'')" by auto
  with w ok show ?thesis by blast
qed

text \<open>A single edit that succeeds replaces one occurrence of the old string, the only one that
  counting from the left finds, by the new string and leaves the rest of the file and of the file
  system as they were, when no line ending has to be converted: neither string has a line feed, or
  neither they nor the file have a carriage return.\<close>

theorem edit_replaces_match:
  assumes "fs_node fs ws = Some N_Dir" and "fresh_name fs name" and "old_string \<noteq> []"
    and "tool_edit limits name ws file_path old_string new_string False fs = (Inr v, fs')"
    and "resolve fs ws file_path False = Inr p" and "fs_node fs p = Some (N_File source)"
    and "endings_agree source old_string" and "endings_agree source new_string"
  shows "match_count old_string source = 1 \<and>
         (\<exists>pre post. source = pre @ old_string @ post \<and>
            fs_node fs' = (fs_node fs)(p := Some (N_File (pre @ new_string @ post))))"
proof -
  from tool_edit_cases [OF assms(4,1,2)] assms(5,6) have one: "match_count old_string source = 1"
    and fs': "fs' = fs_put p (N_File (edited source old_string new_string False)) fs"
    by auto
  have "edited source old_string new_string False = replace_first old_string new_string source"
    using assms(7,8) by (simp add: edited_def Let_def normalize_endings_id)
  moreover obtain pre post where "source = pre @ old_string @ post"
    "replace_first old_string new_string source = pre @ new_string @ post"
    using replace_first_match [of old_string source new_string] one assms(3) by auto
  ultimately show ?thesis using one fs' by (auto simp: fs_put_def)
qed

lemma example_resolve: "resolve (example_fs content) [''w''] ''f'' False = Inr [''w'', ''f'']"
  by (simp add: resolve_def components_def is_absolute_def starts_with_def and_then_def Let_def)

lemmas edit_eval = tool_edit_def example_resolve atomic_write_def Let_def limits_default_def
  normalize_endings_def line_ending_def byte_def

theorem edit_replaces_match_witness:
  "\<exists>v fs'. tool_edit limits_default ''t'' [''w''] ''f'' ''b'' ''y'' False (example_fs ''abc'') =
       (Inr v, fs') \<and> fs_node fs' [''w'', ''f''] = Some (N_File ''ayc'')"
proof -
  obtain r fs' where e: "tool_edit limits_default ''t'' [''w''] ''f'' ''b'' ''y'' False
      (example_fs ''abc'') = (r, fs')" by fastforce
  then obtain v where v: "r = Inr v" by (auto simp: edit_eval)
  have "endings_agree ''abc'' ''b''" "endings_agree ''abc'' ''y''"
    by (simp_all add: endings_agree_def)
  from edit_replaces_match [OF example_fs_root example_fs_fresh _ e [unfolded v] example_resolve _ this]
  obtain pre post where eq: "''abc'' = pre @ ''b'' @ post"
    "fs_node fs' [''w'', ''f''] = Some (N_File (pre @ ''y'' @ post))" by auto
  then have "pre = ''a'' \<and> post = ''c''" by (auto simp: append_eq_Cons_conv Cons_eq_append_conv)
  with eq e v show ?thesis by auto
qed

text \<open>The old string is counted as it was given but searched for with its line endings
  converted: in a file that mixes both kinds of line ending an edit can report one replacement and
  leave the file as it was.\<close>

theorem edit_mixed_endings_no_op:
  "\<exists>v fs'. tool_edit limits_default ''t'' [''w''] ''f'' [CHR ''b'', LF, CHR ''c''] ''x'' False
       (example_fs [CHR ''a'', CR, LF, CHR ''b'', LF, CHR ''c'']) = (Inr v, fs') \<and>
     jget v ''replacements'' = Some (jnat 1) \<and>
     fs_node fs' [''w'', ''f''] =
       Some (N_File [CHR ''a'', CR, LF, CHR ''b'', LF, CHR ''c''])"
  by (simp add: edit_eval jobj_def)

text \<open>The names in the MCP catalogue are sorted and pairwise different, and each entry is one
  that a server published and no other entry shares its name.\<close>

theorem mcp_catalog_unambiguous:
  "sorted (map mt_name (mcp_catalog servers)) \<and> distinct (map mt_name (mcp_catalog servers)) \<and>
   set (mcp_catalog servers) =
     {t \<in> set (concat (bt_values servers)).
        count_list (map mt_name (concat (bt_values servers))) (mt_name t) = 1}"
proof -
  have "distinct (map mt_name (mcp_catalog servers))"
    using retain_unique_distinct [of "concat (bt_values servers)"]
    by (simp add: mcp_catalog_def distinct_map)
  then show ?thesis by (auto simp: mcp_catalog_def retain_unique_def)
qed

end
