(* ===== verification/Config.thy ===== *)
theory Config
  imports Context Provider Tools Complex_Main
begin

text \<open>
  \<open>piqo-server/src/config.rs\<close>: the configuration, its defaults and its validation, agent
  definitions with their overrides, body layers and resolved providers, and the manager that
  holds the current snapshot.

  Hash maps are ordered maps here; where the code iterates over one, only which of several errors
  it reports depends on the order. TOML and YAML parsing, URL and header parsing and the process
  environment are arguments. File paths are Unix paths. The two ratios are \<open>f64\<close> values; \<open>None\<close>
  stands for a value that is not finite, which every comparison of the code rejects.
\<close>

section \<open>Data\<close>

definition MIB :: nat where "MIB = 1024 * 1024"

record resource_limits =
  rl_max_active_runs :: nat
  rl_max_pending_runs :: nat
  rl_max_pending_runs_per_session :: nat
  rl_max_subprocesses :: nat
  rl_max_http_body_bytes :: nat
  rl_max_provider_request_bytes :: nat
  rl_max_provider_response_bytes :: nat
  rl_max_event_payload_bytes :: nat
  rl_max_sse_connections :: nat
  rl_max_sse_connections_per_session :: nat
  rl_sse_channel_capacity :: nat
  rl_max_dump_bytes :: nat
  rl_max_dump_files :: nat

definition resource_limits_default :: resource_limits where
  "resource_limits_default =
     \<lparr>rl_max_active_runs = 8, rl_max_pending_runs = 256, rl_max_pending_runs_per_session = 32,
      rl_max_subprocesses = 16, rl_max_http_body_bytes = 4 * MIB,
      rl_max_provider_request_bytes = 4 * MIB, rl_max_provider_response_bytes = 32 * MIB,
      rl_max_event_payload_bytes = MIB, rl_max_sse_connections = 256,
      rl_max_sse_connections_per_session = 16, rl_sse_channel_capacity = 1024,
      rl_max_dump_bytes = 512 * MIB, rl_max_dump_files = 512\<rparr>"

record orchestration_config =
  oc_max_depth :: nat
  oc_max_concurrent_per_tree :: nat
  oc_max_concurrent_global :: nat
  oc_max_child_model_turns :: nat
  oc_max_child_duration_seconds :: nat
  oc_max_tree_duration_seconds :: nat
  oc_max_tree_tokens :: nat
  oc_max_context_bytes :: nat
  oc_max_context_message_ids :: nat
  oc_max_result_bytes :: nat

definition orchestration_default :: orchestration_config where
  "orchestration_default =
     \<lparr>oc_max_depth = 1, oc_max_concurrent_per_tree = 2, oc_max_concurrent_global = 4,
      oc_max_child_model_turns = 32, oc_max_child_duration_seconds = 600,
      oc_max_tree_duration_seconds = 1800, oc_max_tree_tokens = 262144,
      oc_max_context_bytes = 65536, oc_max_context_message_ids = 32, oc_max_result_bytes = 65536\<rparr>"

record compaction_config =
  cc_strategy :: compaction_strategy
  cc_summary_provider :: "string option"
  cc_summary_model :: "string option"
  cc_summary_body :: json
  cc_summary_max_output_tokens :: nat
  cc_max_retries :: nat

definition compaction_default :: compaction_config where
  "compaction_default =
     \<lparr>cc_strategy = Llm, cc_summary_provider = None, cc_summary_model = None,
      cc_summary_body = JNull, cc_summary_max_output_tokens = 2048, cc_max_retries = 1\<rparr>"

record context_config =
  xc_fallback_context_window_tokens :: nat
  xc_fallback_output_reserve_tokens :: nat
  xc_trigger_ratio :: "real option"
  xc_target_ratio :: "real option"
  xc_compaction :: compaction_config

text \<open>The doubles nearest to 0.8 and 0.6.\<close>

definition context_config_default :: context_config where
  "context_config_default =
     \<lparr>xc_fallback_context_window_tokens = 131072, xc_fallback_output_reserve_tokens = 32768,
      xc_trigger_ratio = Some (7205759403792794 / 9007199254740992),
      xc_target_ratio = Some (5404319552844595 / 9007199254740992),
      xc_compaction = compaction_default\<rparr>"

record model_context_config =
  xm_context_window_tokens :: "nat option"
  xm_output_reserve_tokens :: "nat option"

record provider_context_config =
  px_context_window_pointer :: "string option"
  px_output_limit_pointer :: "string option"
  px_models :: "(string, model_context_config) bt_map"

definition provider_context_default :: provider_context_config where
  "provider_context_default =
     \<lparr>px_context_window_pointer = None, px_output_limit_pointer = None, px_models = bt_empty\<rparr>"

record resolved_context_budget =
  rb_context_window_tokens :: nat
  rb_output_reserve_tokens :: nat

record native_tools_config =
  nc_max_read_bytes :: "nat option"
  nc_max_read_lines :: "nat option"
  nc_max_write_bytes :: "nat option"
  nc_max_result_bytes :: "nat option"
  nc_max_result_lines :: "nat option"
  nc_bash_timeout_seconds :: "nat option"
  nc_termination_grace_millis :: "nat option"
  nc_shell :: "string option"

record body_layer =
  bl_body :: json
  bl_max_model_turns :: nat

definition body_layer_default :: body_layer where
  "body_layer_default = \<lparr>bl_body = JNull, bl_max_model_turns = 32\<rparr>"

datatype permission_setting = PS_Allow | PS_Ask | PS_Deny

record agent_permissions =
  ag_read :: "permission_setting option"
  ag_write :: "permission_setting option"
  ag_bash :: "permission_setting option"
  ag_mcp :: "permission_setting option"
  ag_tools :: "(string, permission_setting) bt_map"

definition agent_permissions_default :: agent_permissions where
  "agent_permissions_default =
     \<lparr>ag_read = None, ag_write = None, ag_bash = None, ag_mcp = None, ag_tools = bt_empty\<rparr>"

record agent_config_override =
  ao_description :: "string option"
  ao_provider :: "string option"
  ao_model :: "string option"
  ao_instructions :: "string option"
  ao_permissions :: "agent_permissions option"
  ao_body :: json

record agent_definition =
  ad_id :: string
  ad_description :: "string option"
  ad_provider :: "string option"
  ad_model :: "string option"
  ad_instructions :: "string option"
  ad_permissions :: agent_permissions
  ad_markdown_body :: json
  ad_toml_body :: json

record agent_front_matter =
  fm_description :: "string option"
  fm_provider :: "string option"
  fm_model :: "string option"
  fm_permissions :: "agent_permissions option"
  fm_body :: json

record provider_config =
  pv_base_url :: string
  pv_protocol :: string
  pv_api_key :: "string option"
  pv_api_key_env :: "string option"
  pv_headers :: "(string, string) bt_map"
  pv_connect_timeout_seconds :: nat
  pv_models :: "string list option"
  pv_context :: provider_context_config

record resolved_provider =
  rv_name :: string
  rv_endpoint :: string
  rv_models_endpoint :: string
  rv_protocol :: provider_protocol
  rv_headers :: "(string, string) bt_map"
  rv_connect_timeout_seconds :: nat

datatype provider_credential_input = Cred_None | Cred_ApiKey string | Cred_Environment string

record create_provider_request =
  cr_name :: string
  cr_base_url :: string
  cr_protocol :: "string option"
  cr_credentials :: "provider_credential_input option"
  cr_headers :: "(string, string) bt_map option"
  cr_connect_timeout_seconds :: "nat option"

record piqo_config =
  pq_defaults :: body_layer
  pq_providers :: "(string, provider_config) bt_map"
  pq_models :: "(string, body_layer) bt_map"
  pq_agents :: "(string, agent_config_override) bt_map"
  pq_variants :: "(string, body_layer) bt_map"
  pq_native_tools :: native_tools_config
  pq_mcp_servers :: "(string, mcp_server_config) bt_map"
  pq_context :: context_config
  pq_orchestration :: orchestration_config
  pq_resource_limits :: resource_limits
  pq_backup_directory :: "string option"
  pq_markdown_agents :: "(string, agent_definition) bt_map"

datatype config_error =
    Cf_Parse string
  | InvalidAgentDefinition string string
  | AgentNotFound string
  | Cf_ProviderNotFound string
  | ProviderAlreadyExists string
  | ManualModelOverride string
  | ConflictingCredentials string
  | MissingCredential string string
  | InvalidProtocol string provider_transport_error
  | InvalidProvider string
  | InvalidNativeTools string
  | InvalidMcp string
  | InvalidOrchestration string
  | InvalidResourceLimits string
  | InvalidStorage string
  | ReadOnly
  | RevisionExhausted

text \<open>What the code asks of the environment: variables, URL schemes and header syntax.\<close>

record config_env =
  ce_var :: "string \<Rightarrow> string option"
  ce_url_scheme :: "string \<Rightarrow> (string, string) result"
  ce_header_name :: "string \<Rightarrow> (string, unit) result"
  ce_header_value :: "string \<Rightarrow> (string, unit) result"

section \<open>Helpers\<close>

definition valid_agent_id :: "string \<Rightarrow> bool" where
  "valid_agent_id s =
     (s \<noteq> [] \<and> list_all (\<lambda>c. is_ascii_alphanumeric c \<or> c = CHR ''_'' \<or> c = CHR ''-'') s)"

definition validate_provider_name :: "string \<Rightarrow> (config_error, unit) result" where
  "validate_provider_name name =
     (if name \<noteq> [] \<and> length name \<le> 128 \<and>
         list_all (\<lambda>c. is_ascii_alphanumeric c \<or> c = CHR ''.'' \<or> c = CHR ''_'' \<or> c = CHR ''-'') name
      then Inr ()
      else Inl (InvalidProvider ''provider name must be 1-128 URL-safe characters''))"

definition credential_values ::
  "provider_credential_input option \<Rightarrow> (config_error, string option \<times> string option) result" where
  "credential_values credential =
     (let bad = Inl (InvalidProvider ''credential value must not be empty'')
      in case unwrap_or Cred_None credential of
        Cred_None \<Rightarrow> Inr (None, None)
      | Cred_ApiKey value \<Rightarrow> if value \<noteq> [] then Inr (Some value, None) else bad
      | Cred_Environment variable \<Rightarrow>
          if trim variable \<noteq> [] then Inr (None, Some (trim variable)) else bad)"

fun normalize_models_loop :: "string list \<Rightarrow> string list \<Rightarrow> (config_error, string list) result" where
  "normalize_models_loop normalized [] = Inr normalized"
| "normalize_models_loop normalized (model # models) =
     (let model = trim model
      in if model = [] then Inl (InvalidProvider ''model names must not be empty'')
         else normalize_models_loop
           (if model \<in> set normalized then normalized else normalized @ [model]) models)"

definition normalize_models :: "string list \<Rightarrow> (config_error, string list) result" where
  "normalize_models models = normalize_models_loop [] models"

definition normalize_body :: "json \<Rightarrow> json" where
  "normalize_body value = (if is_object value then value else JObj [])"

fun protocol_suffix :: "provider_protocol \<Rightarrow> string" where
  "protocol_suffix ChatCompletions = ''/v1/chat/completions''"
| "protocol_suffix Responses = ''/v1/responses''"

text \<open>\<open>suffix.trim_start_matches("/v1")\<close>: neither suffix starts with \<open>/v1\<close> twice.\<close>

definition endpoint :: "string \<Rightarrow> provider_protocol \<Rightarrow> string" where
  "endpoint base_url protocol =
     (let base = trim_end_matches (\<lambda>c. c = CHR ''/'') base_url;
          suffix = protocol_suffix protocol
      in if ends_with suffix base then base
         else if ends_with ''/v1'' base
         then base @ unwrap_or suffix (strip_prefix ''/v1'' suffix)
         else base @ suffix)"

definition models_endpoint :: "string \<Rightarrow> string" where
  "models_endpoint base_url =
     (let base = trim_end_matches (\<lambda>c. c = CHR ''/'') base_url
      in case strip_suffix ''/v1/chat/completions'' base of
        Some origin \<Rightarrow> origin @ ''/v1/models''
      | None \<Rightarrow>
          (case strip_suffix ''/v1/responses'' base of
             Some origin \<Rightarrow> origin @ ''/v1/models''
           | None \<Rightarrow> if ends_with ''/v1'' base then base @ ''/models'' else base @ ''/v1/models''))"

fun front_matter_loop :: "string \<Rightarrow> string list \<Rightarrow> (string, string \<times> string) result" where
  "front_matter_loop before [] = Inl ''front matter must end with a --- delimiter''"
| "front_matter_loop before (line # rest) =
     (if trim_end_matches (\<lambda>c. c = CR \<or> c = LF) line = ''---'' then Inr (before, concat rest)
      else front_matter_loop (before @ line) rest)"

definition split_front_matter :: "string \<Rightarrow> (string, string \<times> string) result" where
  "split_front_matter text =
     (let bad = Inl ''front matter must start with a --- delimiter''
      in case split_once LF text of
        None \<Rightarrow> bad
      | Some (opening, remaining) \<Rightarrow>
          if trim_end_matches (\<lambda>c. c = CR) opening \<noteq> ''---'' then bad
          else front_matter_loop [] (split_inclusive_lf remaining))"

definition merge_permissions ::
  "agent_permissions \<Rightarrow> agent_permissions option \<Rightarrow> agent_permissions" where
  "merge_permissions target overrides =
     (case overrides of
        None \<Rightarrow> target
      | Some o' \<Rightarrow>
          \<lparr>ag_read = or_else (ag_read o') (ag_read target),
           ag_write = or_else (ag_write o') (ag_write target),
           ag_bash = or_else (ag_bash o') (ag_bash target),
           ag_mcp = or_else (ag_mcp o') (ag_mcp target),
           ag_tools = bt_extend (ag_tools target) (ag_tools o')\<rparr>)"

section \<open>Providers\<close>

fun all_ok :: "('a \<Rightarrow> ('e, unit) result) \<Rightarrow> 'a list \<Rightarrow> ('e, unit) result" where
  "all_ok f [] = Inr ()"
| "all_ok f (x # xs) = and_then (f x) (\<lambda>_. all_ok f xs)"

definition guard_err :: "bool \<Rightarrow> 'e \<Rightarrow> ('e, unit) result" where
  "guard_err bad e = (if bad then Inl e else Inr ())"

definition provider_validate ::
  "config_env \<Rightarrow> string \<Rightarrow> provider_config \<Rightarrow> (config_error, unit) result" where
  "provider_validate ce name p =
     and_then (guard_err (pv_api_key p \<noteq> None \<and> pv_api_key_env p \<noteq> None)
                (ConflictingCredentials name)) (\<lambda>_.
     and_then (map_err InvalidProvider (ce_url_scheme ce (pv_base_url p))) (\<lambda>scheme.
     and_then (guard_err (scheme \<noteq> ''http'' \<and> scheme \<noteq> ''https'')
                (InvalidProvider ''base_url must use http or https'')) (\<lambda>_.
     and_then (guard_err (pv_connect_timeout_seconds p = 0)
                (InvalidProvider ''connect_timeout_seconds must be greater than zero'')) (\<lambda>_.
     and_then (guard_err (i64_max < pv_connect_timeout_seconds p)
                (InvalidProvider ''connect_timeout_seconds is too large'')) (\<lambda>_.
     and_then (map_err (InvalidProtocol name) (protocol_from_str (pv_protocol p))) (\<lambda>_.
     and_then (all_ok (\<lambda>(n, v). and_then (map_err InvalidProvider (ce_header_name ce n))
                (\<lambda>_. map_err InvalidProvider (ce_header_value ce v))) (pv_headers p)) (\<lambda>_.
     and_then (case pv_models p of
                 None \<Rightarrow> Inr ()
               | Some models \<Rightarrow> and_then (normalize_models models) (\<lambda>_. Inr ())) (\<lambda>_.
     all_ok (\<lambda>ptr. guard_err (\<not> starts_with ''/'' ptr)
               (InvalidProvider (''context metadata pointer for '' @ name @ '' must start with /'')))
       (List.map_filter (\<lambda>x. x)
          [px_context_window_pointer (pv_context p), px_output_limit_pointer (pv_context p)])))))))))"

definition provider_from_create ::
  "config_env \<Rightarrow> create_provider_request \<Rightarrow> (config_error, provider_config) result" where
  "provider_from_create ce request =
     and_then (credential_values (cr_credentials request)) (\<lambda>(api_key, api_key_env).
       let config =
         \<lparr>pv_base_url = trim (cr_base_url request),
          pv_protocol = unwrap_or ''chat_completions'' (cr_protocol request),
          pv_api_key = api_key, pv_api_key_env = api_key_env,
          pv_headers = unwrap_or bt_empty (cr_headers request),
          pv_connect_timeout_seconds = unwrap_or 10 (cr_connect_timeout_seconds request),
          pv_models = None, pv_context = provider_context_default\<rparr>
       in and_then (provider_validate ce (cr_name request) config) (\<lambda>_. Inr config))"

definition provider_resolve ::
  "config_env \<Rightarrow> string \<Rightarrow> provider_config \<Rightarrow> (config_error, resolved_provider) result" where
  "provider_resolve ce name p =
     and_then (guard_err (pv_api_key p \<noteq> None \<and> pv_api_key_env p \<noteq> None)
                (ConflictingCredentials name)) (\<lambda>_.
     and_then (map_err (InvalidProtocol name) (protocol_from_str (pv_protocol p))) (\<lambda>protocol.
     and_then
       (case or_else (pv_api_key p) (Option.bind (pv_api_key_env p) (ce_var ce)) of
          Some key \<Rightarrow>
            Inr (if bt_contains_key (pv_headers p) ''authorization'' then pv_headers p
                 else bt_insert ''authorization'' (''Bearer '' @ key) (pv_headers p))
        | None \<Rightarrow>
            (case pv_api_key_env p of
               Some variable \<Rightarrow> Inl (MissingCredential name variable)
             | None \<Rightarrow> Inr (pv_headers p))) (\<lambda>headers.
     Inr \<lparr>rv_name = name, rv_endpoint = endpoint (pv_base_url p) protocol,
          rv_models_endpoint = models_endpoint (pv_base_url p), rv_protocol = protocol,
          rv_headers = headers,
          rv_connect_timeout_seconds = max (pv_connect_timeout_seconds p) 1\<rparr>)))"

section \<open>The configuration\<close>

definition native_limits :: "native_tools_config \<Rightarrow> native_tool_limits" where
  "native_limits c =
     (let d = limits_default
      in \<lparr>nl_max_read_bytes = unwrap_or (nl_max_read_bytes d) (nc_max_read_bytes c),
          nl_max_read_lines = unwrap_or (nl_max_read_lines d) (nc_max_read_lines c),
          nl_max_write_bytes = unwrap_or (nl_max_write_bytes d) (nc_max_write_bytes c),
          nl_max_result_bytes = unwrap_or (nl_max_result_bytes d) (nc_max_result_bytes c),
          nl_max_result_lines = unwrap_or (nl_max_result_lines d) (nc_max_result_lines c),
          nl_bash_timeout_millis =
            1000 * unwrap_or (nl_bash_timeout_millis d div 1000) (nc_bash_timeout_seconds c),
          nl_termination_grace_millis =
            unwrap_or (nl_termination_grace_millis d) (nc_termination_grace_millis c)\<rparr>)"

definition native_tools_validate :: "native_tools_config \<Rightarrow> (config_error, unit) result" where
  "native_tools_validate c =
     and_then (all_ok (\<lambda>(name, value). guard_err (value = Some 0)
                (InvalidNativeTools (name @ '' must be greater than zero'')))
       [(''max_read_bytes'', nc_max_read_bytes c), (''max_read_lines'', nc_max_read_lines c),
        (''max_write_bytes'', nc_max_write_bytes c), (''max_result_bytes'', nc_max_result_bytes c),
        (''max_result_lines'', nc_max_result_lines c)]) (\<lambda>_.
     and_then (guard_err (nc_bash_timeout_seconds c = Some 0 \<or> nc_termination_grace_millis c = Some 0)
                (InvalidNativeTools ''shell durations must be greater than zero'')) (\<lambda>_.
     guard_err (case nc_shell c of None \<Rightarrow> False | Some path \<Rightarrow> \<not> is_absolute path)
       (InvalidNativeTools ''shell must be an absolute path'')))"

definition limits_validate :: "resource_limits \<Rightarrow> (config_error, unit) result" where
  "limits_validate l =
     and_then (guard_err
       (0 \<in> set [rl_max_active_runs l, rl_max_pending_runs l, rl_max_pending_runs_per_session l,
          rl_max_subprocesses l, rl_max_http_body_bytes l, rl_max_provider_request_bytes l,
          rl_max_provider_response_bytes l, rl_max_event_payload_bytes l,
          rl_max_sse_connections l, rl_max_sse_connections_per_session l,
          rl_sse_channel_capacity l, rl_max_dump_bytes l, rl_max_dump_files l])
       (InvalidResourceLimits ''all resource limits must be greater than zero'')) (\<lambda>_.
     and_then (guard_err (rl_max_pending_runs l < rl_max_pending_runs_per_session l)
       (InvalidResourceLimits
          ''max_pending_runs_per_session cannot exceed max_pending_runs'')) (\<lambda>_.
     guard_err (rl_max_sse_connections l < rl_max_sse_connections_per_session l)
       (InvalidResourceLimits
          ''max_sse_connections_per_session cannot exceed max_sse_connections'')))"

definition f64_less :: "real option \<Rightarrow> real option \<Rightarrow> bool" where
  "f64_less a b = (case (a, b) of (Some x, Some y) \<Rightarrow> x < y | _ \<Rightarrow> False)"

definition context_invalid :: "context_config \<Rightarrow> bool" where
  "context_invalid c \<longleftrightarrow>
     xc_fallback_context_window_tokens c = 0 \<or> xc_fallback_output_reserve_tokens c = 0 \<or>
     xc_fallback_context_window_tokens c \<le> xc_fallback_output_reserve_tokens c \<or>
     \<not> (f64_less (Some 0) (xc_target_ratio c) \<and> f64_less (xc_target_ratio c) (xc_trigger_ratio c) \<and>
        f64_less (xc_trigger_ratio c) (Some 1)) \<or>
     cc_summary_max_output_tokens (xc_compaction c) = 0"

definition orchestration_invalid :: "orchestration_config \<Rightarrow> bool" where
  "orchestration_invalid c \<longleftrightarrow>
     oc_max_depth c = 0 \<or> oc_max_concurrent_per_tree c = 0 \<or> oc_max_concurrent_global c = 0 \<or>
     oc_max_child_model_turns c = 0 \<or> oc_max_child_duration_seconds c = 0 \<or>
     oc_max_tree_duration_seconds c = 0 \<or> oc_max_tree_tokens c = 0 \<or> oc_max_context_bytes c = 0 \<or>
     oc_max_context_message_ids c = 0 \<or> oc_max_result_bytes c = 0"

definition config_validate :: "config_env \<Rightarrow> piqo_config \<Rightarrow> (config_error, unit) result" where
  "config_validate ce c =
     and_then (all_ok (\<lambda>(name, p). and_then (validate_provider_name name)
                (\<lambda>_. provider_validate ce name p)) (pq_providers c)) (\<lambda>_.
     and_then (native_tools_validate (pq_native_tools c)) (\<lambda>_.
     and_then (limits_validate (pq_resource_limits c)) (\<lambda>_.
     and_then (guard_err
                (case pq_backup_directory c of None \<Rightarrow> False | Some path \<Rightarrow> \<not> is_absolute path)
                (InvalidStorage ''backup_directory must be an absolute path'')) (\<lambda>_.
     and_then (guard_err (orchestration_invalid (pq_orchestration c))
                (InvalidOrchestration ''all limits must be greater than zero'')) (\<lambda>_.
     and_then (guard_err (context_invalid (pq_context c))
                (InvalidProvider ''invalid context configuration'')) (\<lambda>_.
     all_ok (\<lambda>(sid, server).
         and_then (guard_err (\<not> valid_agent_id sid)
           (InvalidMcp (''server id '' @ sid @
              '' must use letters, digits, underscores, or hyphens''))) (\<lambda>_.
         map_err (\<lambda>_. InvalidMcp (sid @ '': invalid MCP configuration'')) (mcp_validate server)))
       (pq_mcp_servers c)))))))"

definition budget_value ::
  "string option \<Rightarrow> json option \<Rightarrow> nat option \<Rightarrow> nat \<Rightarrow> nat" where
  "budget_value ptr metadata configured fallback =
     (let discovered =
        (case (ptr, metadata) of
           (Some p, Some value) \<Rightarrow> Option.bind (pointer value p) as_u64
         | _ \<Rightarrow> None)
      in unwrap_or fallback
        (or_else (case discovered of Some n \<Rightarrow> if 0 < n then Some n else None | None \<Rightarrow> None)
           configured))"

definition context_budget ::
  "piqo_config \<Rightarrow> string \<Rightarrow> string \<Rightarrow> json option \<Rightarrow> (config_error, resolved_context_budget) result" where
  "context_budget c provider_name model metadata =
     and_then (ok_or (Cf_ProviderNotFound provider_name) (bt_get (pq_providers c) provider_name))
       (\<lambda>provider.
         let px = pv_context provider;
             configured = bt_get (px_models px) model;
             window = budget_value (px_context_window_pointer px) metadata
               (Option.bind configured xm_context_window_tokens)
               (xc_fallback_context_window_tokens (pq_context c));
             reserve = budget_value (px_output_limit_pointer px) metadata
               (Option.bind configured xm_output_reserve_tokens)
               (xc_fallback_output_reserve_tokens (pq_context c))
         in if window \<le> reserve
            then Inl (InvalidProvider (''context output reserve exceeds context window for '' @
                   provider_name @ ''/'' @ model))
            else Inr \<lparr>rb_context_window_tokens = window, rb_output_reserve_tokens = reserve\<rparr>)"

text \<open>A directory entry of \<open>agents/\<close>; reading it cannot fail here.\<close>

record agent_file =
  af_path :: string
  af_extension :: "string option"
  af_is_file :: bool
  af_stem :: "string option"
  af_text :: string

definition agent_from_file ::
  "(string \<Rightarrow> (string, agent_front_matter) result) \<Rightarrow> agent_file
   \<Rightarrow> (config_error, agent_definition) result" where
  "agent_from_file yaml f =
     (let invalid = InvalidAgentDefinition (af_path f)
      in and_then (ok_or (invalid ''file name must be valid UTF-8'') (af_stem f)) (\<lambda>stem.
         and_then (guard_err (\<not> valid_agent_id stem)
           (invalid ''file name must use letters, digits, underscores, or hyphens'')) (\<lambda>_.
         and_then (map_err invalid (split_front_matter (af_text f))) (\<lambda>(front, instructions).
         and_then (map_err invalid (yaml front)) (\<lambda>fm.
         Inr \<lparr>ad_id = stem, ad_description = fm_description fm, ad_provider = fm_provider fm,
              ad_model = fm_model fm,
              ad_instructions = (if trim instructions \<noteq> [] then Some instructions else None),
              ad_permissions = unwrap_or agent_permissions_default (fm_permissions fm),
              ad_markdown_body = fm_body fm, ad_toml_body = JNull\<rparr>)))))"

fun load_markdown_agents ::
  "(string \<Rightarrow> (string, agent_front_matter) result) \<Rightarrow> (string, agent_definition) bt_map
   \<Rightarrow> agent_file list \<Rightarrow> (config_error, (string, agent_definition) bt_map) result" where
  "load_markdown_agents yaml agents [] = Inr agents"
| "load_markdown_agents yaml agents (f # fs) =
     (if af_extension f \<noteq> Some ''md'' \<or> \<not> af_is_file f then load_markdown_agents yaml agents fs
      else and_then (agent_from_file yaml f) (\<lambda>a.
        if bt_contains_key agents (ad_id a)
        then Inl (InvalidAgentDefinition (af_path f) (''duplicate agent '' @ ad_id a))
        else load_markdown_agents yaml (bt_insert (ad_id a) a agents) fs))"

text \<open>\<open>PiqoConfig::load\<close> on the parsed file (or the default) and the listed agent files.\<close>

definition config_load ::
  "config_env \<Rightarrow> (string \<Rightarrow> (string, agent_front_matter) result) \<Rightarrow> piqo_config \<Rightarrow> agent_file list
   \<Rightarrow> (config_error, piqo_config) result" where
  "config_load ce yaml parsed files =
     and_then (load_markdown_agents yaml (pq_markdown_agents parsed) files) (\<lambda>agents.
       let c = parsed\<lparr>pq_markdown_agents := agents\<rparr>
       in and_then (config_validate ce c) (\<lambda>_. Inr c))"

definition agent_default :: "string \<Rightarrow> agent_definition" where
  "agent_default name =
     \<lparr>ad_id = name, ad_description = None, ad_provider = None, ad_model = None,
      ad_instructions = None, ad_permissions = agent_permissions_default,
      ad_markdown_body = JNull, ad_toml_body = JNull\<rparr>"

definition config_agent :: "piqo_config \<Rightarrow> string \<Rightarrow> (config_error, agent_definition) result" where
  "config_agent c name =
     (let agent = unwrap_or (agent_default name) (bt_get (pq_markdown_agents c) name)
      in case bt_get (pq_agents c) name of
        Some o' \<Rightarrow>
          Inr (agent\<lparr>ad_description := or_else (ao_description o') (ad_description agent),
                     ad_provider := or_else (ao_provider o') (ad_provider agent),
                     ad_model := or_else (ao_model o') (ad_model agent),
                     ad_instructions := or_else (ao_instructions o') (ad_instructions agent),
                     ad_permissions := merge_permissions (ad_permissions agent) (ao_permissions o'),
                     ad_toml_body := ao_body o'\<rparr>)
      | None \<Rightarrow>
          if \<not> bt_contains_key (pq_markdown_agents c) name then Inl (AgentNotFound name)
          else Inr agent)"

definition config_agents :: "piqo_config \<Rightarrow> agent_definition list" where
  "config_agents c =
     List.map_filter (\<lambda>name. case config_agent c name of Inr a \<Rightarrow> Some a | Inl _ \<Rightarrow> None)
       (remdups_adj (sort (bt_keys (pq_markdown_agents c) @ bt_keys (pq_agents c))))"

definition resolve_provider ::
  "config_env \<Rightarrow> piqo_config \<Rightarrow> string \<Rightarrow> (config_error, resolved_provider) result" where
  "resolve_provider ce c name =
     and_then (ok_or (Cf_ProviderNotFound name) (bt_get (pq_providers c) name))
       (provider_resolve ce name)"

definition body_layers ::
  "piqo_config \<Rightarrow> string \<Rightarrow> string option \<Rightarrow> string option \<Rightarrow> json \<Rightarrow> json list" where
  "body_layers c model agent variant request =
     [normalize_body (bl_body (pq_defaults c))] @
     (case bt_get (pq_models c) model of
        Some layer \<Rightarrow> [normalize_body (bl_body layer)] | None \<Rightarrow> []) @
     (case agent of
        None \<Rightarrow> []
      | Some name \<Rightarrow>
          (case config_agent c name of
             Inl _ \<Rightarrow> []
           | Inr a \<Rightarrow>
               (if bt_contains_key (pq_markdown_agents c) name
                then [normalize_body (ad_markdown_body a)] else []) @
               (if bt_contains_key (pq_agents c) name
                then [normalize_body (ad_toml_body a)] else []))) @
     (case variant of
        None \<Rightarrow> []
      | Some name \<Rightarrow>
          (case bt_get (pq_variants c) name of
             Some layer \<Rightarrow> [normalize_body (bl_body layer)] | None \<Rightarrow> [])) @
     [normalize_body request]"

section \<open>The manager\<close>

datatype model_source = Ms_Manual | Ms_Discovery

datatype discovery_status = Ds_Pending | Ds_Succeeded | Ds_Failed | Ds_NotApplicable

record model_discovery =
  md_status :: discovery_status
  md_last_attempt_at :: "string option"
  md_error :: "string option"

record discovery_cache =
  dc_models :: "string list"
  dc_metadata :: "(string, json) bt_map"
  dc_discovery :: model_discovery

datatype provider_credential_summary = Sum_None | Sum_ApiKey | Sum_Environment string

record provider_catalog_entry =
  pe_name :: string
  pe_base_url :: string
  pe_protocol :: string
  pe_connect_timeout_seconds :: nat
  pe_credentials :: provider_credential_summary
  pe_header_names :: "string list"
  pe_streaming :: bool
  pe_non_streaming :: bool
  pe_models :: "string list"
  pe_model_source :: model_source
  pe_discovery :: model_discovery

record provider_models_response =
  pm_provider :: string
  pm_models :: "string list"
  pm_source :: model_source
  pm_discovery :: model_discovery

text \<open>
  The manager's state: the document at its path, if it has one, the current snapshot with its
  revision, and the discovery cache. The document type stays open: \<open>toml_edit\<close> is an argument.
\<close>

record 'd config_manager =
  cm_file :: "'d option"
  cm_revision :: nat
  cm_loaded_at :: string
  cm_config :: piqo_config
  cm_discovery :: "(string, discovery_cache) bt_map"

definition manager_new :: "'d option \<Rightarrow> string \<Rightarrow> piqo_config \<Rightarrow> 'd config_manager" where
  "manager_new file time c =
     \<lparr>cm_file = file, cm_revision = 1, cm_loaded_at = time, cm_config = c, cm_discovery = bt_empty\<rparr>"

text \<open>\<open>reload\<close>, given what \<open>PiqoConfig::load\<close> returns for the path.\<close>

definition manager_reload ::
  "('d \<Rightarrow> (config_error, piqo_config) result) \<Rightarrow> string \<Rightarrow> 'd config_manager
   \<Rightarrow> (config_error, 'd config_manager) result" where
  "manager_reload load time m =
     and_then (ok_or ReadOnly (cm_file m)) (\<lambda>doc.
     and_then (load doc) (\<lambda>c.
     and_then (ok_or RevisionExhausted (u64_checked_add (cm_revision m) 1)) (\<lambda>revision.
     Inr (m\<lparr>cm_revision := revision, cm_loaded_at := time, cm_config := c,
            cm_discovery := bt_empty\<rparr>))))"

text \<open>
  \<open>mutate\<close> edits the document, parses and validates the outcome, writes it and installs it. The
  file is written before the revision is raised, so it is part of the outcome even on failure.
\<close>

definition manager_mutate ::
  "config_env \<Rightarrow> ('d \<Rightarrow> (string, piqo_config) result) \<Rightarrow> string
   \<Rightarrow> ('d \<Rightarrow> (config_error, 'd) result) \<Rightarrow> 'd config_manager
   \<Rightarrow> (config_error, unit) result \<times> 'd config_manager" where
  "manager_mutate ce parse time operation m =
     (case cm_file m of
        None \<Rightarrow> (Inl ReadOnly, m)
      | Some doc \<Rightarrow>
          (case and_then (operation doc) (\<lambda>doc'.
                and_then (map_err Cf_Parse (parse doc')) (\<lambda>c.
                and_then (config_validate ce c) (\<lambda>_. Inr (doc', c)))) of
             Inl e \<Rightarrow> (Inl e, m)
           | Inr (doc', c) \<Rightarrow>
               (let m1 = m\<lparr>cm_file := Some doc'\<rparr>
                in case u64_checked_add (cm_revision m) 1 of
                  None \<Rightarrow> (Inl RevisionExhausted, m1)
                | Some revision \<Rightarrow>
                    (Inr (), m1\<lparr>cm_revision := revision, cm_loaded_at := time, cm_config := c\<rparr>))))"

definition set_discovery :: "string \<Rightarrow> discovery_cache \<Rightarrow> 'd config_manager \<Rightarrow> 'd config_manager" where
  "set_discovery name cache m = m\<lparr>cm_discovery := bt_insert name cache (cm_discovery m)\<rparr>"

definition clear_discovery :: "string \<Rightarrow> 'd config_manager \<Rightarrow> 'd config_manager" where
  "clear_discovery name m = m\<lparr>cm_discovery := bt_remove name (cm_discovery m)\<rparr>"

definition manager_context_budget ::
  "'d config_manager \<Rightarrow> string \<Rightarrow> string \<Rightarrow> (config_error, resolved_context_budget) result" where
  "manager_context_budget m provider model =
     context_budget (cm_config m) provider model
       (Option.bind (bt_get (cm_discovery m) provider) (\<lambda>cache. bt_get (dc_metadata cache) model))"

definition view_for :: "'d config_manager \<Rightarrow> string \<Rightarrow> provider_config \<Rightarrow> provider_catalog_entry" where
  "view_for m name p =
     (let credentials =
            (if pv_api_key p \<noteq> None then Sum_ApiKey
             else case pv_api_key_env p of
               Some variable \<Rightarrow> Sum_Environment variable | None \<Rightarrow> Sum_None);
          (models, source, discovery) =
            (case pv_models p of
               Some models \<Rightarrow>
                 (models, Ms_Manual,
                  \<lparr>md_status = Ds_NotApplicable, md_last_attempt_at = None, md_error = None\<rparr>)
             | None \<Rightarrow>
                 (case bt_get (cm_discovery m) name of
                    Some cache \<Rightarrow> (dc_models cache, Ms_Discovery, dc_discovery cache)
                  | None \<Rightarrow>
                      ([], Ms_Discovery,
                       \<lparr>md_status = Ds_Pending, md_last_attempt_at = None, md_error = None\<rparr>)))
      in \<lparr>pe_name = name, pe_base_url = pv_base_url p, pe_protocol = pv_protocol p,
          pe_connect_timeout_seconds = pv_connect_timeout_seconds p,
          pe_credentials = credentials, pe_header_names = sort (bt_keys (pv_headers p)),
          pe_streaming = True, pe_non_streaming = True, pe_models = models,
          pe_model_source = source, pe_discovery = discovery\<rparr>)"

definition manager_catalog :: "'d config_manager \<Rightarrow> provider_catalog_entry list" where
  "manager_catalog m =
     sort_key pe_name (map (\<lambda>(name, p). view_for m name p) (pq_providers (cm_config m)))"

definition manager_provider ::
  "'d config_manager \<Rightarrow> string \<Rightarrow> (config_error, provider_catalog_entry) result" where
  "manager_provider m name =
     and_then (ok_or (Cf_ProviderNotFound name) (bt_get (pq_providers (cm_config m)) name))
       (\<lambda>p. Inr (view_for m name p))"

definition manager_models ::
  "'d config_manager \<Rightarrow> string \<Rightarrow> (config_error, provider_models_response) result" where
  "manager_models m name =
     and_then (manager_provider m name) (\<lambda>p.
       Inr \<lparr>pm_provider = pe_name p, pm_models = pe_models p, pm_source = pe_model_source p,
            pm_discovery = pe_discovery p\<rparr>)"

text \<open>
  \<open>discover_provider\<close> in its two steps, before and after the request to the provider: the
  configuration may change in between, and then the outcome is dropped. \<open>show_error\<close> renders an
  error.
\<close>

definition discover_begin ::
  "string \<Rightarrow> string \<Rightarrow> 'd config_manager
   \<Rightarrow> (config_error, provider_config \<times> 'd config_manager) result" where
  "discover_begin time name m =
     and_then (ok_or (Cf_ProviderNotFound name) (bt_get (pq_providers (cm_config m)) name))
       (\<lambda>original. if pv_models original \<noteq> None then Inl (ManualModelOverride name)
          else Inr (original, set_discovery name
            \<lparr>dc_models = [], dc_metadata = bt_empty,
             dc_discovery = \<lparr>md_status = Ds_Pending, md_last_attempt_at = Some time,
                             md_error = None\<rparr>\<rparr> m))"

definition discover_request ::
  "config_env \<Rightarrow> (config_error \<Rightarrow> string) \<Rightarrow> (resolved_provider \<Rightarrow> (string, discovered_model list) result)
   \<Rightarrow> string \<Rightarrow> provider_config \<Rightarrow> (string, discovered_model list) result" where
  "discover_request ce show_error fetch name original =
     and_then (map_err show_error (provider_resolve ce name original)) fetch"

definition discover_end ::
  "string \<Rightarrow> string \<Rightarrow> provider_config \<Rightarrow> (string, discovered_model list) result
   \<Rightarrow> 'd config_manager \<Rightarrow> (config_error, provider_catalog_entry) result \<times> 'd config_manager" where
  "discover_end time name original outcome m =
     (case bt_get (pq_providers (cm_config m)) name of
        None \<Rightarrow> (Inl (Cf_ProviderNotFound name), m)
      | Some current \<Rightarrow>
          if current \<noteq> original then (manager_provider m name, m)
          else
            (let cache =
               (case outcome of
                  Inr models \<Rightarrow>
                    \<lparr>dc_models = map dm_id models,
                     dc_metadata = bt_extend bt_empty (map (\<lambda>d. (dm_id d, dm_metadata d)) models),
                     dc_discovery = \<lparr>md_status = Ds_Succeeded, md_last_attempt_at = Some time,
                                     md_error = None\<rparr>\<rparr>
                | Inl e \<Rightarrow>
                    \<lparr>dc_models = [], dc_metadata = bt_empty,
                     dc_discovery = \<lparr>md_status = Ds_Failed, md_last_attempt_at = Some time,
                                     md_error = Some e\<rparr>\<rparr>);
                 m' = set_discovery name cache m
             in (manager_provider m' name, m')))"

end
