(* ===== verification/Config_Guarantees.thy ===== *)
theory Config_Guarantees
  imports Config
begin

text \<open>
  What the configuration guarantees: a validated configuration resolves its providers unless a
  credential variable is missing, a request body is layered in a fixed order of precedence, and
  what a mutation through the manager does to agents defined in Markdown files.
\<close>

section \<open>Validation\<close>

lemma guard_err_simps [simp]:
  "guard_err b e = Inr u \<longleftrightarrow> \<not> b" "guard_err b e = Inl e' \<longleftrightarrow> b \<and> e' = e"
  by (auto simp: guard_err_def)

lemma all_ok_Inr: "all_ok f xs = Inr () \<longleftrightarrow> (\<forall>x \<in> set xs. f x = Inr ())"
  by (induction xs) (auto simp: and_then_eq_Inr)

lemmas validate_simps = and_then_eq_Inr map_err_eq_Inr all_ok_Inr

lemma config_validate_provider:
  assumes "config_validate ce c = Inr ()" and "bt_get (pq_providers c) name = Some p"
  shows "validate_provider_name name = Inr ()" and "provider_validate ce name p = Inr ()"
  using assms bt_get_Some_in [OF assms(2)] by (auto simp: config_validate_def validate_simps)

lemma limits_validate_ok:
  assumes "limits_validate l = Inr ()"
  shows "0 < rl_max_active_runs l" and "0 < rl_max_pending_runs_per_session l"
    and "rl_max_pending_runs_per_session l \<le> rl_max_pending_runs l"
    and "0 < rl_sse_channel_capacity l"
    and "rl_max_sse_connections_per_session l \<le> rl_max_sse_connections l"
  using assms by (auto simp: limits_validate_def validate_simps)

lemma budget_reserve_less:
  "context_budget c provider model metadata = Inr b \<Longrightarrow>
   rb_output_reserve_tokens b < rb_context_window_tokens b"
  by (auto simp: context_budget_def and_then_eq_Inr Let_def split: if_splits)

section \<open>Layers\<close>

lemma last_layer_append: "last_layer (xs @ ys) k = or_else (last_layer ys k) (last_layer xs k)"
  by (induction xs) (simp_all add: or_else_def split: option.splits)

lemma jget_normalize [simp]: "jget (normalize_body v) k = jget v k"
  by (cases v) (simp_all add: normalize_body_def jget_def is_object_def as_object_def)

text \<open>Objects are ordered maps, as every value built by \<open>serde_json\<close> is.\<close>

definition body_ok :: "json \<Rightarrow> bool" where
  "body_ok v = (case as_object v of None \<Rightarrow> True | Some m \<Rightarrow> bt_sorted m)"

definition bodies_ok :: "piqo_config \<Rightarrow> bool" where
  "bodies_ok c \<longleftrightarrow> body_ok (bl_body (pq_defaults c)) \<and>
     (\<forall>l \<in> set (bt_values (pq_models c)). body_ok (bl_body l)) \<and>
     (\<forall>l \<in> set (bt_values (pq_variants c)). body_ok (bl_body l)) \<and>
     (\<forall>a \<in> set (bt_values (pq_agents c)). body_ok (ao_body a)) \<and>
     (\<forall>a \<in> set (bt_values (pq_markdown_agents c)). body_ok (ad_markdown_body a))"

lemma bt_get_values: "bt_get m k = Some v \<Longrightarrow> v \<in> set (bt_values m)"
  using bt_get_Some_in [of m k v] by (force simp: bt_values_def)

lemma layers_ok_append [simp]: "layers_ok (xs @ ys) \<longleftrightarrow> layers_ok xs \<and> layers_ok ys"
  by (simp add: layers_ok_def)

lemma layers_ok_Cons [simp]: "layers_ok (normalize_body v # ls) \<longleftrightarrow> body_ok v \<and> layers_ok ls"
  by (auto simp: layers_ok_def body_ok_def normalize_body_def is_object_def as_object_def
      bt_sorted_def split: json.splits)

lemma layers_ok_Nil [simp]: "layers_ok []"
  by (simp add: layers_ok_def)

text \<open>The bodies of an agent: the Markdown one and the override, each if it is there.\<close>

definition agent_layers :: "piqo_config \<Rightarrow> string option \<Rightarrow> json list" where
  "agent_layers c agent =
     (case Option.bind agent (bt_get (pq_markdown_agents c)) of
        Some a \<Rightarrow> [normalize_body (ad_markdown_body a)] | None \<Rightarrow> []) @
     (case Option.bind agent (bt_get (pq_agents c)) of
        Some o' \<Rightarrow> [normalize_body (ao_body o')] | None \<Rightarrow> [])"

lemma agent_layers_eq:
  "(case agent of
      None \<Rightarrow> []
    | Some name \<Rightarrow>
        (case config_agent c name of
           Inl _ \<Rightarrow> []
         | Inr a \<Rightarrow>
             (if bt_contains_key (pq_markdown_agents c) name
              then [normalize_body (ad_markdown_body a)] else []) @
             (if bt_contains_key (pq_agents c) name
              then [normalize_body (ad_toml_body a)] else []))) = agent_layers c agent"
  by (auto simp: agent_layers_def config_agent_def bt_contains_key_def unwrap_or_def Let_def
      split: option.splits)

definition layer_of :: "('a \<Rightarrow> json) \<Rightarrow> string option \<Rightarrow> (string, 'a) bt_map \<Rightarrow> string \<Rightarrow> json option" where
  "layer_of body name m k = Option.bind (Option.bind name (bt_get m)) (\<lambda>x. jget (body x) k)"

lemma last_layer_body_layers:
  "last_layer (body_layers c model agent variant request) k =
     or_else (jget request k)
     (or_else (layer_of bl_body variant (pq_variants c) k)
     (or_else (layer_of ao_body agent (pq_agents c) k)
     (or_else (layer_of ad_markdown_body agent (pq_markdown_agents c) k)
     (or_else (layer_of bl_body (Some model) (pq_models c) k)
       (jget (bl_body (pq_defaults c)) k)))))"
  unfolding body_layers_def agent_layers_eq
  by (cases agent; cases variant)
    (simp_all add: last_layer_append layer_of_def agent_layers_def or_else_def
      split: option.splits)

lemma body_layers_ok:
  assumes "bodies_ok c" and "body_ok request"
  shows "layers_ok (body_layers c model agent variant request)"
proof -
  have "layers_ok (agent_layers c agent)"
    using assms(1)
    by (auto simp: agent_layers_def bodies_ok_def bind_eq_Some_conv dest: bt_get_values
        split: option.splits)
  then show ?thesis
    unfolding body_layers_def agent_layers_eq using assms
    by (auto simp: bodies_ok_def dest: bt_get_values split: option.splits)
qed

section \<open>Properties\<close>

text \<open>In a configuration that passed validation every configured provider resolves, to an
  endpoint for its protocol and with a positive timeout, unless it takes its key from an
  environment variable that is not set: that is the only error left. The limits it carries are
  positive and a session's share of pending runs does not exceed the total.\<close>

theorem validated_provider_resolves:
  assumes "config_validate ce c = Inr ()" and "bt_get (pq_providers c) name = Some p"
  shows "((\<exists>r protocol. resolve_provider ce c name = Inr r \<and>
            protocol_from_str (pv_protocol p) = Inr protocol \<and>
            rv_endpoint r = endpoint (pv_base_url p) protocol \<and>
            0 < rv_connect_timeout_seconds r) \<or>
          (\<exists>variable. resolve_provider ce c name = Inl (MissingCredential name variable) \<and>
            pv_api_key_env p = Some variable \<and> ce_var ce variable = None)) \<and>
         0 < rl_max_active_runs (pq_resource_limits c) \<and>
         0 < rl_max_pending_runs_per_session (pq_resource_limits c) \<and>
         rl_max_pending_runs_per_session (pq_resource_limits c)
           \<le> rl_max_pending_runs (pq_resource_limits c)"
proof -
  from config_validate_provider [OF assms] obtain protocol where
    pr: "protocol_from_str (pv_protocol p) = Inr protocol"
    and cr: "pv_api_key p = None \<or> pv_api_key_env p = None"
    by (auto simp: provider_validate_def validate_simps)
  from assms(1) have "limits_validate (pq_resource_limits c) = Inr ()"
    by (simp add: config_validate_def validate_simps)
  then show ?thesis
    using assms(2) pr cr
    by (cases "pv_api_key p"; cases "pv_api_key_env p")
      (auto simp: resolve_provider_def provider_resolve_def guard_err_def and_then_def ok_or_def
        or_else_def map_err_def limits_validate_ok split: option.splits)
qed

text \<open>A small configuration: one provider with a key from the environment, one Markdown agent.\<close>

definition example_env :: config_env where
  "example_env =
     \<lparr>ce_var = (\<lambda>_. None), ce_url_scheme = (\<lambda>_. Inr ''https''), ce_header_name = (\<lambda>_. Inr ()),
      ce_header_value = (\<lambda>_. Inr ())\<rparr>"

definition example_config :: piqo_config where
  "example_config =
     \<lparr>pq_defaults = body_layer_default,
      pq_providers = [(''p'',
        \<lparr>pv_base_url = ''https://h/v1'', pv_protocol = ''responses'', pv_api_key = None,
         pv_api_key_env = Some ''KEY'', pv_headers = [], pv_connect_timeout_seconds = 10,
         pv_models = None, pv_context = provider_context_default\<rparr>)],
      pq_models = [], pq_agents = [], pq_variants = [],
      pq_native_tools =
        \<lparr>nc_max_read_bytes = None, nc_max_read_lines = None, nc_max_write_bytes = None,
         nc_max_result_bytes = None, nc_max_result_lines = None, nc_bash_timeout_seconds = None,
         nc_termination_grace_millis = None, nc_shell = None\<rparr>,
      pq_mcp_servers = [], pq_context = context_config_default,
      pq_orchestration = orchestration_default, pq_resource_limits = resource_limits_default,
      pq_backup_directory = None,
      pq_markdown_agents = [(''m'', agent_default ''m'')]\<rparr>"

lemmas config_eval = example_env_def example_config_def config_validate_def validate_simps
  validate_provider_name_def provider_validate_def native_tools_validate_def limits_validate_def
  context_invalid_def orchestration_invalid_def f64_less_def context_config_default_def
  compaction_default_def orchestration_default_def resource_limits_default_def MIB_def
  provider_context_default_def i64_max_def protocol_from_str_def is_ascii_alphanumeric_def
  byte_def map_filter_simps

lemma example_config_valid: "config_validate example_env example_config = Inr ()"
  by (simp add: config_eval)

theorem validated_provider_resolves_witness:
  "resolve_provider example_env example_config ''p'' = Inl (MissingCredential ''p'' ''KEY'') \<and>
   0 < rl_max_active_runs (pq_resource_limits example_config)"
proof -
  obtain p where p: "bt_get (pq_providers example_config) ''p'' = Some p"
    "pv_api_key_env p = Some ''KEY''" "pv_api_key p = None" "pv_protocol p = ''responses''"
    by (simp add: example_config_def)
  have "\<nexists>r. resolve_provider example_env example_config ''p'' = Inr r"
    using p by (simp add: resolve_provider_def provider_resolve_def and_then_eq_Inr ok_or_def
        or_else_def example_env_def)
  with validated_provider_resolves [OF example_config_valid p(1)] p(2) show ?thesis by auto
qed

text \<open>A request body is the union of its layers, and for each key the value comes from the
  first of these that has it: the request, the variant, the agent's override, the agent's Markdown
  file, the model, the defaults. Merging the layers never fails.\<close>

theorem body_layers_precedence:
  assumes "bodies_ok c" and "body_ok request"
  shows "\<exists>m. merge_request_bodies (body_layers c model agent variant request) = Inr (JObj m) \<and>
     (\<forall>k. bt_get m k =
        or_else (jget request k)
        (or_else (layer_of bl_body variant (pq_variants c) k)
        (or_else (layer_of ao_body agent (pq_agents c) k)
        (or_else (layer_of ad_markdown_body agent (pq_markdown_agents c) k)
        (or_else (layer_of bl_body (Some model) (pq_models c) k)
          (jget (bl_body (pq_defaults c)) k))))))"
proof -
  have "bt_sorted bt_empty" by (simp add: bt_sorted_def bt_empty_def)
  from merge_layers_get [OF body_layers_ok [OF assms] this, of 0] show ?thesis
    by (fastforce simp: merge_request_bodies_def last_layer_body_layers or_else_def bt_empty_def
        split: option.splits)
qed

theorem body_layers_precedence_witness:
  "\<exists>m. merge_request_bodies (body_layers example_config ''x'' (Some ''m'') None
          (JObj [(''k'', JBool True)])) = Inr (JObj m) \<and> bt_get m ''k'' = Some (JBool True)"
proof -
  have "bodies_ok example_config"
    by (simp add: bodies_ok_def example_config_def body_layer_default_def body_ok_def as_object_def
        bt_values_def agent_default_def)
  moreover have "body_ok (JObj [(''k'', JBool True)])"
    by (simp add: body_ok_def as_object_def bt_sorted_def)
  ultimately show ?thesis
    using body_layers_precedence [of example_config "JObj [(''k'', JBool True)]" "''x''" "Some ''m''"
        None]
    by (fastforce simp: jget_def or_else_def)
qed

text \<open>A successful mutation through the manager installs what the parser makes of the edited
  document alone. Markdown agents are not part of the document, so after any mutation an agent
  that only a Markdown file defines is no longer found, until the next reload.\<close>

theorem mutate_forgets_markdown_agents:
  assumes "\<forall>doc c. parse doc = Inr c \<longrightarrow> pq_markdown_agents c = bt_empty"
    and "manager_mutate ce parse time operation m = (Inr (), m')"
    and "bt_get (pq_agents (cm_config m')) name = None"
  shows "config_agent (cm_config m') name = Inl (AgentNotFound name)"
proof -
  from assms(2) obtain doc' where "parse doc' = Inr (cm_config m')"
    by (auto simp: manager_mutate_def Let_def and_then_eq_Inr map_err_eq_Inr split: option.splits
        sum.splits prod.splits)
  with assms(1) have "pq_markdown_agents (cm_config m') = bt_empty" by blast
  with assms(3) show ?thesis
    by (simp add: config_agent_def bt_contains_key_def bt_empty_def)
qed

theorem mutate_forgets_markdown_agents_witness:
  "\<exists>m'. config_agent example_config ''m'' = Inr (agent_default ''m'') \<and>
     manager_mutate example_env (\<lambda>_. Inr (example_config\<lparr>pq_markdown_agents := bt_empty\<rparr>)) ''t''
       (\<lambda>d. Inr d) (manager_new (Some ()) ''s'' example_config) = (Inr (), m') \<and>
     config_agent (cm_config m') ''m'' = Inl (AgentNotFound ''m'')"
proof -
  let ?c = "example_config\<lparr>pq_markdown_agents := bt_empty\<rparr>"
  let ?m = "manager_new (Some ()) ''s'' example_config"
  have valid: "config_validate example_env ?c = Inr ()" by (simp add: config_eval bt_empty_def)
  obtain m' where run: "manager_mutate example_env (\<lambda>_. Inr ?c) ''t'' (\<lambda>d. Inr d) ?m = (Inr (), m')"
    and cfg: "cm_config m' = ?c"
    using valid
    by (simp add: manager_mutate_def manager_new_def and_then_def map_err_def u64_checked_add_def
        u64_max_def)
  have none: "bt_get (pq_agents (cm_config m')) ''m'' = None" by (simp add: cfg example_config_def)
  have "config_agent example_config ''m'' = Inr (agent_default ''m'')"
    by (simp add: config_agent_def example_config_def bt_contains_key_def unwrap_or_def)
  with run mutate_forgets_markdown_agents [OF _ run none] show ?thesis by simp
qed

end
