(* ===== verification/Requests.thy ===== *)
theory Requests
  imports Config Store
begin

text \<open>
  The pure part of \<open>piqo-server/src/supervisor.rs\<close>: run requests, which tools a request may use,
  the permission decision for a tool call, the request body that is sent to the provider, and the
  framing of server-sent events. The printer of JSON values is an argument (\<open>to_text\<close>). Indexing a
  vector out of range ends the process; \<open>build_body\<close> then has no value.
\<close>

section \<open>Requests and tools\<close>

record run_request =
  rq_provider :: string
  rq_model :: string
  rq_input :: json
  rq_agent :: "string option"
  rq_variant :: "string option"
  rq_body :: json

datatype execution_result =
    X_Completed
  | X_CompletedWithUsage "json option"
  | X_Failed string bool
  | X_Cancelled
  | X_Interrupted
  | X_RequiresAction

datatype delta_result = DR_None | DR_Usage json | DR_RequiresAction

definition permits :: "permission_setting option \<Rightarrow> bool" where
  "permits p = (p = Some PS_Allow \<or> p = Some PS_Ask)"

definition request_agent :: "piqo_config \<Rightarrow> run_request \<Rightarrow> agent_definition option" where
  "request_agent c request =
     (case rq_agent request of
        None \<Rightarrow> None
      | Some name \<Rightarrow> (case config_agent c name of Inl _ \<Rightarrow> None | Inr a \<Rightarrow> Some a))"

definition configured_native_tools :: "piqo_config \<Rightarrow> run_request \<Rightarrow> native_tool list" where
  "configured_native_tools c request =
     (if jget (rq_body request) ''tools'' \<noteq> None then []
      else case request_agent c request of
        None \<Rightarrow> []
      | Some a \<Rightarrow>
          map fst (filter (\<lambda>(tool, p). permits p)
            [(NT_Read, ag_read (ad_permissions a)), (NT_Write, ag_write (ad_permissions a)),
             (NT_Edit, ag_write (ad_permissions a)), (NT_Bash, ag_bash (ad_permissions a))]))"

definition configured_mcp_tools ::
  "piqo_config \<Rightarrow> run_request \<Rightarrow> mcp_tool_definition list \<Rightarrow> mcp_tool_definition list" where
  "configured_mcp_tools c request catalog =
     (case request_agent c request of
        None \<Rightarrow> []
      | Some a \<Rightarrow>
          filter (\<lambda>tool. permits (or_else (bt_get (ag_tools (ad_permissions a)) (mt_name tool))
                                     (ag_mcp (ad_permissions a)))) catalog)"

definition configured_delegate :: "piqo_config \<Rightarrow> run_request \<Rightarrow> bool" where
  "configured_delegate c request =
     (case request_agent c request of
        None \<Rightarrow> False
      | Some a \<Rightarrow> permits (bt_get (ag_tools (ad_permissions a)) ''delegate''))"

section \<open>Permission decisions\<close>

definition permission_setting_of :: "agent_permissions \<Rightarrow> string \<Rightarrow> permission_setting option" where
  "permission_setting_of p tool_name =
     (if tool_name = ''read'' then ag_read p
      else if tool_name = ''write'' \<or> tool_name = ''edit'' then ag_write p
      else if tool_name = ''bash'' then ag_bash p
      else or_else (bt_get (ag_tools p) tool_name) (ag_mcp p))"

fun most_restrictive_permission ::
  "permission_setting \<Rightarrow> permission_setting \<Rightarrow> permission_setting" where
  "most_restrictive_permission PS_Deny _ = PS_Deny"
| "most_restrictive_permission _ PS_Deny = PS_Deny"
| "most_restrictive_permission PS_Ask _ = PS_Ask"
| "most_restrictive_permission _ PS_Ask = PS_Ask"
| "most_restrictive_permission PS_Allow PS_Allow = PS_Allow"

text \<open>The agent's setting under the ceiling that a parent run sets, as \<open>evaluate_tool_permissions\<close>
  combines them.\<close>

definition effective_setting ::
  "agent_permissions option \<Rightarrow> agent_permissions option \<Rightarrow> string \<Rightarrow> permission_setting option" where
  "effective_setting configured parent_ceiling tool_name =
     (let own = Option.bind configured (\<lambda>p. permission_setting_of p tool_name)
      in case Option.bind parent_ceiling (\<lambda>p. permission_setting_of p tool_name) of
        None \<Rightarrow> own
      | Some parent \<Rightarrow> Some (most_restrictive_permission (unwrap_or PS_Deny own) parent))"

definition parent_allows_interactive :: "agent_permissions option \<Rightarrow> string \<Rightarrow> bool" where
  "parent_allows_interactive parent_ceiling tool_name =
     (case Option.bind parent_ceiling (\<lambda>p. permission_setting_of p tool_name) of
        None \<Rightarrow> True | Some d \<Rightarrow> d = PS_Allow)"

fun scope_source :: "permission_scope \<Rightarrow> permission_decision_source" where
  "scope_source Sc_Session = Src_SessionRule"
| "scope_source Sc_Project = Src_ProjectRule"
| "scope_source Sc_Configuration = Src_InteractiveConfiguration"
| "scope_source Sc_Once = Src_RequestApproval"

definition decide_call ::
  "permission_setting option \<Rightarrow> permission_rule_record option
   \<Rightarrow> permission_decision \<times> permission_decision_source \<times> string option" where
  "decide_call setting matching_rule =
     (if setting = Some PS_Deny then (Deny, Src_Configuration, None)
      else case matching_rule of
        Some rule \<Rightarrow> (Allow, scope_source (pc_scope rule), Some (pc_id rule))
      | None \<Rightarrow>
          (case setting of
             Some PS_Allow \<Rightarrow> (Allow, Src_Configuration, None)
           | Some PS_Ask \<Rightarrow> (Ask, Src_Configuration, None)
           | _ \<Rightarrow> (Deny, Src_Default, None)))"

text \<open>The name under which rules for a tool are looked up.\<close>

definition rule_tool_name :: "string \<Rightarrow> string" where
  "rule_tool_name tool_name =
     (case native_parse tool_name of None \<Rightarrow> tool_name | Some t \<Rightarrow> permission_name t)"

section \<open>Request bodies\<close>

fun role_name :: "message_role \<Rightarrow> string" where
  "role_name Role_System = ''system''"
| "role_name Role_User = ''user''"
| "role_name Role_Assistant = ''assistant''"
| "role_name Role_Tool = ''tool''"

definition delegate_tool_definition :: mcp_tool_definition where
  "delegate_tool_definition =
     \<lparr>mt_name = ''delegate'', mt_server_id = ''piqo'', mt_server_tool_name = ''delegate'',
      mt_description = Some
        ''Delegate a bounded task to a named Piqo agent using explicitly selected parent messages.'',
      mt_input_schema = jobj
        [(''type'', JStr ''object''), (''additionalProperties'', JBool False),
         (''required'', JArr [JStr ''agent'', JStr ''task'', JStr ''context_message_ids'']),
         (''properties'', jobj
            [(''agent'', jobj [(''type'', JStr ''string'')]),
             (''task'', jobj [(''type'', JStr ''string'')]),
             (''context_message_ids'', jobj
                [(''type'', JStr ''array''),
                 (''items'', jobj [(''type'', JStr ''string'')])])])]\<rparr>"

definition tool_schema :: "string list \<Rightarrow> (string \<times> json) list \<Rightarrow> json" where
  "tool_schema required properties =
     jobj [(''type'', JStr ''object''), (''additionalProperties'', JBool False),
           (''required'', JArr (map JStr required)), (''properties'', jobj properties)]"

abbreviation j_string :: json where "j_string \<equiv> jobj [(''type'', JStr ''string'')]"

abbreviation j_positive :: json where
  "j_positive \<equiv> jobj [(''type'', JStr ''integer''), (''minimum'', jnat 1)]"

fun native_tool_schema :: "native_tool \<Rightarrow> string \<times> json" where
  "native_tool_schema NT_Read =
     (''Read a UTF-8 regular file inside the project workspace.'',
      tool_schema [''filePath'']
        [(''filePath'', j_string), (''offset'', j_positive), (''limit'', j_positive)])"
| "native_tool_schema NT_Write =
     (''Create or atomically overwrite a UTF-8 file inside the project workspace.'',
      tool_schema [''filePath'', ''content'', ''mode'']
        [(''filePath'', j_string), (''content'', j_string),
         (''mode'', jobj [(''type'', JStr ''string''),
            (''enum'', JArr [JStr ''create'', JStr ''overwrite''])])])"
| "native_tool_schema NT_Edit =
     (''Replace exact text in an existing UTF-8 file inside the project workspace.'',
      tool_schema [''filePath'', ''oldString'', ''newString'']
        [(''filePath'', j_string), (''oldString'', j_string), (''newString'', j_string),
         (''replaceAll'', jobj [(''type'', JStr ''boolean'')])])"
| "native_tool_schema NT_Bash =
     (''Execute one command with a project workspace working directory.'',
      tool_schema [''command''] [(''command'', j_string), (''cwd'', j_string)])"

definition function_definition :: "provider_protocol \<Rightarrow> string \<Rightarrow> json \<Rightarrow> json \<Rightarrow> json" where
  "function_definition protocol name description parameters =
     (let fields = [(''name'', JStr name), (''description'', description), (''parameters'', parameters)]
      in case protocol of
        ChatCompletions \<Rightarrow> jobj [(''type'', JStr ''function''), (''function'', jobj fields)]
      | Responses \<Rightarrow> jobj ((''type'', JStr ''function'') # fields))"

definition native_tool_definitions :: "provider_protocol \<Rightarrow> native_tool list \<Rightarrow> json list" where
  "native_tool_definitions protocol tools =
     map (\<lambda>tool. case native_tool_schema tool of
            (description, parameters) \<Rightarrow>
              function_definition protocol (native_name tool) (JStr description) parameters) tools"

definition mcp_tool_definitions :: "provider_protocol \<Rightarrow> mcp_tool_definition list \<Rightarrow> json list" where
  "mcp_tool_definitions protocol tools =
     map (\<lambda>tool. function_definition protocol (mt_name tool) (jopt JStr (mt_description tool))
            (mt_input_schema tool)) tools"

definition entry_or_insert :: "string \<Rightarrow> json \<Rightarrow> (string, json) bt_map \<Rightarrow> (string, json) bt_map" where
  "entry_or_insert k v m = (if bt_contains_key m k then m else bt_insert k v m)"

definition closed_message :: "message_projection \<Rightarrow> bool" where
  "closed_message m = (mp_completed m \<or> mp_interrupted m)"

definition message_visible :: "context_artifact option \<Rightarrow> message_projection \<Rightarrow> bool" where
  "message_visible artifact m =
     (case artifact of None \<Rightarrow> True | Some a \<Rightarrow> ca_source_end_event_id a < mp_last_event_id m)"

definition message_content :: "message_projection \<Rightarrow> json" where
  "message_content m =
     (case mp_blocks m of
        [Text t] \<Rightarrow> JStr t
      | [Json v] \<Rightarrow> v
      | blocks \<Rightarrow>
          JArr (map (\<lambda>b. case b of
                Text t \<Rightarrow> jobj [(''type'', JStr ''text''), (''text'', JStr t)]
              | Json v \<Rightarrow> v) blocks))"

definition transcript_entry :: "message_projection \<Rightarrow> json" where
  "transcript_entry m =
     jobj [(''role'', JStr (role_name (mp_role m))), (''content'', message_content m)]"

definition all_calls :: "session_projection \<Rightarrow> tool_call_projection list" where
  "all_calls p = concat (map (\<lambda>run. bt_values (rp_tool_calls run)) (bt_values (sp_runs p)))"

definition call_visible ::
  "context_artifact option \<Rightarrow> session_projection \<Rightarrow> tool_call_projection \<Rightarrow> bool" where
  "call_visible artifact p call =
     (case artifact of
        None \<Rightarrow> True
      | Some a \<Rightarrow>
          (case List.find (\<lambda>m. mp_message_id m = tp_assistant_message_id call) (sp_messages p) of
             None \<Rightarrow> True
           | Some m \<Rightarrow> ca_source_end_event_id a < mp_last_event_id m))"

definition chat_call :: "tool_call_projection \<Rightarrow> json" where
  "chat_call call =
     jobj [(''id'', JStr (tp_call_id call)), (''type'', JStr ''function''),
           (''function'', jobj [(''name'', JStr (tp_tool_name call)),
                                (''arguments'', JStr (tp_raw_arguments call))])]"

text \<open>The loop that attaches calls to assistant messages, at \<open>transcript[offset + index]\<close>.\<close>

fun attach_calls ::
  "(message_projection \<Rightarrow> json list) \<Rightarrow> nat \<Rightarrow> message_projection list \<Rightarrow> json list \<Rightarrow> json list option" where
  "attach_calls calls position [] transcript = Some transcript"
| "attach_calls calls position (m # ms) transcript =
     (if mp_role m \<noteq> Role_Assistant \<or> calls m = [] then attach_calls calls (Suc position) ms transcript
      else if length transcript \<le> position then None
      else case as_object (transcript ! position) of
        None \<Rightarrow> None
      | Some ob \<Rightarrow>
          attach_calls calls (Suc position) ms
            (transcript[position := JObj (bt_insert ''tool_calls'' (JArr (calls m)) ob)]))"

definition base_transcript ::
  "string option \<Rightarrow> context_artifact option \<Rightarrow> session_projection \<Rightarrow> json list" where
  "base_transcript instructions artifact p =
     (case instructions of
        None \<Rightarrow> []
      | Some text \<Rightarrow> [jobj [(''role'', JStr ''system''), (''content'', JStr text)]]) @
     (case artifact of
        None \<Rightarrow> []
      | Some a \<Rightarrow> [jobj [(''role'', JStr ''system''),
          (''content'', JStr (''Earlier conversation summary ('' @ ca_artifact_id a @ ''): '' @
             ca_summary a))]]) @
     map transcript_entry
       (filter (message_visible artifact) (filter closed_message (sp_messages p)))"

definition chat_transcript ::
  "(json \<Rightarrow> string) \<Rightarrow> string option \<Rightarrow> context_artifact option \<Rightarrow> session_projection \<Rightarrow> json list option" where
  "chat_transcript print instructions artifact p =
     (let transcript = base_transcript instructions artifact p;
          completed = filter closed_message (sp_messages p);
          visible = filter (call_visible artifact p) (all_calls p);
          calls = (\<lambda>m. map chat_call
            (filter (\<lambda>c. tp_assistant_message_id c = mp_message_id m) visible))
      in map_option (\<lambda>t. t @ concat (map (\<lambda>c. case tp_result c of
              None \<Rightarrow> []
            | Some r \<Rightarrow> [jobj [(''role'', JStr ''tool''), (''tool_call_id'', JStr (tp_call_id c)),
                               (''content'', JStr (print r))]]) visible))
           (attach_calls calls (length transcript - length completed) completed transcript))"

definition responses_transcript ::
  "string option \<Rightarrow> context_artifact option \<Rightarrow> session_projection \<Rightarrow> json list" where
  "responses_transcript instructions artifact p =
     base_transcript instructions artifact p @
     concat (map (\<lambda>c.
         jobj [(''type'', JStr ''function_call''), (''call_id'', JStr (tp_call_id c)),
               (''name'', JStr (tp_tool_name c)), (''arguments'', JStr (tp_raw_arguments c))] #
         (case tp_result c of
            None \<Rightarrow> []
          | Some r \<Rightarrow> [jobj [(''type'', JStr ''function_call_output''),
                             (''call_id'', JStr (tp_call_id c)), (''output'', r)]]))
       (filter (call_visible artifact p) (all_calls p)))"

text \<open>\<open>build_body\<close>; \<open>show_config\<close> and \<open>show_merge\<close> render errors.\<close>

definition build_body ::
  "(json \<Rightarrow> string) \<Rightarrow> (config_error \<Rightarrow> string) \<Rightarrow> (body_merge_error \<Rightarrow> string) \<Rightarrow> piqo_config
   \<Rightarrow> provider_protocol \<Rightarrow> run_request \<Rightarrow> session_projection \<Rightarrow> native_tool list
   \<Rightarrow> mcp_tool_definition list \<Rightarrow> (store_error, json) result option" where
  "build_body print show_config show_merge c protocol request p native_tools mcp_tools =
     (case merge_request_bodies
             (body_layers c (rq_model request) (rq_agent request) (rq_variant request)
                (rq_body request)) of
        Inl e \<Rightarrow> Some (Inl (InvalidRequest (show_merge e)))
      | Inr body \<Rightarrow>
          (case as_object body of
             None \<Rightarrow> Some (Inl (InvalidRequest ''request body must be an object''))
           | Some ob \<Rightarrow>
               (let ob = entry_or_insert ''model'' (JStr (rq_model request)) ob;
                    ob = entry_or_insert ''stream'' (JBool True) ob;
                    ob = (if native_tools \<noteq> [] \<or> mcp_tools \<noteq> []
                          then entry_or_insert ''tools''
                            (JArr (native_tool_definitions protocol native_tools @
                                   mcp_tool_definitions protocol mcp_tools)) ob
                          else ob);
                    artifact = cp_active_artifact (sp_context p)
                in case (case rq_agent request of
                           None \<Rightarrow> Inr None
                         | Some name \<Rightarrow>
                             map_err show_config (and_then (config_agent c name)
                               (\<lambda>a. Inr (ad_instructions a)))) of
                  Inl text \<Rightarrow> Some (Inl (InvalidRequest text))
                | Inr instructions \<Rightarrow>
                    (case protocol of
                       ChatCompletions \<Rightarrow>
                         map_option (\<lambda>t. Inr (JObj (entry_or_insert ''messages'' (JArr t) ob)))
                           (chat_transcript print instructions artifact p)
                     | Responses \<Rightarrow>
                         Some (Inr (JObj (entry_or_insert ''input''
                           (JArr (responses_transcript instructions artifact p)) ob)))))))"

definition body_stream_mode :: "json \<Rightarrow> bool" where
  "body_stream_mode body = unwrap_or True (Option.bind (jget body ''stream'') as_bool)"

definition body_token_estimate :: "(json \<Rightarrow> string) \<Rightarrow> json \<Rightarrow> nat" where
  "body_token_estimate print body =
     (let transcript_items =
            (case Option.bind (or_else (jget body ''messages'') (jget body ''input'')) as_array of
               None \<Rightarrow> 0 | Some xs \<Rightarrow> length xs);
          tool_definitions = (case get_array body ''tools'' of None \<Rightarrow> 0 | Some xs \<Rightarrow> length xs)
      in estimate_tokens (length (print body)) transcript_items tool_definitions)"

definition deterministic_summary :: "message_projection list \<Rightarrow> string" where
  "deterministic_summary messages =
     decimal (length messages) @
     '' earlier messages were compacted deterministically; inspect the durable event log for verbatim history.''"

section \<open>Server-sent events\<close>

definition sse_line :: "string option \<times> string \<Rightarrow> string \<Rightarrow> string option \<times> string" where
  "sse_line acc line =
     (case acc of (event_type, data) \<Rightarrow>
        (case strip_prefix ''event:'' line of
           Some value \<Rightarrow> (Some (trim value), data)
         | None \<Rightarrow>
             (case strip_prefix ''data:'' line of
                Some value \<Rightarrow>
                  (event_type, (if data = [] then data else data @ [LF]) @ trim_start value)
              | None \<Rightarrow> (event_type, data))))"

definition parse_sse_frame :: "string \<Rightarrow> string option \<times> string" where
  "parse_sse_frame frame = foldl sse_line (None, []) (lines frame)"

text \<open>\<open>windows(n).position(== pattern)\<close>: the first place where the pattern starts.\<close>

fun position_of :: "string \<Rightarrow> string \<Rightarrow> nat option" where
  "position_of p [] = (if p = [] then Some 0 else None)"
| "position_of p (c # s) =
     (if starts_with p (c # s) then Some 0 else map_option Suc (position_of p s))"

definition find_sse_frame_end :: "string \<Rightarrow> (nat \<times> nat) option" where
  "find_sse_frame_end buffer =
     (case (position_of [LF, LF] buffer, position_of [CR, LF, CR, LF] buffer) of
        (Some lf, Some crlf) \<Rightarrow> if crlf < lf then Some (crlf, 4) else Some (lf, 2)
      | (Some lf, None) \<Rightarrow> Some (lf, 2)
      | (None, Some crlf) \<Rightarrow> Some (crlf, 4)
      | (None, None) \<Rightarrow> None)"

end
