(* ===== verification/Admission.thy ===== *)
theory Admission
  imports Config Store
begin

text \<open>
  \<open>AdmissionController\<close> of \<open>piqo-server/src/supervisor.rs\<close>: how many runs may be pending, in all
  and per session. The hash maps are partial functions; counters are within \<open>usize\<close> because they
  are bounded by the limits.
\<close>

section \<open>Model\<close>

record admission_state =
  as_pending :: nat
  as_sessions :: "string \<Rightarrow> nat option"
  as_run_sessions :: "string \<Rightarrow> string option"

definition admission_default :: admission_state where
  "admission_default =
     \<lparr>as_pending = 0, as_sessions = (\<lambda>_. None), as_run_sessions = (\<lambda>_. None)\<rparr>"

definition reserve ::
  "resource_limits \<Rightarrow> string \<Rightarrow> string \<Rightarrow> admission_state \<Rightarrow> (store_error, admission_state) result" where
  "reserve limits session_id run_id a =
     (let session_pending = unwrap_or 0 (as_sessions a session_id)
      in if rl_max_pending_runs limits \<le> as_pending a \<or>
            rl_max_pending_runs_per_session limits \<le> session_pending
         then Inl RunCapacityExceeded
         else Inr (a\<lparr>as_pending := as_pending a + 1,
                     as_sessions := (as_sessions a)(session_id := Some (session_pending + 1)),
                     as_run_sessions := (as_run_sessions a)(run_id := Some session_id)\<rparr>))"

definition release :: "string \<Rightarrow> admission_state \<Rightarrow> admission_state" where
  "release run_id a =
     (case as_run_sessions a run_id of
        None \<Rightarrow> a
      | Some session_id \<Rightarrow>
          a\<lparr>as_run_sessions := (as_run_sessions a)(run_id := None),
            as_pending := as_pending a - 1,
            as_sessions :=
              (case as_sessions a session_id of
                 None \<Rightarrow> as_sessions a
               | Some value \<Rightarrow>
                   (as_sessions a)(session_id :=
                      (if value - 1 = 0 then None else Some (value - 1))))\<rparr>)"

section \<open>Counting\<close>

text \<open>The counters are those of the reserved runs.\<close>

definition runs_of :: "admission_state \<Rightarrow> string \<Rightarrow> string set" where
  "runs_of a sid = {r. as_run_sessions a r = Some sid}"

definition admission_ok :: "resource_limits \<Rightarrow> admission_state \<Rightarrow> bool" where
  "admission_ok limits a \<longleftrightarrow>
     finite (dom (as_run_sessions a)) \<and>
     as_pending a = card (dom (as_run_sessions a)) \<and>
     as_pending a \<le> rl_max_pending_runs limits \<and>
     (\<forall>sid. as_sessions a sid =
        (if runs_of a sid = {} then None else Some (card (runs_of a sid)))) \<and>
     (\<forall>sid. card (runs_of a sid) \<le> rl_max_pending_runs_per_session limits)"

lemma admission_ok_default: "admission_ok limits admission_default"
  by (simp add: admission_ok_def admission_default_def runs_of_def)

lemma runs_of_finite: "finite (dom (as_run_sessions a)) \<Longrightarrow> finite (runs_of a sid)"
  by (rule finite_subset [of _ "dom (as_run_sessions a)"]) (auto simp: runs_of_def)

lemma admission_count:
  "admission_ok limits a \<Longrightarrow> unwrap_or 0 (as_sessions a sid) = card (runs_of a sid)"
  by (simp add: admission_ok_def)

lemma reserve_ok:
  assumes ok: "admission_ok limits a" and fresh: "as_run_sessions a run = None"
    and res: "reserve limits sid run a = Inr a'"
  shows "admission_ok limits a' \<and> as_run_sessions a' = (as_run_sessions a)(run := Some sid) \<and>
         as_pending a' = Suc (as_pending a)"
proof -
  from res have a': "a' = a\<lparr>as_pending := as_pending a + 1,
      as_sessions := (as_sessions a)(sid := Some (card (runs_of a sid) + 1)),
      as_run_sessions := (as_run_sessions a)(run := Some sid)\<rparr>"
    and room: "as_pending a < rl_max_pending_runs limits"
      "card (runs_of a sid) < rl_max_pending_runs_per_session limits"
    by (auto simp: reserve_def Let_def admission_count [OF ok] split: if_splits)
  have fin: "finite (dom (as_run_sessions a))" using ok by (simp add: admission_ok_def)
  have new: "run \<notin> dom (as_run_sessions a)" using fresh by blast
  have runs: "runs_of a' k = (if k = sid then insert run (runs_of a sid) else runs_of a k)" for k
    using fresh by (auto simp: runs_of_def a')
  have notin: "run \<notin> runs_of a k" for k using fresh by (simp add: runs_of_def)
  have card: "card (runs_of a' k) = (if k = sid then Suc (card (runs_of a sid)) else card (runs_of a k))"
    for k using runs [of k] runs_of_finite [OF fin] notin by simp
  show ?thesis
    using ok room fin new card runs by (auto simp: admission_ok_def a')
qed

lemma release_ok:
  assumes ok: "admission_ok limits a"
  shows "admission_ok limits (release run a) \<and>
         as_run_sessions (release run a) = (as_run_sessions a)(run := None)"
proof (cases "as_run_sessions a run")
  case None
  then have "(as_run_sessions a)(run := None) = as_run_sessions a" by (simp add: fun_upd_idem)
  with None ok show ?thesis by (simp add: release_def)
next
  case (Some sid)
  let ?a = "release run a"
  have fin: "finite (dom (as_run_sessions a))" using ok by (simp add: admission_ok_def)
  have mem: "run \<in> runs_of a sid" and dom: "run \<in> dom (as_run_sessions a)"
    using Some by (auto simp: runs_of_def)
  have some: "as_sessions a sid = Some (card (runs_of a sid))"
    using ok mem by (auto simp: admission_ok_def)
  have runs: "runs_of ?a k = (if k = sid then runs_of a sid - {run} else runs_of a k)" for k
    using Some by (auto simp: runs_of_def release_def)
  have card: "card (runs_of ?a sid) = card (runs_of a sid) - 1"
    using runs [of sid] mem runs_of_finite [OF fin] by simp
  have "finite (runs_of ?a sid)" using runs [of sid] runs_of_finite [OF fin] by simp
  with card have empty: "card (runs_of a sid) - 1 = 0 \<longleftrightarrow> runs_of ?a sid = {}" by (metis card_0_eq)
  have f_runs: "as_run_sessions ?a = (as_run_sessions a)(run := None)"
    and f_pending: "as_pending ?a = as_pending a - 1"
    using Some by (simp_all add: release_def)
  have "as_sessions ?a k = (if k = sid then
      if card (runs_of a sid) - 1 = 0 then None else Some (card (runs_of a sid) - 1)
      else as_sessions a k)" for k
    using Some some by (simp add: release_def)
  then have f_sessions: "as_sessions ?a k = (if runs_of ?a k = {} then None else Some (card (runs_of ?a k)))"
    for k unfolding empty using ok runs [of k] card by (cases "k = sid") (simp_all add: admission_ok_def)
  have le: "card (runs_of ?a k) \<le> card (runs_of a k)" for k
    using runs [of k] card by (cases "k = sid") auto
  have "admission_ok limits ?a"
    unfolding admission_ok_def
  proof (intro conjI allI)
    show "finite (dom (as_run_sessions ?a))" using fin by (simp add: f_runs)
    show "as_pending ?a = card (dom (as_run_sessions ?a))"
      using ok dom fin by (simp add: admission_ok_def f_runs f_pending)
    show "as_pending ?a \<le> rl_max_pending_runs limits"
      using ok unfolding admission_ok_def f_pending by linarith
    show "as_sessions ?a k = (if runs_of ?a k = {} then None else Some (card (runs_of ?a k)))" for k
      by (rule f_sessions)
    show "card (runs_of ?a k) \<le> rl_max_pending_runs_per_session limits" for k
      using ok le [of k] order_trans unfolding admission_ok_def by blast
  qed
  with f_runs show ?thesis by blast
qed

section \<open>The controller as a state machine\<close>

inductive admission_step :: "resource_limits \<Rightarrow> admission_state \<Rightarrow> admission_state \<Rightarrow> bool" for limits where
  reserved: "as_run_sessions a run = None \<Longrightarrow> reserve limits sid run a = Inr a' \<Longrightarrow>
    admission_step limits a a'"
| refused: "reserve limits sid run a = Inl e \<Longrightarrow> admission_step limits a a"
| released: "admission_step limits a (release run a)"

inductive admission_reachable :: "resource_limits \<Rightarrow> admission_state \<Rightarrow> bool" for limits where
  start: "admission_reachable limits admission_default"
| step: "admission_reachable limits a \<Longrightarrow> admission_step limits a a' \<Longrightarrow> admission_reachable limits a'"

lemma admission_step_ok: "admission_step limits a a' \<Longrightarrow> admission_ok limits a \<Longrightarrow> admission_ok limits a'"
proof (induction rule: admission_step.induct)
  case (reserved a run sid a')
  from reserve_ok [OF reserved(3,1,2)] show ?case by blast
next
  case (released a run)
  from release_ok [OF released] show ?case by blast
qed

lemma admission_reachable_ok: "admission_reachable limits a \<Longrightarrow> admission_ok limits a"
  by (induction rule: admission_reachable.induct) (blast intro: admission_ok_default admission_step_ok)+

end
