(* ===== verification/Effects.thy ===== *)
theory Effects
  imports Prelude
begin

text \<open>
  Computations that read and change a state and may fail. A Rust method that returns \<open>Result\<close>
  keeps what it already did when it fails with \<open>?\<close>, so the state is returned beside the error. The
  outer option is for loops: \<open>None\<close> means that the computation has not returned within its fuel.
\<close>

named_theorems run_simps "how computations run"

type_synonym ('s, 'e, 'a) comp = "'s \<Rightarrow> (('e, 'a) result \<times> 's) option"

definition ret :: "'a \<Rightarrow> ('s, 'e, 'a) comp" where
  "ret x s = Some (Inr x, s)"

definition raise :: "'e \<Rightarrow> ('s, 'e, 'a) comp" where
  "raise e s = Some (Inl e, s)"

definition stuck :: "('s, 'e, 'a) comp" where
  "stuck s = None"

text \<open>\<open>bind m f\<close> is \<open>let x = m?; f(x)\<close>; \<open>attempt m\<close> is \<open>m\<close> without the \<open>?\<close>.\<close>

definition bind :: "('s, 'e, 'a) comp \<Rightarrow> ('a \<Rightarrow> ('s, 'e, 'b) comp) \<Rightarrow> ('s, 'e, 'b) comp" where
  "bind m f s =
     (case m s of
        None \<Rightarrow> None
      | Some (Inl e, s') \<Rightarrow> Some (Inl e, s')
      | Some (Inr x, s') \<Rightarrow> f x s')"

definition attempt :: "('s, 'e, 'a) comp \<Rightarrow> ('s, 'f, ('e, 'a) result) comp" where
  "attempt m s = (case m s of None \<Rightarrow> None | Some (r, s') \<Rightarrow> Some (Inr r, s'))"

definition of_result :: "('e, 'a) result \<Rightarrow> ('s, 'e, 'a) comp" where
  "of_result r s = Some (r, s)"

definition gets :: "('s \<Rightarrow> 'a) \<Rightarrow> ('s, 'e, 'a) comp" where
  "gets f s = Some (Inr (f s), s)"

definition modify :: "('s \<Rightarrow> 's) \<Rightarrow> ('s, 'e, unit) comp" where
  "modify f s = Some (Inr (), f s)"

definition require :: "'e \<Rightarrow> 'a option \<Rightarrow> ('s, 'e, 'a) comp" where
  "require e v = of_result (ok_or e v)"

definition check :: "bool \<Rightarrow> 'e \<Rightarrow> ('s, 'e, unit) comp" where
  "check good e = (if good then ret () else raise e)"

definition ignore_result :: "('s, 'e, 'a) comp \<Rightarrow> ('s, 'f, unit) comp" where
  "ignore_result m = bind (attempt m) (\<lambda>_. ret ())"

definition when_do :: "bool \<Rightarrow> ('s, 'e, unit) comp \<Rightarrow> ('s, 'e, unit) comp" where
  "when_do b m = (if b then m else ret ())"

fun each :: "('a \<Rightarrow> ('s, 'e, unit) comp) \<Rightarrow> 'a list \<Rightarrow> ('s, 'e, unit) comp" where
  "each f [] = ret ()"
| "each f (x # xs) = bind (f x) (\<lambda>_. each f xs)"

section \<open>Running\<close>

lemma run_basic [run_simps]:
  "ret x s = Some (Inr x, s)" "raise e s = Some (Inl e, s)" "stuck s = None"
  "of_result r s = Some (r, s)" "gets f s = Some (Inr (f s), s)" "modify f' s = Some (Inr (), f' s)"
  by (simp_all add: ret_def raise_def stuck_def of_result_def gets_def modify_def)

lemma run_bind [run_simps]:
  "m s = Some (Inr x, s') \<Longrightarrow> bind m f s = f x s'"
  "m s = Some (Inl e, s') \<Longrightarrow> bind m f s = Some (Inl e, s')"
  "m s = None \<Longrightarrow> bind m f s = None"
  by (simp_all add: bind_def)

lemma run_attempt [run_simps]:
  "m s = Some (r, s') \<Longrightarrow> attempt m s = Some (Inr r, s')" "m s = None \<Longrightarrow> attempt m s = None"
  by (simp_all add: attempt_def)

lemma bind_Some_iff:
  "bind m f s = Some (r, s'') \<longleftrightarrow>
     (\<exists>e. m s = Some (Inl e, s'') \<and> r = Inl e) \<or>
     (\<exists>x s'. m s = Some (Inr x, s') \<and> f x s' = Some (r, s''))"
  by (auto simp: bind_def split: option.splits sum.splits)

lemma bind_Inr_iff:
  "bind m f s = Some (Inr y, s'') \<longleftrightarrow> (\<exists>x s'. m s = Some (Inr x, s') \<and> f x s' = Some (Inr y, s''))"
  by (auto simp: bind_Some_iff)

lemma attempt_Some_iff: "attempt m s = Some (r, s') \<longleftrightarrow> (\<exists>r'. m s = Some (r', s') \<and> r = Inr r')"
  by (auto simp: attempt_def split: option.splits)

lemma require_Some_iff:
  "require e v s = Some (r, s') \<longleftrightarrow> s' = s \<and> r = ok_or e v"
  by (auto simp: require_def of_result_def)

lemma check_Some_iff:
  "check good e s = Some (r, s') \<longleftrightarrow> s' = s \<and> r = (if good then Inr () else Inl e)"
  by (auto simp: check_def run_simps)

lemma basic_Some_iff:
  "ret x s = Some (r, s') \<longleftrightarrow> r = Inr x \<and> s' = s"
  "raise e s = Some (r, s') \<longleftrightarrow> r = Inl e \<and> s' = s"
  "stuck s = Some (r, s') \<longleftrightarrow> False"
  "of_result q s = Some (q', s') \<longleftrightarrow> q' = q \<and> s' = s"
  "gets f s = Some (r', s') \<longleftrightarrow> r' = Inr (f s) \<and> s' = s"
  "modify g s = Some (u, s') \<longleftrightarrow> u = Inr () \<and> s' = g s"
  by (auto simp: run_simps)

lemmas comp_iffs = bind_Some_iff attempt_Some_iff require_Some_iff check_Some_iff basic_Some_iff

text \<open>The monad laws.\<close>

lemma bind_ret [simp]: "bind (ret x) f = f x"
  by (rule ext) (simp add: run_simps)

lemma bind_raise [simp]: "bind (raise e) f = raise e"
  by (rule ext) (simp add: run_simps)

lemma bind_assoc: "bind (bind m f) g = bind m (\<lambda>x. bind (f x) g)"
  by (rule ext) (simp add: bind_def split: option.splits sum.splits)

section \<open>Returning\<close>

definition returns :: "('s, 'e, 'a) comp \<Rightarrow> bool" where
  "returns m \<longleftrightarrow> (\<forall>s. m s \<noteq> None)"

named_theorems returns_intros "computations that always return"

lemma returns_basic [returns_intros]:
  "returns (ret x)" "returns (raise e)" "returns (of_result r)" "returns (gets f)"
  "returns (modify g)" "returns (require e v)" "returns (check b e)"
  by (simp_all add: returns_def run_simps require_def check_def)

lemma returns_bind [returns_intros]: "returns m \<Longrightarrow> (\<And>x. returns (f x)) \<Longrightarrow> returns (bind m f)"
  by (fastforce simp: returns_def bind_def split: option.splits sum.splits)

lemma returns_attempt [returns_intros]: "returns m \<Longrightarrow> returns (attempt m)"
  by (auto simp: returns_def attempt_def split: option.splits)

lemma returns_ignore [returns_intros]: "returns m \<Longrightarrow> returns (ignore_result m)"
  by (simp add: ignore_result_def returns_intros)

lemma returns_when [returns_intros]: "returns m \<Longrightarrow> returns (when_do b m)"
  by (simp add: when_do_def returns_intros)

lemma returns_each [returns_intros]: "(\<And>x. returns (f x)) \<Longrightarrow> returns (each f xs)"
  by (induction xs) (simp_all add: returns_intros)

lemma returns_cases [returns_intros]:
  "returns m \<Longrightarrow> returns n \<Longrightarrow> returns (if b then m else n)"
  "returns m \<Longrightarrow> (\<And>x. returns (f x)) \<Longrightarrow> returns (case_option m f v)"
  "(\<And>x. returns (h x)) \<Longrightarrow> (\<And>x. returns (k x)) \<Longrightarrow> returns (case_sum h k w)"
  "(\<And>x y. returns (g x y)) \<Longrightarrow> returns (case_prod g q)"
  by (auto split: option.splits sum.splits prod.splits)

section \<open>Relations between states\<close>

text \<open>
  A relation that holds from every state to itself and composes is kept by a computation when it
  keeps it step by step, whether the computation succeeds or fails.
\<close>

locale state_relation =
  fixes rel :: "'s \<Rightarrow> 's \<Rightarrow> bool"
  assumes rel_refl: "rel s s"
    and rel_trans: "rel s t \<Longrightarrow> rel t u \<Longrightarrow> rel s u"
begin

definition keeps :: "('s, 'e, 'a) comp \<Rightarrow> bool" where
  "keeps m \<longleftrightarrow> (\<forall>s r s'. m s = Some (r, s') \<longrightarrow> rel s s')"

lemma keepsD: "keeps m \<Longrightarrow> m s = Some (r, s') \<Longrightarrow> rel s s'"
  by (auto simp: keeps_def)

lemma keepsI: "(\<And>s r s'. m s = Some (r, s') \<Longrightarrow> rel s s') \<Longrightarrow> keeps m"
  by (auto simp: keeps_def)

lemma keeps_pure:
  "keeps (ret x)" "keeps (raise e)" "keeps stuck" "keeps (of_result r)" "keeps (gets f)"
  "keeps (require e v)" "keeps (check b e)"
  by (auto intro!: keepsI simp: comp_iffs rel_refl)

lemma keeps_modify: "(\<And>s. rel s (g s)) \<Longrightarrow> keeps (modify g)"
  by (auto intro!: keepsI simp: comp_iffs)

lemma keeps_bind: "keeps m \<Longrightarrow> (\<And>x. keeps (f x)) \<Longrightarrow> keeps (bind m f)"
  by (rule keepsI) (auto simp: comp_iffs dest: keepsD intro: rel_trans)

lemma keeps_attempt: "keeps m \<Longrightarrow> keeps (attempt m)"
  by (rule keepsI) (auto simp: comp_iffs dest: keepsD)

lemma keeps_ignore: "keeps m \<Longrightarrow> keeps (ignore_result m)"
  by (simp add: ignore_result_def keeps_bind keeps_attempt keeps_pure)

lemma keeps_when: "keeps m \<Longrightarrow> keeps (when_do b m)"
  by (simp add: when_do_def keeps_pure)

lemma keeps_each: "(\<And>x. keeps (f x)) \<Longrightarrow> keeps (each f xs)"
  by (induction xs) (simp_all add: keeps_bind keeps_pure)

lemma keeps_cases:
  "(b \<Longrightarrow> keeps m) \<Longrightarrow> (\<not> b \<Longrightarrow> keeps n) \<Longrightarrow> keeps (if b then m else n)"
  "keeps m \<Longrightarrow> (\<And>x. keeps (f x)) \<Longrightarrow> keeps (case_option m f v)"
  "(\<And>x. keeps (h x)) \<Longrightarrow> (\<And>x. keeps (k x)) \<Longrightarrow> keeps (case_sum h k w)"
  "(\<And>x y. keeps (g x y)) \<Longrightarrow> keeps (case_prod g q)"
  by (auto split: option.splits sum.splits prod.splits)

lemmas keeps_rules = keeps_pure keeps_bind keeps_attempt keeps_ignore keeps_when keeps_each
  keeps_cases

end

end
