(* ===== verification/Supervisor.thy ===== *)
theory Supervisor
  imports Requests Admission Effects
begin

text \<open>
  The control plane of \<open>piqo-server/src/supervisor.rs\<close>: every operation of \<open>SessionSupervisor\<close>
  that appends events, with its guards in the order of the code. The state holds the store, the
  admission counters, the events handed to the hub for publication, the sessions for which a
  worker was started, the cancellation tokens and the projects being deleted.

  An operation runs here without another one in between; the code holds the session's lock only
  while it processes a session or accepts a tool result. A fresh number stands for each UUID and
  each reading of the clock. Conversions by \<open>serde\<close>, the rendering of errors, the native executor
  and the MCP client are arguments. What the code waits for (responses, chunks, timers and the
  cancellation of a token) comes from a script of outside events in the state: each wait takes the
  next one, and a computation whose script is used up has not returned.
\<close>

section \<open>State and environment\<close>

datatype outside_event =
    W_Cancelled
  | W_Shutdown
  | W_SendFailed string
  | W_Response nat
  | W_Chunk string
  | W_ChunkFailed string
  | W_EndOfBody
  | W_Body string
  | W_BodyFailed string
  | W_FlushTick
  | W_Slept
  | W_TimedOut

record sup =
  su_store :: store
  su_admission :: admission_state
  su_published :: "recorded_event list"
  su_workers :: "string list"
  su_cancellations :: "(string, bool) bt_map"
  su_deleting :: "string list"
  su_closed :: "string list"
  su_shutdown :: bool
  su_fresh :: nat
  su_script :: "outside_event list"

type_synonym 'a act = "(sup, store_error, 'a) comp"

record delegation_request =
  dq_agent :: string
  dq_task :: string
  dq_context_message_ids :: "string list"

record sup_env =
  en_serde :: serde
  en_clock :: "nat \<Rightarrow> string"
  en_uuid :: "nat \<Rightarrow> string"
  en_now :: "nat \<Rightarrow> string"
  en_limits :: resource_limits
  en_config :: piqo_config
  en_config_env :: config_env
  en_request_to_value :: "run_request \<Rightarrow> json"
  en_request_from_value :: "json \<Rightarrow> run_request option"
  en_result_to_value :: "agent_result \<Rightarrow> json"
  en_permissions_to_value :: "agent_permissions \<Rightarrow> json"
  en_permissions_from_value :: "json \<Rightarrow> agent_permissions option"
  en_delegation_from_value :: "json \<Rightarrow> delegation_request option"
  en_blocks_to_value :: "content_block list \<Rightarrow> json"
  en_show_config :: "config_error \<Rightarrow> string"
  en_show_store :: "store_error \<Rightarrow> string"
  en_native :: "nat \<Rightarrow> string \<Rightarrow> native_tool \<Rightarrow> json \<Rightarrow> (store_error, json) result"
  en_mcp_catalog :: "mcp_tool_definition list"
  en_mcp_call :: "nat \<Rightarrow> string \<Rightarrow> json \<Rightarrow> (mcp_error, json) result"
  en_metadata :: "string \<Rightarrow> string \<Rightarrow> json option"
  en_build_request :: "string \<Rightarrow> json \<Rightarrow> (string, string) bt_map \<Rightarrow> (string, unit) result"
  en_recent :: "nat \<Rightarrow> bool"
  en_hash_order :: "nat \<Rightarrow> string list \<Rightarrow> string list"
  en_mul_ceil :: "nat \<Rightarrow> real option \<Rightarrow> nat"
  en_mul_floor :: "nat \<Rightarrow> real option \<Rightarrow> nat"
  en_show_decode :: "json \<Rightarrow> string"
  en_show_utf8 :: "string \<Rightarrow> string"
  en_show_status :: "nat \<Rightarrow> string"
  en_show_merge :: "body_merge_error \<Rightarrow> string"
  en_show_transport :: "provider_transport_error \<Rightarrow> string"

section \<open>Steps\<close>

definition store_read :: "(store \<Rightarrow> (store_error, 'a) result) \<Rightarrow> 'a act" where
  "store_read f = bind (gets su_store) (\<lambda>st. of_result (f st))"

definition store_do :: "(store \<Rightarrow> (store_error, 'a \<times> store) result) \<Rightarrow> 'a act" where
  "store_do f =
     bind (gets su_store) (\<lambda>st. bind (of_result (f st)) (\<lambda>(x, st').
       bind (modify (\<lambda>s. s\<lparr>su_store := st'\<rparr>)) (\<lambda>_. ret x)))"

definition tick :: "nat act" where
  "tick = bind (gets su_fresh) (\<lambda>n. bind (modify (\<lambda>s. s\<lparr>su_fresh := Suc n\<rparr>)) (\<lambda>_. ret n))"

definition new_uuid :: "sup_env \<Rightarrow> string act" where
  "new_uuid env = bind tick (\<lambda>n. ret (en_uuid env n))"

definition time_now :: "sup_env \<Rightarrow> string act" where
  "time_now env = bind tick (\<lambda>n. ret (en_now env n))"

definition project_of :: "sup_env \<Rightarrow> string \<Rightarrow> session_projection act" where
  "project_of env sid = store_do (projection (en_serde env) sid)"

definition release_terminal_admission :: "semantic_event \<Rightarrow> admission_state \<Rightarrow> admission_state" where
  "release_terminal_admission event a =
     (case event of
        RunCompleted run_id _ \<Rightarrow> release run_id a
      | RunFailed run_id _ \<Rightarrow> release run_id a
      | RunCancelled run_id _ \<Rightarrow> release run_id a
      | RunInterrupted run_id _ \<Rightarrow> release run_id a
      | _ \<Rightarrow> a)"

definition publish_all :: "recorded_event list \<Rightarrow> sup \<Rightarrow> sup" where
  "publish_all recorded s =
     s\<lparr>su_published := su_published s @ recorded,
       su_admission :=
         foldl (\<lambda>a e. release_terminal_admission (re_event e) a) (su_admission s) recorded\<rparr>"

definition sup_append_many :: "sup_env \<Rightarrow> string \<Rightarrow> semantic_event list \<Rightarrow> recorded_event list act" where
  "sup_append_many env sid events =
     bind (store_do (append_events (en_serde env) (en_clock env) sid events)) (\<lambda>recorded.
       bind (modify (publish_all recorded)) (\<lambda>_. ret recorded))"

definition sup_append :: "sup_env \<Rightarrow> string \<Rightarrow> semantic_event \<Rightarrow> recorded_event act" where
  "sup_append env sid event =
     bind (store_do (append_event (en_serde env) (en_clock env) sid event)) (\<lambda>recorded.
       bind (modify (publish_all [recorded])) (\<lambda>_. ret recorded))"

definition spawn_worker :: "string \<Rightarrow> unit act" where
  "spawn_worker sid =
     modify (\<lambda>s. if su_shutdown s then s else s\<lparr>su_workers := su_workers s @ [sid]\<rparr>)"

definition ensure_accepting :: "unit act" where
  "ensure_accepting = bind (gets su_shutdown) (\<lambda>down. check (\<not> down) ShuttingDown)"

definition ensure_session_mutable :: "string \<Rightarrow> unit act" where
  "ensure_session_mutable sid =
     bind (store_read (get_session sid)) (\<lambda>session.
       case sm_project_id session of
         None \<Rightarrow> ret ()
       | Some pid \<Rightarrow> bind (gets su_deleting) (\<lambda>d. check (pid \<notin> set d) (ProjectDeleting pid)))"

definition reserve_run :: "sup_env \<Rightarrow> string \<Rightarrow> string \<Rightarrow> unit act" where
  "reserve_run env sid run_id =
     bind (gets su_admission) (\<lambda>a. bind (of_result (reserve (en_limits env) sid run_id a)) (\<lambda>a'.
       modify (\<lambda>s. s\<lparr>su_admission := a'\<rparr>)))"

text \<open>A fresh run id, reserved.\<close>

definition admit :: "sup_env \<Rightarrow> string \<Rightarrow> string act" where
  "admit env sid = bind (new_uuid env) (\<lambda>run_id. bind (reserve_run env sid run_id) (\<lambda>_. ret run_id))"

definition release_run :: "string \<Rightarrow> unit act" where
  "release_run run_id = modify (\<lambda>s. s\<lparr>su_admission := release run_id (su_admission s)\<rparr>)"

definition find_run :: "session_projection \<Rightarrow> string \<Rightarrow> run_projection act" where
  "find_run p run_id = require (RunNotFound run_id) (bt_get (sp_runs p) run_id)"

definition read_request :: "sup_env \<Rightarrow> run_projection \<Rightarrow> run_request act" where
  "read_request env run = require JsonError (en_request_from_value env (rp_request run))"

section \<open>Queueing\<close>

definition provider_error :: "sup_env \<Rightarrow> config_error \<Rightarrow> store_error" where
  "provider_error env e =
     (case e of
        Cf_ProviderNotFound name \<Rightarrow> ProviderNotFound name
      | InvalidProtocol _ _ \<Rightarrow> ProviderProtocolError (en_show_config env e)
      | _ \<Rightarrow> ProviderUnavailable (en_show_config env e))"

definition queue_run :: "sup_env \<Rightarrow> string \<Rightarrow> run_request \<Rightarrow> string act" where
  "queue_run env sid request =
     bind ensure_accepting (\<lambda>_.
     bind (ensure_session_mutable sid) (\<lambda>_.
     bind (project_of env sid) (\<lambda>p.
     bind (check (\<not> sp_queue_paused p) E_QueuePaused) (\<lambda>_.
     bind (check (rq_provider request \<noteq> [] \<and> rq_model request \<noteq> [])
             (InvalidRequest ''provider and model are required'')) (\<lambda>_.
     bind (of_result (map_err (provider_error env)
             (resolve_provider (en_config_env env) (en_config env) (rq_provider request)))) (\<lambda>_.
     bind (admit env sid) (\<lambda>run_id.
     bind (attempt (sup_append env sid
             (RunQueued run_id None (rq_provider request) (rq_model request)
                (en_request_to_value env request)))) (\<lambda>appended.
     case appended of
       Inl e \<Rightarrow> bind (release_run run_id) (\<lambda>_. raise e)
     | Inr _ \<Rightarrow> bind (spawn_worker sid) (\<lambda>_. ret run_id)))))))))"

definition resume :: "sup_env \<Rightarrow> string \<Rightarrow> unit act" where
  "resume env sid =
     bind ensure_accepting (\<lambda>_.
     bind (ensure_session_mutable sid) (\<lambda>_.
     bind (project_of env sid) (\<lambda>p.
     bind (check (sp_queue_paused p) QueueNotPaused) (\<lambda>_.
     bind (sup_append env sid QueueResumed) (\<lambda>_.
     spawn_worker sid)))))"

definition retry :: "sup_env \<Rightarrow> string \<Rightarrow> string \<Rightarrow> string act" where
  "retry env sid run_id =
     bind ensure_accepting (\<lambda>_.
     bind (ensure_session_mutable sid) (\<lambda>_.
     bind (project_of env sid) (\<lambda>p.
     bind (find_run p run_id) (\<lambda>run.
     bind (check (rp_status run \<in> {R_Failed, R_Interrupted, R_Cancelled})
             (Conflict ''only failed, interrupted or cancelled runs can be retried'')) (\<lambda>_.
     bind (read_request env run) (\<lambda>request.
     bind (admit env sid) (\<lambda>new_id.
     bind (project_of env sid) (\<lambda>p'.
     bind (attempt (sup_append_many env sid
             (RunQueued new_id (Some run_id) (rq_provider request) (rq_model request)
                (en_request_to_value env request) #
              (if sp_queue_paused p' then [QueueResumed] else [])))) (\<lambda>appended.
     case appended of
       Inl e \<Rightarrow> bind (release_run new_id) (\<lambda>_. raise e)
     | Inr _ \<Rightarrow> bind (spawn_worker sid) (\<lambda>_. ret new_id))))))))))"

section \<open>Tool results\<close>

definition accept_tool_result ::
  "sup_env \<Rightarrow> string \<Rightarrow> string \<Rightarrow> string \<Rightarrow> json \<Rightarrow> bool act" where
  "accept_tool_result env sid run_id call_id value =
     bind (project_of env sid) (\<lambda>p.
     bind (find_run p run_id) (\<lambda>run.
     bind (check (rp_status run = R_RequiresAction)
             (Conflict ''run is not awaiting tool results'')) (\<lambda>_.
     bind (read_request env run) (\<lambda>request.
     bind (check (jget (rq_body request) ''messages'' = None \<and> jget (rq_body request) ''input'' = None)
             CallerOwnedTranscript) (\<lambda>_.
     bind (require
             (if list_ex (\<lambda>other. bt_contains_key (rp_tool_calls other) call_id)
                  (bt_values (sp_runs p))
              then ToolCallWrongRun call_id run_id else ToolCallNotFound call_id)
             (bt_get (rp_tool_calls run) call_id)) (\<lambda>call.
     bind (check (\<not> tp_native call)
             (if starts_with ''mcp__'' (tp_tool_name call)
              then McpToolManaged call_id else NativeToolManaged call_id)) (\<lambda>_.
     bind (case Option.bind
               (List.find (\<lambda>q. pj_run_id q = run_id \<and> pj_call_id q = Some call_id)
                  (bt_values (sp_pending_permissions p))) pj_decision of
             Some Allow \<Rightarrow> ret ()
           | Some Deny \<Rightarrow> raise (Conflict ''tool permission was denied'')
           | _ \<Rightarrow> raise (Conflict ''tool permission has not been approved'')) (\<lambda>_.
     case tp_result call of
       Some existing \<Rightarrow>
         if existing = value then ret False else raise (ToolResultConflict call_id)
     | None \<Rightarrow>
         (let all_ready = list_all (\<lambda>c. tp_call_id c = call_id \<or> tp_result c \<noteq> None)
                (bt_values (rp_tool_calls run))
          in bind (sup_append_many env sid
               (ToolResult run_id call_id (tp_agent_id call) (tp_tool_name call) value #
                (if all_ready then [QueueResumed] else []))) (\<lambda>_. ret all_ready))))))))))"

definition submit_tool_result ::
  "sup_env \<Rightarrow> string \<Rightarrow> string \<Rightarrow> string \<Rightarrow> json \<Rightarrow> unit act" where
  "submit_tool_result env sid run_id call_id value =
     bind ensure_accepting (\<lambda>_.
     bind (ensure_session_mutable sid) (\<lambda>_.
     bind (accept_tool_result env sid run_id call_id value) (\<lambda>all_ready.
     when_do all_ready (spawn_worker sid))))"

definition resume_if_tool_results_ready :: "sup_env \<Rightarrow> string \<Rightarrow> string \<Rightarrow> bool act" where
  "resume_if_tool_results_ready env sid run_id =
     bind (project_of env sid) (\<lambda>p.
     bind (find_run p run_id) (\<lambda>run.
     if rp_status run = R_RequiresAction \<and>
        list_all (\<lambda>c. tp_result c \<noteq> None) (bt_values (rp_tool_calls run))
     then bind (sup_append env sid QueueResumed) (\<lambda>_. ret True)
     else ret False))"

section \<open>Delegation\<close>

fun copy_context ::
  "sup_env \<Rightarrow> string \<Rightarrow> session_projection \<Rightarrow> string list
   \<Rightarrow> (store_error, (delegated_context_ref \<times> json) list) result" where
  "copy_context env sid p [] = Inr []"
| "copy_context env sid p (message_id # ids) =
     and_then
       (case List.find (\<lambda>m. mp_message_id m = message_id) (sp_messages p) of
          Some m \<Rightarrow>
            if closed_message m then Inr m
            else Inl (InvalidRequest ''delegated context message is unknown or open'')
        | None \<Rightarrow> Inl (InvalidRequest ''delegated context message is unknown or open''))
       (\<lambda>m. and_then (copy_context env sid p ids) (\<lambda>rest. Inr (
         (\<lparr>dr_source_session_id = sid, dr_message_id = mp_message_id m,
           dr_last_event_id = mp_last_event_id m\<rparr>,
          jobj [(''message_id'', JStr (mp_message_id m)), (''role'', JStr (role_name (mp_role m))),
                (''blocks'', en_blocks_to_value env (mp_blocks m))]) # rest)))"

definition child_provider_error :: "sup_env \<Rightarrow> config_error \<Rightarrow> store_error" where
  "child_provider_error env e =
     (case e of
        Cf_ProviderNotFound name \<Rightarrow> ProviderNotFound name
      | _ \<Rightarrow> ProviderUnavailable (en_show_config env e))"

definition own_link :: "sup_env \<Rightarrow> string \<Rightarrow> agent_link_record option act" where
  "own_link env sid =
     bind (store_read (agent_links sid)) (\<lambda>links.
       ret (List.find (\<lambda>l. lr_child_session_id l = sid) links))"

definition budget_of :: "orchestration_config \<Rightarrow> agent_budget" where
  "budget_of limits =
     \<lparr>ab_max_model_turns = oc_max_child_model_turns limits,
      ab_max_duration_seconds = oc_max_child_duration_seconds limits,
      ab_max_tree_duration_seconds = oc_max_tree_duration_seconds limits,
      ab_max_tree_tokens = oc_max_tree_tokens limits,
      ab_max_context_bytes = oc_max_context_bytes limits,
      ab_max_result_bytes = oc_max_result_bytes limits\<rparr>"

definition link_record :: "agent_link \<Rightarrow> string \<Rightarrow> agent_link_record" where
  "link_record link time =
     \<lparr>lr_instance_id = al_instance_id link, lr_profile_id = al_profile_id link,
      lr_parent_session_id = al_parent_session_id link, lr_parent_run_id = al_parent_run_id link,
      lr_parent_call_id = al_parent_call_id link, lr_child_session_id = al_child_session_id link,
      lr_child_run_id = al_child_run_id link, lr_depth = al_depth link,
      lr_budget = al_budget link, lr_permission_ceiling = al_permission_ceiling link,
      lr_created_at = time\<rparr>"

text \<open>
  The first part of \<open>spawn_delegated_child\<close>: the request is checked against the configuration, the
  limits and the parent's messages; nothing is written. It yields the child's agent, the provider
  and model, the depth, the permission ceiling and the copied context.
\<close>

definition check_delegation ::
  "sup_env \<Rightarrow> string \<Rightarrow> string \<Rightarrow> delegation_request
   \<Rightarrow> (string \<times> string \<times> nat \<times> json \<times> (delegated_context_ref \<times> json) list) act" where
  "check_delegation env sid run_id request =
     bind (of_result (map_err (\<lambda>e. InvalidRequest (en_show_config env e))
             (config_agent (en_config env) (dq_agent request)))) (\<lambda>child.
     bind (require (InvalidRequest ''delegated agent must configure a provider'')
             (ad_provider child)) (\<lambda>provider.
     bind (require (InvalidRequest ''delegated agent must configure a model'')
             (ad_model child)) (\<lambda>model.
     bind (of_result (map_err (child_provider_error env)
             (resolve_provider (en_config_env env) (en_config env) provider))) (\<lambda>_.
     bind (own_link env sid) (\<lambda>link.
     let limits = pq_orchestration (en_config env);
         parent_depth = (case link of None \<Rightarrow> 0 | Some l \<Rightarrow> lr_depth l)
     in
     bind (check (parent_depth < oc_max_depth limits)
             (InvalidRequest ''delegated agent depth limit exceeded'')) (\<lambda>_.
     bind (check (length (dq_context_message_ids request) \<le> oc_max_context_message_ids limits)
             (InvalidRequest ''delegated context has too many messages'')) (\<lambda>_.
     bind (project_of env sid) (\<lambda>p.
     bind (find_run p run_id) (\<lambda>run.
     bind (read_request env run) (\<lambda>parent_request.
     let parent_permissions =
       (case request_agent (en_config env) parent_request of
          None \<Rightarrow> agent_permissions_default | Some a \<Rightarrow> ad_permissions a)
     in
     bind (of_result (copy_context env sid p (dq_context_message_ids request))) (\<lambda>copied.
     bind (check (length (to_text (en_serde env) (JArr (map snd copied))) \<le> oc_max_context_bytes limits)
             (InvalidRequest ''delegated context exceeds the byte limit'')) (\<lambda>_.
     ret (provider, model, parent_depth, en_permissions_to_value env parent_permissions, copied)))))))))))))"

definition spawn_delegated_child ::
  "sup_env \<Rightarrow> string \<Rightarrow> string \<Rightarrow> string \<Rightarrow> string \<Rightarrow> json \<Rightarrow> unit act" where
  "spawn_delegated_child env sid run_id call_id agent_id arguments =
     bind (require (InvalidRequest ''delegate requires agent, task, and context_message_ids'')
             (en_delegation_from_value env arguments)) (\<lambda>request.
     bind (check_delegation env sid run_id request) (\<lambda>(provider, model, parent_depth, ceil, copied).
     bind (store_read (get_session sid)) (\<lambda>parent_session.
     bind (new_uuid env) (\<lambda>child_sid.
     bind (time_now env) (\<lambda>created.
     bind (store_do (create_session (en_serde env) child_sid created
             (Some (''Delegated: '' @ dq_agent request)) (sm_project_id parent_session))) (\<lambda>_.
     bind (new_uuid env) (\<lambda>instance_id.
     bind (new_uuid env) (\<lambda>child_run_id.
     let link =
       \<lparr>al_instance_id = instance_id, al_profile_id = dq_agent request, al_parent_session_id = sid,
        al_parent_run_id = run_id, al_parent_call_id = call_id, al_child_session_id = child_sid,
        al_child_run_id = child_run_id, al_depth = min (parent_depth + 1) u8_max,
        al_budget = budget_of (pq_orchestration (en_config env)), al_permission_ceiling = ceil\<rparr>
     in
     bind (time_now env) (\<lambda>time.
     bind (store_do (\<lambda>st. and_then (create_agent_link (link_record link time) st)
             (\<lambda>st'. Inr ((), st')))) (\<lambda>_.
     bind (sup_append env sid (AgentSpawned instance_id (Some agent_id) (Some link) None)) (\<lambda>_.
     bind (new_uuid env) (\<lambda>message_id.
     bind (sup_append_many env child_sid
             [AgentSpawned instance_id (Some agent_id) (Some link) None,
              AgentContextCaptured instance_id (map fst copied),
              MessageStarted message_id agent_id Role_System (Au_Agent agent_id)]) (\<lambda>_.
     bind (project_of env child_sid) (\<lambda>child.
     bind (require (CorruptSession child_sid)
             (case rev (sp_messages child) of [] \<Rightarrow> None | m # _ \<Rightarrow> Some (mp_message_id m))) (\<lambda>context_message.
     bind (sup_append_many env child_sid
             [MessageContentAppended context_message
                (Json (jobj [(''delegated_from'', JStr sid), (''messages'', JArr (map snd copied))])),
              MessageCompleted context_message,
              RunQueued child_run_id None provider model
                (en_request_to_value env
                   \<lparr>rq_provider = provider, rq_model = model, rq_input = JStr (dq_task request),
                    rq_agent = Some (dq_agent request), rq_variant = None,
                    rq_body = JObj []\<rparr>)]) (\<lambda>_.
     spawn_worker child_sid))))))))))))))))"

section \<open>Native tool calls\<close>

definition mcp_outcome :: "(mcp_error, json) result \<Rightarrow> json" where
  "mcp_outcome r =
     (case r of
        Inr v \<Rightarrow> v
      | Inl M_InvalidArguments \<Rightarrow> jobj [(''error'', jobj [(''code'', JStr ''invalid_tool_arguments'')])]
      | Inl ResultTooLarge \<Rightarrow> jobj [(''error'', jobj [(''code'', JStr ''mcp_result_too_large'')])]
      | Inl _ \<Rightarrow> jobj [(''error'', jobj [(''code'', JStr ''mcp_execution_uncertain'')])])"

text \<open>The next call to execute: native, allowed, neither started nor answered.\<close>

definition call_approved :: "session_projection \<Rightarrow> string \<Rightarrow> tool_call_projection \<Rightarrow> bool" where
  "call_approved p run_id call =
     (tp_native call \<and> tp_result call = None \<and> tp_execution_id call = None \<and>
      list_ex (\<lambda>q. pj_run_id q = run_id \<and> pj_call_id q = Some (tp_call_id call) \<and>
                   pj_decision q = Some Allow) (bt_values (sp_pending_permissions p)))"

definition execute_native_call ::
  "sup_env \<Rightarrow> string \<Rightarrow> string \<Rightarrow> project_row option \<Rightarrow> tool_call_projection \<Rightarrow> unit act" where
  "execute_native_call env sid run_id project call =
     bind (new_uuid env) (\<lambda>execution_id.
     bind (sup_append env sid (ToolExecutionStarted run_id (tp_call_id call) execution_id)) (\<lambda>_.
     if tp_tool_name call = ''delegate'' then
       bind (attempt (spawn_delegated_child env sid run_id (tp_call_id call) (tp_agent_id call)
               (tp_arguments call))) (\<lambda>r.
       case r of
         Inr _ \<Rightarrow> ret ()
       | Inl e \<Rightarrow>
           bind (sup_append env sid
             (ToolResult run_id (tp_call_id call) (tp_agent_id call) (tp_tool_name call)
                (jobj [(''error'', jobj [(''code'', JStr ''delegate_rejected''),
                   (''message'', JStr (en_show_store env e))])]))) (\<lambda>_. ret ()))
     else
       bind (case native_parse (tp_tool_name call) of
               Some tool \<Rightarrow>
                 bind (require (InvalidRequest ''native tools require a project-backed session'')
                         project) (\<lambda>project.
                 bind tick (\<lambda>n.
                   of_result (en_native env n (pw_path project) tool (tp_arguments call))))
             | None \<Rightarrow>
                 bind tick (\<lambda>n.
                   ret (mcp_outcome (en_mcp_call env n (tp_tool_name call) (tp_arguments call))))) (\<lambda>value.
       bind (sup_append env sid
         (ToolResult run_id (tp_call_id call) (tp_agent_id call) (tp_tool_name call) value))
         (\<lambda>_. ret ()))))"

fun native_calls_loop :: "nat \<Rightarrow> sup_env \<Rightarrow> string \<Rightarrow> string \<Rightarrow> project_row option \<Rightarrow> unit act" where
  "native_calls_loop 0 env sid run_id project = stuck"
| "native_calls_loop (Suc n) env sid run_id project =
     bind (project_of env sid) (\<lambda>p.
     bind (find_run p run_id) (\<lambda>run.
     case List.find (call_approved p run_id) (bt_values (rp_tool_calls run)) of
       None \<Rightarrow> ret ()
     | Some call \<Rightarrow>
         bind (execute_native_call env sid run_id project call) (\<lambda>_.
         native_calls_loop n env sid run_id project)))"

definition execute_approved_native_calls :: "nat \<Rightarrow> sup_env \<Rightarrow> string \<Rightarrow> string \<Rightarrow> bool act" where
  "execute_approved_native_calls n env sid run_id =
     bind (store_read (get_session sid)) (\<lambda>session.
     bind (case sm_project_id session of
             None \<Rightarrow> ret None
           | Some pid \<Rightarrow> bind (store_read (get_project pid)) (\<lambda>pr. ret (Some pr))) (\<lambda>project.
     bind (native_calls_loop n env sid run_id project) (\<lambda>_.
     resume_if_tool_results_ready env sid run_id)))"

section \<open>Permissions\<close>

definition denied_result :: json where
  "denied_result =
     jobj [(''error'', jobj [(''code'', JStr ''permission_denied''),
        (''message'', JStr ''tool invocation was denied by permission policy'')])]"

definition call_events ::
  "string \<Rightarrow> string \<Rightarrow> string \<Rightarrow> tool_call_projection
   \<Rightarrow> permission_decision \<times> permission_decision_source \<times> string option \<Rightarrow> semantic_event list" where
  "call_events request_id run_id agent_id call outcome =
     (case outcome of (decision, source, rule_id) \<Rightarrow>
        PermissionRequested request_id run_id (Some (tp_call_id call)) agent_id (tp_tool_name call)
          (tp_arguments call) #
        (if decision = Ask then []
         else PermissionResolved request_id decision (Some source) None rule_id None #
           (if decision = Deny
            then [ToolResult run_id (tp_call_id call) (tp_agent_id call) (tp_tool_name call)
                    denied_result]
            else [])))"

fun evaluate_calls ::
  "sup_env \<Rightarrow> string \<Rightarrow> string option \<Rightarrow> string \<Rightarrow> agent_permissions option \<Rightarrow> agent_permissions option
   \<Rightarrow> string \<Rightarrow> tool_call_projection list \<Rightarrow> (semantic_event list \<times> bool) act" where
  "evaluate_calls env sid pid agent_id configured parent_ceiling run_id [] = ret ([], False)"
| "evaluate_calls env sid pid agent_id configured parent_ceiling run_id (call # calls) =
     bind (new_uuid env) (\<lambda>request_id.
     bind (if parent_allows_interactive parent_ceiling (tp_tool_name call)
           then store_read (matching_permission_rule sid pid agent_id
                  (rule_tool_name (tp_tool_name call)))
           else ret None) (\<lambda>rule.
     let outcome = decide_call (effective_setting configured parent_ceiling (tp_tool_name call)) rule
     in bind (evaluate_calls env sid pid agent_id configured parent_ceiling run_id calls)
          (\<lambda>(events, pending). ret (call_events request_id run_id agent_id call outcome @ events,
                                   fst outcome = Ask \<or> pending))))"

definition evaluate_tool_permissions :: "nat \<Rightarrow> sup_env \<Rightarrow> string \<Rightarrow> run_projection \<Rightarrow> unit act" where
  "evaluate_tool_permissions n env sid run =
     bind (read_request env run) (\<lambda>request.
     let agent_id = unwrap_or ''assistant'' (rq_agent request);
         configured = (case config_agent (en_config env) agent_id of
           Inl _ \<Rightarrow> None | Inr a \<Rightarrow> Some (ad_permissions a))
     in
     bind (own_link env sid) (\<lambda>link.
     bind (case link of
             None \<Rightarrow> ret None
           | Some l \<Rightarrow>
               bind (require JsonError (en_permissions_from_value env (lr_permission_ceiling l)))
                 (\<lambda>c. ret (Some c))) (\<lambda>parent_ceiling.
     bind (store_read (get_session sid)) (\<lambda>session.
     bind (project_of env sid) (\<lambda>p.
     bind (find_run p (rp_run_id run)) (\<lambda>run.
     bind (evaluate_calls env sid (sm_project_id session) agent_id configured parent_ceiling
             (rp_run_id run)
             (filter (\<lambda>c. tp_result c = None) (bt_values (rp_tool_calls run)))) (\<lambda>(events, pending).
     bind (sup_append_many env sid events) (\<lambda>_.
     if pending then ret ()
     else bind (execute_approved_native_calls n env sid (rp_run_id run)) (\<lambda>_. ret ())))))))))"

definition scope_rule ::
  "sup_env \<Rightarrow> string \<Rightarrow> string option \<Rightarrow> permission_projection \<Rightarrow> permission_scope option
   \<Rightarrow> string option act" where
  "scope_rule env sid project_id request scope =
     (let create = (\<lambda>sc s p.
        bind (new_uuid env) (\<lambda>rid. bind (time_now env) (\<lambda>time.
        bind (store_do (create_permission_rule rid time sc s p (pj_agent_id request)
                (pj_tool_name request))) (\<lambda>rule. ret (Some (pc_id rule))))))
      in case scope of
        None \<Rightarrow> ret None
      | Some Sc_Once \<Rightarrow> ret None
      | Some Sc_Session \<Rightarrow> create Sc_Session (Some sid) None
      | Some Sc_Project \<Rightarrow>
          bind (require InvalidPermissionScope project_id) (\<lambda>pid. create Sc_Project None (Some pid))
      | Some Sc_Configuration \<Rightarrow> create Sc_Configuration None None)"

definition resolve_permission ::
  "nat \<Rightarrow> sup_env \<Rightarrow> string \<Rightarrow> string \<Rightarrow> string \<Rightarrow> permission_decision \<Rightarrow> permission_scope option \<Rightarrow> unit act" where
  "resolve_permission n env sid run_id request_id decision scope =
     bind ensure_accepting (\<lambda>_.
     bind (ensure_session_mutable sid) (\<lambda>_.
     bind (project_of env sid) (\<lambda>p.
     bind (require (InvalidRequest ''permission request was not found'')
             (bt_get (sp_pending_permissions p) request_id)) (\<lambda>request.
     bind (check (pj_run_id request = run_id)
             (InvalidRequest ''permission request does not belong to run'')) (\<lambda>_.
     case pj_decision request of
       Some existing \<Rightarrow>
         check (existing = decision)
           (Conflict ''permission resolution conflicts with the recorded decision'')
     | None \<Rightarrow>
         bind (check (\<not> (decision = Deny \<and> scope \<noteq> None)) InvalidPermissionScope) (\<lambda>_.
         bind (store_read (get_session sid)) (\<lambda>session.
         bind (scope_rule env sid (sm_project_id session) request scope) (\<lambda>rule_id.
         bind (if decision = Deny
               then bind (require (InvalidRequest ''permission request has no tool call'')
                            (pj_call_id request)) (\<lambda>call_id.
                      ret [ToolResult run_id call_id (pj_agent_id request) (pj_tool_name request)
                             denied_result])
               else ret []) (\<lambda>denied.
         bind (sup_append_many env sid
                 (PermissionResolved request_id decision (Some Src_RequestApproval) scope rule_id None #
                  denied)) (\<lambda>_.
         if decision = Allow then
           bind (execute_approved_native_calls n env sid run_id) (\<lambda>ready.
             when_do ready (spawn_worker sid))
         else if decision = Deny then
           bind (resume_if_tool_results_ready env sid run_id) (\<lambda>ready.
             when_do ready (spawn_worker sid))
         else ret ()))))))))))"

definition approve_permission ::
  "nat \<Rightarrow> sup_env \<Rightarrow> string \<Rightarrow> string \<Rightarrow> string \<Rightarrow> permission_scope \<Rightarrow> unit act" where
  "approve_permission n env sid run_id request_id scope =
     resolve_permission n env sid run_id request_id Allow (Some scope)"

definition deny_permission :: "nat \<Rightarrow> sup_env \<Rightarrow> string \<Rightarrow> string \<Rightarrow> string \<Rightarrow> unit act" where
  "deny_permission n env sid run_id request_id =
     resolve_permission n env sid run_id request_id Deny None"

section \<open>Deltas from the provider\<close>

definition is_native_call :: "sup_env \<Rightarrow> string \<Rightarrow> string \<Rightarrow> string \<Rightarrow> bool act" where
  "is_native_call env sid run_id tool_name =
     (if tool_name = ''delegate'' then
        bind (project_of env sid) (\<lambda>p.
        bind (find_run p run_id) (\<lambda>run.
        bind (read_request env run) (\<lambda>request.
        ret (configured_delegate (en_config env) request))))
      else
        bind (store_read (get_session sid)) (\<lambda>session.
        let tool = native_parse tool_name
        in if sm_project_id session = None \<and> tool \<noteq> None then ret False
        else
          bind (project_of env sid) (\<lambda>p.
          bind (find_run p run_id) (\<lambda>run.
          bind (read_request env run) (\<lambda>request.
          if jget (rq_body request) ''tools'' \<noteq> None then ret False
          else
            (let decision =
               (case config_agent (en_config env) (unwrap_or ''assistant'' (rq_agent request)) of
                  Inl _ \<Rightarrow> None
                | Inr a \<Rightarrow>
                    (case tool of
                       Some NT_Read \<Rightarrow> ag_read (ad_permissions a)
                     | Some NT_Write \<Rightarrow> ag_write (ad_permissions a)
                     | Some NT_Edit \<Rightarrow> ag_write (ad_permissions a)
                     | Some NT_Bash \<Rightarrow> ag_bash (ad_permissions a)
                     | None \<Rightarrow> or_else (bt_get (ag_tools (ad_permissions a)) tool_name)
                                (ag_mcp (ad_permissions a))))
             in if tool = None \<and> \<not> list_ex (\<lambda>c. mt_name c = tool_name) (en_mcp_catalog env)
                then ret False
                else ret (permits decision)))))))"

definition persist_delta ::
  "sup_env \<Rightarrow> string \<Rightarrow> string \<Rightarrow> string \<Rightarrow> provider_delta \<Rightarrow> delta_result act" where
  "persist_delta env sid run_id message_id delta =
     (case delta of
        D_Text t \<Rightarrow>
          bind (sup_append env sid (MessageContentAppended message_id (Text t))) (\<lambda>_. ret DR_None)
      | D_ToolCall call_id name arguments \<Rightarrow>
          bind (case call_id of Some c \<Rightarrow> ret c | None \<Rightarrow> new_uuid env) (\<lambda>call_id.
          let tool_name = unwrap_or ''function'' name in
          bind (attempt (is_native_call env sid run_id tool_name)) (\<lambda>native.
          bind (sup_append env sid
                  (ToolCallEmitted run_id message_id call_id ''assistant'' tool_name
                     (unwrap_or (jobj [(''raw'', JStr arguments)])
                        (from_text (en_serde env) arguments))
                     arguments (case native of Inr b \<Rightarrow> b | Inl _ \<Rightarrow> False))) (\<lambda>_. ret DR_None)))
      | D_ToolCallDelta _ _ _ _ \<Rightarrow>
          raise (InvalidRequest ''incomplete tool call reached persistence'')
      | D_Usage value \<Rightarrow> ret (DR_Usage value)
      | D_Completed \<Rightarrow> ret DR_None
      | D_RequiresAction \<Rightarrow>
          bind (sup_append env sid (RunRequiresAction run_id [])) (\<lambda>_. ret DR_RequiresAction))"

end
