(* ===== verification/Execution.thy ===== *)
theory Execution
  imports Supervisor
begin

text \<open>
  \<open>execute_run\<close> of \<open>piqo-server/src/supervisor.rs\<close>: the turn of a run with the provider, from the
  user's message to the last delta, with context compaction, retries, buffering of text and of tool
  call arguments. What the provider and the timers do comes from the script of outside events. A
  deadline (\<open>timed\<close>) can end the wait for any of them; an event that the code does not wait for at
  that place leaves the computation stuck. Dumping requests to files for debugging is left out.
\<close>

section \<open>Waiting\<close>

definition await :: "outside_event act" where
  "await =
     bind (gets su_script) (\<lambda>script.
       case script of
         [] \<Rightarrow> stuck
       | w # ws \<Rightarrow> bind (modify (\<lambda>s. s\<lparr>su_script := ws\<rparr>)) (\<lambda>_.
           bind (when_do (w = W_Shutdown) (modify (\<lambda>s. s\<lparr>su_shutdown := True\<rparr>))) (\<lambda>_. ret w)))"

definition or_fail :: "sup_env \<Rightarrow> 'a act \<Rightarrow> ('a \<Rightarrow> execution_result act) \<Rightarrow> execution_result act" where
  "or_fail env m f =
     bind (attempt m) (\<lambda>r. case r of
         Inl e \<Rightarrow> ret (X_Failed (en_show_store env e) False)
       | Inr x \<Rightarrow> f x)"

definition child_timeout :: execution_result where
  "child_timeout = X_Failed ''child_timeout'' False"

section \<open>Context compaction\<close>

definition summary_request ::
  "sup_env \<Rightarrow> provider_protocol \<Rightarrow> run_request \<Rightarrow> message_projection list \<Rightarrow> (store_error, json) result" where
  "summary_request env protocol request selected =
     (let cc = xc_compaction (pq_context (en_config env));
          compacted = map (\<lambda>m. jobj [(''role'', JStr (role_name (mp_role m))),
                                    (''content'', en_blocks_to_value env (mp_blocks m))]) selected;
          prompt =
            ''Return JSON only: {\"summary\":\"...\"}. Summarize this closed conversation faithfully, retaining decisions, facts, and unfinished work: '' @
            to_text (en_serde env) (JArr compacted);
          body = (if is_null (cc_summary_body cc) then jobj [] else cc_summary_body cc);
          user = JArr [jobj [(''role'', JStr ''user''), (''content'', JStr prompt)]];
          tokens = jnat (cc_summary_max_output_tokens cc)
      in case as_object body of
        None \<Rightarrow> Inl (InvalidRequest ''context compaction summary_body must be an object'')
      | Some ob \<Rightarrow>
          (let ob = bt_insert ''model'' (JStr (unwrap_or (rq_model request) (cc_summary_model cc))) ob;
               ob = bt_insert ''stream'' (JBool False) ob
           in Inr (JObj (case protocol of
                ChatCompletions \<Rightarrow> bt_insert ''messages'' user (bt_insert ''max_tokens'' tokens ob)
              | Responses \<Rightarrow> bt_insert ''input'' user (bt_insert ''max_output_tokens'' tokens ob)))))"

definition summary_of ::
  "sup_env \<Rightarrow> provider_protocol \<Rightarrow> string \<Rightarrow> (store_error, string option) result" where
  "summary_of env protocol response =
     and_then (map_err (\<lambda>_. InvalidRequest ''context_compaction_failed'')
       (parse_non_stream_response (from_text (en_serde env)) (to_text (en_serde env)) protocol response))
       (\<lambda>deltas.
         let text = concat (map (\<lambda>d. case d of D_Text t \<Rightarrow> t | _ \<Rightarrow> []) deltas);
             summary = Option.bind (from_text (en_serde env) text) (\<lambda>v. get_str v ''summary'')
         in Inr (case summary of Some t \<Rightarrow> if trim t = [] then None else Some t | None \<Rightarrow> None))"

text \<open>\<open>None\<close> when the deadline ended the wait.\<close>

primrec summary_attempts ::
  "nat \<Rightarrow> sup_env \<Rightarrow> bool \<Rightarrow> provider_protocol \<Rightarrow> string option act" where
  "summary_attempts 0 env timed protocol = raise (InvalidRequest ''context_compaction_failed'')"
| "summary_attempts (Suc n) env timed protocol =
     bind await (\<lambda>w. case w of
         W_Cancelled \<Rightarrow> raise (InvalidRequest ''context_compaction_cancelled'')
       | W_SendFailed _ \<Rightarrow> raise (InvalidRequest ''context_compaction_failed'')
       | W_TimedOut \<Rightarrow> if timed then ret None else stuck
       | W_Response status \<Rightarrow>
           if status < 200 \<or> 300 \<le> status then summary_attempts n env timed protocol
           else bind await (\<lambda>w. case w of
               W_Body response \<Rightarrow>
                 bind (of_result (summary_of env protocol response)) (\<lambda>summary.
                   case summary of
                     Some text \<Rightarrow> ret (Some text)
                   | None \<Rightarrow> summary_attempts n env timed protocol)
             | W_BodyFailed _ \<Rightarrow> raise (InvalidRequest ''context_compaction_failed'')
             | W_TimedOut \<Rightarrow> if timed then ret None else stuck
             | _ \<Rightarrow> stuck)
       | _ \<Rightarrow> stuck)"

definition summarize_context ::
  "sup_env \<Rightarrow> bool \<Rightarrow> resolved_provider \<Rightarrow> run_request \<Rightarrow> message_projection list \<Rightarrow> string option act" where
  "summarize_context env timed provider request selected =
     (let cc = xc_compaction (pq_context (en_config env));
          summary_provider = unwrap_or (rq_provider request) (cc_summary_provider cc)
      in
      bind (of_result (summary_request env (rv_protocol provider) request selected)) (\<lambda>body.
      bind (if summary_provider = rq_provider request then ret provider
            else of_result (map_err (\<lambda>e. ProviderUnavailable (en_show_config env e))
              (resolve_provider (en_config_env env) (en_config env) summary_provider))) (\<lambda>resolved.
      bind (of_result (map_err InvalidRequest
             (en_build_request env (rv_endpoint resolved) body (rv_headers resolved)))) (\<lambda>_.
      summary_attempts (Suc (cc_max_retries cc)) env timed (rv_protocol resolved)))))"

definition tool_correlations :: "session_projection \<Rightarrow> event_id \<Rightarrow> tool_correlation list" where
  "tool_correlations p source_end =
     concat (map (\<lambda>run. map
         (\<lambda>c. \<lparr>tc_call_id = tp_call_id c, tc_tool_name = tp_tool_name c, tc_run_id = rp_run_id run\<rparr>)
         (filter (\<lambda>c. case List.find (\<lambda>m. mp_message_id m = tp_assistant_message_id c) (sp_messages p) of
              None \<Rightarrow> False | Some m \<Rightarrow> mp_last_event_id m \<le> source_end)
           (bt_values (rp_tool_calls run))))
       (bt_values (sp_runs p)))"

definition the_body ::
  "sup_env \<Rightarrow> provider_protocol \<Rightarrow> run_request \<Rightarrow> session_projection \<Rightarrow> native_tool list
   \<Rightarrow> mcp_tool_definition list \<Rightarrow> json act" where
  "the_body env protocol request p native_tools mcp_tools =
     (case build_body (to_text (en_serde env)) (en_show_config env) (en_show_merge env) (en_config env)
             protocol request p native_tools mcp_tools of
        None \<Rightarrow> stuck
      | Some r \<Rightarrow> of_result r)"

text \<open>The messages that a compaction replaces: all closed and visible ones but the last four.\<close>

definition compaction_source :: "session_projection \<Rightarrow> message_projection list" where
  "compaction_source p =
     (let compactable = filter (message_visible (cp_active_artifact (sp_context p)))
            (filter closed_message (sp_messages p))
      in take (length compactable - 4) compactable)"

definition compaction_failed :: "sup_env \<Rightarrow> string \<Rightarrow> string \<Rightarrow> string \<Rightarrow> string \<Rightarrow> unit act" where
  "compaction_failed env sid run_id artifact_id code =
     bind (sup_append env sid (ContextCompactionFailed run_id artifact_id code)) (\<lambda>_. ret ())"

definition compaction_artifact ::
  "session_projection \<Rightarrow> compaction_strategy \<Rightarrow> string \<Rightarrow> event_id \<Rightarrow> event_id
   \<Rightarrow> resolved_context_budget \<Rightarrow> nat \<Rightarrow> nat \<Rightarrow> string \<Rightarrow> context_artifact" where
  "compaction_artifact p strategy artifact_id start finish budget estimate target summary =
     \<lparr>ca_artifact_id = artifact_id,
      ca_supersedes_artifact_id = map_option ca_artifact_id (cp_active_artifact (sp_context p)),
      ca_strategy = strategy, ca_strategy_version = 1,
      ca_source_start_event_id = start, ca_source_end_event_id = finish,
      ca_context_window_tokens = rb_context_window_tokens budget,
      ca_output_reserve_tokens = rb_output_reserve_tokens budget,
      ca_estimated_input_tokens = estimate, ca_target_input_tokens = target,
      ca_estimator_version = CONTEXT_ESTIMATOR_VERSION, ca_summary = summary,
      ca_tool_correlations = tool_correlations p finish\<rparr>"

text \<open>The second half of \<open>build_compacted_body\<close>, from the point where the estimate is too large.\<close>

definition compact_context ::
  "sup_env \<Rightarrow> bool \<Rightarrow> string \<Rightarrow> string \<Rightarrow> run_request \<Rightarrow> resolved_provider \<Rightarrow> native_tool list
   \<Rightarrow> mcp_tool_definition list \<Rightarrow> session_projection \<Rightarrow> nat \<Rightarrow> resolved_context_budget \<Rightarrow> json option act" where
  "compact_context env timed sid run_id request provider native_tools mcp_tools p estimate budget =
     (let xc = pq_context (en_config env);
          input_budget = rb_context_window_tokens budget - rb_output_reserve_tokens budget;
          target = en_mul_floor env input_budget (xc_target_ratio xc);
          strategy = cc_strategy (xc_compaction xc)
      in case compaction_source p of
        [] \<Rightarrow>
          bind (new_uuid env) (\<lambda>artifact_id.
          bind (compaction_failed env sid run_id artifact_id ''context_budget_exceeded'') (\<lambda>_.
          raise (InvalidRequest ''context_budget_exceeded'')))
      | m # ms \<Rightarrow>
          (let selected = m # ms;
               start = (case cp_active_artifact (sp_context p) of
                          Some a \<Rightarrow> ca_source_start_event_id a | None \<Rightarrow> mp_first_event_id m);
               finish = mp_last_event_id (last selected)
           in
           bind (new_uuid env) (\<lambda>artifact_id.
           bind (sup_append env sid
                   (ContextCompactionStarted run_id artifact_id strategy start finish)) (\<lambda>_.
           bind (case strategy of
                   Deterministic \<Rightarrow> ret (Some (deterministic_summary selected))
                 | Llm \<Rightarrow>
                     bind (attempt (summarize_context env timed provider request selected)) (\<lambda>r.
                       case r of
                         Inr summary \<Rightarrow> ret summary
                       | Inl e \<Rightarrow>
                           bind (compaction_failed env sid run_id artifact_id
                                   ''context_compaction_failed'') (\<lambda>_. raise e))) (\<lambda>summary.
           case summary of
             None \<Rightarrow> ret None
           | Some summary \<Rightarrow>
               (let artifact = compaction_artifact p strategy artifact_id start finish budget
                      estimate target summary
                in
                bind (the_body env (rv_protocol provider) request
                   (p\<lparr>sp_context := (sp_context p)\<lparr>cp_active_artifact := Some artifact\<rparr>\<rparr>)
                   native_tools mcp_tools) (\<lambda>compacted.
                if input_budget < body_token_estimate (to_text (en_serde env)) compacted then
                  bind (compaction_failed env sid run_id artifact_id ''context_budget_exceeded'') (\<lambda>_.
                  raise (InvalidRequest ''context_budget_exceeded''))
                else
                  bind (sup_append env sid (ContextCompacted run_id artifact)) (\<lambda>_.
                  ret (Some compacted)))))))))"

definition build_compacted_body ::
  "sup_env \<Rightarrow> bool \<Rightarrow> string \<Rightarrow> string \<Rightarrow> run_request \<Rightarrow> resolved_provider \<Rightarrow> native_tool list
   \<Rightarrow> mcp_tool_definition list \<Rightarrow> json option act" where
  "build_compacted_body env timed sid run_id request provider native_tools mcp_tools =
     (if jget (rq_body request) ''messages'' \<noteq> None \<or> jget (rq_body request) ''input'' \<noteq> None then
        bind (sup_append env sid (ContextCompactionBypassed run_id ''caller_owned_transcript'')) (\<lambda>_.
        bind (project_of env sid) (\<lambda>p.
        bind (the_body env (rv_protocol provider) request p native_tools mcp_tools) (\<lambda>body.
        ret (Some body))))
      else
        bind (project_of env sid) (\<lambda>p.
        bind (the_body env (rv_protocol provider) request p native_tools mcp_tools) (\<lambda>body.
        let estimate = body_token_estimate (to_text (en_serde env)) body in
        bind (of_result (map_err (\<lambda>e. InvalidRequest (en_show_config env e))
                (context_budget (en_config env) (rq_provider request) (rq_model request)
                   (en_metadata env (rq_provider request) (rq_model request))))) (\<lambda>budget.
        bind (check (rb_output_reserve_tokens budget \<le> rb_context_window_tokens budget)
                (InvalidRequest ''invalid context budget'')) (\<lambda>_.
        if estimate < en_mul_ceil env
             (rb_context_window_tokens budget - rb_output_reserve_tokens budget)
             (xc_trigger_ratio (pq_context (en_config env)))
        then ret (Some body)
        else compact_context env timed sid run_id request provider native_tools mcp_tools p estimate
               budget)))))"

section \<open>Deltas\<close>

record tool_call_buffer =
  tb_call_id :: "string option"
  tb_name :: "string option"
  tb_arguments :: string

text \<open>The variables of \<open>execute_run\<close> that the deltas of a response change.\<close>

record stream_state =
  ex_outcome :: execution_result
  ex_saw_delta :: bool
  ex_saw_completed :: bool
  ex_usage :: "json option"
  ex_text :: string
  ex_tools :: "(string, tool_call_buffer) bt_map"

definition stream_start :: stream_state where
  "stream_start =
     \<lparr>ex_outcome = X_Completed, ex_saw_delta = False, ex_saw_completed = False, ex_usage = None,
      ex_text = [], ex_tools = bt_empty\<rparr>"

definition failed :: "sup_env \<Rightarrow> store_error \<Rightarrow> stream_state \<Rightarrow> stream_state" where
  "failed env e st = st\<lparr>ex_outcome := X_Failed (en_show_store env e) False\<rparr>"

definition stream_over :: "stream_state \<Rightarrow> bool" where
  "stream_over st = (case ex_outcome st of X_Failed _ _ \<Rightarrow> True | X_RequiresAction \<Rightarrow> True | _ \<Rightarrow> False)"

definition buffer_tool_delta ::
  "nat option \<Rightarrow> string option \<Rightarrow> string option \<Rightarrow> string \<Rightarrow> (string, tool_call_buffer) bt_map
   \<Rightarrow> (string, tool_call_buffer) bt_map" where
  "buffer_tool_delta index call_id name arguments buffers =
     (let key = (case index of
            Some i \<Rightarrow> ''stream-index-'' @ decimal i
          | None \<Rightarrow> unwrap_or (''anonymous-tool-'' @ decimal (length buffers)) call_id);
          entry = unwrap_or \<lparr>tb_call_id = call_id, tb_name = name, tb_arguments = []\<rparr>
            (bt_get buffers key)
      in bt_insert key
           \<lparr>tb_call_id = or_else (tb_call_id entry) call_id, tb_name = or_else (tb_name entry) name,
            tb_arguments = tb_arguments entry @ arguments\<rparr> buffers)"

text \<open>
  The result of a persisted delta, as the loops over deltas use it: usage is kept, a required action
  or an error ends the loop (\<open>True\<close>).
\<close>

definition after_delta ::
  "sup_env \<Rightarrow> stream_state \<Rightarrow> (store_error, delta_result) result \<Rightarrow> stream_state \<times> bool" where
  "after_delta env st r =
     (case r of
        Inl e \<Rightarrow> (failed env e st, True)
      | Inr DR_RequiresAction \<Rightarrow> (st\<lparr>ex_outcome := X_RequiresAction\<rparr>, True)
      | Inr (DR_Usage v) \<Rightarrow> (st\<lparr>ex_usage := Some v\<rparr>, False)
      | Inr DR_None \<Rightarrow> (st, False))"

definition persist ::
  "sup_env \<Rightarrow> string \<Rightarrow> string \<Rightarrow> string \<Rightarrow> provider_delta \<Rightarrow> (store_error, delta_result) result act" where
  "persist env sid run_id message_id delta = attempt (persist_delta env sid run_id message_id delta)"

text \<open>The buffered tool calls are persisted when the response is complete; a failure ends this loop.\<close>

fun flush_tools ::
  "sup_env \<Rightarrow> string \<Rightarrow> string \<Rightarrow> string \<Rightarrow> stream_state \<Rightarrow> tool_call_buffer list \<Rightarrow> stream_state act" where
  "flush_tools env sid run_id message_id st [] = ret st"
| "flush_tools env sid run_id message_id st (b # bs) =
     bind (persist env sid run_id message_id
             (D_ToolCall (tb_call_id b) (tb_name b) (tb_arguments b))) (\<lambda>r.
       case r of
         Inl e \<Rightarrow> ret (failed env e st)
       | Inr DR_RequiresAction \<Rightarrow> ret (st\<lparr>ex_outcome := X_RequiresAction\<rparr>)
       | _ \<Rightarrow> flush_tools env sid run_id message_id st bs)"

definition take_tools ::
  "sup_env \<Rightarrow> string \<Rightarrow> string \<Rightarrow> string \<Rightarrow> stream_state \<Rightarrow> stream_state act" where
  "take_tools env sid run_id message_id st =
     bind tick (\<lambda>n.
       flush_tools env sid run_id message_id (st\<lparr>ex_tools := bt_empty\<rparr>)
         (List.map_filter (bt_get (ex_tools st)) (en_hash_order env n (bt_keys (ex_tools st)))))"

definition flush_text ::
  "sup_env \<Rightarrow> string \<Rightarrow> string \<Rightarrow> string \<Rightarrow> stream_state \<Rightarrow> (stream_state \<times> bool) act" where
  "flush_text env sid run_id message_id st =
     bind (persist env sid run_id message_id (D_Text (ex_text st))) (\<lambda>r.
       let st = st\<lparr>ex_text := []\<rparr>
       in case r of Inl e \<Rightarrow> ret (failed env e st, True) | Inr _ \<Rightarrow> ret (st, False))"

definition is_content :: "provider_delta \<Rightarrow> bool" where
  "is_content d =
     (case d of D_Text _ \<Rightarrow> True | D_ToolCall _ _ _ \<Rightarrow> True | D_ToolCallDelta _ _ _ _ \<Rightarrow> True | _ \<Rightarrow> False)"

text \<open>One delta of a stream; \<open>True\<close> for \<open>break\<close>.\<close>

definition stream_delta ::
  "sup_env \<Rightarrow> string \<Rightarrow> string \<Rightarrow> string \<Rightarrow> stream_state \<Rightarrow> provider_delta \<Rightarrow> (stream_state \<times> bool) act" where
  "stream_delta env sid run_id message_id st delta =
     (let st = st\<lparr>ex_saw_delta := ex_saw_delta st \<or> is_content delta\<rparr>
      in case delta of
        D_ToolCallDelta index call_id name arguments \<Rightarrow>
          ret (st\<lparr>ex_tools := buffer_tool_delta index call_id name arguments (ex_tools st)\<rparr>, False)
      | D_Text text \<Rightarrow>
          (let st = st\<lparr>ex_text := ex_text st @ text\<rparr>
           in bind tick (\<lambda>n.
             if length (ex_text st) < 4096 \<and> en_recent env n then ret (st, False)
             else flush_text env sid run_id message_id st))
      | _ \<Rightarrow>
          bind (if delta = D_Completed
                then take_tools env sid run_id message_id (st\<lparr>ex_saw_completed := True\<rparr>)
                else ret st) (\<lambda>st.
          bind (persist env sid run_id message_id delta) (\<lambda>r. ret (after_delta env st r))))"

fun stream_deltas ::
  "sup_env \<Rightarrow> string \<Rightarrow> string \<Rightarrow> string \<Rightarrow> stream_state \<Rightarrow> provider_delta list \<Rightarrow> stream_state act" where
  "stream_deltas env sid run_id message_id st [] = ret st"
| "stream_deltas env sid run_id message_id st (d # ds) =
     bind (stream_delta env sid run_id message_id st d) (\<lambda>(st, stop).
       if stop then ret st else stream_deltas env sid run_id message_id st ds)"

section \<open>Frames\<close>

function split_frames :: "string \<Rightarrow> string list \<times> string" where
  "split_frames buffer =
     (case find_sse_frame_end buffer of
        None \<Rightarrow> ([], buffer)
      | Some (index, delimiter_len) \<Rightarrow>
          (case split_frames (drop (index + delimiter_len) buffer) of
             (frames, rest) \<Rightarrow> (take index buffer # frames, rest)))"
  by pat_completeness auto

lemma position_of_less: "position_of p s = Some i \<Longrightarrow> p \<noteq> [] \<Longrightarrow> i < length s"
  by (induction s arbitrary: i) (auto split: if_splits)

lemma find_sse_frame_end_less:
  "find_sse_frame_end s = Some (i, n) \<Longrightarrow> i < length s \<and> 0 < n"
  by (auto simp: find_sse_frame_end_def dest: position_of_less split: option.splits if_splits)

termination split_frames
  by (relation "measure length") (auto dest: find_sse_frame_end_less)

declare split_frames.simps [simp del]

definition stream_frame ::
  "sup_env \<Rightarrow> provider_protocol \<Rightarrow> string \<Rightarrow> string \<Rightarrow> string \<Rightarrow> stream_state \<Rightarrow> string \<Rightarrow> stream_state act" where
  "stream_frame env protocol sid run_id message_id st frame =
     (if \<not> valid_utf8 frame then
        ret (st\<lparr>ex_outcome := X_Failed
               (''provider returned invalid UTF-8 SSE data: '' @ en_show_utf8 env frame) False\<rparr>)
      else case parse_sse_frame frame of
        (event_type, data) \<Rightarrow>
          if trim data = [] then ret st
          else case parse_sse_event (from_text (en_serde env)) (to_text (en_serde env)) protocol
                      event_type data of
            Inr deltas \<Rightarrow> stream_deltas env sid run_id message_id st deltas
          | Inl e \<Rightarrow> ret (st\<lparr>ex_outcome := X_Failed (en_show_transport env e) False\<rparr>))"

fun stream_frames ::
  "sup_env \<Rightarrow> provider_protocol \<Rightarrow> string \<Rightarrow> string \<Rightarrow> string \<Rightarrow> stream_state \<Rightarrow> string list \<Rightarrow> stream_state act" where
  "stream_frames env protocol sid run_id message_id st [] = ret st"
| "stream_frames env protocol sid run_id message_id st (f # fs) =
     bind (stream_frame env protocol sid run_id message_id st f) (\<lambda>st.
       if stream_over st then ret st
       else stream_frames env protocol sid run_id message_id st fs)"

text \<open>
  The loop over the chunks of a streamed response: \<open>Inl\<close> when the run ends at once, \<open>Inr\<close> when the
  loop is left. \<open>stream_end\<close> is the check after the loop.
\<close>

definition stream_end :: "stream_state \<Rightarrow> stream_state" where
  "stream_end st =
     (if ex_outcome st = X_Completed \<and> \<not> ex_saw_completed st
      then st\<lparr>ex_outcome := X_Failed ''provider stream ended before a completion event'' False\<rparr>
      else st)"

fun stream_loop ::
  "sup_env \<Rightarrow> bool \<Rightarrow> provider_protocol \<Rightarrow> string \<Rightarrow> string \<Rightarrow> string \<Rightarrow> string \<Rightarrow> stream_state
   \<Rightarrow> outside_event list \<Rightarrow> (execution_result + stream_state) act" where
  "stream_loop env timed protocol sid run_id message_id buffer st [] = stuck"
| "stream_loop env timed protocol sid run_id message_id buffer st (w # ws) =
     bind await (\<lambda>w. case w of
         W_Cancelled \<Rightarrow> ret (Inl X_Cancelled)
       | W_Shutdown \<Rightarrow> ret (Inl X_Interrupted)
       | W_TimedOut \<Rightarrow> if timed then ret (Inl child_timeout) else stuck
       | W_FlushTick \<Rightarrow>
           if ex_text st = [] then stream_loop env timed protocol sid run_id message_id buffer st ws
           else bind (flush_text env sid run_id message_id st) (\<lambda>(st, stop).
             if stop then ret (Inr st)
             else stream_loop env timed protocol sid run_id message_id buffer st ws)
       | W_EndOfBody \<Rightarrow> ret (Inr st)
       | W_ChunkFailed error \<Rightarrow>
           ret (Inr (st\<lparr>ex_outcome := X_Failed error (\<not> ex_saw_delta st)\<rparr>))
       | W_Chunk bytes \<Rightarrow>
           (case split_frames (buffer @ bytes) of
              (frames, rest) \<Rightarrow>
                bind (stream_frames env protocol sid run_id message_id st frames) (\<lambda>st.
                  if stream_over st then ret (Inr st)
                  else stream_loop env timed protocol sid run_id message_id rest st ws))
       | _ \<Rightarrow> stuck)"

fun body_deltas ::
  "sup_env \<Rightarrow> string \<Rightarrow> string \<Rightarrow> string \<Rightarrow> stream_state \<Rightarrow> provider_delta list \<Rightarrow> stream_state act" where
  "body_deltas env sid run_id message_id st [] = ret st"
| "body_deltas env sid run_id message_id st (D_Text t # ds) =
     body_deltas env sid run_id message_id (st\<lparr>ex_text := ex_text st @ t\<rparr>) ds"
| "body_deltas env sid run_id message_id st (d # ds) =
     bind (persist env sid run_id message_id d) (\<lambda>r.
       case after_delta env st r of
         (st, stop) \<Rightarrow> if stop then ret st else body_deltas env sid run_id message_id st ds)"

definition read_body ::
  "sup_env \<Rightarrow> bool \<Rightarrow> provider_protocol \<Rightarrow> string \<Rightarrow> string \<Rightarrow> string \<Rightarrow> (execution_result + stream_state) act" where
  "read_body env timed protocol sid run_id message_id =
     bind await (\<lambda>w. case w of
         W_Cancelled \<Rightarrow> ret (Inl X_Cancelled)
       | W_Shutdown \<Rightarrow> ret (Inl X_Interrupted)
       | W_TimedOut \<Rightarrow> if timed then ret (Inl child_timeout) else stuck
       | W_Body text \<Rightarrow>
           (case parse_non_stream_response (from_text (en_serde env)) (to_text (en_serde env))
                   protocol text of
              Inr deltas \<Rightarrow>
                bind (body_deltas env sid run_id message_id stream_start deltas) (\<lambda>st. ret (Inr st))
            | Inl e \<Rightarrow> ret (Inr (stream_start\<lparr>ex_outcome := X_Failed (en_show_transport env e) False\<rparr>)))
       | W_BodyFailed error \<Rightarrow> ret (Inr (stream_start\<lparr>ex_outcome := X_Failed error True\<rparr>))
       | _ \<Rightarrow> stuck)"

section \<open>Runs\<close>

text \<open>
  The loop that sends the request: \<open>left\<close> is \<open>5 - retries\<close>. It ends with the status of a response
  and the id of the attempt it belongs to.
\<close>

primrec send_loop ::
  "nat \<Rightarrow> sup_env \<Rightarrow> bool \<Rightarrow> string \<Rightarrow> run_projection \<Rightarrow> string
   \<Rightarrow> (execution_result + nat \<times> string) act" where
  "send_loop 0 env timed sid run attempt_id =
     bind await (\<lambda>w. case w of
         W_Cancelled \<Rightarrow> ret (Inl X_Cancelled)
       | W_Shutdown \<Rightarrow> ret (Inl X_Interrupted)
       | W_TimedOut \<Rightarrow> if timed then ret (Inl child_timeout) else stuck
       | W_Response status \<Rightarrow> ret (Inr (status, attempt_id))
       | W_SendFailed error \<Rightarrow> ret (Inl (X_Failed error False))
       | _ \<Rightarrow> stuck)"
| "send_loop (Suc left) env timed sid run attempt_id =
     bind await (\<lambda>w. case w of
         W_Cancelled \<Rightarrow> ret (Inl X_Cancelled)
       | W_Shutdown \<Rightarrow> ret (Inl X_Interrupted)
       | W_TimedOut \<Rightarrow> if timed then ret (Inl child_timeout) else stuck
       | W_Response status \<Rightarrow> ret (Inr (status, attempt_id))
       | W_SendFailed error \<Rightarrow>
           bind (ignore_result (sup_append env sid
                   (RunAttemptFailed (rp_run_id run) attempt_id error True))) (\<lambda>_.
           bind (new_uuid env) (\<lambda>next_id.
           bind (attempt (sup_append env sid
                   (RunAttemptStarted (rp_run_id run) next_id (rp_attempts run + (5 - left))))) (\<lambda>r.
           case r of
             Inl e \<Rightarrow> ret (Inl (X_Failed (en_show_store env e) False))
           | Inr _ \<Rightarrow>
               bind await (\<lambda>w. case w of
                   W_Shutdown \<Rightarrow> ret (Inl X_Interrupted)
                 | W_TimedOut \<Rightarrow> if timed then ret (Inl child_timeout) else stuck
                 | W_Slept \<Rightarrow> send_loop left env timed sid run next_id
                 | _ \<Rightarrow> stuck))))
       | _ \<Rightarrow> stuck)"

definition start_attempt :: "sup_env \<Rightarrow> string \<Rightarrow> run_projection \<Rightarrow> nat \<Rightarrow> string act" where
  "start_attempt env sid run retry_count =
     (if retry_count = 0 then
        (case rp_attempt_id run of Some a \<Rightarrow> ret a | None \<Rightarrow> new_uuid env)
      else
        bind (new_uuid env) (\<lambda>attempt_id.
        bind (sup_append env sid
          (RunAttemptStarted (rp_run_id run) attempt_id (rp_attempts run + retry_count))) (\<lambda>_.
        ret attempt_id)))"

definition user_message :: "sup_env \<Rightarrow> string \<Rightarrow> run_request \<Rightarrow> unit act" where
  "user_message env sid request =
     bind (new_uuid env) (\<lambda>message_id.
     bind (sup_append env sid (MessageStarted message_id [] Role_User Au_User)) (\<lambda>_.
     bind (sup_append env sid (MessageContentAppended message_id
             (case as_str (rq_input request) of
                Some text \<Rightarrow> Text text | None \<Rightarrow> Json (rq_input request)))) (\<lambda>_.
     bind (sup_append env sid (MessageCompleted message_id)) (\<lambda>_. ret ()))))"

record run_execution_config =
  xe_provider :: resolved_provider
  xe_body :: json

text \<open>The snapshot that every attempt of a turn shares; \<open>None\<close> when the deadline ended the wait.\<close>

definition prepare_execution ::
  "sup_env \<Rightarrow> bool \<Rightarrow> string \<Rightarrow> string \<Rightarrow> run_request \<Rightarrow> resolved_provider \<Rightarrow> run_execution_config option act" where
  "prepare_execution env timed sid run_id request provider =
     bind (store_read (get_session sid)) (\<lambda>session.
     let config = en_config env;
         native_tools = (if sm_project_id session \<noteq> None
                         then configured_native_tools config request else []);
         own_tools = jget (rq_body request) ''tools'' \<noteq> None;
         mcp_tools = (if own_tools then [] else configured_mcp_tools config request (en_mcp_catalog env)) @
           (if configured_delegate config request \<and> \<not> own_tools then [delegate_tool_definition] else [])
     in bind (build_compacted_body env timed sid run_id request provider native_tools mcp_tools) (\<lambda>body.
       ret (map_option (\<lambda>b. \<lparr>xe_provider = provider, xe_body = b\<rparr>) body)))"

text \<open>What follows the response: its deltas, the rest of the text, and the result.\<close>

definition read_response ::
  "sup_env \<Rightarrow> bool \<Rightarrow> run_execution_config \<Rightarrow> string \<Rightarrow> string \<Rightarrow> string \<Rightarrow> (execution_result + stream_state) act" where
  "read_response env timed execution sid run_id message_id =
     (let protocol = rv_protocol (xe_provider execution)
      in
      bind (if body_stream_mode (xe_body execution) then
              bind (gets su_script) (\<lambda>script.
              bind (stream_loop env timed protocol sid run_id message_id [] stream_start script) (\<lambda>r.
                ret (map_sum id stream_end r)))
            else read_body env timed protocol sid run_id message_id) (\<lambda>r.
      case r of
        Inl outcome \<Rightarrow> ret (Inl outcome)
      | Inr st \<Rightarrow>
          if ex_text st = [] then ret (Inr st)
          else bind (persist env sid run_id message_id (D_Text (ex_text st))) (\<lambda>r.
            case r of
              Inl e \<Rightarrow> ret (Inl (X_Failed (en_show_store env e) (ex_saw_delta st)))
            | Inr _ \<Rightarrow> ret (Inr st))))"

definition final_result :: "stream_state \<Rightarrow> execution_result" where
  "final_result st =
     (if ex_outcome st = X_Completed then X_CompletedWithUsage (ex_usage st) else ex_outcome st)"

definition assistant_message :: "sup_env \<Rightarrow> string \<Rightarrow> string option \<Rightarrow> string act" where
  "assistant_message env sid existing =
     (case existing of
        Some message_id \<Rightarrow> ret message_id
      | None \<Rightarrow>
          bind (new_uuid env) (\<lambda>message_id.
          bind (sup_append env sid (MessageStarted message_id ''assistant'' Role_Assistant
                  (Au_Agent ''assistant''))) (\<lambda>_. ret message_id)))"

text \<open>
  One attempt: \<open>retry_next\<close> is the call of \<open>execute_run\<close> with the next retry count, where one is left.
\<close>

definition run_attempt ::
  "sup_env \<Rightarrow> bool \<Rightarrow> string \<Rightarrow> run_projection \<Rightarrow> string \<Rightarrow> run_execution_config \<Rightarrow> string option \<Rightarrow> nat
   \<Rightarrow> (run_execution_config \<Rightarrow> string \<Rightarrow> execution_result act) option \<Rightarrow> execution_result act" where
  "run_attempt env timed sid run attempt_id execution existing left retry_next =
     (let provider = xe_provider execution;
          body = xe_body execution
      in
      if rl_max_provider_request_bytes (pq_resource_limits (en_config env))
           < length (to_text (en_serde env) body)
      then ret (X_Failed ''provider_request_too_large'' False)
      else
      or_fail env (assistant_message env sid existing) (\<lambda>message_id.
      case en_build_request env (rv_endpoint provider) body (rv_headers provider) of
        Inl error \<Rightarrow> ret (X_Failed error False)
      | Inr _ \<Rightarrow>
      bind (send_loop left env timed sid run attempt_id) (\<lambda>sent.
      case sent of
        Inl outcome \<Rightarrow> ret outcome
      | Inr (status, attempt_id) \<Rightarrow>
      if status < 200 \<or> 300 \<le> status then
        ret (X_Failed (''provider returned '' @ en_show_status env status) False)
      else
      bind (read_response env timed execution sid (rp_run_id run) message_id) (\<lambda>r.
      case r of
        Inl outcome \<Rightarrow> ret outcome
      | Inr st \<Rightarrow>
      (case ex_outcome st of
         X_Failed error True \<Rightarrow>
           bind (gets su_shutdown) (\<lambda>down.
           if down then ret X_Interrupted
           else case retry_next of
             None \<Rightarrow> ret (final_result st)
           | Some again \<Rightarrow>
               bind (ignore_result (sup_append env sid
                       (RunAttemptFailed (rp_run_id run) attempt_id error True))) (\<lambda>_.
               bind await (\<lambda>w. case w of
                   W_Shutdown \<Rightarrow> ret X_Interrupted
                 | W_TimedOut \<Rightarrow> if timed then ret child_timeout else stuck
                 | W_Slept \<Rightarrow> again execution message_id
                 | _ \<Rightarrow> stuck)))
       | _ \<Rightarrow> ret (final_result st))))))"

text \<open>
  \<open>execute_run\<close> with a snapshot, from the second attempt on; \<open>left\<close> is \<open>5 - retry_count\<close>.
\<close>

primrec execute_again ::
  "nat \<Rightarrow> sup_env \<Rightarrow> bool \<Rightarrow> string \<Rightarrow> run_projection \<Rightarrow> run_execution_config \<Rightarrow> string \<Rightarrow> execution_result act" where
  "execute_again 0 env timed sid run execution message_id =
     or_fail env (start_attempt env sid run 5) (\<lambda>attempt_id.
       run_attempt env timed sid run attempt_id execution (Some message_id) 0 None)"
| "execute_again (Suc left) env timed sid run execution message_id =
     or_fail env (start_attempt env sid run (5 - Suc left)) (\<lambda>attempt_id.
       run_attempt env timed sid run attempt_id execution (Some message_id) (Suc left)
         (Some (execute_again left env timed sid run)))"

text \<open>\<open>execute_run\<close> as the worker calls it: no snapshot, no assistant message, no retry yet.\<close>

definition execute_run :: "sup_env \<Rightarrow> bool \<Rightarrow> string \<Rightarrow> run_projection \<Rightarrow> execution_result act" where
  "execute_run env timed sid run =
     (case en_request_from_value env (rp_request run) of
        None \<Rightarrow> ret (X_Failed (en_show_decode env (rp_request run)) False)
      | Some request \<Rightarrow>
     (case resolve_provider (en_config_env env) (en_config env) (rq_provider request) of
        Inl e \<Rightarrow> ret (X_Failed (en_show_config env e) False)
      | Inr provider \<Rightarrow>
     or_fail env (start_attempt env sid run 0) (\<lambda>attempt_id.
     or_fail env (when_do (rp_retry_of run = None) (user_message env sid request)) (\<lambda>_.
     or_fail env (prepare_execution env timed sid (rp_run_id run) request provider) (\<lambda>prepared.
     case prepared of
       None \<Rightarrow> ret child_timeout
     | Some execution \<Rightarrow>
         run_attempt env timed sid run attempt_id execution None 5
           (Some (execute_again 4 env timed sid run)))))))"

definition child_budget :: "sup_env \<Rightarrow> string \<Rightarrow> agent_budget option act" where
  "child_budget env sid = bind (own_link env sid) (\<lambda>link. ret (map_option lr_budget link))"

text \<open>The deadline cancels the run's token.\<close>

definition execute_run_with_child_timeout :: "sup_env \<Rightarrow> string \<Rightarrow> run_projection \<Rightarrow> execution_result act" where
  "execute_run_with_child_timeout env sid run =
     or_fail env (child_budget env sid) (\<lambda>budget.
       if budget = None then execute_run env False sid run
       else bind (execute_run env True sid run) (\<lambda>outcome.
         bind (when_do (outcome = child_timeout) (modify (\<lambda>s. s\<lparr>su_cancellations :=
                 map (\<lambda>(r, c). (r, c \<or> r = rp_run_id run)) (su_cancellations s)\<rparr>))) (\<lambda>_.
         ret outcome)))"

end
