(* ===== verification/Worker.thy ===== *)
theory Worker
  imports Execution
begin

text \<open>
  The end of a run and the session worker of \<open>piqo-server/src/supervisor.rs\<close>: \<open>finish_run\<close> and the
  delivery of a child's result, \<open>cancel\<close>, \<open>shutdown\<close>, recovery after a restart, the deletion of a
  project, and \<open>process_session\<close>, the loop that takes the runs of a session one by one. The loops are
  bounded by fuel: a computation that needs more has not returned. Delivering a result can run the
  parent session; that call is the argument \<open>proc\<close>, which \<open>process_session\<close> instantiates with itself.
\<close>

section \<open>Ending a run\<close>

definition open_assistant :: "session_projection \<Rightarrow> message_projection option" where
  "open_assistant p =
     rfind (\<lambda>m. mp_role m = Role_Assistant \<and> \<not> mp_completed m \<and> \<not> mp_interrupted m) (sp_messages p)"

definition interrupt_message :: "sup_env \<Rightarrow> string \<Rightarrow> unit act" where
  "interrupt_message env sid =
     bind (project_of env sid) (\<lambda>p.
       case open_assistant p of
         None \<Rightarrow> ret ()
       | Some m \<Rightarrow> bind (sup_append env sid (MessageInterrupted (mp_message_id m))) (\<lambda>_. ret ()))"

definition terminal_status :: "run_status \<Rightarrow> agent_terminal_status option" where
  "terminal_status s =
     (case s of
        R_Completed \<Rightarrow> Some T_Completed
      | R_Failed \<Rightarrow> Some T_Failed
      | R_Cancelled \<Rightarrow> Some T_Cancelled
      | R_Interrupted \<Rightarrow> Some T_Interrupted
      | _ \<Rightarrow> None)"

definition assistant_text :: "session_projection \<Rightarrow> string" where
  "assistant_text p =
     (case rfind (\<lambda>m. mp_role m = Role_Assistant) (sp_messages p) of
        None \<Rightarrow> []
      | Some m \<Rightarrow> concat (map (\<lambda>b. case b of Text t \<Rightarrow> t | Json _ \<Rightarrow> []) (mp_blocks m)))"

definition child_result ::
  "agent_link_record \<Rightarrow> session_projection \<Rightarrow> agent_terminal_status \<Rightarrow> agent_result" where
  "child_result link child status =
     (case truncate_utf8 (assistant_text child) (ab_max_result_bytes (lr_budget link)) of
        (output, output_truncated) \<Rightarrow>
          \<lparr>ar_instance_id = lr_instance_id link, ar_profile_id = lr_profile_id link,
           ar_child_session_id = lr_child_session_id link, ar_child_run_id = lr_child_run_id link,
           ar_status = status,
           ar_output = (if status = T_Completed then Some (JStr output) else None),
           ar_output_truncated = output_truncated, ar_usage = None,
           ar_error =
             (case status of
                T_Completed \<Rightarrow> None
              | T_Failed \<Rightarrow> Some ''child_failed''
              | T_Cancelled \<Rightarrow> Some ''child_cancelled''
              | T_Interrupted \<Rightarrow> Some ''child_interrupted'')\<rparr>)"

definition has_result :: "session_projection \<Rightarrow> string \<Rightarrow> bool" where
  "has_result p instance_id =
     (Option.bind (bt_get (sp_agent_instances p) instance_id) ap_result \<noteq> None)"

text \<open>\<open>proc\<close> is \<open>process_session\<close>, which runs the parent when its last result has arrived.\<close>

definition deliver_child_result ::
  "sup_env \<Rightarrow> (string \<Rightarrow> unit act) \<Rightarrow> string \<Rightarrow> string \<Rightarrow> unit act" where
  "deliver_child_result env proc child_sid child_run_id =
     bind (store_read (agent_links child_sid)) (\<lambda>links.
     case List.find (\<lambda>l. lr_child_session_id l = child_sid \<and> lr_child_run_id l = child_run_id) links of
       None \<Rightarrow> ret ()
     | Some link \<Rightarrow>
         bind (project_of env child_sid) (\<lambda>child.
         bind (find_run child child_run_id) (\<lambda>run.
         case terminal_status (rp_status run) of
           None \<Rightarrow> ret ()
         | Some status \<Rightarrow>
             (let outcome = child_result link child status;
                  iid = lr_instance_id link; psid = lr_parent_session_id link;
                  prun = lr_parent_run_id link; pcall = lr_parent_call_id link
              in
              bind (if has_result child iid then ret ()
                    else bind (sup_append env child_sid (AgentFinished iid (Some outcome)))
                           (\<lambda>_. ret ())) (\<lambda>_.
              bind (project_of env psid) (\<lambda>parent.
              if has_result parent iid then ret ()
              else
                bind (find_run parent prun) (\<lambda>parent_run.
                let all_ready = list_all (\<lambda>c. tp_call_id c = pcall \<or> tp_result c \<noteq> None)
                      (bt_values (rp_tool_calls parent_run))
                in
                bind (sup_append_many env psid
                  ([AgentFinished iid (Some outcome),
                    AgentResultDelivered iid prun pcall outcome,
                    ToolResult prun pcall ''delegate'' ''delegate''
                      (en_result_to_value env outcome)] @
                   (if all_ready then [QueueResumed] else []))) (\<lambda>_.
                when_do all_ready (proc psid))))))))) "

definition phase_change ::
  "sup_env \<Rightarrow> string \<Rightarrow> session_phase \<Rightarrow> session_phase \<Rightarrow> string \<Rightarrow> unit act" where
  "phase_change env sid from to reason =
     bind (sup_append env sid (SessionPhaseChanged from to (Some reason))) (\<lambda>_. ret ())"

definition pending_call_ids :: "session_projection \<Rightarrow> string \<Rightarrow> string list" where
  "pending_call_ids p run_id =
     (case bt_get (sp_runs p) run_id of
        None \<Rightarrow> []
      | Some run \<Rightarrow>
          map tp_call_id (filter (\<lambda>c. tp_result c = None) (bt_values (rp_tool_calls run))))"

text \<open>The first part of \<open>finish_run\<close>: a run that completed with open tool calls requires action.\<close>

definition settle_result ::
  "nat \<Rightarrow> sup_env \<Rightarrow> string \<Rightarrow> run_projection \<Rightarrow> execution_result \<Rightarrow> execution_result act" where
  "settle_result n env sid run outcome =
     (if outcome \<noteq> X_Completed then ret outcome
      else
        bind (attempt (project_of env sid)) (\<lambda>r.
        case r of
          Inl e \<Rightarrow> ret (X_Failed (en_show_store env e) False)
        | Inr p \<Rightarrow>
            (let call_ids = pending_call_ids p (rp_run_id run)
             in if call_ids = [] then ret outcome
                else
                  bind (attempt (sup_append env sid (RunRequiresAction (rp_run_id run) call_ids))) (\<lambda>r.
                  case r of
                    Inl _ \<Rightarrow> ret (X_Failed ''unable to persist required action'' False)
                  | Inr _ \<Rightarrow>
                      bind (attempt (evaluate_tool_permissions n env sid run)) (\<lambda>r.
                      case r of
                        Inr _ \<Rightarrow> ret X_RequiresAction
                      | Inl e \<Rightarrow> ret (X_Failed (en_show_store env e) False))))))"

definition finish_run ::
  "nat \<Rightarrow> sup_env \<Rightarrow> (string \<Rightarrow> unit act) \<Rightarrow> string \<Rightarrow> run_projection \<Rightarrow> execution_result \<Rightarrow> unit act" where
  "finish_run n env proc sid run outcome =
     bind (settle_result n env sid run outcome) (\<lambda>outcome.
     bind
       (case outcome of
          X_CompletedWithUsage usage \<Rightarrow>
            bind (project_of env sid) (\<lambda>p.
            bind (case rfind (\<lambda>m. mp_role m = Role_Assistant \<and> \<not> mp_completed m) (sp_messages p) of
                    None \<Rightarrow> ret ()
                  | Some m \<Rightarrow> bind (sup_append env sid (MessageCompleted (mp_message_id m)))
                               (\<lambda>_. ret ())) (\<lambda>_.
            bind (sup_append env sid (RunCompleted (rp_run_id run) usage)) (\<lambda>_. ret ())))
        | X_Cancelled \<Rightarrow>
            bind (interrupt_message env sid) (\<lambda>_.
            bind (sup_append env sid (RunCancelled (rp_run_id run) (Some ''cancelled_by_user''))) (\<lambda>_.
            phase_change env sid S_Running S_Interrupted ''run_cancelled''))
        | X_Interrupted \<Rightarrow>
            bind (interrupt_message env sid) (\<lambda>_.
            bind (sup_append env sid (RunInterrupted (rp_run_id run) ''server_shutdown'')) (\<lambda>_.
            phase_change env sid S_Running S_Interrupted ''server_shutdown''))
        | X_RequiresAction \<Rightarrow>
            bind (project_of env sid) (\<lambda>p.
            bind (case open_assistant p of
                    None \<Rightarrow> ret ()
                  | Some m \<Rightarrow> bind (sup_append env sid (MessageCompleted (mp_message_id m)))
                               (\<lambda>_. ret ())) (\<lambda>_.
            phase_change env sid S_Running S_Interrupted ''requires_action''))
        | X_Failed error _ \<Rightarrow>
            bind (interrupt_message env sid) (\<lambda>_.
            bind (sup_append env sid (RunFailed (rp_run_id run) error)) (\<lambda>_.
            phase_change env sid S_Running S_Failed ''run_failed''))
        | X_Completed \<Rightarrow> ret ()) (\<lambda>_.
     deliver_child_result env proc sid (rp_run_id run)))"

section \<open>Cancelling\<close>

fun cancel :: "nat \<Rightarrow> sup_env \<Rightarrow> (string \<Rightarrow> unit act) \<Rightarrow> string \<Rightarrow> string \<Rightarrow> unit act" where
  "cancel 0 env proc sid run_id = stuck"
| "cancel (Suc n) env proc sid run_id =
     bind ensure_accepting (\<lambda>_.
     bind (ensure_session_mutable sid) (\<lambda>_.
     bind (project_of env sid) (\<lambda>p.
     bind (find_run p run_id) (\<lambda>run.
     if rp_status run = R_Queued \<or> rp_status run = R_RequiresAction then
       bind (sup_append env sid (RunCancelled run_id (Some ''cancelled_by_user''))) (\<lambda>_.
       bind (store_read (agent_links sid)) (\<lambda>links.
       bind (each (\<lambda>child. ignore_result
                     (cancel n env proc (lr_child_session_id child) (lr_child_run_id child)))
               (filter (\<lambda>l. lr_parent_session_id l = sid \<and> lr_parent_run_id l = run_id) links)) (\<lambda>_.
       deliver_child_result env proc sid run_id)))
     else if rp_status run = R_Running then
       bind (gets su_cancellations) (\<lambda>tokens.
       if bt_contains_key tokens run_id
       then modify (\<lambda>s. s\<lparr>su_cancellations := bt_insert run_id True (su_cancellations s)\<rparr>)
       else raise (Conflict ''run is stopping''))
     else raise (Conflict ''run is already terminal'')))))"

definition open_status :: "run_status \<Rightarrow> bool" where
  "open_status s = (s = R_Queued \<or> s = R_Running \<or> s = R_RequiresAction)"

definition interrupt_session :: "sup_env \<Rightarrow> string \<Rightarrow> string \<Rightarrow> unit act" where
  "interrupt_session env reason sid =
     bind (project_of env sid) (\<lambda>p.
       let events =
         map (\<lambda>run. RunInterrupted (rp_run_id run) reason)
           (filter (\<lambda>run. open_status (rp_status run)) (bt_values (sp_runs p))) @
         (if ss_phase (sp_state p) = S_Running
          then [SessionPhaseChanged S_Running S_Interrupted (Some reason)] else [])
       in if events = [] then ret () else bind (sup_append_many env sid events) (\<lambda>_. ret ()))"

definition interrupt_remaining_runs :: "sup_env \<Rightarrow> string \<Rightarrow> unit act" where
  "interrupt_remaining_runs env reason =
     bind (gets (\<lambda>s. session_ids (su_store s))) (\<lambda>sids. each (interrupt_session env reason) sids)"

text \<open>\<open>shutdown\<close>; \<open>finished\<close> says whether the workers ended within the grace period.\<close>

definition shutdown :: "sup_env \<Rightarrow> bool \<Rightarrow> unit act" where
  "shutdown env finished =
     bind (modify (\<lambda>s. s\<lparr>su_shutdown := True, su_workers := []\<rparr>)) (\<lambda>_.
     bind (interrupt_remaining_runs env ''server_shutdown'') (\<lambda>_.
     check finished ShutdownTimeout))"

definition resume_after_restart :: "sup_env \<Rightarrow> string \<Rightarrow> unit act" where
  "resume_after_restart env sid =
     bind (project_of env sid) (\<lambda>p.
       let interrupted = filter (\<lambda>run. rp_status run = R_RequiresAction \<and>
             list_ex (\<lambda>c. tp_native c \<and> tp_execution_id c \<noteq> None \<and> tp_result c = None)
               (bt_values (rp_tool_calls run))) (bt_values (sp_runs p))
       in if interrupted \<noteq> []
          then bind (sup_append_many env sid
                 (map (\<lambda>run. RunInterrupted (rp_run_id run)
                         ''native_execution_interrupted_by_restart'') interrupted)) (\<lambda>_. ret ())
          else when_do (ready_action_run p \<noteq> None) (spawn_worker sid))"

definition resume_ready_actions_after_restart :: "sup_env \<Rightarrow> unit act" where
  "resume_ready_actions_after_restart env =
     bind (gets (\<lambda>s. session_ids (su_store s))) (\<lambda>sids. each (resume_after_restart env) sids)"

definition cancel_session_for_project_deletion :: "sup_env \<Rightarrow> string \<Rightarrow> unit act" where
  "cancel_session_for_project_deletion env sid =
     bind (project_of env sid) (\<lambda>p.
     let runs = bt_values (sp_runs p);
         running = map rp_run_id (filter (\<lambda>run. rp_status run = R_Running) runs);
         events = map (\<lambda>run. RunCancelled (rp_run_id run) (Some ''project_deleted''))
           (filter (\<lambda>run. rp_status run = R_Queued \<or> rp_status run = R_RequiresAction) runs)
     in
     bind (modify (\<lambda>s. s\<lparr>su_cancellations :=
             map (\<lambda>(r, c). (r, c \<or> r \<in> set running)) (su_cancellations s)\<rparr>)) (\<lambda>_.
     if events = [] then ret () else bind (sup_append_many env sid events) (\<lambda>_. ret ())))"

text \<open>\<open>wait_for_session_idle\<close> only waits: it is left out.\<close>

definition sup_delete_project :: "sup_env \<Rightarrow> string \<Rightarrow> unit act" where
  "sup_delete_project env pid =
     bind (gets su_deleting) (\<lambda>d.
     bind (check (pid \<notin> set d) (ProjectDeleting pid)) (\<lambda>_.
     bind (modify (\<lambda>s. s\<lparr>su_deleting := pid # su_deleting s\<rparr>)) (\<lambda>_.
     bind (attempt
       (bind (store_read (project_session_ids pid)) (\<lambda>sids.
        bind (each (cancel_session_for_project_deletion env) sids) (\<lambda>_.
        bind (modify (\<lambda>s. s\<lparr>su_closed := su_closed s @ sids\<rparr>)) (\<lambda>_.
        store_do (\<lambda>st. and_then (delete_project pid st) (\<lambda>st'. Inr ((), st')))))))) (\<lambda>outcome.
     bind (modify (\<lambda>s. s\<lparr>su_deleting := filter (\<lambda>q. q \<noteq> pid) (su_deleting s)\<rparr>)) (\<lambda>_.
     of_result outcome)))))"

section \<open>The session worker\<close>

definition max_model_turns :: "sup_env \<Rightarrow> string \<Rightarrow> nat act" where
  "max_model_turns env sid =
     bind (own_link env sid) (\<lambda>link.
       ret (case link of
              Some l \<Rightarrow> ab_max_model_turns (lr_budget l)
            | None \<Rightarrow> bl_max_model_turns (pq_defaults (en_config env))))"

definition set_token :: "string \<Rightarrow> unit act" where
  "set_token run_id =
     modify (\<lambda>s. s\<lparr>su_cancellations := bt_insert run_id False (su_cancellations s)\<rparr>)"

definition clear_token :: "string \<Rightarrow> unit act" where
  "clear_token run_id = modify (\<lambda>s. s\<lparr>su_cancellations := bt_remove run_id (su_cancellations s)\<rparr>)"

text \<open>
  One round of the loop of \<open>process_session\<close>: \<open>True\<close> to go on. The wait for a permit of the
  semaphore of active runs is left out.
\<close>

definition session_round ::
  "nat \<Rightarrow> sup_env \<Rightarrow> (string \<Rightarrow> unit act) \<Rightarrow> string \<Rightarrow> bool act" where
  "session_round n env proc sid =
     bind (gets su_shutdown) (\<lambda>down.
     if down then ret False
     else
       bind (project_of env sid) (\<lambda>p.
       if active_run p \<noteq> None then ret False
       else case ready_action_run p of
         Some run \<Rightarrow>
           bind (max_model_turns env sid) (\<lambda>max_turns.
           if max_turns \<le> rp_attempts run then
             bind (sup_append env sid (RunFailed (rp_run_id run)
                     (''maximum model turns ('' @ decimal max_turns @ '') exceeded''))) (\<lambda>_. ret True)
           else
             bind (sup_append env sid QueueResumed) (\<lambda>_.
             bind (new_uuid env) (\<lambda>attempt_id.
             bind (sup_append env sid (RunStarted (rp_run_id run) attempt_id (rp_attempts run + 1))) (\<lambda>_.
             bind (set_token (rp_run_id run)) (\<lambda>_.
             bind (execute_run_with_child_timeout env sid run) (\<lambda>outcome.
             bind (clear_token (rp_run_id run)) (\<lambda>_.
             bind (finish_run n env proc sid run outcome) (\<lambda>_. ret True))))))))
       | None \<Rightarrow>
           if sp_queue_paused p then ret False
           else case queued_runs p of
             [] \<Rightarrow>
               bind (when_do (ss_phase (sp_state p) = S_Running)
                       (phase_change env sid S_Running S_Finished ''queue_empty'')) (\<lambda>_. ret False)
           | run # _ \<Rightarrow>
               bind (when_do (ss_phase (sp_state p) \<noteq> S_Running)
                       (phase_change env sid (ss_phase (sp_state p)) S_Running ''run_started'')) (\<lambda>_.
               bind (new_uuid env) (\<lambda>attempt_id.
               bind (set_token (rp_run_id run)) (\<lambda>_.
               bind (attempt (sup_append env sid
                       (RunStarted (rp_run_id run) attempt_id (rp_attempts run + 1)))) (\<lambda>started.
               case started of
                 Inl e \<Rightarrow> bind (clear_token (rp_run_id run)) (\<lambda>_. raise e)
               | Inr _ \<Rightarrow>
                   (let run = run\<lparr>rp_attempt_id := Some attempt_id, rp_attempts := rp_attempts run + 1\<rparr>
                    in
                    bind (execute_run_with_child_timeout env sid run) (\<lambda>outcome.
                    bind (clear_token (rp_run_id run)) (\<lambda>_.
                    bind (finish_run n env proc sid run outcome) (\<lambda>_. ret True))))))))))"

fun process_session ::
  "nat \<Rightarrow> sup_env \<Rightarrow> string \<Rightarrow> unit act" where
  "process_session 0 env sid = stuck"
| "process_session (Suc n) env sid =
     bind (session_round n env (process_session n env) sid) (\<lambda>continue.
     if continue then process_session n env sid else ret ())"

section \<open>The control plane as a state machine\<close>

text \<open>
  What clients, workers and the process ask for. A worker runs with the outside events that happen
  meanwhile.
\<close>

datatype command =
    C_Queue string run_request
  | C_Resume string
  | C_Retry string string
  | C_Submit string string string json
  | C_Resolve string string string permission_decision "permission_scope option"
  | C_Cancel string string
  | C_Work string "outside_event list"
  | C_Shutdown bool
  | C_Restart
  | C_DeleteProject string

definition discard :: "'a act \<Rightarrow> unit act" where
  "discard m = bind m (\<lambda>_. ret ())"

definition run_command :: "nat \<Rightarrow> sup_env \<Rightarrow> command \<Rightarrow> unit act" where
  "run_command n env c =
     (case c of
        C_Queue sid request \<Rightarrow> discard (queue_run env sid request)
      | C_Resume sid \<Rightarrow> resume env sid
      | C_Retry sid run_id \<Rightarrow> discard (retry env sid run_id)
      | C_Submit sid run_id call_id value \<Rightarrow> submit_tool_result env sid run_id call_id value
      | C_Resolve sid run_id request_id decision scope \<Rightarrow>
          resolve_permission n env sid run_id request_id decision scope
      | C_Cancel sid run_id \<Rightarrow> cancel n env (process_session n env) sid run_id
      | C_Work sid script \<Rightarrow>
          bind (modify (\<lambda>s. s\<lparr>su_script := script\<rparr>)) (\<lambda>_. process_session n env sid)
      | C_Shutdown finished \<Rightarrow> shutdown env finished
      | C_Restart \<Rightarrow> resume_ready_actions_after_restart env
      | C_DeleteProject pid \<Rightarrow> sup_delete_project env pid)"

definition sup_start :: "store \<Rightarrow> sup" where
  "sup_start st =
     \<lparr>su_store = st, su_admission = admission_default, su_published = [], su_workers = [],
      su_cancellations = bt_empty, su_deleting = [], su_closed = [], su_shutdown = False,
      su_fresh = 0, su_script = []\<rparr>"

text \<open>\<open>r\<close> is what the command answers; a failed command keeps what it did.\<close>

inductive control_steps :: "sup_env \<Rightarrow> (command \<Rightarrow> bool) \<Rightarrow> sup \<Rightarrow> sup \<Rightarrow> bool" for env allowed where
  none: "control_steps env allowed s s"
| more: "control_steps env allowed s t \<Longrightarrow> allowed c \<Longrightarrow> run_command n env c t = Some (r, u) \<Longrightarrow>
    control_steps env allowed s u"

end
