(* ===== verification/Control.thy ===== *)
theory Control
  imports Worker
begin

text \<open>
  What every operation of the control plane keeps. A relation between states that the primitive
  steps (append, projection, creation of a session, link or rule, admission) respect is respected by
  every operation built from them. The locale states this once; each guarantee interprets it.
\<close>

locale supervised = state_relation rel
  for rel :: "sup \<Rightarrow> sup \<Rightarrow> bool" +
  fixes env :: sup_env
  assumes frame: "su_store s' = su_store s \<Longrightarrow> su_published s' = su_published s \<Longrightarrow>
      su_admission s' = su_admission s \<Longrightarrow> su_fresh s \<le> su_fresh s' \<Longrightarrow> rel s s'"
    and keeps_project: "keeps (project_of env sid)"
    and keeps_append: "keeps (sup_append env sid e)"
    and keeps_append_many: "keeps (sup_append_many env sid es)"
    and keeps_create: "keeps (store_do (create_session (en_serde env) sid time title project))"
    and keeps_link: "keeps (store_do (\<lambda>st. and_then (create_agent_link l st) (\<lambda>st'. Inr ((), st'))))"
    and keeps_rule: "keeps (store_do (create_permission_rule rid time sc on_session on_project agent tool))"
    and keeps_admit: "keeps (admit env sid)"
    and keeps_release: "keeps (release_run r)"
begin

lemma keeps_frame:
  "(\<And>s. su_store (g s) = su_store s \<and> su_published (g s) = su_published s \<and>
        su_admission (g s) = su_admission s \<and> su_fresh s \<le> su_fresh (g s)) \<Longrightarrow> keeps (modify g)"
  by (rule keeps_modify) (rule frame; simp)

lemma keeps_tick: "keeps tick"
  by (rule keepsI) (auto simp: tick_def comp_iffs intro!: frame)

lemma keeps_read: "keeps (store_read f)"
  unfolding store_read_def by (intro keeps_rules)

lemma keeps_small: "keeps (new_uuid env)" "keeps (time_now env)" "keeps (spawn_worker sid)"
    "keeps ensure_accepting" "keeps (find_run p r)" "keeps (read_request env run)"
  unfolding new_uuid_def time_now_def spawn_worker_def ensure_accepting_def find_run_def
    read_request_def
  by (intro keeps_rules keeps_tick keeps_frame; simp)+

lemma keeps_case_decision:
  "keeps a \<Longrightarrow> keeps b \<Longrightarrow> keeps c \<Longrightarrow> keeps (case_permission_decision a b c d)"
  by (cases d) simp_all

lemma keeps_case_scope:
  "keeps a \<Longrightarrow> keeps b \<Longrightarrow> keeps c \<Longrightarrow> keeps d \<Longrightarrow> keeps (case_permission_scope a b c d v)"
  by (cases v) simp_all

lemma keeps_case_native:
  "keeps a \<Longrightarrow> keeps b \<Longrightarrow> keeps c \<Longrightarrow> keeps d \<Longrightarrow> keeps (case_native_tool a b c d v)"
  by (cases v) simp_all

lemma keeps_case_list: "keeps a \<Longrightarrow> (\<And>x xs. keeps (f x xs)) \<Longrightarrow> keeps (case_list a f v)"
  by (cases v) simp_all

lemma keeps_Let: "(\<And>x. keeps (f x)) \<Longrightarrow> keeps (Let v f)"
  by (simp add: Let_def)

lemmas steps = keeps_rules keeps_tick keeps_read keeps_small keeps_project keeps_append
  keeps_append_many keeps_create keeps_link keeps_rule keeps_admit keeps_release
  keeps_case_decision keeps_case_scope keeps_case_native keeps_case_list keeps_Let

text \<open>The commands of clients.\<close>

lemma keeps_mutable: "keeps (ensure_session_mutable sid)"
  unfolding ensure_session_mutable_def by (intro steps)

lemma keeps_queue_run: "keeps (queue_run env sid request)"
  unfolding queue_run_def by (intro steps keeps_mutable)

lemma keeps_resume: "keeps (resume env sid)"
  unfolding resume_def by (intro steps keeps_mutable)

lemma keeps_retry: "keeps (retry env sid run_id)"
  unfolding retry_def by (intro steps keeps_mutable)

lemma keeps_accept: "keeps (accept_tool_result env sid run_id call_id v)"
  unfolding accept_tool_result_def by (intro steps)

lemma keeps_submit: "keeps (submit_tool_result env sid run_id call_id v)"
  unfolding submit_tool_result_def by (intro steps keeps_mutable keeps_accept)

lemma keeps_ready: "keeps (resume_if_tool_results_ready env sid run_id)"
  unfolding resume_if_tool_results_ready_def by (intro steps)

lemma keeps_own_link: "keeps (own_link env sid)"
  unfolding own_link_def by (intro steps)

lemma keeps_delegation: "keeps (check_delegation env sid run_id request)"
  unfolding check_delegation_def by (intro steps keeps_own_link)

lemma keeps_spawn: "keeps (spawn_delegated_child env sid run_id call_id agent_id arguments)"
  unfolding spawn_delegated_child_def by (intro steps keeps_delegation)

lemma keeps_native_call: "keeps (execute_native_call env sid run_id project call)"
  unfolding execute_native_call_def by (intro steps keeps_spawn)

lemma keeps_native_loop: "keeps (native_calls_loop n env sid run_id project)"
  by (induction n) (simp_all only: native_calls_loop.simps, (intro steps keeps_native_call | assumption)+)

lemma keeps_native_calls: "keeps (execute_approved_native_calls n env sid run_id)"
  unfolding execute_approved_native_calls_def by (intro steps keeps_native_loop keeps_ready)

lemma keeps_evaluate_calls: "keeps (evaluate_calls env sid pid agent c pc run_id calls)"
  by (induction calls) (simp_all only: evaluate_calls.simps, (intro steps | assumption)+)

lemma keeps_evaluate: "keeps (evaluate_tool_permissions n env sid run)"
  unfolding evaluate_tool_permissions_def
  by (intro steps keeps_own_link keeps_evaluate_calls keeps_native_calls)

lemma keeps_scope_rule: "keeps (scope_rule env sid project request scope)"
  unfolding scope_rule_def Let_def by (intro steps)

lemma keeps_resolve: "keeps (resolve_permission n env sid run_id request_id decision scope)"
  unfolding resolve_permission_def
  by (intro steps keeps_mutable keeps_scope_rule keeps_native_calls keeps_ready)

lemmas keeps_commands = keeps_queue_run keeps_resume keeps_retry keeps_submit keeps_resolve

text \<open>A turn with the provider.\<close>

lemma keeps_case_event:
  "keeps a \<Longrightarrow> keeps b \<Longrightarrow> (\<And>x. keeps (c x)) \<Longrightarrow> (\<And>x. keeps (d x)) \<Longrightarrow> (\<And>x. keeps (e x)) \<Longrightarrow>
   (\<And>x. keeps (f x)) \<Longrightarrow> keeps g \<Longrightarrow> (\<And>x. keeps (h x)) \<Longrightarrow> (\<And>x. keeps (i x)) \<Longrightarrow> keeps j \<Longrightarrow>
   keeps k \<Longrightarrow> keeps l \<Longrightarrow> keeps (case_outside_event a b c d e f g h i j k l w)"
  by (cases w) simp_all

lemma keeps_case_result:
  "keeps a \<Longrightarrow> (\<And>x. keeps (b x)) \<Longrightarrow> (\<And>x y. keeps (c x y)) \<Longrightarrow> keeps d \<Longrightarrow> keeps e \<Longrightarrow> keeps f \<Longrightarrow>
   keeps (case_execution_result a b c d e f w)"
  by (cases w) simp_all

lemma keeps_case_delta:
  "(\<And>x. keeps (a x)) \<Longrightarrow> (\<And>x y z. keeps (b x y z)) \<Longrightarrow> (\<And>x y z w. keeps (c x y z w)) \<Longrightarrow>
   (\<And>x. keeps (d x)) \<Longrightarrow> keeps e \<Longrightarrow> keeps f \<Longrightarrow> keeps (case_provider_delta a b c d e f w)"
  "keeps g \<Longrightarrow> (\<And>x. keeps (h x)) \<Longrightarrow> keeps i \<Longrightarrow> keeps (case_delta_result g h i r)"
  "keeps j \<Longrightarrow> keeps k \<Longrightarrow> keeps (case_compaction_strategy j k t)"
  "keeps l \<Longrightarrow> keeps m \<Longrightarrow> keeps (case_bool l m b')"
  by (cases w, simp_all, cases r, simp_all, cases t, simp_all, cases b', simp_all)

lemma keeps_await: "keeps await"
  unfolding await_def by (intro steps keeps_frame; simp)

lemmas turn = steps keeps_await keeps_case_event keeps_case_result keeps_case_delta

lemma keeps_or_fail: "keeps m \<Longrightarrow> (\<And>x. keeps (f x)) \<Longrightarrow> keeps (or_fail env m f)"
  unfolding or_fail_def by (intro turn)

lemma keeps_is_native: "keeps (is_native_call env sid run_id name)"
  unfolding is_native_call_def by (intro turn)

lemma keeps_persist: "keeps (persist env sid run_id mid d)"
  unfolding persist_def persist_delta_def by (intro turn keeps_is_native)

lemma keeps_summary_attempts: "keeps (summary_attempts n env timed protocol)"
  by (induction n) (simp_all only: summary_attempts.simps, (intro turn | assumption)+)

lemma keeps_summarize: "keeps (summarize_context env timed provider request selected)"
  unfolding summarize_context_def by (intro turn keeps_summary_attempts)

lemma keeps_the_body: "keeps (the_body env protocol request p nt mt)"
  unfolding the_body_def by (intro turn)

lemma keeps_compact: "keeps (compact_context env timed sid run_id request provider nt mt p est budget)"
  unfolding compact_context_def compaction_failed_def
  by (intro turn keeps_the_body keeps_summarize)

lemma keeps_build: "keeps (build_compacted_body env timed sid run_id request provider nt mt)"
  unfolding build_compacted_body_def by (intro turn keeps_the_body keeps_compact)

lemma keeps_flush_tools: "keeps (flush_tools env sid run_id mid st bs)"
  by (induction bs arbitrary: st)
     (simp_all only: flush_tools.simps, (intro turn keeps_persist | assumption)+)

lemma keeps_flush_text: "keeps (flush_text env sid run_id mid st)"
  unfolding flush_text_def by (intro turn keeps_persist)

lemma keeps_stream_delta: "keeps (stream_delta env sid run_id mid st d)"
  unfolding stream_delta_def take_tools_def
  by (intro turn keeps_persist keeps_flush_text keeps_flush_tools)

lemma keeps_stream_deltas: "keeps (stream_deltas env sid run_id mid st ds)"
  by (induction ds arbitrary: st)
     (simp_all only: stream_deltas.simps, (intro turn keeps_stream_delta | assumption)+)

lemma keeps_stream_frame: "keeps (stream_frame env protocol sid run_id mid st f)"
  unfolding stream_frame_def by (intro turn keeps_stream_deltas)

lemma keeps_stream_frames: "keeps (stream_frames env protocol sid run_id mid st fs)"
  by (induction fs arbitrary: st)
     (simp_all only: stream_frames.simps, (intro turn keeps_stream_frame | assumption)+)

lemma keeps_stream_loop: "keeps (stream_loop env timed protocol sid run_id mid buffer st ws)"
  by (induction ws arbitrary: buffer st)
     (simp_all only: stream_loop.simps,
      (intro turn keeps_flush_text keeps_stream_frames | assumption)+)

lemma keeps_body_deltas: "keeps (body_deltas env sid run_id mid st ds)"
proof (induction ds arbitrary: st)
  case (Cons d ds)
  then show ?case
    by (cases d) (simp_all only: body_deltas.simps, (intro turn keeps_persist | assumption)+)
qed (simp add: turn)

lemma keeps_read_response: "keeps (read_response env timed execution sid run_id mid)"
  unfolding read_response_def read_body_def
  by (intro turn keeps_stream_loop keeps_body_deltas keeps_persist)

lemma keeps_send_loop: "keeps (send_loop n env timed sid run attempt_id)"
  by (induction n arbitrary: attempt_id) (simp_all only: send_loop.simps, (intro turn | assumption)+)

lemma keeps_run_attempt:
  "(\<And>f x y. again = Some f \<Longrightarrow> keeps (f x y)) \<Longrightarrow>
   keeps (run_attempt env timed sid run attempt_id execution existing left again)"
  unfolding run_attempt_def assistant_message_def
  by (cases again; simp only: option.case)
     (intro turn keeps_or_fail keeps_send_loop keeps_read_response | simp)+

lemma keeps_start_attempt: "keeps (start_attempt env sid run n)"
  unfolding start_attempt_def by (intro turn)

lemma keeps_execute_again: "keeps (execute_again n env timed sid run execution mid)"
proof (induction n arbitrary: execution mid)
  case 0
  show ?case by (simp only: execute_again.simps)
      (intro keeps_or_fail keeps_start_attempt keeps_run_attempt; simp)
next
  case (Suc n)
  then show ?case by (simp only: execute_again.simps)
      (intro keeps_or_fail keeps_start_attempt keeps_run_attempt; auto)
qed

lemma keeps_prepare: "keeps (prepare_execution env timed sid run_id request provider)"
  unfolding prepare_execution_def by (intro turn keeps_build)

lemma keeps_user_message: "keeps (user_message env sid request)"
  unfolding user_message_def by (intro turn)

lemma keeps_execute_run: "keeps (execute_run env timed sid run)"
  unfolding execute_run_def
  by (intro turn keeps_or_fail keeps_start_attempt keeps_user_message keeps_prepare keeps_run_attempt)
     (auto intro: keeps_execute_again)

lemma keeps_execute: "keeps (execute_run_with_child_timeout env sid run)"
  unfolding execute_run_with_child_timeout_def child_budget_def
  by (intro turn keeps_or_fail keeps_own_link keeps_execute_run keeps_frame) simp_all

text \<open>The worker and the ends of runs.\<close>

lemma keeps_interrupt_message: "keeps (interrupt_message env sid)"
  unfolding interrupt_message_def by (intro turn)

lemma keeps_deliver:
  "(\<And>k. keeps (proc k)) \<Longrightarrow> keeps (deliver_child_result env proc child_sid child_run_id)"
  unfolding deliver_child_result_def by (intro turn | assumption)+

lemma keeps_phase: "keeps (phase_change env sid src tgt reason)"
  unfolding phase_change_def by (intro turn)

lemma keeps_settle: "keeps (settle_result n env sid run outcome)"
  unfolding settle_result_def by (intro turn keeps_evaluate)

lemma keeps_finish:
  "(\<And>k. keeps (proc k)) \<Longrightarrow> keeps (finish_run n env proc sid run outcome)"
  unfolding finish_run_def
  by (intro turn keeps_settle keeps_interrupt_message keeps_phase keeps_deliver | assumption)+

lemma keeps_cancel: "(\<And>k. keeps (proc k)) \<Longrightarrow> keeps (cancel n env proc sid run_id)"
proof (induction n arbitrary: sid run_id)
  case (Suc n)
  then show ?case by (simp only: cancel.simps)
      (intro turn keeps_mutable keeps_deliver keeps_frame | assumption | simp)+
qed (simp add: turn)

lemma keeps_interrupt_session: "keeps (interrupt_session env reason sid)"
  unfolding interrupt_session_def by (intro turn)

lemma keeps_shutdown: "keeps (shutdown env finished)"
  unfolding shutdown_def interrupt_remaining_runs_def
  by (intro turn keeps_interrupt_session keeps_frame) simp

lemma keeps_restart: "keeps (resume_ready_actions_after_restart env)"
  unfolding resume_ready_actions_after_restart_def resume_after_restart_def by (intro turn)

lemma keeps_cancel_session: "keeps (cancel_session_for_project_deletion env sid)"
  unfolding cancel_session_for_project_deletion_def by (intro turn keeps_frame) simp

lemma keeps_tokens: "keeps (set_token r)" "keeps (clear_token r)"
  unfolding set_token_def clear_token_def by (intro keeps_frame; simp)+

lemma keeps_max_turns: "keeps (max_model_turns env sid)"
  unfolding max_model_turns_def by (intro turn keeps_own_link)

lemma keeps_round: "(\<And>k. keeps (proc k)) \<Longrightarrow> keeps (session_round n env proc sid)"
  unfolding session_round_def
  by (intro turn keeps_max_turns keeps_tokens keeps_execute keeps_finish keeps_phase | assumption)+

lemma keeps_process: "keeps (process_session n env sid)"
proof (induction n arbitrary: sid)
  case (Suc n)
  show ?case by (simp only: process_session.simps) (intro turn keeps_round Suc.IH)
qed (simp add: turn)

lemma keeps_delete:
  "(\<And>pid. keeps (store_do (\<lambda>st. and_then (delete_project pid st) (\<lambda>st'. Inr ((), st'))))) \<Longrightarrow>
   keeps (sup_delete_project env pid)"
  unfolding sup_delete_project_def
  by (intro turn keeps_cancel_session keeps_frame | assumption | simp)+

lemmas keeps_worker = keeps_process keeps_cancel [OF keeps_process] keeps_shutdown keeps_restart

lemma keeps_discard: "keeps m \<Longrightarrow> keeps (discard m)"
  unfolding discard_def by (intro steps)

lemma keeps_command:
  assumes "\<And>pid. c = C_DeleteProject pid \<Longrightarrow> keeps (sup_delete_project env pid)"
  shows "keeps (run_command n env c)"
  using assms
  by (cases c)
     (simp_all add: run_command_def keeps_commands keeps_worker keeps_discard keeps_bind keeps_frame)

lemma keeps_control_steps:
  assumes "control_steps env allowed s t"
    and "\<And>pid. allowed (C_DeleteProject pid) \<Longrightarrow> keeps (sup_delete_project env pid)"
  shows "rel s t"
  using assms(1)
proof induction
  case none
  show ?case by (rule rel_refl)
next
  case (more s t c n r u)
  from keepsD [OF keeps_command more(3)] more(2) assms(2) have "rel t u" by blast
  with more.IH show ?case by (rule rel_trans)
qed

end

end
