(* ===== verification/Supervisor_Guarantees.thy ===== *)
theory Supervisor_Guarantees
  imports Control Store_Example
begin

text \<open>
  Guarantees of the control plane. Two relations are kept by every operation: the logs grow by
  exactly what was published, and the admission counters stay those of the reserved runs and within
  the limits. Both interpret the locale \<open>supervised\<close>.
\<close>

section \<open>Logs and the published stream\<close>

definition events_of :: "string \<Rightarrow> recorded_event list \<Rightarrow> semantic_event list" where
  "events_of sid ext = map re_event (filter (\<lambda>e. re_session_id e = sid) ext)"

text \<open>A log grows by the published events; a new session's log starts with its creation.\<close>

definition log_grows :: "semantic_event list \<Rightarrow> semantic_event list \<Rightarrow> semantic_event list \<Rightarrow> bool" where
  "log_grows l l' es \<longleftrightarrow> l' = l @ es \<or> (l = [] \<and> (\<exists>title. l' = SessionCreated title # es))"

definition serde_keeps :: "serde \<Rightarrow> recorded_event list \<Rightarrow> bool" where
  "serde_keeps sd ext \<longleftrightarrow>
     list_all (\<lambda>e. storable sd (re_event e)) ext \<and> (\<forall>title. storable sd (SessionCreated title))"

definition grows :: "serde \<Rightarrow> sup \<Rightarrow> sup \<Rightarrow> bool" where
  "grows sd s s' \<longleftrightarrow>
     (\<exists>ext. su_published s' = su_published s @ ext \<and>
        (store_ok sd (su_store s) \<and> serde_keeps sd ext \<longrightarrow>
         store_ok sd (su_store s') \<and>
         (\<forall>k. log_grows (session_log sd (su_store s) k) (session_log sd (su_store s') k) (events_of k ext))))"

lemma events_of_append [simp]: "events_of k (xs @ ys) = events_of k xs @ events_of k ys"
  by (simp add: events_of_def)

lemma events_of_Nil [simp]: "events_of k [] = []"
  by (simp add: events_of_def)

lemma serde_keeps_append [simp]: "serde_keeps sd (xs @ ys) \<longleftrightarrow> serde_keeps sd xs \<and> serde_keeps sd ys"
  by (auto simp: serde_keeps_def)

lemma log_grows_trans: "log_grows a b x \<Longrightarrow> log_grows b c y \<Longrightarrow> log_grows a c (x @ y)"
  by (auto simp: log_grows_def)

lemma log_grows_Nil [simp]: "log_grows l l []"
  by (simp add: log_grows_def)

lemma grows_refl: "grows sd s s"
  unfolding grows_def by (rule exI [of _ "[]"]) simp

lemma grows_trans:
  assumes "grows sd s t" and "grows sd t u"
  shows "grows sd s u"
proof -
  from assms(1) obtain x where x: "su_published t = su_published s @ x"
    "store_ok sd (su_store s) \<Longrightarrow> serde_keeps sd x \<Longrightarrow> store_ok sd (su_store t) \<and>
     (\<forall>k. log_grows (session_log sd (su_store s) k) (session_log sd (su_store t) k) (events_of k x))"
    unfolding grows_def by blast
  from assms(2) obtain y where y: "su_published u = su_published t @ y"
    "store_ok sd (su_store t) \<Longrightarrow> serde_keeps sd y \<Longrightarrow> store_ok sd (su_store u) \<and>
     (\<forall>k. log_grows (session_log sd (su_store t) k) (session_log sd (su_store u) k) (events_of k y))"
    unfolding grows_def by blast
  show ?thesis
    unfolding grows_def
  proof (intro exI [of _ "x @ y"] conjI impI)
    assume "store_ok sd (su_store s) \<and> serde_keeps sd (x @ y)"
    with x(2) y(2) show "store_ok sd (su_store u)"
      "\<forall>k. log_grows (session_log sd (su_store s) k) (session_log sd (su_store u) k) (events_of k (x @ y))"
      by (auto intro: log_grows_trans)
  qed (simp add: x(1) y(1))
qed

lemma grows_same_log:
  assumes "su_published s' = su_published s"
    and "store_ok sd (su_store s) \<Longrightarrow> store_ok sd (su_store s') \<and>
         (\<forall>k. session_log sd (su_store s') k = session_log sd (su_store s) k)"
  shows "grows sd s s'"
  unfolding grows_def using assms by (intro exI [of _ "[]"]) auto

text \<open>The steps on the store.\<close>

lemma projection_keeps:
  assumes "store_ok sd st" and "projection sd sid st = Inr (p, st')"
  shows "store_ok sd st' \<and> (\<forall>k. session_log sd st' k = session_log sd st k)"
proof (cases "find_session st sid")
  case None
  have "bt_get (st_cache st) sid = None"
    using cache_get [OF assms(1), of sid] None by (cases "bt_get (st_cache st) sid") auto
  with assms(2) None show ?thesis
    by (simp add: projection_def store_events_def ensure_session_def)
next
  case (Some r)
  obtain recs q where v: "session_view sd st sid r recs q" using assms(1) Some by (rule session_facts)
  then have "replay sd st sid = Inr q" by (simp add: session_view_def)
  from projection_ok [OF assms(1) Some this] assms(2) show ?thesis by auto
qed

lemma append_loop_recs:
  "append_loop sd sid clock p st es = Inr (recs, q, st') \<Longrightarrow>
   map re_event recs = es \<and> list_all (\<lambda>r. re_session_id r = sid) recs"
  by (induction es arbitrary: p st recs q st')
     (auto simp: and_then_eq_Inr map_err_eq_Inr Let_def split: prod.splits)

lemma append_events_recs:
  "append_events sd clock sid es st = Inr (recs, st') \<Longrightarrow>
   map re_event recs = es \<and> list_all (\<lambda>r. re_session_id r = sid) recs"
  by (auto simp: append_events_def append_commit_def and_then_eq_Inr split: if_splits prod.splits
      dest: append_loop_recs)

lemma store_ok_frame:
  assumes "store_ok sd st" and "st_sessions st' = st_sessions st" and "st_events st' = st_events st"
    and "st_projects st' = st_projects st" and "st_cache st' = st_cache st"
  shows "store_ok sd st' \<and> (\<forall>k. session_log sd st' k = session_log sd st k)"
proof -
  have find: "find_session st' k = find_session st k" for k using assms(2) by (rule find_session_cong)
  have proj: "find_project st' k = find_project st k" for k using assms(4) by (simp add: find_project_def)
  have rows: "session_rows st' k = session_rows st k" for k using assms(3) by (rule session_rows_same)
  have rep: "replay sd st' k = replay sd st k" for k by (rule replay_same) (rule rows)
  have sel: "select_events sd st' k = select_events sd st k" for k by (rule select_events_same) (rule rows)
  have "store_ok sd st'"
    using assms(1)
    by (simp only: store_ok_def refs_ok_def cache_ok_def row_agrees_def assms(2-5) find proj rep sel rows)
  then show ?thesis by (simp add: session_log_def sel)
qed

lemma store_ok_rules_links:
  "store_ok sd st \<Longrightarrow> store_ok sd (st\<lparr>st_links := x\<rparr>)" "session_log sd (st\<lparr>st_links := x\<rparr>) k = session_log sd st k"
  "store_ok sd st \<Longrightarrow> store_ok sd (st\<lparr>st_rules := y\<rparr>)" "session_log sd (st\<lparr>st_rules := y\<rparr>) k = session_log sd st k"
  using store_ok_frame [of sd st "st\<lparr>st_links := x\<rparr>"] store_ok_frame [of sd st "st\<lparr>st_rules := y\<rparr>"]
  by (simp_all add: session_log_def select_events_def session_rows_def)

lemma create_session_grows:
  assumes "store_ok sd st" and "create_session sd sid time title project st = Inr (x, st')"
    and "storable sd (SessionCreated title)"
  shows "store_ok sd st' \<and> (\<forall>k. log_grows (session_log sd st k) (session_log sd st' k) [])"
proof -
  from assms(2) have fresh: "find_session st sid = None"
    and proj: "case project of None \<Rightarrow> True | Some q \<Rightarrow> find_project st q \<noteq> None"
    by (auto simp: create_session_def create_session_with_retention_def insert_session_def
        and_then_eq_Inr split: option.splits if_splits)
  from create_session_ok [OF assms(1) fresh proj assms(3), of time Forever] assms(2)
  have c: "store_ok sd st'" "session_log sd st' sid = [SessionCreated title]"
    "\<And>k. k \<noteq> sid \<Longrightarrow> session_log sd st' k = session_log sd st k"
    by (auto simp: create_session_def)
  have "session_log sd st sid = []" using session_log_empty_iff [OF assms(1)] fresh by simp
  then have "log_grows (session_log sd st k) (session_log sd st' k) []" for k
    using c(2,3) by (cases "k = sid") (auto simp: log_grows_def)
  with c(1) show ?thesis by blast
qed

lemma store_do_Some:
  "store_do f s = Some (r, s') \<longleftrightarrow>
   (case f (su_store s) of
      Inl e \<Rightarrow> r = Inl e \<and> s' = s
    | Inr (x, st') \<Rightarrow> r = Inr x \<and> s' = s\<lparr>su_store := st'\<rparr>)"
  by (auto simp: store_do_def comp_iffs split: sum.splits prod.splits)

lemma sup_append_many_Some:
  "sup_append_many env sid es s = Some (r, s') \<Longrightarrow>
   (\<exists>e. append_events (en_serde env) (en_clock env) sid es (su_store s) = Inl e \<and> r = Inl e \<and> s' = s) \<or>
   (\<exists>recs st'. append_events (en_serde env) (en_clock env) sid es (su_store s) = Inr (recs, st') \<and>
      r = Inr recs \<and> s' = publish_all recs (s\<lparr>su_store := st'\<rparr>))"
  by (cases "append_events (en_serde env) (en_clock env) sid es (su_store s)")
     (auto simp: sup_append_many_def comp_iffs store_do_Some)

lemma append_event_Inr:
  "append_event sd clock sid e st = Inr (rec, st') \<Longrightarrow> append_events sd clock sid [e] st = Inr ([rec], st')"
proof -
  assume h: "append_event sd clock sid e st = Inr (rec, st')"
  then obtain recs st1 where a: "append_events sd clock sid [e] st = Inr (recs, st1)"
    by (cases "append_events sd clock sid [e] st") (auto simp: append_event_def)
  with append_events_recs [OF a] h have "recs = [rec] \<and> st1 = st'"
    by (cases recs) (auto simp: append_event_def)
  with a show ?thesis by simp
qed

lemma sup_append_Some:
  "sup_append env sid e s = Some (r, s') \<Longrightarrow>
   (\<exists>err. r = Inl err \<and> s' = s) \<or>
   (\<exists>rec st'. append_events (en_serde env) (en_clock env) sid [e] (su_store s) = Inr ([rec], st') \<and>
      r = Inr rec \<and> s' = publish_all [rec] (s\<lparr>su_store := st'\<rparr>))"
  by (cases "append_event (en_serde env) (en_clock env) sid e (su_store s)")
     (auto simp: sup_append_def comp_iffs store_do_Some dest: append_event_Inr)

lemma publish_all_simps [simp]:
  "su_store (publish_all recs s) = su_store s"
  "su_published (publish_all recs s) = su_published s @ recs"
  "su_fresh (publish_all recs s) = su_fresh s"
  by (simp_all add: publish_all_def)

lemma publish_grows:
  assumes "append_events sd clock sid es (su_store s) = Inr (recs, st')"
  shows "grows sd s (publish_all recs (s\<lparr>su_store := st'\<rparr>))"
proof -
  from append_events_recs [OF assms] have ev: "map re_event recs = es"
    and sid: "list_all (\<lambda>r. re_session_id r = sid) recs" by simp_all
  have "filter (\<lambda>e. re_session_id e = sid) recs = recs" using sid by (simp add: list_all_iff)
  then have own: "events_of sid recs = es" using ev by (simp add: events_of_def)
  have other: "events_of k recs = []" if "k \<noteq> sid" for k
    using sid that by (auto simp: events_of_def list_all_iff filter_empty_conv)
  have st: "list_all (storable sd) es" if "serde_keeps sd recs"
    using that ev by (auto simp: serde_keeps_def list_all_iff)
  have "log_grows (session_log sd (su_store s) k) (session_log sd st' k) (events_of k recs)"
    if "store_ok sd (su_store s)" "serde_keeps sd recs" for k
    using append_events_success [OF that(1) st [OF that(2)] assms] own other
    by (cases "k = sid") (auto simp: log_grows_def)
  moreover have "store_ok sd st'" if "store_ok sd (su_store s)" "serde_keeps sd recs"
    using append_events_success [OF that(1) st [OF that(2)] assms] by blast
  ultimately show ?thesis unfolding grows_def by (intro exI [of _ recs]) simp
qed

interpretation log_relation: state_relation "grows sd" for sd :: serde
  by unfold_locales (rule grows_refl, rule grows_trans)

lemma log_steps:
  "log_relation.keeps (en_serde env) (project_of env sid)"
  "log_relation.keeps (en_serde env) (sup_append env sid e)"
  "log_relation.keeps (en_serde env) (sup_append_many env sid es)"
proof -
  show "log_relation.keeps (en_serde env) (project_of env sid)"
    by (rule log_relation.keepsI, rule grows_same_log)
       (auto simp: project_of_def store_do_Some dest: projection_keeps split: sum.splits prod.splits)
  show "log_relation.keeps (en_serde env) (sup_append env sid e)"
    by (rule log_relation.keepsI) (auto dest!: sup_append_Some intro: grows_refl publish_grows)
  show "log_relation.keeps (en_serde env) (sup_append_many env sid es)"
    by (rule log_relation.keepsI) (auto dest!: sup_append_many_Some intro: grows_refl publish_grows)
qed

lemma log_creations:
  "log_relation.keeps (en_serde env) (store_do (create_session (en_serde env) sid time title project))"
  "log_relation.keeps sd (store_do (\<lambda>st. and_then (create_agent_link l st) (\<lambda>st'. Inr ((), st'))))"
  "log_relation.keeps sd (store_do (create_permission_rule rid time sc on_session on_project agent tool))"
proof -
  let ?sd = "en_serde env"
  show "log_relation.keeps ?sd (store_do (create_session ?sd sid time title project))"
  proof (rule log_relation.keepsI)
    fix s r s'
    assume run: "store_do (create_session ?sd sid time title project) s = Some (r, s')"
    show "grows ?sd s s'"
    proof (cases "create_session ?sd sid time title project (su_store s)")
      case (Inr q)
      obtain x st' where q: "q = (x, st')" by (cases q) blast
      with Inr run have s': "s' = s\<lparr>su_store := st'\<rparr>" by (simp add: store_do_Some)
      show ?thesis
        unfolding grows_def s'
        using create_session_grows [OF _ Inr [unfolded q]]
        by (intro exI [of _ "[]"]) (simp add: serde_keeps_def)
    qed (use run in \<open>simp add: store_do_Some grows_refl\<close>)
  qed
  show "log_relation.keeps sd (store_do (\<lambda>st. and_then (create_agent_link l st) (\<lambda>st'. Inr ((), st'))))"
    by (rule log_relation.keepsI, rule grows_same_log)
       (auto simp: store_do_Some create_agent_link_def store_ok_rules_links split: if_splits)
  show "log_relation.keeps sd (store_do (create_permission_rule rid time sc on_session on_project agent tool))"
    by (rule log_relation.keepsI, rule grows_same_log)
       (auto simp: store_do_Some create_permission_rule_def Let_def store_ok_rules_links split: if_splits)
qed

lemma log_admission:
  "log_relation.keeps sd (admit env sid)" "log_relation.keeps sd (release_run r)"
  by (auto intro!: log_relation.keepsI grows_same_log simp: admit_def new_uuid_def tick_def
      reserve_run_def release_run_def comp_iffs)

interpretation log_growth: supervised "grows (en_serde env)" env for env :: sup_env
  by unfold_locales (rule grows_same_log log_steps log_creations log_admission; simp)+

section \<open>Admission\<close>

text \<open>The counters are right and every reserved run has an id that was drawn.\<close>

definition admission_fresh :: "sup_env \<Rightarrow> sup \<Rightarrow> bool" where
  "admission_fresh env s \<longleftrightarrow>
     admission_ok (en_limits env) (su_admission s) \<and>
     dom (as_run_sessions (su_admission s)) \<subseteq> en_uuid env ` {..<su_fresh s}"

definition admits :: "sup_env \<Rightarrow> sup \<Rightarrow> sup \<Rightarrow> bool" where
  "admits env s s' \<longleftrightarrow>
     su_fresh s \<le> su_fresh s' \<and> (inj (en_uuid env) \<and> admission_fresh env s \<longrightarrow> admission_fresh env s')"

lemma fresh_mono:
  "admission_fresh env s \<Longrightarrow> su_admission s' = su_admission s \<Longrightarrow> su_fresh s \<le> su_fresh s' \<Longrightarrow>
   admission_fresh env s'"
  unfolding admission_fresh_def by auto

lemma admits_frame: "su_admission s' = su_admission s \<Longrightarrow> su_fresh s \<le> su_fresh s' \<Longrightarrow> admits env s s'"
  by (auto simp: admits_def intro: fresh_mono)

lemma release_fresh:
  assumes "admission_fresh env s"
  shows "admission_fresh env (s\<lparr>su_admission := release r (su_admission s)\<rparr>)"
proof -
  have ok: "admission_ok (en_limits env) (su_admission s)" using assms by (simp add: admission_fresh_def)
  have "dom ((as_run_sessions (su_admission s))(r := None)) \<subseteq> dom (as_run_sessions (su_admission s))" by auto
  with release_ok [OF ok, of r] assms show ?thesis by (auto simp: admission_fresh_def)
qed

lemma publish_fresh: "admission_fresh env s \<Longrightarrow> admission_fresh env (publish_all recs s)"
proof -
  have "admission_fresh env (s\<lparr>su_published := x,
      su_admission := foldl (\<lambda>a e. release_terminal_admission (re_event e) a) (su_admission s) recs\<rparr>)"
    if "admission_fresh env s" for s x
    using that
  proof (induction recs arbitrary: s)
    case Nil
    then show ?case by (simp add: admission_fresh_def)
  next
    case (Cons e recs)
    let ?a = "release_terminal_admission (re_event e) (su_admission s)"
    have "?a = su_admission s \<or> (\<exists>r. ?a = release r (su_admission s))"
      by (auto simp: release_terminal_admission_def split: semantic_event.splits)
    with Cons.prems have "admission_fresh env (s\<lparr>su_admission := ?a\<rparr>)" by (auto intro: release_fresh)
    from Cons.IH [OF this] show ?case by simp
  qed
  then show "admission_fresh env s \<Longrightarrow> admission_fresh env (publish_all recs s)"
    by (simp add: publish_all_def)
qed

lemma admit_fresh:
  assumes "inj (en_uuid env)" and "admission_fresh env s"
    and "reserve (en_limits env) sid (en_uuid env (su_fresh s)) (su_admission s) = Inr a"
    and "su_admission s' = a" and "su_fresh s' = Suc (su_fresh s)"
  shows "admission_fresh env s'"
proof -
  let ?id = "en_uuid env (su_fresh s)"
  have dom: "dom (as_run_sessions (su_admission s)) \<subseteq> en_uuid env ` {..<su_fresh s}"
    and ok: "admission_ok (en_limits env) (su_admission s)"
    using assms(2) by (simp_all add: admission_fresh_def)
  have "?id \<notin> en_uuid env ` {..<su_fresh s}" using inj_eq [OF assms(1)] by auto
  with dom have "as_run_sessions (su_admission s) ?id = None" by blast
  from reserve_ok [OF ok this assms(3)] dom show ?thesis
    by (auto simp: admission_fresh_def assms(4,5) lessThan_Suc)
qed

interpretation admission_relation: state_relation "admits env" for env :: sup_env
  by unfold_locales (auto simp: admits_def)

lemma admission_store_do: "admission_relation.keeps env (store_do f)"
  by (rule admission_relation.keepsI)
     (auto simp: store_do_Some intro!: admits_frame split: sum.splits prod.splits)

lemma publish_admits: "admits env s (publish_all recs (s\<lparr>su_store := st\<rparr>))"
  using publish_fresh [of env "s\<lparr>su_store := st\<rparr>" recs] fresh_mono [of env s "s\<lparr>su_store := st\<rparr>"]
  by (simp add: admits_def)

lemma admission_steps:
  "admission_relation.keeps env (project_of env sid)"
  "admission_relation.keeps env (sup_append env sid e)"
  "admission_relation.keeps env (sup_append_many env sid es)"
proof -
  show "admission_relation.keeps env (project_of env sid)"
    unfolding project_of_def by (rule admission_store_do)
  show "admission_relation.keeps env (sup_append env sid e)"
    by (rule admission_relation.keepsI) (auto dest!: sup_append_Some intro: admits_frame publish_admits)
  show "admission_relation.keeps env (sup_append_many env sid es)"
    by (rule admission_relation.keepsI)
       (auto dest!: sup_append_many_Some intro: admits_frame publish_admits)
qed

lemma admission_admit:
  "admission_relation.keeps env (admit env sid)" "admission_relation.keeps env (release_run r)"
proof -
  show "admission_relation.keeps env (admit env sid)"
  proof (rule admission_relation.keepsI)
    fix s r s'
    assume run: "admit env sid s = Some (r, s')"
    let ?res = "reserve (en_limits env) sid (en_uuid env (su_fresh s)) (su_admission s)"
    show "admits env s s'"
    proof (cases ?res)
      case (Inl e)
      with run have "s' = s\<lparr>su_fresh := Suc (su_fresh s)\<rparr>"
        by (auto simp: admit_def new_uuid_def tick_def reserve_run_def comp_iffs)
      then show ?thesis by (auto intro: admits_frame)
    next
      case (Inr a)
      with run have "su_admission s' = a" "su_fresh s' = Suc (su_fresh s)"
        by (auto simp: admit_def new_uuid_def tick_def reserve_run_def comp_iffs)
      with Inr show ?thesis by (auto simp: admits_def intro: admit_fresh)
    qed
  qed
  show "admission_relation.keeps env (release_run r)"
    by (rule admission_relation.keepsI) (auto simp: release_run_def comp_iffs admits_def intro: release_fresh)
qed

interpretation admission_bound: supervised "admits env" env for env :: sup_env
  by unfold_locales (rule admits_frame admission_steps admission_store_do admission_admit; simp)+

lemma start_fresh: "admission_fresh env (sup_start st)"
  by (simp add: admission_fresh_def sup_start_def admission_ok_default)
     (simp add: admission_default_def)

end
