(* ===== verification/Supervisor_Example.thy ===== *)
theory Supervisor_Example
  imports Supervisor_Guarantees
begin

text \<open>
  A small environment for evaluations: one provider, the conversions of \<open>Store_Example\<close>, fresh ids
  counted by a string of letters, and one session on disk.
\<close>

definition example_provider :: provider_config where
  "example_provider =
     \<lparr>pv_base_url = ''https://h/v1'', pv_protocol = ''chat'', pv_api_key = None,
      pv_api_key_env = None, pv_headers = [], pv_connect_timeout_seconds = 10,
      pv_models = None, pv_context = provider_context_default\<rparr>"

definition example_settings :: piqo_config where
  "example_settings =
     \<lparr>pq_defaults = body_layer_default, pq_providers = [(''p'', example_provider)],
      pq_models = [], pq_agents = [], pq_variants = [],
      pq_native_tools =
        \<lparr>nc_max_read_bytes = None, nc_max_read_lines = None, nc_max_write_bytes = None,
         nc_max_result_bytes = None, nc_max_result_lines = None, nc_bash_timeout_seconds = None,
         nc_termination_grace_millis = None, nc_shell = None\<rparr>,
      pq_mcp_servers = [],
      pq_context =
        \<lparr>xc_fallback_context_window_tokens = 100, xc_fallback_output_reserve_tokens = 10,
         xc_trigger_ratio = None, xc_target_ratio = None, xc_compaction = compaction_default\<rparr>,
      pq_orchestration = orchestration_default, pq_resource_limits = resource_limits_default,
      pq_backup_directory = None, pq_markdown_agents = []\<rparr>"

definition example_uuid :: "nat \<Rightarrow> string" where
  "example_uuid n = replicate n (CHR ''u'')"

definition example_sup :: sup_env where
  "example_sup =
     \<lparr>en_serde = example_serde, en_clock = (\<lambda>_. ''t1''), en_uuid = example_uuid, en_now = (\<lambda>_. ''t1''),
      en_limits = resource_limits_default, en_config = example_settings,
      en_config_env = \<lparr>ce_var = (\<lambda>_. None), ce_url_scheme = (\<lambda>_. Inr ''https''),
        ce_header_name = (\<lambda>_. Inr ()), ce_header_value = (\<lambda>_. Inr ())\<rparr>,
      en_request_to_value = (\<lambda>_. JNull), en_request_from_value = (\<lambda>_. None),
      en_result_to_value = (\<lambda>_. JNull), en_permissions_to_value = (\<lambda>_. JNull),
      en_permissions_from_value = (\<lambda>_. None), en_delegation_from_value = (\<lambda>_. None),
      en_blocks_to_value = (\<lambda>_. JNull), en_show_config = (\<lambda>_. ''config''),
      en_show_store = (\<lambda>_. ''store''), en_native = (\<lambda>_ _ _ _. Inr JNull), en_mcp_catalog = [],
      en_mcp_call = (\<lambda>_ _ _. Inr JNull), en_metadata = (\<lambda>_ _. None),
      en_build_request = (\<lambda>_ _ _. Inr ()), en_recent = (\<lambda>_. True), en_hash_order = (\<lambda>_ ks. ks),
      en_mul_ceil = (\<lambda>n _. n), en_mul_floor = (\<lambda>n _. n), en_show_decode = (\<lambda>_. ''decode''),
      en_show_utf8 = (\<lambda>_. ''utf8''), en_show_status = (\<lambda>_. ''status''), en_show_merge = (\<lambda>_. ''merge''),
      en_show_transport = (\<lambda>_. ''transport'')\<rparr>"

definition example_disk :: store where
  "example_disk =
     (case create_session example_serde ''s'' ''t0'' None None store_empty of
        Inr (_, st) \<Rightarrow> st | Inl _ \<Rightarrow> store_empty)"

definition example_request :: run_request where
  "example_request =
     \<lparr>rq_provider = ''p'', rq_model = ''m'', rq_input = JStr ''hi'', rq_agent = None, rq_variant = None,
      rq_body = JObj []\<rparr>"

lemma example_disk_ok:
  "store_ok example_serde example_disk" "session_log example_serde example_disk ''s'' = [SessionCreated None]"
proof -
  have "find_session store_empty ''s'' = None" by (simp add: find_session_def store_empty_def)
  from create_session_ok [OF store_ok_empty this _ example_storable(1) [of None], of None "''t0''" Forever]
  obtain x st where "create_session example_serde ''s'' ''t0'' None None store_empty = Inr (x, st)"
    "store_ok example_serde st" "session_log example_serde st ''s'' = [SessionCreated None]"
    by (auto simp: create_session_def)
  then show "store_ok example_serde example_disk"
    "session_log example_serde example_disk ''s'' = [SessionCreated None]"
    by (simp_all add: example_disk_def)
qed

lemma example_uuid_inj: "inj (en_uuid example_sup)"
  by (rule injI) (simp add: example_sup_def example_uuid_def)

text \<open>The session on disk, and queueing a run there.\<close>

lemmas store_eval = create_session_def create_session_with_retention_def insert_session_def
  insert_event_row_def insert_event_def find_session_def find_project_def get_session_def
  summary_from_row_def retention_parse_def parse_phase_def store_empty_def i64_try_from_def
  i64_max_def bt_empty_def Let_def

lemma example_disk_eval:
  "example_disk =
     \<lparr>st_sessions = [\<lparr>sr_id = ''s'', sr_title = None, sr_project_id = None, sr_parent_session_id = None,
        sr_forked_at_event_id = None, sr_created_at = ''t0'', sr_updated_at = ''t0'',
        sr_phase = ''created'', sr_revision = 0, sr_last_event_id = 1, sr_history_retention = ''forever''\<rparr>],
      st_events = [\<lparr>er_session_id = ''s'', er_event_id = 1, er_schema_version = EVENT_SCHEMA_VERSION,
        er_type = ''session_created'', er_data = ''t'', er_occurred_at = ''t0''\<rparr>],
      st_projects = [], st_rules = [], st_links = [], st_cache = []\<rparr>"
  by (simp add: example_disk_def store_eval example_defs EVENT_SCHEMA_VERSION_def)

definition example_created :: session_projection where
  "example_created =
     (case project_log ''s'' [\<lparr>re_id = 1, re_session_id = ''s'', re_schema_version = EVENT_SCHEMA_VERSION,
         re_occurred_at = ''t0'', re_event = SessionCreated None, re_raw_data = Some (jobj [(''title'', JNull)])\<rparr>] of
        Inr p \<Rightarrow> p | Inl _ \<Rightarrow> projection_new ''s'')"

lemma example_projects:
  "projection example_serde ''s'' example_disk =
     Inr (example_created, example_disk\<lparr>st_cache := [(''s'', example_created)]\<rparr>)"
  by (simp add: example_disk_eval projection_def store_events_def ensure_session_def find_session_def
      session_rows_def recorded_from_row_def example_defs i64_try_from_def i64_max_def u32_max_def
      Let_def example_created_def project_log_def EVENT_SCHEMA_VERSION_def u16_max_def replay_defs)

lemma example_created_eval: "sp_queue_paused example_created = False" "sp_runs example_created = []"
  "ss_phase (sp_state example_created) = S_Created"
  by (simp_all add: example_created_def project_log_def replay_defs EVENT_SCHEMA_VERSION_def)

lemma example_append:
  "\<exists>st'. append_events example_serde (\<lambda>_. ''t1'') ''s'' [RunQueued [] None ''p'' ''m'' JNull]
     (example_disk\<lparr>st_cache := [(''s'', example_created)]\<rparr>) =
   Inr ([\<lparr>re_id = 2, re_session_id = ''s'', re_schema_version = EVENT_SCHEMA_VERSION,
          re_occurred_at = ''t1'', re_event = RunQueued [] None ''p'' ''m'' JNull, re_raw_data = None\<rparr>], st')"
  by (simp add: example_disk_eval append_events_def append_commit_def store_eval next_event_id_def
      update_session_def example_created_def project_log_def replay_defs example_defs
      EVENT_SCHEMA_VERSION_def)

lemma example_queue:
  obtains s' where "queue_run example_sup ''s'' example_request (sup_start example_disk) = Some (Inr [], s')"
    and "su_published s' = [\<lparr>re_id = 2, re_session_id = ''s'', re_schema_version = EVENT_SCHEMA_VERSION,
       re_occurred_at = ''t1'', re_event = RunQueued [] None ''p'' ''m'' JNull, re_raw_data = None\<rparr>]"
proof -
  obtain st' where a: "append_events example_serde (\<lambda>_. ''t1'') ''s'' [RunQueued [] None ''p'' ''m'' JNull]
     (example_disk\<lparr>st_cache := [(''s'', example_created)]\<rparr>) =
   Inr ([\<lparr>re_id = 2, re_session_id = ''s'', re_schema_version = EVENT_SCHEMA_VERSION,
          re_occurred_at = ''t1'', re_event = RunQueued [] None ''p'' ''m'' JNull, re_raw_data = None\<rparr>], st')"
    using example_append by blast
  have g: "\<exists>x. get_session ''s'' example_disk = Inr x \<and> sm_project_id x = None"
    by (simp add: example_disk_eval store_eval)
  show thesis
    using g a that
    by (auto simp: queue_run_def bind_def run_simps ensure_accepting_def ensure_session_mutable_def
        store_read_def store_do_def project_of_def check_def admit_def new_uuid_def tick_def
        reserve_run_def sup_append_def append_event_def attempt_def spawn_worker_def
        example_sup_def example_projects example_created_eval example_request_def sup_start_def
        example_settings_def example_provider_def resolve_provider_def provider_resolve_def
        guard_err_def protocol_from_str_def or_else_def reserve_def admission_default_def
        resource_limits_default_def unwrap_or_def example_uuid_def publish_all_def Let_def)
qed

end
