(* ===== verification/Streams.thy ===== *)
theory Streams
  imports Execution
begin

text \<open>
  Streamed responses: where the server-sent events end, that the frames do not depend on how the
  bytes arrive, and that the loops over a response end.
\<close>

section \<open>Frame ends\<close>

text \<open>A delimiter starts at position \<open>i\<close>.\<close>

definition occurs_at :: "string \<Rightarrow> string \<Rightarrow> nat \<Rightarrow> bool" where
  "occurs_at p s i \<longleftrightarrow> i + length p \<le> length s \<and> take (length p) (drop i s) = p"

lemma starts_with_occurs: "starts_with p s \<longleftrightarrow> occurs_at p s 0"
proof
  assume "occurs_at p s 0"
  then have "s = p @ drop (length p) s" using append_take_drop_id [of "length p" s] by (simp add: occurs_at_def)
  then show "starts_with p s" unfolding starts_with_iff by blast
qed (auto simp: occurs_at_def starts_with_iff)

lemma occurs_at_Cons [simp]: "occurs_at p (c # s) (Suc i) \<longleftrightarrow> occurs_at p s i"
  by (simp add: occurs_at_def)

lemma position_of_Some:
  "position_of p s = Some i \<longleftrightarrow> occurs_at p s i \<and> (\<forall>j<i. \<not> occurs_at p s j)"
proof (induction s arbitrary: i)
  case Nil
  show ?case by (auto simp: occurs_at_def)
next
  case (Cons c s)
  show ?case
  proof (cases i)
    case 0
    then show ?thesis by (auto simp: starts_with_occurs)
  next
    case (Suc k)
    have "(\<forall>j<Suc k. \<not> occurs_at p (c # s) j) \<longleftrightarrow>
          \<not> occurs_at p (c # s) 0 \<and> (\<forall>j<k. \<not> occurs_at p s j)"
      by (auto simp: less_Suc_eq_0_disj)
    with Suc Cons.IH [of k] show ?thesis by (auto simp: starts_with_occurs)
  qed
qed

lemma position_of_None: "position_of p s = None \<longleftrightarrow> (\<forall>i. \<not> occurs_at p s i)"
proof (induction s)
  case Nil
  show ?case by (auto simp: occurs_at_def)
next
  case (Cons c s)
  have "(\<forall>i. \<not> occurs_at p (c # s) i) \<longleftrightarrow> \<not> occurs_at p (c # s) 0 \<and> (\<forall>i. \<not> occurs_at p s i)"
    by (metis occurs_at_Cons old.nat.exhaust)
  with Cons show ?case by (simp add: starts_with_occurs)
qed

lemma occurs_at_append: "occurs_at p s i \<Longrightarrow> occurs_at p (s @ b) i"
  by (auto simp: occurs_at_def)

lemma occurs_at_prefix: "occurs_at p (s @ b) i \<Longrightarrow> i + length p \<le> length s \<Longrightarrow> occurs_at p s i"
  by (auto simp: occurs_at_def)

lemma occurs_at_nth: "occurs_at p s i \<Longrightarrow> k < length p \<Longrightarrow> s ! (i + k) = p ! k"
  by (metis (no_types, lifting) add_leD1 nth_drop nth_take occurs_at_def)

definition frame_end :: "string \<Rightarrow> nat \<Rightarrow> nat \<Rightarrow> bool" where
  "frame_end s i n \<longleftrightarrow> (n = 2 \<and> occurs_at [LF, LF] s i) \<or> (n = 4 \<and> occurs_at [CR, LF, CR, LF] s i)"

lemma frame_end_unique: "frame_end s i n \<Longrightarrow> frame_end s i m \<Longrightarrow> m = n"
  using occurs_at_nth [of "[LF, LF]" s i 0] occurs_at_nth [of "[CR, LF, CR, LF]" s i 0]
  by (auto simp: frame_end_def)

lemma find_sse_frame_end_None: "find_sse_frame_end s = None \<Longrightarrow> \<not> frame_end s j m"
  by (auto simp: find_sse_frame_end_def frame_end_def position_of_None split: option.splits if_splits)

lemma find_sse_frame_end_first:
  assumes "find_sse_frame_end s = Some (i, n)"
  shows "frame_end s i n \<and> (\<forall>j<i. \<forall>m. \<not> frame_end s j m)"
proof -
  consider (lf) "position_of [LF, LF] s = Some i" "n = 2"
      "\<And>c. position_of [CR, LF, CR, LF] s = Some c \<Longrightarrow> i \<le> c"
    | (crlf) "position_of [CR, LF, CR, LF] s = Some i" "n = 4"
      "\<And>l. position_of [LF, LF] s = Some l \<Longrightarrow> i \<le> l"
    using assms by (auto simp: find_sse_frame_end_def split: option.splits if_splits)
  then show ?thesis
  proof cases
    case lf
    have "\<not> occurs_at [CR, LF, CR, LF] s j" if "j < i" for j
      using lf(3) that
      by (cases "position_of [CR, LF, CR, LF] s") (auto simp: position_of_None position_of_Some)
    with lf show ?thesis by (auto simp: frame_end_def position_of_Some)
  next
    case crlf
    have "\<not> occurs_at [LF, LF] s j" if "j < i" for j
      using crlf(3) that by (cases "position_of [LF, LF] s") (auto simp: position_of_None position_of_Some)
    with crlf show ?thesis by (auto simp: frame_end_def position_of_Some)
  qed
qed

lemma find_sse_frame_end_Some:
  "find_sse_frame_end s = Some (i, n) \<longleftrightarrow> frame_end s i n \<and> (\<forall>j<i. \<forall>m. \<not> frame_end s j m)"
proof
  assume r: "frame_end s i n \<and> (\<forall>j<i. \<forall>m. \<not> frame_end s j m)"
  then obtain i' n' where f: "find_sse_frame_end s = Some (i', n')"
    using find_sse_frame_end_None [of s i n] by (cases "find_sse_frame_end s") auto
  from find_sse_frame_end_first [OF f] r have "i = i'" by (metis linorder_neqE_nat)
  with find_sse_frame_end_first [OF f] r f show "find_sse_frame_end s = Some (i, n)"
    using frame_end_unique by blast
qed (rule find_sse_frame_end_first)

text \<open>More bytes do not move the first end of a frame.\<close>

lemma frame_end_append: "frame_end s i n \<Longrightarrow> frame_end (s @ b) i n"
  by (auto simp: frame_end_def occurs_at_append)

lemma find_sse_frame_end_append:
  assumes "find_sse_frame_end s = Some (i, n)"
  shows "find_sse_frame_end (s @ b) = Some (i, n)"
proof -
  from assms have e: "frame_end s i n" and first: "\<And>j m. j < i \<Longrightarrow> \<not> frame_end s j m"
    by (auto simp: find_sse_frame_end_Some)
  have "\<not> frame_end (s @ b) j m" if "j < i" for j m
  proof
    assume f: "frame_end (s @ b) j m"
    have long: "i + n \<le> length s" using e by (auto simp: frame_end_def occurs_at_def)
    have "j + m \<le> length s"
    proof (rule ccontr)
      assume "\<not> j + m \<le> length s"
      with long that e f have j: "i = Suc j" "m = 4" "n = 2" by (auto simp: frame_end_def)
      with e f have "s ! (i + 1) = LF" "(s @ b) ! (j + 2) = CR"
        using occurs_at_nth [of "[LF, LF]" s i 1] occurs_at_nth [of "[CR, LF, CR, LF]" "s @ b" j 2]
        by (auto simp: frame_end_def)
      with j long show False by (simp add: nth_append)
    qed
    with f have "frame_end s j m" by (auto simp: frame_end_def dest: occurs_at_prefix)
    with first [OF that] show False by blast
  qed
  with frame_end_append [OF e] show ?thesis by (simp add: find_sse_frame_end_Some)
qed

lemma frame_end_length: "frame_end s i n \<Longrightarrow> i + n \<le> length s"
  by (auto simp: frame_end_def occurs_at_def)

text \<open>Splitting what has arrived and going on with the rest is splitting everything.\<close>

lemma split_frames_append:
  "split_frames (s @ b) =
     (case split_frames s of (frames, rest) \<Rightarrow>
        (case split_frames (rest @ b) of (later, rest') \<Rightarrow> (frames @ later, rest')))"
proof (induction s rule: split_frames.induct)
  case (1 s)
  show ?case
  proof (cases "find_sse_frame_end s")
    case None
    then have "split_frames s = ([], s)" by (simp add: split_frames.simps)
    then show ?thesis by (simp split: prod.splits)
  next
    case (Some q)
    obtain i n where q: "q = (i, n)" by (cases q)
    have len: "i + n \<le> length s"
      using Some q frame_end_length by (auto simp: find_sse_frame_end_Some)
    have "split_frames (s @ b) =
        (case split_frames (drop (i + n) s @ b) of (fs, r) \<Rightarrow> (take i s # fs, r))"
      using find_sse_frame_end_append [of s i n b] Some q len
      by (simp add: split_frames.simps [of "s @ b"])
    moreover have "split_frames s =
        (case split_frames (drop (i + n) s) of (fs, r) \<Rightarrow> (take i s # fs, r))"
      using Some q by (simp add: split_frames.simps [of s])
    ultimately show ?thesis
      using 1 [OF Some q [symmetric]] q by (simp split: prod.splits)
  qed
qed

lemma split_frames_rest: "split_frames s = (fs, r) \<Longrightarrow> split_frames r = ([], r)"
proof (induction s arbitrary: fs rule: split_frames.induct)
  case (1 s)
  show ?case
  proof (cases "find_sse_frame_end s")
    case None
    then have "split_frames s = ([], s)" by (simp add: split_frames.simps [of s])
    with "1.prems" show ?thesis by simp
  next
    case (Some q)
    obtain i n where q: "q = (i, n)" by (cases q)
    obtain gs where "split_frames (drop (i + n) s) = (gs, r)"
      using "1.prems" Some q by (auto simp: split_frames.simps [of s] split: prod.splits)
    with 1(1) [OF Some q [symmetric]] show ?thesis by blast
  qed
qed

section \<open>Steps that do not look at the script\<close>

definition script_blind :: "'a act \<Rightarrow> bool" where
  "script_blind m \<longleftrightarrow>
     (\<forall>s x. m (s\<lparr>su_script := x\<rparr>) = map_option (\<lambda>(r, t). (r, t\<lparr>su_script := x\<rparr>)) (m s))"

lemma blind_run: "script_blind m \<Longrightarrow> m (s\<lparr>su_script := x\<rparr>) = map_option (\<lambda>(r, t). (r, t\<lparr>su_script := x\<rparr>)) (m s)"
  by (simp add: script_blind_def)

lemma blind_basic:
  "script_blind (ret x)" "script_blind (raise e)" "script_blind (of_result r)"
  "script_blind (require e v)" "script_blind (check b e)"
  by (simp_all add: script_blind_def run_simps require_def check_def)

lemma blind_bind: "script_blind m \<Longrightarrow> (\<And>x. script_blind (f x)) \<Longrightarrow> script_blind (bind m f)"
  by (fastforce simp: script_blind_def bind_def split: option.splits sum.splits prod.splits)

lemma blind_attempt: "script_blind m \<Longrightarrow> script_blind (attempt m)"
  by (auto simp: script_blind_def attempt_def split: option.splits)

lemma blind_cases:
  "script_blind m \<Longrightarrow> script_blind n \<Longrightarrow> script_blind (if b then m else n)"
  "script_blind m \<Longrightarrow> (\<And>x. script_blind (f x)) \<Longrightarrow> script_blind (case_option m f v)"
  "(\<And>x. script_blind (h x)) \<Longrightarrow> (\<And>x. script_blind (k x)) \<Longrightarrow> script_blind (case_sum h k w)"
  "(\<And>x y. script_blind (g x y)) \<Longrightarrow> script_blind (case_prod g q)"
  "(\<And>x. script_blind (f' x)) \<Longrightarrow> script_blind (Let u f')"
  "script_blind m \<Longrightarrow> (\<And>x. script_blind (k' x)) \<Longrightarrow> script_blind n \<Longrightarrow> script_blind (case_delta_result m k' n d)"
  by (auto split: option.splits sum.splits prod.splits delta_result.splits)

lemma blind_steps:
  "script_blind (store_read f)" "script_blind (store_do g)" "script_blind tick"
  "script_blind (sup_append env sid e)"
  by (auto simp: script_blind_def store_read_def store_do_def tick_def sup_append_def publish_all_def
      bind_def run_simps split: option.splits sum.splits prod.splits)

lemmas blind_rules = blind_basic blind_bind blind_attempt blind_cases blind_steps

lemma blind_persist: "script_blind (persist env sid run_id mid d)"
  unfolding persist_def persist_delta_def is_native_call_def project_of_def find_run_def
    read_request_def new_uuid_def
  by (cases d; simp only: provider_delta.case) (intro blind_rules)+

lemma blind_flush_tools: "script_blind (flush_tools env sid run_id mid st bs)"
  by (induction bs arbitrary: st)
     (simp_all only: flush_tools.simps, (intro blind_rules blind_persist | assumption)+)

lemma blind_stream_delta: "script_blind (stream_delta env sid run_id mid st d)"
  unfolding stream_delta_def take_tools_def flush_text_def
  by (cases d; simp only: provider_delta.case) (intro blind_rules blind_persist blind_flush_tools)+

lemma blind_stream_deltas: "script_blind (stream_deltas env sid run_id mid st ds)"
  by (induction ds arbitrary: st)
     (simp_all only: stream_deltas.simps, (intro blind_rules blind_stream_delta | assumption)+)

lemma blind_stream_frames: "script_blind (stream_frames env protocol sid run_id mid st fs)"
  unfolding stream_frame_def
proof (induction fs arbitrary: st)
  case (Cons f fs)
  then show ?case
    by (simp only: stream_frames.simps stream_frame_def) (intro blind_rules blind_stream_deltas | assumption)+
qed (simp add: blind_rules)

section \<open>Chunks\<close>

lemma stream_frames_append:
  "\<not> stream_over st \<Longrightarrow>
   stream_frames env protocol sid run_id mid st (fs @ gs) =
   bind (stream_frames env protocol sid run_id mid st fs) (\<lambda>st.
     if stream_over st then ret st else stream_frames env protocol sid run_id mid st gs)"
proof (induction fs arbitrary: st)
  case (Cons f fs)
  have "bind (stream_frame env protocol sid run_id mid st f) (\<lambda>st.
      if stream_over st then ret st else stream_frames env protocol sid run_id mid st (fs @ gs)) =
    bind (stream_frame env protocol sid run_id mid st f) (\<lambda>st.
      bind (if stream_over st then ret st else stream_frames env protocol sid run_id mid st fs) (\<lambda>st.
        if stream_over st then ret st else stream_frames env protocol sid run_id mid st gs))"
    by (rule arg_cong [of _ _ "bind _"], rule ext) (simp add: Cons.IH)
  then show ?case by (simp add: bind_assoc)
qed simp

text \<open>The state but for the script.\<close>

definition unscripted :: "(('e, 'a) result \<times> sup) option \<Rightarrow> (('e, 'a) result \<times> sup) option" where
  "unscripted q = map_option (\<lambda>(r, t). (r, t\<lparr>su_script := []\<rparr>)) q"

lemma await_run:
  "await (s\<lparr>su_script := w # ws\<rparr>) =
   Some (Inr w, (if w = W_Shutdown then s\<lparr>su_script := ws, su_shutdown := True\<rparr> else s\<lparr>su_script := ws\<rparr>))"
  by (simp add: await_def bind_def run_simps when_do_def)

text \<open>The loop over a response that ends by itself, in terms of all its bytes.\<close>

lemma stream_loop_chunks:
  assumes "split_frames buffer = ([], buffer)" and "\<not> stream_over st"
  shows "unscripted (stream_loop env timed protocol sid run_id mid buffer st
           (map W_Chunk cs @ [W_EndOfBody]) (s\<lparr>su_script := map W_Chunk cs @ [W_EndOfBody]\<rparr>)) =
         unscripted (bind (stream_frames env protocol sid run_id mid st
           (fst (split_frames (buffer @ concat cs)))) (\<lambda>st. ret (Inr st)) s)"
  using assms
proof (induction cs arbitrary: buffer st s)
  case Nil
  then show ?case by (simp add: await_run run_simps unscripted_def)
next
  case (Cons c cs)
  let ?frames = "stream_frames env protocol sid run_id mid"
  let ?loop = "stream_loop env timed protocol sid run_id mid"
  let ?ws = "map W_Chunk cs @ [W_EndOfBody]"
  obtain fs r where f: "split_frames (buffer @ c) = (fs, r)" by (cases "split_frames (buffer @ c)")
  obtain gs r' where g: "split_frames (r @ concat cs) = (gs, r')" by (cases "split_frames (r @ concat cs)")
  have r: "split_frames r = ([], r)" using f by (rule split_frames_rest)
  have all: "fst (split_frames (buffer @ c @ concat cs)) = fs @ gs"
    using split_frames_append [of "buffer @ c" "concat cs"] f g by simp
  let ?f = "\<lambda>st. if stream_over st then ret (Inr st) else ?loop r st ?ws"
  let ?g = "\<lambda>st. bind (if stream_over st then ret st else ?frames st gs) (\<lambda>st. ret (Inr st))"
  have step: "unscripted (?f st (t\<lparr>su_script := ?ws\<rparr>)) = unscripted (?g st t)" for st t
  proof (cases "stream_over st")
    case False
    from Cons.IH [OF r False, of t] False show ?thesis by (simp add: g)
  qed (simp add: run_simps unscripted_def)
  have "?loop buffer st (W_Chunk c # ?ws) (s\<lparr>su_script := W_Chunk c # ?ws\<rparr>) =
        bind (?frames st fs) ?f (s\<lparr>su_script := ?ws\<rparr>)"
    by (simp add: run_simps await_run f)
  moreover have "unscripted (bind (?frames st fs) ?f (s\<lparr>su_script := ?ws\<rparr>)) =
        unscripted (bind (?frames st fs) ?g s)"
  proof (cases "?frames st fs s")
    case (Some q)
    obtain r0 t where q: "q = (r0, t)" by (cases q)
    have run: "?frames st fs (s\<lparr>su_script := ?ws\<rparr>) = Some (r0, t\<lparr>su_script := ?ws\<rparr>)"
      using Some q by (simp add: blind_run [OF blind_stream_frames])
    show ?thesis
    proof (cases r0)
      case (Inr x)
      with Some q run step [of x t] show ?thesis by (simp only: run_bind(1) prod.sel)
    qed (use Some q run in \<open>simp add: run_simps unscripted_def\<close>)
  qed (simp add: run_simps blind_run [OF blind_stream_frames] unscripted_def)
  ultimately show ?case
    by (simp add: all stream_frames_append [OF Cons.prems(2)] bind_assoc)
qed

section \<open>Ends\<close>

lemma returns_store: "returns (store_read f)" "returns (store_do g)" "returns tick"
  unfolding store_read_def store_do_def tick_def by (intro returns_intros)+

lemma returns_supervisor:
  "returns (sup_append env sid e)" "returns (project_of env sid)" "returns (find_run p r)"
  "returns (read_request env run)" "returns (new_uuid env)"
  unfolding sup_append_def project_of_def find_run_def read_request_def new_uuid_def
  by (intro returns_intros returns_store)+

lemma returns_Let: "(\<And>x. returns (f x)) \<Longrightarrow> returns (Let u f)"
  by (simp add: Let_def)

lemma returns_case_delta:
  "returns m \<Longrightarrow> (\<And>x. returns (f x)) \<Longrightarrow> returns n \<Longrightarrow> returns (case_delta_result m f n d)"
  by (cases d) simp_all

lemmas returns_rules = returns_intros returns_store returns_supervisor returns_Let returns_case_delta

lemma returns_persist: "returns (persist env sid run_id mid d)"
  unfolding persist_def persist_delta_def is_native_call_def
  by (cases d; simp only: provider_delta.case) (intro returns_rules)+

lemma returns_flush_tools: "returns (flush_tools env sid run_id mid st bs)"
  by (induction bs arbitrary: st)
     (simp_all only: flush_tools.simps, (intro returns_rules returns_persist | assumption)+)

lemma returns_flush_text: "returns (flush_text env sid run_id mid st)"
  unfolding flush_text_def by (intro returns_rules returns_persist)

lemma returns_stream_delta: "returns (stream_delta env sid run_id mid st d)"
  unfolding stream_delta_def take_tools_def
  by (cases d; simp only: provider_delta.case)
     (intro returns_rules returns_persist returns_flush_tools returns_flush_text)+

lemma returns_stream_deltas: "returns (stream_deltas env sid run_id mid st ds)"
  by (induction ds arbitrary: st)
     (simp_all only: stream_deltas.simps, (intro returns_rules returns_stream_delta | assumption)+)

lemma returns_stream_frames: "returns (stream_frames env protocol sid run_id mid st fs)"
proof (induction fs arbitrary: st)
  case (Cons f fs)
  then show ?case
    by (simp only: stream_frames.simps stream_frame_def) (intro returns_rules returns_stream_deltas | assumption)+
qed (simp add: returns_rules)

text \<open>What may come while the response lasts, and what ends it.\<close>

definition goes_on :: "outside_event \<Rightarrow> bool" where
  "goes_on w = (case w of W_Chunk _ \<Rightarrow> True | W_FlushTick \<Rightarrow> True | _ \<Rightarrow> False)"

definition ends_stream :: "outside_event \<Rightarrow> bool" where
  "ends_stream w =
     (case w of W_EndOfBody \<Rightarrow> True | W_ChunkFailed _ \<Rightarrow> True | W_Cancelled \<Rightarrow> True | W_Shutdown \<Rightarrow> True | _ \<Rightarrow> False)"

lemma returns_then:
  assumes "returns m" and "script_blind m"
    and "\<And>y t. f y (t\<lparr>su_script := ws\<rparr>) \<noteq> None"
  shows "bind m f (s\<lparr>su_script := ws\<rparr>) \<noteq> None"
proof -
  obtain r t where m: "m s = Some (r, t)" using assms(1) unfolding returns_def by fastforce
  then have "m (s\<lparr>su_script := ws\<rparr>) = Some (r, t\<lparr>su_script := ws\<rparr>)"
    by (simp add: blind_run [OF assms(2)])
  with assms(3) show ?thesis by (cases r) (auto simp: run_simps)
qed

lemma blind_flush_text: "script_blind (flush_text env sid run_id mid st)"
  unfolding flush_text_def by (intro blind_rules blind_persist)

lemma stream_loop_returns:
  assumes "list_all goes_on ws" and "ends_stream w"
  shows "stream_loop env timed protocol sid run_id mid buffer st (ws @ [w]) (s\<lparr>su_script := ws @ [w]\<rparr>) \<noteq> None"
  using assms(1)
proof (induction ws arbitrary: buffer st s)
  case Nil
  with assms(2) show ?case
    by (cases w) (simp_all add: ends_stream_def run_simps await_run)
next
  case (Cons v ws)
  let ?loop = "\<lambda>buffer st. stream_loop env timed protocol sid run_id mid buffer st (ws @ [w])"
  have go: "?loop b st (t\<lparr>su_script := ws @ [w]\<rparr>) \<noteq> None" for b st t
    using Cons by simp
  consider (chunk) c where "v = W_Chunk c" | (flush) "v = W_FlushTick"
    using Cons.prems by (cases v) (auto simp: goes_on_def)
  then show ?case
  proof cases
    case chunk
    obtain fs r where f: "split_frames (buffer @ c) = (fs, r)" by (cases "split_frames (buffer @ c)")
    have "bind (stream_frames env protocol sid run_id mid st fs)
        (\<lambda>st. if stream_over st then ret (Inr st) else ?loop r st) (s\<lparr>su_script := ws @ [w]\<rparr>) \<noteq> None"
      by (rule returns_then [OF returns_stream_frames blind_stream_frames])
         (use go in \<open>simp add: run_simps\<close>)
    then show ?thesis by (simp add: chunk run_simps await_run f)
  next
    case flush
    have "bind (flush_text env sid run_id mid st)
        (\<lambda>(st, stop). if stop then ret (Inr st) else ?loop buffer st) (s\<lparr>su_script := ws @ [w]\<rparr>) \<noteq> None"
      by (rule returns_then [OF returns_flush_text blind_flush_text])
         (use go in \<open>simp add: run_simps split: prod.splits\<close>)
    then show ?thesis using go by (simp add: flush run_simps await_run)
  qed
qed

section \<open>Results\<close>

text \<open>What a computation can answer.\<close>

definition yields :: "('a \<Rightarrow> bool) \<Rightarrow> 'a act \<Rightarrow> bool" where
  "yields P m \<longleftrightarrow> (\<forall>s x s'. m s = Some (Inr x, s') \<longrightarrow> P x)"

lemma yields_basic: "P x \<Longrightarrow> yields P (ret x)" "yields P (raise e)" "yields P stuck"
  by (auto simp: yields_def run_simps)

lemma yields_bind: "yields Q m \<Longrightarrow> (\<And>x. Q x \<Longrightarrow> yields P (f x)) \<Longrightarrow> yields P (bind m f)"
  by (fastforce simp: yields_def bind_Inr_iff)

lemma yields_any: "(\<And>x. yields P (f x)) \<Longrightarrow> yields P (bind m f)"
  by (fastforce simp: yields_def bind_Inr_iff)

lemma yields_cases:
  "yields P m \<Longrightarrow> yields P n \<Longrightarrow> yields P (if b then m else n)"
  "(v = None \<Longrightarrow> yields P m) \<Longrightarrow> (\<And>x. v = Some x \<Longrightarrow> yields P (f x)) \<Longrightarrow> yields P (case_option m f v)"
  "(\<And>x. w = Inl x \<Longrightarrow> yields P (h x)) \<Longrightarrow> (\<And>x. w = Inr x \<Longrightarrow> yields P (k x)) \<Longrightarrow> yields P (case_sum h k w)"
  "(\<And>x y. yields P (g x y)) \<Longrightarrow> yields P (case_prod g q)"
  "(\<And>x. yields P (g' x)) \<Longrightarrow> yields P (Let u g')"
  by (auto split: option.splits sum.splits prod.splits)

lemma yields_or_fail:
  "(\<And>t. P (X_Failed t False)) \<Longrightarrow> (\<And>x. yields P (f x)) \<Longrightarrow> yields P (or_fail env m f)"
  unfolding or_fail_def by (intro yields_any yields_cases yields_basic)

definition not_completed :: "execution_result \<Rightarrow> bool" where
  "not_completed r \<longleftrightarrow> r \<noteq> X_Completed"

definition no_early_completion :: "execution_result + 'a \<Rightarrow> bool" where
  "no_early_completion r \<longleftrightarrow> r \<noteq> Inl X_Completed"

lemma yields_event:
  "(\<And>t. yields P (f t)) \<Longrightarrow> yields P (bind await f)"
  by (rule yields_any)

lemma yields_case_event:
  "yields P a \<Longrightarrow> yields P b \<Longrightarrow> (\<And>x. yields P (c x)) \<Longrightarrow> (\<And>x. yields P (d x)) \<Longrightarrow> (\<And>x. yields P (e x)) \<Longrightarrow>
   (\<And>x. yields P (f x)) \<Longrightarrow> yields P g \<Longrightarrow> (\<And>x. yields P (h x)) \<Longrightarrow> (\<And>x. yields P (i x)) \<Longrightarrow> yields P j \<Longrightarrow>
   yields P k \<Longrightarrow> yields P l \<Longrightarrow> yields P (case_outside_event a b c d e f g h i j k l w)"
  by (cases w) simp_all

lemmas yields_rules = yields_any yields_cases yields_basic yields_case_event

lemma send_loop_yields: "yields no_early_completion (send_loop n env timed sid run attempt_id)"
proof (induction n arbitrary: attempt_id)
  case 0
  show ?case by (simp only: send_loop.simps)
      (intro yields_rules; simp add: no_early_completion_def child_timeout_def)
next
  case (Suc n)
  show ?case by (simp only: send_loop.simps)
      (intro yields_rules Suc.IH; simp add: no_early_completion_def child_timeout_def)
qed

lemma stream_loop_yields:
  "yields no_early_completion (stream_loop env timed protocol sid run_id mid buffer st ws)"
proof (induction ws arbitrary: buffer st)
  case (Cons w ws)
  show ?case by (simp only: stream_loop.simps)
      (intro yields_rules Cons.IH; simp add: no_early_completion_def child_timeout_def)
qed (simp add: yields_basic)

lemma read_body_yields: "yields no_early_completion (read_body env timed protocol sid run_id mid)"
  unfolding read_body_def
  by (intro yields_rules; simp add: no_early_completion_def child_timeout_def)

lemma map_sum_early: "no_early_completion r \<Longrightarrow> no_early_completion (map_sum id f r)"
  by (cases r) (simp_all add: no_early_completion_def)

lemma read_response_yields:
  "yields no_early_completion (read_response env timed execution sid run_id mid)"
proof -
  let ?p = "rv_protocol (xe_provider execution)"
  have "yields no_early_completion
     (bind (gets su_script) (\<lambda>script.
        bind (stream_loop env timed ?p sid run_id mid [] stream_start script)
          (\<lambda>r. ret (map_sum id stream_end r))))"
    by (intro yields_any yields_bind [OF stream_loop_yields] yields_basic map_sum_early)
  note first = yields_cases(1) [OF this read_body_yields]
  show ?thesis
    unfolding read_response_def Let_def
    by (rule yields_bind [OF first]; intro yields_rules)
       (auto simp: no_early_completion_def)
qed

lemma yields_case_failed:
  "(\<And>t. x = X_Failed t True \<Longrightarrow> yields P (f t)) \<Longrightarrow> yields P m \<Longrightarrow>
   yields P (case x of X_Failed t True \<Rightarrow> f t | _ \<Rightarrow> m)"
  by (auto split: execution_result.splits bool.splits)

lemma run_attempt_yields:
  assumes "\<And>f x y. again = Some f \<Longrightarrow> yields not_completed (f x y)"
  shows "yields not_completed (run_attempt env timed sid run attempt_id execution existing left again)"
proof -
  have final: "not_completed (final_result st)" for st
    by (simp add: final_result_def not_completed_def)
  show ?thesis
    unfolding run_attempt_def
    by (intro yields_cases yields_or_fail yields_bind [OF send_loop_yields]
        yields_bind [OF read_response_yields] yields_case_failed yields_any yields_basic
        yields_case_event assms)
       (auto simp: no_early_completion_def not_completed_def child_timeout_def final_result_def)
qed

lemma execute_again_yields: "yields not_completed (execute_again n env timed sid run execution mid)"
proof (induction n arbitrary: execution mid)
  case 0
  show ?case by (simp only: execute_again.simps)
      (intro yields_or_fail run_attempt_yields; simp add: not_completed_def)
next
  case (Suc n)
  show ?case by (simp only: execute_again.simps)
      (intro yields_or_fail run_attempt_yields; auto simp: not_completed_def Suc.IH)
qed

lemma execute_run_yields: "yields not_completed (execute_run env timed sid run)"
  unfolding execute_run_def
  by (intro yields_cases yields_or_fail run_attempt_yields yields_basic)
     (auto simp: not_completed_def child_timeout_def execute_again_yields)

end
