(* ===== verification/Sse.thy ===== *)
theory Sse
  imports Streams
begin

text \<open>
  Reading server-sent events back: frames written as the event stream format has them are split at
  their ends and parsed to the event type and the data that were written.
\<close>

section \<open>Writing\<close>

text \<open>A frame has a type and lines of data.\<close>

definition sse_lines :: "string \<times> string list \<Rightarrow> string list" where
  "sse_lines f = (case f of (event_type, ls) \<Rightarrow> (''event: '' @ event_type) # map ((@) ''data: '') ls)"

definition sse_encode :: "string \<times> string list \<Rightarrow> string" where
  "sse_encode f = join_lf (sse_lines f) @ [LF, LF]"

text \<open>Text that one line can carry: no line break in it, and no white space that is trimmed.\<close>

definition line_text :: "string \<Rightarrow> bool" where
  "line_text l \<longleftrightarrow> LF \<notin> set l \<and> (l \<noteq> [] \<longrightarrow> last l \<noteq> CR) \<and> trim_start l = l"

definition frame_ok :: "string \<times> string list \<Rightarrow> bool" where
  "frame_ok f \<longleftrightarrow> (case f of (event_type, ls) \<Rightarrow>
     line_text event_type \<and> trim event_type = event_type \<and> ls \<noteq> [] \<and> hd ls \<noteq> [] \<and>
     list_all line_text ls)"

section \<open>Lines\<close>

lemma split_inclusive_line: "LF \<notin> set l \<Longrightarrow> split_inclusive_lf (l @ LF # s) = (l @ [LF]) # split_inclusive_lf s"
  by (induction l) auto

lemma split_inclusive_last: "LF \<notin> set l \<Longrightarrow> l \<noteq> [] \<Longrightarrow> split_inclusive_lf l = [l]"
proof (induction l)
  case (Cons c l)
  then show ?case by (cases l) auto
qed simp

lemma strip_line_LF:
  assumes "l \<noteq> [] \<Longrightarrow> last l \<noteq> CR"
  shows "strip_line (l @ [LF]) = l"
proof -
  have "strip_suffix [LF] (l @ [LF]) = Some l" by (simp add: strip_suffix_Some_iff)
  moreover have "strip_suffix [CR] l = None"
  proof (rule ccontr)
    assume "strip_suffix [CR] l \<noteq> None"
    then obtain r where "l = r @ [CR]" by (auto simp: strip_suffix_Some_iff)
    with assms show False by simp
  qed
  ultimately show ?thesis by (simp add: strip_line_def)
qed

definition written :: "string \<Rightarrow> bool" where
  "written l \<longleftrightarrow> l \<noteq> [] \<and> LF \<notin> set l \<and> last l \<noteq> CR \<and> hd l \<noteq> CR"

lemma lines_join: "list_all written ls \<Longrightarrow> lines (join_lf ls) = ls"
proof (induction ls rule: join_lf.induct)
  case (2 l)
  then show ?case by (simp add: written_def lines_def split_inclusive_last strip_line_last)
next
  case (3 l l' ls)
  then show ?case by (simp add: written_def lines_def split_inclusive_line strip_line_LF)
qed (simp add: lines_def)

section \<open>Frames\<close>

lemma frame_end_Suc: "frame_end (c # s) (Suc i) n \<longleftrightarrow> frame_end s i n"
  by (simp add: frame_end_def)

lemma find_end_Cons:
  assumes "\<And>m. \<not> frame_end (c # s) 0 m" and "find_sse_frame_end s = Some (i, n)"
  shows "find_sse_frame_end (c # s) = Some (Suc i, n)"
proof -
  have "\<not> frame_end (c # s) j m" if "j < Suc i" for j m
    using that assms by (cases j) (auto simp: find_sse_frame_end_Some frame_end_Suc)
  with assms(2) show ?thesis by (auto simp: find_sse_frame_end_Some frame_end_Suc)
qed

lemma frame_end_0:
  "frame_end s 0 m \<longleftrightarrow> (m = 2 \<and> starts_with [LF, LF] s) \<or> (m = 4 \<and> starts_with [CR, LF, CR, LF] s)"
  by (simp add: frame_end_def starts_with_occurs)

lemma find_end_line:
  assumes "LF \<notin> set l" and "\<not> starts_with [LF, CR] s" and "find_sse_frame_end s = Some (i, n)"
  shows "find_sse_frame_end (l @ s) = Some (length l + i, n)"
  using assms(1)
proof (induction l)
  case (Cons c l)
  have "\<not> starts_with [LF, CR] (l @ s)" using Cons.prems assms(2) by (cases l) (auto simp: starts_with_iff)
  then have "\<not> frame_end (c # l @ s) 0 m" for m
    using Cons.prems by (auto simp: frame_end_0 starts_with_iff)
  with Cons show ?case by (auto intro: find_end_Cons)
qed (simp add: assms(3))

lemma find_end_join:
  "ls \<noteq> [] \<Longrightarrow> list_all written ls \<Longrightarrow>
   find_sse_frame_end (join_lf ls @ [LF, LF] @ rest) = Some (length (join_lf ls), 2)"
proof (induction ls rule: join_lf.induct)
  case (2 l)
  have "find_sse_frame_end ([LF, LF] @ rest) = Some (0, 2)"
    by (simp add: find_sse_frame_end_Some frame_end_0 starts_with_iff)
  with find_end_line [of l "[LF, LF] @ rest" 0 2] 2 show ?case
    by (simp add: written_def starts_with_iff)
next
  case (3 l l' ls)
  let ?t = "join_lf (l' # ls) @ [LF, LF] @ rest"
  have "l' \<noteq> []" "LF \<notin> set l'" "hd l' \<noteq> CR" using 3(3) by (simp_all add: written_def)
  then obtain c t where t: "?t = c # t" "c \<noteq> LF" "c \<noteq> CR"
    by (cases l'; cases ls) auto
  have "find_sse_frame_end ?t = Some (length (join_lf (l' # ls)), 2)" using 3 by simp
  moreover have "\<not> frame_end (LF # ?t) 0 m" for m
    unfolding t(1) using t(2) by (auto simp: frame_end_0 starts_with_iff)
  ultimately have "find_sse_frame_end (LF # ?t) = Some (Suc (length (join_lf (l' # ls))), 2)"
    by (intro find_end_Cons)
  moreover have "\<not> starts_with [LF, CR] (LF # ?t)" unfolding t(1) using t(3) by (auto simp: starts_with_iff)
  ultimately show ?case using find_end_line [of l "LF # ?t"] 3(3) by (simp add: written_def)
qed simp

lemma split_frames_written:
  "list_all (\<lambda>ls. ls \<noteq> [] \<and> list_all written ls) fs \<Longrightarrow>
   split_frames (concat (map (\<lambda>ls. join_lf ls @ [LF, LF]) fs)) = (map join_lf fs, [])"
proof (induction fs)
  case Nil
  have "find_sse_frame_end [] = None" by (simp add: find_sse_frame_end_def)
  then show ?case by (simp add: split_frames.simps)
next
  case (Cons ls fs)
  let ?rest = "concat (map (\<lambda>ls. join_lf ls @ [LF, LF]) fs)"
  have "find_sse_frame_end (join_lf ls @ [LF, LF] @ ?rest) = Some (length (join_lf ls), 2)"
    using Cons.prems by (intro find_end_join) simp_all
  with Cons show ?case by (simp add: split_frames.simps [of "join_lf ls @ LF # LF # ?rest"])
qed

section \<open>Parsing\<close>

lemma trim_start_blank: "trim_start (CHR '' '' # l) = trim_start l"
proof -
  have "ws_head (CHR '' '' # l) = 1" by (cases l rule: ws_head.cases) (simp_all add: is_ascii_ws_def byte_def)
  then show ?thesis by (simp add: trim_start.simps [of "CHR '' '' # l"])
qed

lemma sse_line_event:
  "trim t = t \<Longrightarrow> sse_line (u, d) (''event: '' @ t) = (Some t, d)"
  by (simp add: sse_line_def trim_def trim_start_blank)

lemma sse_line_data:
  "trim_start l = l \<Longrightarrow> sse_line (u, d) (''data: '' @ l) = (u, (if d = [] then d else d @ [LF]) @ l)"
  by (simp add: sse_line_def trim_start_blank)

lemma fold_data:
  "d \<noteq> [] \<Longrightarrow> list_all line_text ls \<Longrightarrow>
   foldl sse_line (u, d) (map ((@) ''data: '') ls) = (u, concat (d # map ((#) LF) ls))"
proof (induction ls arbitrary: d)
  case (Cons l ls)
  then have "trim_start l = l" by (simp add: line_text_def)
  from sse_line_data [OF this, of u d] Cons show ?case by simp
qed simp

lemma join_lf_concat: "join_lf (l # ls) = concat (l # map ((#) LF) ls)"
  by (induction ls arbitrary: l) simp_all

lemma frame_written: "frame_ok f \<Longrightarrow> sse_lines f \<noteq> [] \<and> list_all written (sse_lines f)"
  by (cases f) (auto simp: frame_ok_def sse_lines_def written_def line_text_def list_all_iff)

lemma parse_written:
  assumes "frame_ok (t, ls)"
  shows "parse_sse_frame (join_lf (sse_lines (t, ls))) = (Some t, join_lf ls)"
proof -
  obtain l ls' where ls: "ls = l # ls'" "l \<noteq> []" "line_text l" "list_all line_text ls'"
    using assms by (cases ls) (auto simp: frame_ok_def)
  have t: "trim t = t" using assms by (simp add: frame_ok_def)
  have l: "trim_start l = l" using ls(3) by (simp add: line_text_def)
  have "lines (join_lf (sse_lines (t, ls))) = sse_lines (t, ls)"
    using frame_written [OF assms] by (intro lines_join) blast
  then show ?thesis
    using fold_data [OF ls(2,4), of "Some t"] sse_line_event [OF t, of None "[]"] sse_line_data [OF l, of "Some t" "[]"]
    by (simp add: parse_sse_frame_def sse_lines_def ls(1) join_lf_concat del: join_lf.simps append_Cons)
qed

end
