(* ===== verification/Supervisor_Properties.thy ===== *)
theory Supervisor_Properties
  imports Supervisor_Example Sse
begin

text \<open>
  The claims about the supervisor: the logs and the published stream, admission, the outcome of
  queueing a run and of answering a tool call, permissions, and the reading of streamed responses.
\<close>

section \<open>Queueing\<close>

lemma release_reserve:
  assumes ok: "admission_ok limits a" and fresh: "as_run_sessions a run = None"
    and res: "reserve limits sid run a = Inr a'"
  shows "release run a' = a"
proof -
  have some: "as_sessions a k = (if runs_of a k = {} then None else Some (card (runs_of a k)))" for k
    using ok by (simp add: admission_ok_def)
  have fin: "finite (runs_of a k)" for k using ok runs_of_finite by (simp add: admission_ok_def)
  have runs: "(as_run_sessions a)(run := None) = as_run_sessions a" using fresh by (simp add: fun_upd_idem)
  have restored: "(as_sessions a)(sid := (if card (runs_of a sid) = 0 then None else Some (card (runs_of a sid)))) = as_sessions a"
    using some [of sid] fin [of sid] by (auto simp: fun_eq_iff)
  from res have a': "a' = a\<lparr>as_pending := as_pending a + 1,
      as_sessions := (as_sessions a)(sid := Some (card (runs_of a sid) + 1)),
      as_run_sessions := (as_run_sessions a)(run := Some sid)\<rparr>"
    by (auto simp: reserve_def Let_def admission_count [OF ok] split: if_splits)
  show ?thesis
    unfolding a' release_def using runs restored by (auto split: if_splits)
qed

lemma admission_fresh_next:
  assumes "inj (en_uuid env)" and "admission_fresh env s"
  shows "as_run_sessions (su_admission s) (en_uuid env (su_fresh s)) = None"
proof -
  have "en_uuid env (su_fresh s) \<notin> en_uuid env ` {..<su_fresh s}" using inj_eq [OF assms(1)] by auto
  with assms(2) show ?thesis unfolding admission_fresh_def by blast
qed

text \<open>Steps that leave everything but the store, the cache and the counter of fresh values.\<close>

definition quiet :: "sup \<Rightarrow> sup \<Rightarrow> bool" where
  "quiet s s' \<longleftrightarrow>
     su_published s' = su_published s \<and> su_admission s' = su_admission s \<and>
     su_workers s' = su_workers s \<and> su_shutdown s' = su_shutdown s \<and> su_fresh s' = su_fresh s \<and>
     su_deleting s' = su_deleting s"

interpretation quiet: state_relation quiet
  by unfold_locales (simp_all add: quiet_def)

lemma quiet_steps:
  "quiet.keeps (store_read f)" "quiet.keeps (store_do g)" "quiet.keeps (project_of env sid)"
  "quiet.keeps ensure_accepting" "quiet.keeps (ensure_session_mutable sid)"
proof -
  show st_do: "quiet.keeps (store_do g)" for g :: "store \<Rightarrow> (store_error, 'z \<times> store) result"
    by (rule quiet.keepsI) (auto simp: store_do_Some quiet_def split: sum.splits prod.splits)
  show st_rd: "quiet.keeps (store_read f)" for f :: "store \<Rightarrow> (store_error, 'y) result"
    unfolding store_read_def by (intro quiet.keeps_rules)
  show "quiet.keeps (project_of env sid)" unfolding project_of_def by (rule st_do)
  show "quiet.keeps ensure_accepting" unfolding ensure_accepting_def by (intro quiet.keeps_rules)
  show "quiet.keeps (ensure_session_mutable sid)"
    unfolding ensure_session_mutable_def by (intro quiet.keeps_rules st_rd)
qed

lemma quiet_next:
  assumes "bind m f s = Some (r, u)" and "quiet.keeps m" and "quiet s0 s"
    and "\<not> (\<exists>e. r = Inl e \<and> quiet s0 u)"
  shows "\<exists>x t. m s = Some (Inr x, t) \<and> quiet s0 t \<and> f x t = Some (r, u)"
  using assms quiet.keepsD [OF assms(2)] quiet.rel_trans unfolding bind_Some_iff by blast

text \<open>After the guards and the reservation: the event is appended or the reservation is undone.\<close>

lemma queue_tail:
  assumes run: "bind (attempt (sup_append env sid event)) (\<lambda>appended.
       case appended of
         Inl e \<Rightarrow> bind (release_run run_id) (\<lambda>_. raise e)
       | Inr _ \<Rightarrow> bind (spawn_worker sid) (\<lambda>_. ret run_id)) s = Some (r, s')"
    and up: "\<not> su_shutdown s" and open_event: "release_terminal_admission event = id"
  shows "case r of
      Inl e \<Rightarrow> su_published s' = su_published s \<and> su_workers s' = su_workers s \<and>
        su_admission s' = release run_id (su_admission s)
    | Inr y \<Rightarrow> y = run_id \<and> su_admission s' = su_admission s \<and> su_workers s' = su_workers s @ [sid] \<and>
        (\<exists>rec. su_published s' = su_published s @ [rec] \<and> re_event rec = event \<and> re_session_id rec = sid)"
proof -
  from run obtain q t where a: "sup_append env sid event s = Some (q, t)"
    and rest: "(case q of Inl e \<Rightarrow> bind (release_run run_id) (\<lambda>_. raise e)
       | Inr _ \<Rightarrow> bind (spawn_worker sid) (\<lambda>_. ret run_id)) t = Some (r, s')"
    by (auto simp: comp_iffs)
  show ?thesis
  proof (cases q)
    case (Inl e)
    with sup_append_Some [OF a] have "t = s" by auto
    with rest Inl show ?thesis by (auto simp: release_run_def comp_iffs)
  next
    case (Inr rec)
    with sup_append_Some [OF a] obtain st' where
      ap: "append_events (en_serde env) (en_clock env) sid [event] (su_store s) = Inr ([rec], st')"
      and t: "t = publish_all [rec] (s\<lparr>su_store := st'\<rparr>)" by auto
    from append_events_recs [OF ap] have "re_event rec = event" "re_session_id rec = sid" by simp_all
    with rest Inr t up open_event show ?thesis
      by (auto simp: spawn_worker_def comp_iffs publish_all_def)
  qed
qed

lemma admit_run:
  "admit env sid s = Some (r, t) \<Longrightarrow>
   (case reserve (en_limits env) sid (en_uuid env (su_fresh s)) (su_admission s) of
      Inl e \<Rightarrow> r = Inl e \<and> t = s\<lparr>su_fresh := Suc (su_fresh s)\<rparr>
    | Inr a \<Rightarrow> r = Inr (en_uuid env (su_fresh s)) \<and>
        t = s\<lparr>su_fresh := Suc (su_fresh s), su_admission := a\<rparr>)"
  by (auto simp: admit_def new_uuid_def tick_def reserve_run_def comp_iffs split: sum.splits)

text \<open>The guards of \<open>queue_run\<close>, which change nothing, and the rest.\<close>

definition queue_guards :: "sup_env \<Rightarrow> string \<Rightarrow> run_request \<Rightarrow> resolved_provider act" where
  "queue_guards env sid request =
     bind ensure_accepting (\<lambda>_.
     bind (ensure_session_mutable sid) (\<lambda>_.
     bind (project_of env sid) (\<lambda>p.
     bind (check (\<not> sp_queue_paused p) E_QueuePaused) (\<lambda>_.
     bind (check (rq_provider request \<noteq> [] \<and> rq_model request \<noteq> [])
             (InvalidRequest ''provider and model are required'')) (\<lambda>_.
     of_result (map_err (provider_error env)
       (resolve_provider (en_config_env env) (en_config env) (rq_provider request))))))))"

abbreviation queued_event :: "sup_env \<Rightarrow> run_request \<Rightarrow> string \<Rightarrow> semantic_event" where
  "queued_event env request run_id \<equiv>
     RunQueued run_id None (rq_provider request) (rq_model request) (en_request_to_value env request)"

lemma queue_run_split:
  "queue_run env sid request =
   bind (queue_guards env sid request) (\<lambda>_. bind (admit env sid) (\<lambda>run_id.
     bind (attempt (sup_append env sid (queued_event env request run_id))) (\<lambda>appended.
     case appended of
       Inl e \<Rightarrow> bind (release_run run_id) (\<lambda>_. raise e)
     | Inr _ \<Rightarrow> bind (spawn_worker sid) (\<lambda>_. ret run_id))))"
  by (simp add: queue_run_def queue_guards_def bind_assoc)

lemma quiet_queue_guards: "quiet.keeps (queue_guards env sid request)"
  unfolding queue_guards_def by (intro quiet.keeps_rules quiet_steps)

lemma queue_guards_pass:
  "queue_guards env sid request s = Some (Inr x, t) \<Longrightarrow>
   rq_provider request \<noteq> [] \<and> rq_model request \<noteq> [] \<and> \<not> su_shutdown s \<and>
   is_ok (resolve_provider (en_config_env env) (en_config env) (rq_provider request))"
  by (auto simp: queue_guards_def bind_Inr_iff check_Some_iff basic_Some_iff ensure_accepting_def
      map_err_eq_Inr is_ok_def split: if_splits sum.splits)

definition queued :: "sup_env \<Rightarrow> string \<Rightarrow> run_request \<Rightarrow> string \<Rightarrow> sup \<Rightarrow> sup \<Rightarrow> bool" where
  "queued env sid request run_id s s' \<longleftrightarrow>
     as_run_sessions (su_admission s) run_id = None \<and>
     as_run_sessions (su_admission s') = (as_run_sessions (su_admission s))(run_id \<mapsto> sid) \<and>
     as_pending (su_admission s') = Suc (as_pending (su_admission s)) \<and>
     su_workers s' = su_workers s @ [sid] \<and>
     (\<exists>rec. su_published s' = su_published s @ [rec] \<and> re_session_id rec = sid \<and>
        re_event rec = queued_event env request run_id)"

lemma queue_run_cases:
  assumes inj: "inj (en_uuid env)" and fresh: "admission_fresh env s"
    and run: "queue_run env sid request s = Some (r, s')"
  shows "case r of
      Inl e \<Rightarrow> su_published s' = su_published s \<and> su_workers s' = su_workers s \<and>
        su_admission s' = su_admission s
    | Inr run_id \<Rightarrow> rq_provider request \<noteq> [] \<and> rq_model request \<noteq> [] \<and> \<not> su_shutdown s \<and>
        is_ok (resolve_provider (en_config_env env) (en_config env) (rq_provider request)) \<and>
        queued env sid request run_id s s'"
proof (cases "\<exists>e. r = Inl e \<and> quiet s s'")
  case True
  then show ?thesis by (auto simp: quiet_def)
next
  case False
  let ?tail = "\<lambda>run_id. bind (attempt (sup_append env sid (queued_event env request run_id))) (\<lambda>appended.
     case appended of
       Inl e \<Rightarrow> bind (release_run run_id) (\<lambda>_. raise e)
     | Inr _ \<Rightarrow> bind (spawn_worker sid) (\<lambda>_. ret run_id))"
  from quiet_next [OF run [unfolded queue_run_split] quiet_queue_guards quiet.rel_refl False]
  obtain x t where g: "queue_guards env sid request s = Some (Inr x, t)" and q: "quiet s t"
    and tl: "bind (admit env sid) ?tail t = Some (r, s')" by blast
  let ?id = "en_uuid env (su_fresh t)" and ?lim = "en_limits env"
  have ok: "admission_ok ?lim (su_admission t)" and none: "as_run_sessions (su_admission t) ?id = None"
    using fresh admission_fresh_next [OF inj fresh] q by (auto simp: admission_fresh_def quiet_def)
  show ?thesis
  proof (cases "reserve ?lim sid ?id (su_admission t)")
    case (Inl e)
    with tl have "r = Inl e \<and> s' = t\<lparr>su_fresh := Suc (su_fresh t)\<rparr>"
      by (auto simp: bind_Some_iff dest: admit_run)
    with q show ?thesis by (simp add: quiet_def)
  next
    case (Inr a)
    let ?u = "t\<lparr>su_fresh := Suc (su_fresh t), su_admission := a\<rparr>"
    from tl Inr have tail: "?tail ?id ?u = Some (r, s')"
      by (auto simp: bind_Some_iff dest: admit_run)
    have "\<not> su_shutdown ?u" using queue_guards_pass [OF g] q by (simp add: quiet_def)
    moreover have "release_terminal_admission (queued_event env request ?id) = id"
      by (rule ext) (simp add: release_terminal_admission_def)
    ultimately show ?thesis
      using queue_tail [OF tail] reserve_ok [OF ok none Inr] release_reserve [OF ok none Inr] q none
        queue_guards_pass [OF g]
      by (cases r) (auto simp: quiet_def queued_def)
  qed
qed

section \<open>Permissions\<close>

text \<open>
  When the policy may allow a call without asking: the configured setting under the parent's ceiling
  allows it, or a recorded rule matches and the parent allows the tool outright.
\<close>

definition may_allow ::
  "store \<Rightarrow> string \<Rightarrow> string option \<Rightarrow> string \<Rightarrow> agent_permissions option \<Rightarrow> agent_permissions option
   \<Rightarrow> string \<Rightarrow> bool" where
  "may_allow st sid pid agent_id configured parent_ceiling tool \<longleftrightarrow>
     (let setting = effective_setting configured parent_ceiling tool
      in setting = Some PS_Allow \<or>
         (setting \<noteq> Some PS_Deny \<and> parent_allows_interactive parent_ceiling tool \<and>
          (\<exists>rule. matching_permission_rule sid pid agent_id (rule_tool_name tool) st = Inr (Some rule))))"

lemma most_restrictive_Allow:
  "most_restrictive_permission a b = PS_Allow \<longleftrightarrow> a = PS_Allow \<and> b = PS_Allow"
  by (cases a; cases b) simp_all

lemma may_allow_ceiling:
  assumes "may_allow st sid pid agent_id configured (Some ceil) tool"
    and "permission_setting_of ceil tool = Some d"
  shows "d = PS_Allow \<and> (\<exists>own. configured = Some own \<and> permission_setting_of own tool \<noteq> Some PS_Deny)"
proof -
  have eff: "effective_setting configured (Some ceil) tool =
      Some (most_restrictive_permission
        (unwrap_or PS_Deny (Option.bind configured (\<lambda>p. permission_setting_of p tool))) d)"
    using assms(2) by (simp add: effective_setting_def Let_def)
  have d: "d = PS_Allow"
    using assms eff by (auto simp: may_allow_def Let_def most_restrictive_Allow parent_allows_interactive_def)
  moreover have "most_restrictive_permission x PS_Allow = x" for x by (cases x) simp_all
  ultimately have "unwrap_or PS_Deny (Option.bind configured (\<lambda>p. permission_setting_of p tool)) \<noteq> PS_Deny"
    using assms eff by (auto simp: may_allow_def Let_def)
  with d show ?thesis by (cases configured) (auto simp: unwrap_or_def)
qed

lemma decide_allow:
  assumes "fst (decide_call (effective_setting configured parent_ceiling tool) rule) = Allow"
    and "rule \<noteq> None \<Longrightarrow> parent_allows_interactive parent_ceiling tool \<and>
           matching_permission_rule sid pid agent_id (rule_tool_name tool) st = Inr rule"
  shows "may_allow st sid pid agent_id configured parent_ceiling tool"
  using assms
  by (auto simp: decide_call_def may_allow_def Let_def split: if_splits option.splits permission_setting.splits)

lemma evaluate_calls_allow:
  assumes "evaluate_calls env sid pid agent_id configured parent_ceiling run_id calls s =
      Some (Inr (events, pending), s')"
    and "PermissionResolved rid Allow source scope rule_id time \<in> set events"
  shows "\<exists>call\<in>set calls.
      PermissionRequested rid run_id (Some (tp_call_id call)) agent_id (tp_tool_name call) (tp_arguments call)
        \<in> set events \<and>
      may_allow (su_store s) sid pid agent_id configured parent_ceiling (tp_tool_name call)"
  using assms
proof (induction calls arbitrary: s s' events pending)
  case (Cons call calls)
  let ?tool = "tp_tool_name call"
  let ?u = "s\<lparr>su_fresh := Suc (su_fresh s)\<rparr>"
  let ?lookup = "if parent_allows_interactive parent_ceiling ?tool
    then store_read (matching_permission_rule sid pid agent_id (rule_tool_name ?tool)) else ret None"
  let ?rest = "evaluate_calls env sid pid agent_id configured parent_ceiling run_id calls"
  let ?body = "\<lambda>rule. let outcome = decide_call (effective_setting configured parent_ceiling ?tool) rule
     in bind ?rest (\<lambda>(events, pending). ret (call_events (en_uuid env (su_fresh s)) run_id agent_id call
          outcome @ events, fst outcome = Ask \<or> pending))"
  have "new_uuid env s = Some (Inr (en_uuid env (su_fresh s)), ?u)"
    by (simp add: new_uuid_def tick_def bind_def run_simps)
  with Cons.prems(1) have "bind ?lookup ?body ?u = Some (Inr (events, pending), s')"
    by (simp add: run_bind(1))
  then obtain rule t where look: "?lookup ?u = Some (Inr rule, t)"
    and body: "?body rule t = Some (Inr (events, pending), s')" unfolding bind_Inr_iff by blast
  have rule: "rule \<noteq> None \<Longrightarrow> parent_allows_interactive parent_ceiling ?tool \<and>
        matching_permission_rule sid pid agent_id (rule_tool_name ?tool) (su_store s) = Inr rule"
    and store: "su_store t = su_store s"
    using look by (auto simp: store_read_def comp_iffs split: if_splits)
  from body obtain es pend s1 where rest: "?rest t = Some (Inr (es, pend), s1)"
    and ev: "events = call_events (en_uuid env (su_fresh s)) run_id agent_id call
        (decide_call (effective_setting configured parent_ceiling ?tool) rule) @ es"
    by (auto simp: Let_def bind_Inr_iff basic_Some_iff)
  show ?case
  proof (cases "PermissionResolved rid Allow source scope rule_id time \<in> set es")
    case True
    from Cons.IH [OF rest this] show ?thesis by (auto simp: store ev)
  next
    case False
    let ?d = "decide_call (effective_setting configured parent_ceiling ?tool) rule"
    have "fst ?d = Allow" and rid: "rid = en_uuid env (su_fresh s)"
      using False Cons.prems(2) ev by (auto simp: call_events_def split: prod.splits if_splits)
    moreover have "PermissionRequested rid run_id (Some (tp_call_id call)) agent_id ?tool (tp_arguments call)
        \<in> set events"
      by (cases ?d) (simp add: ev rid call_events_def)
    ultimately show ?thesis using decide_allow [OF _ rule] by auto
  qed
qed (simp add: basic_Some_iff)

section \<open>Request bodies\<close>

lemma entry_or_insert_get:
  "bt_get (entry_or_insert k v m) j =
   (if j = k \<and> bt_get m k = None then Some v else bt_get m j)"
  by (auto simp: entry_or_insert_def bt_contains_key_def)

definition transcript_key :: "provider_protocol \<Rightarrow> string" where
  "transcript_key protocol = (case protocol of ChatCompletions \<Rightarrow> ''messages'' | Responses \<Rightarrow> ''input'')"

text \<open>The body has its required fields, and every field of the merged layers has the value it had.\<close>

definition body_typed :: "provider_protocol \<Rightarrow> json \<Rightarrow> json \<Rightarrow> bool" where
  "body_typed protocol merged body \<longleftrightarrow>
     is_object body \<and> jget body ''model'' \<noteq> None \<and> jget body ''stream'' \<noteq> None \<and>
     jget body (transcript_key protocol) \<noteq> None \<and>
     (\<forall>k v. jget merged k = Some v \<longrightarrow> jget body k = Some v)"

lemma body_typed_insert:
  "body_typed protocol (JObj ob)
     (JObj (entry_or_insert (transcript_key protocol) t
        (if has_tools then entry_or_insert ''tools'' ts
           (entry_or_insert ''stream'' (JBool True) (entry_or_insert ''model'' m ob))
         else entry_or_insert ''stream'' (JBool True) (entry_or_insert ''model'' m ob))))"
  by (cases protocol) (auto simp: body_typed_def entry_or_insert_get transcript_key_def is_object_def)

lemma build_body_typed:
  assumes "build_body print show_config show_merge c protocol request p nt mt = Some (Inr body)"
  shows "\<exists>merged. merge_request_bodies (body_layers c (rq_model request) (rq_agent request)
      (rq_variant request) (rq_body request)) = Inr merged \<and> body_typed protocol merged body"
proof -
  obtain merged where m: "merge_request_bodies (body_layers c (rq_model request) (rq_agent request)
      (rq_variant request) (rq_body request)) = Inr merged"
    using assms by (auto simp: build_body_def split: sum.splits)
  obtain ob where ob: "as_object merged = Some ob"
    using assms m by (auto simp: build_body_def split: option.splits)
  have merged: "merged = JObj ob" using ob by (cases merged) (auto simp: as_object_def)
  let ?ts = "JArr (native_tool_definitions protocol nt @ mcp_tool_definitions protocol mt)"
  obtain t where "body = JObj (entry_or_insert (transcript_key protocol) t
      (if nt \<noteq> [] \<or> mt \<noteq> [] then entry_or_insert ''tools'' ?ts
         (entry_or_insert ''stream'' (JBool True) (entry_or_insert ''model'' (JStr (rq_model request)) ob))
       else entry_or_insert ''stream'' (JBool True) (entry_or_insert ''model'' (JStr (rq_model request)) ob)))"
    using assms m ob
    by (auto simp: build_body_def Let_def transcript_key_def split: sum.splits provider_protocol.splits)
  then have "body_typed protocol (JObj ob) body" using body_typed_insert by simp
  with m merged show ?thesis by blast
qed

text \<open>A position past the transcript.\<close>

lemma attach_calls_outside:
  "j < length ms \<Longrightarrow> mp_role (ms ! j) = Role_Assistant \<Longrightarrow> calls (ms ! j) \<noteq> [] \<Longrightarrow>
   length transcript \<le> i + j \<Longrightarrow> attach_calls calls i ms transcript = None"
proof (induction calls i ms transcript arbitrary: j rule: attach_calls.induct)
  case (2 calls i m ms transcript)
  show ?case
  proof (cases j)
    case 0
    with "2.prems" show ?thesis by simp
  next
    case (Suc k)
    show ?thesis using 2(1) [of k] 2(2) [of _ k] "2.prems" Suc by (auto split: option.splits)
  qed
qed simp

lemma chat_transcript_outside:
  assumes "k < length (filter closed_message (sp_messages p))"
    and "length (base_transcript instructions artifact p) \<le> k"
    and "m = filter closed_message (sp_messages p) ! k" and "mp_role m = Role_Assistant"
    and "c \<in> set (all_calls p)" and "call_visible artifact p c"
    and "tp_assistant_message_id c = mp_message_id m"
  shows "chat_transcript print instructions artifact p = None"
proof -
  let ?calls = "\<lambda>m. map chat_call (filter (\<lambda>c. tp_assistant_message_id c = mp_message_id m)
    (filter (call_visible artifact p) (all_calls p)))"
  have "c \<in> set (filter (\<lambda>c. tp_assistant_message_id c = mp_message_id m)
      (filter (call_visible artifact p) (all_calls p)))" using assms(5-7) by simp
  then have "?calls m \<noteq> []" by (metis list.set(1) empty_iff map_is_Nil_conv)
  then have "attach_calls ?calls 0 (filter closed_message (sp_messages p))
      (base_transcript instructions artifact p) = None"
    using assms(1-4) by (intro attach_calls_outside [of k]) simp_all
  moreover have "length (base_transcript instructions artifact p) -
      length (filter closed_message (sp_messages p)) = 0" using assms(1,2) by simp
  ultimately show ?thesis by (simp add: chat_transcript_def Let_def)
qed

section \<open>Claims: logs and admission\<close>

definition keeps_projects :: "command \<Rightarrow> bool" where
  "keeps_projects c = (case c of C_DeleteProject _ \<Rightarrow> False | _ \<Rightarrow> True)"

text \<open>C5. Whatever sequence of commands runs, short of deleting a project, and whether they succeed or
  fail: the published stream is only extended, the store stays well-formed, and each session's log is
  its old log followed by exactly the events published for it, in order; a session that is new has its
  creation event in front.\<close>

theorem control_plane_logs:
  assumes "control_steps env keeps_projects s t" and "store_ok (en_serde env) (su_store s)"
  shows "\<exists>ext. su_published t = su_published s @ ext \<and>
    (serde_keeps (en_serde env) ext \<longrightarrow>
     store_ok (en_serde env) (su_store t) \<and>
     (\<forall>k. log_grows (session_log (en_serde env) (su_store s) k) (session_log (en_serde env) (su_store t) k)
           (events_of k ext)))"
proof -
  have "grows (en_serde env) s t"
    using log_growth.keeps_control_steps [OF assms(1)] by (auto simp: keeps_projects_def)
  with assms(2) show ?thesis by (auto simp: grows_def)
qed

lemma example_steps:
  "\<exists>s'. control_steps example_sup P (sup_start example_disk) s' \<and>
     su_published s' = [\<lparr>re_id = 2, re_session_id = ''s'', re_schema_version = EVENT_SCHEMA_VERSION,
       re_occurred_at = ''t1'', re_event = RunQueued [] None ''p'' ''m'' JNull, re_raw_data = None\<rparr>]"
  if "\<And>sid r. P (C_Queue sid r)"
proof -
  obtain s' where q: "queue_run example_sup ''s'' example_request (sup_start example_disk) = Some (Inr [], s')"
    and p: "su_published s' = [\<lparr>re_id = 2, re_session_id = ''s'', re_schema_version = EVENT_SCHEMA_VERSION,
       re_occurred_at = ''t1'', re_event = RunQueued [] None ''p'' ''m'' JNull, re_raw_data = None\<rparr>]"
    by (rule example_queue)
  have "run_command 0 example_sup (C_Queue ''s'' example_request) (sup_start example_disk) = Some (Inr (), s')"
    using q by (simp add: run_command_def discard_def run_simps)
  from control_steps.more [OF control_steps.none [of example_sup P "sup_start example_disk"] that this] p show ?thesis by blast
qed

theorem control_plane_logs_witness:
  "\<exists>t::sup. store_ok example_serde (su_store t) \<and>
     session_log example_serde (su_store t) ''s'' = [SessionCreated None, RunQueued [] None ''p'' ''m'' JNull]"
proof -
  let ?rec = "\<lparr>re_id = 2, re_session_id = ''s'', re_schema_version = EVENT_SCHEMA_VERSION,
       re_occurred_at = ''t1'', re_event = RunQueued [] None ''p'' ''m'' JNull, re_raw_data = None\<rparr>"
  obtain t where t: "control_steps example_sup keeps_projects (sup_start example_disk) t"
    "su_published t = [?rec]"
    using example_steps [of keeps_projects] by (auto simp: keeps_projects_def)
  have sd: "en_serde example_sup = example_serde" by (simp add: example_sup_def)
  have st: "su_store (sup_start example_disk) = example_disk" "su_published (sup_start example_disk) = []"
    by (simp_all add: sup_start_def)
  have k: "serde_keeps example_serde [?rec]"
    using example_storable_queued [of "''m''" "''p''" "[]"] example_storable(1) by (simp add: serde_keeps_def)
  from control_plane_logs [OF t(1)] example_disk_ok(1) t(2) k
  have "store_ok example_serde (su_store t)"
    "log_grows (session_log example_serde example_disk ''s'') (session_log example_serde (su_store t) ''s'')
       (events_of ''s'' [?rec])"
    unfolding sd st by auto
  then have "store_ok example_serde (su_store t) \<and> session_log example_serde (su_store t) ''s'' =
      [SessionCreated None, RunQueued [] None ''p'' ''m'' JNull]"
    using example_disk_ok(2) by (auto simp: log_grows_def events_of_def)
  then show ?thesis by blast
qed

text \<open>C6. In every state that the control plane reaches from its start, by any commands, the pending runs
  are counted right and are within the limits, in all and for each session. The ids drawn for runs are
  assumed to be different.\<close>

theorem admission_within_limits:
  assumes "control_steps env allowed (sup_start st) s" and "inj (en_uuid env)"
  shows "as_pending (su_admission s) = card (dom (as_run_sessions (su_admission s))) \<and>
    as_pending (su_admission s) \<le> rl_max_pending_runs (en_limits env) \<and>
    (\<forall>sid. unwrap_or 0 (as_sessions (su_admission s) sid) = card (runs_of (su_admission s) sid) \<and>
           card (runs_of (su_admission s) sid) \<le> rl_max_pending_runs_per_session (en_limits env))"
proof -
  have "admits env (sup_start st) s"
    using admission_bound.keeps_control_steps [OF assms(1)]
      admission_bound.keeps_delete [OF admission_store_do] by blast
  with start_fresh assms(2) have "admission_ok (en_limits env) (su_admission s)"
    by (auto simp: admits_def admission_fresh_def)
  then show ?thesis using admission_count by (auto simp: admission_ok_def)
qed

theorem admission_within_limits_witness:
  "\<exists>s::sup. as_pending (su_admission s) \<le> rl_max_pending_runs resource_limits_default \<and> su_published s \<noteq> []"
proof -
  obtain s where s: "control_steps example_sup (\<lambda>_. True) (sup_start example_disk) s" "su_published s \<noteq> []"
    using example_steps [of "\<lambda>_. True"] by auto
  have "en_limits example_sup = resource_limits_default" by (simp add: example_sup_def)
  with admission_within_limits [OF s(1) example_uuid_inj] s(2) show ?thesis by metis
qed

text \<open>C7. Queueing a run ends in one of two ways. It is refused, and then nothing is published, no worker
  is started and the admission counters are as before, also when the reservation had been made. Or it
  answers a new run id that is reserved for the session, one \<open>RunQueued\<close> event for it is published,
  a worker is started, and the provider and the model were given and the provider resolves.\<close>

theorem queue_run_outcomes:
  assumes "inj (en_uuid env)" and "admission_fresh env s" and "queue_run env sid request s = Some (r, s')"
  shows "case r of
      Inl e \<Rightarrow> su_published s' = su_published s \<and> su_workers s' = su_workers s \<and>
        su_admission s' = su_admission s
    | Inr run_id \<Rightarrow> rq_provider request \<noteq> [] \<and> rq_model request \<noteq> [] \<and> \<not> su_shutdown s \<and>
        is_ok (resolve_provider (en_config_env env) (en_config env) (rq_provider request)) \<and>
        queued env sid request run_id s s'"
  using assms by (rule queue_run_cases)

theorem queue_run_outcomes_witness:
  "\<exists>s'. queued example_sup ''s'' example_request [] (sup_start example_disk) s'"
proof -
  obtain s' where q: "queue_run example_sup ''s'' example_request (sup_start example_disk) = Some (Inr [], s')"
    by (rule example_queue)
  from queue_run_outcomes [OF example_uuid_inj start_fresh q] show ?thesis by auto
qed

section \<open>Claims: permissions\<close>


definition example_call :: tool_call_projection where
  "example_call =
     \<lparr>tp_call_id = ''c'', tp_assistant_message_id = ''a'', tp_agent_id = ''assistant'',
      tp_tool_name = ''read'', tp_arguments = JNull, tp_raw_arguments = [], tp_native = True,
      tp_execution_id = None, tp_result = None\<rparr>"


section \<open>Claims: responses\<close>


text \<open>C27. The loop over a streamed response returns once the body ends, fails, or the run is cancelled or
  shut down, whatever chunks and timer ticks came before, and whether or not the store accepts the
  events.\<close>

theorem stream_loop_terminates:
  assumes "list_all goes_on ws" and "ends_stream w"
  shows "\<exists>r t. stream_loop env timed protocol sid run_id mid buffer st (ws @ [w])
           (s\<lparr>su_script := ws @ [w]\<rparr>) = Some (r, t)"
  using stream_loop_returns [OF assms] by auto

theorem stream_loop_terminates_witness:
  "\<exists>r t. stream_loop example_sup False ChatCompletions ''s'' ''r'' ''m'' [] stream_start
     ([W_Chunk ''data: '', W_FlushTick] @ [W_EndOfBody])
     ((sup_start example_disk)\<lparr>su_script := [W_Chunk ''data: '', W_FlushTick] @ [W_EndOfBody]\<rparr>) = Some (r, t)"
  by (rule stream_loop_terminates) (simp_all add: goes_on_def ends_stream_def)



text \<open>C12. A turn with the provider never answers \<open>Completed\<close>: the end of \<open>execute_run\<close> turns it into
  \<open>CompletedWithUsage\<close>. The branch of \<open>finish_run\<close> that looks for open tool calls, requires action and
  evaluates permissions is taken for \<open>Completed\<close> only, so it is dead: a run that emitted tool calls is
  completed without them being evaluated.\<close>

theorem tool_calls_never_evaluated:
  "execute_run env timed sid run s \<noteq> Some (Inr X_Completed, s') \<and>
   settle_result n env sid run (X_CompletedWithUsage usage) = ret (X_CompletedWithUsage usage)"
  using execute_run_yields [of env timed sid run]
  by (auto simp: yields_def not_completed_def settle_result_def)

section \<open>Claims: request bodies\<close>

text \<open>A request body that is built is an object with a model, a stream flag and the transcript of the
  protocol, and every field of the merged configuration and request layers has its value there.\<close>

theorem request_body_typed:
  assumes "build_body print show_config show_merge c protocol request p native_tools mcp_tools =
      Some (Inr body)"
  shows "\<exists>merged. merge_request_bodies (body_layers c (rq_model request) (rq_agent request)
      (rq_variant request) (rq_body request)) = Inr merged \<and> body_typed protocol merged body"
  using assms by (rule build_body_typed)

theorem request_body_typed_witness:
  "\<exists>body. build_body (\<lambda>_. []) (\<lambda>_. []) (\<lambda>_. []) example_settings Responses example_request
     (projection_new ''s'') [] [] = Some (Inr body) \<and> is_object body"
proof -
  have "\<exists>body. build_body (\<lambda>_. []) (\<lambda>_. []) (\<lambda>_. []) example_settings Responses example_request
     (projection_new ''s'') [] [] = Some (Inr body)"
    by (simp add: build_body_def body_layers_def example_settings_def example_request_def
        body_layer_default_def normalize_body_def is_null_def merge_request_bodies_def as_object_def
        jobj_def Let_def)
  then obtain body where b: "build_body (\<lambda>_. []) (\<lambda>_. []) (\<lambda>_. []) example_settings Responses
     example_request (projection_new ''s'') [] [] = Some (Inr body)" by blast
  from request_body_typed [OF b] b show ?thesis by (auto simp: body_typed_def)
qed

text \<open>C30. After a compaction, the loop that attaches tool calls to the transcript of Chat Completions
  indexes past its end: when an assistant message with a visible call stands at a position among the
  closed messages that the shortened transcript does not have, building the body panics.\<close>

theorem compacted_transcript_panics:
  assumes "k < length (filter closed_message (sp_messages p))"
    and "length (base_transcript instructions artifact p) \<le> k"
    and "mp_role (filter closed_message (sp_messages p) ! k) = Role_Assistant"
    and "c \<in> set (all_calls p)" and "call_visible artifact p c"
    and "tp_assistant_message_id c = mp_message_id (filter closed_message (sp_messages p) ! k)"
  shows "chat_transcript print instructions artifact p = None"
  using chat_transcript_outside [OF assms(1,2) refl assms(3-6)] .

definition example_closed :: "string \<Rightarrow> message_role \<Rightarrow> nat \<Rightarrow> message_projection" where
  "example_closed i role n =
     \<lparr>mp_message_id = i, mp_role = role, mp_agent_id = None, mp_author = Au_User, mp_blocks = [],
      mp_completed = True, mp_interrupted = False, mp_first_event_id = n, mp_last_event_id = n\<rparr>"

definition example_compacted :: session_projection where
  "example_compacted =
     (projection_new ''s'')\<lparr>
       sp_messages := [example_closed ''x'' Role_User 1, example_closed ''y'' Role_User 2,
                       example_closed ''a'' Role_Assistant 3],
       sp_runs := [(''r'',
         \<lparr>rp_run_id = ''r'', rp_retry_of = None, rp_provider = ''p'', rp_model = ''m'', rp_request = JNull,
          rp_status = R_RequiresAction, rp_attempt_id = None, rp_attempts = 1, rp_error = None,
          rp_usage = None, rp_queue_priority = 0, rp_tool_calls = [(''c'', example_call)]\<rparr>)]\<rparr>"

definition example_artifact :: context_artifact where
  "example_artifact =
     \<lparr>ca_artifact_id = ''f'', ca_supersedes_artifact_id = None, ca_strategy = Deterministic,
      ca_strategy_version = 1, ca_source_start_event_id = 1, ca_source_end_event_id = 2,
      ca_context_window_tokens = 100, ca_output_reserve_tokens = 10, ca_estimated_input_tokens = 90,
      ca_target_input_tokens = 50, ca_estimator_version = CONTEXT_ESTIMATOR_VERSION,
      ca_summary = [], ca_tool_correlations = []\<rparr>"

theorem compacted_transcript_panics_witness:
  "chat_transcript (\<lambda>_. []) None (Some example_artifact) example_compacted = None"
  by (rule compacted_transcript_panics [of 2 example_compacted None "Some example_artifact" example_call])
     (simp_all add: example_compacted_def example_closed_def example_artifact_def closed_message_def
       base_transcript_def message_visible_def all_calls_def bt_values_def call_visible_def
       example_call_def)

section \<open>Claims: tool results\<close>


definition example_answer :: tool_call_projection where
  "example_answer = example_call\<lparr>tp_native := False, tp_result := Some JNull\<rparr>"

definition example_waiting :: run_projection where
  "example_waiting =
     \<lparr>rp_run_id = ''r'', rp_retry_of = None, rp_provider = ''p'', rp_model = ''m'', rp_request = JNull,
      rp_status = R_RequiresAction, rp_attempt_id = None, rp_attempts = 1, rp_error = None,
      rp_usage = None, rp_queue_priority = 0, rp_tool_calls = [(''c'', example_answer)]\<rparr>"

definition example_permission :: permission_projection where
  "example_permission =
     \<lparr>pj_request_id = ''q'', pj_run_id = ''r'', pj_call_id = Some ''c'', pj_agent_id = ''assistant'',
      pj_tool_name = ''read'', pj_arguments = JNull, pj_decision = Some Allow\<rparr>"

definition example_answered :: session_projection where
  "example_answered =
     (projection_new ''s'')\<lparr>sp_runs := [(''r'', example_waiting)],
       sp_pending_permissions := [(''q'', example_permission)]\<rparr>"


end
