(* ===== verification/Http.thy ===== *)
theory Http
  imports Config Store "HOL-Library.Word"
begin

text \<open>
  The parts of piqo-server/src/lib.rs that every request passes: the errors of the API and the
  responses they become, bearer authentication with its constant-time comparison, request
  extraction errors, the \<open>Last-Event-ID\<close> header, and the names enumerations have on the wire.
  Header values are byte strings, header names are in lower case. \<open>HeaderValue::to_str\<close> and the
  texts that \<open>Display\<close> gives errors are arguments.
\<close>

unbundle bit_operations_syntax

section \<open>Requests and responses\<close>

datatype http_method = GET | POST | PUT | PATCH | DELETE

record http_request =
  hq_method :: http_method
  hq_path :: "string list"
  hq_headers :: "(string \<times> string) list"
  hq_query :: "(string \<times> string) list"
  hq_body :: string

text \<open>\<open>ErrorResponse\<close> with its \<open>ErrorBody\<close>, a JSON payload, or no body.\<close>

datatype 'b body = Failure string string | Payload 'b | Empty

record 'b response =
  hr_status :: nat
  hr_headers :: "(string \<times> string) list"
  hr_body :: "'b body"

definition header_of :: "http_request \<Rightarrow> string \<Rightarrow> string option" where
  "header_of request name = map_of (hq_headers request) name"

definition failure :: "nat \<Rightarrow> string \<Rightarrow> string \<Rightarrow> 'b response" where
  "failure status code message = \<lparr>hr_status = status, hr_headers = [], hr_body = Failure code message\<rparr>"

definition with_header :: "string \<Rightarrow> string \<Rightarrow> 'b response \<Rightarrow> 'b response" where
  "with_header name v r = r\<lparr>hr_headers := (name, v) # filter (\<lambda>(n, _). n \<noteq> name) (hr_headers r)\<rparr>"

section \<open>Errors\<close>

datatype api_error =
    Api_Store store_error
  | Api_Config config_error
  | BadRequest string string
  | InvalidConfig string
  | PayloadTooLarge

text \<open>The texts \<open>to_string\<close> gives for errors inside errors.\<close>

record display =
  dy_projection :: "projection_error \<Rightarrow> string"
  dy_transport :: "provider_transport_error \<Rightarrow> string"
  dy_config :: "config_error \<Rightarrow> string"

definition config_response :: "display \<Rightarrow> config_error \<Rightarrow> 'b response" where
  "config_response dy e =
     (case e of
        Cf_ProviderNotFound name \<Rightarrow>
          failure 404 ''provider_not_found'' (''provider '' @ name @ '' was not found'')
      | AgentNotFound name \<Rightarrow>
          failure 400 ''agent_not_found'' (''agent '' @ name @ '' was not found'')
      | ProviderAlreadyExists name \<Rightarrow>
          failure 409 ''provider_already_exists'' (''provider '' @ name @ '' already exists'')
      | ManualModelOverride name \<Rightarrow>
          failure 409 ''manual_model_override'' (''provider '' @ name @ '' has a manual model override'')
      | InvalidProvider message \<Rightarrow> failure 400 ''invalid_request'' message
      | InvalidProtocol provider source \<Rightarrow>
          failure 400 ''invalid_request'' (dy_transport dy source)
      | ConflictingCredentials name \<Rightarrow>
          failure 400 ''invalid_request'' (''provider '' @ name @ '' has conflicting credentials'')
      | ReadOnly \<Rightarrow>
          failure 503 ''configuration_read_only'' ''provider configuration is read-only''
      | _ \<Rightarrow>
          failure 503 ''configuration_unavailable'' ''provider configuration is temporarily unavailable'')"

definition store_response :: "display \<Rightarrow> store_error \<Rightarrow> 'b response" where
  "store_response dy e =
     (case e of
        RunCapacityExceeded \<Rightarrow>
          with_header ''retry-after'' ''1'' (failure 429 ''run_capacity_exceeded'' ''run capacity has been reached'')
      | SseCapacityExceeded \<Rightarrow>
          with_header ''retry-after'' ''1'' (failure 429 ''sse_capacity_exceeded'' ''SSE connection capacity has been reached'')
      | SessionNotFound sid \<Rightarrow>
          failure 404 ''session_not_found'' (''session '' @ sid @ '' was not found'')
      | ProjectNotFound pid \<Rightarrow>
          failure 404 ''project_not_found'' (''project '' @ pid @ '' was not found'')
      | ProjectPathConflict path \<Rightarrow>
          failure 409 ''project_path_conflict'' (''a project already uses path '' @ path)
      | ProjectDeleting pid \<Rightarrow>
          failure 409 ''project_deleting'' (''project '' @ pid @ '' is being deleted'')
      | EventNotFound sid event_id \<Rightarrow>
          failure 404 ''event_not_found'' (''event '' @ decimal event_id @ '' was not found in session '' @ sid)
      | InvalidCursor \<Rightarrow> failure 400 ''invalid_cursor'' ''invalid pagination cursor''
      | InvalidProjection e \<Rightarrow> failure 409 ''invalid_transition'' (dy_projection dy e)
      | InvalidRequest message \<Rightarrow> failure 400 ''invalid_request'' message
      | Conflict message \<Rightarrow> failure 409 ''conflict'' message
      | E_QueuePaused \<Rightarrow> failure 409 ''queue_paused'' ''session queue is paused''
      | QueueNotPaused \<Rightarrow> failure 409 ''conflict'' ''session queue is not paused''
      | BackupUnavailable \<Rightarrow>
          failure 409 ''backup_unavailable'' ''a backup cannot be created for this database''
      | ShuttingDown \<Rightarrow> failure 503 ''server_shutting_down'' ''server is shutting down''
      | ShutdownTimeout \<Rightarrow>
          failure 503 ''server_shutdown_timeout'' ''server shutdown timed out''
      | RunNotFound rid \<Rightarrow>
          failure 404 ''run_not_found'' (''run '' @ rid @ '' was not found'')
      | ToolCallNotFound cid \<Rightarrow>
          failure 404 ''tool_call_not_found'' (''tool call '' @ cid @ '' was not found'')
      | ToolCallWrongRun cid rid \<Rightarrow>
          failure 409 ''tool_call_wrong_run'' (''tool call '' @ cid @ '' does not belong to run '' @ rid)
      | ToolResultConflict cid \<Rightarrow>
          failure 409 ''tool_result_conflict'' (''tool result for '' @ cid @ '' conflicts with the recorded result'')
      | NativeToolManaged cid \<Rightarrow>
          failure 409 ''native_tool_managed'' (''native tool call '' @ cid @ '' is executed by the server'')
      | McpToolManaged cid \<Rightarrow>
          failure 409 ''mcp_tool_managed'' (''MCP tool call '' @ cid @ '' is executed by the server'')
      | CallerOwnedTranscript \<Rightarrow>
          failure 409 ''caller_owned_transcript'' ''tool results cannot be submitted when body owns messages or input''
      | ProviderNotFound name \<Rightarrow>
          failure 404 ''provider_not_found'' (''provider '' @ name @ '' was not found'')
      | ProviderUnavailable message \<Rightarrow> failure 503 ''provider_unavailable'' message
      | ProviderProtocolError message \<Rightarrow> failure 502 ''provider_protocol_error'' message
      | _ \<Rightarrow> failure 503 ''storage_unavailable'' ''storage is temporarily unavailable'')"

fun into_response :: "display \<Rightarrow> api_error \<Rightarrow> 'b response" where
  "into_response dy PayloadTooLarge =
     failure 413 ''payload_too_large'' ''request body exceeds the configured limit''"
| "into_response dy (Api_Store e) = store_response dy e"
| "into_response dy (BadRequest code message) = failure 400 code message"
| "into_response dy (InvalidConfig message) = failure 422 ''config_invalid'' message"
| "into_response dy (Api_Config e) = config_response dy e"

definition shutting_down_response :: "'b response" where
  "shutting_down_response = failure 503 ''server_shutting_down'' ''server is shutting down''"

definition api_not_found :: "'b response" where
  "api_not_found = failure 404 ''not_found'' ''route not found''"

definition api_method_not_allowed :: "'b response" where
  "api_method_not_allowed = failure 405 ''invalid_request'' ''method not allowed''"

text \<open>\<open>ApiJson\<close>, on the text of the error axum's extractor rejects a body with.\<close>

fun contains_sub :: "string \<Rightarrow> string \<Rightarrow> bool" where
  "contains_sub pat [] = (pat = [])"
| "contains_sub pat (c # cs) = (starts_with pat (c # cs) \<or> contains_sub pat cs)"

definition json_rejection :: "string \<Rightarrow> api_error" where
  "json_rejection text =
     (if contains_sub ''length limit'' text then PayloadTooLarge else BadRequest ''invalid_request'' text)"

section \<open>Authentication\<close>

definition byte_at :: "string \<Rightarrow> nat \<Rightarrow> 64 word" where
  "byte_at s i = (if i < length s then of_nat (byte (s ! i)) else 0)"

definition constant_time_equal :: "string \<Rightarrow> string \<Rightarrow> bool" where
  "constant_time_equal left right =
     (fold (\<lambda>i difference. difference OR (byte_at left i XOR byte_at right i))
        [0..<max (length left) (length right)]
        (word_of_nat (length left) XOR word_of_nat (length right)) = (0 :: 64 word))"

definition authorized :: "(string \<Rightarrow> string option) \<Rightarrow> string \<Rightarrow> http_request \<Rightarrow> bool" where
  "authorized to_str expected request =
     (case Option.bind (Option.bind (header_of request ''authorization'') to_str)
             (strip_prefix ''Bearer '') of
        None \<Rightarrow> False
      | Some candidate \<Rightarrow> constant_time_equal candidate expected)"

definition unauthorized_response :: "'b response" where
  "unauthorized_response =
     with_header ''www-authenticate'' ''Bearer''
       (failure 401 ''unauthorized'' ''a valid bearer token is required'')"

section \<open>Parameters\<close>

definition parse_last_event_id ::
  "(string \<Rightarrow> string option) \<Rightarrow> http_request \<Rightarrow> (api_error, nat) result" where
  "parse_last_event_id to_str request =
     (case header_of request ''last-event-id'' of
        None \<Rightarrow> Inr 0
      | Some v \<Rightarrow>
          and_then (ok_or (BadRequest ''invalid_cursor'' ''Last-Event-ID is not valid UTF-8'') (to_str v))
            (\<lambda>v. ok_or (BadRequest ''invalid_cursor'' ''Last-Event-ID must be an integer'') (parse_u64 v)))"

definition validated_project_name :: "string \<Rightarrow> (api_error, string) result" where
  "validated_project_name name =
     (let name = trim name
      in if name = [] then Inl (BadRequest ''invalid_request'' ''project name must not be empty'')
         else Inr name)"

text \<open>\<open>canonical_project_path\<close>, on what the file system answers for the path.\<close>

definition canonical_project_path ::
  "(string \<Rightarrow> (string, string) result) \<Rightarrow> (string \<Rightarrow> (string, bool) result) \<Rightarrow> string
   \<Rightarrow> (api_error, string) result" where
  "canonical_project_path canonicalize is_dir path =
     (if \<not> starts_with ''/'' path
      then Inl (BadRequest ''invalid_request'' ''project path must be absolute'')
      else
        and_then (map_err (\<lambda>e. BadRequest ''invalid_request'' (''project path cannot be resolved: '' @ e))
                    (canonicalize path)) (\<lambda>canonical.
        and_then (map_err (\<lambda>e. BadRequest ''invalid_request'' (''project path cannot be inspected: '' @ e))
                    (is_dir canonical)) (\<lambda>directory.
        if directory then Inr canonical
        else Inl (BadRequest ''invalid_request'' ''project path must be a directory''))))"

section \<open>Bind addresses\<close>

datatype ip_addr = IPv4 "nat \<times> nat \<times> nat \<times> nat" | IPv6 "nat list"

record socket_addr =
  sa_ip :: ip_addr
  sa_port :: nat

fun is_loopback :: "ip_addr \<Rightarrow> bool" where
  "is_loopback (IPv4 (a, _)) = (a = 127)"
| "is_loopback (IPv6 segments) = (segments = [0, 0, 0, 0, 0, 0, 0, 1])"

definition validate_bind_address :: "socket_addr \<Rightarrow> (socket_addr, unit) result" where
  "validate_bind_address bind = (if is_loopback (sa_ip bind) then Inr () else Inl bind)"

section \<open>Correctness\<close>

lemma fold_or_0_iff:
  "fold (\<lambda>i d. d OR f i) xs d = (0 :: 'a::len word) \<longleftrightarrow> d = 0 \<and> (\<forall>i \<in> set xs. f i = 0)"
  by (induction xs arbitrary: d) (auto simp: or_eq_0_iff)

lemma xor_0_iff: "a XOR b = (0 :: 'a::len word) \<longleftrightarrow> a = b"
  by (auto simp: bit_eq_iff bit_simps)

lemma byte_inj: "byte a = byte b \<longleftrightarrow> a = b"
  by (simp add: byte_def)

lemma byte_less: "byte c < 256"
  by (simp add: byte_def)

lemma byte_word_inj: "(word_of_nat (byte a) :: 64 word) = word_of_nat (byte b) \<longleftrightarrow> a = b"
  using byte_less [of a] byte_less [of b]
  by (simp add: word_of_nat_eq_iff take_bit_nat_eq_self byte_inj)

lemma constant_time_equal_iff:
  assumes "length left < 2 ^ 64" and "length right < 2 ^ 64"
  shows "constant_time_equal left right \<longleftrightarrow> left = right"
proof -
  have len: "(word_of_nat (length left) :: 64 word) = word_of_nat (length right) \<longleftrightarrow>
      length left = length right"
    using assms by (simp add: word_of_nat_eq_iff take_bit_nat_eq_self)
  have "constant_time_equal left right \<longleftrightarrow> length left = length right \<and>
      (\<forall>i < max (length left) (length right). byte_at left i = byte_at right i)"
    unfolding constant_time_equal_def fold_or_0_iff xor_0_iff len by auto
  also have "\<dots> \<longleftrightarrow> length left = length right \<and> (\<forall>i < length left. left ! i = right ! i)"
    by (auto simp: byte_at_def byte_word_inj)
  also have "\<dots> \<longleftrightarrow> left = right"
    by (auto simp: list_eq_iff_nth_eq)
  finally show ?thesis .
qed

end
