(* ===== verification/Mcp.thy ===== *)
theory Mcp
  imports Tools Effects
begin

text \<open>
  \<open>McpManager\<close> of piqo-tools/src/lib.rs: the supervision of stdio MCP servers. An entry keeps its
  state, the tools its server published, the last error, the count of failed starts, the
  connection and the flag a tool list notification sets. The children that run are part of the
  state, a child named by the instant it was spawned at. Processes, the protocol library and the
  schema validator are arguments. Each method is one step: entries shared with a call that is
  still under way when the configuration is replaced are not modelled.
\<close>

section \<open>State\<close>

datatype mcp_server_state = Mcp_Starting | Mcp_Healthy | Mcp_Failed | Mcp_Stopped

record mcp_entry =
  mn_id :: string
  mn_config :: mcp_server_config
  mn_state :: mcp_server_state
  mn_tools :: "mcp_tool_definition list"
  mn_last_error :: "string option"
  mn_restart_attempts :: nat
  mn_connection :: "nat option"
  mn_catalog_dirty :: bool

record mcp_server_diagnostics =
  mg_id :: string
  mg_enabled :: bool
  mg_state :: mcp_server_state
  mg_tools :: "mcp_tool_definition list"
  mg_last_error :: "string option"
  mg_restart_attempts :: nat

record mcp_manager =
  mm_entries :: "(string, mcp_entry) bt_map"
  mm_running :: "nat list"
  mm_now :: nat

text \<open>What a call to a server comes to: cancelled, failed or timed out, incomplete, or an answer.\<close>

datatype mcp_reply = Rp_Cancelled | Rp_Failed | Rp_Incomplete | Rp_Complete json

record mcp_world =
  mx_spawns :: "nat \<Rightarrow> mcp_server_config \<Rightarrow> bool"
  mx_handshake :: "nat \<Rightarrow> bool"
  mx_list_tools :: "nat \<Rightarrow> listed_tool list option"
  mx_schema_ok :: "json \<Rightarrow> bool"
  mx_valid :: "json \<Rightarrow> json \<Rightarrow> bool"
  mx_reply :: "nat \<Rightarrow> string \<Rightarrow> json \<Rightarrow> mcp_reply"
  mx_size :: "json \<Rightarrow> nat"

type_synonym 'a mcp_act = "(mcp_manager, mcp_error, 'a) comp"

section \<open>Steps\<close>

definition mcp_tick :: "nat mcp_act" where
  "mcp_tick = bind (gets mm_now) (\<lambda>n. bind (modify (\<lambda>m. m\<lparr>mm_now := Suc n\<rparr>)) (\<lambda>_. ret n))"

definition put_entry :: "mcp_entry \<Rightarrow> unit mcp_act" where
  "put_entry e = modify (\<lambda>m. m\<lparr>mm_entries := bt_insert (mn_id e) e (mm_entries m)\<rparr>)"

definition child_started :: "nat \<Rightarrow> unit mcp_act" where
  "child_started n = modify (\<lambda>m. m\<lparr>mm_running := n # mm_running m\<rparr>)"

definition stop_connection :: "nat \<Rightarrow> unit mcp_act" where
  "stop_connection n = modify (\<lambda>m. m\<lparr>mm_running := removeAll n (mm_running m)\<rparr>)"

definition entry_new :: "string \<Rightarrow> mcp_server_config \<Rightarrow> mcp_entry" where
  "entry_new server_id c =
     \<lparr>mn_id = server_id, mn_config = c, mn_state = Mcp_Stopped, mn_tools = [],
      mn_last_error = None, mn_restart_attempts = 0, mn_connection = None,
      mn_catalog_dirty = False\<rparr>"

definition mcp_entries_new ::
  "(string, mcp_server_config) bt_map \<Rightarrow> (mcp_error, (string, mcp_entry) bt_map) result" where
  "mcp_entries_new configs =
     and_then (collect (map mcp_validate (bt_values configs)))
       (\<lambda>_. Inr (bt_extend bt_empty (map (\<lambda>(server_id, c). (server_id, entry_new server_id c)) configs)))"

definition stop_entry :: "mcp_entry \<Rightarrow> mcp_entry mcp_act" where
  "stop_entry e =
     bind (case mn_connection e of None \<Rightarrow> ret () | Some n \<Rightarrow> stop_connection n)
       (\<lambda>_. ret (e\<lparr>mn_connection := None, mn_state := Mcp_Stopped\<rparr>))"

definition mcp_fail :: "mcp_entry \<Rightarrow> 'a mcp_act" where
  "mcp_fail e =
     bind (put_entry (e\<lparr>mn_restart_attempts := min u8_max (mn_restart_attempts e + 1),
                        mn_state := Mcp_Failed,
                        mn_last_error := Some ''MCP server startup, handshake, or discovery failed''\<rparr>))
       (\<lambda>_. raise M_Unavailable)"

definition refresh_catalog :: "mcp_world \<Rightarrow> mcp_entry \<Rightarrow> mcp_entry mcp_act" where
  "refresh_catalog w e =
     bind mcp_tick (\<lambda>n.
     bind (require M_Unavailable (mx_list_tools w n)) (\<lambda>discovered.
     ret (e\<lparr>mn_tools := compile_catalog (mx_schema_ok w) (mn_id e) discovered\<rparr>)))"

definition start_entry :: "mcp_world \<Rightarrow> mcp_entry \<Rightarrow> nat mcp_act" where
  "start_entry w e =
     bind (put_entry (e\<lparr>mn_state := Mcp_Starting\<rparr>)) (\<lambda>_.
     bind mcp_tick (\<lambda>n.
     if \<not> mx_spawns w n (mn_config e) then mcp_fail e
     else
       bind (child_started n) (\<lambda>_.
       if \<not> mx_handshake w n then bind (stop_connection n) (\<lambda>_. mcp_fail e)
       else
         bind (attempt (refresh_catalog w e)) (\<lambda>refreshed.
         case refreshed of
           Inl _ \<Rightarrow> bind (stop_connection n) (\<lambda>_. mcp_fail e)
         | Inr e' \<Rightarrow>
             bind (put_entry (e'\<lparr>mn_last_error := None, mn_state := Mcp_Healthy,
                                mn_connection := Some n, mn_restart_attempts := 0\<rparr>))
               (\<lambda>_. ret n)))))"

definition ensure_entry :: "mcp_world \<Rightarrow> string \<Rightarrow> nat mcp_act" where
  "ensure_entry w server_id =
     bind (gets (\<lambda>m. bt_get (mm_entries m) server_id)) (\<lambda>found.
     bind (require M_Unavailable found) (\<lambda>e.
     bind (check (mc_enabled (mn_config e)) M_Unavailable) (\<lambda>_.
     case mn_connection e of
       Some n \<Rightarrow>
         if mn_catalog_dirty e
         then
           let e1 = e\<lparr>mn_catalog_dirty := False\<rparr>
           in bind (put_entry e1) (\<lambda>_.
              bind (refresh_catalog w e1) (\<lambda>e2.
              bind (put_entry e2) (\<lambda>_. ret n)))
         else ret n
     | None \<Rightarrow>
         if mc_max_restart_attempts (mn_config e) \<le> mn_restart_attempts e \<and>
            mn_restart_attempts e \<noteq> 0
         then raise M_Unavailable
         else start_entry w e)))"

definition start_enabled :: "mcp_world \<Rightarrow> unit mcp_act" where
  "start_enabled w =
     bind (gets (\<lambda>m. map fst (filter (\<lambda>(_, e). mc_enabled (mn_config e)) (mm_entries m))))
       (each (\<lambda>server_id. ignore_result (ensure_entry w server_id)))"

definition reconcile :: "mcp_world \<Rightarrow> (string, mcp_server_config) bt_map \<Rightarrow> unit mcp_act" where
  "reconcile w configs =
     bind (of_result (mcp_entries_new configs)) (\<lambda>replacement.
     bind (gets mm_entries) (\<lambda>previous.
     bind (modify (\<lambda>m. m\<lparr>mm_entries := replacement\<rparr>)) (\<lambda>_.
     bind (each (\<lambda>e. bind (stop_entry e) (\<lambda>_. ret ())) (bt_values previous)) (\<lambda>_.
     start_enabled w))))"

definition diagnostics :: "mcp_manager \<Rightarrow> mcp_server_diagnostics list" where
  "diagnostics m =
     map (\<lambda>(server_id, e).
       \<lparr>mg_id = server_id, mg_enabled = mc_enabled (mn_config e), mg_state = mn_state e,
        mg_tools = mn_tools e, mg_last_error = mn_last_error e,
        mg_restart_attempts = mn_restart_attempts e\<rparr>) (mm_entries m)"

definition catalog :: "mcp_world \<Rightarrow> mcp_tool_definition list mcp_act" where
  "catalog w =
     bind (start_enabled w) (\<lambda>_.
     gets (\<lambda>m. mcp_catalog (map (\<lambda>(server_id, e). (server_id, mn_tools e)) (mm_entries m))))"

definition find_tool :: "mcp_manager \<Rightarrow> string \<Rightarrow> (string \<times> mcp_tool_definition) option" where
  "find_tool m public_name =
     List.find (\<lambda>(_, t). mt_name t = public_name)
       (concat (map (\<lambda>(server_id, e). map (\<lambda>t. (server_id, t)) (mn_tools e)) (mm_entries m)))"

definition stop_server :: "string \<Rightarrow> unit mcp_act" where
  "stop_server server_id =
     bind (gets (\<lambda>m. bt_get (mm_entries m) server_id)) (\<lambda>found.
     case found of
       None \<Rightarrow> ret ()
     | Some e \<Rightarrow> bind (stop_entry e) put_entry)"

definition call_uncertain :: "string \<Rightarrow> json mcp_act" where
  "call_uncertain server_id = bind (stop_server server_id) (\<lambda>_. raise Uncertain)"

definition result_limit :: "mcp_manager \<Rightarrow> string \<Rightarrow> nat" where
  "result_limit m server_id =
     (case bt_get (mm_entries m) server_id of
        None \<Rightarrow> 0 | Some e \<Rightarrow> mc_max_result_bytes (mn_config e))"

definition mcp_call :: "mcp_world \<Rightarrow> string \<Rightarrow> json \<Rightarrow> json mcp_act" where
  "mcp_call w public_name arguments =
     bind (gets (\<lambda>m. find_tool m public_name)) (\<lambda>found.
     bind (require ToolNotFound found) (\<lambda>(server_id, tool).
     bind (ensure_entry w server_id) (\<lambda>connection.
     bind (check (mx_schema_ok w (mt_input_schema tool)) M_InvalidArguments) (\<lambda>_.
     bind (check (mx_valid w (mt_input_schema tool) arguments \<and> is_object arguments)
             M_InvalidArguments) (\<lambda>_.
     bind mcp_tick (\<lambda>n.
     case mx_reply w n (mt_server_tool_name tool) arguments of
       Rp_Complete value \<Rightarrow>
         bind (gets (\<lambda>m. result_limit m server_id)) (\<lambda>limit.
         bind (check (mx_size w value \<le> limit) ResultTooLarge) (\<lambda>_. ret value))
     | _ \<Rightarrow> call_uncertain server_id))))))"

definition mcp_shutdown :: "unit mcp_act" where
  "mcp_shutdown = bind (gets (\<lambda>m. map fst (mm_entries m))) (each stop_server)"

text \<open>A \<open>tools/list_changed\<close> notification from the server.\<close>

definition on_tool_list_changed :: "string \<Rightarrow> unit mcp_act" where
  "on_tool_list_changed server_id =
     bind (gets (\<lambda>m. bt_get (mm_entries m) server_id)) (\<lambda>found.
     case found of
       None \<Rightarrow> ret ()
     | Some e \<Rightarrow> put_entry (e\<lparr>mn_catalog_dirty := True\<rparr>))"

definition mcp_new :: "(string, mcp_server_config) bt_map \<Rightarrow> (mcp_error, mcp_manager) result" where
  "mcp_new configs =
     and_then (mcp_entries_new configs)
       (\<lambda>entries. Inr \<lparr>mm_entries = entries, mm_running = [], mm_now = 0\<rparr>)"

section \<open>Reachable managers\<close>

datatype mcp_command =
    Mcp_Start | Mcp_Catalog | Mcp_Call string json | Mcp_Notify string
  | Mcp_Reconcile "(string, mcp_server_config) bt_map" | Mcp_Shutdown

fun run_mcp :: "mcp_world \<Rightarrow> mcp_command \<Rightarrow> unit mcp_act" where
  "run_mcp w Mcp_Start = start_enabled w"
| "run_mcp w Mcp_Catalog = bind (catalog w) (\<lambda>_. ret ())"
| "run_mcp w (Mcp_Call name arguments) = bind (mcp_call w name arguments) (\<lambda>_. ret ())"
| "run_mcp w (Mcp_Notify server_id) = on_tool_list_changed server_id"
| "run_mcp w (Mcp_Reconcile configs) = reconcile w configs"
| "run_mcp w Mcp_Shutdown = mcp_shutdown"

inductive mcp_reaches :: "mcp_world \<Rightarrow> mcp_manager \<Rightarrow> mcp_manager \<Rightarrow> bool" for w where
  mcp_refl: "mcp_reaches w m m"
| mcp_step: "mcp_reaches w m m' \<Longrightarrow> run_mcp w command m' = Some (r, m'') \<Longrightarrow> mcp_reaches w m m''"

end
