(* ===== verification/Views.thy ===== *)
theory Views
  imports Http Mcp
begin

text \<open>
  What the API returns (piqo-server/src/lib.rs): the \<open>Api\<close> structures, their conversions from the
  projection, the store's rows and the MCP diagnostics, and the names of the enumerations.
\<close>

section \<open>Names\<close>

fun session_phase_name :: "session_phase \<Rightarrow> string" where
  "session_phase_name S_Created = ''created''"
| "session_phase_name S_Running = ''running''"
| "session_phase_name S_Interrupted = ''interrupted''"
| "session_phase_name S_Finished = ''finished''"
| "session_phase_name S_Failed = ''failed''"

fun agent_phase_name :: "agent_phase \<Rightarrow> string" where
  "agent_phase_name A_Created = ''created''"
| "agent_phase_name A_Running = ''running''"
| "agent_phase_name A_WaitingForPermission = ''waiting_for_permission''"
| "agent_phase_name A_Finished = ''finished''"
| "agent_phase_name A_Failed = ''failed''"

fun message_role_name :: "message_role \<Rightarrow> string" where
  "message_role_name Role_System = ''system''"
| "message_role_name Role_User = ''user''"
| "message_role_name Role_Assistant = ''assistant''"
| "message_role_name Role_Tool = ''tool''"

fun permission_decision_name :: "permission_decision \<Rightarrow> string" where
  "permission_decision_name Allow = ''allow''"
| "permission_decision_name Ask = ''ask''"
| "permission_decision_name Deny = ''deny''"

fun agent_terminal_status_name :: "agent_terminal_status \<Rightarrow> string" where
  "agent_terminal_status_name T_Completed = ''completed''"
| "agent_terminal_status_name T_Failed = ''failed''"
| "agent_terminal_status_name T_Cancelled = ''cancelled''"
| "agent_terminal_status_name T_Interrupted = ''interrupted''"

fun compaction_strategy_name :: "compaction_strategy \<Rightarrow> string" where
  "compaction_strategy_name Deterministic = ''deterministic''"
| "compaction_strategy_name Llm = ''llm''"

fun mcp_server_state_name :: "mcp_server_state \<Rightarrow> string" where
  "mcp_server_state_name Mcp_Starting = ''starting''"
| "mcp_server_state_name Mcp_Healthy = ''healthy''"
| "mcp_server_state_name Mcp_Failed = ''failed''"
| "mcp_server_state_name Mcp_Stopped = ''stopped''"

fun run_status_name :: "run_status \<Rightarrow> string" where
  "run_status_name R_Queued = ''queued''"
| "run_status_name R_Running = ''running''"
| "run_status_name R_RequiresAction = ''requires_action''"
| "run_status_name R_Completed = ''completed''"
| "run_status_name R_Failed = ''failed''"
| "run_status_name R_Cancelled = ''cancelled''"
| "run_status_name R_Interrupted = ''interrupted''"

section \<open>Structures\<close>

record api_project =
  vp_id :: string
  vp_name :: string
  vp_path :: string
  vp_created_at :: string
  vp_updated_at :: string

record api_session_state =
  vt_session_id :: string
  vt_phase :: string
  vt_revision :: nat
  vt_last_event_id :: "nat option"

datatype api_message_author = Va_System | Va_User | Va_Agent string | Va_Tool string

datatype api_content_block = Vb_Text string | Vb_Json json

record api_message =
  vm_message_id :: string
  vm_role :: string
  vm_agent_id :: "string option"
  vm_author :: api_message_author
  vm_blocks :: "api_content_block list"
  vm_completed :: bool
  vm_interrupted :: bool
  vm_first_event_id :: nat
  vm_last_event_id :: nat

record api_tool_call =
  vc_call_id :: string
  vc_assistant_message_id :: string
  vc_agent_id :: string
  vc_tool_name :: string
  vc_arguments :: json
  vc_raw_arguments :: string
  vc_native :: bool
  vc_execution_id :: "string option"
  vc_result :: "json option"

record api_permission_request =
  vq_request_id :: string
  vq_run_id :: string
  vq_call_id :: "string option"
  vq_agent_id :: string
  vq_tool_name :: string
  vq_arguments :: json
  vq_decision :: "string option"

record api_agent_budget =
  vb_max_model_turns :: nat
  vb_max_duration_seconds :: nat
  vb_max_tree_duration_seconds :: nat
  vb_max_tree_tokens :: nat
  vb_max_context_bytes :: nat
  vb_max_result_bytes :: nat

record api_agent_link =
  vl_instance_id :: string
  vl_profile_id :: string
  vl_parent_session_id :: string
  vl_parent_run_id :: string
  vl_parent_call_id :: string
  vl_child_session_id :: string
  vl_child_run_id :: string
  vl_depth :: nat
  vl_budget :: api_agent_budget
  vl_permission_ceiling :: json

record api_agent_tree_link = api_agent_link +
  vl_created_at :: string

record api_delegated_context_ref =
  vx_source_session_id :: string
  vx_message_id :: string
  vx_last_event_id :: nat

record api_agent_result =
  vr_instance_id :: string
  vr_profile_id :: string
  vr_child_session_id :: string
  vr_child_run_id :: string
  vr_status :: string
  vr_output :: "json option"
  vr_output_truncated :: bool
  vr_usage :: "json option"
  vr_error :: "string option"

record api_agent_instance =
  vi_agent_id :: string
  vi_parent_id :: "string option"
  vi_link :: "api_agent_link option"
  vi_config_revision :: "nat option"
  vi_context :: "api_delegated_context_ref list"
  vi_result :: "api_agent_result option"

record api_context_fact =
  vf_fact_id :: string
  vf_value :: string

record api_tool_correlation =
  vh_call_id :: string
  vh_tool_name :: string
  vh_run_id :: string

record api_context_artifact =
  va_artifact_id :: string
  va_supersedes_artifact_id :: "string option"
  va_strategy :: string
  va_strategy_version :: nat
  va_source_start_event_id :: nat
  va_source_end_event_id :: nat
  va_context_window_tokens :: nat
  va_output_reserve_tokens :: nat
  va_estimated_input_tokens :: nat
  va_target_input_tokens :: nat
  va_estimator_version :: string
  va_summary :: string
  va_tool_correlations :: "api_tool_correlation list"

record api_context_projection =
  vo_durable_facts :: "api_context_fact list"
  vo_active_artifact :: "api_context_artifact option"
  vo_last_failure :: "string option"
  vo_last_bypass_reason :: "string option"

record api_run =
  vn_run_id :: string
  vn_retry_of :: "string option"
  vn_provider :: string
  vn_model :: string
  vn_request :: json
  vn_status :: string
  vn_attempt_id :: "string option"
  vn_attempts :: nat
  vn_error :: "string option"
  vn_usage :: "json option"
  vn_queue_priority :: int
  vn_tool_calls :: "(string, api_tool_call) bt_map"

record api_session_projection =
  vj_state :: api_session_state
  vj_messages :: "api_message list"
  vj_agents :: "(string, string) bt_map"
  vj_agent_instances :: "(string, api_agent_instance) bt_map"
  vj_pending_permissions :: "(string, api_permission_request) bt_map"
  vj_runs :: "(string, api_run) bt_map"
  vj_queue_paused :: bool
  vj_context :: api_context_projection

record api_session_summary =
  vs_id :: string
  vs_title :: "string option"
  vs_project_id :: "string option"
  vs_parent_session_id :: "string option"
  vs_forked_at_event_id :: "nat option"
  vs_created_at :: string
  vs_updated_at :: string
  vs_phase :: string
  vs_revision :: nat
  vs_last_event_id :: nat
  vs_history_retention :: history_retention
  vs_projection :: "api_session_projection option"

record api_mcp_tool_definition =
  vw_name :: string
  vw_server_id :: string
  vw_server_tool_name :: string
  vw_description :: "string option"
  vw_input_schema :: json

record api_mcp_server_diagnostics =
  vd_id :: string
  vd_enabled :: bool
  vd_state :: string
  vd_tools :: "api_mcp_tool_definition list"
  vd_last_error :: "string option"
  vd_restart_attempts :: nat

record api_event =
  ve_id :: nat
  ve_session_id :: string
  ve_schema_version :: nat
  ve_occurred_at :: string
  ve_type :: string
  ve_data :: json

record permission_request_response =
  vy_request_id :: string
  vy_session_id :: string
  vy_run_id :: string
  vy_call_id :: "string option"
  vy_agent_id :: string
  vy_tool_name :: string
  vy_arguments :: json
  vy_decision :: "string option"

record run_accepted_response =
  vu_session_id :: string
  vu_run_id :: string
  vu_status :: string
  vu_events_url :: string
  vu_stream_url :: string

record agent_catalog_entry =
  vg_id :: string
  vg_description :: "string option"
  vg_provider :: "string option"
  vg_model :: "string option"
  vg_permissions :: agent_permissions

section \<open>Conversions\<close>

text \<open>\<open>iter().map(..).collect()\<close> over the values of a map.\<close>

definition map_values :: "('v \<Rightarrow> 'w) \<Rightarrow> ('k, 'v) bt_map \<Rightarrow> ('k, 'w) bt_map" where
  "map_values f m = map (\<lambda>(k, v). (k, f v)) m"

definition api_project_from :: "project_row \<Rightarrow> api_project" where
  "api_project_from p =
     \<lparr>vp_id = pw_id p, vp_name = pw_name p, vp_path = pw_path p, vp_created_at = pw_created_at p,
      vp_updated_at = pw_updated_at p\<rparr>"

definition api_summary_from :: "session_summary \<Rightarrow> api_session_summary" where
  "api_summary_from s =
     \<lparr>vs_id = sm_id s, vs_title = sm_title s, vs_project_id = sm_project_id s,
      vs_parent_session_id = sm_parent_session_id s,
      vs_forked_at_event_id = sm_forked_at_event_id s, vs_created_at = sm_created_at s,
      vs_updated_at = sm_updated_at s, vs_phase = session_phase_name (sm_phase s),
      vs_revision = sm_revision s, vs_last_event_id = sm_last_event_id s,
      vs_history_retention = sm_history_retention s, vs_projection = None\<rparr>"

definition api_budget_from :: "agent_budget \<Rightarrow> api_agent_budget" where
  "api_budget_from b =
     \<lparr>vb_max_model_turns = ab_max_model_turns b, vb_max_duration_seconds = ab_max_duration_seconds b,
      vb_max_tree_duration_seconds = ab_max_tree_duration_seconds b,
      vb_max_tree_tokens = ab_max_tree_tokens b, vb_max_context_bytes = ab_max_context_bytes b,
      vb_max_result_bytes = ab_max_result_bytes b\<rparr>"

definition api_tree_link_from :: "agent_link_record \<Rightarrow> api_agent_tree_link" where
  "api_tree_link_from l =
     \<lparr>vl_instance_id = lr_instance_id l, vl_profile_id = lr_profile_id l,
      vl_parent_session_id = lr_parent_session_id l, vl_parent_run_id = lr_parent_run_id l,
      vl_parent_call_id = lr_parent_call_id l, vl_child_session_id = lr_child_session_id l,
      vl_child_run_id = lr_child_run_id l, vl_depth = lr_depth l,
      vl_budget = api_budget_from (lr_budget l), vl_permission_ceiling = lr_permission_ceiling l,
      vl_created_at = lr_created_at l\<rparr>"

definition api_tool_call_from :: "tool_call_projection \<Rightarrow> api_tool_call" where
  "api_tool_call_from c =
     \<lparr>vc_call_id = tp_call_id c, vc_assistant_message_id = tp_assistant_message_id c,
      vc_agent_id = tp_agent_id c, vc_tool_name = tp_tool_name c, vc_arguments = tp_arguments c,
      vc_raw_arguments = tp_raw_arguments c, vc_native = tp_native c,
      vc_execution_id = tp_execution_id c, vc_result = tp_result c\<rparr>"

definition api_run_from :: "run_projection \<Rightarrow> api_run" where
  "api_run_from r =
     \<lparr>vn_run_id = rp_run_id r, vn_retry_of = rp_retry_of r, vn_provider = rp_provider r,
      vn_model = rp_model r, vn_request = rp_request r, vn_status = run_status_name (rp_status r),
      vn_attempt_id = rp_attempt_id r, vn_attempts = rp_attempts r, vn_error = rp_error r,
      vn_usage = rp_usage r, vn_queue_priority = rp_queue_priority r,
      vn_tool_calls = map_values api_tool_call_from (rp_tool_calls r)\<rparr>"

fun api_author_from :: "message_author \<Rightarrow> api_message_author" where
  "api_author_from Au_System = Va_System"
| "api_author_from Au_User = Va_User"
| "api_author_from (Au_Agent i) = Va_Agent i"
| "api_author_from (Au_Tool i) = Va_Tool i"

fun api_block_from :: "content_block \<Rightarrow> api_content_block" where
  "api_block_from (Text v) = Vb_Text v"
| "api_block_from (Json v) = Vb_Json v"

definition api_message_from :: "message_projection \<Rightarrow> api_message" where
  "api_message_from m =
     \<lparr>vm_message_id = mp_message_id m, vm_role = message_role_name (mp_role m),
      vm_agent_id = mp_agent_id m, vm_author = api_author_from (mp_author m),
      vm_blocks = map api_block_from (mp_blocks m), vm_completed = mp_completed m,
      vm_interrupted = mp_interrupted m, vm_first_event_id = mp_first_event_id m,
      vm_last_event_id = mp_last_event_id m\<rparr>"

definition api_permission_from :: "permission_projection \<Rightarrow> api_permission_request" where
  "api_permission_from p =
     \<lparr>vq_request_id = pj_request_id p, vq_run_id = pj_run_id p, vq_call_id = pj_call_id p,
      vq_agent_id = pj_agent_id p, vq_tool_name = pj_tool_name p, vq_arguments = pj_arguments p,
      vq_decision = map_option permission_decision_name (pj_decision p)\<rparr>"

definition api_link_from :: "agent_link \<Rightarrow> api_agent_link" where
  "api_link_from l =
     \<lparr>vl_instance_id = al_instance_id l, vl_profile_id = al_profile_id l,
      vl_parent_session_id = al_parent_session_id l, vl_parent_run_id = al_parent_run_id l,
      vl_parent_call_id = al_parent_call_id l, vl_child_session_id = al_child_session_id l,
      vl_child_run_id = al_child_run_id l, vl_depth = al_depth l,
      vl_budget = api_budget_from (al_budget l), vl_permission_ceiling = al_permission_ceiling l\<rparr>"

definition api_context_ref_from :: "delegated_context_ref \<Rightarrow> api_delegated_context_ref" where
  "api_context_ref_from r =
     \<lparr>vx_source_session_id = dr_source_session_id r, vx_message_id = dr_message_id r,
      vx_last_event_id = dr_last_event_id r\<rparr>"

definition api_result_from :: "agent_result \<Rightarrow> api_agent_result" where
  "api_result_from r =
     \<lparr>vr_instance_id = ar_instance_id r, vr_profile_id = ar_profile_id r,
      vr_child_session_id = ar_child_session_id r, vr_child_run_id = ar_child_run_id r,
      vr_status = agent_terminal_status_name (ar_status r), vr_output = ar_output r,
      vr_output_truncated = ar_output_truncated r, vr_usage = ar_usage r, vr_error = ar_error r\<rparr>"

definition api_agent_from :: "agent_projection \<Rightarrow> api_agent_instance" where
  "api_agent_from a =
     \<lparr>vi_agent_id = ap_agent_id a, vi_parent_id = ap_parent_id a,
      vi_link = map_option api_link_from (ap_link a), vi_config_revision = ap_config_revision a,
      vi_context = map api_context_ref_from (ap_context a),
      vi_result = map_option api_result_from (ap_result a)\<rparr>"

definition api_artifact_from :: "context_artifact \<Rightarrow> api_context_artifact" where
  "api_artifact_from a =
     \<lparr>va_artifact_id = ca_artifact_id a, va_supersedes_artifact_id = ca_supersedes_artifact_id a,
      va_strategy = compaction_strategy_name (ca_strategy a),
      va_strategy_version = ca_strategy_version a,
      va_source_start_event_id = ca_source_start_event_id a,
      va_source_end_event_id = ca_source_end_event_id a,
      va_context_window_tokens = ca_context_window_tokens a,
      va_output_reserve_tokens = ca_output_reserve_tokens a,
      va_estimated_input_tokens = ca_estimated_input_tokens a,
      va_target_input_tokens = ca_target_input_tokens a,
      va_estimator_version = ca_estimator_version a, va_summary = ca_summary a,
      va_tool_correlations =
        map (\<lambda>c. \<lparr>vh_call_id = tc_call_id c, vh_tool_name = tc_tool_name c, vh_run_id = tc_run_id c\<rparr>)
          (ca_tool_correlations a)\<rparr>"

definition api_context_from :: "context_projection \<Rightarrow> api_context_projection" where
  "api_context_from c =
     \<lparr>vo_durable_facts =
        map (\<lambda>f. \<lparr>vf_fact_id = cf_fact_id f, vf_value = cf_value f\<rparr>) (cp_durable_facts c),
      vo_active_artifact = map_option api_artifact_from (cp_active_artifact c),
      vo_last_failure = cp_last_failure c, vo_last_bypass_reason = cp_last_bypass_reason c\<rparr>"

definition api_projection_from :: "session_projection \<Rightarrow> api_session_projection" where
  "api_projection_from p =
     \<lparr>vj_state = \<lparr>vt_session_id = ss_session_id (sp_state p),
                   vt_phase = session_phase_name (ss_phase (sp_state p)),
                   vt_revision = ss_revision (sp_state p),
                   vt_last_event_id = ss_last_event_id (sp_state p)\<rparr>,
      vj_messages = map api_message_from (sp_messages p),
      vj_agents = map_values agent_phase_name (sp_agents p),
      vj_agent_instances = map_values api_agent_from (sp_agent_instances p),
      vj_pending_permissions = map_values api_permission_from (sp_pending_permissions p),
      vj_runs = map_values api_run_from (sp_runs p), vj_queue_paused = sp_queue_paused p,
      vj_context = api_context_from (sp_context p)\<rparr>"

definition api_diagnostics_from :: "mcp_server_diagnostics \<Rightarrow> api_mcp_server_diagnostics" where
  "api_diagnostics_from d =
     \<lparr>vd_id = mg_id d, vd_enabled = mg_enabled d, vd_state = mcp_server_state_name (mg_state d),
      vd_tools =
        map (\<lambda>t. \<lparr>vw_name = mt_name t, vw_server_id = mt_server_id t,
                  vw_server_tool_name = mt_server_tool_name t, vw_description = mt_description t,
                  vw_input_schema = mt_input_schema t\<rparr>) (mg_tools d),
      vd_last_error = mg_last_error d, vd_restart_attempts = mg_restart_attempts d\<rparr>"

definition api_event_try_from :: "serde \<Rightarrow> recorded_event \<Rightarrow> (store_error, api_event) result" where
  "api_event_try_from sd e =
     (let v = to_value sd (re_event e)
      in and_then (ok_or (CorruptSession (re_session_id e)) (get_str v ''type'')) (\<lambda>event_type.
         Inr \<lparr>ve_id = re_id e, ve_session_id = re_session_id e,
              ve_schema_version = re_schema_version e, ve_occurred_at = re_occurred_at e,
              ve_type = event_type,
              ve_data = unwrap_or (unwrap_or JNull (jget v ''data'')) (re_raw_data e)\<rparr>))"

definition catalog_entry_from :: "agent_definition \<Rightarrow> agent_catalog_entry" where
  "catalog_entry_from a =
     \<lparr>vg_id = ad_id a, vg_description = ad_description a, vg_provider = ad_provider a,
      vg_model = ad_model a, vg_permissions = ad_permissions a\<rparr>"

definition run_accepted :: "string \<Rightarrow> string \<Rightarrow> run_accepted_response" where
  "run_accepted sid run_id =
     \<lparr>vu_session_id = sid, vu_run_id = run_id, vu_status = ''queued'',
      vu_events_url = ''/api/v1/sessions/'' @ sid @ ''/events'',
      vu_stream_url = ''/api/v1/sessions/'' @ sid @ ''/events/stream''\<rparr>"

end
