(* ===== verification/Providers.thy ===== *)
theory Providers
  imports Config Effects
begin

text \<open>
  The provider operations of \<open>ConfigManager\<close> in piqo-server/src/config.rs: creating, changing and
  deleting a provider, its model list, and model discovery. They edit the TOML document through
  \<open>toml_edit\<close>, whose items are a type parameter with the operations the code calls on them.
\<close>

section \<open>Documents\<close>

record 'i toml_edit =
  te_table :: 'i
  te_is_table :: "'i \<Rightarrow> bool"
  te_get :: "'i \<Rightarrow> string \<Rightarrow> 'i option"
  te_set :: "'i \<Rightarrow> string \<Rightarrow> 'i \<Rightarrow> 'i"
  te_remove :: "'i \<Rightarrow> string \<Rightarrow> 'i"
  te_string :: "string \<Rightarrow> 'i"
  te_integer :: "int \<Rightarrow> 'i"
  te_array :: "string list \<Rightarrow> 'i"

text \<open>Rust's \<open>as i64\<close> on a \<open>u64\<close> wraps.\<close>

definition as_i64 :: "nat \<Rightarrow> int" where
  "as_i64 n = (if n \<le> i64_max then int n else int n - 2 ^ 64)"

definition te_set_opt :: "'i toml_edit \<Rightarrow> string \<Rightarrow> 'i option \<Rightarrow> 'i \<Rightarrow> 'i" where
  "te_set_opt te key v t = (case v of None \<Rightarrow> t | Some x \<Rightarrow> te_set te t key x)"

definition headers_table :: "'i toml_edit \<Rightarrow> (string, string) bt_map \<Rightarrow> 'i" where
  "headers_table te headers = fold (\<lambda>(k, v) t. te_set te t k (te_string te v)) headers (te_table te)"

definition provider_table :: "'i toml_edit \<Rightarrow> provider_config \<Rightarrow> 'i" where
  "provider_table te p =
     (let t = te_set te (te_table te) ''base_url'' (te_string te (pv_base_url p));
          t = te_set te t ''protocol'' (te_string te (pv_protocol p));
          t = te_set te t ''connect_timeout_seconds''
                (te_integer te (as_i64 (pv_connect_timeout_seconds p)));
          t = te_set_opt te ''api_key'' (map_option (te_string te) (pv_api_key p)) t;
          t = te_set_opt te ''api_key_env'' (map_option (te_string te) (pv_api_key_env p)) t;
          t = (if pv_headers p \<noteq> [] then te_set te t ''headers'' (headers_table te (pv_headers p))
               else t)
      in te_set_opt te ''models'' (map_option (te_array te) (pv_models p)) t)"

text \<open>
  \<open>providers_table_mut\<close> gives access to a table inside the document; here it takes the change
  that is made through the reference.
\<close>

definition providers_table_mut ::
  "'i toml_edit \<Rightarrow> ('i \<Rightarrow> (config_error, 'i) result) \<Rightarrow> 'i \<Rightarrow> (config_error, 'i) result" where
  "providers_table_mut te change doc =
     (let table = unwrap_or (te_table te) (te_get te doc ''providers'')
      in if te_is_table te table
         then and_then (change table) (\<lambda>table'. Inr (te_set te doc ''providers'' table'))
         else Inl (InvalidProvider ''providers must be a TOML table''))"

definition provider_table_mut ::
  "'i toml_edit \<Rightarrow> string \<Rightarrow> ('i \<Rightarrow> (config_error, 'i) result) \<Rightarrow> 'i \<Rightarrow> (config_error, 'i) result" where
  "provider_table_mut te name change =
     providers_table_mut te (\<lambda>providers.
       case te_get te providers name of
         Some t \<Rightarrow>
           if te_is_table te t
           then and_then (change t) (\<lambda>t'. Inr (te_set te providers name t'))
           else Inl (Cf_ProviderNotFound name)
       | None \<Rightarrow> Inl (Cf_ProviderNotFound name))"

definition set_credentials ::
  "'i toml_edit \<Rightarrow> provider_credential_input \<Rightarrow> 'i \<Rightarrow> (config_error, 'i) result" where
  "set_credentials te credential t =
     and_then (credential_values (Some credential)) (\<lambda>(api_key, api_key_env).
       let t = te_remove te t ''api_key'';
           t = te_remove te t ''api_key_env'';
           t = te_set_opt te ''api_key'' (map_option (te_string te) api_key) t
       in Inr (te_set_opt te ''api_key_env'' (map_option (te_string te) api_key_env) t))"

section \<open>Operations\<close>

record update_provider_request =
  ur_base_url :: "string option"
  ur_protocol :: "string option"
  ur_credentials :: "provider_credential_input option"
  ur_headers :: "(string, string) bt_map option"
  ur_connect_timeout_seconds :: "nat option"

text \<open>
  What an operation takes from outside: the TOML library and parser, the YAML parser and the agent
  files beside the configuration, the clock, the request that lists a provider's models, and what
  other tasks do to the manager while that request is under way.
\<close>

record 'i manager_env =
  me_config_env :: config_env
  me_toml :: "'i toml_edit"
  me_parse :: "'i \<Rightarrow> (string, piqo_config) result"
  me_yaml :: "string \<Rightarrow> (string, agent_front_matter) result"
  me_agent_files :: "agent_file list"
  me_now :: "nat \<Rightarrow> string"
  me_show :: "config_error \<Rightarrow> string"
  me_fetch :: "resolved_provider \<Rightarrow> (string, discovered_model list) result"
  me_meanwhile :: "'i config_manager \<Rightarrow> 'i config_manager"

type_synonym ('i, 'a) managed = "('i config_manager, config_error, 'a) comp"

definition mutate_do ::
  "'i manager_env \<Rightarrow> ('i \<Rightarrow> (config_error, 'i) result) \<Rightarrow> ('i, unit) managed" where
  "mutate_do env operation m =
     Some (manager_mutate (me_config_env env) (me_parse env) (me_now env 0) operation m)"

definition read_manager ::
  "('i config_manager \<Rightarrow> (config_error, 'a) result) \<Rightarrow> ('i, 'a) managed" where
  "read_manager f = bind (gets f) of_result"

definition discover_provider ::
  "'i manager_env \<Rightarrow> string \<Rightarrow> ('i, provider_catalog_entry) managed" where
  "discover_provider env name m =
     (case discover_begin (me_now env 1) name m of
        Inl e \<Rightarrow> Some (Inl e, m)
      | Inr (original, m1) \<Rightarrow>
          (let outcome = discover_request (me_config_env env) (me_show env) (me_fetch env) name original
           in Some (discover_end (me_now env 1) name original outcome (me_meanwhile env m1))))"

definition create_provider ::
  "'i manager_env \<Rightarrow> create_provider_request \<Rightarrow> ('i, provider_catalog_entry) managed" where
  "create_provider env request =
     bind (of_result (validate_provider_name (cr_name request))) (\<lambda>_.
     bind (of_result (provider_from_create (me_config_env env) request)) (\<lambda>provider.
     bind (mutate_do env (providers_table_mut (me_toml env) (\<lambda>providers.
             if te_get (me_toml env) providers (cr_name request) \<noteq> None
             then Inl (ProviderAlreadyExists (cr_name request))
             else Inr (te_set (me_toml env) providers (cr_name request)
                         (provider_table (me_toml env) provider))))) (\<lambda>_.
     bind (modify (clear_discovery (cr_name request))) (\<lambda>_.
     discover_provider env (cr_name request)))))"

definition edit_provider ::
  "'i toml_edit \<Rightarrow> update_provider_request \<Rightarrow> 'i \<Rightarrow> (config_error, 'i) result" where
  "edit_provider te request t =
     (let t = te_set_opt te ''base_url''
                (map_option (\<lambda>u. te_string te (trim u)) (ur_base_url request)) t;
          t = te_set_opt te ''protocol'' (map_option (te_string te) (ur_protocol request)) t
      in and_then
           (case ur_credentials request of
              Some credentials \<Rightarrow> set_credentials te credentials t
            | None \<Rightarrow> Inr t) (\<lambda>t.
         let t = te_set_opt te ''headers'' (map_option (headers_table te) (ur_headers request)) t
         in case ur_connect_timeout_seconds request of
              None \<Rightarrow> Inr t
            | Some timeout \<Rightarrow>
                and_then (ok_or (InvalidProvider ''connect timeout is too large'') (i64_try_from timeout))
                  (\<lambda>n. Inr (te_set te t ''connect_timeout_seconds'' (te_integer te (int n))))))"

definition update_provider ::
  "'i manager_env \<Rightarrow> string \<Rightarrow> update_provider_request \<Rightarrow> ('i, provider_catalog_entry) managed" where
  "update_provider env name request =
     bind (check (ur_base_url request \<noteq> None \<or> ur_protocol request \<noteq> None \<or>
                  ur_credentials request \<noteq> None \<or> ur_headers request \<noteq> None \<or>
                  ur_connect_timeout_seconds request \<noteq> None)
             (InvalidProvider ''at least one provider field is required'')) (\<lambda>_.
     bind (mutate_do env (provider_table_mut (me_toml env) name
             (edit_provider (me_toml env) request))) (\<lambda>_.
     bind (modify (clear_discovery name)) (\<lambda>_.
     bind (gets (\<lambda>m. Option.bind (bt_get (pq_providers (cm_config m)) name) pv_models)) (\<lambda>models.
     if models \<noteq> None then read_manager (\<lambda>m. manager_provider m name)
     else discover_provider env name))))"

definition delete_provider :: "'i manager_env \<Rightarrow> string \<Rightarrow> ('i, unit) managed" where
  "delete_provider env name =
     bind (mutate_do env (providers_table_mut (me_toml env) (\<lambda>providers.
             if te_get (me_toml env) providers name = None then Inl (Cf_ProviderNotFound name)
             else Inr (te_remove (me_toml env) providers name)))) (\<lambda>_.
     modify (clear_discovery name))"

definition replace_models ::
  "'i manager_env \<Rightarrow> string \<Rightarrow> string list \<Rightarrow> ('i, provider_models_response) managed" where
  "replace_models env name models =
     bind (of_result (normalize_models models)) (\<lambda>models.
     bind (mutate_do env (provider_table_mut (me_toml env) name
             (\<lambda>t. Inr (te_set (me_toml env) t ''models'' (te_array (me_toml env) models))))) (\<lambda>_.
     bind (modify (clear_discovery name)) (\<lambda>_.
     read_manager (\<lambda>m. manager_models m name))))"

definition clear_models ::
  "'i manager_env \<Rightarrow> string \<Rightarrow> ('i, provider_models_response) managed" where
  "clear_models env name =
     bind (mutate_do env (provider_table_mut (me_toml env) name
             (\<lambda>t. Inr (te_remove (me_toml env) t ''models'')))) (\<lambda>_.
     bind (modify (clear_discovery name)) (\<lambda>_.
     bind (discover_provider env name) (\<lambda>_.
     read_manager (\<lambda>m. manager_models m name))))"

definition refresh_models ::
  "'i manager_env \<Rightarrow> string \<Rightarrow> ('i, provider_models_response) managed" where
  "refresh_models env name =
     bind (gets (\<lambda>m. bt_get (pq_providers (cm_config m)) name)) (\<lambda>found.
     bind (require (Cf_ProviderNotFound name) found) (\<lambda>provider.
     bind (check (pv_models provider = None) (ManualModelOverride name)) (\<lambda>_.
     bind (discover_provider env name) (\<lambda>_.
     read_manager (\<lambda>m. manager_models m name)))))"

definition discover_all :: "'i manager_env \<Rightarrow> ('i, unit) managed" where
  "discover_all env =
     bind (gets (\<lambda>m. map fst (filter (\<lambda>(_, p). pv_models p = None) (pq_providers (cm_config m)))))
       (each (\<lambda>name. ignore_result (discover_provider env name)))"

definition load_document :: "'i manager_env \<Rightarrow> 'i \<Rightarrow> (config_error, piqo_config) result" where
  "load_document env doc =
     and_then (map_err Cf_Parse (me_parse env doc))
       (\<lambda>parsed. config_load (me_config_env env) (me_yaml env) parsed (me_agent_files env))"

definition reload_do :: "'i manager_env \<Rightarrow> ('i, unit) managed" where
  "reload_do env m =
     (case manager_reload (load_document env) (me_now env 0) m of
        Inl e \<Rightarrow> Some (Inl e, m) | Inr m' \<Rightarrow> Some (Inr (), m'))"

section \<open>Reachable managers\<close>

datatype manager_command =
    Mg_Create create_provider_request | Mg_Update string update_provider_request
  | Mg_Delete string | Mg_Replace string "string list" | Mg_Clear string | Mg_Refresh string
  | Mg_DiscoverAll | Mg_Reload

fun run_manager :: "'i manager_env \<Rightarrow> manager_command \<Rightarrow> ('i, unit) managed" where
  "run_manager env (Mg_Create request) = bind (create_provider env request) (\<lambda>_. ret ())"
| "run_manager env (Mg_Update name request) = bind (update_provider env name request) (\<lambda>_. ret ())"
| "run_manager env (Mg_Delete name) = delete_provider env name"
| "run_manager env (Mg_Replace name models) = bind (replace_models env name models) (\<lambda>_. ret ())"
| "run_manager env (Mg_Clear name) = bind (clear_models env name) (\<lambda>_. ret ())"
| "run_manager env (Mg_Refresh name) = bind (refresh_models env name) (\<lambda>_. ret ())"
| "run_manager env Mg_DiscoverAll = discover_all env"
| "run_manager env Mg_Reload = reload_do env"

inductive manager_reaches ::
  "'i manager_env \<Rightarrow> 'i config_manager \<Rightarrow> 'i config_manager \<Rightarrow> bool" for env where
  manager_refl: "manager_reaches env m m"
| manager_step:
    "manager_reaches env m m' \<Longrightarrow> run_manager env command m' = Some (r, m'') \<Longrightarrow>
     manager_reaches env m m''"

end
