(* ===== verification/Api.thy ===== *)
theory Api
  imports Views Providers Worker
begin

text \<open>
  The HTTP surface of piqo-server/src/lib.rs: the application state, one handler per route, the
  route table and the layers around it. A handler is a computation on the application state that
  answers with a status and a payload or fails with an \<open>ApiError\<close>.

  Requests arrive with their path split and decoded, and their headers, query and body as they
  are; what \<open>serde\<close> derives for bodies and queries is an argument that answers with the text of
  the error when it rejects. The supervisor, the
  configuration manager and the MCP manager are the components of the other theories, run on
  their part of the state. The OpenAPI document is not modelled.
\<close>

section \<open>State\<close>

record 'i app =
  ax_sup :: sup
  ax_manager :: "'i config_manager"
  ax_mcp :: mcp_manager
  ax_shutting_down :: bool
  ax_streams_closed :: bool
  ax_fatal_reload_error :: "string option"
  ax_requests_total :: nat
  ax_run_capacity_rejections :: nat
  ax_sse_capacity_rejections :: nat
  ax_sse_connections :: nat
  ax_sse_by_session :: "(string, nat) bt_map"
  ax_backups :: "(string, store) bt_map"

record list_query =
  lq_cursor :: "string option"
  lq_limit :: "nat option"
  lq_unassigned :: "bool option"

record events_query =
  eq_after :: "nat option"
  eq_limit :: "nat option"

record create_session_request =
  xs_title :: "string option"
  xs_project_id :: "string option"
  xs_history_retention :: "history_retention option"

record create_project_request =
  xp_name :: string
  xp_path :: string

record update_project_request =
  xu_name :: "string option"
  xu_path :: "string option"

record fork_session_request =
  xf_at_event_id :: nat
  xf_title :: "string option"

record create_run_request =
  xr_provider :: "string option"
  xr_model :: "string option"
  xr_input :: json
  xr_agent :: "string option"
  xr_variant :: "string option"
  xr_body :: json

record 'i api_env =
  ae_sup :: sup_env
  ae_fuel :: nat
  ae_manager :: "'i manager_env"
  ae_mcp :: mcp_world
  ae_display :: display
  ae_to_str :: "string \<Rightarrow> string option"
  ae_request_id :: "nat \<Rightarrow> string"
  ae_canonicalize :: "string \<Rightarrow> (string, string) result"
  ae_is_dir :: "string \<Rightarrow> (string, bool) result"
  ae_list_query :: "(string \<times> string) list \<Rightarrow> (string, list_query) result"
  ae_events_query :: "(string \<times> string) list \<Rightarrow> (string, events_query) result"
  ae_create_session :: "string \<Rightarrow> (string, create_session_request) result"
  ae_retention :: "string \<Rightarrow> (string, history_retention) result"
  ae_create_project :: "string \<Rightarrow> (string, create_project_request) result"
  ae_update_project :: "string \<Rightarrow> (string, update_project_request) result"
  ae_fork_session :: "string \<Rightarrow> (string, fork_session_request) result"
  ae_create_run :: "string \<Rightarrow> (string, create_run_request) result"
  ae_tool_result :: "string \<Rightarrow> (string, json) result"
  ae_scope :: "string \<Rightarrow> (string, string) result"
  ae_create_provider :: "string \<Rightarrow> (string, create_provider_request) result"
  ae_update_provider :: "string \<Rightarrow> (string, update_provider_request) result"
  ae_models :: "string \<Rightarrow> (string, string list) result"
  ae_config_parent :: "string option"
  ae_create_dir :: "string \<Rightarrow> bool"
  ae_exists :: "string \<Rightarrow> bool"
  ae_database_url :: string
  ae_vacuum :: "string \<Rightarrow> bool"
  ae_file_len :: "store \<Rightarrow> nat"

text \<open>What a handler answers with, by the type of its \<open>Json\<close> payload.\<close>

datatype api_reply =
    Y_Health
  | Y_Metrics nat nat nat
  | Y_Project api_project
  | Y_Projects "api_project list" "string option"
  | Y_Session api_session_summary
  | Y_Sessions "api_session_summary list" "string option"
  | Y_Events "api_event list"
  | Y_Stream string nat "recorded_event list"
  | Y_Providers "provider_catalog_entry list"
  | Y_Provider provider_catalog_entry
  | Y_Models provider_models_response
  | Y_Agents "agent_catalog_entry list"
  | Y_Reload nat string "provider_catalog_entry list"
  | Y_Mcp "api_mcp_server_diagnostics list"
  | Y_RunAccepted run_accepted_response
  | Y_Run string api_run
  | Y_Tree string "api_agent_tree_link list"
  | Y_Permissions "permission_request_response list"
  | Y_Rules "permission_rule_record list"
  | Y_Backup string nat

type_synonym ('i, 'a) api_act = "('i app, api_error, 'a) comp"
type_synonym answer = "nat \<times> api_reply option"

section \<open>Components and extraction\<close>

text \<open>The supervisor reads the configuration in force through the shared manager.\<close>

definition sup_env_of :: "'i api_env \<Rightarrow> 'i app \<Rightarrow> sup_env" where
  "sup_env_of env s = (ae_sup env)\<lparr>en_config := cm_config (ax_manager s)\<rparr>"

definition in_sup :: "'i api_env \<Rightarrow> (sup_env \<Rightarrow> 'a act) \<Rightarrow> ('i, 'a) api_act" where
  "in_sup env f s =
     (case f (sup_env_of env s) (ax_sup s) of
        None \<Rightarrow> None
      | Some (r, u) \<Rightarrow> Some (map_err Api_Store r, s\<lparr>ax_sup := u\<rparr>))"

definition in_manager :: "('i, 'a) managed \<Rightarrow> ('i, 'a) api_act" where
  "in_manager m s =
     (case m (ax_manager s) of
        None \<Rightarrow> None
      | Some (r, u) \<Rightarrow> Some (map_err Api_Config r, s\<lparr>ax_manager := u\<rparr>))"

definition read_store :: "'i api_env \<Rightarrow> (store \<Rightarrow> (store_error, 'a) result) \<Rightarrow> ('i, 'a) api_act" where
  "read_store env f = in_sup env (\<lambda>_. store_read f)"

text \<open>\<open>ApiJson\<close> under the body limit of the router.\<close>

definition extract_body ::
  "'i api_env \<Rightarrow> (string \<Rightarrow> (string, 'a) result) \<Rightarrow> http_request \<Rightarrow> ('i, 'a) api_act" where
  "extract_body env decode request =
     of_result (map_err json_rejection
       (if rl_max_http_body_bytes (en_limits (ae_sup env)) < length (hq_body request)
        then Inl ''Failed to buffer the request body: length limit exceeded''
        else decode (hq_body request)))"

definition extract_query ::
  "((string \<times> string) list \<Rightarrow> (string, 'a) result) \<Rightarrow> http_request \<Rightarrow> ('i, 'a) api_act" where
  "extract_query decode request =
     of_result (map_err (BadRequest ''invalid_request'') (decode (hq_query request)))"

definition ok :: "api_reply \<Rightarrow> ('i, answer) api_act" where
  "ok reply = ret (200, Some reply)"

definition created :: "api_reply \<Rightarrow> ('i, answer) api_act" where
  "created reply = ret (201, Some reply)"

definition accepted :: "('i, answer) api_act" where
  "accepted = ret (202, None)"

definition no_content :: "('i, answer) api_act" where
  "no_content = ret (204, None)"

section \<open>Projects\<close>

type_synonym 'i handler = "'i api_env \<Rightarrow> http_request \<Rightarrow> string list \<Rightarrow> ('i, answer) api_act"

definition param :: "string list \<Rightarrow> nat \<Rightarrow> string" where
  "param ps i = (if i < length ps then ps ! i else [])"

definition health_handler :: "'i handler" where
  "health_handler env request ps = ok Y_Health"

definition metrics_handler :: "'i handler" where
  "metrics_handler env request ps =
     bind (gets (\<lambda>s. (ax_requests_total s, ax_run_capacity_rejections s, ax_sse_capacity_rejections s)))
       (\<lambda>(total, runs, streams). ok (Y_Metrics total runs streams))"

definition create_project_handler :: "'i handler" where
  "create_project_handler env request ps =
     bind (extract_body env (ae_create_project env) request) (\<lambda>req.
     bind (of_result (validated_project_name (xp_name req))) (\<lambda>name.
     bind (of_result (canonical_project_path (ae_canonicalize env) (ae_is_dir env) (xp_path req))) (\<lambda>path.
     bind (in_sup env (\<lambda>se. bind (new_uuid se) (\<lambda>pid. bind (time_now se) (\<lambda>time.
             store_do (create_project pid time name path))))) (\<lambda>project.
     created (Y_Project (api_project_from project))))))"

definition list_projects_handler :: "'i handler" where
  "list_projects_handler env request ps =
     bind (extract_query (ae_list_query env) request) (\<lambda>q.
     bind (read_store env (list_projects (lq_cursor q) (unwrap_or 50 (lq_limit q)))) (\<lambda>(projects, next).
     ok (Y_Projects (map api_project_from projects) next)))"

definition get_project_handler :: "'i handler" where
  "get_project_handler env request ps =
     bind (read_store env (get_project (param ps 0))) (\<lambda>project.
     ok (Y_Project (api_project_from project)))"

definition update_project_handler :: "'i handler" where
  "update_project_handler env request ps =
     bind (extract_body env (ae_update_project env) request) (\<lambda>req.
     bind (check (xu_name req \<noteq> None \<or> xu_path req \<noteq> None)
             (BadRequest ''invalid_request'' ''at least one of name or path is required'')) (\<lambda>_.
     bind (of_result (case xu_name req of
              None \<Rightarrow> Inr None
            | Some name \<Rightarrow> and_then (validated_project_name name) (\<lambda>n. Inr (Some n)))) (\<lambda>name.
     bind (of_result (case xu_path req of
              None \<Rightarrow> Inr None
            | Some path \<Rightarrow>
                and_then (canonical_project_path (ae_canonicalize env) (ae_is_dir env) path)
                  (\<lambda>p. Inr (Some p)))) (\<lambda>path.
     bind (in_sup env (\<lambda>se. bind (time_now se) (\<lambda>time.
             store_do (update_project time (param ps 0) name path)))) (\<lambda>project.
     ok (Y_Project (api_project_from project)))))))"

definition delete_project_handler :: "'i handler" where
  "delete_project_handler env request ps =
     bind (in_sup env (\<lambda>se. sup_delete_project se (param ps 0))) (\<lambda>_. no_content)"

definition list_project_sessions_handler :: "'i handler" where
  "list_project_sessions_handler env request ps =
     bind (extract_query (ae_list_query env) request) (\<lambda>q.
     bind (read_store env (list_project_sessions (param ps 0) (lq_cursor q)
             (unwrap_or 50 (lq_limit q)))) (\<lambda>(sessions, next).
     ok (Y_Sessions (map api_summary_from sessions) next)))"

section \<open>Sessions\<close>

definition project_is_deleting :: "string \<Rightarrow> sup \<Rightarrow> bool" where
  "project_is_deleting pid s = (pid \<in> set (su_deleting s))"

definition refuse_deleting :: "'i api_env \<Rightarrow> string option \<Rightarrow> ('i, unit) api_act" where
  "refuse_deleting env project_id =
     (case project_id of
        None \<Rightarrow> ret ()
      | Some pid \<Rightarrow>
          bind (gets (\<lambda>s. project_is_deleting pid (ax_sup s))) (\<lambda>deleting.
            check (\<not> deleting) (Api_Store (ProjectDeleting pid))))"

definition create_session_handler :: "'i handler" where
  "create_session_handler env request ps =
     bind (extract_body env (ae_create_session env) request) (\<lambda>req.
     bind (refuse_deleting env (xs_project_id req)) (\<lambda>_.
     bind (in_sup env (\<lambda>se. bind (new_uuid se) (\<lambda>sid. bind (time_now se) (\<lambda>time.
             store_do (create_session_with_retention (en_serde se) sid time (xs_title req)
               (xs_project_id req) (unwrap_or Forever (xs_history_retention req))))))) (\<lambda>summary.
     created (Y_Session (api_summary_from summary)))))"

definition update_session_retention_handler :: "'i handler" where
  "update_session_retention_handler env request ps =
     bind (extract_body env (ae_retention env) request) (\<lambda>retention.
     bind (in_sup env (\<lambda>_. store_do (update_session_retention (param ps 0) retention))) (\<lambda>summary.
     ok (Y_Session (api_summary_from summary))))"

definition list_sessions_handler :: "'i handler" where
  "list_sessions_handler env request ps =
     bind (extract_query (ae_list_query env) request) (\<lambda>q.
     let limit = max 1 (min (unwrap_or 50 (lq_limit q)) 200)
     in bind (read_store env
                (if unwrap_or False (lq_unassigned q)
                 then list_unassigned_sessions (lq_cursor q) limit
                 else list_sessions (lq_cursor q) limit)) (\<lambda>(sessions, next).
        ok (Y_Sessions (map api_summary_from sessions) next)))"

definition get_session_handler :: "'i handler" where
  "get_session_handler env request ps =
     bind (read_store env (get_session_snapshot (en_serde (ae_sup env)) (param ps 0))) (\<lambda>snapshot.
     ok (Y_Session ((api_summary_from (sn_summary snapshot))
           \<lparr>vs_projection := Some (api_projection_from (sn_projection snapshot))\<rparr>)))"

definition get_events_handler :: "'i handler" where
  "get_events_handler env request ps =
     bind (extract_query (ae_events_query env) request) (\<lambda>q.
     bind (read_store env (store_events (en_serde (ae_sup env)) (param ps 0)
             (unwrap_or 0 (eq_after q)) (unwrap_or 200 (eq_limit q)))) (\<lambda>events.
     bind (of_result (map_err Api_Store
             (collect (map (api_event_try_from (en_serde (ae_sup env))) events)))) (\<lambda>views.
     ok (Y_Events views))))"

text \<open>\<open>acquire_sse_connection\<close>: one permit of all, one of the session; both are held or none.\<close>

definition acquire_sse_connection :: "resource_limits \<Rightarrow> string \<Rightarrow> ('i, unit) api_act" where
  "acquire_sse_connection limits sid =
     bind (gets ax_sse_connections) (\<lambda>total.
     bind (check (total < rl_max_sse_connections limits) (Api_Store SseCapacityExceeded)) (\<lambda>_.
     bind (gets (\<lambda>s. unwrap_or 0 (bt_get (ax_sse_by_session s) sid))) (\<lambda>mine.
     bind (modify (\<lambda>s. s\<lparr>ax_sse_by_session := bt_insert sid mine (ax_sse_by_session s)\<rparr>)) (\<lambda>_.
     bind (check (mine < rl_max_sse_connections_per_session limits) (Api_Store SseCapacityExceeded)) (\<lambda>_.
     modify (\<lambda>s. s\<lparr>ax_sse_connections := Suc total,
                    ax_sse_by_session := bt_insert sid (Suc mine) (ax_sse_by_session s)\<rparr>))))))"

text \<open>The permits are dropped with the stream, or when the request fails after taking them.\<close>

definition release_sse_connection :: "string \<Rightarrow> ('i, unit) api_act" where
  "release_sse_connection sid =
     modify (\<lambda>s. s\<lparr>ax_sse_connections := ax_sse_connections s - 1,
                    ax_sse_by_session :=
                      bt_insert sid (unwrap_or 0 (bt_get (ax_sse_by_session s) sid) - 1)
                        (ax_sse_by_session s)\<rparr>)"

definition stream_events_handler :: "'i handler" where
  "stream_events_handler env request ps =
     bind (read_store env (get_session (param ps 0))) (\<lambda>_.
     bind (of_result (parse_last_event_id (ae_to_str env) request)) (\<lambda>after.
     bind (acquire_sse_connection (en_limits (ae_sup env)) (param ps 0)) (\<lambda>_.
     bind (attempt (read_store env (store_events (en_serde (ae_sup env)) (param ps 0) after u32_max)))
       (\<lambda>replay.
     case replay of
       Inl e \<Rightarrow> bind (release_sse_connection (param ps 0)) (\<lambda>_. raise e)
     | Inr events \<Rightarrow> ok (Y_Stream (param ps 0) after events)))))"

definition fork_session_handler :: "'i handler" where
  "fork_session_handler env request ps =
     bind (extract_body env (ae_fork_session env) request) (\<lambda>req.
     bind (read_store env (get_session (param ps 0))) (\<lambda>parent.
     bind (refuse_deleting env (sm_project_id parent)) (\<lambda>_.
     bind (in_sup env (\<lambda>se. bind (new_uuid se) (\<lambda>sid. bind (time_now se) (\<lambda>time.
             store_do (fork_session (en_serde se) sid time (param ps 0) (xf_at_event_id req)
               (xf_title req)))))) (\<lambda>summary.
     created (Y_Session (api_summary_from summary))))))"

definition get_agent_tree_handler :: "'i handler" where
  "get_agent_tree_handler env request ps =
     bind (read_store env (agent_links (param ps 0))) (\<lambda>links.
     ok (Y_Tree (param ps 0) (map api_tree_link_from links)))"

section \<open>Providers and configuration\<close>

definition list_providers_handler :: "'i handler" where
  "list_providers_handler env request ps =
     bind (gets (\<lambda>s. manager_catalog (ax_manager s))) (\<lambda>providers. ok (Y_Providers providers))"

definition list_agents_handler :: "'i handler" where
  "list_agents_handler env request ps =
     bind (gets (\<lambda>s. config_agents (cm_config (ax_manager s)))) (\<lambda>agents.
     ok (Y_Agents (map catalog_entry_from agents)))"

definition create_provider_handler :: "'i handler" where
  "create_provider_handler env request ps =
     bind (extract_body env (ae_create_provider env) request) (\<lambda>req.
     bind (in_manager (create_provider (ae_manager env) req)) (\<lambda>p. created (Y_Provider p)))"

definition get_provider_handler :: "'i handler" where
  "get_provider_handler env request ps =
     bind (in_manager (read_manager (\<lambda>m. manager_provider m (param ps 0)))) (\<lambda>p. ok (Y_Provider p))"

definition update_provider_handler :: "'i handler" where
  "update_provider_handler env request ps =
     bind (extract_body env (ae_update_provider env) request) (\<lambda>req.
     bind (in_manager (update_provider (ae_manager env) (param ps 0) req)) (\<lambda>p. ok (Y_Provider p)))"

definition delete_provider_handler :: "'i handler" where
  "delete_provider_handler env request ps =
     bind (in_manager (delete_provider (ae_manager env) (param ps 0))) (\<lambda>_. no_content)"

definition list_provider_models_handler :: "'i handler" where
  "list_provider_models_handler env request ps =
     bind (in_manager (read_manager (\<lambda>m. manager_models m (param ps 0)))) (\<lambda>m. ok (Y_Models m))"

definition replace_provider_models_handler :: "'i handler" where
  "replace_provider_models_handler env request ps =
     bind (extract_body env (ae_models env) request) (\<lambda>models.
     bind (in_manager (replace_models (ae_manager env) (param ps 0) models)) (\<lambda>m. ok (Y_Models m)))"

definition clear_provider_models_handler :: "'i handler" where
  "clear_provider_models_handler env request ps =
     bind (in_manager (clear_models (ae_manager env) (param ps 0))) (\<lambda>m. ok (Y_Models m))"

definition refresh_provider_models_handler :: "'i handler" where
  "refresh_provider_models_handler env request ps =
     bind (in_manager (refresh_models (ae_manager env) (param ps 0))) (\<lambda>m. ok (Y_Models m))"

text \<open>
  \<open>AppState::reload_config\<close>: reload, then reconcile the MCP servers. A failure shuts the server
  down; the first message is kept. The discovery that follows a reload runs on its own.
\<close>

definition mcp_reconcile_do :: "'i api_env \<Rightarrow> ('i, unit) api_act" where
  "mcp_reconcile_do env s =
     (case reconcile (ae_mcp env) (pq_mcp_servers (cm_config (ax_manager s))) (ax_mcp s) of
        None \<Rightarrow> None
      | Some (r, m) \<Rightarrow>
          Some (map_err (\<lambda>_. Api_Config (InvalidMcp ''invalid MCP configuration'')) r, s\<lparr>ax_mcp := m\<rparr>))"

definition app_reload_config :: "'i api_env \<Rightarrow> ('i, unit) api_act" where
  "app_reload_config env =
     bind (in_manager (reload_do (ae_manager env))) (\<lambda>_. mcp_reconcile_do env)"

definition request_fatal_reload_shutdown :: "string \<Rightarrow> ('i, unit) api_act" where
  "request_fatal_reload_shutdown message =
     modify (\<lambda>s. s\<lparr>ax_fatal_reload_error :=
                      (case ax_fatal_reload_error s of None \<Rightarrow> Some message | Some m \<Rightarrow> Some m),
                    ax_sup := (ax_sup s)\<lparr>su_shutdown := True\<rparr>\<rparr>)"

definition error_text :: "'i api_env \<Rightarrow> api_error \<Rightarrow> string" where
  "error_text env e = (case e of Api_Config c \<Rightarrow> dy_config (ae_display env) c | _ \<Rightarrow> [])"

definition reload_config_handler :: "'i handler" where
  "reload_config_handler env request ps =
     bind (attempt (app_reload_config env)) (\<lambda>outcome.
     case outcome of
       Inr _ \<Rightarrow>
         bind (gets ax_manager) (\<lambda>m. ok (Y_Reload (cm_revision m) (cm_loaded_at m) (manager_catalog m)))
     | Inl e \<Rightarrow>
         bind (request_fatal_reload_shutdown (error_text env e)) (\<lambda>_.
         raise (InvalidConfig (error_text env e))))"

text \<open>
  Backups. \<open>ae_create_dir\<close>, \<open>ae_exists\<close> and \<open>ae_vacuum\<close> say what the file system and SQLite answer;
  \<open>VACUUM INTO\<close> writes a copy of the database, whose size is \<open>ae_file_len\<close>.
\<close>

definition backup_to :: "'i api_env \<Rightarrow> string \<Rightarrow> ('i, nat) api_act" where
  "backup_to env destination =
     bind (gets (\<lambda>s. ae_exists env destination \<or> bt_contains_key (ax_backups s) destination)) (\<lambda>exists.
     bind (check (\<not> contains_sub '':memory:'' (ae_database_url env) \<and> \<not> exists)
             (Api_Store BackupUnavailable)) (\<lambda>_.
     bind (check (ae_vacuum env destination) (Api_Store Database)) (\<lambda>_.
     bind (gets (\<lambda>s. su_store (ax_sup s))) (\<lambda>st.
     bind (modify (\<lambda>s. s\<lparr>ax_backups := bt_insert destination st (ax_backups s)\<rparr>)) (\<lambda>_.
     ret (ae_file_len env st))))))"

definition create_backup_handler :: "'i handler" where
  "create_backup_handler env request ps =
     bind (gets ax_manager) (\<lambda>m.
     bind (require (BadRequest ''backup_unavailable''
               ''a configuration-backed database is required for backups'')
             (or_else (pq_backup_directory (cm_config m))
               (map_option (\<lambda>parent. path_join parent ''backups'')
                 (case cm_file m of None \<Rightarrow> None | Some _ \<Rightarrow> ae_config_parent env)))) (\<lambda>directory.
     bind (check (ae_create_dir env directory) (Api_Store E_Io)) (\<lambda>_.
     bind (in_sup env new_uuid) (\<lambda>uuid.
     bind (backup_to env (path_join directory (''piqo-'' @ uuid @ ''.sqlite''))) (\<lambda>bytes.
     created (Y_Backup (''piqo-'' @ uuid @ ''.sqlite'') bytes))))))"

definition list_mcp_servers_handler :: "'i handler" where
  "list_mcp_servers_handler env request ps =
     bind (gets (\<lambda>s. diagnostics (ax_mcp s))) (\<lambda>ds. ok (Y_Mcp (map api_diagnostics_from ds)))"

section \<open>Runs\<close>

definition create_run_handler :: "'i handler" where
  "create_run_handler env request ps =
     bind (extract_body env (ae_create_run env) request) (\<lambda>req.
     bind (gets (\<lambda>s. cm_config (ax_manager s))) (\<lambda>c.
     bind (of_result (map_err Api_Config
             (case xr_agent req of
                None \<Rightarrow> Inr None
              | Some name \<Rightarrow> and_then (config_agent c name) (\<lambda>a. Inr (Some a))))) (\<lambda>agent.
     bind (require (BadRequest ''invalid_request''
               ''provider is required unless supplied by the selected agent'')
             (case or_else (xr_provider req) (Option.bind agent ad_provider) of
                Some p \<Rightarrow> if p \<noteq> [] then Some p else None | None \<Rightarrow> None)) (\<lambda>provider.
     bind (require (BadRequest ''invalid_request''
               ''model is required unless supplied by the selected agent'')
             (case or_else (xr_model req) (Option.bind agent ad_model) of
                Some p \<Rightarrow> if p \<noteq> [] then Some p else None | None \<Rightarrow> None)) (\<lambda>model.
     bind (in_sup env (\<lambda>se. queue_run se (param ps 0)
             \<lparr>rq_provider = provider, rq_model = model, rq_input = xr_input req, rq_agent = xr_agent req,
              rq_variant = xr_variant req, rq_body = xr_body req\<rparr>)) (\<lambda>run_id.
     ret (202, Some (Y_RunAccepted (run_accepted (param ps 0) run_id)))))))))"

definition get_run_handler :: "'i handler" where
  "get_run_handler env request ps =
     bind (in_sup env (\<lambda>se. project_of se (param ps 0))) (\<lambda>p.
     bind (require (Api_Store (RunNotFound (param ps 1))) (bt_get (sp_runs p) (param ps 1))) (\<lambda>run.
     ok (Y_Run (param ps 0) (api_run_from run))))"

definition cancel_run_handler :: "'i handler" where
  "cancel_run_handler env request ps =
     bind (in_sup env (\<lambda>se. cancel (ae_fuel env) se (process_session (ae_fuel env) se)
             (param ps 0) (param ps 1))) (\<lambda>_. accepted)"

definition retry_run_handler :: "'i handler" where
  "retry_run_handler env request ps =
     bind (in_sup env (\<lambda>se. retry se (param ps 0) (param ps 1))) (\<lambda>run_id.
     ret (202, Some (Y_RunAccepted (run_accepted (param ps 0) run_id))))"

definition submit_tool_result_handler :: "'i handler" where
  "submit_tool_result_handler env request ps =
     bind (extract_body env (ae_tool_result env) request) (\<lambda>result.
     bind (in_sup env (\<lambda>se. submit_tool_result se (param ps 0) (param ps 1) (param ps 2) result))
       (\<lambda>_. accepted))"

definition resume_queue_handler :: "'i handler" where
  "resume_queue_handler env request ps =
     bind (in_sup env (\<lambda>se. resume se (param ps 0))) (\<lambda>_. accepted)"

section \<open>Permissions\<close>

definition list_permission_requests_handler :: "'i handler" where
  "list_permission_requests_handler env request ps =
     bind (in_sup env (\<lambda>se. project_of se (param ps 0))) (\<lambda>p.
     bind (check (bt_contains_key (sp_runs p) (param ps 1))
             (Api_Store (RunNotFound (param ps 1)))) (\<lambda>_.
     ok (Y_Permissions
       (map (\<lambda>r. \<lparr>vy_request_id = pj_request_id r, vy_session_id = param ps 0, vy_run_id = pj_run_id r,
                  vy_call_id = pj_call_id r, vy_agent_id = pj_agent_id r,
                  vy_tool_name = pj_tool_name r, vy_arguments = pj_arguments r,
                  vy_decision = map_option permission_decision_name (pj_decision r)\<rparr>)
         (filter (\<lambda>r. pj_run_id r = param ps 1) (bt_values (sp_pending_permissions p)))))))"

definition parse_scope :: "string \<Rightarrow> (api_error, permission_scope) result" where
  "parse_scope scope =
     (if scope = ''once'' then Inr Sc_Once
      else if scope = ''session'' then Inr Sc_Session
      else if scope = ''project'' then Inr Sc_Project
      else if scope = ''configuration'' then Inr Sc_Configuration
      else Inl (BadRequest ''invalid_permission_scope''
             ''scope must be once, session, project, or configuration''))"

definition approve_permission_handler :: "'i handler" where
  "approve_permission_handler env request ps =
     bind (extract_body env (ae_scope env) request) (\<lambda>text.
     bind (of_result (parse_scope text)) (\<lambda>scope.
     bind (in_sup env (\<lambda>se. approve_permission (ae_fuel env) se (param ps 0) (param ps 1) (param ps 2) scope))
       (\<lambda>_. accepted)))"

definition deny_permission_handler :: "'i handler" where
  "deny_permission_handler env request ps =
     bind (in_sup env (\<lambda>se. deny_permission (ae_fuel env) se (param ps 0) (param ps 1) (param ps 2)))
       (\<lambda>_. accepted)"

definition list_permission_rules_handler :: "'i handler" where
  "list_permission_rules_handler env request ps =
     bind (read_store env permission_rules) (\<lambda>rules. ok (Y_Rules rules))"

definition delete_permission_rule_handler :: "'i handler" where
  "delete_permission_rule_handler env request ps =
     bind (in_sup env (\<lambda>_. store_do (\<lambda>st.
             and_then (delete_permission_rule (param ps 0) st) (\<lambda>st'. Inr ((), st'))))) (\<lambda>_. no_content)"

section \<open>Routing\<close>

text \<open>The route table; a segment in braces captures.\<close>

definition routes :: "(string \<times> (http_method \<times> 'i handler) list) list" where
  "routes =
     [(''health'', [(GET, health_handler)]),
      (''metrics'', [(GET, metrics_handler)]),
      (''projects'', [(POST, create_project_handler), (GET, list_projects_handler)]),
      (''projects/{project_id}'',
         [(GET, get_project_handler), (PATCH, update_project_handler), (DELETE, delete_project_handler)]),
      (''projects/{project_id}/sessions'', [(GET, list_project_sessions_handler)]),
      (''sessions'', [(POST, create_session_handler), (GET, list_sessions_handler)]),
      (''sessions/{session_id}/retention'', [(PATCH, update_session_retention_handler)]),
      (''sessions/{session_id}'', [(GET, get_session_handler)]),
      (''sessions/{session_id}/events'', [(GET, get_events_handler)]),
      (''sessions/{session_id}/events/stream'', [(GET, stream_events_handler)]),
      (''sessions/{session_id}/forks'', [(POST, fork_session_handler)]),
      (''sessions/{session_id}/agent-tree'', [(GET, get_agent_tree_handler)]),
      (''providers'', [(GET, list_providers_handler), (POST, create_provider_handler)]),
      (''agents'', [(GET, list_agents_handler)]),
      (''providers/{provider}'',
         [(GET, get_provider_handler), (PATCH, update_provider_handler), (DELETE, delete_provider_handler)]),
      (''providers/{provider}/models'',
         [(GET, list_provider_models_handler), (PUT, replace_provider_models_handler),
          (DELETE, clear_provider_models_handler)]),
      (''providers/{provider}/models/refresh'', [(POST, refresh_provider_models_handler)]),
      (''config/reload'', [(POST, reload_config_handler)]),
      (''storage/backups'', [(POST, create_backup_handler)]),
      (''mcp/servers'', [(GET, list_mcp_servers_handler)]),
      (''sessions/{session_id}/runs'', [(POST, create_run_handler)]),
      (''sessions/{session_id}/runs/{run_id}'', [(GET, get_run_handler)]),
      (''sessions/{session_id}/runs/{run_id}/cancel'', [(POST, cancel_run_handler)]),
      (''sessions/{session_id}/runs/{run_id}/retries'', [(POST, retry_run_handler)]),
      (''sessions/{session_id}/runs/{run_id}/tool_calls/{call_id}/result'',
         [(POST, submit_tool_result_handler)]),
      (''sessions/{session_id}/runs/{run_id}/permission_requests'',
         [(GET, list_permission_requests_handler)]),
      (''sessions/{session_id}/runs/{run_id}/permission_requests/{request_id}/approve'',
         [(POST, approve_permission_handler)]),
      (''sessions/{session_id}/runs/{run_id}/permission_requests/{request_id}/deny'',
         [(POST, deny_permission_handler)]),
      (''permission-rules'', [(GET, list_permission_rules_handler)]),
      (''permission-rules/{rule_id}'', [(DELETE, delete_permission_rule_handler)]),
      (''sessions/{session_id}/queue/resume'', [(POST, resume_queue_handler)])]"

text \<open>A parameter of a route takes one segment of the path, which is not empty.\<close>

fun match_path :: "string list \<Rightarrow> string list \<Rightarrow> string list option" where
  "match_path [] [] = Some []"
| "match_path (t # ts) (p # ps) =
     (if starts_with ''{'' t
      then (if p = [] then None else map_option (\<lambda>captured. p # captured) (match_path ts ps))
      else if t = p then match_path ts ps else None)"
| "match_path _ _ = None"

definition find_route ::
  "string list \<Rightarrow> (string list \<times> (http_method \<times> 'i handler) list) option" where
  "find_route path =
     (case filter (\<lambda>(t, _). match_path (''api'' # ''v1'' # split_on CHR ''/'' t) path \<noteq> None) routes of
        [] \<Rightarrow> None
      | (t, methods) # _ \<Rightarrow>
          Some (unwrap_or [] (match_path (''api'' # ''v1'' # split_on CHR ''/'' t) path), methods))"

definition answer_response :: "display \<Rightarrow> (api_error, answer) result \<Rightarrow> api_reply response" where
  "answer_response dy r =
     (case r of
        Inl e \<Rightarrow> into_response dy e
      | Inr (status, reply) \<Rightarrow>
          \<lparr>hr_status = status, hr_headers = [],
           hr_body = (case reply of None \<Rightarrow> Empty | Some v \<Rightarrow> Payload v)\<rparr>)"

text \<open>
  A response and the state after it; no response means that a call to the supervisor ran out of
  its fuel.
\<close>

type_synonym 'i served = "(api_reply response \<times> 'i app) option"

definition dispatch :: "'i api_env \<Rightarrow> http_request \<Rightarrow> 'i app \<Rightarrow> 'i served" where
  "dispatch env request s =
     (case find_route (hq_path request) of
        None \<Rightarrow> Some (api_not_found, s)
      | Some (ps, methods) \<Rightarrow>
          (case map_of methods (hq_method request) of
             None \<Rightarrow> Some (api_method_not_allowed, s)
           | Some handler \<Rightarrow>
               map_option (\<lambda>(r, s'). (answer_response (ae_display env) r, s')) (handler env request ps s)))"

text \<open>The layers, innermost first: the shutdown gate, metrics with the request id, the token.\<close>

definition shutdown_layer :: "('i app \<Rightarrow> 'i served) \<Rightarrow> 'i app \<Rightarrow> 'i served" where
  "shutdown_layer next s =
     (if ax_shutting_down s then Some (shutting_down_response, s) else next s)"

definition metrics_layer :: "'i api_env \<Rightarrow> ('i app \<Rightarrow> 'i served) \<Rightarrow> 'i app \<Rightarrow> 'i served" where
  "metrics_layer env next s =
     map_option (\<lambda>(r, s'). (with_header ''x-request-id'' (ae_request_id env (ax_requests_total s)) r, s'))
       (next (s\<lparr>ax_requests_total := u64_add (ax_requests_total s) 1\<rparr>))"

definition authenticate_request ::
  "'i api_env \<Rightarrow> string option \<Rightarrow> http_request \<Rightarrow> ('i app \<Rightarrow> 'i served) \<Rightarrow> 'i app \<Rightarrow> 'i served" where
  "authenticate_request env token request next s =
     (case token of
        None \<Rightarrow> next s
      | Some expected \<Rightarrow>
          if authorized (ae_to_str env) expected request then next s
          else Some (unauthorized_response, s))"

definition router_with_token ::
  "'i api_env \<Rightarrow> string option \<Rightarrow> http_request \<Rightarrow> 'i app \<Rightarrow> 'i served" where
  "router_with_token env token request =
     authenticate_request env token request
       (metrics_layer env (shutdown_layer (dispatch env request)))"

end
