(* ===== verification/Api_Guarantees.thy ===== *)
theory Api_Guarantees
  imports Api
begin

text \<open>
  What holds of every request: without the token nothing happens, a reading request changes no
  record, and every response is one of the documented shapes.
\<close>

section \<open>The token\<close>

lemma strip_prefix_Some: "strip_prefix p s = Some t \<longleftrightarrow> s = p @ t"
  by (induction p s rule: strip_prefix.induct) auto

lemma authorized_iff:
  assumes "\<And>v t. to_str v = Some t \<Longrightarrow> t = v" and "length expected < 2 ^ 64"
    and "\<And>v. header_of request ''authorization'' = Some v \<Longrightarrow> length v < 2 ^ 64"
  shows "authorized to_str expected request \<longleftrightarrow>
    header_of request ''authorization'' = Some (''Bearer '' @ expected) \<and>
    to_str (''Bearer '' @ expected) \<noteq> None"
proof (cases "header_of request ''authorization''")
  case (Some v)
  have eq: "constant_time_equal candidate expected \<longleftrightarrow> candidate = expected"
    if "v = ''Bearer '' @ candidate" for candidate
    using assms(3) [OF Some] that by (intro constant_time_equal_iff assms(2)) simp
  show ?thesis
  proof (cases "to_str v")
    case (Some t)
    then have t: "t = v" by (rule assms(1))
    show ?thesis
    proof (cases "strip_prefix ''Bearer '' v")
      case None
      then have "v \<noteq> ''Bearer '' @ expected" using strip_prefix_Some [of "''Bearer ''" v expected] by simp
      with None Some t show ?thesis
        by (simp add: authorized_def \<open>header_of request ''authorization'' = Some v\<close>)
    next
      case (Some a)
      then have v: "v = ''Bearer '' @ a" by (simp only: strip_prefix_Some)
      have "authorized to_str expected request \<longleftrightarrow> a = expected"
        using eq [OF v] Some \<open>to_str v = Some t\<close> t
        by (simp add: authorized_def \<open>header_of request ''authorization'' = Some v\<close>)
      then show ?thesis
        using \<open>to_str v = Some t\<close> v by (auto simp: \<open>header_of request ''authorization'' = Some v\<close>)
    qed
  qed (use Some in \<open>auto simp: authorized_def\<close>)
qed (simp add: authorized_def)

section \<open>Reading requests\<close>

text \<open>Nothing but the projection cache, the counters of requests and streams may change.\<close>

definition reads_only :: "'i app \<Rightarrow> 'i app \<Rightarrow> bool" where
  "reads_only s s' \<longleftrightarrow>
     (\<exists>cache. ax_sup s' = (ax_sup s)\<lparr>su_store := (su_store (ax_sup s))\<lparr>st_cache := cache\<rparr>\<rparr>) \<and>
     ax_manager s' = ax_manager s \<and> ax_mcp s' = ax_mcp s \<and>
     ax_shutting_down s' = ax_shutting_down s \<and> ax_streams_closed s' = ax_streams_closed s \<and>
     ax_fatal_reload_error s' = ax_fatal_reload_error s"

interpretation read_relation: state_relation "reads_only :: 'i app \<Rightarrow> 'i app \<Rightarrow> bool"
proof
  show "reads_only s s" for s :: "'i app"
    unfolding reads_only_def by (intro conjI exI [of _ "st_cache (su_store (ax_sup s))"]) simp_all
qed (auto simp: reads_only_def)

lemma reads_only_sup: "ax_sup s' = ax_sup s \<Longrightarrow> ax_manager s' = ax_manager s \<Longrightarrow> ax_mcp s' = ax_mcp s \<Longrightarrow>
  ax_shutting_down s' = ax_shutting_down s \<Longrightarrow> ax_streams_closed s' = ax_streams_closed s \<Longrightarrow>
  ax_fatal_reload_error s' = ax_fatal_reload_error s \<Longrightarrow> reads_only s s'"
  unfolding reads_only_def by (intro conjI exI [of _ "st_cache (su_store (ax_sup s))"]) simp_all

abbreviation reads :: "('i app, 'e, 'a) comp \<Rightarrow> bool" where
  "reads \<equiv> state_relation.keeps reads_only"

lemma reads_read_store: "reads (read_store env f)"
  by (rule read_relation.keepsI)
     (auto simp: read_store_def in_sup_def store_read_def comp_iffs intro!: reads_only_sup
       split: option.splits)

lemma project_of_run:
  "project_of se sid u = Some (r, u') \<Longrightarrow> \<exists>cache. u' = u\<lparr>su_store := (su_store u)\<lparr>st_cache := cache\<rparr>\<rparr>"
proof -
  assume run: "project_of se sid u = Some (r, u')"
  have same: "u = u\<lparr>su_store := (su_store u)\<lparr>st_cache := st_cache (su_store u)\<rparr>\<rparr>" by simp
  show ?thesis
  proof (cases "projection (en_serde se) sid (su_store u)")
    case (Inl e)
    with run have "u' = u" by (simp add: project_of_def store_do_def bind_def run_simps)
    with same show ?thesis by metis
  next
    case (Inr q)
    then obtain p cache where "q = (p, (su_store u)\<lparr>st_cache := cache\<rparr>)"
      by (auto simp: projection_def and_then_eq_Inr split: option.splits)
         (metis store.surjective store.update_convs(6))
    with run Inr show ?thesis
      by (auto simp: project_of_def store_do_def bind_def run_simps)
  qed
qed

lemma reads_project: "reads (in_sup env (\<lambda>se. project_of se sid))"
  by (rule read_relation.keepsI)
     (auto simp: in_sup_def reads_only_def dest: project_of_run split: option.splits)

lemma reads_manager: "reads (in_manager (read_manager f))"
  by (rule read_relation.keepsI)
     (auto simp: in_manager_def read_manager_def comp_iffs intro!: reads_only_sup split: option.splits)

lemma reads_sse: "reads (acquire_sse_connection limits sid)" "reads (release_sse_connection sid)"
  unfolding acquire_sse_connection_def release_sse_connection_def
  by (auto intro!: read_relation.keeps_rules read_relation.keeps_modify reads_only_sup)

lemmas handler_defs = health_handler_def metrics_handler_def list_projects_handler_def
  get_project_handler_def list_project_sessions_handler_def list_sessions_handler_def
  get_session_handler_def get_events_handler_def stream_events_handler_def
  get_agent_tree_handler_def list_providers_handler_def list_agents_handler_def
  get_provider_handler_def list_provider_models_handler_def list_mcp_servers_handler_def
  get_run_handler_def list_permission_requests_handler_def list_permission_rules_handler_def

lemmas read_rules = read_relation.keeps_rules reads_read_store reads_project reads_manager reads_sse

lemma reads_handlers:
  "reads (health_handler env q ps)" "reads (metrics_handler env q ps)"
  "reads (list_projects_handler env q ps)" "reads (get_project_handler env q ps)"
  "reads (list_project_sessions_handler env q ps)" "reads (list_sessions_handler env q ps)"
  "reads (get_session_handler env q ps)" "reads (get_events_handler env q ps)"
  "reads (stream_events_handler env q ps)" "reads (get_agent_tree_handler env q ps)"
  "reads (list_providers_handler env q ps)" "reads (list_agents_handler env q ps)"
  "reads (get_provider_handler env q ps)" "reads (list_provider_models_handler env q ps)"
  "reads (list_mcp_servers_handler env q ps)" "reads (get_run_handler env q ps)"
  "reads (list_permission_requests_handler env q ps)" "reads (list_permission_rules_handler env q ps)"
  unfolding handler_defs ok_def extract_query_def Let_def by (intro read_rules)+

lemma get_handlers_read:
  assumes "(t, methods) \<in> set routes" and "map_of methods GET = Some h"
  shows "reads (h env q ps)"
  using assms by (auto simp: routes_def reads_handlers split: if_splits)

lemma find_route_in:
  assumes "find_route path = Some (ps, methods)"
  shows "\<exists>t. (t, methods) \<in> set routes"
proof -
  let ?matching = "filter (\<lambda>(t, _). match_path (''api'' # ''v1'' # split_on CHR ''/'' t) path \<noteq> None) routes"
  obtain t rest where "?matching = (t, methods) # rest"
    using assms by (auto simp: find_route_def split: list.splits prod.splits)
  then have "(t, methods) \<in> set ?matching" by simp
  then show ?thesis by auto
qed


section \<open>Responses\<close>

definition answers :: "('i, answer) api_act \<Rightarrow> bool" where
  "answers m \<longleftrightarrow> (\<forall>s status reply s'. m s = Some (Inr (status, reply), s') \<longrightarrow>
     status \<in> {200, 201, 202, 204})"

lemma answers_bind: "(\<And>x. answers (f x)) \<Longrightarrow> answers (bind m f)"
  unfolding answers_def bind_Inr_iff by blast

lemma answers_basic:
  "status \<in> {200, 201, 202, 204} \<Longrightarrow> answers (ret (status, reply))" "answers (raise e)"
  by (auto simp: answers_def comp_iffs)

lemma answers_cases:
  "answers m \<Longrightarrow> (\<And>x. answers (f x)) \<Longrightarrow> answers (case_option m f v)"
  "(\<And>x. answers (h x)) \<Longrightarrow> (\<And>x. answers (k x)) \<Longrightarrow> answers (case_sum h k w)"
  "(\<And>x y. answers (g x y)) \<Longrightarrow> answers (case_prod g q)"
  by (auto split: option.splits sum.splits prod.splits)

lemma answers_shapes: "answers (ok y)" "answers (created y)" "answers accepted" "answers no_content"
  by (simp_all add: ok_def created_def accepted_def no_content_def answers_basic)

lemmas all_handler_defs = handler_defs create_project_handler_def update_project_handler_def
  delete_project_handler_def create_session_handler_def update_session_retention_handler_def
  fork_session_handler_def create_provider_handler_def update_provider_handler_def
  delete_provider_handler_def replace_provider_models_handler_def clear_provider_models_handler_def
  refresh_provider_models_handler_def reload_config_handler_def create_run_handler_def
  cancel_run_handler_def retry_run_handler_def submit_tool_result_handler_def
  resume_queue_handler_def approve_permission_handler_def deny_permission_handler_def
  delete_permission_rule_handler_def create_backup_handler_def

lemma handlers_answer:
  assumes "(t, methods) \<in> set routes" and "map_of methods method = Some h"
  shows "answers (h env q ps)"
proof -
  have "answers (h env q ps)" if "h \<in> snd ` set methods" for h
    using assms(1) that
    by (auto simp: routes_def all_handler_defs Let_def
          intro!: answers_bind answers_cases answers_shapes answers_basic)
  then show ?thesis using map_of_SomeD [OF assms(2)] by force
qed

definition envelope_ok :: "'b response \<Rightarrow> bool" where
  "envelope_ok r \<longleftrightarrow>
     (hr_status r \<in> {200, 201, 202, 204} \<and> (\<forall>code message. hr_body r \<noteq> Failure code message)) \<or>
     (hr_status r \<in> {400, 401, 404, 405, 409, 413, 422, 429, 502, 503} \<and>
      (\<exists>code message. hr_body r = Failure code message))"

lemma envelope_failure:
  "status \<in> {400, 401, 404, 405, 409, 413, 422, 429, 502, 503} \<Longrightarrow>
   envelope_ok (failure status code message)"
  by (simp add: envelope_ok_def failure_def)

lemma envelope_header [simp]: "envelope_ok (with_header name v r) = envelope_ok r"
  by (simp add: envelope_ok_def with_header_def)

lemma envelope_store: "envelope_ok (store_response dy e)"
  by (cases e) (simp_all add: store_response_def envelope_failure)

lemma envelope_config: "envelope_ok (config_response dy e)"
  by (cases e) (simp_all add: config_response_def envelope_failure)

lemma envelope_into: "envelope_ok (into_response dy e)"
  by (cases e) (simp_all add: envelope_store envelope_config envelope_failure)

lemma envelope_answer:
  assumes "answers m" and "m s = Some (r, s')"
  shows "envelope_ok (answer_response dy r)"
proof (cases r)
  case (Inr answer)
  obtain status reply where "answer = (status, reply)" by (cases answer)
  with Inr assms have "status \<in> {200, 201, 202, 204}" by (auto simp: answers_def)
  with Inr \<open>answer = (status, reply)\<close> show ?thesis
    by (auto simp: answer_response_def envelope_ok_def split: option.splits)
qed (simp add: answer_response_def envelope_into)

lemma envelope_dispatch: "dispatch env q s = Some (r, s') \<Longrightarrow> envelope_ok r"
  by (auto simp: dispatch_def api_not_found_def api_method_not_allowed_def envelope_failure
        split: option.splits
        dest!: find_route_in intro: envelope_answer [OF handlers_answer])

lemma reads_dispatch:
  assumes "hq_method q = GET" and "dispatch env q s = Some (r, s')"
  shows "reads_only s s'"
  using assms
  by (auto simp: dispatch_def read_relation.rel_refl split: option.splits
        dest!: find_route_in dest: read_relation.keepsD [OF get_handlers_read])

end
