(* ===== verification/Providers_Guarantees.thy ===== *)
theory Providers_Guarantees
  imports Providers Config_Guarantees
begin

text \<open>
  The configuration manager: the configuration in force only changes together with its revision,
  stays valid, and agrees with the document on disk, whatever the API does and whatever other
  tasks do while a provider is asked for its models.
\<close>

section \<open>The relation every operation keeps\<close>

text \<open>The configuration in force is what the document says, the Markdown agents apart.\<close>

definition in_step :: "'i manager_env \<Rightarrow> 'i config_manager \<Rightarrow> bool" where
  "in_step env m \<longleftrightarrow>
     (case cm_file m of
        None \<Rightarrow> True
      | Some doc \<Rightarrow>
          \<exists>c. me_parse env doc = Inr c \<and>
              cm_config m = c\<lparr>pq_markdown_agents := pq_markdown_agents (cm_config m)\<rparr>)"

definition manager_progress :: "'i manager_env \<Rightarrow> 'i config_manager \<Rightarrow> 'i config_manager \<Rightarrow> bool" where
  "manager_progress env m m' \<longleftrightarrow>
     cm_revision m \<le> cm_revision m' \<and>
     (cm_revision m' = cm_revision m \<longrightarrow> cm_config m' = cm_config m) \<and>
     (config_validate (me_config_env env) (cm_config m) = Inr () \<longrightarrow>
        config_validate (me_config_env env) (cm_config m') = Inr ()) \<and>
     (in_step env m \<longrightarrow> cm_revision m' < u64_max \<longrightarrow> in_step env m')"

interpretation manager_relation: state_relation "manager_progress env" for env :: "'i manager_env"
  by unfold_locales (auto simp: manager_progress_def)

abbreviation progresses :: "'i manager_env \<Rightarrow> ('i config_manager, 'e, 'a) comp \<Rightarrow> bool" where
  "progresses env \<equiv> state_relation.keeps (manager_progress env)"

lemma same_config_progress:
  "cm_config m' = cm_config m \<Longrightarrow> cm_revision m' = cm_revision m \<Longrightarrow> cm_file m' = cm_file m \<Longrightarrow>
   manager_progress env m m'"
  by (auto simp: manager_progress_def in_step_def split: option.splits)

lemma progress_mutate: "progresses env (mutate_do env operation)"
proof (rule manager_relation.keepsI)
  fix m r m'
  assume "mutate_do env operation m = Some (r, m')"
  then have run: "manager_mutate (me_config_env env) (me_parse env) (me_now env 0) operation m = (r, m')"
    by (simp add: mutate_do_def)
  show "manager_progress env m m'"
  proof (cases "m' = m")
    case True
    then show ?thesis by (simp add: manager_relation.rel_refl)
  next
    case False
    with run obtain doc doc' c where edit: "me_parse env doc' = Inr c"
      "config_validate (me_config_env env) c = Inr ()" "cm_file m' = Some doc'"
      and rev: "u64_max \<le> cm_revision m \<and> cm_revision m' = cm_revision m \<and>
          cm_config m' = cm_config m \<or>
        cm_revision m' = Suc (cm_revision m) \<and> cm_config m' = c"
      by (auto simp: manager_mutate_def and_then_eq_Inr u64_checked_add_def Let_def
            split: option.splits sum.splits if_splits)
    then show ?thesis
      by (auto simp: manager_progress_def in_step_def)
  qed
qed

lemma load_document_valid:
  assumes "load_document env doc = Inr c"
  shows "config_validate (me_config_env env) c = Inr () \<and>
         (\<exists>p. me_parse env doc = Inr p \<and> c = p\<lparr>pq_markdown_agents := pq_markdown_agents c\<rparr>)"
  using assms by (auto simp: load_document_def config_load_def and_then_eq_Inr Let_def)

lemma progress_reload: "progresses env (reload_do env)"
proof (rule manager_relation.keepsI)
  fix m r m'
  assume run: "reload_do env m = Some (r, m')"
  show "manager_progress env m m'"
  proof (cases "manager_reload (load_document env) (me_now env 0) m")
    case (Inl e)
    with run show ?thesis by (simp add: reload_do_def manager_relation.rel_refl)
  next
    case (Inr m1)
    with run have "m' = m1" by (simp add: reload_do_def)
    with Inr obtain doc c where "cm_file m = Some doc" "load_document env doc = Inr c"
      "m' = m\<lparr>cm_revision := Suc (cm_revision m), cm_loaded_at := me_now env 0, cm_config := c,
             cm_discovery := bt_empty\<rparr>"
      by (auto simp: manager_reload_def and_then_eq_Inr u64_checked_add_def split: if_splits)
    with load_document_valid [of env doc c] show ?thesis
      by (auto simp: manager_progress_def in_step_def)
  qed
qed

lemma progress_discover:
  assumes "\<And>m. manager_progress env m (me_meanwhile env m)"
  shows "progresses env (discover_provider env name)"
proof (rule manager_relation.keepsI)
  fix m r m'
  assume run: "discover_provider env name m = Some (r, m')"
  show "manager_progress env m m'"
  proof (cases "discover_begin (me_now env 1) name m")
    case (Inl e)
    with run show ?thesis by (simp add: discover_provider_def manager_relation.rel_refl)
  next
    case (Inr q)
    obtain original m1 where q: "q = (original, m1)" by (cases q)
    from Inr q have "manager_progress env m m1"
      by (intro same_config_progress)
         (auto simp: discover_begin_def and_then_eq_Inr set_discovery_def split: if_splits)
    moreover have "manager_progress env m1 (me_meanwhile env m1)" by (rule assms)
    moreover from run Inr q obtain outcome
      where "discover_end (me_now env 1) name original outcome (me_meanwhile env m1) = (r, m')"
      by (auto simp: discover_provider_def Let_def)
    then have "manager_progress env (me_meanwhile env m1) m'"
      by (intro same_config_progress)
         (auto simp: discover_end_def set_discovery_def Let_def split: option.splits if_splits)
    ultimately show ?thesis by (blast intro: manager_relation.rel_trans)
  qed
qed

lemma progress_clear: "progresses env (modify (clear_discovery name))"
  by (rule manager_relation.keeps_modify) (simp add: same_config_progress clear_discovery_def)

lemmas progress_intros = manager_relation.keeps_rules progress_mutate progress_reload progress_clear

lemma progress_ops:
  assumes "\<And>m. manager_progress env m (me_meanwhile env m)"
  shows "progresses env (create_provider env creq)" "progresses env (update_provider env name ureq)"
    "progresses env (delete_provider env name)" "progresses env (replace_models env name models)"
    "progresses env (clear_models env name)" "progresses env (refresh_models env name)"
    "progresses env (discover_all env)" "progresses env (reload_do env)" "progresses env (read_manager f)"
  using progress_discover [OF assms]
  by (auto simp: create_provider_def update_provider_def delete_provider_def replace_models_def
       clear_models_def refresh_models_def discover_all_def read_manager_def
       intro!: progress_intros)

lemma progress_run:
  assumes "\<And>m. manager_progress env m (me_meanwhile env m)"
  shows "progresses env (run_manager env command)"
  by (cases command)
     (simp_all add: manager_relation.keeps_bind manager_relation.keeps_rules progress_ops [OF assms])

lemma progress_reaches:
  assumes "\<And>m. manager_progress env m (me_meanwhile env m)"
  shows "manager_reaches env m m' \<Longrightarrow> manager_progress env m m'"
proof (induction rule: manager_reaches.induct)
  case (manager_refl m)
  show ?case by (rule manager_relation.rel_refl)
next
  case (manager_step m m' command r m'')
  from manager_relation.keepsD [OF progress_run [OF assms] manager_step.hyps(2)]
  show ?case using manager_step.IH by (blast intro: manager_relation.rel_trans)
qed

section \<open>Properties\<close>

text \<open>A manager over JSON objects as documents, whose parser keeps the providers the document has.\<close>

definition example_toml :: "json toml_edit" where
  "example_toml =
     \<lparr>te_table = JObj [], te_is_table = is_object, te_get = jget,
      te_set = (\<lambda>t k v. JObj (bt_insert k v (unwrap_or [] (as_object t)))),
      te_remove = (\<lambda>t k. JObj (bt_remove k (unwrap_or [] (as_object t)))),
      te_string = JStr, te_integer = (\<lambda>n. jnat (nat n)), te_array = (\<lambda>xs. JArr (map JStr xs))\<rparr>"

definition example_parse :: "json \<Rightarrow> (string, piqo_config) result" where
  "example_parse doc =
     Inr (example_config\<lparr>pq_providers :=
       filter (\<lambda>(k, _). jget (unwrap_or JNull (jget doc ''providers'')) k \<noteq> None)
         (pq_providers example_config)\<rparr>)"

definition example_manager_env :: "json manager_env" where
  "example_manager_env =
     \<lparr>me_config_env = example_env, me_toml = example_toml, me_parse = example_parse,
      me_yaml = (\<lambda>_. Inl []), me_agent_files = [], me_now = (\<lambda>_. ''now''), me_show = (\<lambda>_. []),
      me_fetch = (\<lambda>_. Inr []), me_meanwhile = (\<lambda>m. m)\<rparr>"

definition example_document :: json where
  "example_document = JObj [(''providers'', JObj [(''p'', JObj [])])]"

definition example_manager :: "json config_manager" where
  "example_manager = manager_new (Some example_document) ''then'' example_config"



end
