(* ===== verification/Mcp_Guarantees.thy ===== *)
theory Mcp_Guarantees
  imports Mcp
begin

text \<open>
  The supervision of MCP servers is sound: in every state the manager reaches, the children that
  run are exactly the connections of its entries, an entry is healthy exactly when it has a
  connection, failed starts are bounded by the configured restarts, and stopping the manager
  leaves no child behind.
\<close>

section \<open>The invariant\<close>

definition entry_ok :: "string \<Rightarrow> mcp_entry \<Rightarrow> bool" where
  "entry_ok k e \<longleftrightarrow>
     mn_id e = k \<and> mn_state e \<noteq> Mcp_Starting \<and>
     (mn_state e = Mcp_Healthy \<longleftrightarrow> mn_connection e \<noteq> None) \<and>
     mn_restart_attempts e \<le> max 1 (mc_max_restart_attempts (mn_config e)) \<and>
     (mn_connection e \<noteq> None \<longrightarrow> mc_enabled (mn_config e)) \<and>
     (\<forall>t \<in> set (mn_tools e). mt_server_id t = k)"

definition owned :: "(string, mcp_entry) bt_map \<Rightarrow> nat set" where
  "owned entries = {n. \<exists>k e. bt_get entries k = Some e \<and> mn_connection e = Some n}"

definition mcp_ok :: "mcp_manager \<Rightarrow> bool" where
  "mcp_ok m \<longleftrightarrow>
     bt_sorted (mm_entries m) \<and>
     (\<forall>k e. bt_get (mm_entries m) k = Some e \<longrightarrow> entry_ok k e) \<and>
     set (mm_running m) = owned (mm_entries m) \<and>
     (\<forall>n \<in> owned (mm_entries m). n < mm_now m) \<and>
     (\<forall>k e k' e'. bt_get (mm_entries m) k = Some e \<longrightarrow> bt_get (mm_entries m) k' = Some e' \<longrightarrow>
        mn_connection e \<noteq> None \<longrightarrow> mn_connection e = mn_connection e' \<longrightarrow> k = k')"

lemma mcp_okD:
  assumes "mcp_ok m"
  shows "bt_sorted (mm_entries m)" "bt_get (mm_entries m) k = Some e \<Longrightarrow> entry_ok k e"
    "set (mm_running m) = owned (mm_entries m)" "n \<in> owned (mm_entries m) \<Longrightarrow> n < mm_now m"
  using assms by (simp_all add: mcp_ok_def)

lemma owned_insert:
  assumes "bt_get entries k = Some e"
    and "\<And>k' e'. bt_get entries k' = Some e' \<Longrightarrow> mn_connection e \<noteq> None \<Longrightarrow>
           mn_connection e = mn_connection e' \<Longrightarrow> k = k'"
  shows "owned (bt_insert k e' entries) =
         owned entries - set_option (mn_connection e) \<union> set_option (mn_connection e')"
proof (rule set_eqI)
  fix n
  have "(\<exists>k' x. k' \<noteq> k \<and> bt_get entries k' = Some x \<and> mn_connection x = Some n) \<longleftrightarrow>
        n \<in> owned entries \<and> mn_connection e \<noteq> Some n" (is "?other \<longleftrightarrow> ?rest")
  proof
    assume ?other
    with assms(2) show ?rest unfolding owned_def by fastforce
  next
    assume ?rest
    then obtain k' x where x: "bt_get entries k' = Some x" "mn_connection x = Some n"
      by (auto simp: owned_def)
    with \<open>?rest\<close> assms(1) have "k' \<noteq> k" by auto
    with x show ?other by blast
  qed
  moreover have "n \<in> owned (bt_insert k e' entries) \<longleftrightarrow> mn_connection e' = Some n \<or>
      (\<exists>k' x. k' \<noteq> k \<and> bt_get entries k' = Some x \<and> mn_connection x = Some n)"
    unfolding owned_def by (auto split: if_splits)
  ultimately show "n \<in> owned (bt_insert k e' entries) \<longleftrightarrow>
      n \<in> owned entries - set_option (mn_connection e) \<union> set_option (mn_connection e')"
    by auto
qed

text \<open>Replacing an entry by one whose connection is the same, gone or fresh.\<close>

lemma mcp_ok_update:
  assumes ok: "mcp_ok m" and e: "bt_get (mm_entries m) k = Some e" and e': "entry_ok k e'"
    and entries: "\<And>k'. bt_get (mm_entries m') k' = bt_get (bt_insert k e' (mm_entries m)) k'"
    and sorted: "bt_sorted (mm_entries m')" and now: "mm_now m \<le> mm_now m'"
    and fresh: "mn_connection e' = mn_connection e \<or> mn_connection e' = None \<or>
                (\<exists>n. mn_connection e' = Some n \<and> mm_now m \<le> n \<and> n < mm_now m')"
    and running: "set (mm_running m') =
                  set (mm_running m) - set_option (mn_connection e) \<union> set_option (mn_connection e')"
  shows "mcp_ok m'"
proof -
  note m = mcp_okD [OF ok]
  have uniq: "k' = k''" if "bt_get (mm_entries m) k' = Some x" "bt_get (mm_entries m) k'' = Some y"
    "mn_connection x \<noteq> None" "mn_connection x = mn_connection y" for k' k'' x y
    using ok that unfolding mcp_ok_def by blast
  have own: "owned (mm_entries m') =
      owned (mm_entries m) - set_option (mn_connection e) \<union> set_option (mn_connection e')"
  proof -
    have "owned (mm_entries m') = owned (bt_insert k e' (mm_entries m))"
      by (simp add: owned_def entries)
    also have "\<dots> = owned (mm_entries m) - set_option (mn_connection e) \<union> set_option (mn_connection e')"
      by (rule owned_insert [OF e]) (use uniq [OF e] in blast)
    finally show ?thesis .
  qed
  have in_own: "n \<in> owned (mm_entries m)" if "bt_get (mm_entries m) k' = Some x"
    "mn_connection x = Some n" for k' x n
    using that by (auto simp: owned_def)
  have old: "n < mm_now m" if "bt_get (mm_entries m) k' = Some x" "mn_connection x = Some n" for k' x n
    using m(4) in_own [OF that] by blast
  have "\<forall>n \<in> owned (mm_entries m'). n < mm_now m'"
    using own fresh m(4) now old [OF e] by (fastforce dest: order_less_le_trans)
  moreover have "\<forall>k'' x. bt_get (mm_entries m') k'' = Some x \<longrightarrow> entry_ok k'' x"
    using entries e' m(2) by (auto split: if_splits)
  moreover have new: "mn_connection x \<noteq> mn_connection e'" if "bt_get (mm_entries m) k' = Some x"
    "k' \<noteq> k" "mn_connection e' \<noteq> None" for k' x
    using fresh that uniq [OF that(1) e] old [OF that(1)] by fastforce
  have "k1 = k2" if "bt_get (mm_entries m') k1 = Some x" "bt_get (mm_entries m') k2 = Some y"
    "mn_connection x \<noteq> None" "mn_connection x = mn_connection y" for k1 k2 x y
    using that uniq new unfolding entries bt_get_insert
    by (cases "k1 = k"; cases "k2 = k") (auto; metis)+
  ultimately show ?thesis
    using sorted own running m(3) unfolding mcp_ok_def by blast
qed


section \<open>Every step keeps it\<close>

interpretation mcp_relation: state_relation "\<lambda>m m'. mcp_ok m \<longrightarrow> mcp_ok m'"
  by unfold_locales blast+

abbreviation mcp_keeps :: "(mcp_manager, 'e, 'a) comp \<Rightarrow> bool" where
  "mcp_keeps \<equiv> state_relation.keeps (\<lambda>m m'. mcp_ok m \<longrightarrow> mcp_ok m')"

lemmas mcp_keepsI = mcp_relation.keepsI [OF impI]

lemma mcp_ok_later: "mcp_ok m \<Longrightarrow> mcp_ok (m\<lparr>mm_now := Suc (mm_now m)\<rparr>)"
  unfolding mcp_ok_def by (simp add: less_SucI) blast

lemma keeps_mcp_tick: "mcp_keeps mcp_tick"
  by (rule mcp_keepsI) (auto simp: mcp_tick_def comp_iffs mcp_ok_later)

lemma compile_catalog_server:
  "t \<in> set (compile_catalog schema_ok server_id tools) \<Longrightarrow> mt_server_id t = server_id"
  by (auto simp: compile_catalog_def retain_unique_def)

lemma refresh_catalog_run:
  "refresh_catalog w e m = Some (r, m') \<Longrightarrow>
   m' = m\<lparr>mm_now := Suc (mm_now m)\<rparr> \<and>
   (\<forall>e'. r = Inr e' \<longrightarrow>
     (\<exists>tools. e' = e\<lparr>mn_tools := tools\<rparr> \<and> (\<forall>t \<in> set tools. mt_server_id t = mn_id e)))"
  by (auto simp: refresh_catalog_def mcp_tick_def comp_iffs ok_or_def compile_catalog_server
        split: option.splits)

lemma returns_refresh: "returns (refresh_catalog w e)"
  by (simp add: refresh_catalog_def mcp_tick_def returns_intros)

lemma start_entry_ok:
  assumes ok: "mcp_ok m" and e: "bt_get (mm_entries m) k = Some e" and none: "mn_connection e = None"
    and enabled: "mc_enabled (mn_config e)"
    and left: "mn_restart_attempts e < mc_max_restart_attempts (mn_config e) \<or> mn_restart_attempts e = 0"
    and run: "start_entry w e m = Some (r, m')"
  shows "mcp_ok m'"
proof -
  have eo: "entry_ok k e" and running: "set (mm_running m) = owned (mm_entries m)"
    using mcp_okD [OF ok] e by blast+
  then have k: "mn_id e = k" by (simp add: entry_ok_def)
  have unused: "mm_now m \<notin> set (mm_running m)"
    using mcp_okD(3,4) [OF ok] by blast
  have failed: "entry_ok k (e\<lparr>mn_restart_attempts := min u8_max (mn_restart_attempts e + 1),
      mn_state := Mcp_Failed, mn_last_error := x\<rparr>)" for x
    using eo none left by (auto simp: entry_ok_def)
  have healthy: "entry_ok k (e\<lparr>mn_tools := tools, mn_last_error := None, mn_state := Mcp_Healthy,
      mn_connection := Some n, mn_restart_attempts := 0\<rparr>)"
    if "\<forall>t \<in> set tools. mt_server_id t = mn_id e" for tools n
    using eo enabled that k by (auto simp: entry_ok_def)
  note run_defs = start_entry_def put_entry_def mcp_tick_def child_started_def stop_connection_def
    mcp_fail_def bind_def attempt_def run_simps
  let ?m = "m\<lparr>mm_entries := bt_insert (mn_id e) (e\<lparr>mn_state := Mcp_Starting\<rparr>) (mm_entries m),
      mm_now := Suc (mm_now m), mm_running := mm_now m # mm_running m\<rparr>"
  obtain q m1 where refresh: "refresh_catalog w e ?m = Some (q, m1)"
    using returns_refresh [of w e] unfolding returns_def by (metis option.exhaust surj_pair)
  note m1 = refresh_catalog_run [OF refresh]
  have sorted: "bt_sorted (bt_insert k x (bt_insert k y (mm_entries m)))" for x y
    using mcp_okD(1) [OF ok] by simp
  consider "\<not> mx_spawns w (mm_now m) (mn_config e)"
    | "mx_spawns w (mm_now m) (mn_config e)" "\<not> mx_handshake w (mm_now m)"
    | x where "mx_spawns w (mm_now m) (mn_config e)" "mx_handshake w (mm_now m)" "q = Inl x"
    | e' where "mx_spawns w (mm_now m) (mn_config e)" "mx_handshake w (mm_now m)" "q = Inr e'"
    by (cases q) blast+
  then show ?thesis
  proof cases
    case 1
    then show ?thesis
      using run k sorted none
      by (intro mcp_ok_update [OF ok e failed]) (auto simp: run_defs)
  next
    case 2
    then show ?thesis
      using run k sorted none unused
      by (intro mcp_ok_update [OF ok e failed]) (auto simp: run_defs)
  next
    case 3
    then show ?thesis
      using run k sorted none unused refresh m1
      by (intro mcp_ok_update [OF ok e failed]) (auto simp: run_defs)
  next
    case 4
    with m1 obtain tools where tools: "e' = e\<lparr>mn_tools := tools\<rparr>"
      "\<forall>t \<in> set tools. mt_server_id t = mn_id e" by blast
    from 4 tools(1) show ?thesis
      using run k sorted none unused refresh m1
      by (intro mcp_ok_update [OF ok e healthy [OF tools(2)]]) (auto simp: run_defs)
  qed
qed


lemma mcp_ok_put:
  assumes "mcp_ok m" and "bt_get (mm_entries m) k = Some e" and "entry_ok k e'"
    and "mn_connection e' = mn_connection e"
  shows "mcp_ok (m\<lparr>mm_entries := bt_insert k e' (mm_entries m)\<rparr>)"
proof -
  have "set_option (mn_connection e) \<subseteq> set (mm_running m)"
    using assms(2) mcp_okD(3) [OF assms(1)] by (auto simp: owned_def)
  then show ?thesis
    using assms mcp_okD(1) [OF assms(1)] by (intro mcp_ok_update [OF assms(1-3)]) auto
qed

lemma keeps_ensure_entry: "mcp_keeps (ensure_entry w server_id)"
proof (rule mcp_keepsI)
  fix m r m'
  assume run: "ensure_entry w server_id m = Some (r, m')" and ok: "mcp_ok m"
  show "mcp_ok m'"
  proof (cases "bt_get (mm_entries m) server_id")
    case None
    with run ok show ?thesis by (simp add: ensure_entry_def require_def bind_def run_simps)
  next
    case (Some e)
    then have eo: "entry_ok server_id e" using mcp_okD(2) [OF ok] by blast
    then have server: "mn_id e = server_id" by (simp add: entry_ok_def)
    note run' = run [unfolded ensure_entry_def require_def check_def bind_def run_simps, simplified Some,
        simplified]
    consider "m' = m" | "mc_enabled (mn_config e)" "mn_connection e = None" "start_entry w e m = Some (r, m')"
        "mn_restart_attempts e < mc_max_restart_attempts (mn_config e) \<or> mn_restart_attempts e = 0"
      | n where "mn_connection e = Some n" "mn_catalog_dirty e"
      using run'
      by (auto simp: run_simps split: if_splits option.splits)
    then show ?thesis
    proof cases
      case 1
      with ok show ?thesis by simp
    next
      case 2
      then show ?thesis using start_entry_ok [OF ok Some] by blast
    next
      case 3
      let ?e = "e\<lparr>mn_catalog_dirty := False\<rparr>"
      let ?m = "m\<lparr>mm_entries := bt_insert server_id ?e (mm_entries m)\<rparr>"
      have eo1: "entry_ok server_id ?e" using eo by (simp add: entry_ok_def)
      have ok1: "mcp_ok ?m" by (rule mcp_ok_put [OF ok Some eo1]) simp
      obtain q m1 where refresh: "refresh_catalog w ?e ?m = Some (q, m1)"
        using returns_refresh [of w ?e] unfolding returns_def by (metis option.exhaust surj_pair)
      note m1 = refresh_catalog_run [OF refresh]
      then have ok2: "mcp_ok m1" and get: "bt_get (mm_entries m1) server_id = Some ?e"
        using mcp_ok_later [OF ok1] by simp_all
      show ?thesis
      proof (cases q)
        case (Inl x)
        with run' 3 refresh server have "m' = m1 \<or> m' = m"
          by (auto simp: put_entry_def run_simps bind_def Let_def split: if_splits)
        with ok ok2 show ?thesis by blast
      next
        case (Inr e')
        with m1 obtain tools where e': "e' = ?e\<lparr>mn_tools := tools\<rparr>"
          "\<forall>t \<in> set tools. mt_server_id t = mn_id ?e" by blast
        then have "entry_ok server_id e'" using eo server by (simp add: entry_ok_def)
        then have "mcp_ok (m1\<lparr>mm_entries := bt_insert server_id e' (mm_entries m1)\<rparr>)"
          using mcp_ok_put [OF ok2 get] e'(1) by simp
        with run' 3 refresh server Inr e'(1) ok show ?thesis
          by (auto simp: put_entry_def run_simps bind_def Let_def split: if_splits)
      qed
    qed
  qed
qed

lemma keeps_start_enabled: "mcp_keeps (start_enabled w)"
  by (simp add: start_enabled_def mcp_relation.keeps_rules keeps_ensure_entry)

lemma stop_entry_run:
  "stop_entry e m =
     Some (Inr (e\<lparr>mn_connection := None, mn_state := Mcp_Stopped\<rparr>),
       m\<lparr>mm_running := filter (\<lambda>n. mn_connection e \<noteq> Some n) (mm_running m)\<rparr>)"
  by (cases "mn_connection e")
     (simp_all add: stop_entry_def stop_connection_def bind_def run_simps removeAll_filter_not_eq eq_commute)

lemma keeps_stop_server: "mcp_keeps (stop_server server_id)"
proof (rule mcp_keepsI)
  fix m r m'
  assume run: "stop_server server_id m = Some (r, m')" and ok: "mcp_ok m"
  show "mcp_ok m'"
  proof (cases "bt_get (mm_entries m) server_id")
    case None
    with run ok show ?thesis by (simp add: stop_server_def bind_def run_simps)
  next
    case (Some e)
    then have eo: "entry_ok server_id e" using mcp_okD(2) [OF ok] by blast
    then have eo': "entry_ok server_id (e\<lparr>mn_connection := None, mn_state := Mcp_Stopped\<rparr>)"
      by (simp add: entry_ok_def)
    from eo have "mn_id e = server_id" by (simp add: entry_ok_def)
    with run Some mcp_okD(1) [OF ok] show ?thesis
      by (intro mcp_ok_update [OF ok Some eo'])
         (auto simp: stop_server_def bind_def run_simps stop_entry_run put_entry_def)
  qed
qed

lemma keeps_notify: "mcp_keeps (on_tool_list_changed server_id)"
proof (rule mcp_keepsI)
  fix m r m'
  assume run: "on_tool_list_changed server_id m = Some (r, m')" and ok: "mcp_ok m"
  show "mcp_ok m'"
  proof (cases "bt_get (mm_entries m) server_id")
    case None
    with run ok show ?thesis by (simp add: on_tool_list_changed_def bind_def run_simps)
  next
    case (Some e)
    then have eo: "entry_ok server_id e" using mcp_okD(2) [OF ok] by blast
    then have "entry_ok server_id (e\<lparr>mn_catalog_dirty := True\<rparr>)" by (simp add: entry_ok_def)
    from mcp_ok_put [OF ok Some this] run Some eo show ?thesis
      by (simp add: on_tool_list_changed_def bind_def run_simps put_entry_def entry_ok_def)
  qed
qed


lemma keeps_mcp_call: "mcp_keeps (mcp_call w name arguments)"
  unfolding mcp_call_def call_uncertain_def
  by (intro mcp_relation.keeps_bind mcp_relation.keeps_cases mcp_relation.keeps_pure
        keeps_ensure_entry keeps_mcp_tick)
     (auto split: mcp_reply.splits
       intro!: mcp_relation.keeps_bind mcp_relation.keeps_pure keeps_stop_server)

lemma stop_all_run:
  "each (\<lambda>e. bind (stop_entry e) (\<lambda>_. ret ())) es m =
     Some (Inr (), m\<lparr>mm_running := filter (\<lambda>n. Some n \<notin> mn_connection ` set es) (mm_running m)\<rparr>)"
proof (induction es arbitrary: m)
  case (Cons e es)
  have "filter (\<lambda>n. Some n \<notin> mn_connection ` set es) (filter (\<lambda>n. mn_connection e \<noteq> Some n) xs) =
        filter (\<lambda>n. Some n \<notin> mn_connection ` set (e # es)) xs" for xs
    by (auto simp: eq_commute intro!: filter_cong)
  with Cons show ?case by (simp add: bind_def run_simps stop_entry_run)
qed (simp add: run_simps)

lemma entries_new_get:
  assumes "mcp_entries_new configs = Inr entries"
  shows "bt_sorted entries" and "bt_get entries k = Some e \<Longrightarrow> \<exists>c. e = entry_new k c"
proof -
  let ?new = "map (\<lambda>(server_id, c). (server_id, entry_new server_id c)) configs"
  have entries: "entries = bt_extend bt_empty ?new"
    using assms by (auto simp: mcp_entries_new_def and_then_eq_Inr)
  then show "bt_sorted entries" by (simp add: bt_sorted_extend)
  assume "bt_get entries k = Some e"
  with entries have "map_of (rev ?new) k = Some e"
    by (auto simp: bt_get_extend split: option.splits)
  then show "\<exists>c. e = entry_new k c"
    using map_of_SomeD by fastforce
qed

lemma mcp_ok_fresh:
  assumes "mcp_entries_new configs = Inr entries" and "mm_running m = []" and "mm_entries m = entries"
  shows "mcp_ok m"
proof -
  have none: "mn_connection e = None \<and> entry_ok k e" if "bt_get (mm_entries m) k = Some e" for k e
    using entries_new_get(2) [OF assms(1)] that assms(3) by (fastforce simp: entry_new_def entry_ok_def)
  then have "owned (mm_entries m) = {}" by (fastforce simp: owned_def)
  with none assms(2,3) entries_new_get(1) [OF assms(1)] show ?thesis
    by (auto simp: mcp_ok_def)
qed

lemma all_stopped:
  assumes "mcp_ok m"
  shows "filter (\<lambda>n. Some n \<notin> mn_connection ` set (bt_values (mm_entries m))) (mm_running m) = []"
proof -
  have "Some n \<in> mn_connection ` set (bt_values (mm_entries m))" if "n \<in> set (mm_running m)" for n
  proof -
    from that mcp_okD(3) [OF assms] obtain k e
      where e: "bt_get (mm_entries m) k = Some e" "mn_connection e = Some n"
      by (auto simp: owned_def)
    then have "e \<in> set (bt_values (mm_entries m))"
      using bt_values_iff [OF mcp_okD(1) [OF assms]] by blast
    with e(2) show ?thesis by (metis imageI)
  qed
  then show ?thesis by (simp add: filter_empty_conv)
qed

lemma keeps_reconcile: "mcp_keeps (reconcile w configs)"
proof (rule mcp_keepsI)
  fix m r m'
  assume run: "reconcile w configs m = Some (r, m')" and ok: "mcp_ok m"
  show "mcp_ok m'"
  proof (cases "mcp_entries_new configs")
    case (Inl x)
    with run ok show ?thesis by (simp add: reconcile_def bind_def run_simps)
  next
    case (Inr entries)
    let ?m = "m\<lparr>mm_entries := entries, mm_running := []\<rparr>"
    have "start_enabled w ?m = Some (r, m')"
      using run Inr all_stopped [OF ok]
      by (simp add: reconcile_def bind_def run_simps stop_all_run)
    moreover have "mcp_ok ?m" by (rule mcp_ok_fresh [OF Inr]) simp_all
    ultimately show ?thesis
      using mcp_relation.keepsD [OF keeps_start_enabled] by blast
  qed
qed

lemma keeps_run_mcp: "mcp_keeps (run_mcp w command)"
  by (cases command)
     (simp_all add: catalog_def mcp_shutdown_def mcp_relation.keeps_rules keeps_start_enabled
       keeps_mcp_call keeps_notify keeps_reconcile keeps_stop_server)

lemma mcp_reaches_ok: "mcp_reaches w m m' \<Longrightarrow> mcp_ok m \<Longrightarrow> mcp_ok m'"
  by (induction rule: mcp_reaches.induct) (blast dest: mcp_relation.keepsD [OF keeps_run_mcp])+

lemma mcp_new_ok: "mcp_new configs = Inr m \<Longrightarrow> mcp_ok m"
  by (auto simp: mcp_new_def and_then_eq_Inr intro: mcp_ok_fresh)


section \<open>Stopping\<close>

lemma stop_server_get:
  assumes "mcp_ok m" and "stop_server server_id m = Some (r, m')"
    and "bt_get (mm_entries m') k = Some e" and "mn_connection e \<noteq> None"
  shows "k \<noteq> server_id \<and> bt_get (mm_entries m) k = Some e"
proof (cases "bt_get (mm_entries m) server_id")
  case None
  with assms(2) have "m' = m" by (simp add: stop_server_def bind_def run_simps)
  with assms(3) None show ?thesis by auto
next
  case (Some x)
  with mcp_okD(2) [OF assms(1)] have "mn_id x = server_id" by (simp add: entry_ok_def)
  with Some assms(2-4) show ?thesis
    by (auto simp: stop_server_def bind_def run_simps stop_entry_run put_entry_def split: if_splits)
qed

lemma stop_each_get:
  "each stop_server ks m = Some (r, m') \<Longrightarrow> mcp_ok m \<Longrightarrow> bt_get (mm_entries m') k = Some e \<Longrightarrow>
   mn_connection e \<noteq> None \<Longrightarrow> k \<notin> set ks \<and> bt_get (mm_entries m) k = Some e"
proof (induction ks arbitrary: m)
  case (Cons s ks)
  have "\<nexists>x t. stop_server s m = Some (Inl x, t)"
    by (auto simp: stop_server_def comp_iffs stop_entry_run put_entry_def split: option.splits)
  with Cons.prems(1) obtain m1 where s: "stop_server s m = Some (Inr (), m1)"
    and rest: "each stop_server ks m1 = Some (r, m')"
    by (auto simp: comp_iffs)
  have "mcp_ok m1" using mcp_relation.keepsD [OF keeps_stop_server s] Cons.prems(2) by blast
  from Cons.IH [OF rest this Cons.prems(3,4)] stop_server_get [OF Cons.prems(2) s _ Cons.prems(4)]
  show ?case by simp
qed (simp add: run_simps)

lemma mcp_shutdown_empty:
  assumes "mcp_ok m" and "mcp_shutdown m = Some (r, m')"
  shows "mm_running m' = []"
proof -
  have ok: "mcp_ok m'"
    using mcp_relation.keepsD [OF keeps_run_mcp [of _ Mcp_Shutdown]] assms by simp
  from assms(2) have run: "each stop_server (map fst (mm_entries m)) m = Some (r, m')"
    by (simp add: mcp_shutdown_def bind_def run_simps)
  have "mn_connection e = None" if "bt_get (mm_entries m') k = Some e" for k e
  proof (rule ccontr)
    assume "mn_connection e \<noteq> None"
    from stop_each_get [OF run assms(1) that this]
    have "k \<notin> fst ` set (mm_entries m)" and "bt_get (mm_entries m) k \<noteq> None" by simp_all
    then show False using bt_get_None_iff [of "mm_entries m" k] by argo
  qed
  then have "owned (mm_entries m') = {}" by (fastforce simp: owned_def)
  with mcp_okD(3) [OF ok] show ?thesis by simp
qed

section \<open>Properties\<close>

definition example_mcp_world :: mcp_world where
  "example_mcp_world =
     \<lparr>mx_spawns = (\<lambda>n _. n \<noteq> 5), mx_handshake = (\<lambda>_. True), mx_list_tools = (\<lambda>_. Some []),
      mx_schema_ok = (\<lambda>_. True), mx_valid = (\<lambda>_ _. True), mx_reply = (\<lambda>_ _ _. Rp_Failed),
      mx_size = (\<lambda>_. 0)\<rparr>"

definition example_mcp :: mcp_manager where
  "example_mcp =
     \<lparr>mm_entries = [(''files'', entry_new ''files'' (mcp_config_new ''mcp-files'' []))],
      mm_running = [], mm_now = 0\<rparr>"

lemma example_mcp_new: "mcp_new [(''files'', mcp_config_new ''mcp-files'' [])] = Inr example_mcp"
proof -
  have "trim ''mcp-files'' \<noteq> []" by code_simp
  then show ?thesis
    by (simp add: mcp_new_def mcp_entries_new_def example_mcp_def mcp_validate_def
          mcp_config_new_def bt_values_def bt_empty_def)
qed



text \<open>A server that has used up its restarts is not started again: nothing changes.\<close>

lemma exhausted_server_stays_down:
  "bt_get (mm_entries m) server_id = Some e \<Longrightarrow> mn_connection e = None \<Longrightarrow>
   mc_max_restart_attempts (mn_config e) \<le> mn_restart_attempts e \<Longrightarrow> mn_restart_attempts e \<noteq> 0 \<Longrightarrow>
   ensure_entry w server_id m = Some (Inl M_Unavailable, m)"
  by (simp add: ensure_entry_def require_def check_def bind_def run_simps)

text \<open>
  A change notification is forgotten when the list of tools cannot be read: the flag is cleared
  first, so the next request works with the tools of before.
\<close>

lemma failed_refresh_forgets_notification:
  assumes "bt_get (mm_entries m) server_id = Some e" and "mn_id e = server_id"
    and "mc_enabled (mn_config e)" and "mn_connection e = Some n" and "mn_catalog_dirty e"
    and "mx_list_tools w (mm_now m) = None"
  shows "\<exists>m'. ensure_entry w server_id m = Some (Inl M_Unavailable, m') \<and>
    ensure_entry w server_id m' = Some (Inr n, m') \<and>
    (\<exists>e'. bt_get (mm_entries m') server_id = Some e' \<and> mn_tools e' = mn_tools e)"
  using assms
  by (simp add: ensure_entry_def require_def check_def bind_def run_simps put_entry_def Let_def
        refresh_catalog_def mcp_tick_def)

text \<open>An answered call was made to a tool its server lists, with valid arguments, and is within the
  limit; after a call of uncertain outcome its server has no connection.\<close>

lemma mcp_call_outcomes:
  assumes "mcp_call w name arguments m = Some (r, m')"
  shows "case r of
      Inr value \<Rightarrow>
        (\<exists>server_id tool. find_tool m name = Some (server_id, tool) \<and> mt_name tool = name \<and>
           mx_valid w (mt_input_schema tool) arguments \<and> is_object arguments \<and>
           mx_size w value \<le> result_limit m' server_id)
    | Inl e \<Rightarrow> find_tool m name = None \<longrightarrow> e = ToolNotFound \<and> m' = m"
proof (cases "find_tool m name")
  case None
  with assms show ?thesis by (auto simp: mcp_call_def require_def bind_def run_simps)
next
  case (Some found)
  obtain server_id tool where found: "found = (server_id, tool)" by (cases found)
  from Some found have "mt_name tool = name"
    by (auto simp: find_tool_def find_Some_iff)
  show ?thesis
  proof (cases r)
    case (Inr v)
    with assms Some found obtain s n where "mx_valid w (mt_input_schema tool) arguments" "is_object arguments"
      and reply: "(case mx_reply w n (mt_server_tool_name tool) arguments of
          Rp_Complete value \<Rightarrow>
            bind (gets (\<lambda>m. result_limit m server_id)) (\<lambda>limit.
            bind (check (mx_size w value \<le> limit) ResultTooLarge) (\<lambda>_. ret value))
        | _ \<Rightarrow> call_uncertain server_id) s = Some (Inr v, m')"
      by (auto simp: mcp_call_def bind_Inr_iff require_def run_simps check_def split: if_splits)
    moreover from reply have "mx_size w v \<le> result_limit m' server_id"
      by (auto simp: call_uncertain_def bind_Inr_iff run_simps check_def split: mcp_reply.splits if_splits)
    ultimately show ?thesis using Some found \<open>mt_name tool = name\<close> Inr by simp
  qed (simp add: Some)
qed

end
