(* ===== verification/Event_Stream.thy ===== *)
theory Event_Stream
  imports Api Store_Example
begin

text \<open>
  The body of \<open>stream_events\<close> in piqo-server/src/lib.rs. The stream first yields the events read
  from the store, then follows what its receiver on the session's broadcast channel returns. Each
  thing that can happen next is an item of a list: an event, a notice that the receiver lagged
  with what the store then answers, the channel or all streams being closed. The channel itself
  is a library: what it promises is the predicate \<open>in_feed\<close> below.
\<close>

section \<open>The stream\<close>

text \<open>A receiver that lagged comes with the store as it is then.\<close>

datatype received = Rv_Event recorded_event | Rv_Lagged store | Rv_Closed | Rv_StreamsClosed

fun yield_new :: "nat \<Rightarrow> recorded_event list \<Rightarrow> recorded_event list \<times> nat" where
  "yield_new seen [] = ([], seen)"
| "yield_new seen (recorded # rest) =
     (if seen < re_id recorded
      then (case yield_new (re_id recorded) rest of (ys, l) \<Rightarrow> (recorded # ys, l))
      else yield_new seen rest)"

fun stream_body :: "serde \<Rightarrow> string \<Rightarrow> nat \<Rightarrow> received list \<Rightarrow> recorded_event list" where
  "stream_body sd sid seen [] = []"
| "stream_body sd sid seen (r # rs) =
     (case r of
        Rv_StreamsClosed \<Rightarrow> []
      | Rv_Closed \<Rightarrow> []
      | Rv_Event recorded \<Rightarrow>
          if seen < re_id recorded then recorded # stream_body sd sid (re_id recorded) rs
          else stream_body sd sid seen rs
      | Rv_Lagged st \<Rightarrow>
          (case store_events sd sid seen u32_max st of
             Inl _ \<Rightarrow> []
           | Inr events \<Rightarrow> (case yield_new seen events of (ys, l) \<Rightarrow> ys @ stream_body sd sid l rs)))"

definition stream_events ::
  "serde \<Rightarrow> string \<Rightarrow> nat \<Rightarrow> recorded_event list \<Rightarrow> received list \<Rightarrow> recorded_event list" where
  "stream_events sd sid after stored rs =
     (case yield_new after stored of (ys, l) \<Rightarrow> ys @ stream_body sd sid l rs)"

text \<open>\<open>event_for_sse\<close>: id, event name and data of the frame. \<open>show\<close> is an error's text.\<close>

definition event_for_sse ::
  "serde \<Rightarrow> (api_event \<Rightarrow> (string, string) result) \<Rightarrow> (store_error \<Rightarrow> string) \<Rightarrow> recorded_event
   \<Rightarrow> string option \<times> string \<times> string" where
  "event_for_sse sd print show_error e =
     (case api_event_try_from sd e of
        Inr v \<Rightarrow>
          (case print v of
             Inr text \<Rightarrow> (Some (decimal (ve_id v)), ve_type v, text)
           | Inl err \<Rightarrow> (None, ''error'', ''{'' @ [CHR 0x22] @ ''error'' @ [CHR 0x22] @ '':'' @
               [CHR 0x22] @ err @ [CHR 0x22] @ ''}''))
      | Inl err \<Rightarrow> (None, ''error'', show_error err))"

section \<open>What the receiver promises\<close>

text \<open>
  \<open>in_feed sd sid recs n rs\<close>: a receiver that has seen the events up to \<open>n\<close> of a session's log
  returns the others one by one in the order of the log; when it lagged it skips to a later one,
  and the store has at least the events it skipped. What follows the end does not matter.
\<close>

inductive in_feed :: "serde \<Rightarrow> string \<Rightarrow> recorded_event list \<Rightarrow> nat \<Rightarrow> received list \<Rightarrow> bool"
  for sd sid recs where
  feed_nil: "in_feed sd sid recs n []"
| feed_event:
    "n < length recs \<Longrightarrow> in_feed sd sid recs (Suc n) rs \<Longrightarrow> in_feed sd sid recs n (Rv_Event (recs ! n) # rs)"
| feed_lagged:
    "store_ok sd st \<Longrightarrow> select_events sd st sid = Inr (take k recs) \<Longrightarrow> find_session st sid \<noteq> None \<Longrightarrow>
     n \<le> m \<Longrightarrow> m \<le> k \<Longrightarrow> k \<le> length recs \<Longrightarrow> in_feed sd sid recs m rs \<Longrightarrow>
     in_feed sd sid recs n (Rv_Lagged st # rs)"
| feed_gone: "find_session st sid = None \<Longrightarrow> in_feed sd sid recs n (Rv_Lagged st # rs)"
| feed_closed: "in_feed sd sid recs n (Rv_Closed # rs)"
| feed_streams_closed: "in_feed sd sid recs n (Rv_StreamsClosed # rs)"

text \<open>The events the receiver returned before the stream ended.\<close>

fun heard :: "string \<Rightarrow> received list \<Rightarrow> recorded_event list" where
  "heard sid [] = []"
| "heard sid (r # rs) =
     (case r of
        Rv_Event recorded \<Rightarrow> recorded # heard sid rs
      | Rv_Lagged st \<Rightarrow> if find_session st sid = None then [] else heard sid rs
      | _ \<Rightarrow> [])"

section \<open>No gap, no duplicate\<close>

lemma yield_new_consecutive:
  "consecutive (Suc seen) es \<Longrightarrow> yield_new seen es = (es, seen + length es)"
  by (induction es arbitrary: seen) auto

lemma consecutive_slice:
  assumes "consecutive 1 recs"
  shows "consecutive (Suc n) (drop n (take k recs))"
proof (cases "n \<le> length (take k recs)")
  case True
  have "consecutive 1 (take n (take k recs) @ drop n (take k recs))"
    using consecutive_take [OF assms, of k] by (simp only: append_take_drop_id)
  with True show ?thesis by (simp add: consecutive_append del: append_take_drop_id)
next
  case False
  then have "drop n (take k recs) = []" by (simp only: drop_eq_Nil)
  then show ?thesis by simp
qed

lemma yield_new_slice:
  assumes "consecutive 1 recs" and "k \<le> length recs"
  shows "yield_new seen (drop seen (take k recs)) = (drop seen (take k recs), max seen k)"
  using yield_new_consecutive [OF consecutive_slice [OF assms(1)], of seen k] assms(2) by auto

lemma drop_take_append:
  assumes "a \<le> b" and "b \<le> c"
  shows "drop a (take b xs) @ drop b (take c xs) = drop a (take c xs)"
proof -
  define ys where "ys = take c xs"
  have "drop a ys = drop a (take b ys @ drop b ys)" by simp
  also have "\<dots> = drop a (take b ys) @ drop b ys"
    using assms(1) by (cases "b \<le> length ys") (simp_all only: drop_append length_take, simp_all)
  finally show ?thesis using assms(2) by (simp add: ys_def min_absorb1)
qed

lemma stream_body_slice:
  "in_feed sd sid recs n rs \<Longrightarrow> consecutive 1 recs \<Longrightarrow> length recs \<le> i64_max \<Longrightarrow> n \<le> seen \<Longrightarrow>
   seen \<le> i64_max \<Longrightarrow>
   \<exists>l \<ge> seen. stream_body sd sid seen rs = drop seen (take l recs) \<and>
     (\<forall>e \<in> set (heard sid rs). re_id e \<le> l)"
proof (induction arbitrary: seen rule: in_feed.induct)
  case (feed_event n rs)
  have e: "re_id (recs ! n) = Suc n" using consecutive_nth [OF feed_event.prems(1) feed_event.hyps(1)] by simp
  show ?case
  proof (cases "seen < Suc n")
    case True
    with feed_event.prems(3) have s: "seen = n" by simp
    from feed_event.IH [OF feed_event.prems(1,2), of "Suc n"] feed_event.hyps(1) feed_event.prems(2)
    obtain l where "Suc n \<le> l" "stream_body sd sid (Suc n) rs = drop (Suc n) (take l recs)"
      "\<forall>e \<in> set (heard sid rs). re_id e \<le> l" by auto
    moreover from this feed_event.hyps(1) have "drop n (take l recs) = recs ! n # drop (Suc n) (take l recs)"
      by (subst Cons_nth_drop_Suc [symmetric]) auto
    ultimately show ?thesis using e s by (intro exI [of _ l]) simp
  next
    case False
    with feed_event.IH [OF feed_event.prems(1,2) _ feed_event.prems(4)] e show ?thesis by fastforce
  qed
next
  case (feed_lagged st k n m rs)
  obtain r where r: "find_session st sid = Some r" using feed_lagged.hyps(3) by blast
  have "store_events sd sid seen u32_max st = Inr (drop seen (take k recs))"
    using store_events_slice [OF feed_lagged.hyps(1) r feed_lagged.prems(4) feed_lagged.hyps(2)]
    by (simp add: Let_def)
  then have body: "stream_body sd sid seen (Rv_Lagged st # rs) =
      drop seen (take k recs) @ stream_body sd sid (max seen k) rs"
    using yield_new_slice [OF feed_lagged.prems(1) feed_lagged.hyps(6)] by simp
  have "m \<le> max seen k" "max seen k \<le> i64_max"
    using feed_lagged.hyps(5,6) feed_lagged.prems(2,4) by auto
  from feed_lagged.IH [OF feed_lagged.prems(1,2) this]
  obtain l where l: "max seen k \<le> l"
    "stream_body sd sid (max seen k) rs = drop (max seen k) (take l recs)"
    "\<forall>e \<in> set (heard sid rs). re_id e \<le> l" by blast
  have "drop seen (take k recs) = drop seen (take (max seen k) recs)"
    by (cases "seen \<le> k") simp_all
  with l body show ?case
    using drop_take_append [of seen "max seen k" l recs] feed_lagged.hyps(3)
    by (intro exI [of _ l]) simp
next
  case (feed_gone st n rs)
  then have "\<exists>e. store_events sd sid seen u32_max st = Inl e"
    by (simp add: store_events_def ensure_session_def)
  with feed_gone.hyps show ?case by (intro exI [of _ seen]) auto
qed (auto intro: exI [of _ seen])

lemma stream_events_slice:
  assumes "store_ok sd st" and "find_session st sid \<noteq> None" and "after \<le> i64_max"
    and "store_events sd sid after u32_max st = Inr stored"
    and "select_events sd st sid = Inr (take k recs)" and "k \<le> length recs" and "n \<le> k"
    and "consecutive 1 recs" and "length recs \<le> i64_max" and "in_feed sd sid recs n rs"
  shows "\<exists>l \<ge> max after k. stream_events sd sid after stored rs = drop after (take l recs) \<and>
           (\<forall>e \<in> set (heard sid rs). re_id e \<le> l)"
proof -
  obtain r where r: "find_session st sid = Some r" using assms(2) by blast
  have "stored = drop after (take k recs)"
    using store_events_slice [OF assms(1) r assms(3,5)] assms(4) by (simp add: Let_def)
  then have start: "stream_events sd sid after stored rs =
      drop after (take k recs) @ stream_body sd sid (max after k) rs"
    using yield_new_slice [OF assms(8,6)] by (simp add: stream_events_def)
  have "n \<le> max after k" "max after k \<le> i64_max" using assms(3,6,7,9) by auto
  from stream_body_slice [OF assms(10,8,9) this]
  obtain l where l: "max after k \<le> l"
    "stream_body sd sid (max after k) rs = drop (max after k) (take l recs)"
    "\<forall>e \<in> set (heard sid rs). re_id e \<le> l" by blast
  have "drop after (take k recs) = drop after (take (max after k) recs)"
    by (cases "after \<le> k") simp_all
  with l start show ?thesis
    using drop_take_append [of after "max after k" l recs] by (intro exI [of _ l]) simp
qed



end
