(* ===== verification/Api_Properties.thy ===== *)
theory Api_Properties
  imports Api_Guarantees Providers_Guarantees Mcp_Guarantees Supervisor_Example Event_Stream
begin

text \<open>
  The claims about requests as a whole, with a small server to run them on.
\<close>

section \<open>A small server\<close>

definition example_display :: display where
  "example_display = \<lparr>dy_projection = (\<lambda>_. []), dy_transport = (\<lambda>_. []), dy_config = (\<lambda>_. [])\<rparr>"

definition example_api :: "json api_env" where
  "example_api =
     \<lparr>ae_sup = example_sup, ae_fuel = 0, ae_manager = example_manager_env, ae_mcp = example_mcp_world,
      ae_display = example_display, ae_to_str = Some, ae_request_id = (\<lambda>_. ''id''),
      ae_canonicalize = Inr, ae_is_dir = (\<lambda>_. Inr True), ae_list_query = (\<lambda>_. Inl []),
      ae_events_query = (\<lambda>_. Inl []), ae_create_session = (\<lambda>_. Inl []), ae_retention = (\<lambda>_. Inl []),
      ae_create_project = (\<lambda>_. Inl []), ae_update_project = (\<lambda>_. Inl []),
      ae_fork_session = (\<lambda>_. Inl []), ae_create_run = (\<lambda>_. Inl []), ae_tool_result = (\<lambda>_. Inl []),
      ae_scope = (\<lambda>_. Inl []), ae_create_provider = (\<lambda>_. Inl []), ae_update_provider = (\<lambda>_. Inl []),
      ae_models = (\<lambda>_. Inl []), ae_config_parent = Some ''/d'', ae_create_dir = (\<lambda>_. True),
      ae_exists = (\<lambda>_. False), ae_database_url = ''sqlite:///d/piqo.db'', ae_vacuum = (\<lambda>_. True),
      ae_file_len = (\<lambda>_. 4096)\<rparr>"

definition example_app :: "json app" where
  "example_app =
     \<lparr>ax_sup = sup_start example_disk, ax_manager = example_manager, ax_mcp = example_mcp,
      ax_shutting_down = False, ax_streams_closed = False, ax_fatal_reload_error = None,
      ax_requests_total = 0, ax_run_capacity_rejections = 0, ax_sse_capacity_rejections = 0,
      ax_sse_connections = 0, ax_sse_by_session = [],
      ax_backups = []\<rparr>"

definition health_request :: "(string \<times> string) list \<Rightarrow> http_request" where
  "health_request headers =
     \<lparr>hq_method = GET, hq_path = [''api'', ''v1'', ''health''], hq_headers = headers, hq_query = [],
      hq_body = []\<rparr>"

lemma find_health: "find_route [''api'', ''v1'', ''health''] = Some ([], [(GET, health_handler)])"
  by (simp add: find_route_def routes_def starts_with_def unwrap_or_def)

lemma example_health:
  obtains r s' where "router_with_token example_api None (health_request []) example_app = Some (r, s')"
    and "hr_status r = 200" and "ax_requests_total s' = 1"
proof -
  have "\<exists>r s'. router_with_token example_api None (health_request []) example_app = Some (r, s') \<and>
      hr_status r = 200 \<and> ax_requests_total s' = 1"
    by (simp add: router_with_token_def authenticate_request_def metrics_layer_def shutdown_layer_def
          dispatch_def find_health health_request_def health_handler_def ok_def run_simps
          answer_response_def with_header_def example_app_def u64_add_def)
  with that show ?thesis by blast
qed

section \<open>Properties\<close>

text \<open>C22. With a token configured, a request is served as without one when its \<open>Authorization\<close>
  header is exactly \<open>Bearer\<close>, a space and the token; otherwise the answer is 401 and nothing in
  the server changes. The comparison in constant time decides exactly equality. \<open>to_str\<close> returns
  the header's own bytes, or nothing.\<close>

theorem bearer_token_required:
  assumes "\<And>v t. ae_to_str env v = Some t \<Longrightarrow> t = v" and "length token < 2 ^ 64"
    and "\<And>v. header_of request ''authorization'' = Some v \<Longrightarrow> length v < 2 ^ 64"
  shows "router_with_token env (Some token) request s =
    (if header_of request ''authorization'' = Some (''Bearer '' @ token) \<and>
        ae_to_str env (''Bearer '' @ token) \<noteq> None
     then router_with_token env None request s else Some (unauthorized_response, s))"
  unfolding router_with_token_def authenticate_request_def
  by (simp only: option.case authorized_iff [of "ae_to_str env" token request, OF assms])

theorem bearer_token_required_witness:
  "router_with_token example_api (Some ''t'') (health_request [(''authorization'', ''Bearer u'')]) example_app
     = Some (unauthorized_response, example_app) \<and>
   router_with_token example_api (Some ''t'') (health_request [(''authorization'', ''Bearer t'')]) example_app
     = router_with_token example_api None (health_request [(''authorization'', ''Bearer t'')]) example_app"
proof -
  have to_str: "ae_to_str example_api v = Some t \<Longrightarrow> t = v" for v t by (simp add: example_api_def)
  have size: "header_of (health_request [(''authorization'', x)]) ''authorization'' = Some v \<Longrightarrow>
      length v < 2 ^ 64" if "length x = 8" for x v
    using that by (simp add: header_of_def health_request_def)
  show ?thesis
    using bearer_token_required [of example_api "''t''" "health_request [(''authorization'', ''Bearer u'')]",
        OF to_str _ size]
      bearer_token_required [of example_api "''t''" "health_request [(''authorization'', ''Bearer t'')]",
        OF to_str _ size]
    by (simp add: header_of_def health_request_def example_api_def)
qed







end
