(* ===== verification/Runtime.thy ===== *)
theory Runtime
  imports Api
begin

text \<open>
  The server process of piqo-server/src/runtime.rs and piqo-server/src/main.rs: the instance lock,
  the start-up sequence of \<open>prepare_server\<close>, what runs while the server serves, the shutdown of
  \<open>PreparedServer::run\<close>, and the sidecar's \<open>main\<close> with the line it prints and its exit code.

  What the operating system answers is the record \<open>host\<close>: which calls fail, what SQLite's own
  integrity checks say, and random bytes. A missing configuration file reads as the empty document,
  in \<open>PiqoConfig::load\<close> as in \<open>read_document\<close>. Timeouts enter as the outcome of the wait.
\<close>

section \<open>Errors\<close>

datatype server_error =
    Sv_Config config_error
  | Sv_Store store_error
  | Sv_Io
  | Sv_BindIo
  | Sv_Bind socket_addr
  | InstanceLocked string
  | Sv_ShutdownTimeout
  | ConfigReload string

definition startup_code :: "server_error \<Rightarrow> string" where
  "startup_code e =
     (case e of
        InstanceLocked _ \<Rightarrow> ''instance_already_running''
      | Sv_Config _ \<Rightarrow> ''config_invalid''
      | Sv_Store CorruptDatabase \<Rightarrow> ''storage_corrupt''
      | Sv_Store _ \<Rightarrow> ''storage_unavailable''
      | Sv_Bind _ \<Rightarrow> ''bind_failed''
      | Sv_BindIo \<Rightarrow> ''bind_failed''
      | Sv_Io \<Rightarrow> ''storage_unavailable''
      | Sv_ShutdownTimeout \<Rightarrow> ''storage_unavailable''
      | ConfigReload _ \<Rightarrow> ''config_invalid'')"

definition map_shutdown_error :: "store_error \<Rightarrow> server_error" where
  "map_shutdown_error e = (if e = ShutdownTimeout then Sv_ShutdownTimeout else Sv_Store e)"

section \<open>The host\<close>

record server_options =
  so_bind :: socket_addr
  so_database :: string
  so_config :: string
  so_dump_requests :: "string option"
  so_auth_token :: "string option"
  so_instance_lock :: "string option"
  so_shutdown_timeout :: nat

datatype io_call =
    Io_Open string | Io_Permissions string | Io_TryLock string | Io_SetLen string | Io_Write string
  | Io_Sync string | Io_CreateDir string | Io_Connect string | Io_Migrate string
  | Io_Bind socket_addr | Io_LocalAddr | Io_Random

record host =
  ho_fails :: "io_call \<Rightarrow> bool"
  ho_integrity_ok :: bool
  ho_foreign_keys_ok :: bool
  ho_pid :: nat

text \<open>The files the process works on: lock files by path, the database, the configuration.\<close>

record lock_file =
  lk_content :: string
  lk_private :: bool
  lk_held :: bool

record 'i machine =
  mh_locks :: "(string, lock_file) bt_map"
  mh_disk :: store
  mh_document :: 'i
  mh_directories :: "(string, bool) bt_map"

type_synonym ('i, 'a) process = "('i machine, server_error, 'a) comp"

definition io :: "host \<Rightarrow> io_call \<Rightarrow> ('i, unit) process" where
  "io h c = check (\<not> ho_fails h c) Sv_Io"

section \<open>The instance lock\<close>

definition the_lock :: "string \<Rightarrow> 'i machine \<Rightarrow> lock_file" where
  "the_lock path w =
     unwrap_or \<lparr>lk_content = [], lk_private = False, lk_held = False\<rparr> (bt_get (mh_locks w) path)"

definition set_lock :: "string \<Rightarrow> (lock_file \<Rightarrow> lock_file) \<Rightarrow> ('i, unit) process" where
  "set_lock path f = modify (\<lambda>w. w\<lparr>mh_locks := bt_insert path (f (the_lock path w)) (mh_locks w)\<rparr>)"

text \<open>Dropping the file releases the lock.\<close>

definition drop_lock :: "string option \<Rightarrow> ('i, unit) process" where
  "drop_lock lock =
     (case lock of None \<Rightarrow> ret () | Some path \<Rightarrow> set_lock path (\<lambda>f. f\<lparr>lk_held := False\<rparr>))"

definition or_drop :: "string option \<Rightarrow> ('i, 'a) process \<Rightarrow> ('i, 'a) process" where
  "or_drop lock m =
     bind (attempt m) (\<lambda>outcome.
     case outcome of
       Inl e \<Rightarrow> bind (drop_lock lock) (\<lambda>_. raise e)
     | Inr x \<Rightarrow> ret x)"

definition acquire :: "host \<Rightarrow> string \<Rightarrow> ('i, unit) process" where
  "acquire h path =
     bind (io h (Io_Open path)) (\<lambda>_.
     bind (set_lock path (\<lambda>f. f)) (\<lambda>_.
     bind (io h (Io_Permissions path)) (\<lambda>_.
     bind (set_lock path (\<lambda>f. f\<lparr>lk_private := True\<rparr>)) (\<lambda>_.
     bind (io h (Io_TryLock path)) (\<lambda>_.
     bind (gets (\<lambda>w. lk_held (the_lock path w))) (\<lambda>held.
     bind (check (\<not> held) (InstanceLocked path)) (\<lambda>_.
     bind (set_lock path (\<lambda>f. f\<lparr>lk_held := True\<rparr>)) (\<lambda>_.
     or_drop (Some path)
       (bind (io h (Io_SetLen path)) (\<lambda>_.
        bind (set_lock path (\<lambda>f. f\<lparr>lk_content := []\<rparr>)) (\<lambda>_.
        bind (io h (Io_Write path)) (\<lambda>_.
        bind (set_lock path (\<lambda>f. f\<lparr>lk_content := lk_content f @ decimal (ho_pid h) @ [LF]\<rparr>)) (\<lambda>_.
        io h (Io_Sync path))))))))))))))"

definition ensure_private_directory :: "host \<Rightarrow> string \<Rightarrow> ('i, unit) process" where
  "ensure_private_directory h path =
     bind (io h (Io_CreateDir path)) (\<lambda>_.
     bind (modify (\<lambda>w. w\<lparr>mh_directories :=
             bt_insert path (unwrap_or False (bt_get (mh_directories w) path)) (mh_directories w)\<rparr>)) (\<lambda>_.
     bind (io h (Io_Permissions path)) (\<lambda>_.
     modify (\<lambda>w. w\<lparr>mh_directories := bt_insert path True (mh_directories w)\<rparr>))))"

section \<open>Start-up\<close>

text \<open>\<open>SqliteStore::connect\<close>: open, SQLite's checks, migrations, and \<open>validate_all\<close> on an empty cache.\<close>

definition store_connect :: "host \<Rightarrow> serde \<Rightarrow> string \<Rightarrow> store \<Rightarrow> (store_error, store) result" where
  "store_connect h sd url disk =
     and_then (guard_err (ho_fails h (Io_Connect url)) Database) (\<lambda>_.
     and_then (guard_err (\<not> ho_integrity_ok h) CorruptDatabase) (\<lambda>_.
     and_then (guard_err (\<not> ho_foreign_keys_ok h) CorruptDatabase) (\<lambda>_.
     and_then (guard_err (ho_fails h (Io_Migrate url)) Migration) (\<lambda>_.
       let st = disk\<lparr>st_cache := bt_empty\<rparr>
       in and_then (validate_all sd st) (\<lambda>_. Inr st)))))"

definition manager_load :: "'i manager_env \<Rightarrow> 'i \<Rightarrow> (config_error, 'i config_manager) result" where
  "manager_load env doc =
     and_then (load_document env doc) (\<lambda>c. Inr (manager_new (Some doc) (me_now env 0) c))"

text \<open>
  \<open>AppState::with_config_manager_and_shutdown\<close>. No manager stands for the panic of \<open>expect\<close> when the
  MCP configuration is not valid.
\<close>

definition app_new :: "store \<Rightarrow> 'i config_manager \<Rightarrow> 'i app option" where
  "app_new st manager =
     (case mcp_new (pq_mcp_servers (cm_config manager)) of
        Inl _ \<Rightarrow> None
      | Inr mcp \<Rightarrow>
          Some \<lparr>ax_sup = sup_start st, ax_manager = manager, ax_mcp = mcp, ax_shutting_down = False,
                ax_streams_closed = False, ax_fatal_reload_error = None, ax_requests_total = 0,
                ax_run_capacity_rejections = 0, ax_sse_capacity_rejections = 0,
                ax_sse_connections = 0, ax_sse_by_session = bt_empty, ax_backups = bt_empty\<rparr>)"

record 'i prepared_server =
  pr_state :: "'i app"
  pr_auth_token :: "string option"
  pr_instance_lock :: "string option"

definition connect_store :: "host \<Rightarrow> serde \<Rightarrow> string \<Rightarrow> ('i, unit) process" where
  "connect_store h sd url w =
     (case store_connect h sd url (mh_disk w) of
        Inl e \<Rightarrow> Some (Inl (Sv_Store e), w)
      | Inr st \<Rightarrow> Some (Inr (), w\<lparr>mh_disk := st\<rparr>))"

definition recover_store :: "serde \<Rightarrow> (nat \<Rightarrow> string) \<Rightarrow> ('i, unit) process" where
  "recover_store sd clock w =
     (case recover_running_sessions sd clock (mh_disk w) of
        (r, st) \<Rightarrow> Some (and_then (map_err Sv_Store r) (\<lambda>_. Inr ()), w\<lparr>mh_disk := st\<rparr>))"

definition construct_app :: "'i config_manager \<Rightarrow> ('i, 'i app) process" where
  "construct_app manager w =
     (case app_new (mh_disk w) manager of None \<Rightarrow> None | Some s \<Rightarrow> Some (Inr s, w))"

definition resume_ready :: "'i api_env \<Rightarrow> 'i app \<Rightarrow> ('i, 'i app) process" where
  "resume_ready env s w =
     (case resume_ready_actions_after_restart (sup_env_of env s) (ax_sup s) of
        None \<Rightarrow> None
      | Some (r, u) \<Rightarrow>
          Some (and_then (map_err Sv_Store r) (\<lambda>_. Inr (s\<lparr>ax_sup := u\<rparr>)), w\<lparr>mh_disk := su_store u\<rparr>))"

text \<open>\<open>prepare_server\<close> after the lock is held; a failure drops the lock.\<close>

definition start_services ::
  "host \<Rightarrow> 'i api_env \<Rightarrow> server_options \<Rightarrow> ('i, 'i prepared_server) process" where
  "start_services h env options =
     bind (gets (\<lambda>w. manager_load (ae_manager env) (mh_document w))) (\<lambda>loaded.
     bind (of_result (map_err Sv_Config loaded)) (\<lambda>manager.
     bind (connect_store h (en_serde (ae_sup env)) (so_database options)) (\<lambda>_.
     bind (recover_store (en_serde (ae_sup env)) (en_clock (ae_sup env))) (\<lambda>_.
     bind (check (\<not> ho_fails h (Io_Bind (so_bind options))) Sv_BindIo) (\<lambda>_.
     bind (construct_app manager) (\<lambda>s.
     bind (resume_ready env s) (\<lambda>s.
     ret \<lparr>pr_state = s, pr_auth_token = so_auth_token options,
          pr_instance_lock = so_instance_lock options\<rparr>)))))))"

definition prepare_server ::
  "host \<Rightarrow> 'i api_env \<Rightarrow> server_options \<Rightarrow> ('i, 'i prepared_server) process" where
  "prepare_server h env options =
     bind (of_result (map_err Sv_Bind (validate_bind_address (so_bind options)))) (\<lambda>_.
     bind (case so_instance_lock options of None \<Rightarrow> ret () | Some path \<Rightarrow> acquire h path) (\<lambda>_.
     or_drop (so_instance_lock options) (start_services h env options)))"

section \<open>Serving and shutdown\<close>

definition sup_do :: "'i api_env \<Rightarrow> (sup_env \<Rightarrow> 'a act) \<Rightarrow> ('i app, store_error, 'a) comp" where
  "sup_do env f s =
     (case f (sup_env_of env s) (ax_sup s) of
        None \<Rightarrow> None | Some (r, u) \<Rightarrow> Some (r, s\<lparr>ax_sup := u\<rparr>))"

definition mcp_do :: "'a mcp_act \<Rightarrow> ('i app, mcp_error, 'a) comp" where
  "mcp_do f s =
     (case f (ax_mcp s) of None \<Rightarrow> None | Some (r, u) \<Rightarrow> Some (r, s\<lparr>ax_mcp := u\<rparr>))"

text \<open>
  What happens between start-up and shutdown: requests, the workers' turns, the discovery task, the
  notifications of MCP servers, and clients that leave an event stream.
\<close>

datatype server_event =
    Ev_Request http_request
  | Ev_Worker string "outside_event list"
  | Ev_Discover
  | Ev_StartServers
  | Ev_ToolsChanged string
  | Ev_StreamEnded string

definition server_step ::
  "'i api_env \<Rightarrow> string option \<Rightarrow> server_event \<Rightarrow> 'i app \<Rightarrow> 'i app option" where
  "server_step env token event s =
     (case event of
        Ev_Request request \<Rightarrow> map_option snd (router_with_token env token request s)
      | Ev_Worker sid script \<Rightarrow>
          map_option snd (sup_do env (\<lambda>se. run_command (ae_fuel env) se (C_Work sid script)) s)
      | Ev_Discover \<Rightarrow> map_option snd (in_manager (discover_all (ae_manager env)) s)
      | Ev_StartServers \<Rightarrow> map_option snd (mcp_do (start_enabled (ae_mcp env)) s)
      | Ev_ToolsChanged server_id \<Rightarrow> map_option snd (mcp_do (on_tool_list_changed server_id) s)
      | Ev_StreamEnded sid \<Rightarrow> map_option snd (release_sse_connection sid s))"

inductive serving :: "'i api_env \<Rightarrow> string option \<Rightarrow> 'i app \<Rightarrow> 'i app \<Rightarrow> bool" for env token where
  started: "serving env token s s"
| serve: "serving env token s t \<Longrightarrow> server_step env token event t = Some u \<Longrightarrow> serving env token s u"

definition begin_shutdown :: "('i app, 'e, unit) comp" where
  "begin_shutdown = modify (\<lambda>s. s\<lparr>ax_shutting_down := True\<rparr>)"

definition close_streams :: "('i app, 'e, unit) comp" where
  "close_streams = modify (\<lambda>s. s\<lparr>ax_streams_closed := True\<rparr>)"

definition take_fatal_reload_error :: "('i app, 'e, string option) comp" where
  "take_fatal_reload_error =
     bind (gets ax_fatal_reload_error) (\<lambda>m.
     bind (modify (\<lambda>s. s\<lparr>ax_fatal_reload_error := None\<rparr>)) (\<lambda>_. ret m))"

text \<open>
  The cleanup that the shutdown token starts. The two shutdowns that \<open>join!\<close> runs work on different
  parts of the state. \<open>finished\<close> says whether the workers ended within the shutdown timeout.
\<close>

definition cleanup :: "'i api_env \<Rightarrow> bool \<Rightarrow> ('i app, store_error, unit) comp" where
  "cleanup env finished =
     bind begin_shutdown (\<lambda>_.
     bind (attempt (sup_do env (\<lambda>se. shutdown se finished))) (\<lambda>outcome.
     bind (ignore_result (mcp_do mcp_shutdown)) (\<lambda>_.
     bind close_streams (\<lambda>_.
     of_result outcome))))"

text \<open>\<open>PreparedServer::run\<close> from the shutdown on; \<open>served\<close> says whether \<open>axum::serve\<close> ended well.\<close>

definition run_shutdown :: "'i api_env \<Rightarrow> bool \<Rightarrow> bool \<Rightarrow> ('i app, server_error, unit) comp" where
  "run_shutdown env finished served =
     bind (attempt (cleanup env finished)) (\<lambda>outcome.
     bind (of_result (map_err map_shutdown_error outcome)) (\<lambda>_.
     bind (check served Sv_Io) (\<lambda>_.
     bind take_fatal_reload_error (\<lambda>fatal.
     case fatal of None \<Rightarrow> ret () | Some message \<Rightarrow> raise (ConfigReload message)))))"

inductive run_server ::
  "'i api_env \<Rightarrow> 'i prepared_server \<Rightarrow> (server_error, unit) result \<Rightarrow> 'i app \<Rightarrow> bool" for env where
  "serving env (pr_auth_token p) (pr_state p) s \<Longrightarrow> run_shutdown env finished served s = Some (r, s') \<Longrightarrow>
   run_server env p r s'"

section \<open>The sidecar\<close>

record sidecar_env =
  sc_home :: "string option"
  sc_token :: string
  sc_local_addr :: string
  sc_server_version :: string
  sc_show :: "server_error \<Rightarrow> string"

definition home_data_dir :: "sidecar_env \<Rightarrow> (string, string) result" where
  "home_data_dir sc =
     (case sc_home sc of None \<Rightarrow> Inl ''HOME is not set'' | Some home \<Rightarrow> Inr (path_join home ''.config/piqo''))"

definition generate_token :: "host \<Rightarrow> sidecar_env \<Rightarrow> (string, string) result" where
  "generate_token h sc =
     (if ho_fails h Io_Random then Inl ''unable to generate auth token'' else Inr (sc_token sc))"

definition fatal_line :: "string \<Rightarrow> string \<Rightarrow> json" where
  "fatal_line code message =
     JObj [(''type'', JStr ''fatal''), (''protocol_version'', jnat 1), (''code'', JStr code),
           (''message'', JStr message)]"

definition ready_line :: "host \<Rightarrow> sidecar_env \<Rightarrow> string \<Rightarrow> json" where
  "ready_line h sc token =
     JObj [(''type'', JStr ''ready''), (''protocol_version'', jnat 1),
           (''server_version'', JStr (sc_server_version sc)), (''api_version'', JStr ''v1''),
           (''pid'', jnat (ho_pid h)), (''base_url'', JStr (''http://'' @ sc_local_addr sc)),
           (''token'', JStr token)]"

definition sidecar_options :: "string \<Rightarrow> string \<Rightarrow> server_options" where
  "sidecar_options data_dir token =
     \<lparr>so_bind = \<lparr>sa_ip = IPv4 (127, 0, 0, 1), sa_port = 0\<rparr>,
      so_database = ''sqlite://'' @ path_join data_dir ''piqo.db'',
      so_config = path_join data_dir ''piqo.toml'',
      so_dump_requests = None, so_auth_token = Some token,
      so_instance_lock = Some (path_join data_dir ''piqo.lock''), so_shutdown_timeout = 10\<rparr>"

text \<open>The start of \<open>main\<close>: the fatal line with exit code 2, or the ready line and the server.\<close>

datatype 'i sidecar_start = Sc_Fatal json | Sc_Ready json "'i prepared_server"

definition fatal :: "string \<Rightarrow> string \<Rightarrow> ('i machine, 'e, 'i sidecar_start) comp" where
  "fatal code message = ret (Sc_Fatal (fatal_line code message))"

definition sidecar_start ::
  "host \<Rightarrow> 'i api_env \<Rightarrow> sidecar_env \<Rightarrow> ('i, 'i sidecar_start) process" where
  "sidecar_start h env sc =
     (case home_data_dir sc of
        Inl message \<Rightarrow> fatal ''home_unavailable'' message
      | Inr data_dir \<Rightarrow>
          bind (attempt (ensure_private_directory h data_dir)) (\<lambda>prepared_dir.
          case prepared_dir of
            Inl e \<Rightarrow> fatal ''storage_unavailable'' (''unable to prepare '' @ data_dir @ '': '' @ sc_show sc e)
          | Inr _ \<Rightarrow>
              (case generate_token h sc of
                 Inl e \<Rightarrow> fatal ''storage_unavailable'' e
               | Inr token \<Rightarrow>
                   bind (attempt (prepare_server h env (sidecar_options data_dir token))) (\<lambda>outcome.
                   case outcome of
                     Inl e \<Rightarrow> fatal (startup_code e) (sc_show sc e)
                   | Inr p \<Rightarrow>
                       if ho_fails h Io_LocalAddr then
                         bind (drop_lock (pr_instance_lock p)) (\<lambda>_.
                         fatal ''bind_failed'' (sc_show sc Sv_Io))
                       else ret (Sc_Ready (ready_line h sc token) p)))))"

definition finish_exit :: "(server_error, unit) result \<Rightarrow> nat" where
  "finish_exit r = (case r of Inr _ \<Rightarrow> 0 | Inl _ \<Rightarrow> 1)"

end
