(* ===== verification/Quiescence.thy ===== *)
theory Quiescence
  imports Runtime Supervisor_Guarantees
begin

text \<open>
  Stopping and starting leave the sessions quiet: the passes over all sessions that shutdown and
  restart make succeed on a well-formed store with room, and after a shutdown no run is open and no
  session is running.
\<close>

section \<open>How many runs a log can have\<close>

definition run_ids :: "session_projection \<Rightarrow> string set" where
  "run_ids p = {k. bt_get (sp_runs p) k \<noteq> None}"

lemma run_ids_simps [simp]:
  "run_ids (p\<lparr>sp_runs := bt_insert k r (sp_runs p)\<rparr>) = insert k (run_ids p)"
  "run_ids (p\<lparr>sp_state := a\<rparr>) = run_ids p" "run_ids (p\<lparr>sp_queue_paused := b\<rparr>) = run_ids p"
  "run_ids (p\<lparr>sp_messages := c\<rparr>) = run_ids p" "run_ids (p\<lparr>sp_agents := d\<rparr>) = run_ids p"
  "run_ids (p\<lparr>sp_agent_instances := e\<rparr>) = run_ids p" "run_ids (p\<lparr>sp_pending_permissions := f\<rparr>) = run_ids p"
  "run_ids (p\<lparr>sp_context := g\<rparr>) = run_ids p"
  by (auto simp: run_ids_def)

lemma update_run_ids: "update_run k ch p = Inr q \<Longrightarrow> run_ids q = run_ids p"
  by (auto simp: update_run_def and_then_eq_Inr split: option.splits) (auto simp: run_ids_def split: if_splits)

lemma project_event_ids: "project_event n e p = Inr q \<Longrightarrow> \<exists>x. run_ids q \<subseteq> insert x (run_ids p)"
proof -
  have ter: "set_run_terminal k s x p = Inr q \<Longrightarrow> run_ids q = run_ids p" for k s x p q
    by (simp add: set_run_terminal_def update_run_ids)
  have msg: "update_open_message n i ch p = Inr q \<Longrightarrow> run_ids q = run_ids p" for i ch q
    by (auto simp: update_open_message_def and_then_eq_Inr split: option.splits if_splits)
  show "project_event n e p = Inr q \<Longrightarrow> \<exists>x. run_ids q \<subseteq> insert x (run_ids p)"
    by (cases e)
       (auto simp: project_event_def message_started_def message_content_appended_def
         message_completed_def message_interrupted_def agent_spawned_def agent_finished_def
         agent_context_captured_def agent_result_delivered_def permission_requested_def
         permission_resolved_def run_queued_def run_started_def run_completed_def
         run_attempt_started_def run_requires_action_def tool_call_emitted_def update_tool_call_def
         tool_execution_started_def tool_result_def run_attempt_failed_def
         context_fact_recorded_def context_compacted_def Let_def pause_after_def and_then_eq_Inr
         dest!: ter msg update_run_ids split: option.splits if_splits)
qed

lemma run_ids_bound:
  "apply_events p n es = Inr q \<Longrightarrow> finite (run_ids p) \<Longrightarrow>
   finite (run_ids q) \<and> card (run_ids q) \<le> card (run_ids p) + length es"
proof (induction es arbitrary: p n)
  case (Cons e es)
  from Cons.prems(1) obtain p' where e: "apply_event p n e = Inr p'" "apply_events p' (Suc n) es = Inr q"
    by (auto simp: and_then_eq_Inr)
  from e(1) obtain x where x: "run_ids p' \<subseteq> insert x (run_ids p)"
    by (auto simp: apply_event_def and_then_eq_Inr dest: project_event_ids)
  have f: "finite (run_ids p')" using x Cons.prems(2) finite_subset by blast
  have "card (run_ids p') \<le> card (insert x (run_ids p))" using x Cons.prems(2) by (intro card_mono) simp_all
  also have "\<dots> \<le> Suc (card (run_ids p))" by (rule card_insert_le_m1) simp_all
  finally show ?case using Cons.IH [OF e(2) f] by simp
qed simp

lemma runs_bound:
  assumes "apply_events (projection_new k) 1 l = Inr p"
  shows "length (sp_runs p) \<le> length l"
proof -
  from replay_well_formed_prefix [OF assms] have "proj_ok p" by simp
  then have s: "bt_sorted (sp_runs p)" by (simp add: proj_ok_def runs_ok_def)
  then have "distinct (map fst (sp_runs p))" by (simp add: bt_sorted_def strict_sorted_iff)
  moreover have "run_ids p = set (map fst (sp_runs p))"
    using bt_get_None_iff [of "sp_runs p"] by (auto simp: run_ids_def)
  ultimately have "card (run_ids p) = length (sp_runs p)" using distinct_card by fastforce
  moreover have "run_ids (projection_new k) = {}" by (simp add: run_ids_def projection_new_def)
  ultimately show ?thesis using run_ids_bound [OF assms] by simp
qed

section \<open>Interrupting runs\<close>

definition quiet :: "session_projection \<Rightarrow> bool" where
  "quiet p \<longleftrightarrow> ss_phase (sp_state p) \<noteq> S_Running \<and>
     list_all (\<lambda>run. \<not> open_status (rp_status run)) (bt_values (sp_runs p))"

definition open_at :: "session_projection \<Rightarrow> string \<Rightarrow> bool" where
  "open_at p k \<longleftrightarrow> (case bt_get (sp_runs p) k of None \<Rightarrow> False | Some run \<Rightarrow> open_status (rp_status run))"

lemma interrupt_one:
  assumes "open_at p k"
  shows "\<exists>q. apply_event p n (RunInterrupted k reason) = Inr q \<and> ss_phase (sp_state q) = ss_phase (sp_state p) \<and>
    (\<forall>j. open_at q j \<longleftrightarrow> j \<noteq> k \<and> open_at p j)"
  using assms
  by (auto simp: open_at_def open_status_def apply_event_def state_apply_def project_event_def
      pause_after_def set_run_terminal_def update_run_def split: option.splits)

lemma interrupt_all:
  "distinct ks \<Longrightarrow> (\<And>k. k \<in> set ks \<Longrightarrow> open_at p k) \<Longrightarrow>
   \<exists>q. apply_events p n (map (\<lambda>k. RunInterrupted k reason) ks) = Inr q \<and>
     ss_phase (sp_state q) = ss_phase (sp_state p) \<and>
     (\<forall>j. open_at q j \<longleftrightarrow> j \<notin> set ks \<and> open_at p j)"
proof (induction ks arbitrary: p n)
  case (Cons k ks)
  from Cons.prems(2) have "open_at p k" by simp
  from interrupt_one [OF this, of n reason] obtain p' where p': "apply_event p n (RunInterrupted k reason) = Inr p'"
    "ss_phase (sp_state p') = ss_phase (sp_state p)" "\<forall>j. open_at p' j \<longleftrightarrow> j \<noteq> k \<and> open_at p j" by blast
  have "distinct ks" "\<And>j. j \<in> set ks \<Longrightarrow> open_at p' j" using Cons.prems p'(3) by auto
  from Cons.IH [OF this, of "Suc n"] p' show ?case by auto
qed simp

lemma end_phase:
  assumes "ss_phase (sp_state p) = S_Running"
  shows "\<exists>q. apply_event p n (SessionPhaseChanged S_Running S_Interrupted reason) = Inr q \<and>
    ss_phase (sp_state q) = S_Interrupted \<and> (\<forall>j. open_at q j \<longleftrightarrow> open_at p j)"
  using assms
  by (auto simp: apply_event_def state_apply_def transition_def project_event_def open_at_def)

lemma runs_distinct: "proj_ok p \<Longrightarrow> distinct (map rp_run_id (bt_values (sp_runs p)))"
proof -
  assume ok: "proj_ok p"
  then have s: "bt_sorted (sp_runs p)" and runs: "runs_ok (sp_runs p)" by (simp_all add: proj_ok_def runs_ok_def)
  have "rp_run_id (snd kr) = fst kr" if "kr \<in> set (sp_runs p)" for kr
  proof -
    from that have "(fst kr, snd kr) \<in> set (sp_runs p)" by simp
    from runs_ok_get [OF runs bt_in_get [OF s this]] show ?thesis by (simp add: run_ok_def)
  qed
  then have "map rp_run_id (bt_values (sp_runs p)) = map fst (sp_runs p)" by (simp add: bt_values_def)
  moreover from s have "distinct (map fst (sp_runs p))"
    by (induction "sp_runs p" rule: list.induct) (simp_all add: bt_sorted_def strict_sorted_iff)
  ultimately show ?thesis by simp
qed

lemma run_value:
  assumes "proj_ok p" and "run \<in> set (bt_values (sp_runs p))"
  shows "bt_get (sp_runs p) (rp_run_id run) = Some run"
proof -
  from assms(1) have s: "bt_sorted (sp_runs p)" and ok: "runs_ok (sp_runs p)"
    by (simp_all add: proj_ok_def runs_ok_def)
  with assms(2) obtain k where k: "bt_get (sp_runs p) k = Some run" by (auto simp: bt_values_iff)
  from runs_ok_get [OF ok k] k show ?thesis by (simp add: run_ok_def)
qed

lemma quiet_iff: "proj_ok p \<Longrightarrow> quiet p \<longleftrightarrow> ss_phase (sp_state p) \<noteq> S_Running \<and> (\<forall>k. \<not> open_at p k)"
  using run_value [of p]
  by (auto simp: quiet_def open_at_def list_all_iff proj_ok_def runs_ok_def bt_values_iff split: option.splits)

section \<open>A pass over the sessions\<close>

text \<open>Room for one interruption per run and one change of phase: a log has at most one run per event.\<close>

definition roomy :: "semantic_event list \<Rightarrow> bool" where
  "roomy l \<longleftrightarrow> 2 * length l < i64_max"

text \<open>
  What a step on one session does: it succeeds, keeps the store well-formed, touches no other log
  and relates the session's old and new log by \<open>Q\<close>.
\<close>

definition session_step ::
  "serde \<Rightarrow> (string \<Rightarrow> unit act) \<Rightarrow> (string \<Rightarrow> semantic_event list \<Rightarrow> semantic_event list \<Rightarrow> bool) \<Rightarrow> bool" where
  "session_step sd f Q \<longleftrightarrow>
     (\<forall>k s. store_ok sd (su_store s) \<and> session_log sd (su_store s) k \<noteq> [] \<and>
        roomy (session_log sd (su_store s) k) \<longrightarrow>
        (\<exists>s'. f k s = Some (Inr (), s') \<and> store_ok sd (su_store s') \<and>
           (\<forall>j. j \<noteq> k \<longrightarrow> session_log sd (su_store s') j = session_log sd (su_store s) j) \<and>
           session_log sd (su_store s') k \<noteq> [] \<and>
           Q k (session_log sd (su_store s) k) (session_log sd (su_store s') k)))"

lemma each_session:
  assumes step: "session_step sd f Q"
  shows "store_ok sd (su_store s) \<Longrightarrow> distinct ks \<Longrightarrow>
    (\<And>k. k \<in> set ks \<Longrightarrow> session_log sd (su_store s) k \<noteq> [] \<and> roomy (session_log sd (su_store s) k)) \<Longrightarrow>
    \<exists>s'. each f ks s = Some (Inr (), s') \<and> store_ok sd (su_store s') \<and>
      (\<forall>k. k \<notin> set ks \<longrightarrow> session_log sd (su_store s') k = session_log sd (su_store s) k) \<and>
      (\<forall>k \<in> set ks. Q k (session_log sd (su_store s) k) (session_log sd (su_store s') k))"
proof (induction ks arbitrary: s)
  case (Cons k ks)
  have "store_ok sd (su_store s) \<and> session_log sd (su_store s) k \<noteq> [] \<and> roomy (session_log sd (su_store s) k)"
    using Cons.prems(1,3) by simp
  with step obtain t where t: "f k s = Some (Inr (), t)" "store_ok sd (su_store t)"
    "\<forall>j. j \<noteq> k \<longrightarrow> session_log sd (su_store t) j = session_log sd (su_store s) j"
    "Q k (session_log sd (su_store s) k) (session_log sd (su_store t) k)"
    unfolding session_step_def by blast
  have k: "k \<notin> set ks" "distinct ks" using Cons.prems(2) by simp_all
  have "session_log sd (su_store t) j \<noteq> [] \<and> roomy (session_log sd (su_store t) j)" if "j \<in> set ks" for j
    using Cons.prems(3) [of j] that t(3) k(1) by (cases "j = k") auto
  from Cons.IH [OF t(2) k(2) this] obtain u where u: "each f ks t = Some (Inr (), u)" "store_ok sd (su_store u)"
    "\<forall>j. j \<notin> set ks \<longrightarrow> session_log sd (su_store u) j = session_log sd (su_store t) j"
    "\<forall>j \<in> set ks. Q j (session_log sd (su_store t) j) (session_log sd (su_store u) j)" by blast
  have "Q j (session_log sd (su_store s) j) (session_log sd (su_store u) j)" if "j \<in> set (k # ks)" for j
  proof (cases "j = k")
    case True
    with t(4) u(3) k(1) show ?thesis by simp
  next
    case False
    with that u(4) have "Q j (session_log sd (su_store t) j) (session_log sd (su_store u) j)" by simp
    with t(3) False show ?thesis by simp
  qed
  with t(1,3) u show ?case by (intro exI [of _ u]) (simp add: run_simps)
qed (simp add: run_simps)

lemma session_step_and:
  "session_step sd f Q \<Longrightarrow> session_step sd f (\<lambda>k l l'. Q k l l' \<and> l' \<noteq> [])"
  unfolding session_step_def by blast

lemma each_session_id:
  assumes "session_step sd f Q" and "store_ok sd (su_store s)"
    and "\<And>k. find_session (su_store s) k \<noteq> None \<Longrightarrow> roomy (session_log sd (su_store s) k)"
  shows "\<exists>s'. each f (session_ids (su_store s)) s = Some (Inr (), s') \<and> store_ok sd (su_store s') \<and>
    (\<forall>k. find_session (su_store s') k = None \<longleftrightarrow> find_session (su_store s) k = None) \<and>
    (\<forall>k. find_session (su_store s) k \<noteq> None \<longrightarrow>
       Q k (session_log sd (su_store s) k) (session_log sd (su_store s') k))"
proof -
  let ?st = "su_store s"
  have d: "distinct (map sr_id (st_sessions ?st))" using assms(2) by (simp add: store_ok_def refs_ok_def)
  have ids: "k \<in> set (session_ids ?st) \<longleftrightarrow> find_session ?st k \<noteq> None" for k
    using in_find_session [OF d] by (auto simp: session_ids_def find_session_def find_None_iff)
  have dist: "distinct (session_ids ?st)" using d by (simp add: session_ids_def)
  have "session_log sd ?st k \<noteq> [] \<and> roomy (session_log sd ?st k)" if "k \<in> set (session_ids ?st)" for k
    using that session_log_empty_iff [OF assms(2), of k] assms(3) [of k] by (simp add: ids)
  note each = each_session [OF session_step_and [OF assms(1)] assms(2) dist this]
  from each obtain s' where
    s': "each f (session_ids ?st) s = Some (Inr (), s')" "store_ok sd (su_store s')"
    "\<forall>k. k \<notin> set (session_ids ?st) \<longrightarrow> session_log sd (su_store s') k = session_log sd ?st k"
    "\<forall>k \<in> set (session_ids ?st). Q k (session_log sd ?st k) (session_log sd (su_store s') k) \<and>
       session_log sd (su_store s') k \<noteq> []" by blast
  have "find_session (su_store s') k = None \<longleftrightarrow> find_session ?st k = None" for k
    using s'(3,4) ids [of k] session_log_empty_iff [OF assms(2), of k] session_log_empty_iff [OF s'(2), of k]
    by (cases "k \<in> set (session_ids ?st)") auto
  with s' ids show ?thesis by blast
qed

section \<open>The steps of shutdown and restart\<close>

lemma sup_append_many_ok:
  assumes "store_ok (en_serde env) (su_store s)" and "find_session (su_store s) k = Some r"
    and "list_all (storable (en_serde env)) es"
    and "length (session_log (en_serde env) (su_store s) k) + length es \<le> i64_max"
    and "apply_events (projection_new k) 1 (session_log (en_serde env) (su_store s) k @ es) = Inr q"
  shows "\<exists>recs s'. sup_append_many env k es s = Some (Inr recs, s') \<and> store_ok (en_serde env) (su_store s') \<and>
    session_log (en_serde env) (su_store s') k = session_log (en_serde env) (su_store s) k @ es \<and>
    (\<forall>j. j \<noteq> k \<longrightarrow> session_log (en_serde env) (su_store s') j = session_log (en_serde env) (su_store s) j)"
proof -
  let ?sd = "en_serde env"
  from append_events_cases [OF assms(1-4), of "en_clock env"] assms(5) obtain recs st' where
    a: "append_events ?sd (en_clock env) k es (su_store s) = Inr (recs, st')" "store_ok ?sd st'"
    "session_log ?sd st' k = session_log ?sd (su_store s) k @ es"
    "\<forall>j. j \<noteq> k \<longrightarrow> session_log ?sd st' j = session_log ?sd (su_store s) j" by auto
  then have "sup_append_many env k es s = Some (Inr recs, publish_all recs (s\<lparr>su_store := st'\<rparr>))"
    by (simp add: sup_append_many_def store_do_def bind_def run_simps)
  with a show ?thesis by auto
qed

lemma project_of_ok:
  assumes "store_ok (en_serde env) (su_store s)" and "session_log (en_serde env) (su_store s) k \<noteq> []"
  shows "\<exists>p s' r. project_of env k s = Some (Inr p, s') \<and> find_session (su_store s') k = Some r \<and> proj_ok p \<and>
    apply_events (projection_new k) 1 (session_log (en_serde env) (su_store s') k) = Inr p \<and>
    store_ok (en_serde env) (su_store s') \<and>
    (\<forall>j. session_log (en_serde env) (su_store s') j = session_log (en_serde env) (su_store s) j)"
proof -
  let ?sd = "en_serde env"
  from assms session_log_empty_iff [OF assms(1), of k] obtain r where r: "find_session (su_store s) k = Some r"
    by auto
  from session_row_replay [OF assms(1) r] obtain p where
    p: "apply_events (projection_new k) 1 (session_log ?sd (su_store s) k) = Inr p" "replay ?sd (su_store s) k = Inr p"
    "proj_ok p" by blast
  from projection_ok [OF assms(1) r p(2)] obtain st' where
    st': "projection ?sd k (su_store s) = Inr (p, st')" "store_ok ?sd st'"
    "\<forall>j. session_log ?sd st' j = session_log ?sd (su_store s) j" by blast
  with assms(2) session_log_empty_iff [OF st'(2), of k] obtain r' where "find_session st' k = Some r'" by auto
  with p st' show ?thesis by (auto simp: project_of_def store_do_def bind_def run_simps)
qed

lemma open_ids:
  assumes "proj_ok p"
  shows "j \<in> set (map rp_run_id (filter (\<lambda>run. open_status (rp_status run)) (bt_values (sp_runs p)))) \<longleftrightarrow> open_at p j"
proof
  assume "open_at p j"
  then obtain run where run: "bt_get (sp_runs p) j = Some run" "open_status (rp_status run)"
    by (auto simp: open_at_def split: option.splits)
  from assms have s: "bt_sorted (sp_runs p)" and ok: "runs_ok (sp_runs p)" by (simp_all add: proj_ok_def runs_ok_def)
  from runs_ok_get [OF ok run(1)] have "rp_run_id run = j" by (simp add: run_ok_def)
  moreover have "run \<in> set (bt_values (sp_runs p))" using run(1) s by (auto simp: bt_values_iff)
  ultimately show "j \<in> set (map rp_run_id (filter (\<lambda>run. open_status (rp_status run)) (bt_values (sp_runs p))))"
    using run(2) by auto
qed (use run_value [OF assms] in \<open>auto simp: open_at_def\<close>)

definition quietens :: "string \<Rightarrow> semantic_event list \<Rightarrow> semantic_event list \<Rightarrow> bool" where
  "quietens k l l' \<longleftrightarrow> (\<exists>p. apply_events (projection_new k) 1 l' = Inr p \<and> quiet p) \<and> (\<exists>more. l' = l @ more)"

lemma interrupt_session_step:
  assumes "\<And>run. storable (en_serde env) (RunInterrupted run reason)"
    and "storable (en_serde env) (SessionPhaseChanged S_Running S_Interrupted (Some reason))"
  shows "session_step (en_serde env) (interrupt_session env reason) quietens"
  unfolding session_step_def
proof (intro allI impI, elim conjE)
  fix k and s :: sup
  let ?sd = "en_serde env"
  let ?l = "session_log ?sd (su_store s) k"
  assume ok: "store_ok ?sd (su_store s)" and ne: "?l \<noteq> []" and room: "roomy ?l"
  from project_of_ok [OF ok ne] obtain p t r where t: "project_of env k s = Some (Inr p, t)"
    "find_session (su_store t) k = Some r" "proj_ok p"
    "apply_events (projection_new k) 1 (session_log ?sd (su_store t) k) = Inr p" "store_ok ?sd (su_store t)"
    "\<forall>j. session_log ?sd (su_store t) j = session_log ?sd (su_store s) j" by blast
  let ?opens = "map rp_run_id (filter (\<lambda>run. open_status (rp_status run)) (bt_values (sp_runs p)))"
  let ?phase = "if ss_phase (sp_state p) = S_Running
    then [SessionPhaseChanged S_Running S_Interrupted (Some reason)] else []"
  let ?es = "map (\<lambda>i. RunInterrupted i reason) ?opens @ ?phase"
  have opens: "j \<in> set ?opens \<longleftrightarrow> open_at p j" for j by (rule open_ids [OF t(3)])
  have "distinct ?opens" using runs_distinct [OF t(3)] by (rule distinct_map_filter)
  from interrupt_all [OF this, of p "1 + length ?l" reason] opens obtain q where
    q: "apply_events p (1 + length ?l) (map (\<lambda>i. RunInterrupted i reason) ?opens) = Inr q"
    "ss_phase (sp_state q) = ss_phase (sp_state p)" "\<forall>j. \<not> open_at q j" by blast
  obtain u where u: "apply_events p (1 + length ?l) ?es = Inr u" "ss_phase (sp_state u) \<noteq> S_Running"
    "\<forall>j. \<not> open_at u j"
  proof (cases "ss_phase (sp_state p) = S_Running")
    case True
    with q(2) end_phase [of q "1 + length ?l + length ?opens" "Some reason"] obtain u where
      "apply_event q (1 + length ?l + length ?opens) (SessionPhaseChanged S_Running S_Interrupted (Some reason)) = Inr u"
      "ss_phase (sp_state u) = S_Interrupted" "\<forall>j. open_at u j \<longleftrightarrow> open_at q j" by auto
    with q True that show ?thesis by (simp add: apply_events_append)
  qed (use q that in \<open>simp add: apply_events_append\<close>)
  then have ap: "apply_events (projection_new k) 1 (session_log ?sd (su_store t) k @ ?es) = Inr u"
    using t(4,6) by (simp add: apply_events_append)
  then have "proj_ok u" using replay_well_formed_prefix by blast
  with u have quiet: "quiet u" by (simp add: quiet_iff)
  have "length ?opens \<le> length (sp_runs p)" by (simp add: bt_values_def order_trans [OF length_filter_le])
  with room t(4,6) have fits: "length (session_log ?sd (su_store t) k) + length ?es \<le> i64_max"
    using runs_bound [OF t(4)] by (auto simp: roomy_def)
  have "list_all (storable ?sd) ?es" using assms by (auto simp: list_all_iff)
  from sup_append_many_ok [OF t(5,2) this fits ap]
  obtain recs v where v: "sup_append_many env k ?es t = Some (Inr recs, v)" "store_ok ?sd (su_store v)"
    "session_log ?sd (su_store v) k = session_log ?sd (su_store t) k @ ?es"
    "\<forall>j. j \<noteq> k \<longrightarrow> session_log ?sd (su_store v) j = session_log ?sd (su_store t) j" by blast
  show "\<exists>s'. interrupt_session env reason k s = Some (Inr (), s') \<and> store_ok ?sd (su_store s') \<and>
      (\<forall>j. j \<noteq> k \<longrightarrow> session_log ?sd (su_store s') j = session_log ?sd (su_store s) j) \<and>
      session_log ?sd (su_store s') k \<noteq> [] \<and> quietens k ?l (session_log ?sd (su_store s') k)"
  proof (cases "?es = []")
    case True
    then have "interrupt_session env reason k s = Some (Inr (), t)"
      using t(1) by (simp add: interrupt_session_def bind_def run_simps Let_def o_def)
    with True t ne ap quiet show ?thesis by (intro exI [of _ t]) (simp add: quietens_def)
  next
    case False
    then have "interrupt_session env reason k s = Some (Inr (), v)"
      using v(1)
      by (simp only: interrupt_session_def bind_def t(1) v(1) Let_def map_map o_def if_False run_basic(1)
            option.case sum.case prod.case)
    with v t(6) ne ap quiet show ?thesis by (intro exI [of _ v]) (auto simp: quietens_def)
  qed
qed

text \<open>Restarting interrupts runs that were executing a native tool, or wakes a worker.\<close>

definition keeps_phase :: "string \<Rightarrow> semantic_event list \<Rightarrow> semantic_event list \<Rightarrow> bool" where
  "keeps_phase k l l' \<longleftrightarrow> (\<exists>p p'. apply_events (projection_new k) 1 l = Inr p \<and>
     apply_events (projection_new k) 1 l' = Inr p' \<and> ss_phase (sp_state p') = ss_phase (sp_state p)) \<and>
     (\<exists>more. l' = l @ more)"

lemma requires_action_open: "rp_status run = R_RequiresAction \<Longrightarrow> open_status (rp_status run)"
  by (simp add: open_status_def)

lemma resume_after_restart_step:
  assumes "\<And>run. storable (en_serde env) (RunInterrupted run ''native_execution_interrupted_by_restart'')"
  shows "session_step (en_serde env) (resume_after_restart env) keeps_phase"
  unfolding session_step_def
proof (intro allI impI, elim conjE)
  fix k and s :: sup
  let ?sd = "en_serde env" and ?reason = "''native_execution_interrupted_by_restart''"
  let ?l = "session_log ?sd (su_store s) k"
  assume ok: "store_ok ?sd (su_store s)" and ne: "?l \<noteq> []" and room: "roomy ?l"
  from project_of_ok [OF ok ne] obtain p t r where t: "project_of env k s = Some (Inr p, t)"
    "find_session (su_store t) k = Some r" "proj_ok p"
    "apply_events (projection_new k) 1 (session_log ?sd (su_store t) k) = Inr p" "store_ok ?sd (su_store t)"
    "\<forall>j. session_log ?sd (su_store t) j = session_log ?sd (su_store s) j" by blast
  define P :: "run_projection \<Rightarrow> bool" where "P = (\<lambda>run. rp_status run = R_RequiresAction \<and>
     list_ex (\<lambda>c. tp_native c \<and> tp_execution_id c \<noteq> None \<and> tp_result c = None)
       (bt_values (rp_tool_calls run)))"
  define es where "es = map (\<lambda>run. RunInterrupted (rp_run_id run) ?reason) (filter P (bt_values (sp_runs p)))"
  let ?ids = "map rp_run_id (filter P (bt_values (sp_runs p)))"
  have es: "es = map (\<lambda>i. RunInterrupted i ?reason) ?ids" by (simp add: es_def)
  have run: "resume_after_restart env k s =
      (if es \<noteq> [] then bind (sup_append_many env k es) (\<lambda>_. ret ()) t
       else when_do (ready_action_run p \<noteq> None) (spawn_worker k) t)"
    by (simp add: resume_after_restart_def bind_def [of "project_of env k"] t(1) Let_def P_def es_def)
  show "\<exists>s'. resume_after_restart env k s = Some (Inr (), s') \<and> store_ok ?sd (su_store s') \<and>
      (\<forall>j. j \<noteq> k \<longrightarrow> session_log ?sd (su_store s') j = session_log ?sd (su_store s) j) \<and>
      session_log ?sd (su_store s') k \<noteq> [] \<and> keeps_phase k ?l (session_log ?sd (su_store s') k)"
  proof (cases "es = []")
    case True
    with t ne show ?thesis
      by (auto simp: run when_do_def spawn_worker_def run_simps keeps_phase_def)
  next
    case False
    have "open_at p j" if "j \<in> set ?ids" for j
      using that open_ids [OF t(3), of j] by (auto simp: P_def intro: requires_action_open)
    moreover have "distinct ?ids" using runs_distinct [OF t(3)] by (rule distinct_map_filter)
    ultimately obtain q where q: "apply_events p (1 + length ?l) es = Inr q"
      "ss_phase (sp_state q) = ss_phase (sp_state p)"
      using interrupt_all [of ?ids p "1 + length ?l" ?reason] unfolding es by blast
    then have ap: "apply_events (projection_new k) 1 (session_log ?sd (su_store t) k @ es) = Inr q"
      using t(4,6) by (simp add: apply_events_append)
    have "length es \<le> length (sp_runs p)" by (simp add: es_def bt_values_def order_trans [OF length_filter_le])
    with room t(4,6) have fits: "length (session_log ?sd (su_store t) k) + length es \<le> i64_max"
      using runs_bound [OF t(4)] by (auto simp: roomy_def)
    have "list_all (storable ?sd) es" using assms by (auto simp: es list_all_iff)
    from sup_append_many_ok [OF t(5,2) this fits ap]
    obtain recs v where v: "sup_append_many env k es t = Some (Inr recs, v)" "store_ok ?sd (su_store v)"
      "session_log ?sd (su_store v) k = session_log ?sd (su_store t) k @ es"
      "\<forall>j. j \<noteq> k \<longrightarrow> session_log ?sd (su_store v) j = session_log ?sd (su_store t) j" by blast
    have "resume_after_restart env k s = Some (Inr (), v)"
      using False v(1) by (simp add: run bind_def run_basic(1))
    moreover have "keeps_phase k ?l (session_log ?sd (su_store v) k)"
      using t(4,6) ap q(2) v(3) by (auto simp: keeps_phase_def)
    ultimately show ?thesis using v ne t(6) by auto
  qed
qed

section \<open>Shutdown of the supervisor\<close>

definition same_workers :: "sup \<Rightarrow> sup \<Rightarrow> bool" where
  "same_workers s s' \<longleftrightarrow> su_workers s' = su_workers s \<and> su_shutdown s' = su_shutdown s"

interpretation worker_relation: state_relation same_workers
  by unfold_locales (auto simp: same_workers_def)

lemma workers_steps:
  "worker_relation.keeps (project_of env k)" "worker_relation.keeps (sup_append_many env k es)"
  by (auto intro!: worker_relation.keepsI simp: same_workers_def project_of_def store_do_Some publish_all_def
      dest!: sup_append_many_Some split: sum.splits prod.splits)

lemma workers_interrupt: "worker_relation.keeps (interrupt_session env reason k)"
  unfolding interrupt_session_def Let_def by (intro worker_relation.keeps_rules workers_steps)

lemma shutdown_quiet:
  assumes "store_ok (en_serde env) (su_store s)"
    and "\<And>k. find_session (su_store s) k \<noteq> None \<Longrightarrow> roomy (session_log (en_serde env) (su_store s) k)"
    and "\<And>run. storable (en_serde env) (RunInterrupted run ''server_shutdown'')"
    and "storable (en_serde env) (SessionPhaseChanged S_Running S_Interrupted (Some ''server_shutdown''))"
  shows "\<exists>s'. shutdown env finished s = Some (if finished then Inr () else Inl ShutdownTimeout, s') \<and>
    store_ok (en_serde env) (su_store s') \<and> su_workers s' = [] \<and> su_shutdown s' \<and>
    (\<forall>k. find_session (su_store s') k = None \<longleftrightarrow> find_session (su_store s) k = None) \<and>
    (\<forall>k. find_session (su_store s) k \<noteq> None \<longrightarrow>
       quietens k (session_log (en_serde env) (su_store s) k) (session_log (en_serde env) (su_store s') k))"
proof -
  let ?t = "s\<lparr>su_shutdown := True, su_workers := []\<rparr>"
  have "store_ok (en_serde env) (su_store ?t)" using assms(1) by simp
  from each_session_id [OF interrupt_session_step [OF assms(3,4)] this] assms(2)
  obtain s' where s': "each (interrupt_session env ''server_shutdown'') (session_ids (su_store ?t)) ?t = Some (Inr (), s')"
    "store_ok (en_serde env) (su_store s')"
    "\<forall>k. find_session (su_store s') k = None \<longleftrightarrow> find_session (su_store s) k = None"
    "\<forall>k. find_session (su_store s) k \<noteq> None \<longrightarrow>
       quietens k (session_log (en_serde env) (su_store s) k) (session_log (en_serde env) (su_store s') k)"
    by auto
  have "worker_relation.keeps (each (interrupt_session env ''server_shutdown'') (session_ids (su_store ?t)))"
    by (intro worker_relation.keeps_rules workers_interrupt)
  from worker_relation.keepsD [OF this s'(1)] have "su_workers s' = [] \<and> su_shutdown s'"
    by (simp add: same_workers_def)
  moreover have "shutdown env finished s = Some (if finished then Inr () else Inl ShutdownTimeout, s')"
    using s'(1) by (simp add: shutdown_def interrupt_remaining_runs_def bind_def check_def run_simps)
  ultimately show ?thesis using s' by auto
qed

end
