(* ===== verification/Runtime_Guarantees.thy ===== *)
theory Runtime_Guarantees
  imports Quiescence Mcp_Guarantees Providers_Guarantees Api_Guarantees
begin

text \<open>
  The life of the server process: how a start succeeds or fails, and what a shutdown leaves behind.
\<close>

section \<open>The instance lock\<close>

lemma the_lock_set:
  "the_lock p (w\<lparr>mh_locks := bt_insert path f locks\<rparr>) = (if p = path then f else the_lock p (w\<lparr>mh_locks := locks\<rparr>))"
  "the_lock p (w\<lparr>mh_locks := mh_locks w\<rparr>) = the_lock p w"
  by (simp_all add: the_lock_def unwrap_or_def)

lemma set_lock_run: "set_lock path f w = Some (r, w') \<longleftrightarrow>
  r = Inr () \<and> w' = w\<lparr>mh_locks := bt_insert path (f (the_lock path w)) (mh_locks w)\<rparr>"
  by (simp add: set_lock_def comp_iffs)

lemma io_run: "io h c w = Some (r, w') \<longleftrightarrow> w' = w \<and> r = (if ho_fails h c then Inl Sv_Io else Inr ())"
  by (auto simp: io_def comp_iffs)

definition lock_frame :: "string \<Rightarrow> 'i machine \<Rightarrow> 'i machine \<Rightarrow> bool" where
  "lock_frame path w w' \<longleftrightarrow> mh_disk w' = mh_disk w \<and> mh_document w' = mh_document w \<and>
     (\<forall>p. p \<noteq> path \<longrightarrow> the_lock p w' = the_lock p w)"

interpretation lock_relation: state_relation "lock_frame path :: 'i machine \<Rightarrow> 'i machine \<Rightarrow> bool" for path
  by unfold_locales (simp_all add: lock_frame_def)

lemma lock_steps: "lock_relation.keeps path (io h c)" "lock_relation.keeps path (set_lock path f)"
  by (auto intro!: lock_relation.keepsI simp: io_run set_lock_run lock_frame_def the_lock_set)

lemma acquire_frame: "lock_relation.keeps path (acquire h path)"
  unfolding acquire_def or_drop_def drop_lock_def option.case
  by (intro lock_relation.keeps_rules lock_steps)

lemma acquire_held:
  assumes "acquire h path w = Some (r, w')"
  shows "case r of
      Inl _ \<Rightarrow> lk_held (the_lock path w') = lk_held (the_lock path w)
    | Inr _ \<Rightarrow> \<not> lk_held (the_lock path w) \<and> the_lock path w' =
        \<lparr>lk_content = decimal (ho_pid h) @ [LF], lk_private = True, lk_held = True\<rparr>"
  using assms
  by (auto simp: acquire_def or_drop_def drop_lock_def comp_iffs io_run set_lock_run the_lock_set
      split: if_splits)

lemma acquire_ok:
  assumes "\<And>c. \<not> ho_fails h c" and "\<not> lk_held (the_lock path w)"
  shows "\<exists>w'. acquire h path w = Some (Inr (), w')"
  using assms
  by (simp add: acquire_def or_drop_def io_def check_def set_lock_def bind_def attempt_def run_simps the_lock_set)

lemma acquire_locked:
  assumes "\<And>c. \<not> ho_fails h c" and "lk_held (the_lock path w)"
  shows "\<exists>w'. acquire h path w = Some (Inl (InstanceLocked path), w')"
  using assms
  by (simp add: acquire_def or_drop_def io_def check_def set_lock_def bind_def attempt_def run_simps the_lock_set)

section \<open>A valid configuration starts\<close>

lemma validated_servers:
  assumes "config_validate ce c = Inr ()"
  shows "\<exists>m. mcp_new (pq_mcp_servers c) = Inr m"
proof -
  have "mcp_validate server = Inr ()" if "server \<in> set (bt_values (pq_mcp_servers c))" for server
    using assms that by (fastforce simp: config_validate_def validate_simps bt_values_def)
  then have "collect (map mcp_validate (bt_values (pq_mcp_servers c))) = Inr (map (\<lambda>_. ()) (bt_values (pq_mcp_servers c)))"
    by (simp add: collect_eq_Inr)
  then show ?thesis by (simp add: mcp_new_def mcp_entries_new_def)
qed

lemma manager_load_valid:
  assumes "manager_load env doc = Inr m"
  shows "config_validate (me_config_env env) (cm_config m) = Inr () \<and> cm_file m = Some doc \<and> cm_revision m = 1 \<and>
    load_document env doc = Inr (cm_config m)"
  using assms load_document_valid [of env doc]
  by (auto simp: manager_load_def and_then_eq_Inr manager_new_def)

section \<open>A start that fails\<close>

definition files_kept :: "'i machine \<Rightarrow> 'i machine \<Rightarrow> bool" where
  "files_kept w w' \<longleftrightarrow> mh_locks w' = mh_locks w \<and> mh_document w' = mh_document w"

interpretation files_relation: state_relation "files_kept :: 'i machine \<Rightarrow> 'i machine \<Rightarrow> bool"
  by unfold_locales (simp_all add: files_kept_def)

lemma files_steps:
  "files_relation.keeps (connect_store h sd url)" "files_relation.keeps (recover_store sd clock)"
  "files_relation.keeps (construct_app m)" "files_relation.keeps (resume_ready env s)"
  by (auto intro!: files_relation.keepsI simp: files_kept_def connect_store_def recover_store_def
      construct_app_def resume_ready_def split: sum.splits prod.splits option.splits)

lemma start_services_files: "files_relation.keeps (start_services h env options)"
  unfolding start_services_def by (intro files_relation.keeps_rules files_steps)

text \<open>A start refused for the lock or for the configuration has not touched the database.\<close>

lemma resume_ready_errors: "resume_ready env s w = Some (Inl e, w') \<Longrightarrow> \<exists>x. e = Sv_Store x"
  by (auto simp: resume_ready_def and_then_def map_err_def split: option.splits prod.splits sum.splits)

lemma start_services_untouched:
  assumes "start_services h env options w = Some (Inl e, w')" and "\<And>x. e \<noteq> Sv_Store x" and "e \<noteq> Sv_BindIo"
  shows "mh_disk w' = mh_disk w"
  using assms
  by (auto simp: start_services_def comp_iffs connect_store_def recover_store_def construct_app_def
      and_then_def map_err_def split: sum.splits prod.splits option.splits if_splits dest!: resume_ready_errors)

lemma drop_lock_run: "drop_lock lock w = Some (r, w') \<Longrightarrow> r = Inr ()"
  by (auto simp: drop_lock_def set_lock_run comp_iffs split: option.splits)

lemma or_drop_run:
  assumes "or_drop lock m w = Some (r, w')"
  shows "(\<exists>x. m w = Some (Inr x, w') \<and> r = Inr x) \<or>
    (\<exists>e w1. m w = Some (Inl e, w1) \<and> drop_lock lock w1 = Some (Inr (), w') \<and> r = Inl e)"
proof -
  from assms obtain o1 w1 where m: "m w = Some (o1, w1)"
    by (auto simp: or_drop_def comp_iffs)
  with assms show ?thesis
    by (cases o1) (auto simp: or_drop_def comp_iffs dest: drop_lock_run)
qed

lemma prepare_server_failed:
  assumes "prepare_server h env options w = Some (Inl e, w')"
  shows "(\<forall>path. lk_held (the_lock path w') = lk_held (the_lock path w)) \<and> mh_document w' = mh_document w \<and>
    ((\<forall>x. e \<noteq> Sv_Store x) \<and> e \<noteq> Sv_BindIo \<longrightarrow> mh_disk w' = mh_disk w)"
proof (cases "so_instance_lock options")
  case None
  with assms have run: "w' = w \<or> start_services h env options w = Some (Inl e, w')"
    by (auto simp: prepare_server_def drop_lock_def comp_iffs dest!: or_drop_run)
  then have "files_kept w w'"
    using files_relation.keepsD [OF start_services_files] files_relation.rel_refl by blast
  with run start_services_untouched [of h env options w e w'] show ?thesis
    by (auto simp: files_kept_def the_lock_def)
next
  case (Some path)
  from assms Some consider "w' = w" | "acquire h path w = Some (Inl e, w')"
    | w1 w2 where "acquire h path w = Some (Inr (), w1)" "start_services h env options w1 = Some (Inl e, w2)"
        "drop_lock (Some path) w2 = Some (Inr (), w')"
    by (auto simp: prepare_server_def comp_iffs dest!: or_drop_run)
  then show ?thesis
  proof cases
    case 2
    have "lk_held (the_lock p w') = lk_held (the_lock p w)" for p
      using lock_relation.keepsD [OF acquire_frame 2] acquire_held [OF 2]
      by (cases "p = path") (simp_all add: lock_frame_def)
    with lock_relation.keepsD [OF acquire_frame 2] show ?thesis by (simp add: lock_frame_def)
  next
    case 3
    have f: "mh_locks w2 = mh_locks w1" "mh_document w2 = mh_document w1"
      using files_relation.keepsD [OF start_services_files 3(2)] by (simp_all add: files_kept_def)
    then have same: "the_lock p w2 = the_lock p w1" for p by (simp add: the_lock_def)
    have w': "w' = w2\<lparr>mh_locks := bt_insert path ((the_lock path w2)\<lparr>lk_held := False\<rparr>) (mh_locks w2)\<rparr>"
      using 3(3) by (simp add: drop_lock_def set_lock_run)
    have "lk_held (the_lock p w') = lk_held (the_lock p w)" for p
      using lock_relation.keepsD [OF acquire_frame 3(1)] acquire_held [OF 3(1)] same
      by (cases "p = path") (simp_all add: lock_frame_def w' the_lock_set)
    with lock_relation.keepsD [OF acquire_frame 3(1)] f(2) start_services_untouched [OF 3(2)]
    show ?thesis by (simp add: lock_frame_def w')
  qed simp
qed

section \<open>A start that succeeds\<close>

definition host_ok :: "host \<Rightarrow> bool" where
  "host_ok h \<longleftrightarrow> (\<forall>c. \<not> ho_fails h c) \<and> ho_integrity_ok h \<and> ho_foreign_keys_ok h"

definition none_running :: "store \<Rightarrow> bool" where
  "none_running st \<longleftrightarrow> list_all (\<lambda>r. sr_phase r \<noteq> ''running'') (st_sessions st)"

text \<open>Room in every log for recovery and the interruptions of a restart.\<close>

definition disk_ok :: "serde \<Rightarrow> store \<Rightarrow> bool" where
  "disk_ok sd st \<longleftrightarrow> store_ok sd st \<and>
     (\<forall>k. find_session st k \<noteq> None \<longrightarrow> 2 * length (session_log sd st k) + 4 < i64_max)"

definition restart_storable :: "serde \<Rightarrow> bool" where
  "restart_storable sd \<longleftrightarrow> storable sd (SessionInterrupted ''server_restart'') \<and>
     (\<forall>run. storable sd (RunInterrupted run ''server_restart'')) \<and>
     (\<forall>run. storable sd (RunInterrupted run ''native_execution_interrupted_by_restart''))"

lemma store_connect_ok:
  assumes "host_ok h" and "store_ok sd st"
  shows "store_connect h sd url st = Inr (st\<lparr>st_cache := bt_empty\<rparr>) \<and> store_ok sd (st\<lparr>st_cache := bt_empty\<rparr>) \<and>
    (\<forall>k. session_log sd (st\<lparr>st_cache := bt_empty\<rparr>) k = session_log sd st k)"
proof -
  let ?st = "st\<lparr>st_cache := bt_empty\<rparr>"
  have ok: "store_ok sd ?st" using assms(2) by (rule store_ok_cache) simp_all
  then have "validate_all sd ?st = Inr ()" using validate_rows_ok [OF ok] by (simp add: validate_all_def)
  with assms(1) ok show ?thesis
    by (simp add: store_connect_def guard_err_def host_ok_def session_log_def select_events_def session_rows_def)
qed

lemma find_session_log:
  "store_ok sd st \<Longrightarrow> store_ok sd st' \<Longrightarrow> session_log sd st' k = session_log sd st k @ es \<Longrightarrow>
   find_session st k \<noteq> None \<Longrightarrow> find_session st' k \<noteq> None"
  using session_log_empty_iff [of sd st k] session_log_empty_iff [of sd st' k] by auto

lemma none_running_iff:
  assumes "store_ok sd st"
  shows "none_running st \<longleftrightarrow> (\<forall>k p. find_session st k \<noteq> None \<longrightarrow>
    apply_events (projection_new k) 1 (session_log sd st k) = Inr p \<longrightarrow> ss_phase (sp_state p) \<noteq> S_Running)"
proof -
  have d: "distinct (map sr_id (st_sessions st))" using assms by (simp add: store_ok_def refs_ok_def)
  have "none_running st \<longleftrightarrow> (\<forall>k r. find_session st k = Some r \<longrightarrow> sr_phase r \<noteq> ''running'')"
    using in_find_session [OF d] find_session_in by (fastforce simp: none_running_def list_all_iff)
  with running_iff [OF assms] show ?thesis by fastforce
qed

text \<open>The restart pass.\<close>

lemma resume_all:
  assumes "store_ok (en_serde env) (su_store s)" and "restart_storable (en_serde env)"
    and "\<And>k. find_session (su_store s) k \<noteq> None \<Longrightarrow> roomy (session_log (en_serde env) (su_store s) k)"
    and "none_running (su_store s)"
  shows "\<exists>s'. resume_ready_actions_after_restart env s = Some (Inr (), s') \<and>
    store_ok (en_serde env) (su_store s') \<and> none_running (su_store s') \<and>
    (\<forall>k. \<exists>more. session_log (en_serde env) (su_store s') k = session_log (en_serde env) (su_store s) k @ more)"
proof -
  let ?sd = "en_serde env"
  have sto: "storable ?sd (RunInterrupted run ''native_execution_interrupted_by_restart'')" for run
    using assms(2) by (simp add: restart_storable_def)
  from each_session_id [OF resume_after_restart_step [OF sto] assms(1,3)]
  obtain s' where s': "each (resume_after_restart env) (session_ids (su_store s)) s = Some (Inr (), s')"
    "store_ok ?sd (su_store s')"
    "\<forall>k. find_session (su_store s') k = None \<longleftrightarrow> find_session (su_store s) k = None"
    "\<forall>k. find_session (su_store s) k \<noteq> None \<longrightarrow>
       keeps_phase k (session_log ?sd (su_store s) k) (session_log ?sd (su_store s') k)" by blast
  have "none_running (su_store s')"
    unfolding none_running_iff [OF s'(2)]
  proof (intro allI impI)
    fix k p'
    assume k: "find_session (su_store s') k \<noteq> None"
      and p': "apply_events (projection_new k) 1 (session_log ?sd (su_store s') k) = Inr p'"
    from k s'(3) have found: "find_session (su_store s) k \<noteq> None" by simp
    with s'(4) p' obtain p where "apply_events (projection_new k) 1 (session_log ?sd (su_store s) k) = Inr p"
      "ss_phase (sp_state p') = ss_phase (sp_state p)" by (auto simp: keeps_phase_def)
    with found assms(4) show "ss_phase (sp_state p') \<noteq> S_Running"
      unfolding none_running_iff [OF assms(1)] by auto
  qed
  moreover have "\<exists>more. session_log ?sd (su_store s') k = session_log ?sd (su_store s) k @ more" for k
    using s'(3,4) session_log_empty_iff [OF s'(2), of k] session_log_empty_iff [OF assms(1), of k]
    by (cases "find_session (su_store s) k = None") (auto simp: keeps_phase_def)
  moreover have "resume_ready_actions_after_restart env s = Some (Inr (), s')"
    using s'(1) by (simp add: resume_ready_actions_after_restart_def bind_def run_simps)
  ultimately show ?thesis using s'(2) by blast
qed

definition app_fresh :: "'i config_manager \<Rightarrow> 'i app \<Rightarrow> bool" where
  "app_fresh m s \<longleftrightarrow> ax_manager s = m \<and> mcp_new (pq_mcp_servers (cm_config m)) = Inr (ax_mcp s) \<and>
     \<not> ax_shutting_down s \<and> \<not> ax_streams_closed s \<and> ax_fatal_reload_error s = None \<and>
     ax_sse_connections s = 0 \<and> ax_sse_by_session s = bt_empty"

lemma start_services_ok:
  assumes "host_ok h" and "manager_load (ae_manager env) (mh_document w) = Inr m"
    and "disk_ok (en_serde (ae_sup env)) (mh_disk w)" and "restart_storable (en_serde (ae_sup env))"
  shows "\<exists>s w'. start_services h env options w =
      Some (Inr \<lparr>pr_state = s, pr_auth_token = so_auth_token options, pr_instance_lock = so_instance_lock options\<rparr>, w') \<and>
    app_fresh m s \<and> (\<exists>st. admits (ae_sup env) (sup_start st) (ax_sup s)) \<and>
    mh_disk w' = su_store (ax_sup s) \<and> store_ok (en_serde (ae_sup env)) (mh_disk w') \<and>
    none_running (mh_disk w') \<and>
    (\<forall>k. \<exists>more. session_log (en_serde (ae_sup env)) (mh_disk w') k =
             session_log (en_serde (ae_sup env)) (mh_disk w) k @ more)"
proof -
  let ?sd = "en_serde (ae_sup env)" and ?clock = "en_clock (ae_sup env)"
  let ?st0 = "(mh_disk w)\<lparr>st_cache := bt_empty\<rparr>"
  have ok: "store_ok ?sd (mh_disk w)" using assms(3) by (simp add: disk_ok_def)
  note c = store_connect_ok [OF assms(1) ok, of "so_database options"]
  have found: "find_session ?st0 k = find_session (mh_disk w) k" for k by (simp add: find_session_def)
  have room0: "2 * length (session_log ?sd ?st0 k) + 4 < i64_max" if "find_session ?st0 k \<noteq> None" for k
    using assms(3) that c found by (simp add: disk_ok_def)
  have "length (session_log ?sd ?st0 k) + 2 \<le> i64_max" if "find_session ?st0 k \<noteq> None" for k
    using room0 [OF that] by simp
  from recover_running_ok [of ?sd ?st0 ?clock, OF _ this] c assms(4) obtain es st1 where
    r: "recover_running_sessions ?sd ?clock ?st0 = (Inr es, st1)" "store_ok ?sd st1"
    "\<forall>r \<in> set (st_sessions st1). sr_phase r \<noteq> ''running''"
    "\<forall>k. \<exists>more. session_log ?sd st1 k = session_log ?sd ?st0 k @ more \<and> length more \<le> 2"
    by (auto simp: restart_storable_def)
  from validated_servers [of _ "cm_config m"] manager_load_valid [OF assms(2)] obtain mcp where
    mcp: "mcp_new (pq_mcp_servers (cm_config m)) = Inr mcp" by blast
  have "app_new st1 m \<noteq> None" by (simp add: app_new_def mcp)
  then obtain s where new: "app_new st1 m = Some s" by blast
  then have s: "app_new st1 m = Some s" "app_fresh m s" "ax_sup s = sup_start st1"
    using mcp by (auto simp: app_new_def app_fresh_def)
  have sd: "en_serde (sup_env_of env s) = ?sd" by (simp add: sup_env_of_def)
  have "roomy (session_log ?sd st1 k)" if "find_session st1 k \<noteq> None" for k
  proof -
    from r(4) obtain more where more: "session_log ?sd st1 k = session_log ?sd ?st0 k @ more" "length more \<le> 2" by blast
    show ?thesis
    proof (cases "find_session ?st0 k = None")
      case True
      with c session_log_empty_iff [of ?sd ?st0 k] more show ?thesis by (simp add: roomy_def i64_max_def)
    qed (use room0 [of k] more in \<open>simp add: roomy_def\<close>)
  qed
  moreover have "none_running st1" using r(3) by (simp add: none_running_def list_all_iff)
  ultimately obtain u where u: "resume_ready_actions_after_restart (sup_env_of env s) (ax_sup s) = Some (Inr (), u)"
    "store_ok ?sd (su_store u)" "none_running (su_store u)"
    "\<forall>k. \<exists>more. session_log ?sd (su_store u) k = session_log ?sd st1 k @ more"
    using resume_all [of "sup_env_of env s" "ax_sup s"] r(2) assms(4) unfolding sd s(3)
    by (auto simp: sup_start_def)
  let ?s = "s\<lparr>ax_sup := u\<rparr>" and ?w = "w\<lparr>mh_disk := su_store u\<rparr>"
  have "start_services h env options w =
      Some (Inr \<lparr>pr_state = ?s, pr_auth_token = so_auth_token options, pr_instance_lock = so_instance_lock options\<rparr>, ?w)"
    using assms(1,2) c r(1) s(1) u(1)
    by (simp add: start_services_def bind_def run_simps connect_store_def recover_store_def construct_app_def
        resume_ready_def check_def host_ok_def)
  moreover have "\<exists>more. session_log ?sd (su_store u) k = session_log ?sd (mh_disk w) k @ more" for k
    using u(4) r(4) c by (metis append_assoc)
  moreover have "app_fresh m ?s" using s(2) by (simp add: app_fresh_def)
  moreover have "admits (ae_sup env) (sup_start st1) u"
    using admission_relation.keepsD [OF admission_bound.keeps_restart u(1)] s(3)
    by (simp add: admits_def admission_fresh_def sup_env_of_def)
  ultimately show ?thesis using u(2,3) by (intro exI [of _ ?s] exI [of _ ?w]) auto
qed

lemma prepare_server_ok:
  assumes "host_ok h" and "is_loopback (sa_ip (so_bind options))"
    and "\<And>path. so_instance_lock options = Some path \<Longrightarrow> \<not> lk_held (the_lock path w)"
    and "manager_load (ae_manager env) (mh_document w) = Inr m"
    and "disk_ok (en_serde (ae_sup env)) (mh_disk w)" and "restart_storable (en_serde (ae_sup env))"
  shows "\<exists>s w'. prepare_server h env options w =
      Some (Inr \<lparr>pr_state = s, pr_auth_token = so_auth_token options, pr_instance_lock = so_instance_lock options\<rparr>, w') \<and>
    app_fresh m s \<and> (\<exists>st. admits (ae_sup env) (sup_start st) (ax_sup s)) \<and>
    mh_disk w' = su_store (ax_sup s) \<and> store_ok (en_serde (ae_sup env)) (mh_disk w') \<and>
    none_running (mh_disk w') \<and>
    (\<forall>k. \<exists>more. session_log (en_serde (ae_sup env)) (mh_disk w') k =
             session_log (en_serde (ae_sup env)) (mh_disk w) k @ more) \<and>
    (\<forall>path. so_instance_lock options = Some path \<longrightarrow>
       lk_held (the_lock path w') \<and> lk_content (the_lock path w') = decimal (ho_pid h) @ [LF])"
proof -
  let ?lock = "case so_instance_lock options of None \<Rightarrow> ret () | Some path \<Rightarrow> acquire h path"
  obtain w1 where w1: "?lock w = Some (Inr (), w1)" "mh_disk w1 = mh_disk w" "mh_document w1 = mh_document w"
    "\<And>path. so_instance_lock options = Some path \<Longrightarrow> lk_held (the_lock path w1) \<and>
       lk_content (the_lock path w1) = decimal (ho_pid h) @ [LF]"
  proof (cases "so_instance_lock options")
    case None
    with that [of w] show ?thesis by (simp add: run_simps)
  next
    case (Some path)
    with acquire_ok [of h path w] assms(1,3) obtain w1 where a: "acquire h path w = Some (Inr (), w1)"
      by (auto simp: host_ok_def)
    from lock_relation.keepsD [OF acquire_frame a] acquire_held [OF a] Some a that [of w1] show ?thesis
      by (simp add: lock_frame_def)
  qed
  from start_services_ok [of h env w1 m options, unfolded w1(2,3), OF assms(1,4-6)] obtain s w' where
    s: "start_services h env options w1 = Some (Inr \<lparr>pr_state = s, pr_auth_token = so_auth_token options,
        pr_instance_lock = so_instance_lock options\<rparr>, w')"
    "app_fresh m s \<and> (\<exists>st. admits (ae_sup env) (sup_start st) (ax_sup s))"
    "mh_disk w' = su_store (ax_sup s)" "store_ok (en_serde (ae_sup env)) (mh_disk w')"
    "none_running (mh_disk w')"
    "\<forall>k. \<exists>more. session_log (en_serde (ae_sup env)) (mh_disk w') k =
             session_log (en_serde (ae_sup env)) (mh_disk w) k @ more" by blast
  have locks: "the_lock path w' = the_lock path w1" for path
    using files_relation.keepsD [OF start_services_files s(1)] by (simp add: files_kept_def the_lock_def)
  have "prepare_server h env options w = Some (Inr \<lparr>pr_state = s, pr_auth_token = so_auth_token options,
        pr_instance_lock = so_instance_lock options\<rparr>, w')"
    using assms(2) w1(1) s(1)
    by (simp add: prepare_server_def bind_def run_simps validate_bind_address_def map_err_def or_drop_def attempt_def)
  with s(2-6) w1(4) locks show ?thesis by auto
qed

section \<open>Shutdown\<close>

definition shutdown_storable :: "serde \<Rightarrow> bool" where
  "shutdown_storable sd \<longleftrightarrow> (\<forall>run. storable sd (RunInterrupted run ''server_shutdown'')) \<and>
     storable sd (SessionPhaseChanged S_Running S_Interrupted (Some ''server_shutdown''))"

definition shutdown_result :: "bool \<Rightarrow> bool \<Rightarrow> string option \<Rightarrow> (server_error, unit) result" where
  "shutdown_result finished served reload =
     (if \<not> finished then Inl Sv_ShutdownTimeout
      else if \<not> served then Inl Sv_Io
      else case reload of None \<Rightarrow> Inr () | Some message \<Rightarrow> Inl (ConfigReload message))"

text \<open>Nothing of the server is left running.\<close>

definition stopped :: "'i app \<Rightarrow> bool" where
  "stopped s \<longleftrightarrow> ax_shutting_down s \<and> ax_streams_closed s \<and> mm_running (ax_mcp s) = [] \<and>
     su_workers (ax_sup s) = [] \<and> su_shutdown (ax_sup s)"

lemma returns_mcp_shutdown: "\<exists>r m'. mcp_shutdown m = Some (r, m')"
proof -
  have "returns mcp_shutdown"
    unfolding mcp_shutdown_def stop_server_def stop_entry_def stop_connection_def put_entry_def
    by (intro returns_intros)
  then show ?thesis by (fastforce simp: returns_def)
qed

lemma run_shutdown_ok:
  assumes "store_ok (en_serde (ae_sup env)) (su_store (ax_sup s))"
    and "\<And>k. find_session (su_store (ax_sup s)) k \<noteq> None \<Longrightarrow>
          roomy (session_log (en_serde (ae_sup env)) (su_store (ax_sup s)) k)"
    and "shutdown_storable (en_serde (ae_sup env))" and "mcp_ok (ax_mcp s)"
  shows "\<exists>s'. run_shutdown env finished served s =
      Some (shutdown_result finished served (ax_fatal_reload_error s), s') \<and>
    stopped s' \<and> store_ok (en_serde (ae_sup env)) (su_store (ax_sup s')) \<and>
    (\<forall>k. find_session (su_store (ax_sup s')) k = None \<longleftrightarrow> find_session (su_store (ax_sup s)) k = None) \<and>
    (\<forall>k. find_session (su_store (ax_sup s)) k \<noteq> None \<longrightarrow>
       quietens k (session_log (en_serde (ae_sup env)) (su_store (ax_sup s)) k)
         (session_log (en_serde (ae_sup env)) (su_store (ax_sup s')) k))"
proof -
  let ?sd = "en_serde (ae_sup env)" and ?se = "sup_env_of env (s\<lparr>ax_shutting_down := True\<rparr>)"
  have sd: "en_serde ?se = ?sd" by (simp add: sup_env_of_def)
  from shutdown_quiet [of ?se "ax_sup s" finished] assms(1-3) obtain u where
    u: "shutdown ?se finished (ax_sup s) = Some (if finished then Inr () else Inl ShutdownTimeout, u)"
    "store_ok ?sd (su_store u)" "su_workers u = []" "su_shutdown u"
    "\<forall>k. find_session (su_store u) k = None \<longleftrightarrow> find_session (su_store (ax_sup s)) k = None"
    "\<forall>k. find_session (su_store (ax_sup s)) k \<noteq> None \<longrightarrow>
       quietens k (session_log ?sd (su_store (ax_sup s)) k) (session_log ?sd (su_store u) k)"
    unfolding sd shutdown_storable_def by blast
  obtain r m where m: "mcp_shutdown (ax_mcp s) = Some (r, m)" using returns_mcp_shutdown by blast
  from mcp_shutdown_empty [OF assms(4) m] have empty: "mm_running m = []" .
  let ?s = "s\<lparr>ax_shutting_down := True, ax_sup := u, ax_mcp := m, ax_streams_closed := True\<rparr>"
  have "cleanup env finished s = Some (if finished then Inr () else Inl ShutdownTimeout, ?s)"
    using u(1) m
    by (simp add: cleanup_def begin_shutdown_def close_streams_def sup_do_def mcp_do_def ignore_result_def
        bind_def attempt_def run_simps)
  then have "run_shutdown env finished served s = Some (shutdown_result finished served (ax_fatal_reload_error s),
      if finished \<and> served then ?s\<lparr>ax_fatal_reload_error := None\<rparr> else ?s)"
    by (simp add: run_shutdown_def bind_def attempt_def run_simps check_def take_fatal_reload_error_def
        shutdown_result_def map_err_def map_shutdown_error_def split: option.splits)
  then show ?thesis using u empty by (auto simp: stopped_def)
qed

text \<open>A server that is shutting down answers every request with a refusal.\<close>

lemma refused_when_stopped:
  assumes "ax_shutting_down s"
  shows "\<exists>r s'. router_with_token env token request s = Some (r, s') \<and> hr_status r \<in> {401, 503} \<and>
    ax_sup s' = ax_sup s \<and> ax_manager s' = ax_manager s \<and> ax_mcp s' = ax_mcp s"
  using assms
  by (auto simp: router_with_token_def authenticate_request_def metrics_layer_def shutdown_layer_def
      unauthorized_response_def shutting_down_response_def with_header_def failure_def
      split: option.splits)

lemma quiet_none_running:
  assumes "store_ok sd st"
    and "\<And>k. find_session st k \<noteq> None \<Longrightarrow> \<exists>p. apply_events (projection_new k) 1 (session_log sd st k) = Inr p \<and> quiet p"
  shows "none_running st"
  unfolding none_running_iff [OF assms(1)] using assms(2) by (fastforce simp: quiet_def)

lemma nothing_to_recover: "none_running st \<Longrightarrow> recover_running_sessions sd clock st = (Inr [], st)"
  by (simp add: none_running_def recover_running_sessions_def filter_empty_conv [THEN iffD2] list_all_iff)

section \<open>Starting always ends\<close>

lemma start_services_returns: "\<exists>r w'. start_services h env options w = Some (r, w')"
proof -
  have "returns (resume_ready_actions_after_restart se)" for se
    unfolding resume_ready_actions_after_restart_def resume_after_restart_def project_of_def
      sup_append_many_def store_do_def spawn_worker_def Let_def
    by (intro returns_intros)
  then have resume: "\<exists>r w'. resume_ready env s w = Some (r, w')" for s w
    by (fastforce simp: returns_def resume_ready_def split: option.splits)
  have ready: "\<exists>r w'. bind (resume_ready env s) (\<lambda>s. ret (f s)) w = Some (r, w')" for s w and f :: "_ \<Rightarrow> 'b"
    using resume [of s w] by (auto simp: bind_def run_simps split: sum.splits)
  show ?thesis
  proof (cases "manager_load (ae_manager env) (mh_document w)")
    case (Inr m)
    from validated_servers manager_load_valid [OF Inr] have "\<forall>st. \<exists>s. app_new st m = Some s"
      by (fastforce simp: app_new_def)
    then obtain new where "\<forall>st. app_new st m = Some (new st)" by metis
    then show ?thesis
      using Inr ready
      by (auto simp: start_services_def bind_def [of "gets _"] bind_def [of "of_result _"]
          bind_def [of "connect_store _ _ _"] bind_def [of "recover_store _ _"] bind_def [of "check _ _"]
          bind_def [of "construct_app _"] run_simps connect_store_def recover_store_def construct_app_def
          check_def split: sum.splits prod.splits option.splits)
  qed (simp add: start_services_def bind_def run_simps)
qed

lemma returns_acquire: "returns (acquire h path)" "returns (drop_lock lock)"
  unfolding acquire_def or_drop_def drop_lock_def io_def set_lock_def by (intro returns_intros)+

lemma prepare_server_returns: "\<exists>r w'. prepare_server h env options w = Some (r, w')"
proof -
  have "returns (start_services h env options)" using start_services_returns by (fastforce simp: returns_def)
  then have "returns (prepare_server h env options)"
    unfolding prepare_server_def or_drop_def by (intro returns_intros returns_acquire)
  then show ?thesis by (fastforce simp: returns_def)
qed

lemma prepare_server_prepared:
  assumes "prepare_server h env options w = Some (Inr p, w')"
  shows "pr_auth_token p = so_auth_token options \<and> pr_instance_lock p = so_instance_lock options \<and>
    is_loopback (sa_ip (so_bind options)) \<and>
    (\<forall>path. if so_instance_lock options = Some path
        then \<not> lk_held (the_lock path w) \<and> lk_held (the_lock path w') else the_lock path w' = the_lock path w)"
proof -
  have loop: "is_loopback (sa_ip (so_bind options))"
    using assms by (auto simp: prepare_server_def comp_iffs validate_bind_address_def split: if_splits)
  from assms obtain w1 where lock: "(case so_instance_lock options of None \<Rightarrow> ret () | Some path \<Rightarrow> acquire h path) w =
      Some (Inr (), w1)" and start: "start_services h env options w1 = Some (Inr p, w')"
    by (auto simp: prepare_server_def comp_iffs dest!: or_drop_run)
  have same: "the_lock path w' = the_lock path w1" for path
    using files_relation.keepsD [OF start_services_files start] by (simp add: files_kept_def the_lock_def)
  from start have p: "pr_auth_token p = so_auth_token options" "pr_instance_lock p = so_instance_lock options"
    by (auto simp: start_services_def comp_iffs)
  show ?thesis
  proof (cases "so_instance_lock options")
    case None
    with lock p loop same show ?thesis by (simp add: run_simps)
  next
    case (Some path)
    with lock have a: "acquire h path w = Some (Inr (), w1)" by simp
    from lock_relation.keepsD [OF acquire_frame a] acquire_held [OF a] Some p loop same show ?thesis
      by (simp add: lock_frame_def)
  qed
qed

end
