(* ===== verification/Server_Sound.thy ===== *)
theory Server_Sound
  imports Runtime_Guarantees
begin

text \<open>
  The invariant of the whole server: whatever requests, workers, notifications and discoveries
  run, the store stays well-formed, the configuration stays valid and the MCP servers stay
  supervised.
\<close>

section \<open>The writes of the API keep the store well-formed\<close>

lemma branch_loop_fits:
  "branch_loop sd sid time (Suc n) p st es = Inr x \<Longrightarrow> es \<noteq> [] \<Longrightarrow> n + length es \<le> i64_max"
proof (induction es arbitrary: n p st)
  case (Cons e es)
  from Cons.prems(1) obtain p' st2 where n: "Suc n \<le> i64_max"
    and rest: "branch_loop sd sid time (Suc (Suc n)) p' st2 es = Inr x"
    by (auto simp: and_then_eq_Inr Let_def i64_try_from_def u64_checked_add_def ok_or_def
        split: option.splits if_splits)
  show ?case
  proof (cases "es = []")
    case False
    from Cons.IH [OF rest this] show ?thesis by simp
  qed (use n in simp)
qed simp

lemma fork_session_keeps:
  assumes ok: "store_ok sd st" and run: "fork_session sd sid time parent point title st = Inr (s, st')"
    and sto: "storable sd (SessionForked parent point)" "storable sd QueuePaused"
      "\<And>run. storable sd (RunInterrupted run ''forked_branch'')"
  shows "store_ok sd st'"
proof -
  from run obtain prow where find: "find_session st parent = Some prow" and big: "point \<le> i64_max"
    by (auto simp: fork_session_def and_then_eq_Inr ok_or_def i64_try_from_def split: option.splits if_splits)
  obtain recs p0 where view: "session_view sd st parent prow recs p0" using ok find by (rule session_facts)
  let ?rows = "filter (\<lambda>r. er_event_id r \<le> point) (session_rows st parent)"
  have last: "?rows \<noteq> [] \<and> er_event_id (last ?rows) = point"
    using run find big by (auto simp: fork_session_def Let_def i64_try_from_def split: if_splits)
  have ids: "map er_event_id (session_rows st parent) = [1..<1 + length (session_rows st parent)]"
    by (rule session_view_ids [OF view])
  have len: "length (session_rows st parent) = length recs"
    using view select_events_length [of sd st parent recs] by (simp add: session_view_def)
  have "last ?rows \<in> set (session_rows st parent)" using last last_in_set [of ?rows] by auto
  then have "point \<in> set (map er_event_id (session_rows st parent))" using last by force
  then have ran: "1 \<le> point" "point \<le> length recs" unfolding ids using len by auto
  note log = session_log_view [OF view]
  obtain p where p: "project_log parent (take point recs) = Inr p"
    and ap: "apply_events (projection_new parent) 1 (take point (map re_event recs)) = Inr p"
    and rev: "ss_revision (sp_state p) \<le> point"
    and c: "collect (map (recorded_from_row sd parent) (take point (session_rows st parent))) = Inr (take point recs)"
    by (rule prefix_view [OF view ran])
  have filt: "?rows = take point (session_rows st parent)"
    using filter_upto [OF session_view_ids [OF view], of point] by simp
  have prow: "sr_id prow = parent" using find_session_in [OF find] by simp
  from run find last big c p rev obtain st1 st2 q st3 where
    ins: "insert_session (fork_row sid time title prow point p) st = Inr st1"
    and loop: "branch_loop sd sid time (Suc point) p st2 (branch_events parent point p) = Inr (q, st3)"
    unfolding fork_session_def Let_def
    by (auto simp: filt and_then_eq_Inr i64_try_from_def u64_checked_add_def ok_or_def fork_row_def
        prow split: if_splits)
  have fresh: "find_session st sid = None"
    using ins by (auto simp: insert_session_def fork_row_def split: if_splits)
  have room: "point + length (branch_events parent point p') \<le> i64_max"
    if "apply_events (projection_new parent) 1 (take point (session_log sd st parent)) = Inr p'" for p'
    using that ap branch_loop_fits [OF loop length_branch_events(1)] by (simp add: log take_map)
  from fork_session_room [OF ok find fresh ran(1) _ room sto, of time title] ran(2) log run show ?thesis by auto
qed

lemma create_session_keeps:
  assumes "store_ok sd st" and "create_session_with_retention sd sid time title project h st = Inr (x, st')"
    and "storable sd (SessionCreated title)"
  shows "store_ok sd st'"
proof -
  from assms(2) have fresh: "find_session st sid = None"
    and proj: "case project of None \<Rightarrow> True | Some q \<Rightarrow> find_project st q \<noteq> None"
    by (auto simp: create_session_with_retention_def insert_session_def and_then_eq_Inr
        split: option.splits if_splits)
  from create_session_ok [OF assms(1) fresh proj assms(3), of time h] assms(2) show ?thesis by auto
qed

lemma store_ok_projects:
  assumes "store_ok sd st" and "\<And>k. find_project st k \<noteq> None \<Longrightarrow> find_project (st\<lparr>st_projects := ps\<rparr>) k \<noteq> None"
  shows "store_ok sd (st\<lparr>st_projects := ps\<rparr>)"
proof -
  let ?st = "st\<lparr>st_projects := ps\<rparr>"
  have find: "find_session ?st k = find_session st k" "session_rows ?st k = session_rows st k" for k
    by (simp_all add: find_session_def session_rows_def)
  have rep: "replay sd ?st k = replay sd st k" for k by (rule replay_same) (rule find)
  have "row_agrees sd ?st r = row_agrees sd st r" for r
    by (cases "replay sd st (sr_id r)") (simp_all add: row_agrees_def rep find)
  moreover have "refs_ok ?st"
    using assms by (auto simp: store_ok_def refs_ok_def find list_all_iff split: option.splits)
  ultimately show ?thesis using assms(1) by (simp add: store_ok_def cache_ok_def rep find)
qed

lemma find_None_append: "List.find P (xs @ ys) = None \<longleftrightarrow> List.find P xs = None \<and> List.find P ys = None"
  by (induction xs) auto

lemma find_None_map: "(\<And>x. P (f x) = P x) \<Longrightarrow> List.find P (map f xs) = None \<longleftrightarrow> List.find P xs = None"
  by (induction xs) auto

lemma create_project_keeps:
  assumes "store_ok sd st" and "create_project pid time name path st = Inr (x, st')"
  shows "store_ok sd st'"
proof -
  from assms(2) obtain row where "st' = st\<lparr>st_projects := st_projects st @ [row]\<rparr>"
    by (auto simp: create_project_def Let_def and_then_eq_Inr split: if_splits)
  then show ?thesis
    using store_ok_projects [OF assms(1), of "st_projects st @ [row]"]
    by (simp add: find_project_def find_None_append del: not_None_eq)
qed

lemma update_project_keeps:
  assumes "store_ok sd st" and "update_project time pid name path st = Inr (x, st')"
  shows "store_ok sd st'"
proof -
  from assms(2) obtain n q where st': "st' = st\<lparr>st_projects := map (\<lambda>r. if pw_id r = pid
      then r\<lparr>pw_name := n, pw_path := q, pw_updated_at := time\<rparr> else r) (st_projects st)\<rparr>"
    by (auto simp: update_project_def Let_def and_then_eq_Inr split: if_splits)
  show ?thesis
    unfolding st' by (rule store_ok_projects [OF assms(1)]) (simp add: find_project_def find_None_map del: not_None_eq)
qed

lemma update_retention_keeps:
  assumes ok: "store_ok sd st" and run: "update_session_retention sid h st = Inr (x, st')"
  shows "store_ok sd st'"
proof -
  let ?f = "\<lambda>r. if sr_id r = sid then r\<lparr>sr_history_retention := retention_as_str h\<rparr> else r"
  have st': "st' = st\<lparr>st_sessions := map ?f (st_sessions st)\<rparr>"
    using run by (auto simp: update_session_retention_def update_session_def Let_def and_then_eq_Inr split: if_splits)
  have ids: "map sr_id (map ?f (st_sessions st)) = map sr_id (st_sessions st)" by simp
  have rows: "session_rows st' k = session_rows st k" for k by (simp add: st' session_rows_def)
  have rep: "replay sd st' k = replay sd st k" for k by (rule replay_same) (rule rows)
  have found: "find_session st' k = None \<longleftrightarrow> find_session st k = None" for k
    by (simp add: st' find_session_def find_None_map)
  have agree: "row_agrees sd st' (?f r) = row_agrees sd st r" for r
    by (cases "replay sd st (sr_id r)"; cases "sr_id r = sid") (simp_all add: row_agrees_def rep rows)
  have same: "st_events st' = st_events st" "st_cache st' = st_cache st" "\<And>k. find_project st' k = find_project st k"
    "map sr_id (st_sessions st') = map sr_id (st_sessions st)"
    by (simp_all add: st' find_project_def)
  have project: "sr_project_id (?f r) = sr_project_id r" for r by simp
  have "refs_ok st'"
    using ok unfolding store_ok_def refs_ok_def same found
    by (auto simp: st' list_all_iff project simp del: if_split)
  moreover have "cache_ok sd st'"
    using ok unfolding store_ok_def cache_ok_def rep same found by simp
  moreover have "list_all (\<lambda>r. row_agrees sd st' r \<and> retention_ok r) (st_sessions st')"
  proof -
    have "retention_ok (?f r)" if "retention_ok r" for r
      using that by (cases "sr_id r = sid") (simp_all add: retention_ok_def)
    then have "list_all (\<lambda>r. row_agrees sd st' (?f r) \<and> retention_ok (?f r)) (st_sessions st)"
      using ok unfolding agree store_ok_def list_all_iff by blast
    moreover have "st_sessions st' = map ?f (st_sessions st)" by (simp add: st')
    ultimately show ?thesis by (simp only: list.pred_map o_def)
  qed
  ultimately show ?thesis by (simp add: store_ok_def)
qed

lemma delete_rule_keeps:
  "store_ok sd st \<Longrightarrow> delete_permission_rule rid st = Inr st' \<Longrightarrow> store_ok sd st'"
  by (auto simp: delete_permission_rule_def store_ok_rules_links split: if_splits)

section \<open>The supervisor's part\<close>

text \<open>
  The store stays well-formed as far as serde keeps what is written: the published events, and what
  creating and forking a session write without publishing. The admission counters stay right.
\<close>

definition writes_ok :: "serde \<Rightarrow> recorded_event list \<Rightarrow> bool" where
  "writes_ok sd ext \<longleftrightarrow> serde_keeps sd ext \<and> storable sd QueuePaused \<and>
     (\<forall>parent n. storable sd (SessionForked parent n)) \<and>
     (\<forall>run. storable sd (RunInterrupted run ''forked_branch''))"

definition steady :: "sup_env \<Rightarrow> sup \<Rightarrow> sup \<Rightarrow> bool" where
  "steady env s s' \<longleftrightarrow> admits env s s' \<and>
     (\<exists>ext. su_published s' = su_published s @ ext \<and>
        (store_ok (en_serde env) (su_store s) \<and> writes_ok (en_serde env) ext \<longrightarrow>
         store_ok (en_serde env) (su_store s')))"

lemma writes_ok_append [simp]: "writes_ok sd (xs @ ys) \<longleftrightarrow> writes_ok sd xs \<and> writes_ok sd ys"
  by (auto simp: writes_ok_def)

lemma steady_refl: "steady env s s"
  unfolding steady_def using admission_relation.rel_refl by (intro conjI exI [of _ "[]"]) auto

lemma steady_trans:
  assumes "steady env s t" and "steady env t u"
  shows "steady env s u"
proof -
  from assms obtain x y where "su_published t = su_published s @ x" "su_published u = su_published t @ y"
    "store_ok (en_serde env) (su_store s) \<and> writes_ok (en_serde env) x \<longrightarrow> store_ok (en_serde env) (su_store t)"
    "store_ok (en_serde env) (su_store t) \<and> writes_ok (en_serde env) y \<longrightarrow> store_ok (en_serde env) (su_store u)"
    unfolding steady_def by blast
  moreover have "admits env s u"
    using assms admission_relation.rel_trans unfolding steady_def by blast
  ultimately show ?thesis unfolding steady_def by (intro conjI exI [of _ "x @ y"]) auto
qed

interpretation steady_relation: state_relation "steady env" for env :: sup_env
  by unfold_locales (rule steady_refl, rule steady_trans)

lemma steady_of:
  assumes "log_relation.keeps (en_serde env) m" and "admission_relation.keeps env m"
  shows "steady_relation.keeps env m"
proof (rule steady_relation.keepsI)
  fix s r s'
  assume run: "m s = Some (r, s')"
  from log_relation.keepsD [OF assms(1) run] admission_relation.keepsD [OF assms(2) run]
  show "steady env s s'" unfolding grows_def steady_def writes_ok_def by blast
qed

lemma steady_frame:
  "su_store s' = su_store s \<Longrightarrow> su_published s' = su_published s \<Longrightarrow> su_admission s' = su_admission s \<Longrightarrow>
   su_fresh s \<le> su_fresh s' \<Longrightarrow> steady env s s'"
  unfolding steady_def using admits_frame by (intro conjI exI [of _ "[]"]) auto

interpretation steady_control: supervised "steady env" env for env :: sup_env
proof
qed (rule steady_frame steady_of log_growth.keeps_project log_growth.keeps_append log_growth.keeps_append_many
      log_growth.keeps_create log_growth.keeps_link log_growth.keeps_rule log_growth.keeps_admit
      log_growth.keeps_release admission_bound.keeps_project admission_bound.keeps_append
      admission_bound.keeps_append_many admission_bound.keeps_create admission_bound.keeps_link
      admission_bound.keeps_rule admission_bound.keeps_admit admission_bound.keeps_release; assumption?)+

lemma steady_store_do:
  assumes "\<And>st x st'. store_ok (en_serde env) st \<Longrightarrow> writes_ok (en_serde env) [] \<Longrightarrow> f st = Inr (x, st') \<Longrightarrow>
    store_ok (en_serde env) st'"
  shows "steady_relation.keeps env (store_do f)"
proof (rule steady_relation.keepsI)
  fix s r s'
  assume run: "store_do f s = Some (r, s')"
  have "admits env s s'" by (rule admission_relation.keepsD [OF admission_store_do run])
  with run assms show "steady env s s'"
    unfolding steady_def
    by (intro conjI exI [of _ "[]"]) (auto simp: store_do_Some split: sum.splits prod.splits)
qed

lemma writes_ok_created: "writes_ok sd [] \<Longrightarrow> storable sd (SessionCreated title)"
  by (simp add: writes_ok_def serde_keeps_def)

lemma steady_writes:
  "steady_relation.keeps env (store_do (create_project pid time name path))"
  "steady_relation.keeps env (store_do (update_project time pid n q))"
  "steady_relation.keeps env (store_do (create_session_with_retention (en_serde env) sid time title project h))"
  "steady_relation.keeps env (store_do (update_session_retention sid h))"
  "steady_relation.keeps env (store_do (fork_session (en_serde env) sid time parent k title))"
  "steady_relation.keeps env (store_do (\<lambda>st. and_then (delete_permission_rule rid st) (\<lambda>st'. Inr ((), st'))))"
  "steady_relation.keeps env (store_do (\<lambda>st. and_then (delete_project pid st) (\<lambda>st'. Inr ((), st'))))"
proof -
  show "steady_relation.keeps env (store_do (fork_session (en_serde env) sid time parent k title))"
    by (rule steady_store_do) (blast intro: fork_session_keeps dest: writes_ok_def [THEN iffD1])
  show "steady_relation.keeps env (store_do (\<lambda>st. and_then (delete_permission_rule rid st) (\<lambda>st'. Inr ((), st'))))"
    by (rule steady_store_do) (auto simp: and_then_eq_Inr intro: delete_rule_keeps)
  show "steady_relation.keeps env (store_do (\<lambda>st. and_then (delete_project pid st) (\<lambda>st'. Inr ((), st'))))"
    by (rule steady_store_do) (auto simp: and_then_eq_Inr dest: delete_project_ok)
qed (rule steady_store_do; blast intro: create_project_keeps update_project_keeps create_session_keeps
      writes_ok_created update_retention_keeps)+

lemmas steady_ops = steady_control.keeps_commands steady_control.keeps_worker
  steady_control.keeps_delete [OF steady_writes(7)] steady_control.keeps_small steady_control.keeps_read
  steady_control.keeps_project steady_writes

section \<open>The whole server\<close>

definition streams_ok :: "resource_limits \<Rightarrow> 'i app \<Rightarrow> bool" where
  "streams_ok limits s \<longleftrightarrow> ax_sse_connections s \<le> rl_max_sse_connections limits \<and>
     (\<forall>k n. bt_get (ax_sse_by_session s) k = Some n \<longrightarrow> n \<le> rl_max_sse_connections_per_session limits)"

definition app_steady :: "'i api_env \<Rightarrow> 'i app \<Rightarrow> 'i app \<Rightarrow> bool" where
  "app_steady env s s' \<longleftrightarrow>
     steady (ae_sup env) (ax_sup s) (ax_sup s') \<and>
     manager_progress (ae_manager env) (ax_manager s) (ax_manager s') \<and>
     (mcp_ok (ax_mcp s) \<longrightarrow> mcp_ok (ax_mcp s')) \<and>
     (streams_ok (en_limits (ae_sup env)) s \<longrightarrow> streams_ok (en_limits (ae_sup env)) s')"

interpretation app_relation: state_relation "app_steady env" for env :: "'i api_env"
proof
  show "app_steady env s s" for s
    by (simp add: app_steady_def steady_refl manager_relation.rel_refl)
  show "app_steady env s u" if "app_steady env s t" "app_steady env t u" for s t u
    using that steady_trans manager_relation.rel_trans unfolding app_steady_def by blast
qed

abbreviation served_steady :: "'i api_env \<Rightarrow> ('i app, 'e, 'a) comp \<Rightarrow> bool" where
  "served_steady env \<equiv> state_relation.keeps (app_steady env)"

lemma steady_env_of: "steady (sup_env_of env s) = steady (ae_sup env)"
  by (rule ext)+ (simp add: steady_def sup_env_of_def admits_def admission_fresh_def)

lemma app_steady_sup: "steady (ae_sup env) (ax_sup s) u \<Longrightarrow> app_steady env s (s\<lparr>ax_sup := u\<rparr>)"
  by (simp add: app_steady_def manager_relation.rel_refl streams_ok_def)

lemma served_in_sup:
  assumes "\<And>se. en_serde se = en_serde (ae_sup env) \<Longrightarrow> steady_relation.keeps se (f se)"
  shows "served_steady env (in_sup env f)" and "served_steady env (sup_do env f)"
proof -
  have se: "steady_relation.keeps (sup_env_of env s) (f (sup_env_of env s))" for s
    by (rule assms) (simp add: sup_env_of_def)
  have "app_steady env s (s\<lparr>ax_sup := u\<rparr>)" if "f (sup_env_of env s) (ax_sup s) = Some (r, u)" for s r u
    using steady_relation.keepsD [OF se that] by (simp add: steady_env_of app_steady_sup)
  then show "served_steady env (in_sup env f)" "served_steady env (sup_do env f)"
    by (auto intro!: app_relation.keepsI simp: in_sup_def sup_do_def split: option.splits prod.splits)
qed

lemma served_in_manager: "progresses (ae_manager env) m \<Longrightarrow> served_steady env (in_manager m)"
  by (auto intro!: app_relation.keepsI simp: in_manager_def app_steady_def steady_refl streams_ok_def
      dest: manager_relation.keepsD split: option.splits prod.splits)

lemma app_steady_mcp: "(mcp_ok (ax_mcp s) \<longrightarrow> mcp_ok m) \<Longrightarrow> app_steady env s (s\<lparr>ax_mcp := m\<rparr>)"
  by (simp add: app_steady_def steady_refl manager_relation.rel_refl streams_ok_def)

lemma served_mcp:
  assumes "mcp_keeps m"
  shows "served_steady env (mcp_do m)"
  by (rule app_relation.keepsI)
     (auto simp: mcp_do_def split: option.splits prod.splits
       intro!: app_steady_mcp [OF mcp_relation.keepsD [OF assms]])

lemma served_reconcile: "served_steady env (mcp_reconcile_do env)"
  by (rule app_relation.keepsI)
     (auto simp: mcp_reconcile_do_def split: option.splits prod.splits
       intro!: app_steady_mcp [OF mcp_relation.keepsD [OF keeps_reconcile]])

lemma served_modify:
  "(\<And>s. ax_manager (g s) = ax_manager s \<and> ax_mcp (g s) = ax_mcp s \<and> ax_sse_connections (g s) = ax_sse_connections s \<and>
     ax_sse_by_session (g s) = ax_sse_by_session s \<and> steady (ae_sup env) (ax_sup s) (ax_sup (g s))) \<Longrightarrow>
   served_steady env (modify g)"
  by (rule app_relation.keeps_modify) (simp add: app_steady_def manager_relation.rel_refl streams_ok_def)

lemma served_streams:
  "served_steady env (acquire_sse_connection (en_limits (ae_sup env)) sid)"
  "served_steady env (release_sse_connection sid)"
proof -
  show "served_steady env (acquire_sse_connection (en_limits (ae_sup env)) sid)"
  proof (rule app_relation.keepsI)
    fix s s' :: "'a app" and r
    assume "acquire_sse_connection (en_limits (ae_sup env)) sid s = Some (r, s')"
    then show "app_steady env s s'"
      by (auto simp: acquire_sse_connection_def comp_iffs app_steady_def steady_refl manager_relation.rel_refl
          streams_ok_def unwrap_or_def split: if_splits option.splits) (metis le_neq_implies_less)
  qed
  show "served_steady env (release_sse_connection sid)"
  proof (rule app_relation.keepsI)
    fix s s' :: "'a app" and r
    assume "release_sse_connection sid s = Some (r, s')"
    then show "app_steady env s s'"
      by (auto simp: release_sse_connection_def comp_iffs app_steady_def steady_refl manager_relation.rel_refl
          streams_ok_def unwrap_or_def split: if_splits option.splits) (meson diff_le_self order_trans)
  qed
qed

lemma served_read: "served_steady env (read_store env f)"
  unfolding read_store_def by (rule served_in_sup) (rule steady_control.keeps_read)

lemma served_permissions:
  "served_steady env (in_sup env (\<lambda>se. approve_permission n se sid run_id request_id scope))"
  "served_steady env (in_sup env (\<lambda>se. deny_permission n se sid run_id request_id))"
  unfolding approve_permission_def deny_permission_def
  by (rule served_in_sup; intro steady_relation.keeps_rules steady_ops)+

lemma served_sup_ops:
  "served_steady env (in_sup env (\<lambda>se. project_of se sid))"
  "served_steady env (in_sup env (\<lambda>se. queue_run se sid request))"
  "served_steady env (in_sup env (\<lambda>se. cancel n se (process_session n se) sid run_id))"
  "served_steady env (in_sup env (\<lambda>se. retry se sid run_id))"
  "served_steady env (in_sup env (\<lambda>se. submit_tool_result se sid run_id call_id v))"
  "served_steady env (in_sup env (\<lambda>se. resume se sid))"
  "served_steady env (in_sup env (\<lambda>se. sup_delete_project se pid))"
  "served_steady env (in_sup env (\<lambda>_. store_do (update_session_retention sid h)))"
  "served_steady env (in_sup env (\<lambda>_. store_do (\<lambda>st.
      and_then (delete_permission_rule rid st) (\<lambda>st'. Inr ((), st')))))"
  by (rule served_in_sup; intro steady_ops)+

lemma served_sup_writes:
  "served_steady env (in_sup env (\<lambda>se. bind (new_uuid se) (\<lambda>pid. bind (time_now se) (\<lambda>time.
      store_do (create_project pid time name path)))))"
  "served_steady env (in_sup env (\<lambda>se. bind (time_now se) (\<lambda>time. store_do (update_project time pid n q))))"
  "served_steady env (in_sup env (\<lambda>se. bind (new_uuid se) (\<lambda>sid. bind (time_now se) (\<lambda>time.
      store_do (create_session_with_retention (en_serde se) sid time title project h)))))"
  "served_steady env (in_sup env (\<lambda>se. bind (new_uuid se) (\<lambda>sid. bind (time_now se) (\<lambda>time.
      store_do (fork_session (en_serde se) sid time parent k title)))))"
  by (rule served_in_sup; intro steady_relation.keeps_rules steady_ops)+

lemma served_fatal: "served_steady env (request_fatal_reload_shutdown message)"
  unfolding request_fatal_reload_shutdown_def by (rule served_modify) (simp add: steady_frame)

lemma served_backup: "served_steady env (in_sup env new_uuid)" "served_steady env (backup_to env path)"
  unfolding backup_to_def
  by (rule served_in_sup, rule steady_control.keeps_small)
     (intro app_relation.keeps_rules served_modify, simp add: steady_refl)

lemma served_handlers:
  assumes "\<And>m. manager_progress (ae_manager env) m (me_meanwhile (ae_manager env) m)"
    and "(t, methods) \<in> set routes" and "map_of methods method = Some h"
  shows "served_steady env (h env q ps)"
proof -
  note manager = served_in_manager [OF progress_ops(1) [OF assms(1)]]
    served_in_manager [OF progress_ops(2) [OF assms(1)]] served_in_manager [OF progress_ops(3) [OF assms(1)]]
    served_in_manager [OF progress_ops(4) [OF assms(1)]] served_in_manager [OF progress_ops(5) [OF assms(1)]]
    served_in_manager [OF progress_ops(6) [OF assms(1)]] served_in_manager [OF progress_ops(8) [OF assms(1)]]
    served_in_manager [OF progress_ops(9) [OF assms(1)]]
  have "served_steady env (h env q ps)" if "h \<in> snd ` set methods" for h
    using assms(2) that
    by (auto simp: routes_def all_handler_defs Let_def ok_def created_def accepted_def no_content_def
          extract_body_def extract_query_def refuse_deleting_def app_reload_config_def
          intro!: app_relation.keeps_rules served_read served_permissions served_sup_ops
            served_sup_writes served_fatal served_reconcile served_streams served_backup manager)
  then show ?thesis using map_of_SomeD [OF assms(3)] by force
qed

lemma dispatch_steady:
  assumes "\<And>m. manager_progress (ae_manager env) m (me_meanwhile (ae_manager env) m)"
    and "router_with_token env token request s = Some (r, s')"
  shows "app_steady env s s'"
proof -
  let ?s = "s\<lparr>ax_requests_total := u64_add (ax_requests_total s) 1\<rparr>"
  have count: "app_steady env s ?s"
    by (simp add: app_steady_def steady_refl manager_relation.rel_refl streams_ok_def)
  have "s' = s \<or> s' = ?s \<or> (\<exists>r'. dispatch env request ?s = Some (r', s'))"
    using assms(2)
    by (auto simp: router_with_token_def authenticate_request_def metrics_layer_def shutdown_layer_def
          split: option.splits if_splits)
  moreover have "app_steady env ?s s'" if "dispatch env request ?s = Some (r', s')" for r'
  proof (cases "find_route (hq_path request) :: (string list \<times> (http_method \<times> 'a handler) list) option")
    case None
    with that show ?thesis by (simp add: dispatch_def app_relation.rel_refl)
  next
    case (Some pm)
    obtain ps methods where pm: "pm = (ps, methods)" by (cases pm)
    from find_route_in [OF Some [unfolded pm]] obtain t where t: "(t, methods) \<in> set routes" by blast
    show ?thesis
    proof (cases "map_of methods (hq_method request)")
      case None
      with Some pm that show ?thesis by (simp add: dispatch_def app_relation.rel_refl)
    next
      case handler: (Some h)
      with Some pm that obtain a where run: "h env request ps ?s = Some (a, s')" by (auto simp: dispatch_def)
      from app_relation.keepsD [OF served_handlers [OF assms(1) t handler] run] show ?thesis .
    qed
  qed
  ultimately show ?thesis using count app_relation.rel_refl app_relation.rel_trans by blast
qed

lemma server_step_steady:
  assumes "\<And>m. manager_progress (ae_manager env) m (me_meanwhile (ae_manager env) m)"
    and "server_step env token event s = Some s'"
  shows "app_steady env s s'"
proof -
  have work: "served_steady env (sup_do env (\<lambda>se. run_command (ae_fuel env) se (C_Work sid script)))" for sid script
    by (rule served_in_sup(2)) (rule steady_control.keeps_command, simp)
  note steps = app_relation.keepsD [OF work] app_relation.keepsD [OF served_streams(2)]
    app_relation.keepsD [OF served_in_manager [OF progress_ops(7) [OF assms(1)]]]
    app_relation.keepsD [OF served_mcp [OF keeps_start_enabled]]
    app_relation.keepsD [OF served_mcp [OF keeps_notify]]
  show ?thesis
    using assms(2) dispatch_steady [OF assms(1)] steps
    by (cases event) (auto simp: server_step_def)
qed

lemma serving_steady:
  assumes "\<And>m. manager_progress (ae_manager env) m (me_meanwhile (ae_manager env) m)"
  shows "serving env token s s' \<Longrightarrow> app_steady env s s'"
proof (induction rule: serving.induct)
  case (started s)
  show ?case by (rule app_relation.rel_refl)
next
  case (serve s t event u)
  from server_step_steady [OF assms serve.hyps(2)] serve.IH show ?case by (blast intro: app_relation.rel_trans)
qed

end
