(* ===== verification/Runtime_Properties.thy ===== *)
theory Runtime_Properties
  imports Server_Sound Api_Properties
begin

text \<open>
  The claims about the server process: starting, serving, stopping, and the sidecar's protocol on
  its standard output.
\<close>

definition server_ok :: "'i api_env \<Rightarrow> 'i app \<Rightarrow> bool" where
  "server_ok env s \<longleftrightarrow>
     store_ok (en_serde (ae_sup env)) (su_store (ax_sup s)) \<and>
     admission_fresh (ae_sup env) (ax_sup s) \<and>
     config_validate (me_config_env (ae_manager env)) (cm_config (ax_manager s)) = Inr () \<and>
     mcp_ok (ax_mcp s) \<and> streams_ok (en_limits (ae_sup env)) s"

lemma fresh_server_ok:
  assumes "app_fresh m s" and "store_ok (en_serde (ae_sup env)) (su_store (ax_sup s))"
    and "manager_load (ae_manager env) doc = Inr m" and "admission_fresh (ae_sup env) (ax_sup s)"
    and "ax_sse_by_session s = bt_empty"
  shows "server_ok env s"
  using assms manager_load_valid [OF assms(3)] mcp_new_ok
  by (auto simp: server_ok_def app_fresh_def streams_ok_def)

section \<open>A small host\<close>

definition example_host :: host where
  "example_host = \<lparr>ho_fails = (\<lambda>_. False), ho_integrity_ok = True, ho_foreign_keys_ok = True, ho_pid = 7\<rparr>"

definition example_machine :: "json machine" where
  "example_machine =
     \<lparr>mh_locks = [], mh_disk = example_disk, mh_document = example_document, mh_directories = []\<rparr>"

definition example_sidecar :: sidecar_env where
  "example_sidecar =
     \<lparr>sc_home = Some ''/home/u'', sc_token = ''secret'', sc_local_addr = ''127.0.0.1:4000'',
      sc_server_version = ''1'', sc_show = (\<lambda>_. ''error'')\<rparr>"

lemma example_host_ok: "host_ok example_host"
  by (simp add: host_ok_def example_host_def)

lemma example_unlocked: "\<not> lk_held (the_lock path example_machine)"
  by (simp add: the_lock_def example_machine_def unwrap_or_def)

lemma example_room: "find_session example_disk k \<noteq> None \<Longrightarrow> length (session_log example_serde example_disk k) = 1"
  using example_disk_ok(2) session_log_empty_iff [OF example_disk_ok(1), of k]
  by (cases "k = ''s''") (auto simp: example_disk_eval session_log_def select_events_def session_rows_def)

lemma example_disk_room: "disk_ok example_serde example_disk"
  using example_disk_ok(1) example_room by (auto simp: disk_ok_def i64_max_def)

lemma example_restart: "restart_storable example_serde"
  by (simp add: restart_storable_def example_storable example_storable_run)

lemma example_load:
  "manager_load example_manager_env example_document = Inr (manager_new (Some example_document) ''now'' example_config)"
proof -
  have "example_parse example_document = Inr example_config"
    by (simp add: example_parse_def example_document_def example_config_def jget_def unwrap_or_def)
  moreover have "config_load example_env (\<lambda>_. Inl []) example_config [] = Inr example_config"
    using example_config_valid by (simp add: config_load_def Let_def)
  ultimately show ?thesis
    by (simp add: manager_load_def load_document_def example_manager_env_def)
qed

section \<open>Starting\<close>

text \<open>C15. On a working host, with a loopback address, a free lock, a configuration that loads and a
  well-formed database with room in its logs, \<open>prepare_server\<close> succeeds. The server is then in its
  invariant, no session is marked running, every log is its old log with events added at most, the
  database on disk is the one the server works on, and the lock file is held with the process id
  in it.\<close>

theorem server_starts:
  assumes "host_ok h" and "is_loopback (sa_ip (so_bind options))"
    and "\<And>path. so_instance_lock options = Some path \<Longrightarrow> \<not> lk_held (the_lock path w)"
    and "manager_load (ae_manager env) (mh_document w) = Inr m"
    and "disk_ok (en_serde (ae_sup env)) (mh_disk w)" and "restart_storable (en_serde (ae_sup env))"
    and "inj (en_uuid (ae_sup env))"
  shows "\<exists>s w'. prepare_server h env options w =
      Some (Inr \<lparr>pr_state = s, pr_auth_token = so_auth_token options, pr_instance_lock = so_instance_lock options\<rparr>, w') \<and>
    server_ok env s \<and> ax_manager s = m \<and> mh_disk w' = su_store (ax_sup s) \<and> none_running (mh_disk w') \<and>
    (\<forall>k. \<exists>more. session_log (en_serde (ae_sup env)) (mh_disk w') k =
             session_log (en_serde (ae_sup env)) (mh_disk w) k @ more) \<and>
    (\<forall>path. so_instance_lock options = Some path \<longrightarrow>
       lk_held (the_lock path w') \<and> lk_content (the_lock path w') = decimal (ho_pid h) @ [LF])"
proof -
  from prepare_server_ok [OF assms(1-6)] obtain s w' st where
    s: "prepare_server h env options w = Some (Inr \<lparr>pr_state = s, pr_auth_token = so_auth_token options,
        pr_instance_lock = so_instance_lock options\<rparr>, w')"
    "app_fresh m s" "admits (ae_sup env) (sup_start st) (ax_sup s)" "mh_disk w' = su_store (ax_sup s)"
    "store_ok (en_serde (ae_sup env)) (mh_disk w')" "none_running (mh_disk w')"
    "\<forall>k. \<exists>more. session_log (en_serde (ae_sup env)) (mh_disk w') k =
             session_log (en_serde (ae_sup env)) (mh_disk w) k @ more"
    "\<forall>path. so_instance_lock options = Some path \<longrightarrow>
       lk_held (the_lock path w') \<and> lk_content (the_lock path w') = decimal (ho_pid h) @ [LF]" by blast
  from s(3) assms(7) start_fresh have "admission_fresh (ae_sup env) (ax_sup s)" by (simp add: admits_def)
  with s(2,4,5) fresh_server_ok [OF s(2) _ assms(4)] have "server_ok env s" by (simp add: app_fresh_def)
  moreover from s(2) have "ax_manager s = m" by (simp add: app_fresh_def)
  ultimately show ?thesis using s by blast
qed

theorem server_starts_witness:
  "\<exists>s w'. prepare_server example_host example_api (sidecar_options ''/d'' ''secret'') example_machine =
      Some (Inr \<lparr>pr_state = s, pr_auth_token = Some ''secret'', pr_instance_lock = Some ''/d/piqo.lock''\<rparr>, w') \<and>
    server_ok example_api s \<and> lk_content (the_lock ''/d/piqo.lock'' w') = ''7'' @ [LF]"
proof -
  let ?o = "sidecar_options ''/d'' ''secret''"
  have o: "so_instance_lock ?o = Some ''/d/piqo.lock''" "so_auth_token ?o = Some ''secret''" "is_loopback (sa_ip (so_bind ?o))"
    by (simp_all add: sidecar_options_def path_join_def is_absolute_def starts_with_def)
  have e: "ae_manager example_api = example_manager_env" "ae_sup example_api = example_sup"
    "en_serde example_sup = example_serde" "mh_document example_machine = example_document"
    "mh_disk example_machine = example_disk" "ho_pid example_host = 7"
    by (simp_all add: example_api_def example_sup_def example_machine_def example_host_def)
  have "decimal 7 = ''7''" by code_simp
  with server_starts [of example_host ?o example_machine example_api, OF example_host_ok o(3) example_unlocked]
    example_load example_disk_room example_restart example_uuid_inj
  show ?thesis by (simp add: e o) blast
qed

text \<open>C16. A start that fails leaves no lock behind that was not held before, and leaves the
  configuration file as it was. If it fails for any reason but a storage or listener error, the
  database is untouched too.\<close>

theorem failed_start_harmless:
  assumes "prepare_server h env options w = Some (Inl e, w')"
  shows "(\<forall>path. lk_held (the_lock path w') = lk_held (the_lock path w)) \<and> mh_document w' = mh_document w \<and>
    ((\<forall>x. e \<noteq> Sv_Store x) \<and> e \<noteq> Sv_BindIo \<longrightarrow> mh_disk w' = mh_disk w)"
  using assms by (rule prepare_server_failed)

theorem failed_start_harmless_witness:
  "\<exists>w'. prepare_server example_host example_api (sidecar_options ''/d'' ''secret'')
       (example_machine\<lparr>mh_locks := [(''/d/piqo.lock'', \<lparr>lk_content = [], lk_private = True, lk_held = True\<rparr>)]\<rparr>) =
     Some (Inl (InstanceLocked ''/d/piqo.lock''), w') \<and> lk_held (the_lock ''/d/piqo.lock'' w') \<and>
     mh_disk w' = example_disk"
proof -
  let ?o = "sidecar_options ''/d'' ''secret''"
  let ?w = "example_machine\<lparr>mh_locks := [(''/d/piqo.lock'', \<lparr>lk_content = [], lk_private = True, lk_held = True\<rparr>)]\<rparr>"
  have held: "lk_held (the_lock ''/d/piqo.lock'' ?w)" by (simp add: the_lock_def unwrap_or_def)
  from acquire_locked [OF _ this, of example_host] obtain w1 where
    "acquire example_host ''/d/piqo.lock'' ?w = Some (Inl (InstanceLocked ''/d/piqo.lock''), w1)"
    by (auto simp: example_host_def)
  then have run: "prepare_server example_host example_api ?o ?w = Some (Inl (InstanceLocked ''/d/piqo.lock''), w1)"
    by (simp add: prepare_server_def sidecar_options_def path_join_def is_absolute_def starts_with_def bind_def
        run_simps validate_bind_address_def map_err_def)
  from failed_start_harmless [OF run] held have "lk_held (the_lock ''/d/piqo.lock'' w1)" "mh_disk w1 = example_disk"
    by (simp_all add: example_machine_def)
  with run show ?thesis by blast
qed

section \<open>Serving\<close>


lemma example_server_ok: "server_ok example_api example_app"
proof -
  have "mcp_ok example_mcp" using mcp_new_ok [OF example_mcp_new] .
  then show ?thesis
    using example_disk_ok(1) example_config_valid start_fresh [of example_sup example_disk]
    by (simp add: server_ok_def example_api_def example_app_def example_sup_def sup_start_def
        example_manager_env_def example_manager_def manager_new_def streams_ok_def admission_fresh_def)
qed


section \<open>Stopping\<close>



section \<open>The sidecar\<close>

definition fatal_codes :: "string list" where
  "fatal_codes = [''home_unavailable'', ''instance_already_running'', ''config_invalid'',
     ''storage_corrupt'', ''storage_unavailable'', ''bind_failed'']"

lemma startup_codes: "startup_code e \<in> set fatal_codes"
  by (auto simp: startup_code_def fatal_codes_def split: server_error.splits store_error.splits)

lemma fatal_line_fields:
  "get_str (fatal_line code message) ''type'' = Some ''fatal''" "get_str (fatal_line code message) ''code'' = Some code"
  by (simp_all add: fatal_line_def get_str_def jget_def as_object_def as_str_def)

lemma ready_line_fields:
  "get_str (ready_line h sc token) ''type'' = Some ''ready''" "get_str (ready_line h sc token) ''token'' = Some token"
  by (simp_all add: ready_line_def get_str_def jget_def as_object_def as_str_def)

lemma private_directory_run:
  "\<exists>r w'. ensure_private_directory h path w = Some (r, w') \<and> mh_locks w' = mh_locks w"
  by (auto simp: ensure_private_directory_def io_def check_def bind_def run_simps)

text \<open>C17. The sidecar's start always comes to one of two ends. It prints a \<open>ready\<close> line, with the
  token that the server then demands, and holds an instance lock that was free before. Or it prints a \<open>fatal\<close> line with one of the documented codes, and no lock is
  held that was not held before.\<close>

theorem sidecar_protocol:
  "\<exists>r w'. sidecar_start h env sc w = Some (Inr r, w') \<and>
    (case r of
       Sc_Ready line p \<Rightarrow> get_str line ''type'' = Some ''ready'' \<and>
         pr_auth_token p = get_str line ''token'' \<and> pr_auth_token p \<noteq> None \<and>
         (\<exists>path. pr_instance_lock p = Some path \<and> \<not> lk_held (the_lock path w) \<and> lk_held (the_lock path w'))
     | Sc_Fatal line \<Rightarrow> get_str line ''type'' = Some ''fatal'' \<and>
         (\<exists>code \<in> set fatal_codes. get_str line ''code'' = Some code) \<and>
         (\<forall>path. lk_held (the_lock path w') = lk_held (the_lock path w)))"
proof (cases "sc_home sc")
  case None
  then show ?thesis
    by (simp add: sidecar_start_def home_data_dir_def fatal_def run_simps fatal_line_fields)
       (simp add: fatal_codes_def)
next
  case (Some home)
  let ?d = "path_join home ''.config/piqo''" and ?o = "\<lambda>token. sidecar_options (path_join home ''.config/piqo'') token"
  obtain dr w1 where dir: "ensure_private_directory h ?d w = Some (dr, w1)" and locks: "mh_locks w1 = mh_locks w"
    using private_directory_run by blast
  have same: "the_lock path w1 = the_lock path w" for path using locks by (simp add: the_lock_def)
  have lock: "so_instance_lock (?o token) = Some (path_join ?d ''piqo.lock'')" "so_auth_token (?o token) = Some token" for token
    by (simp_all add: sidecar_options_def)
  consider e where "dr = Inl e" | u e where "dr = Inr u" "generate_token h sc = Inl e"
    | u token where "dr = Inr u" "generate_token h sc = Inr token"
    by (cases dr; cases "generate_token h sc") blast+
  then show ?thesis
  proof cases
    case 3
    obtain r w2 where run: "prepare_server h env (?o token) w1 = Some (r, w2)" using prepare_server_returns by blast
    show ?thesis
    proof (cases r)
      case (Inl e)
      from prepare_server_failed [OF run [unfolded Inl]] startup_codes [of e] Some dir 3 run Inl same show ?thesis
        by (simp add: sidecar_start_def home_data_dir_def fatal_def bind_def attempt_def run_simps fatal_line_fields)
    next
      case (Inr p)
      note facts = prepare_server_prepared [OF run [unfolded Inr]]
      show ?thesis
      proof (cases "ho_fails h Io_LocalAddr")
        case False
        have "\<not> lk_held (the_lock (path_join ?d ''piqo.lock'') w)" "lk_held (the_lock (path_join ?d ''piqo.lock'') w2)"
          using facts lock same by (auto split: if_splits)
        with False facts Some dir 3 run Inr lock show ?thesis
          by (simp add: sidecar_start_def home_data_dir_def bind_def attempt_def run_simps ready_line_fields)
      next
        case True
        let ?path = "path_join ?d ''piqo.lock''"
        let ?w = "w2\<lparr>mh_locks := bt_insert ?path ((the_lock ?path w2)\<lparr>lk_held := False\<rparr>) (mh_locks w2)\<rparr>"
        have "lk_held (the_lock path ?w) = lk_held (the_lock path w)" for path
          using facts lock same by (cases "path = ?path") (auto simp: the_lock_set split: if_splits)
        with True facts Some dir 3 run Inr lock show ?thesis
          by (simp add: sidecar_start_def home_data_dir_def fatal_def drop_lock_def set_lock_def bind_def attempt_def
              run_simps fatal_line_fields) (simp add: fatal_codes_def)
      qed
    qed
  qed (use Some dir same in \<open>simp_all add: sidecar_start_def home_data_dir_def fatal_def bind_def attempt_def
      run_simps fatal_line_fields, simp_all add: fatal_codes_def\<close>)
qed

end
