(* ===== verification/Shell.thy ===== *)
theory Shell
  imports Tools
begin

text \<open>
  The shell tool of piqo-tools/src/lib.rs on Unix: which shell is used, how a command is started,
  how its output is collected and when the tool gives up, and the executor around the four tools.

  The process is an argument: given program, arguments, working directory, environment and file
  system it says whether it starts, how the wait for it ends, what comes out of its two pipes and
  what it leaves of the file system. A pipe that stays open never ends a read.
\<close>

section \<open>The shell\<close>

record shell_host =
  sh_var :: "string \<Rightarrow> string option"
  sh_is_file :: "string \<Rightarrow> bool"
  sh_macos :: bool

definition find_in_path :: "shell_host \<Rightarrow> string \<Rightarrow> string option" where
  "find_in_path h name =
     Option.bind (sh_var h ''PATH'') (\<lambda>paths.
       find (sh_is_file h) (map (\<lambda>directory. path_join directory name) (split_on (CHR '':'') paths)))"

text \<open>\<open>ShellProgram::discover\<close>: the configured shell or none; else what the host has.\<close>

definition discover_host :: "shell_host \<Rightarrow> (native_tool_error, string) result" where
  "discover_host h =
     (if sh_macos h \<and> sh_is_file h ''/bin/zsh'' then Inr ''/bin/zsh''
      else case find_in_path h ''bash'' of
        Some program \<Rightarrow> Inr program
      | None \<Rightarrow> if sh_is_file h ''/bin/sh'' then Inr ''/bin/sh'' else Inl N_Unavailable)"

definition discover :: "shell_host \<Rightarrow> string option \<Rightarrow> (native_tool_error, string) result" where
  "discover h configured =
     (case configured of
        Some p \<Rightarrow> if is_absolute p \<and> sh_is_file h p then Inr p else Inl N_Unavailable
      | None \<Rightarrow>
          (case sh_var h ''SHELL'' of
             Some shell \<Rightarrow>
               if is_absolute shell \<and> sh_is_file h shell then Inr shell else discover_host h
           | None \<Rightarrow> discover_host h))"

text \<open>\<open>Path::file_stem\<close>: the last component without its extension; a leading dot starts no extension.\<close>

definition file_stem :: "string \<Rightarrow> string option" where
  "file_stem p =
     (case rev (components p) of
        Normal n # _ \<Rightarrow>
          (let before = rev (tl (dropWhile (\<lambda>c. c \<noteq> CHR ''.'') (rev n)))
           in Some (if CHR ''.'' \<notin> set n \<or> before = [] then n else before))
      | _ \<Rightarrow> None)"

definition to_ascii_lowercase :: "string \<Rightarrow> string" where
  "to_ascii_lowercase s = map (\<lambda>c. if 0x41 \<le> byte c \<and> byte c \<le> 0x5A then char_of (byte c + 0x20) else c) s"

definition display_name :: "string \<Rightarrow> string" where
  "display_name program =
     to_ascii_lowercase
       (case file_stem program of Some n \<Rightarrow> if valid_utf8 n then n else ''shell'' | None \<Rightarrow> ''shell'')"

definition shell_arguments :: "string \<Rightarrow> string \<Rightarrow> string list" where
  "shell_arguments program command =
     (let name = display_name program
      in if name = ''cmd'' then [''/c'', command]
         else if name = ''powershell'' \<or> name = ''pwsh'' then [''-NoProfile'', ''-Command'', command]
         else [''-c'', command])"

definition controlled_environment :: "shell_host \<Rightarrow> (string \<times> string) list" where
  "controlled_environment h =
     List.map_filter (\<lambda>name. map_option (Pair name) (sh_var h name))
       [''PATH'', ''HOME'', ''TMPDIR'', ''LANG'', ''LC_ALL'']"

section \<open>Output\<close>

record limited_output =
  lo_text :: string
  lo_truncated :: bool

definition limited_empty :: limited_output where
  "limited_empty = \<lparr>lo_text = [], lo_truncated = False\<rparr>"

text \<open>What successive reads return, none of them empty, and what comes after them.\<close>

datatype pipe_end = Pipe_Closed | Pipe_Failed | Pipe_Open

type_synonym pipe = "string list \<times> pipe_end"

fun read_loop :: "nat \<Rightarrow> string list \<Rightarrow> string \<Rightarrow> bool \<Rightarrow> string \<times> bool" where
  "read_loop max_bytes [] bytes truncated = (bytes, truncated)"
| "read_loop max_bytes (buffer # reads) bytes truncated =
     (let remaining = max_bytes - length bytes;
          (bytes', truncated') =
            (if remaining < length buffer then (bytes @ take remaining buffer, True)
             else (bytes @ buffer, truncated))
      in read_loop max_bytes reads bytes' (truncated' \<or> max_bytes \<le> length bytes'))"

definition limit_lines :: "nat \<Rightarrow> string \<times> bool \<Rightarrow> limited_output" where
  "limit_lines max_lines r =
     (case r of (bytes, truncated) \<Rightarrow>
        let all = lines (from_utf8_lossy bytes)
        in \<lparr>lo_text = join_lf (take max_lines all), lo_truncated = (truncated \<or> max_lines < length all)\<rparr>)"

text \<open>No value: the read never ends.\<close>

definition read_limited :: "nat \<Rightarrow> nat \<Rightarrow> pipe \<Rightarrow> (unit, limited_output) result option" where
  "read_limited max_bytes max_lines p =
     (case p of (reads, e) \<Rightarrow>
        (case e of
           Pipe_Open \<Rightarrow> None
         | Pipe_Failed \<Rightarrow> Some (Inl ())
         | Pipe_Closed \<Rightarrow> Some (Inr (limit_lines max_lines (read_loop max_bytes reads [] False)))))"

definition collected :: "(unit, limited_output) result \<Rightarrow> limited_output" where
  "collected r = (case r of Inl _ \<Rightarrow> limited_empty | Inr out \<Rightarrow> out)"

section \<open>The process\<close>

text \<open>How the wait ends: the process exits, waiting for it fails, the run is cancelled, time is up.\<close>

datatype waited = Wt_Exited "nat option" | Wt_Failed | Wt_Cancelled | Wt_TimedOut

datatype bash_outcome = Exited "nat option" | Cancelled | TimedOut

datatype signal = Term_Group nat | Kill_Group nat | Kill_Child

record child =
  ch_pid :: "nat option"
  ch_waited :: waited
  ch_stdout :: pipe
  ch_stderr :: pipe
  ch_fs :: file_system

type_synonym spawner = "string \<Rightarrow> string list \<Rightarrow> path \<Rightarrow> (string \<times> string) list \<Rightarrow> file_system \<Rightarrow> child option"

definition outcome_of :: "waited \<Rightarrow> bash_outcome" where
  "outcome_of w =
     (case w of
        Wt_Exited code \<Rightarrow> Exited code
      | Wt_Failed \<Rightarrow> Cancelled
      | Wt_Cancelled \<Rightarrow> Cancelled
      | Wt_TimedOut \<Rightarrow> TimedOut)"

text \<open>The signals sent; the process is its own session, so its group has its number.\<close>

definition terminate_process :: "nat option \<Rightarrow> signal list" where
  "terminate_process pid =
     (case pid of Some p \<Rightarrow> [Term_Group p, Kill_Group p] | None \<Rightarrow> [Kill_Child])"

definition output_fields :: "limited_output \<Rightarrow> limited_output \<Rightarrow> (string \<times> json) list" where
  "output_fields stdout stderr =
     [(''stdout'', JStr (lo_text stdout)), (''stderr'', JStr (lo_text stderr)),
      (''stdout_truncated'', JBool (lo_truncated stdout)),
      (''stderr_truncated'', JBool (lo_truncated stderr))]"

definition bash_result :: "bash_outcome \<Rightarrow> limited_output \<Rightarrow> limited_output \<Rightarrow> json" where
  "bash_result outcome stdout stderr =
     (case outcome of
        Exited code \<Rightarrow>
          jobj ([(''status'', JStr ''exited''), (''exit_code'', jopt jnat code),
                 (''success'', JBool (code = Some 0))] @ output_fields stdout stderr)
      | Cancelled \<Rightarrow>
          jobj ((''error'', jobj [(''code'', JStr ''cancelled'')]) # output_fields stdout stderr)
      | TimedOut \<Rightarrow>
          jobj ((''error'', jobj [(''code'', JStr ''timed_out'')]) # output_fields stdout stderr))"

section \<open>The executor\<close>

record native_executor =
  ne_workspace :: path
  ne_limits :: native_tool_limits
  ne_shell :: string

definition is_dir :: "file_system \<Rightarrow> path \<Rightarrow> bool" where
  "is_dir fs p \<longleftrightarrow> \<not> fs_stat_fails fs p \<and> fs_node fs p = Some N_Dir"

text \<open>\<open>canonicalize\<close> is what the operating system makes of the workspace's path.\<close>

definition executor_new ::
  "(string \<Rightarrow> path option) \<Rightarrow> file_system \<Rightarrow> string \<Rightarrow> native_tool_limits \<Rightarrow> string
   \<Rightarrow> (native_tool_error, native_executor) result" where
  "executor_new canonicalize fs workspace limits shell =
     and_then (ok_or N_NotFound (canonicalize workspace)) (\<lambda>ws.
     if \<not> is_dir fs ws then Inl NotDirectory
     else Inr \<lparr>ne_workspace = ws, ne_limits = limits, ne_shell = shell\<rparr>)"

definition bash ::
  "native_executor \<Rightarrow> shell_host \<Rightarrow> spawner \<Rightarrow> string \<Rightarrow> string option \<Rightarrow> file_system
   \<Rightarrow> (json \<times> signal list \<times> file_system) option" where
  "bash ex h spawn command cwd fs =
     (case (case cwd of
              Some c \<Rightarrow> resolve fs (ne_workspace ex) c False
            | None \<Rightarrow> Inr (ne_workspace ex)) of
        Inl e \<Rightarrow> Some (error_result e, [], fs)
      | Inr dir \<Rightarrow>
          if \<not> is_dir fs dir then Some (error_result NotDirectory, [], fs)
          else
            (case spawn (ne_shell ex) (shell_arguments (ne_shell ex) command) dir (controlled_environment h) fs of
               None \<Rightarrow> Some (error_result SpawnFailed, [], fs)
             | Some c \<Rightarrow>
                 (let outcome = outcome_of (ch_waited c);
                      limits = ne_limits ex;
                      signals = (case outcome of Exited _ \<Rightarrow> [] | _ \<Rightarrow> terminate_process (ch_pid c))
                  in Option.bind (read_limited (nl_max_result_bytes limits) (nl_max_result_lines limits) (ch_stdout c))
                       (\<lambda>stdout.
                     Option.bind (read_limited (nl_max_result_bytes limits) (nl_max_result_lines limits) (ch_stderr c))
                       (\<lambda>stderr.
                     Some (bash_result outcome (collected stdout) (collected stderr), signals, ch_fs c))))))"

text \<open>\<open>NativeExecutor::execute\<close> with its shell.\<close>

definition executor_execute ::
  "native_executor \<Rightarrow> shell_host \<Rightarrow> spawner \<Rightarrow> string \<Rightarrow> native_tool \<Rightarrow> json \<Rightarrow> file_system
   \<Rightarrow> (json \<times> file_system) option" where
  "executor_execute ex h spawn temporary_name tool arguments fs =
     (case arguments_parse tool arguments (ne_limits ex) of
        Inr (BashArgs command cwd) \<Rightarrow>
          map_option (\<lambda>(v, _, fs'). (v, fs')) (bash ex h spawn command cwd fs)
      | _ \<Rightarrow> Some (tool_execute (ne_limits ex) (\<lambda>_ _ fs. (JNull, fs)) temporary_name (ne_workspace ex)
                 tool arguments fs))"

end
