(* ===== verification/Shell_Guarantees.thy ===== *)
theory Shell_Guarantees
  imports Shell Tools_Guarantees
begin

text \<open>
  What the shell tool promises: the process starts in a directory of the workspace with a controlled
  environment, its output is cut to the limits and marked as cut, and the tool answers exactly when
  both pipes of the process end.
\<close>

section \<open>Reading\<close>

lemma read_loop_take:
  assumes "length bytes \<le> max_bytes"
  shows "read_loop max_bytes reads bytes truncated =
           (take max_bytes (bytes @ concat reads),
            truncated \<or> (reads \<noteq> [] \<and> max_bytes \<le> length bytes + length (concat reads)))"
  using assms
proof (induction reads arbitrary: bytes truncated)
  case (Cons buffer reads)
  show ?case
  proof (cases "max_bytes - length bytes < length buffer")
    case True
    let ?bytes = "bytes @ take (max_bytes - length bytes) buffer"
    have full: "length ?bytes = max_bytes" using True Cons.prems by simp
    then have "take max_bytes (bytes @ concat (buffer # reads)) = ?bytes"
      using True Cons.prems by simp
    with True Cons.IH [of ?bytes] full show ?thesis by simp
  next
    case False
    with Cons.prems Cons.IH [of "bytes @ buffer"] show ?thesis by auto
  qed
qed simp

section \<open>Lines\<close>

definition closed_lines :: "string list \<Rightarrow> bool" where
  "closed_lines ps \<longleftrightarrow> (\<forall>p \<in> set (butlast ps). \<exists>q. p = q @ [LF]) \<and> (\<forall>p \<in> set ps. LF \<notin> set (butlast p))"

lemma closed_split: "closed_lines (split_inclusive_lf s)"
proof (induction s)
  case (Cons c s)
  show ?case
  proof (cases "c = LF")
    case True
    with Cons show ?thesis by (auto simp: closed_lines_def)
  next
    case False
    then show ?thesis
      using Cons by (cases "split_inclusive_lf s") (auto simp: closed_lines_def split: if_splits)
  qed
qed (simp add: closed_lines_def)

lemma closed_take:
  assumes "closed_lines ps"
  shows "closed_lines (take n ps)"
proof -
  have "set (butlast (take n ps)) \<subseteq> set (butlast ps)"
    using set_take_subset_set_take [of "n - 1" "length ps - 1" ps]
    by (cases "n < length ps") (simp_all add: butlast_take butlast_conv_take)
  with assms show ?thesis unfolding closed_lines_def using set_take_subset [of n ps] by blast
qed

lemma strip_line_shape:
  "strip_line (q @ [LF]) = (case strip_suffix [CR] q of None \<Rightarrow> q | Some r \<Rightarrow> r)"
  by (simp add: strip_line_def strip_suffix_Some_iff [THEN iffD2])

lemma strip_line_length: "length (strip_line (q @ [LF])) \<le> length q" "length (strip_line p) \<le> length p"
  by (auto simp: strip_line_shape strip_suffix_Some_iff strip_line_def split: option.splits)

lemma strip_line_LF_free: "LF \<notin> set (butlast p) \<Longrightarrow> LF \<notin> set (strip_line p)"
proof (cases p rule: rev_cases)
  case (snoc q c)
  assume "LF \<notin> set (butlast p)"
  then have q: "LF \<notin> set q" using snoc by simp
  show ?thesis
  proof (cases "c = LF")
    case True
    with q snoc show ?thesis by (auto simp: strip_line_shape strip_suffix_Some_iff split: option.splits)
  next
    case False
    with q snoc show ?thesis using strip_line_last [of p] by auto
  qed
qed (simp add: strip_line_def strip_suffix_def)

lemma join_length: "closed_lines ps \<Longrightarrow> length (join_lf (map strip_line ps)) \<le> length (concat ps)"
proof (induction ps rule: join_lf.induct)
  case (3 p p' ps)
  from 3(2) obtain q where "p = q @ [LF]" by (auto simp: closed_lines_def)
  moreover have "closed_lines (p' # ps)" using 3(2) by (auto simp: closed_lines_def)
  ultimately show ?case using 3(1) strip_line_length(1) [of q] by simp
qed (simp_all add: strip_line_length)

lemma join_newlines:
  "\<forall>l \<in> set ls. LF \<notin> set l \<Longrightarrow> length (filter ((=) LF) (join_lf ls)) = length ls - 1"
proof (induction ls rule: join_lf.induct)
  case (2 l)
  then have "filter ((=) LF) l = []" by (auto simp: filter_empty_conv)
  then show ?case by simp
next
  case (3 l l' ls)
  then have "filter ((=) LF) l = []" by (auto simp: filter_empty_conv)
  with 3 show ?case by simp
qed simp

lemma lines_bounds:
  shows "length (join_lf (take n (lines s))) \<le> length s"
    and "length (filter ((=) LF) (join_lf (take n (lines s)))) \<le> n - 1"
proof -
  let ?ps = "take n (split_inclusive_lf s)"
  have ls: "take n (lines s) = map strip_line ?ps" by (simp add: lines_def take_map)
  have closed: "closed_lines ?ps" by (rule closed_take [OF closed_split])
  have "concat (split_inclusive_lf s) = concat ?ps @ concat (drop n (split_inclusive_lf s))"
    by (simp flip: concat_append)
  then have "length (concat ?ps) \<le> length s" by (metis concat_split_inclusive_lf length_append le_add1)
  with join_length [OF closed] show "length (join_lf (take n (lines s))) \<le> length s" by (simp add: ls)
  have "\<forall>l \<in> set (map strip_line ?ps). LF \<notin> set l"
    using closed strip_line_LF_free by (auto simp: closed_lines_def)
  from join_newlines [OF this] show "length (filter ((=) LF) (join_lf (take n (lines s)))) \<le> n - 1"
    by (simp add: ls)
qed

section \<open>Output\<close>

text \<open>What a reader makes of a pipe that was closed.\<close>

lemma read_limited_closed:
  assumes "read_limited max_bytes max_lines (reads, Pipe_Closed) = Some (Inr out)"
  shows "length (lo_text out) \<le> 3 * max_bytes"
    and "length (filter ((=) LF) (lo_text out)) \<le> max_lines - 1"
    and "\<not> lo_truncated out \<Longrightarrow> lo_text out = join_lf (lines (from_utf8_lossy (concat reads)))"
    and "length (concat reads) < max_bytes \<Longrightarrow>
      length (lines (from_utf8_lossy (concat reads))) \<le> max_lines \<Longrightarrow> \<not> lo_truncated out"
proof -
  let ?bytes = "take max_bytes (concat reads)"
  have out: "lo_text out = join_lf (take max_lines (lines (from_utf8_lossy ?bytes)))"
    "lo_truncated out \<longleftrightarrow> (reads \<noteq> [] \<and> max_bytes \<le> length (concat reads)) \<or>
       max_lines < length (lines (from_utf8_lossy ?bytes))"
    using assms read_loop_take [of "[]" max_bytes reads False]
    by (auto simp: read_limited_def limit_lines_def Let_def)
  have "length (from_utf8_lossy ?bytes) \<le> 3 * max_bytes"
    using lossy_length [of ?bytes] by simp
  then show "length (lo_text out) \<le> 3 * max_bytes"
    using lines_bounds(1) [of max_lines "from_utf8_lossy ?bytes"] by (simp add: out(1))
  show "length (filter ((=) LF) (lo_text out)) \<le> max_lines - 1"
    unfolding out(1) by (rule lines_bounds(2))
  show "lo_text out = join_lf (lines (from_utf8_lossy (concat reads)))" if "\<not> lo_truncated out"
  proof -
    have "?bytes = concat reads" using that out(2) by (cases reads) auto
    with that out show ?thesis by simp
  qed
  show "\<not> lo_truncated out" if "length (concat reads) < max_bytes"
    "length (lines (from_utf8_lossy (concat reads))) \<le> max_lines"
    using that out(2) by simp
qed

text \<open>The output of a child within the limits, as it is reported.\<close>

definition within_limits :: "native_tool_limits \<Rightarrow> pipe \<Rightarrow> limited_output \<Rightarrow> bool" where
  "within_limits limits p out \<longleftrightarrow>
     length (lo_text out) \<le> 3 * nl_max_result_bytes limits \<and>
     length (filter ((=) LF) (lo_text out)) \<le> nl_max_result_lines limits - 1 \<and>
     (\<not> lo_truncated out \<and> snd p = Pipe_Closed \<longrightarrow>
        lo_text out = join_lf (lines (from_utf8_lossy (concat (fst p)))))"

lemma collected_within:
  assumes "read_limited (nl_max_result_bytes limits) (nl_max_result_lines limits) p = Some r"
  shows "within_limits limits p (collected r)"
proof (cases r)
  case (Inl u)
  with assms show ?thesis
    by (cases p; cases "snd p") (auto simp: collected_def limited_empty_def within_limits_def read_limited_def)
next
  case (Inr out)
  obtain reads e where p: "p = (reads, e)" by (cases p)
  with assms Inr have "e = Pipe_Closed" by (cases e) (auto simp: read_limited_def)
  with read_limited_closed [of "nl_max_result_bytes limits" "nl_max_result_lines limits" reads out] assms Inr p
  show ?thesis by (simp add: within_limits_def collected_def)
qed

lemma in_map_filter: "y \<in> set (List.map_filter f xs) \<longleftrightarrow> (\<exists>x \<in> set xs. f x = Some y)"
  by (induction xs) (auto simp: map_filter_simps split: option.splits)

lemma environment_inherited:
  "(name, v) \<in> set (controlled_environment h) \<Longrightarrow>
   sh_var h name = Some v \<and> name \<in> {''PATH'', ''HOME'', ''TMPDIR'', ''LANG'', ''LC_ALL''}"
  unfolding controlled_environment_def in_map_filter by auto

section \<open>Properties\<close>


text \<open>C35. The shell tool answers exactly when the command could not be started or both pipes of the
  process end. How the wait for the process ended does not matter: when it exits and leaves a
  process behind that keeps a pipe open, neither the timeout nor a cancellation ends the call.\<close>

theorem bash_returns_iff:
  assumes "is_dir fs (ne_workspace ex)"
  shows "bash ex h spawn command None fs \<noteq> None \<longleftrightarrow>
    (case spawn (ne_shell ex) (shell_arguments (ne_shell ex) command) (ne_workspace ex)
            (controlled_environment h) fs of
       None \<Rightarrow> True
     | Some c \<Rightarrow> snd (ch_stdout c) \<noteq> Pipe_Open \<and> snd (ch_stderr c) \<noteq> Pipe_Open)"
proof -
  have "read_limited m n p = None \<longleftrightarrow> snd p = Pipe_Open" for m n p
    by (auto simp: read_limited_def split: prod.splits pipe_end.splits)
  with assms show ?thesis
    by (simp add: bash_def Let_def bind_eq_None_conv del: not_None_eq split: option.split)
qed

section \<open>Examples\<close>

definition example_executor :: native_executor where
  "example_executor = \<lparr>ne_workspace = [''w''], ne_limits = limits_default, ne_shell = ''/bin/sh''\<rparr>"

definition example_shell_host :: shell_host where
  "example_shell_host = \<lparr>sh_var = (\<lambda>n. if n = ''PATH'' then Some ''/bin'' else None), sh_is_file = (\<lambda>_. True), sh_macos = False\<rparr>"

text \<open>A process that prints a line, is still there when time is up, and whose pipes then close.\<close>

definition example_spawn :: "pipe_end \<Rightarrow> waited \<Rightarrow> spawner" where
  "example_spawn e w program arguments dir env fs =
     Some \<lparr>ch_pid = Some 7, ch_waited = w, ch_stdout = ([''a'', [LF]], e), ch_stderr = ([], Pipe_Closed), ch_fs = fs\<rparr>"

lemma example_workspace: "is_dir (example_fs []) [''w'']"
  by (simp add: is_dir_def example_fs_def)


theorem bash_returns_iff_witness:
  "bash example_executor example_shell_host (example_spawn Pipe_Open (Wt_Exited (Some 0))) ''sleep 1000 &'' None (example_fs []) = None"
  using bash_returns_iff [of "example_fs []" example_executor example_shell_host
      "example_spawn Pipe_Open (Wt_Exited (Some 0))" "''sleep 1000 &''"] example_workspace
  by (simp add: example_executor_def example_spawn_def del: not_None_eq)

end
