(* ===== verification/Cli.thy ===== *)
theory Cli
  imports Runtime
begin

text \<open>
  The command line client of piqo-cli/src/main.rs: its commands, the requests they send, what it does
  with the answers, and \<open>follow_events\<close>, which reads the event stream, prints and reconnects.

  The server at the other end is an argument: it answers a request with a status and a body, or the
  connection fails. What the client writes to standard output is part of the state. Arguments are
  as \<open>clap\<close> hands them over, the token of the environment included. The \<open>serve\<close> command is the
  start and the run of the server process.
\<close>

section \<open>Commands\<close>

record connection_options =
  co_server :: string
  co_token :: "string option"

datatype project_command =
    Pc_Create string string connection_options
  | Pc_List connection_options "nat option" "string option"
  | Pc_Get string connection_options
  | Pc_Update string "string option" "string option" connection_options
  | Pc_Delete string bool connection_options

datatype storage_command = Backup connection_options

datatype action_command =
    Ac_Inspect string string connection_options
  | Ac_Result string string string string connection_options

datatype permission_command =
    Pm_List string string connection_options
  | Pm_Approve string string string string connection_options
  | Pm_Deny string string string connection_options

record run_options =
  ro_prompt :: string
  ro_session :: "string option"
  ro_project :: "string option"
  ro_provider :: string
  ro_model :: string
  ro_json :: bool
  ro_connection :: connection_options

record client_request =
  cq_method :: http_method
  cq_url :: string
  cq_headers :: "(string \<times> string) list"
  cq_query :: "(string \<times> string) list"
  cq_body :: "json option"

datatype client_error =
    Ce_Usage string
  | Ce_Connect string
  | Ce_Status nat
  | Ce_Decode string

text \<open>What comes over an open connection: pieces of the body, a broken connection, Ctrl-C.\<close>

datatype stream_item = St_Bytes string | St_Broken | St_Interrupt

record 'p client_env =
  cn_env_token :: "string option"
  cn_send :: "client_request \<Rightarrow> 'p \<Rightarrow> (nat \<times> string) option \<times> 'p"
  cn_stream :: "client_request \<Rightarrow> 'p \<Rightarrow> (nat \<times> stream_item list) option \<times> 'p"
  cn_parse :: "string \<Rightarrow> json option"
  cn_print :: "json \<Rightarrow> string"
  cn_pretty :: "json \<Rightarrow> string"

record 'p client =
  cl_peer :: 'p
  cl_sent :: "client_request list"
  cl_output :: string

type_synonym ('p, 'a) cli_act = "('p client, client_error, 'a) comp"

section \<open>Requests\<close>

definition plain :: "http_method \<Rightarrow> string \<Rightarrow> client_request" where
  "plain method url =
     \<lparr>cq_method = method, cq_url = url, cq_headers = [], cq_query = [], cq_body = None\<rparr>"

definition bearer_auth :: "string \<Rightarrow> client_request \<Rightarrow> client_request" where
  "bearer_auth token r = r\<lparr>cq_headers := cq_headers r @ [(''authorization'', ''Bearer '' @ token)]\<rparr>"

definition authenticated :: "'p client_env \<Rightarrow> client_request \<Rightarrow> string option \<Rightarrow> client_request" where
  "authenticated env r token =
     (case or_else token (cn_env_token env) of Some t \<Rightarrow> bearer_auth t r | None \<Rightarrow> r)"

definition with_json :: "json \<Rightarrow> client_request \<Rightarrow> client_request" where
  "with_json v r = r\<lparr>cq_body := Some v\<rparr>"

text \<open>\<open>send().await?.error_for_status()?\<close>; the body is read by those who need it.\<close>

definition error_status :: "nat \<Rightarrow> bool" where
  "error_status status \<longleftrightarrow> 400 \<le> status \<and> status < 600"

definition send_checked :: "'p client_env \<Rightarrow> string \<Rightarrow> client_request \<Rightarrow> ('p, string) cli_act" where
  "send_checked env context r =
     bind (gets (\<lambda>s. cn_send env r (cl_peer s))) (\<lambda>(answer, peer).
     bind (modify (\<lambda>s. s\<lparr>cl_peer := peer, cl_sent := cl_sent s @ [r]\<rparr>)) (\<lambda>_.
     case answer of
       None \<Rightarrow> raise (Ce_Connect context)
     | Some (status, text) \<Rightarrow> if error_status status then raise (Ce_Status status) else ret text))"

definition decode_json :: "'p client_env \<Rightarrow> string \<Rightarrow> ('p, json) cli_act" where
  "decode_json env text = require (Ce_Decode ''error decoding response body'') (cn_parse env text)"

definition print_out :: "string \<Rightarrow> ('p, unit) cli_act" where
  "print_out text = modify (\<lambda>s. s\<lparr>cl_output := cl_output s @ text\<rparr>)"

definition print_json :: "'p client_env \<Rightarrow> string \<Rightarrow> ('p, unit) cli_act" where
  "print_json env text = bind (decode_json env text) (\<lambda>v. print_out (cn_pretty env v @ [LF]))"

section \<open>The commands that send one request\<close>

definition project_request :: "'p client_env \<Rightarrow> project_command \<Rightarrow> (client_error, client_request) result" where
  "project_request env command =
     (case command of
        Pc_Create name path c \<Rightarrow>
          Inr (with_json (jobj [(''name'', JStr name), (''path'', JStr path)])
            (authenticated env (plain POST (co_server c @ ''/api/v1/projects'')) (co_token c)))
      | Pc_List c limit cursor \<Rightarrow>
          (let r = plain GET (co_server c @ ''/api/v1/projects'');
               r = (case limit of None \<Rightarrow> r | Some n \<Rightarrow> r\<lparr>cq_query := cq_query r @ [(''limit'', decimal n)]\<rparr>);
               r = (case cursor of None \<Rightarrow> r | Some k \<Rightarrow> r\<lparr>cq_query := cq_query r @ [(''cursor'', k)]\<rparr>)
           in Inr (authenticated env r (co_token c)))
      | Pc_Get pid c \<Rightarrow>
          Inr (authenticated env (plain GET (co_server c @ ''/api/v1/projects/'' @ pid)) (co_token c))
      | Pc_Update pid name path c \<Rightarrow>
          if name = None \<and> path = None then Inl (Ce_Usage ''provide at least one of --name or --path'')
          else Inr (with_json (jobj [(''name'', jopt JStr name), (''path'', jopt JStr path)])
                 (authenticated env (plain PATCH (co_server c @ ''/api/v1/projects/'' @ pid)) (co_token c)))
      | Pc_Delete pid yes c \<Rightarrow>
          if \<not> yes then Inl (Ce_Usage ''project deletion is destructive; repeat with --yes'')
          else Inr (authenticated env (plain DELETE (co_server c @ ''/api/v1/projects/'' @ pid)) (co_token c)))"

definition project_prints :: "project_command \<Rightarrow> bool" where
  "project_prints command = (case command of Pc_Delete _ _ _ \<Rightarrow> False | _ \<Rightarrow> True)"

definition run_project_command :: "'p client_env \<Rightarrow> project_command \<Rightarrow> ('p, unit) cli_act" where
  "run_project_command env command =
     bind (of_result (project_request env command)) (\<lambda>r.
     bind (send_checked env [] r) (\<lambda>v.
     when_do (project_prints command) (print_json env v)))"

definition run_path :: "string \<Rightarrow> string \<Rightarrow> string \<Rightarrow> string" where
  "run_path server sid run_id = server @ ''/api/v1/sessions/'' @ sid @ ''/runs/'' @ run_id"

definition action_request :: "'p client_env \<Rightarrow> action_command \<Rightarrow> (client_error, client_request) result" where
  "action_request env command =
     (case command of
        Ac_Inspect sid run_id c \<Rightarrow>
          Inr (authenticated env (plain GET (run_path (co_server c) sid run_id)) (co_token c))
      | Ac_Result sid run_id call_id text c \<Rightarrow>
          (case cn_parse env text of
             None \<Rightarrow> Inl (Ce_Usage ''--result must be a valid JSON value'')
           | Some v \<Rightarrow>
               Inr (with_json (jobj [(''result'', v)])
                 (authenticated env
                   (plain POST (run_path (co_server c) sid run_id @ ''/tool_calls/'' @ call_id @ ''/result''))
                   (co_token c)))))"

definition run_action_command :: "'p client_env \<Rightarrow> action_command \<Rightarrow> ('p, unit) cli_act" where
  "run_action_command env command =
     bind (of_result (action_request env command)) (\<lambda>r.
     bind (send_checked env [] r) (\<lambda>v.
     case command of Ac_Inspect _ _ _ \<Rightarrow> print_json env v | Ac_Result _ _ _ _ _ \<Rightarrow> ret ()))"

definition permission_command_request :: "'p client_env \<Rightarrow> permission_command \<Rightarrow> client_request" where
  "permission_command_request env command =
     (case command of
        Pm_List sid run_id c \<Rightarrow>
          authenticated env (plain GET (run_path (co_server c) sid run_id @ ''/permission_requests'')) (co_token c)
      | Pm_Approve sid run_id request_id scope c \<Rightarrow>
          with_json (jobj [(''scope'', JStr scope)])
            (authenticated env
              (plain POST (run_path (co_server c) sid run_id @ ''/permission_requests/'' @ request_id @ ''/approve''))
              (co_token c))
      | Pm_Deny sid run_id request_id c \<Rightarrow>
          authenticated env
            (plain POST (run_path (co_server c) sid run_id @ ''/permission_requests/'' @ request_id @ ''/deny''))
            (co_token c))"

definition run_permission_command :: "'p client_env \<Rightarrow> permission_command \<Rightarrow> ('p, unit) cli_act" where
  "run_permission_command env command =
     bind (send_checked env [] (permission_command_request env command)) (\<lambda>v.
     case command of Pm_List _ _ _ \<Rightarrow> print_json env v | _ \<Rightarrow> ret ())"

text \<open>The body of the answer is printed as it came.\<close>

definition backup_request :: "'p client_env \<Rightarrow> connection_options \<Rightarrow> client_request" where
  "backup_request env c =
     authenticated env (plain POST (co_server c @ ''/api/v1/storage/backups'')) (or_else (co_token c) (cn_env_token env))"

definition run_storage_command :: "'p client_env \<Rightarrow> storage_command \<Rightarrow> ('p, unit) cli_act" where
  "run_storage_command env command =
     (case command of Backup c \<Rightarrow>
        bind (send_checked env [] (backup_request env c)) (\<lambda>text. print_out (from_utf8_lossy text @ [LF])))"

section \<open>Following the event stream\<close>

definition parse_frame_line :: "nat option \<times> string \<Rightarrow> string \<Rightarrow> nat option \<times> string" where
  "parse_frame_line acc line =
     (case acc of (event_id, data) \<Rightarrow>
        (case strip_prefix ''id:'' line of
           Some v \<Rightarrow> (parse_u64 (trim v), data)
         | None \<Rightarrow>
             (case strip_prefix ''data:'' line of
                Some v \<Rightarrow> (event_id, (if data \<noteq> [] then data @ [LF] else data) @ trim_start v)
              | None \<Rightarrow> (event_id, data))))"

definition parse_frame :: "string \<Rightarrow> nat option \<times> string" where
  "parse_frame frame = foldl parse_frame_line (None, []) (lines frame)"

text \<open>\<open>buffer.find("\\n\\n")\<close>: the text before and behind the first empty line.\<close>

fun split_blank :: "string \<Rightarrow> (string \<times> string) option" where
  "split_blank (a # b # s) =
     (if a = LF \<and> b = LF then Some ([], s)
      else map_option (\<lambda>(frame, rest). (a # frame, rest)) (split_blank (b # s)))"
| "split_blank _ = None"

lemma split_blank_Some: "split_blank s = Some (frame, rest) \<Longrightarrow> s = frame @ [LF, LF] @ rest"
  by (induction s arbitrary: frame rest rule: split_blank.induct) (auto split: if_splits)

record follow_options =
  fo_json :: bool
  fo_until_run :: "string option"

record follow_state =
  fs_last_seen :: nat
  fs_assistants :: "string list"
  fs_active :: bool

definition at_key :: "json \<Rightarrow> string \<Rightarrow> json" where
  "at_key v k = unwrap_or JNull (jget v k)"

definition terminal_types :: "string list" where
  "terminal_types = [''run_completed'', ''run_failed'', ''run_cancelled'', ''run_interrupted'', ''run_requires_action'']"

text \<open>One event: whether following ends, what is printed, and the new state.\<close>

definition handle_event ::
  "'p client_env \<Rightarrow> follow_options \<Rightarrow> nat option \<Rightarrow> json \<Rightarrow> follow_state \<Rightarrow> bool \<times> string \<times> follow_state" where
  "handle_event env fo event_id event fs =
     (let kind = at_key event ''type'';
          data = at_key event ''data'';
          last_seen = (case event_id of None \<Rightarrow> fs_last_seen fs | Some n \<Rightarrow> max (fs_last_seen fs) n);
          mine = (\<lambda>v. case fo_until_run fo of None \<Rightarrow> False | Some run_id \<Rightarrow> v = JStr run_id);
          active = (fs_active fs \<or> (kind = JStr ''run_started'' \<and> mine (at_key data ''run_id'')));
          assistants =
            (if kind = JStr ''message_started'' \<and>
                (at_key data ''role'' = JStr ''assistant'' \<or> at_key (at_key data ''author'') ''kind'' = JStr ''agent'')
             then (case get_str data ''message_id'' of None \<Rightarrow> fs_assistants fs | Some m \<Rightarrow> m # fs_assistants fs)
             else fs_assistants fs);
          text =
            (if fo_json fo then cn_print env event @ [LF]
             else if active \<and> kind = JStr ''message_content_appended'' \<and>
                     at_key (at_key data ''block'') ''kind'' = JStr ''text'' \<and>
                     unwrap_or [] (get_str data ''message_id'') \<in> set assistants
             then unwrap_or [] (get_str (at_key data ''block'') ''value'')
             else []);
          finished = (mine (at_key data ''run_id'') \<and> list_ex (\<lambda>t. kind = JStr t) terminal_types)
      in (finished, if finished then text @ [LF] else text,
          \<lparr>fs_last_seen = last_seen, fs_assistants = assistants, fs_active = active\<rparr>))"

text \<open>The loop over the complete frames of the buffer: also returns what is left of the buffer.\<close>

function drain_frames ::
  "'p client_env \<Rightarrow> follow_options \<Rightarrow> string \<Rightarrow> follow_state \<Rightarrow> bool \<times> string \<times> string \<times> follow_state" where
  "drain_frames env fo buffer fs =
     (case split_blank buffer of
        None \<Rightarrow> (False, [], buffer, fs)
      | Some (frame, rest) \<Rightarrow>
          (case parse_frame frame of (event_id, data) \<Rightarrow>
             (case (if data = [] then None else cn_parse env data) of
                None \<Rightarrow> drain_frames env fo rest fs
              | Some event \<Rightarrow>
                  (case handle_event env fo event_id event fs of (finished, text, fs') \<Rightarrow>
                     if finished then (True, text, rest, fs')
                     else (case drain_frames env fo rest fs' of (f, out, b, fs'') \<Rightarrow> (f, text @ out, b, fs''))))))"
  by pat_completeness auto
termination
  by (relation "measure (\<lambda>(_, _, buffer, _). length buffer)") (auto dest!: split_blank_Some)

datatype follow_outcome = Fo_Return | Fo_Error | Fo_Ended

fun follow_stream ::
  "'p client_env \<Rightarrow> follow_options \<Rightarrow> stream_item list \<Rightarrow> string \<Rightarrow> follow_state
   \<Rightarrow> follow_outcome \<times> string \<times> follow_state" where
  "follow_stream env fo [] buffer fs = (Fo_Ended, [], fs)"
| "follow_stream env fo (St_Interrupt # items) buffer fs = (Fo_Return, [], fs)"
| "follow_stream env fo (St_Broken # items) buffer fs = (Fo_Error, [], fs)"
| "follow_stream env fo (St_Bytes chunk # items) buffer fs =
     (case drain_frames env fo (buffer @ from_utf8_lossy chunk) fs of (finished, out, buffer', fs') \<Rightarrow>
        if finished then (Fo_Return, out, fs')
        else (case follow_stream env fo items buffer' fs' of (r, out', fs'') \<Rightarrow> (r, out @ out', fs'')))"

text \<open>
  \<open>follow_events\<close>: when a connection ends it connects again, from the last event seen. The loop may
  go on for ever; it runs as many connections as it has fuel. Header names are in lower case, as they
  are sent.
\<close>

definition stream_request :: "string \<Rightarrow> string \<Rightarrow> string option \<Rightarrow> nat \<Rightarrow> client_request" where
  "stream_request server sid token last_seen =
     (let r = (plain GET (server @ ''/api/v1/sessions/'' @ sid @ ''/events/stream''))
                \<lparr>cq_headers := [(''last-event-id'', decimal last_seen)]\<rparr>
      in case token of None \<Rightarrow> r | Some t \<Rightarrow> bearer_auth t r)"

fun follow_events ::
  "nat \<Rightarrow> 'p client_env \<Rightarrow> string \<Rightarrow> string \<Rightarrow> follow_options \<Rightarrow> string option \<Rightarrow> follow_state
   \<Rightarrow> ('p, unit) cli_act" where
  "follow_events 0 env server sid fo token fs = stuck"
| "follow_events (Suc n) env server sid fo token fs =
     (let r = stream_request server sid token (fs_last_seen fs) in
     bind (gets (\<lambda>s. cn_stream env r (cl_peer s))) (\<lambda>(answer, peer).
     bind (modify (\<lambda>s. s\<lparr>cl_peer := peer, cl_sent := cl_sent s @ [r]\<rparr>)) (\<lambda>_.
     case answer of
       None \<Rightarrow> raise (Ce_Connect ''connecting to piqo event stream'')
     | Some (status, items) \<Rightarrow>
         if error_status status then raise (Ce_Status status)
         else
           (case follow_stream env fo items [] fs of (outcome, out, fs') \<Rightarrow>
              bind (print_out out) (\<lambda>_.
              case outcome of
                Fo_Return \<Rightarrow> ret ()
              | Fo_Error \<Rightarrow> raise (Ce_Connect ''reading piqo event stream'')
              | Fo_Ended \<Rightarrow> follow_events n env server sid fo token fs')))))"

definition follow_start :: "nat \<Rightarrow> string option \<Rightarrow> follow_state" where
  "follow_start after until_run =
     \<lparr>fs_last_seen = after, fs_assistants = [], fs_active = (until_run = None)\<rparr>"

definition attach :: "nat \<Rightarrow> 'p client_env \<Rightarrow> string \<Rightarrow> connection_options \<Rightarrow> bool \<Rightarrow> ('p, unit) cli_act" where
  "attach n env sid c json_output =
     follow_events n env (co_server c) sid \<lparr>fo_json = json_output, fo_until_run = None\<rparr>
       (or_else (co_token c) (cn_env_token env)) (follow_start 0 None)"

section \<open>Running a prompt\<close>

definition validate_run_options :: "string option \<Rightarrow> string option \<Rightarrow> (client_error, unit) result" where
  "validate_run_options session project =
     (if session \<noteq> None \<and> project \<noteq> None then Inl (Ce_Usage ''--project cannot be used with --session'')
      else Inr ())"

definition maybe_bearer :: "string option \<Rightarrow> client_request \<Rightarrow> client_request" where
  "maybe_bearer token r = (case token of None \<Rightarrow> r | Some t \<Rightarrow> bearer_auth t r)"

definition session_request :: "string option \<Rightarrow> run_options \<Rightarrow> client_request" where
  "session_request token o' =
     with_json (jobj [(''project_id'', jopt JStr (ro_project o'))])
       (maybe_bearer token (plain POST (co_server (ro_connection o') @ ''/api/v1/sessions'')))"

definition prompt_request :: "string option \<Rightarrow> run_options \<Rightarrow> string \<Rightarrow> client_request" where
  "prompt_request token o' sid =
     with_json (jobj [(''provider'', JStr (ro_provider o')), (''model'', JStr (ro_model o')),
                      (''input'', JStr (ro_prompt o')), (''agent'', JNull), (''variant'', JNull),
                      (''body'', jobj [])])
       (maybe_bearer token (plain POST (co_server (ro_connection o') @ ''/api/v1/sessions/'' @ sid @ ''/runs'')))"

definition run_prompt :: "nat \<Rightarrow> 'p client_env \<Rightarrow> run_options \<Rightarrow> ('p, unit) cli_act" where
  "run_prompt n env o' =
     bind (of_result (validate_run_options (ro_session o') (ro_project o'))) (\<lambda>_.
     let token = or_else (co_token (ro_connection o')) (cn_env_token env) in
     bind (case ro_session o' of
             Some sid \<Rightarrow> ret sid
           | None \<Rightarrow>
               bind (send_checked env ''connecting to piqo daemon'' (session_request token o')) (\<lambda>text.
               bind (decode_json env text) (\<lambda>v.
               require (Ce_Decode ''daemon response has no session id'') (get_str v ''id'')))) (\<lambda>sid.
     bind (send_checked env ''connecting to piqo daemon'' (prompt_request token o' sid)) (\<lambda>text.
     bind (decode_json env text) (\<lambda>accepted.
     bind (require (Ce_Decode ''daemon response has no run id'') (get_str accepted ''run_id'')) (\<lambda>run_id.
     follow_events n env (co_server (ro_connection o')) sid
       \<lparr>fo_json = ro_json o', fo_until_run = Some run_id\<rparr> token (follow_start 0 (Some run_id)))))))"

section \<open>The command line\<close>

datatype cli_command =
    Cmd_Attach string connection_options bool
  | Cmd_Run run_options
  | Cmd_Project project_command
  | Cmd_Storage storage_command
  | Cmd_Action action_command
  | Cmd_Permission permission_command

definition run_cli :: "nat \<Rightarrow> 'p client_env \<Rightarrow> cli_command \<Rightarrow> ('p, unit) cli_act" where
  "run_cli n env command =
     (case command of
        Cmd_Attach sid c json_output \<Rightarrow> attach n env sid c json_output
      | Cmd_Run o' \<Rightarrow> run_prompt n env o'
      | Cmd_Project p \<Rightarrow> run_project_command env p
      | Cmd_Storage c \<Rightarrow> run_storage_command env c
      | Cmd_Action a \<Rightarrow> run_action_command env a
      | Cmd_Permission p \<Rightarrow> run_permission_command env p)"

definition default_config_path :: "string option \<Rightarrow> string option \<Rightarrow> string" where
  "default_config_path xdg_config_home home =
     path_join
       (case xdg_config_home of
          Some p \<Rightarrow> p
        | None \<Rightarrow> (case home of Some h \<Rightarrow> path_join h ''.config'' | None \<Rightarrow> ''.''))
       ''piqo/piqo.toml''"

section \<open>The serve command\<close>

definition serve_options ::
  "string option \<Rightarrow> string option \<Rightarrow> socket_addr \<Rightarrow> string \<Rightarrow> string option \<Rightarrow> string option \<Rightarrow> server_options" where
  "serve_options xdg_config_home home bind_addr database config dump_requests =
     \<lparr>so_bind = bind_addr, so_database = database,
      so_config = unwrap_or (default_config_path xdg_config_home home) config,
      so_dump_requests = dump_requests, so_auth_token = None, so_instance_lock = None,
      so_shutdown_timeout = 10\<rparr>"

text \<open>The server is prepared, then its address is read; either may fail.\<close>

definition serve_start :: "host \<Rightarrow> 'i api_env \<Rightarrow> server_options \<Rightarrow> ('i, 'i prepared_server) process" where
  "serve_start h env options =
     bind (prepare_server h env options) (\<lambda>p.
     bind (io h Io_LocalAddr) (\<lambda>_. ret p))"

end
