(* ===== verification/Cli_Guarantees.thy ===== *)
theory Cli_Guarantees
  imports Cli Event_Stream Sse Api_Guarantees
begin

text \<open>
  What the command line client does with an event stream: text is kept as it is where it is valid
  UTF-8, the pieces in which the body arrives do not matter then, the frames the server writes are
  read back, and \<open>follow_events\<close> prints the log once across connections. At the end, which requests
  a command sends.
\<close>

section \<open>Frames\<close>

lemma split_blank_append: "split_blank s = Some (frame, rest) \<Longrightarrow> split_blank (s @ t) = Some (frame, rest @ t)"
  by (induction s arbitrary: frame rest rule: split_blank.induct) (auto split: if_splits)

declare drain_frames.simps [simp del]

lemma drain_none: "split_blank b = None \<Longrightarrow> drain_frames env fo b fs = (False, [], b, fs)"
  by (simp add: drain_frames.simps [of env fo b])

text \<open>Reading on with more text, after the complete frames of the first part.\<close>

definition drain_on ::
  "'p client_env \<Rightarrow> follow_options \<Rightarrow> string \<Rightarrow> bool \<times> string \<times> string \<times> follow_state
   \<Rightarrow> bool \<times> string \<times> string \<times> follow_state" where
  "drain_on env fo t r =
     (case r of (finished, out, rest, fs) \<Rightarrow>
        if finished then (True, out, rest @ t, fs)
        else (case drain_frames env fo (rest @ t) fs of (f, out', b, fs') \<Rightarrow> (f, out @ out', b, fs')))"

lemma drain_append: "drain_frames env fo (s @ t) fs = drain_on env fo t (drain_frames env fo s fs)"
proof (induction env fo s fs rule: drain_frames.induct)
  case (1 env fo s fs)
  show ?case
  proof (cases "split_blank s")
    case None
    then show ?thesis by (simp add: drain_none drain_on_def)
  next
    case (Some fr)
    obtain frame rest where fr: "fr = (frame, rest)" by (cases fr)
    obtain event_id data where p: "parse_frame frame = (event_id, data)" by (cases "parse_frame frame")
    show ?thesis
    proof (cases "if data = [] then None else cn_parse env data")
      case None
      with 1(1) [OF Some fr [symmetric] p [symmetric] None] Some fr p split_blank_append [of s frame rest t]
      show ?thesis by (simp add: drain_frames.simps [of env fo s] drain_frames.simps [of env fo "s @ t"])
    next
      case (Some event)
      obtain finished shown fs' where h: "handle_event env fo event_id event fs = (finished, shown, fs')"
        by (cases "handle_event env fo event_id event fs")
      show ?thesis
      proof (cases finished)
        case True
        with Some \<open>split_blank s = Some fr\<close> fr p h split_blank_append [of s frame rest t] show ?thesis
          by (simp add: drain_frames.simps [of env fo s] drain_frames.simps [of env fo "s @ t"] drain_on_def)
      next
        case False
        with 1(2) [OF \<open>split_blank s = Some fr\<close> fr [symmetric] p [symmetric] Some h [symmetric] refl False]
          Some \<open>split_blank s = Some fr\<close> fr p h split_blank_append [of s frame rest t]
        show ?thesis
          by (simp add: drain_frames.simps [of env fo s] drain_frames.simps [of env fo "s @ t"] drain_on_def
              split: prod.splits)
      qed
    qed
  qed
qed

lemma drain_rest: "drain_frames env fo s fs = (False, out, b, fs') \<Longrightarrow> split_blank b = None"
proof (induction env fo s fs arbitrary: out rule: drain_frames.induct)
  case (1 env fo s fs)
  then show ?case
    by (subst (asm) (3) drain_frames.simps) (auto split: option.splits prod.splits if_splits)
qed

text \<open>The pieces of the body do not matter when each is valid UTF-8.\<close>

definition follow_on ::
  "'p client_env \<Rightarrow> follow_options \<Rightarrow> stream_item list \<Rightarrow> bool \<times> string \<times> string \<times> follow_state
   \<Rightarrow> follow_outcome \<times> string \<times> follow_state" where
  "follow_on env fo items r =
     (case r of (finished, out, buffer, fs) \<Rightarrow>
        if finished then (Fo_Return, out, fs)
        else (case follow_stream env fo items buffer fs of (q, out', fs') \<Rightarrow> (q, out @ out', fs')))"

lemma follow_pieces:
  assumes "list_all valid_utf8 cs" and "split_blank buffer = None"
  shows "follow_stream env fo (map St_Bytes cs @ items) buffer fs =
           follow_on env fo items (drain_frames env fo (buffer @ concat cs) fs)"
  using assms
proof (induction cs arbitrary: buffer fs)
  case Nil
  then show ?case by (simp add: drain_none follow_on_def split: prod.splits)
next
  case (Cons c cs)
  obtain finished out b fs' where d: "drain_frames env fo (buffer @ c) fs = (finished, out, b, fs')"
    by (cases "drain_frames env fo (buffer @ c) fs")
  have c: "from_utf8_lossy c = c" using Cons.prems by (simp add: lossy_valid)
  have whole: "drain_frames env fo (buffer @ c @ concat cs) fs = drain_on env fo (concat cs) (finished, out, b, fs')"
    using drain_append [of env fo "buffer @ c" "concat cs" fs] d by simp
  show ?case
  proof (cases finished)
    case True
    with d c whole show ?thesis by (simp add: follow_on_def drain_on_def)
  next
    case False
    then have "split_blank b = None" using drain_rest [of env fo "buffer @ c" fs out b fs'] d by simp
    from Cons.IH [OF _ this, of fs'] Cons.prems False d c whole show ?thesis
      by (simp add: follow_on_def drain_on_def split: prod.splits)
  qed
qed

section \<open>What the server writes\<close>

text \<open>
  A frame of the event stream, as the server's Sse response writes \<open>id\<close>, \<open>event\<close> and \<open>data\<close>
  in the order in which \<open>event_for_sse\<close> sets them, or its keep-alive comment.
\<close>

datatype wire_frame = Keep_Alive | Sse_Event "string option \<times> string \<times> string"

definition wire_lines :: "wire_frame \<Rightarrow> string list" where
  "wire_lines f =
     (case f of
        Keep_Alive \<Rightarrow> ['': keep-alive'']
      | Sse_Event (event_id, event_type, data) \<Rightarrow>
          (case event_id of None \<Rightarrow> [] | Some k \<Rightarrow> [''id: '' @ k]) @
          [''event: '' @ event_type, ''data: '' @ data])"

definition wire :: "wire_frame \<Rightarrow> string" where
  "wire f = join_lf (wire_lines f) @ [LF, LF]"

fun sse_events :: "wire_frame list \<Rightarrow> (string option \<times> string \<times> string) list" where
  "sse_events [] = []"
| "sse_events (Keep_Alive # ws) = sse_events ws"
| "sse_events (Sse_Event e # ws) = e # sse_events ws"

lemma split_blank_line:
  "LF \<notin> set l \<Longrightarrow> split_blank (LF # s) = Some (f, r) \<Longrightarrow> split_blank (l @ LF # s) = Some (l @ f, r)"
proof (induction l)
  case (Cons c l)
  then show ?case by (cases l) auto
qed simp

lemma split_blank_join:
  "ls \<noteq> [] \<Longrightarrow> list_all written ls \<Longrightarrow> split_blank (join_lf ls @ LF # LF # rest) = Some (join_lf ls, rest)"
proof (induction ls rule: join_lf.induct)
  case (2 l)
  then show ?case using split_blank_line [of l "LF # rest"] by (simp add: written_def)
next
  case (3 l l' ls)
  let ?t = "join_lf (l' # ls) @ LF # LF # rest"
  have "l' \<noteq> []" "LF \<notin> set l'" using 3(3) by (simp_all add: written_def)
  then obtain c t where t: "?t = c # t" "c \<noteq> LF" by (cases l'; cases ls) auto
  have "split_blank ?t = Some (join_lf (l' # ls), rest)" using 3 by simp
  then have "split_blank (LF # ?t) = Some (LF # join_lf (l' # ls), rest)"
    unfolding t(1) using t(2) by simp
  from split_blank_line [OF _ this, of l] 3(3) show ?case by (simp add: written_def)
qed simp

lemma trim_start_graph: "0x21 \<le> byte a \<Longrightarrow> byte a < 0x80 \<Longrightarrow> trim_start (a # s) = a # s"
proof -
  assume a: "0x21 \<le> byte a" "byte a < 0x80"
  then have "ws_head (a # s) = 0"
    by (cases "a # s" rule: ws_head.cases) (auto simp: is_ascii_ws_def is_ws2_def is_ws3_def)
  then show ?thesis by (simp add: trim_start.simps [of "a # s"])
qed

lemma trim_end_graph: "0x21 \<le> byte a \<Longrightarrow> byte a < 0x80 \<Longrightarrow> trim_end (s @ [a]) = s @ [a]"
proof -
  assume a: "0x21 \<le> byte a" "byte a < 0x80"
  then have "ws_last (a # rev s) = 0"
    by (cases "a # rev s" rule: ws_last.cases) (auto simp: is_ascii_ws_def is_ws2_def is_ws3_def)
  then show ?thesis by (simp add: trim_end_def trim_rev.simps [of "a # rev s"])
qed

lemma trim_decimal: "trim (CHR '' '' # decimal n) = decimal n"
proof -
  have all: "decimal n \<noteq> []" "list_all is_digit (decimal n)" using decimal_digits [of n] by simp_all
  obtain c s where s: "decimal n = c # s" using all(1) by (cases "decimal n") auto
  obtain s' d where d: "decimal n = s' @ [d]" using all(1) by (cases "decimal n" rule: rev_cases) auto
  have "is_digit c" using all(2) s by simp
  then have "trim_start (decimal n) = decimal n" unfolding s by (intro trim_start_graph) (auto simp: is_digit_def)
  moreover have "is_digit d" using all(2) d by simp
  then have "trim_end (decimal n) = decimal n" unfolding d by (intro trim_end_graph) (auto simp: is_digit_def)
  ultimately show ?thesis by (simp add: trim_def trim_start_blank)
qed

definition wire_text :: "string \<Rightarrow> bool" where
  "wire_text l \<longleftrightarrow> l \<noteq> [] \<and> line_text l"

lemma wire_written:
  "wire_text ty \<Longrightarrow> wire_text d \<Longrightarrow> list_all written (wire_lines (Sse_Event (Some (decimal n), ty, d)))"
proof -
  have all: "decimal n \<noteq> []" "list_all is_digit (decimal n)" using decimal_digits [of n] by simp_all
  then have "is_digit (last (decimal n))" by (simp add: list_all_iff)
  then have "last (decimal n) \<noteq> CR" by (auto simp: is_digit_def byte_def)
  moreover have "LF \<notin> set (decimal n)" using all(2) by (auto simp: list_all_iff is_digit_def byte_def)
  moreover assume "wire_text ty" "wire_text d"
  ultimately show ?thesis
    using all(1) by (simp add: wire_lines_def written_def wire_text_def line_text_def)
qed

lemma parse_frame_wire:
  assumes "n \<le> u64_max" and "wire_text ty" and "wire_text d"
  shows "parse_frame (join_lf (wire_lines (Sse_Event (Some (decimal n), ty, d)))) = (Some n, d)"
proof -
  have "trim_start d = d" using assms(3) by (simp add: wire_text_def line_text_def)
  moreover have "lines (join_lf (wire_lines (Sse_Event (Some (decimal n), ty, d)))) =
      wire_lines (Sse_Event (Some (decimal n), ty, d))"
    by (rule lines_join [OF wire_written [OF assms(2,3)]])
  ultimately show ?thesis
    by (simp add: parse_frame_def wire_lines_def parse_frame_line_def trim_decimal trim_start_blank
        parse_u64_decimal [OF assms(1)])
qed

section \<open>Following with --json\<close>

text \<open>
  How an event reaches the client: \<open>js\<close> is its JSON value, which the client's parser reads back
  from the data the server writes.
\<close>

definition wired ::
  "'p client_env \<Rightarrow> (recorded_event \<Rightarrow> string option \<times> string \<times> string) \<Rightarrow> (recorded_event \<Rightarrow> json)
   \<Rightarrow> recorded_event \<Rightarrow> bool" where
  "wired env frame js e \<longleftrightarrow> re_id e \<le> u64_max \<and>
     (\<exists>ty d. frame e = (Some (decimal (re_id e)), ty, d) \<and> wire_text ty \<and> wire_text d \<and>
        cn_parse env d = Some (js e))"

definition json_line :: "'p client_env \<Rightarrow> json \<Rightarrow> string" where
  "json_line env v = cn_print env v @ [LF]"

lemma drain_keep_alive: "drain_frames env fo (wire Keep_Alive @ rest) fs = drain_frames env fo rest fs"
proof -
  have ls: "list_all written (wire_lines Keep_Alive)" "wire_lines Keep_Alive \<noteq> []"
    by (simp_all add: wire_lines_def written_def)
  have "parse_frame (join_lf (wire_lines Keep_Alive)) = (None, [])"
    using lines_join [OF ls(1)] by (simp add: parse_frame_def wire_lines_def parse_frame_line_def)
  with split_blank_join [OF ls(2,1), of rest] show ?thesis
    by (simp add: wire_def drain_frames.simps [of env fo "join_lf (wire_lines Keep_Alive) @ LF # LF # rest"])
qed

lemma drain_event:
  assumes "wired env frame js e" and "fo_json fo" and "fo_until_run fo = None"
  obtains fs' where
    "drain_frames env fo (wire (Sse_Event (frame e)) @ rest) fs =
       (case drain_frames env fo rest fs' of (f, out, b, fs'') \<Rightarrow> (f, json_line env (js e) @ out, b, fs''))"
    and "fs_last_seen fs' = max (fs_last_seen fs) (re_id e)"
proof -
  from assms(1) obtain ty d where d: "frame e = (Some (decimal (re_id e)), ty, d)" "wire_text ty" "wire_text d"
    "cn_parse env d = Some (js e)" "re_id e \<le> u64_max"
    by (auto simp: wired_def)
  have ls: "list_all written (wire_lines (Sse_Event (frame e)))" "wire_lines (Sse_Event (frame e)) \<noteq> []"
    using wire_written [OF d(2,3)] d(1) by (simp_all add: wire_lines_def)
  have p: "parse_frame (join_lf (wire_lines (Sse_Event (frame e)))) = (Some (re_id e), d)"
    using parse_frame_wire [OF d(5,2,3)] d(1) by simp
  obtain fs' where h: "handle_event env fo (Some (re_id e)) (js e) fs = (False, json_line env (js e), fs')"
    "fs_last_seen fs' = max (fs_last_seen fs) (re_id e)"
    using assms(2,3) by (auto simp: handle_event_def Let_def json_line_def)
  have "d \<noteq> []" using d(3) by (simp add: wire_text_def)
  with split_blank_join [OF ls(2,1), of rest] p h(1) d(4)
  have "drain_frames env fo (wire (Sse_Event (frame e)) @ rest) fs =
       (case drain_frames env fo rest fs' of (f, out, b, fs'') \<Rightarrow> (f, json_line env (js e) @ out, b, fs''))"
    by (simp add: wire_def
        drain_frames.simps [of env fo "join_lf (wire_lines (Sse_Event (frame e))) @ LF # LF # rest"]
        split: prod.splits)
  with h(2) show ?thesis by (rule that [rotated])
qed

lemma drain_wires:
  assumes "sse_events ws = map frame es" and "list_all (wired env frame js) es"
    and "consecutive (Suc (fs_last_seen fs)) es"
    and "fo_json fo" and "fo_until_run fo = None" and "split_blank tail = None"
  shows "\<exists>fs'. drain_frames env fo (concat (map wire ws) @ tail) fs =
           (False, concat (map (\<lambda>e. json_line env (js e)) es), tail, fs') \<and>
         fs_last_seen fs' = fs_last_seen fs + length es"
  using assms(1-3)
proof (induction ws arbitrary: es fs)
  case Nil
  with assms(6) show ?case by (simp add: drain_none)
next
  case (Cons w ws)
  show ?case
  proof (cases w)
    case Keep_Alive
    with Cons show ?thesis by (simp add: drain_keep_alive)
  next
    case (Sse_Event x)
    with Cons.prems(1) obtain e es' where es: "es = e # es'" "x = frame e" "sse_events ws = map frame es'"
      by (cases es) auto
    have e: "wired env frame js e" "re_id e = Suc (fs_last_seen fs)"
      using Cons.prems(2,3) es(1) by simp_all
    obtain fs' where d: "drain_frames env fo (wire (Sse_Event (frame e)) @ concat (map wire ws) @ tail) fs =
       (case drain_frames env fo (concat (map wire ws) @ tail) fs' of
          (f, out, b, fs'') \<Rightarrow> (f, json_line env (js e) @ out, b, fs''))"
      "fs_last_seen fs' = max (fs_last_seen fs) (re_id e)"
      using drain_event [OF e(1) assms(4,5)] by blast
    have "consecutive (Suc (fs_last_seen fs')) es'" using Cons.prems(3) es(1) d(2) by simp
    from Cons.IH [OF es(3) _ this] Cons.prems(2) es(1)
    obtain fs'' where "drain_frames env fo (concat (map wire ws) @ tail) fs' =
        (False, concat (map (\<lambda>e. json_line env (js e)) es'), tail, fs'')"
      "fs_last_seen fs'' = fs_last_seen fs' + length es'" by auto
    with d e(2) es(1,2) Sse_Event show ?thesis by simp
  qed
qed

section \<open>Across connections\<close>

text \<open>
  The body of a connection that carries the events \<open>es\<close>: whole frames, with keep-alives between
  them, and what was sent of a frame when the connection ended, in pieces of valid UTF-8.
\<close>

definition carries ::
  "(recorded_event \<Rightarrow> string option \<times> string \<times> string) \<Rightarrow> string list \<Rightarrow> recorded_event list \<Rightarrow> bool" where
  "carries frame cs es \<longleftrightarrow> list_all valid_utf8 cs \<and>
     (\<exists>ws tail. concat cs = concat (map wire ws) @ tail \<and> split_blank tail = None \<and>
        sse_events ws = map frame es)"

text \<open>What \<open>stream_events\<close> had yielded of the log \<open>recs\<close>, asked for the events after \<open>n\<close>.\<close>

definition served_part ::
  "serde \<Rightarrow> string \<Rightarrow> recorded_event list \<Rightarrow> nat \<Rightarrow> recorded_event list \<Rightarrow> bool" where
  "served_part sd sid recs n es \<longleftrightarrow>
     (\<exists>st stored k j rs rest. store_ok sd st \<and> find_session st sid \<noteq> None \<and>
        store_events sd sid n u32_max st = Inr stored \<and> select_events sd st sid = Inr (take k recs) \<and>
        k \<le> length recs \<and> j \<le> k \<and> in_feed sd sid recs j rs \<and>
        stream_events sd sid n stored rs = es @ rest)"

lemma served_part_slice:
  assumes "served_part sd sid recs n es" and "consecutive 1 recs" and "length recs \<le> i64_max"
    and "n \<le> length recs"
  shows "es = drop n (take (n + length es) recs)" and "n + length es \<le> length recs"
proof -
  from assms(1) obtain st stored k j rs rest where
    "store_ok sd st" "find_session st sid \<noteq> None" "store_events sd sid n u32_max st = Inr stored"
    "select_events sd st sid = Inr (take k recs)" "k \<le> length recs" "j \<le> k" "in_feed sd sid recs j rs"
    and es: "stream_events sd sid n stored rs = es @ rest"
    unfolding served_part_def by blast
  with assms(2-4) stream_events_slice [of sd st sid n stored k recs j rs]
  obtain l where "es @ rest = drop n (take l recs)" by auto
  then have "es = take (length es) (drop n (take l recs))" "length es \<le> length (drop n (take l recs))"
    by (metis append_eq_conv_conj, metis length_append le_add1)
  then show "es = drop n (take (n + length es) recs)" "n + length es \<le> length recs"
    using assms(4) by (auto simp: drop_take min_def split: if_splits)
qed

text \<open>
  A peer that serves the log: each connection carries a part of it behind the \<open>Last-Event-ID\<close>, and
  ends; in the last one the user presses Ctrl-C. \<open>l\<close> events were sent in full.
\<close>

inductive delivers ::
  "'p client_env \<Rightarrow> string \<Rightarrow> string \<Rightarrow> string option \<Rightarrow> serde \<Rightarrow> recorded_event list
   \<Rightarrow> (recorded_event \<Rightarrow> string option \<times> string \<times> string) \<Rightarrow> nat \<Rightarrow> 'p \<Rightarrow> nat \<Rightarrow> bool"
  for env server sid token sd recs frame where
  deliver_stop:
    "cn_stream env (stream_request server sid token n) p =
       (Some (200, map St_Bytes cs @ St_Interrupt # items), p') \<Longrightarrow>
     carries frame cs es \<Longrightarrow> served_part sd sid recs n es \<Longrightarrow>
     delivers env server sid token sd recs frame n p (n + length es)"
| deliver_again:
    "cn_stream env (stream_request server sid token n) p = (Some (200, map St_Bytes cs), p') \<Longrightarrow>
     carries frame cs es \<Longrightarrow> served_part sd sid recs n es \<Longrightarrow>
     delivers env server sid token sd recs frame (n + length es) p' l \<Longrightarrow>
     delivers env server sid token sd recs frame n p l"

lemma consecutive_from:
  assumes "consecutive 1 recs" and "es = drop n (take m recs)"
  shows "consecutive (Suc n) es"
  using consecutive_slice [OF assms(1), of n m] assms(2) by simp

text \<open>One connection, up to what follows the pieces of its body.\<close>

lemma follow_connection:
  assumes "carries frame cs es" and "list_all (wired env frame js) es"
    and "consecutive (Suc (fs_last_seen fs)) es" and "fo_json fo" and "fo_until_run fo = None"
  shows "\<exists>fs' b. follow_stream env fo (map St_Bytes cs @ items) [] fs =
           (case follow_stream env fo items b fs' of (q, out, fs'') \<Rightarrow>
              (q, concat (map (\<lambda>e. json_line env (js e)) es) @ out, fs'')) \<and>
         fs_last_seen fs' = fs_last_seen fs + length es"
proof -
  from assms(1) obtain ws tail where w: "list_all valid_utf8 cs"
    "concat cs = concat (map wire ws) @ tail" "split_blank tail = None" "sse_events ws = map frame es"
    by (auto simp: carries_def)
  obtain fs' where d: "drain_frames env fo (concat (map wire ws) @ tail) fs =
      (False, concat (map (\<lambda>e. json_line env (js e)) es), tail, fs')"
    "fs_last_seen fs' = fs_last_seen fs + length es"
    using drain_wires [OF w(4) assms(2-5) w(3)] by blast
  have "follow_stream env fo (map St_Bytes cs @ items) [] fs =
      follow_on env fo items (drain_frames env fo (concat cs) fs)"
    using follow_pieces [OF w(1), of "[]"] by simp
  with d w(2) show ?thesis by (auto simp: follow_on_def)
qed

lemma delivers_bounds:
  assumes "delivers env server sid token sd recs frame n p l"
    and "consecutive 1 recs" and "length recs \<le> i64_max" and "n \<le> length recs"
  shows "n \<le> l \<and> l \<le> length recs"
  using assms
proof (induction rule: delivers.induct)
  case (deliver_stop n p cs items p' es)
  then show ?case using served_part_slice(2) by fastforce
next
  case (deliver_again n p cs p' es l)
  have "n + length es \<le> length recs"
    using served_part_slice(2) [OF deliver_again.hyps(3) deliver_again.prems] .
  with deliver_again.IH [OF deliver_again.prems(1,2)] show ?case by simp
qed

text \<open>The state after one more request.\<close>

definition asked :: "client_request \<Rightarrow> 'p \<Rightarrow> string \<Rightarrow> 'p client \<Rightarrow> 'p client" where
  "asked r p out s = s\<lparr>cl_peer := p, cl_sent := cl_sent s @ [r], cl_output := cl_output s @ out\<rparr>"

lemma follow_step:
  assumes "cn_stream env (stream_request server sid token (fs_last_seen fs)) (cl_peer s) = (Some (200, items), p')"
    and "follow_stream env fo items [] fs = (q, out, fs')"
  shows "follow_events (Suc k) env server sid fo token fs s =
           (case q of
              Fo_Return \<Rightarrow> ret ()
            | Fo_Error \<Rightarrow> raise (Ce_Connect ''reading piqo event stream'')
            | Fo_Ended \<Rightarrow> follow_events k env server sid fo token fs')
           (asked (stream_request server sid token (fs_last_seen fs)) p' out s)"
  using assms
  by (simp add: Let_def bind_def gets_def modify_def error_status_def print_out_def asked_def)

lemma follow_json:
  assumes "delivers env server sid token sd recs frame n p l"
    and "consecutive 1 recs" and "length recs \<le> i64_max" and "n \<le> length recs"
    and "list_all (wired env frame js) recs" and "fo_json fo" and "fo_until_run fo = None"
    and "fs_last_seen fs = n" and "cl_peer s = p"
  shows "\<exists>N. \<forall>k \<ge> N. \<exists>s'. follow_events k env server sid fo token fs s = Some (Inr (), s') \<and>
           cl_output s' = cl_output s @ concat (map (\<lambda>e. json_line env (js e)) (drop n (take l recs)))"
  using assms
proof (induction arbitrary: fs s rule: delivers.induct)
  case (deliver_stop n p cs items p' es)
  note es = served_part_slice [OF deliver_stop.hyps(3) deliver_stop.prems(1-3)]
  have all: "list_all (wired env frame js) es"
    using deliver_stop.prems(4) arg_cong [OF es(1), of set]
    by (auto simp: list_all_iff dest!: in_set_dropD in_set_takeD)
  have con: "consecutive (Suc (fs_last_seen fs)) es"
    using consecutive_from [OF deliver_stop.prems(1) es(1)] deliver_stop.prems(7) by simp
  obtain fs' where f: "follow_stream env fo (map St_Bytes cs @ St_Interrupt # items) [] fs =
      (Fo_Return, concat (map (\<lambda>e. json_line env (js e)) es), fs')"
    using follow_connection [OF deliver_stop.hyps(2) all con deliver_stop.prems(5,6), of "St_Interrupt # items"]
    by auto
  have step: "follow_events (Suc k) env server sid fo token fs s =
      Some (Inr (), asked (stream_request server sid token n) p' (concat (map (\<lambda>e. json_line env (js e)) es)) s)"
    for k
    using follow_step [OF _ f] deliver_stop.hyps(1) deliver_stop.prems(7,8) by (simp add: ret_def)
  show ?case
    using step es(1) [symmetric] by (intro exI [of _ 1]) (auto simp: asked_def dest!: Suc_le_D)
next
  case (deliver_again n p cs p' es l)
  note es = served_part_slice [OF deliver_again.hyps(3) deliver_again.prems(1-3)]
  have all: "list_all (wired env frame js) es"
    using deliver_again.prems(4) arg_cong [OF es(1), of set]
    by (auto simp: list_all_iff dest!: in_set_dropD in_set_takeD)
  have con: "consecutive (Suc (fs_last_seen fs)) es"
    using consecutive_from [OF deliver_again.prems(1) es(1)] deliver_again.prems(7) by simp
  let ?out = "concat (map (\<lambda>e. json_line env (js e)) es)"
  obtain fs' where f: "follow_stream env fo (map St_Bytes cs) [] fs = (Fo_Ended, ?out, fs')"
    and seen: "fs_last_seen fs' = n + length es"
    using follow_connection [OF deliver_again.hyps(2) all con deliver_again.prems(5,6), of "[]"]
      deliver_again.prems(7) by auto
  define u where "u = asked (stream_request server sid token n) p' ?out s"
  have step: "follow_events (Suc k) env server sid fo token fs s = follow_events k env server sid fo token fs' u" for k
    using follow_step [OF _ f] deliver_again.hyps(1) deliver_again.prems(7,8) by (simp add: u_def)
  have "cl_peer u = p'" by (simp add: u_def asked_def)
  from deliver_again.IH [OF deliver_again.prems(1,2) es(2) deliver_again.prems(4-6) seen this]
  obtain N where N: "\<forall>k \<ge> N. \<exists>s'. follow_events k env server sid fo token fs' u = Some (Inr (), s') \<and>
      cl_output s' = cl_output u @ concat (map (\<lambda>e. json_line env (js e)) (drop (n + length es) (take l recs)))"
    by blast
  have l: "n + length es \<le> l"
    using delivers_bounds [OF deliver_again.hyps(4) deliver_again.prems(1,2) es(2)] by simp
  have "drop n (take l recs) = es @ drop (n + length es) (take l recs)"
    using drop_take_append [OF _ l, of n recs] es(1) by simp
  then have out: "cl_output u @ concat (map (\<lambda>e. json_line env (js e)) (drop (n + length es) (take l recs))) =
      cl_output s @ concat (map (\<lambda>e. json_line env (js e)) (drop n (take l recs)))"
    by (simp add: u_def asked_def)
  show ?case
  proof (intro exI [of _ "Suc N"] allI impI)
    fix k
    assume "Suc N \<le> k"
    then obtain j where "k = Suc j" "N \<le> j" by (cases k) auto
    with N [unfolded out] step show "\<exists>s'. follow_events k env server sid fo token fs s = Some (Inr (), s') \<and>
        cl_output s' = cl_output s @ concat (map (\<lambda>e. json_line env (js e)) (drop n (take l recs)))"
      by (simp del: follow_events.simps)
  qed
qed

section \<open>Requests at the server\<close>

text \<open>A request of the client as it arrives: the path behind the server's address, split.\<close>

definition arrive :: "'p client_env \<Rightarrow> string \<Rightarrow> client_request \<Rightarrow> http_request" where
  "arrive env server r =
     \<lparr>hq_method = cq_method r,
      hq_path = split_on (CHR ''/'') (drop (Suc (length server)) (cq_url r)),
      hq_headers = cq_headers r, hq_query = cq_query r,
      hq_body = (case cq_body r of None \<Rightarrow> [] | Some v \<Rightarrow> cn_print env v)\<rparr>"

text \<open>The request passes the token and reaches the handler, with the parameters of its route.\<close>

definition served_by ::
  "'p client_env \<Rightarrow> 'i api_env \<Rightarrow> string \<Rightarrow> string \<Rightarrow> client_request \<Rightarrow> 'i handler \<Rightarrow> string list \<Rightarrow> bool" where
  "served_by env senv token server r handler ps \<longleftrightarrow>
     starts_with (server @ ''/'') (cq_url r) \<and>
     router_with_token senv (Some token) (arrive env server r) =
       metrics_layer senv (shutdown_layer (\<lambda>s.
         map_option (\<lambda>(a, s'). (answer_response (ae_display senv) a, s'))
           (handler senv (arrive env server r) ps s)))"

text \<open>An identifier that is one segment of a path and stays as it is in a URL.\<close>

definition segment_ok :: "string \<Rightarrow> bool" where
  "segment_ok s \<longleftrightarrow> s \<noteq> [] \<and> list_all (\<lambda>c. is_ascii_alphanumeric c \<or> c = CHR ''-'' \<or> c = CHR ''_'') s"

lemma segment_slash: "segment_ok s \<Longrightarrow> CHR ''/'' \<notin> set s"
  by (auto simp: segment_ok_def list_all_iff is_ascii_alphanumeric_def byte_def)

lemma split_on_segment:
  "CHR ''/'' \<notin> set a \<Longrightarrow> split_on (CHR ''/'') a = [a]"
  "CHR ''/'' \<notin> set a \<Longrightarrow> split_on (CHR ''/'') (a @ CHR ''/'' # s) = a # split_on (CHR ''/'') s"
  by (induction a) auto

lemma served_byI:
  assumes "authorized (ae_to_str senv) token (arrive env server r)"
    and "cq_url r = server @ ''/'' @ path"
    and "find_route (split_on (CHR ''/'') path) = Some (ps, methods)"
    and "map_of methods (cq_method r) = Some handler"
  shows "served_by env senv token server r handler ps"
  using assms
  by (auto simp: served_by_def router_with_token_def authenticate_request_def dispatch_def arrive_def
      starts_with_iff fun_eq_iff metrics_layer_def shutdown_layer_def)

lemma bearer_accepted:
  assumes "ae_to_str senv (''Bearer '' @ token) = Some (''Bearer '' @ token)" and "length token < 2 ^ 64"
    and "map_of (cq_headers r) ''authorization'' = Some (''Bearer '' @ token)"
  shows "authorized (ae_to_str senv) token (arrive env server r)"
  using assms constant_time_equal_iff [of token token]
  by (simp add: authorized_def arrive_def header_of_def)

lemma authenticated_header:
  "or_else given (cn_env_token env) = Some token \<Longrightarrow> map_of (cq_headers r) ''authorization'' = None \<Longrightarrow>
   map_of (cq_headers (authenticated env r given)) ''authorization'' = Some (''Bearer '' @ token)"
  by (simp add: authenticated_def bearer_auth_def map_add_def)

lemma authenticated_kept [simp]:
  "cq_url (authenticated env r given) = cq_url r" "cq_method (authenticated env r given) = cq_method r"
  by (simp_all add: authenticated_def bearer_auth_def split: option.splits)

text \<open>The routes the client uses.\<close>

lemmas route_simps = find_route_def routes_def starts_with_def unwrap_or_def

lemma client_routes:
  fixes a b c :: string
  assumes "a \<noteq> []" and "b \<noteq> []" and "c \<noteq> []"
  shows
    "find_route [''api'', ''v1'', ''projects''] =
       Some ([], [(POST, create_project_handler), (GET, list_projects_handler)])"
    "find_route [''api'', ''v1'', ''projects'', a] =
       Some ([a], [(GET, get_project_handler), (PATCH, update_project_handler), (DELETE, delete_project_handler)])"
    "find_route [''api'', ''v1'', ''sessions''] =
       Some ([], [(POST, create_session_handler), (GET, list_sessions_handler)])"
    "find_route [''api'', ''v1'', ''sessions'', a, ''runs''] = Some ([a], [(POST, create_run_handler)])"
    "find_route [''api'', ''v1'', ''sessions'', a, ''runs'', b] = Some ([a, b], [(GET, get_run_handler)])"
    "find_route [''api'', ''v1'', ''sessions'', a, ''runs'', b, ''tool_calls'', c, ''result''] =
       Some ([a, b, c], [(POST, submit_tool_result_handler)])"
    "find_route [''api'', ''v1'', ''sessions'', a, ''runs'', b, ''permission_requests''] =
       Some ([a, b], [(GET, list_permission_requests_handler)])"
    "find_route [''api'', ''v1'', ''sessions'', a, ''runs'', b, ''permission_requests'', c, ''approve''] =
       Some ([a, b, c], [(POST, approve_permission_handler)])"
    "find_route [''api'', ''v1'', ''sessions'', a, ''runs'', b, ''permission_requests'', c, ''deny''] =
       Some ([a, b, c], [(POST, deny_permission_handler)])"
    "find_route [''api'', ''v1'', ''sessions'', a, ''events'', ''stream''] =
       Some ([a], [(GET, stream_events_handler)])"
    "find_route [''api'', ''v1'', ''storage'', ''backups''] = Some ([], [(POST, create_backup_handler)])"
  using assms by (simp_all add: route_simps)

text \<open>The client was given the token of the server, which is text a header can carry.\<close>

definition shares_token :: "'p client_env \<Rightarrow> 'i api_env \<Rightarrow> connection_options \<Rightarrow> string \<Rightarrow> bool" where
  "shares_token env senv c token \<longleftrightarrow>
     or_else (co_token c) (cn_env_token env) = Some token \<and> length token < 2 ^ 64 \<and>
     ae_to_str senv (''Bearer '' @ token) = Some (''Bearer '' @ token)"

lemma reachesI:
  assumes "shares_token env senv c token" and "map_of (cq_headers r) ''authorization'' = Some (''Bearer '' @ token)"
    and "cq_url r = co_server c @ ''/'' @ path"
    and "split_on (CHR ''/'') path = segments" and "find_route segments = Some (ps, methods)"
    and "map_of methods (cq_method r) = Some handler"
  shows "served_by env senv token (co_server c) r handler ps"
  using bearer_accepted [of senv token r env "co_server c"] assms(1,2,3) assms(5) [folded assms(4)] assms(6)
  by (intro served_byI) (simp_all add: shares_token_def)

lemma sent_headers:
  assumes "shares_token env senv c token" and "map_of (cq_headers r) ''authorization'' = None"
  shows "map_of (cq_headers (authenticated env r (co_token c))) ''authorization'' = Some (''Bearer '' @ token)"
    and "map_of (cq_headers (authenticated env r (or_else (co_token c) (cn_env_token env)))) ''authorization'' =
      Some (''Bearer '' @ token)"
  using authenticated_header [of "co_token c" env token r]
    authenticated_header [of "or_else (co_token c) (cn_env_token env)" env token r] assms
  by (simp_all add: shares_token_def or_else_def)

lemma project_requests_reach:
  assumes shared: "shares_token env senv c token" and a_ok: "segment_ok a"
  shows "\<exists>r. project_request env (Pc_Create name path c) = Inr r \<and> served_by env senv token (co_server c) r create_project_handler []"
    and "\<exists>r. project_request env (Pc_List c limit cursor) = Inr r \<and> served_by env senv token (co_server c) r list_projects_handler []"
    and "\<exists>r. project_request env (Pc_Get a c) = Inr r \<and> served_by env senv token (co_server c) r get_project_handler [a]"
    and "new_name \<noteq> None \<or> new_path \<noteq> None \<Longrightarrow>
      \<exists>r. project_request env (Pc_Update a new_name new_path c) = Inr r \<and> served_by env senv token (co_server c) r update_project_handler [a]"
    and "\<exists>r. project_request env (Pc_Delete a True c) = Inr r \<and> served_by env senv token (co_server c) r delete_project_handler [a]"
proof -
  note [simp] = project_request_def with_json_def plain_def sent_headers [OF shared]
  have a: "a \<noteq> []" "split_on (CHR ''/'') a = [a]"
    using a_ok segment_slash by (auto simp: segment_ok_def split_on_segment)
  note routes = client_routes [of a a a, OF a(1) a(1) a(1)]
  note whole = reachesI [where path = "''api/v1/projects''", OF shared _ _ _ routes(1)]
    and one = reachesI [where path = "''api/v1/projects/'' @ a", OF shared _ _ _ routes(2)]
  show "\<exists>r. project_request env (Pc_Create name path c) = Inr r \<and> served_by env senv token (co_server c) r create_project_handler []"
    by (auto intro!: whole)
  show "\<exists>r. project_request env (Pc_List c limit cursor) = Inr r \<and> served_by env senv token (co_server c) r list_projects_handler []"
    by (cases limit; cases cursor) (auto intro!: whole simp: Let_def)
  show "\<exists>r. project_request env (Pc_Get a c) = Inr r \<and> served_by env senv token (co_server c) r get_project_handler [a]"
    by (auto intro!: one simp: a)
  show "\<exists>r. project_request env (Pc_Update a new_name new_path c) = Inr r \<and> served_by env senv token (co_server c) r update_project_handler [a]"
    if "new_name \<noteq> None \<or> new_path \<noteq> None"
    using that by (auto intro!: one simp: a)
  show "\<exists>r. project_request env (Pc_Delete a True c) = Inr r \<and> served_by env senv token (co_server c) r delete_project_handler [a]"
    by (auto intro!: one simp: a)
qed

lemma run_requests_reach:
  assumes shared: "shares_token env senv c token" and "segment_ok a" and "segment_ok b" and "segment_ok d"
  shows "\<exists>r. action_request env (Ac_Inspect a b c) = Inr r \<and> served_by env senv token (co_server c) r get_run_handler [a, b]"
    and "cn_parse env given = Some v \<Longrightarrow>
      \<exists>r. action_request env (Ac_Result a b d given c) = Inr r \<and> served_by env senv token (co_server c) r submit_tool_result_handler [a, b, d]"
    and "served_by env senv token (co_server c) (permission_command_request env (Pm_List a b c)) list_permission_requests_handler [a, b]"
    and "served_by env senv token (co_server c) (permission_command_request env (Pm_Approve a b d scope c)) approve_permission_handler [a, b, d]"
    and "served_by env senv token (co_server c) (permission_command_request env (Pm_Deny a b d c)) deny_permission_handler [a, b, d]"
proof -
  note [simp] = action_request_def permission_command_request_def with_json_def plain_def run_path_def sent_headers [OF shared]
  have ids: "a \<noteq> []" "b \<noteq> []" "d \<noteq> []" using assms by (auto simp: segment_ok_def)
  note [simp] = split_on_segment [OF segment_slash [OF assms(2)]] split_on_segment [OF segment_slash [OF assms(3)]]
    split_on_segment [OF segment_slash [OF assms(4)]]
  note routes = client_routes [of a b d, OF ids]
  let ?run = "''api/v1/sessions/'' @ a @ ''/runs/'' @ b"
  show "\<exists>r. action_request env (Ac_Inspect a b c) = Inr r \<and> served_by env senv token (co_server c) r get_run_handler [a, b]"
    by (auto intro!: reachesI [where path = ?run, OF shared _ _ _ routes(5)])
  show "\<exists>r. action_request env (Ac_Result a b d given c) = Inr r \<and> served_by env senv token (co_server c) r submit_tool_result_handler [a, b, d]"
    if "cn_parse env given = Some v"
    using that by (auto intro!: reachesI [where path = "?run @ ''/tool_calls/'' @ d @ ''/result''", OF shared _ _ _ routes(6)])
  show "served_by env senv token (co_server c) (permission_command_request env (Pm_List a b c)) list_permission_requests_handler [a, b]"
    by (auto intro!: reachesI [where path = "?run @ ''/permission_requests''", OF shared _ _ _ routes(7)])
  show "served_by env senv token (co_server c) (permission_command_request env (Pm_Approve a b d scope c)) approve_permission_handler [a, b, d]"
    by (auto intro!: reachesI [where path = "?run @ ''/permission_requests/'' @ d @ ''/approve''", OF shared _ _ _ routes(8)])
  show "served_by env senv token (co_server c) (permission_command_request env (Pm_Deny a b d c)) deny_permission_handler [a, b, d]"
    by (auto intro!: reachesI [where path = "?run @ ''/permission_requests/'' @ d @ ''/deny''", OF shared _ _ _ routes(9)])
qed

lemma session_requests_reach:
  assumes shared: "shares_token env senv c token" and a_ok: "segment_ok a" and n: "n \<le> u64_max" and conn: "ro_connection o' = c"
    and visible: "ae_to_str senv (decimal n) = Some (decimal n)"
  defines "sent \<equiv> or_else (co_token c) (cn_env_token env)"
  shows "served_by env senv token (co_server c) (session_request sent o') create_session_handler []"
    and "served_by env senv token (co_server c) (prompt_request sent o' a) create_run_handler [a]"
    and "served_by env senv token (co_server c) (backup_request env c) create_backup_handler []"
    and "served_by env senv token (co_server c) (stream_request (co_server c) a sent n) stream_events_handler [a]"
    and "parse_last_event_id (ae_to_str senv) (arrive env (co_server c) (stream_request (co_server c) a sent n)) = Inr n"
proof -
  note [simp] = session_request_def prompt_request_def backup_request_def with_json_def plain_def
    sent_headers [OF shared] conn maybe_bearer_def bearer_auth_def
  have a: "a \<noteq> []" using a_ok by (simp add: segment_ok_def)
  note [simp] = split_on_segment [OF segment_slash [OF a_ok]]
  note routes = client_routes [of a a a, OF a a a]
  have t: "sent = Some token" using shared by (simp add: shares_token_def sent_def)
  show "served_by env senv token (co_server c) (session_request sent o') create_session_handler []"
    by (auto intro!: reachesI [where path = "''api/v1/sessions''", OF shared _ _ _ routes(3)] simp: t)
  show "served_by env senv token (co_server c) (prompt_request sent o' a) create_run_handler [a]"
    by (auto intro!: reachesI [where path = "''api/v1/sessions/'' @ a @ ''/runs''", OF shared _ _ _ routes(4)] simp: t)
  show "served_by env senv token (co_server c) (backup_request env c) create_backup_handler []"
    by (auto intro!: reachesI [where path = "''api/v1/storage/backups''", OF shared _ _ _ routes(11)])
  show "served_by env senv token (co_server c) (stream_request (co_server c) a sent n) stream_events_handler [a]"
    by (auto intro!: reachesI [where path = "''api/v1/sessions/'' @ a @ ''/events/stream''", OF shared _ _ _ routes(10)]
        simp: t stream_request_def)
  show "parse_last_event_id (ae_to_str senv) (arrive env (co_server c) (stream_request (co_server c) a sent n)) = Inr n"
    by (simp add: t stream_request_def arrive_def parse_last_event_id_def header_of_def visible
        parse_u64_decimal [OF n])
qed

end
