(* ===== verification/Cli_Properties.thy ===== *)
theory Cli_Properties
  imports Cli_Guarantees Api_Properties
begin

text \<open>
  The claims about the command line client: together with the server's event stream it shows a
  session's log, and its requests reach the handlers they mean.
\<close>

section \<open>Examples\<close>

definition example_connection :: connection_options where
  "example_connection = \<lparr>co_server = ''http://h'', co_token = Some ''t''\<rparr>"

definition example_frame :: "recorded_event \<Rightarrow> string option \<times> string \<times> string" where
  "example_frame e = (Some (decimal (re_id e)), ''session_created'', ''{}'')"

text \<open>A server that sends one event in two pieces; then the user presses Ctrl-C.\<close>

definition example_client :: "unit client_env" where
  "example_client =
     \<lparr>cn_env_token = None, cn_send = (\<lambda>_ _. (None, ())),
      cn_stream = (\<lambda>_ _. (Some (200, map St_Bytes ['': keep-alive'' @ [LF],
        LF # wire (Sse_Event (Some ''1'', ''session_created'', ''{}''))] @ [St_Interrupt]), ())),
      cn_parse = (\<lambda>_. Some (JObj [])), cn_print = (\<lambda>_. ''{}''), cn_pretty = (\<lambda>_. ''{}'')\<rparr>"

definition example_start :: "unit client" where
  "example_start = \<lparr>cl_peer = (), cl_sent = [], cl_output = []\<rparr>"

section \<open>Properties\<close>


lemma example_delivers:
  obtains recs where "consecutive 1 recs" and "length recs = 1"
    and "delivers example_client ''http://h'' ''s'' (Some ''t'') example_serde recs example_frame 0 () 1"
proof -
  obtain st where st: "store_ok example_serde st" "find_session st ''s'' \<noteq> None"
    "session_log example_serde st ''s'' = [SessionCreated None]"
    "\<forall>k. k \<noteq> ''s'' \<longrightarrow> find_session st k = None" by (rule example_store)
  obtain r where r: "find_session st ''s'' = Some r" using st(2) by blast
  obtain recs p where v: "session_view example_serde st ''s'' r recs p"
    using st(1) r by (rule session_facts)
  then have sel: "select_events example_serde st ''s'' = Inr recs" and ids: "log_ok recs"
    by (simp_all add: session_view_def)
  have "map re_event recs = [SessionCreated None]" using session_log_view [OF v] st(3) by simp
  then obtain e where e: "recs = [e]" by auto
  have seq: "consecutive 1 recs" using ids by simp
  then have one: "re_id e = 1" using e by simp
  have stored: "store_events example_serde ''s'' 0 u32_max st = Inr recs"
    using store_events_slice [OF st(1) r _ sel, of 0 u32_max] e by (simp add: Let_def i64_max_def u32_max_def)
  have "stream_events example_serde ''s'' 0 recs [] = recs"
    using one by (simp add: e stream_events_def)
  moreover have "in_feed example_serde ''s'' recs 1 []" by (rule feed_nil)
  ultimately have "served_part example_serde ''s'' recs 0 recs"
    using st(1,2) stored sel e unfolding served_part_def
    by (intro exI [of _ st] exI [of _ recs] exI [of _ 1] exI [of _ "[] :: received list"] exI [of _ "[]"]) simp
  moreover have dec: "decimal (Suc 0) = ''1''" by code_simp
  moreover have "carries example_frame ['': keep-alive'' @ [LF],
        LF # wire (Sse_Event (Some ''1'', ''session_created'', ''{}''))] recs"
    unfolding carries_def
    by (intro conjI exI [of _ "[Keep_Alive, Sse_Event (Some ''1'', ''session_created'', ''{}'')]"] exI [of _ "[]"])
       (simp_all add: wire_def wire_lines_def e example_frame_def one dec byte_def)
  ultimately have "delivers example_client ''http://h'' ''s'' (Some ''t'') example_serde recs example_frame 0 () (0 + length recs)"
    by (intro deliver_stop) (auto simp: example_client_def)
  then show ?thesis using seq by (intro that [of recs]) (simp_all add: e)
qed


text \<open>C21. Every request the client sends passes the server's token check with the token it was given,
  matches a route, and reaches the handler of the operation the command names, with the identifiers
  of the command as the parameters of the route. The stream request carries the last event seen, and
  the server reads that number back. Identifiers are one path segment, as those the server makes.\<close>

theorem client_requests_served:
  assumes "shares_token env senv c token" and "segment_ok a" and "segment_ok b" and "segment_ok d"
    and "n \<le> u64_max" and "ae_to_str senv (decimal n) = Some (decimal n)" and "ro_connection o' = c"
    and "new_name \<noteq> None \<or> new_path \<noteq> None" and "cn_parse env given = Some v"
  defines "reaches \<equiv> served_by env senv token (co_server c)"
    and "sent \<equiv> or_else (co_token c) (cn_env_token env)"
  shows "(\<exists>r. project_request env (Pc_Create name path c) = Inr r \<and> reaches r create_project_handler []) \<and>
     (\<exists>r. project_request env (Pc_List c limit cursor) = Inr r \<and> reaches r list_projects_handler []) \<and>
     (\<exists>r. project_request env (Pc_Get a c) = Inr r \<and> reaches r get_project_handler [a]) \<and>
     (\<exists>r. project_request env (Pc_Update a new_name new_path c) = Inr r \<and>
        reaches r update_project_handler [a]) \<and>
     (\<exists>r. project_request env (Pc_Delete a True c) = Inr r \<and> reaches r delete_project_handler [a]) \<and>
     (\<exists>r. action_request env (Ac_Inspect a b c) = Inr r \<and> reaches r get_run_handler [a, b]) \<and>
     (\<exists>r. action_request env (Ac_Result a b d given c) = Inr r \<and>
        reaches r submit_tool_result_handler [a, b, d]) \<and>
     reaches (permission_command_request env (Pm_List a b c)) list_permission_requests_handler [a, b] \<and>
     reaches (permission_command_request env (Pm_Approve a b d scope c)) approve_permission_handler [a, b, d] \<and>
     reaches (permission_command_request env (Pm_Deny a b d c)) deny_permission_handler [a, b, d] \<and>
     reaches (session_request sent o') create_session_handler [] \<and>
     reaches (prompt_request sent o' a) create_run_handler [a] \<and>
     reaches (backup_request env c) create_backup_handler [] \<and>
     reaches (stream_request (co_server c) a sent n) stream_events_handler [a] \<and>
     parse_last_event_id (ae_to_str senv)
       (arrive env (co_server c) (stream_request (co_server c) a sent n)) = Inr n"
  unfolding reaches_def sent_def
  by (intro conjI project_requests_reach [OF assms(1,2)] run_requests_reach(1,3,4,5) [OF assms(1-4)]
      run_requests_reach(2) [OF assms(1-4,9)] session_requests_reach [OF assms(1,2,5,7,6)] assms(8))

lemma example_shares: "shares_token example_client example_api example_connection ''t''"
  by (simp add: shares_token_def example_connection_def or_else_def example_api_def)

theorem client_requests_served_witness:
  "served_by example_client example_api ''t'' ''http://h''
     (stream_request ''http://h'' ''s'' (Some ''t'') 7) stream_events_handler [''s'']"
proof -
  have "segment_ok ''s''" by (simp add: segment_ok_def is_ascii_alphanumeric_def byte_def)
  from client_requests_served [OF example_shares this this this, of 7
      "\<lparr>ro_prompt = [], ro_session = None, ro_project = None, ro_provider = [], ro_model = [], ro_json = False,
         ro_connection = example_connection\<rparr>" "Some ''n''" None "[]" "JObj []"]
  show ?thesis
    by (simp add: u64_max_def example_api_def example_client_def example_connection_def or_else_def)
qed

text \<open>
  A piece that ends inside a character: the client decodes each piece for itself, so the two bytes
  of an accented letter become two replacement characters.
\<close>

lemma split_character_lost:
  "from_utf8_lossy [CHR 0xC3, CHR 0xA9] = [CHR 0xC3, CHR 0xA9]"
  "from_utf8_lossy [CHR 0xC3] @ from_utf8_lossy [CHR 0xA9] = replacement @ replacement"
  by (simp_all add: byte_def is_continuation_def)

end
