(* ===== verification/Interleaving.thy ===== *)
theory Interleaving
  imports Store_Properties
begin

text \<open>
  \<open>append_events\<close> and \<open>projection\<close> of piqo-server/src/storage.rs at the grain at which they
  interleave: the projection cache has its own mutex, the tables are changed in a transaction, and
  between these steps other tasks run. An append reads the cache, commits its transaction, and puts
  the new projection into the cache; \<open>projection\<close> looks into the cache, reads the log, and puts what
  it replayed into the cache.

  In whole these are \<open>append_commit\<close> and \<open>projection\<close> of the theory Store. The steps are sound under
  the discipline that the session locks of the supervisor give to the tasks that take them: at most
  one task of a session is between its first and its last step.
\<close>

section \<open>Tasks\<close>

datatype store_task =
    Ap_Start string "semantic_event list"
  | Ap_Read string "semantic_event list" "session_projection option"
  | Ap_Committed string session_projection
  | Pj_Start string
  | Pj_Missed string
  | Pj_Loaded string session_projection
  | St_Done

record shared_store =
  cs_store :: store
  cs_tasks :: "store_task list"
  cs_committed :: "(string \<times> semantic_event list) list"

section \<open>Steps\<close>

text \<open>The transaction: everything of \<open>append_events\<close> behind the read of the cache, up to the commit.\<close>

definition append_tx ::
  "serde \<Rightarrow> (nat \<Rightarrow> string) \<Rightarrow> string \<Rightarrow> semantic_event list \<Rightarrow> session_projection option \<Rightarrow> store
   \<Rightarrow> (store_error, recorded_event list \<times> session_projection \<times> store) result" where
  "append_tx sd clock sid events cached st =
     and_then
       (case cached of
          Some p \<Rightarrow> Inr p
        | None \<Rightarrow> and_then (select_events sd st sid) (project_log sid))
       (\<lambda>p. append_loop sd sid clock p st events)"

definition cache_insert :: "string \<Rightarrow> session_projection \<Rightarrow> store \<Rightarrow> store" where
  "cache_insert sid p st = st\<lparr>st_cache := bt_insert sid p (st_cache st)\<rparr>"

lemma append_commit_steps:
  "append_commit sd clock sid events cached st =
     and_then (append_tx sd clock sid events cached st)
       (\<lambda>(recorded, p, st'). Inr (recorded, cache_insert sid p st'))"
  by (simp add: append_commit_def append_tx_def cache_insert_def and_then_def split: sum.splits option.splits)

definition set_task :: "nat \<Rightarrow> store_task \<Rightarrow> shared_store \<Rightarrow> shared_store" where
  "set_task i k c = c\<lparr>cs_tasks := (cs_tasks c)[i := k]\<rparr>"

definition task_step :: "serde \<Rightarrow> (nat \<Rightarrow> string) \<Rightarrow> nat \<Rightarrow> shared_store \<Rightarrow> shared_store option" where
  "task_step sd clock i c =
     (if length (cs_tasks c) \<le> i then None
      else case cs_tasks c ! i of
        Ap_Start sid es \<Rightarrow>
          Some (set_task i (if es = [] then St_Done else Ap_Read sid es (bt_get (st_cache (cs_store c)) sid)) c)
      | Ap_Read sid es cached \<Rightarrow>
          (case append_tx sd clock sid es cached (cs_store c) of
             Inl _ \<Rightarrow> Some (set_task i St_Done c)
           | Inr (_, p, st) \<Rightarrow>
               Some (set_task i (Ap_Committed sid p)
                 (c\<lparr>cs_store := st, cs_committed := cs_committed c @ [(sid, es)]\<rparr>)))
      | Ap_Committed sid p \<Rightarrow> Some (set_task i St_Done (c\<lparr>cs_store := cache_insert sid p (cs_store c)\<rparr>))
      | Pj_Start sid \<Rightarrow>
          Some (set_task i (if bt_get (st_cache (cs_store c)) sid = None then Pj_Missed sid else St_Done) c)
      | Pj_Missed sid \<Rightarrow>
          (case and_then (store_events sd sid 0 u32_max (cs_store c)) (project_log sid) of
             Inl _ \<Rightarrow> Some (set_task i St_Done c)
           | Inr p \<Rightarrow> Some (set_task i (Pj_Loaded sid p) c))
      | Pj_Loaded sid p \<Rightarrow> Some (set_task i St_Done (c\<lparr>cs_store := cache_insert sid p (cs_store c)\<rparr>))
      | St_Done \<Rightarrow> None)"

text \<open>The session a task works on, once it has begun and until it has ended.\<close>

fun working_on :: "store_task \<Rightarrow> string option" where
  "working_on (Ap_Read sid es cached) = Some sid"
| "working_on (Ap_Committed sid p) = Some sid"
| "working_on (Pj_Missed sid) = Some sid"
| "working_on (Pj_Loaded sid p) = Some sid"
| "working_on _ = None"

fun starts_on :: "store_task \<Rightarrow> string option" where
  "starts_on (Ap_Start sid es) = Some sid"
| "starts_on (Pj_Start sid) = Some sid"
| "starts_on _ = None"

fun task_storable :: "serde \<Rightarrow> store_task \<Rightarrow> bool" where
  "task_storable sd (Ap_Start sid es) = list_all (storable sd) es"
| "task_storable sd (Ap_Read sid es cached) = list_all (storable sd) es"
| "task_storable sd _ = True"

text \<open>
  One step of the tasks, where a task begins only when no other works on its session. Tasks arrive
  with events that can be stored.
\<close>

inductive serial_step :: "serde \<Rightarrow> (nat \<Rightarrow> string) \<Rightarrow> shared_store \<Rightarrow> shared_store \<Rightarrow> bool" for sd clock where
  task_arrives: "task_storable sd k \<Longrightarrow> working_on k = None \<Longrightarrow>
    serial_step sd clock c (c\<lparr>cs_tasks := cs_tasks c @ [k]\<rparr>)"
| task_goes_on: "task_step sd clock i c = Some c' \<Longrightarrow>
    (\<And>sid. starts_on (cs_tasks c ! i) = Some sid \<Longrightarrow> \<forall>k \<in> set (cs_tasks c). working_on k \<noteq> Some sid) \<Longrightarrow>
    serial_step sd clock c c'"

inductive serially :: "serde \<Rightarrow> (nat \<Rightarrow> string) \<Rightarrow> shared_store \<Rightarrow> shared_store \<Rightarrow> bool" for sd clock where
  no_steps: "serially sd clock c c"
| one_more: "serially sd clock c c' \<Longrightarrow> serial_step sd clock c' c'' \<Longrightarrow> serially sd clock c c''"

definition shared_start :: "store \<Rightarrow> shared_store" where
  "shared_start st = \<lparr>cs_store = st, cs_tasks = [], cs_committed = []\<rparr>"

section \<open>The store without its cache\<close>

abbreviation uncached :: "store \<Rightarrow> store" where
  "uncached st \<equiv> st\<lparr>st_cache := bt_empty\<rparr>"

lemma uncached_simps [simp]:
  "find_session (st\<lparr>st_cache := c\<rparr>) sid = find_session st sid"
  "select_events sd (st\<lparr>st_cache := c\<rparr>) sid = select_events sd st sid"
  "replay sd (st\<lparr>st_cache := c\<rparr>) sid = replay sd st sid"
  "session_log sd (st\<lparr>st_cache := c\<rparr>) sid = session_log sd st sid"
  "ids_below (st\<lparr>st_cache := c\<rparr>) sid n = ids_below st sid n"
  by (simp_all add: find_session_def select_events_def session_rows_def replay_def session_log_def ids_below_def)

lemma session_view_uncached: "session_view sd (st\<lparr>st_cache := c\<rparr>) sid r recs p = session_view sd st sid r recs p"
  by (simp add: session_view_def)

lemma uncached_parts [simp]:
  "refs_ok (st\<lparr>st_cache := c\<rparr>) = refs_ok st" "row_agrees sd (st\<lparr>st_cache := c\<rparr>) r = row_agrees sd st r"
proof -
  have "find_project (st\<lparr>st_cache := c\<rparr>) = find_project st" by (rule ext) (simp add: find_project_def)
  then show "refs_ok (st\<lparr>st_cache := c\<rparr>) = refs_ok st" unfolding refs_ok_def uncached_simps by (simp only: store.simps store.select_convs) simp
  show "row_agrees sd (st\<lparr>st_cache := c\<rparr>) r = row_agrees sd st r"
    by (rule row_agrees_same) (simp add: session_rows_def)
qed

lemma uncached_ok: "store_ok sd (st\<lparr>st_cache := c\<rparr>) \<Longrightarrow> store_ok sd (uncached st)"
  by (simp add: store_ok_def cache_ok_def bt_empty_def)

lemma store_ok_with_cache:
  assumes "store_ok sd (uncached st)" and "bt_sorted (st_cache st)"
    and "\<And>sid p. bt_get (st_cache st) sid = Some p \<Longrightarrow> find_session st sid \<noteq> None \<and> replay sd st sid = Inr p"
  shows "store_ok sd st"
  using assms by (simp add: store_ok_def cache_ok_iff)

lemma appended_uncached: "uncached (appended sd sid clock n es q st) = uncached (appended sd sid clock n es q (uncached st))"
  by (simp add: appended_def update_session_def)

text \<open>A transaction that commits, with a projection that is the session's own.\<close>

lemma append_tx_ok:
  assumes ok: "store_ok sd (uncached st)" and tx: "append_tx sd clock sid es cached st = Inr (recorded, q, st')"
    and es: "list_all (storable sd) es" "es \<noteq> []"
    and cached: "\<And>p. cached = Some p \<Longrightarrow> replay sd st sid = Inr p"
  shows "store_ok sd (uncached st') \<and> st_cache st' = st_cache st \<and> find_session st' sid \<noteq> None \<and>
    replay sd st' sid = Inr q \<and> session_log sd st' sid = session_log sd st sid @ es \<and>
    (\<forall>k. k \<noteq> sid \<longrightarrow> session_log sd st' k = session_log sd st k \<and> replay sd st' k = replay sd st k \<and>
       (find_session st' k \<noteq> None \<longleftrightarrow> find_session st k \<noteq> None))"
proof -
  obtain p where p: "replay sd st sid = Inr p" "append_loop sd sid clock p st es = Inr (recorded, q, st')"
    using tx cached by (auto simp: append_tx_def and_then_eq_Inr replay_def split: option.splits)
  have "find_session st sid \<noteq> None"
    using p(2) es(2) by (cases es) (auto simp: and_then_eq_Inr next_event_id_def)
  then obtain r where find: "find_session st sid = Some r" by blast
  then have "find_session (uncached st) sid = Some r" by simp
  with ok obtain recs p' where "session_view sd (uncached st) sid r recs p'" by (rule session_facts)
  then have view: "session_view sd st sid r recs p'" by (simp only: session_view_uncached)
  with p(1) have p': "p' = p" by (simp add: session_view_def)
  from view have r: "sr_last_event_id r = length recs" "length recs \<le> i64_max" "ids_below st sid (length recs)"
    "ss_revision (sp_state p) \<le> length recs"
    by (simp_all add: session_view_def p')
  have room: "length recs + length es \<le> i64_max"
    using append_loop_room [OF p(2) find] r(1,2) by simp
  have loop: "and_then (map_err InvalidProjection (apply_events p (Suc (length recs)) es))
      (\<lambda>q. Inr (recorded_list sid clock (Suc (length recs)) es, q, appended sd sid clock (length recs) es q st)) =
      Inr (recorded, q, st')"
    using append_loop_ok [OF es(1) find r(1,3) room r(4), of clock] p(2) by simp
  then have step: "apply_events p (Suc (length recs)) es = Inr q"
    and st': "st' = appended sd sid clock (length recs) es q st"
    by (auto simp: and_then_eq_Inr map_err_eq_Inr)
  define u where "u = (appended sd sid clock (length recs) es q (uncached st))\<lparr>st_cache := bt_insert sid q (st_cache (uncached st))\<rparr>"
  have same: "uncached st' = uncached u" unfolding st' u_def by (subst appended_uncached) simp
  note fx = appended_ok [OF ok _ _ es step room u_def, of r]
  have f: "find_session (uncached st) sid = Some r" "session_view sd (uncached st) sid r recs p"
    using find view p' by (simp_all only: uncached_simps session_view_uncached)
  have "session_log sd st' k = session_log sd u k" "replay sd st' k = replay sd u k" for k
    using arg_cong [OF same, of "\<lambda>s. session_log sd s k"] arg_cong [OF same, of "\<lambda>s. replay sd s k"] by simp_all
  moreover have "replay sd st' k = replay sd st k" if "k \<noteq> sid" for k
    using that session_rows_append(2) [of st' st sd sid clock "length recs" es k] r(3)
    by (intro replay_same) (simp add: st')
  moreover have "find_session st' k \<noteq> None \<longleftrightarrow> find_session st k \<noteq> None" for k
    using find by (simp add: st' find_appended)
  moreover have "store_ok sd (uncached st')" unfolding same using fx(1) [OF f] by (intro uncached_ok [of sd "st_cache u" u]) simp
  ultimately show ?thesis using fx(2,3) [OF f] fx(4) [OF f] find by (simp add: st')
qed


lemma store_events_replay:
  assumes ok: "store_ok sd (uncached st)" and es: "and_then (store_events sd sid 0 u32_max st) (project_log sid) = Inr p"
  shows "find_session st sid \<noteq> None \<and> replay sd st sid = Inr p"
proof -
  have "find_session st sid \<noteq> None"
    using es by (auto simp: store_events_def ensure_session_def and_then_eq_Inr split: if_splits)
  then obtain r where find: "find_session (uncached st) sid = Some r" by auto
  have "store_events sd sid 0 u32_max (uncached st) = store_events sd sid 0 u32_max st"
    by (simp add: store_events_def ensure_session_def find_session_def session_rows_def)
  with es store_events_all [OF ok find] find show ?thesis by (simp add: replay_def)
qed

section \<open>The invariant\<close>

definition agrees :: "serde \<Rightarrow> store \<Rightarrow> string \<Rightarrow> session_projection \<Rightarrow> bool" where
  "agrees sd st sid p \<longleftrightarrow> find_session st sid \<noteq> None \<and> replay sd st sid = Inr p"

fun task_agrees :: "serde \<Rightarrow> store \<Rightarrow> store_task \<Rightarrow> bool" where
  "task_agrees sd st (Ap_Start sid es) = list_all (storable sd) es"
| "task_agrees sd st (Ap_Read sid es cached) =
     (list_all (storable sd) es \<and> es \<noteq> [] \<and> (case cached of None \<Rightarrow> True | Some p \<Rightarrow> agrees sd st sid p))"
| "task_agrees sd st (Ap_Committed sid p) = agrees sd st sid p"
| "task_agrees sd st (Pj_Loaded sid p) = agrees sd st sid p"
| "task_agrees sd st _ = True"

definition committed_of :: "string \<Rightarrow> shared_store \<Rightarrow> semantic_event list" where
  "committed_of sid c = concat (map snd (filter (\<lambda>e. fst e = sid) (cs_committed c)))"

definition alone :: "store_task list \<Rightarrow> nat \<Rightarrow> string \<Rightarrow> bool" where
  "alone ts i sid \<longleftrightarrow> (\<forall>j < length ts. j \<noteq> i \<longrightarrow> working_on (ts ! j) \<noteq> Some sid)"

definition publishing :: "store_task list \<Rightarrow> string \<Rightarrow> bool" where
  "publishing ts sid \<longleftrightarrow> (\<exists>i < length ts. \<exists>p. ts ! i = Ap_Committed sid p)"

definition tasks_ok :: "serde \<Rightarrow> store \<Rightarrow> store_task list \<Rightarrow> bool" where
  "tasks_ok sd st ts \<longleftrightarrow>
     (\<forall>i < length ts. task_agrees sd st (ts ! i) \<and> (\<forall>sid. working_on (ts ! i) = Some sid \<longrightarrow> alone ts i sid))"

definition serial_ok :: "serde \<Rightarrow> store \<Rightarrow> shared_store \<Rightarrow> bool" where
  "serial_ok sd st0 c \<longleftrightarrow>
     store_ok sd (uncached (cs_store c)) \<and> bt_sorted (st_cache (cs_store c)) \<and>
     (\<forall>sid p. bt_get (st_cache (cs_store c)) sid = Some p \<longrightarrow> \<not> publishing (cs_tasks c) sid \<longrightarrow>
        agrees sd (cs_store c) sid p) \<and>
     tasks_ok sd (cs_store c) (cs_tasks c) \<and>
     (\<forall>sid. session_log sd (cs_store c) sid = session_log sd st0 sid @ committed_of sid c)"

lemma agrees_cache [simp]: "agrees sd (st\<lparr>st_cache := m\<rparr>) sid p = agrees sd st sid p"
  by (simp add: agrees_def)

lemma task_agrees_cache [simp]: "task_agrees sd (st\<lparr>st_cache := m\<rparr>) k = task_agrees sd st k"
  by (cases "(sd, st, k)" rule: task_agrees.cases) (simp_all split: option.splits)

lemma task_agrees_other:
  assumes "task_agrees sd st k" and "working_on k \<noteq> Some sid"
    and "\<And>s p. s \<noteq> sid \<Longrightarrow> agrees sd st' s p = agrees sd st s p"
  shows "task_agrees sd st' k"
  using assms by (cases k) (simp_all split: option.splits)

lemma none_working:
  assumes "\<forall>k \<in> set ts. working_on k \<noteq> Some sid"
  shows "\<not> publishing ts sid" and "alone ts i sid"
  using assms nth_mem by (force simp: publishing_def alone_def)+

text \<open>A task takes its next step: the rest of the tasks is as it was.\<close>

lemma tasks_ok_update:
  assumes ok: "tasks_ok sd st ts" and i: "i < length ts" and k: "task_agrees sd st' k"
    and own: "\<And>sid. working_on k = Some sid \<Longrightarrow> alone ts i sid"
    and rest: "\<And>j. j < length ts \<Longrightarrow> j \<noteq> i \<Longrightarrow> task_agrees sd st (ts ! j) \<Longrightarrow> task_agrees sd st' (ts ! j)"
  shows "tasks_ok sd st' (ts[i := k])"
  unfolding tasks_ok_def
proof (intro allI impI)
  fix j assume "j < length (ts[i := k])"
  then have j: "j < length ts" by simp
  have alone: "alone (ts[i := k]) j sid" if "working_on (ts[i := k] ! j) = Some sid" for sid
  proof (cases "j = i")
    case True
    with that i have "alone ts i sid" by (intro own) simp
    then show ?thesis using True by (simp add: alone_def)
  next
    case False
    with that j have w: "working_on (ts ! j) = Some sid" by simp
    with ok j have a: "alone ts j sid" by (simp add: tasks_ok_def)
    have "working_on k \<noteq> Some sid" using own [of sid] w j False by (auto simp: alone_def)
    with a i show ?thesis unfolding alone_def length_list_update
      by (metis nth_list_update_eq nth_list_update_neq)
  qed
  have "task_agrees sd st' (ts[i := k] ! j)"
    using k rest [OF j] ok j i by (cases "j = i") (simp_all add: tasks_ok_def)
  with alone show "task_agrees sd st' (ts[i := k] ! j) \<and>
      (\<forall>sid. working_on (ts[i := k] ! j) = Some sid \<longrightarrow> alone (ts[i := k]) j sid)" by blast
qed

lemma publishing_update:
  "i < length ts \<Longrightarrow> publishing (ts[i := k]) sid \<longleftrightarrow>
     (\<exists>p. k = Ap_Committed sid p) \<or> (\<exists>j < length ts. j \<noteq> i \<and> (\<exists>p. ts ! j = Ap_Committed sid p))"
  unfolding publishing_def by (auto simp: nth_list_update split: if_splits)


text \<open>
  A step that leaves the store as it is and does not end a task that has its projection still to
  put into the cache.
\<close>

lemma serial_ok_task:
  assumes ok: "serial_ok sd st0 c" and i: "i < length (cs_tasks c)"
    and k: "task_agrees sd (cs_store c) k" "\<And>sid. working_on k = Some sid \<Longrightarrow> alone (cs_tasks c) i sid"
    and old: "\<And>sid p. cs_tasks c ! i \<noteq> Ap_Committed sid p"
  shows "serial_ok sd st0 (set_task i k c)"
proof -
  have "tasks_ok sd (cs_store c) ((cs_tasks c)[i := k])"
    using ok by (intro tasks_ok_update [OF _ i k(1) k(2)]) (simp_all add: serial_ok_def)
  moreover have "publishing (cs_tasks c) sid \<Longrightarrow> publishing ((cs_tasks c)[i := k]) sid" for sid
    using old publishing_update [OF i, of k sid] unfolding publishing_def [of "cs_tasks c"] by metis
  moreover have "committed_of sid (set_task i k c) = committed_of sid c" for sid
    by (simp add: committed_of_def set_task_def)
  ultimately show ?thesis using ok by (auto simp: serial_ok_def set_task_def)
qed

text \<open>The transaction commits.\<close>

lemma serial_ok_commit:
  assumes ok: "serial_ok sd st0 c" and i: "i < length (cs_tasks c)"
    and old: "cs_tasks c ! i = Ap_Read sid es cached"
    and tx: "append_tx sd clock sid es cached (cs_store c) = Inr (recorded, q, st)"
  shows "serial_ok sd st0 (set_task i (Ap_Committed sid q)
    (c\<lparr>cs_store := st, cs_committed := cs_committed c @ [(sid, es)]\<rparr>))"
proof -
  from ok i old have task: "list_all (storable sd) es" "es \<noteq> []" "\<And>p. cached = Some p \<Longrightarrow> replay sd (cs_store c) sid = Inr p"
    and alone: "alone (cs_tasks c) i sid" and st: "store_ok sd (uncached (cs_store c))"
    and logs: "\<And>s. session_log sd (cs_store c) s = session_log sd st0 s @ committed_of s c"
    and sorted: "bt_sorted (st_cache (cs_store c))"
    and cache: "\<And>s p. bt_get (st_cache (cs_store c)) s = Some p \<Longrightarrow> \<not> publishing (cs_tasks c) s \<Longrightarrow>
      agrees sd (cs_store c) s p"
    by (force simp: serial_ok_def tasks_ok_def agrees_def dest: spec [of _ i])+
  note fx = append_tx_ok [OF st tx task(1,2,3)]
  have other: "agrees sd st s p = agrees sd (cs_store c) s p" if "s \<noteq> sid" for s p
    using fx that by (simp add: agrees_def)
  have new: "agrees sd st sid q" using fx by (simp add: agrees_def)
  have "tasks_ok sd st ((cs_tasks c)[i := Ap_Committed sid q])"
  proof (rule tasks_ok_update [OF _ i])
    show "tasks_ok sd (cs_store c) (cs_tasks c)" using ok by (simp add: serial_ok_def)
    show "task_agrees sd st (Ap_Committed sid q)" using new by simp
    show "alone (cs_tasks c) i s" if "working_on (Ap_Committed sid q) = Some s" for s using that alone by simp
    show "task_agrees sd st (cs_tasks c ! j)"
      if "j < length (cs_tasks c)" "j \<noteq> i" "task_agrees sd (cs_store c) (cs_tasks c ! j)" for j
      using that(1,2) alone by (intro task_agrees_other [OF that(3) _ other]) (simp_all add: alone_def)
  qed
  moreover have "agrees sd st s p"
    if "bt_get (st_cache st) s = Some p" "\<not> publishing ((cs_tasks c)[i := Ap_Committed sid q]) s" for s p
  proof -
    have s: "s \<noteq> sid" using that(2) publishing_update [OF i, of "Ap_Committed sid q" s] by auto
    have "\<not> publishing (cs_tasks c) s"
      using that(2) old publishing_update [OF i, of "Ap_Committed sid q" s] unfolding publishing_def [of "cs_tasks c"]
      by (metis store_task.distinct)
    with cache [of s p] that(1) fx show ?thesis by (simp add: other [OF s])
  qed
  moreover have "session_log sd st s = session_log sd st0 s @
      committed_of s (c\<lparr>cs_committed := cs_committed c @ [(sid, es)]\<rparr>)" for s
    using fx logs [of s] by (cases "s = sid") (simp_all add: committed_of_def)
  ultimately show ?thesis
    using fx sorted by (simp add: serial_ok_def set_task_def committed_of_def)
qed

text \<open>A task puts its projection into the cache and ends.\<close>

lemma serial_ok_insert:
  assumes ok: "serial_ok sd st0 c" and i: "i < length (cs_tasks c)"
    and old: "cs_tasks c ! i = Ap_Committed sid p \<or> cs_tasks c ! i = Pj_Loaded sid p"
  shows "serial_ok sd st0 (set_task i St_Done (c\<lparr>cs_store := cache_insert sid p (cs_store c)\<rparr>))"
proof -
  from ok i old have p: "agrees sd (cs_store c) sid p" by (auto simp: serial_ok_def tasks_ok_def)
  have "tasks_ok sd (cache_insert sid p (cs_store c)) ((cs_tasks c)[i := St_Done])"
    using ok by (intro tasks_ok_update [OF _ i, where st = "cs_store c"]) (simp_all add: serial_ok_def cache_insert_def)
  moreover have "publishing (cs_tasks c) s \<Longrightarrow> s \<noteq> sid \<Longrightarrow> publishing ((cs_tasks c)[i := St_Done]) s" for s
    using old publishing_update [OF i, of St_Done s] unfolding publishing_def [of "cs_tasks c"]
    by (metis store_task.inject(3) store_task.distinct)
  ultimately show ?thesis
    using ok p by (auto simp: serial_ok_def set_task_def cache_insert_def committed_of_def bt_sorted_insert split: if_splits)
qed


lemma task_step_ok:
  assumes ok: "serial_ok sd st0 c" and step: "task_step sd clock i c = Some c'"
    and starts: "\<And>sid. starts_on (cs_tasks c ! i) = Some sid \<Longrightarrow> \<forall>k \<in> set (cs_tasks c). working_on k \<noteq> Some sid"
  shows "serial_ok sd st0 c'"
proof -
  have i: "i < length (cs_tasks c)" using step by (simp add: task_step_def split: if_splits)
  have own: "alone (cs_tasks c) i sid" if "starts_on (cs_tasks c ! i) = Some sid \<or> working_on (cs_tasks c ! i) = Some sid" for sid
    using that
  proof
    assume "starts_on (cs_tasks c ! i) = Some sid"
    then show ?thesis by (rule none_working(2) [OF starts])
  next
    assume "working_on (cs_tasks c ! i) = Some sid"
    with ok i show ?thesis by (simp add: serial_ok_def tasks_ok_def)
  qed
  have agree: "task_agrees sd (cs_store c) (cs_tasks c ! i)" using ok i by (simp add: serial_ok_def tasks_ok_def)
  note keep = serial_ok_task [OF ok i]
  show ?thesis
  proof (cases "cs_tasks c ! i")
    case (Ap_Start sid es)
    let ?r = "Ap_Read sid es (bt_get (st_cache (cs_store c)) sid)"
    have "\<not> publishing (cs_tasks c) sid" using starts [of sid] Ap_Start by (intro none_working) simp
    with ok have "bt_get (st_cache (cs_store c)) sid = Some p \<Longrightarrow> agrees sd (cs_store c) sid p" for p
      by (simp add: serial_ok_def)
    with agree own Ap_Start show ?thesis using step i keep [of ?r] keep [of St_Done]
      by (auto simp: task_step_def split: option.splits if_splits)
  next
    case (Ap_Read sid es cached)
    with step i keep [of St_Done] serial_ok_commit [OF ok i Ap_Read] show ?thesis
      by (auto simp: task_step_def split: sum.splits)
  next
    case (Ap_Committed sid p)
    with step i serial_ok_insert [OF ok i] show ?thesis by (auto simp: task_step_def)
  next
    case (Pj_Start sid)
    with own step i keep [of St_Done] keep [of "Pj_Missed sid"] show ?thesis
      by (auto simp: task_step_def split: if_splits)
  next
    case (Pj_Missed sid)
    have "store_ok sd (uncached (cs_store c))" using ok by (simp add: serial_ok_def)
    from store_events_replay [OF this, of sid] Pj_Missed own step i keep [of St_Done] keep [of "Pj_Loaded sid p" for p]
    show ?thesis by (auto simp: task_step_def agrees_def split: sum.splits)
  next
    case (Pj_Loaded sid p)
    with step i serial_ok_insert [OF ok i] show ?thesis by (auto simp: task_step_def)
  next
    case St_Done
    with step i show ?thesis by (simp add: task_step_def)
  qed
qed

lemma arrival_ok:
  assumes "serial_ok sd st0 c" and "task_storable sd k" and "working_on k = None"
  shows "serial_ok sd st0 (c\<lparr>cs_tasks := cs_tasks c @ [k]\<rparr>)"
proof -
  have k: "task_agrees sd (cs_store c) k" "\<And>sid p. k \<noteq> Ap_Committed sid p" using assms(2,3) by (cases k; simp)+
  have "alone (cs_tasks c @ [k]) i sid \<longleftrightarrow> alone (cs_tasks c) i sid" if "i < length (cs_tasks c)" for i sid
    using assms(3) that by (auto simp: alone_def nth_append less_Suc_eq)
  then have "tasks_ok sd (cs_store c) (cs_tasks c @ [k])"
    using assms(1,3) k(1) by (auto simp: serial_ok_def tasks_ok_def nth_append less_Suc_eq)
  moreover have "publishing (cs_tasks c @ [k]) sid = publishing (cs_tasks c) sid" for sid
    using k(2) by (auto simp: publishing_def nth_append less_Suc_eq)
  ultimately show ?thesis using assms(1) by (simp add: serial_ok_def committed_of_def)
qed

lemma serially_ok:
  assumes "serially sd clock c c'" and "serial_ok sd st0 c"
  shows "serial_ok sd st0 c'"
  using assms
proof (induction rule: serially.induct)
  case (one_more c c' c'')
  then have "serial_ok sd st0 c'" by simp
  with one_more.hyps(2) show ?case
    by (cases rule: serial_step.cases) (auto intro: arrival_ok task_step_ok)
qed

lemma serial_ok_start: "store_ok sd st \<Longrightarrow> serial_ok sd st (shared_start st)"
  using uncached_ok [of sd "st_cache st" st]
  by (simp add: serial_ok_def shared_start_def tasks_ok_def committed_of_def agrees_def store_ok_def cache_ok_iff)

section \<open>What the discipline gives\<close>

text \<open>C4. The steps of appends and of reads of the projection interleave in any order, but on one
  session only one task at a time is under way. Then every session's log is at every moment what
  it was at the start followed by the events of the committed appends to it, in the order of their
  commits; and whenever no task is under way the store is well formed, its session rows and its
  cached projections in agreement with the logs.\<close>

theorem serial_appends_sound:
  assumes "store_ok sd st" and "serially sd clock (shared_start st) c"
  shows "(\<forall>sid. session_log sd (cs_store c) sid = session_log sd st sid @ committed_of sid c) \<and>
    ((\<forall>k \<in> set (cs_tasks c). working_on k = None) \<longrightarrow> store_ok sd (cs_store c))"
proof -
  have ok: "serial_ok sd st c" using serially_ok [OF assms(2) serial_ok_start [OF assms(1)]] .
  moreover have "store_ok sd (cs_store c)" if idle: "\<forall>k \<in> set (cs_tasks c). working_on k = None"
  proof (rule store_ok_with_cache)
    fix sid p assume "bt_get (st_cache (cs_store c)) sid = Some p"
    moreover have "\<not> publishing (cs_tasks c) sid" using idle by (intro none_working) simp
    ultimately show "find_session (cs_store c) sid \<noteq> None \<and> replay sd (cs_store c) sid = Inr p"
      using ok by (simp add: serial_ok_def agrees_def)
  qed (use ok in \<open>simp_all add: serial_ok_def\<close>)
  ultimately show ?thesis by (simp add: serial_ok_def)
qed


section \<open>Schedules\<close>

text \<open>
  A schedule says which task arrives or goes on; under the discipline a task that may not begin
  yet stops it.
\<close>

definition may_go :: "nat \<Rightarrow> shared_store \<Rightarrow> bool" where
  "may_go i c \<longleftrightarrow>
     (case starts_on (cs_tasks c ! i) of
        None \<Rightarrow> True
      | Some sid \<Rightarrow> list_all (\<lambda>k. working_on k \<noteq> Some sid) (cs_tasks c))"

fun run_tasks ::
  "serde \<Rightarrow> (nat \<Rightarrow> string) \<Rightarrow> bool \<Rightarrow> (store_task + nat) list \<Rightarrow> shared_store \<Rightarrow> shared_store option" where
  "run_tasks sd clock serial [] c = Some c"
| "run_tasks sd clock serial (Inl k # acts) c =
     (if task_storable sd k \<and> working_on k = None
      then run_tasks sd clock serial acts (c\<lparr>cs_tasks := cs_tasks c @ [k]\<rparr>) else None)"
| "run_tasks sd clock serial (Inr i # acts) c =
     (if serial \<and> \<not> may_go i c then None
      else case task_step sd clock i c of
        None \<Rightarrow> None
      | Some c' \<Rightarrow> run_tasks sd clock serial acts c')"

lemma serially_trans: "serially sd clock b c \<Longrightarrow> serially sd clock a b \<Longrightarrow> serially sd clock a c"
  by (induction rule: serially.induct) (auto intro: serially.intros)

lemma run_tasks_serially:
  "run_tasks sd clock True acts c = Some c' \<Longrightarrow> serially sd clock c c'"
proof (induction acts arbitrary: c)
  case Nil
  then show ?case by (simp add: serially.no_steps)
next
  case (Cons a acts)
  obtain d where step: "serial_step sd clock c d" and run: "run_tasks sd clock True acts d = Some c'"
  proof (cases a)
    case (Inl k)
    with Cons.prems show thesis by (intro that [of "c\<lparr>cs_tasks := cs_tasks c @ [k]\<rparr>"])
        (auto intro: serial_step.intros split: if_splits)
  next
    case (Inr i)
    with Cons.prems show thesis
      by (auto simp: may_go_def list_all_iff split: if_splits option.splits intro!: that serial_step.task_goes_on)
  qed
  show ?case by (rule serially_trans [OF Cons.IH [OF run]]) (rule serially.one_more [OF serially.no_steps step])
qed

lemmas race_run = race_defs cache_insert_def append_tx_def task_step_def set_task_def may_go_def shared_start_def
  store_events_def ensure_session_def u32_max_def example_defs example_projection_def replay_defs

definition race_tasks :: "(store_task + nat) list" where
  "race_tasks = [Inl (Pj_Start ''s''), Inl (Ap_Start ''s'' [SessionPhaseChanged S_Created S_Running None])]"

definition race_serial :: "shared_store option" where
  "race_serial = run_tasks example_serde (\<lambda>_. ''t1'') True (race_tasks @ map Inr [0, 0, 0, 1, 1, 1])
     (shared_start (uncached race_store))"

lemma race_store_ok: "store_ok example_serde (uncached race_store)"
  by (simp add: store_ok_def refs_ok_def cache_ok_def race_defs row_agrees_def retention_ok_def
      replay_def retention_parse_def example_defs example_projection_def replay_defs bt_sorted_def bt_empty_def)

lemma race_serial_run: "\<exists>c. race_serial = Some c \<and> cs_tasks c = [St_Done, St_Done] \<and>
  cs_committed c = [(''s'', [SessionPhaseChanged S_Created S_Running None])]"
  by (simp add: race_serial_def race_tasks_def race_run storable_def and_then_def bt_empty_def Let_def)


theorem serial_appends_sound_witness:
  "\<exists>c. race_serial = Some c \<and> store_ok example_serde (cs_store c) \<and>
     session_log example_serde (cs_store c) ''s'' =
       session_log example_serde race_store ''s'' @ [SessionPhaseChanged S_Created S_Running None]"
proof -
  obtain c where c: "race_serial = Some c" "cs_tasks c = [St_Done, St_Done]"
    "cs_committed c = [(''s'', [SessionPhaseChanged S_Created S_Running None])]"
    using race_serial_run by blast
  have "serially example_serde (\<lambda>_. ''t1'') (shared_start (uncached race_store)) c"
    using c(1) unfolding race_serial_def by (rule run_tasks_serially)
  from serial_appends_sound [OF race_store_ok this] c(2)
  have "session_log example_serde (cs_store c) ''s'' = session_log example_serde race_store ''s'' @ committed_of ''s'' c"
    and "store_ok example_serde (cs_store c)" by simp_all
  with c show ?thesis by (auto simp: committed_of_def)
qed

text \<open>Without the discipline a read of the projection can undo an append's entry in the cache.
  \<open>projection\<close> misses the cache and reads the log; an append commits and caches the projection it
  computed; then \<open>projection\<close> puts its older one in its place. The cached projection then lacks the
  committed event, and the next append, which begins with it, succeeds and leaves a session row
  that the start-up validation rejects.\<close>

theorem stale_projection_cached:
  "store_ok example_serde (uncached race_store) \<and>
   (\<exists>c p recorded st.
      run_tasks example_serde (\<lambda>_. ''t1'') False (race_tasks @ map Inr [0, 0, 1, 1, 1, 0])
        (shared_start (uncached race_store)) = Some c \<and>
      bt_get (st_cache (cs_store c)) ''s'' = Some p \<and> replay example_serde (cs_store c) ''s'' \<noteq> Inr p \<and>
      append_events example_serde (\<lambda>_. ''t2'') ''s'' [QueuePaused] (cs_store c) = Inr (recorded, st) \<and>
      validate_all example_serde st = Inl (CorruptSession ''s''))"
proof
  show "store_ok example_serde (uncached race_store)" by (rule race_store_ok)
next
  show "\<exists>c p recorded st.
      run_tasks example_serde (\<lambda>_. ''t1'') False (race_tasks @ map Inr [0, 0, 1, 1, 1, 0])
        (shared_start (uncached race_store)) = Some c \<and>
      bt_get (st_cache (cs_store c)) ''s'' = Some p \<and> replay example_serde (cs_store c) ''s'' \<noteq> Inr p \<and>
      append_events example_serde (\<lambda>_. ''t2'') ''s'' [QueuePaused] (cs_store c) = Inr (recorded, st) \<and>
      validate_all example_serde st = Inl (CorruptSession ''s'')"
    by (simp add: race_tasks_def race_run storable_def and_then_def bt_empty_def Let_def append_events_def
        replay_def validate_all_def parse_phase_def)
qed

end
