(* ===== verification/Session_Locks.thy ===== *)
theory Session_Locks
  imports Effects
begin

text \<open>
  The table of session locks of \<open>SessionSupervisor\<close> in piqo-server/src/supervisor.rs, at the grain of
  the points where a task can be interrupted. A worker (\<open>process_session\<close>), a tool result
  (\<open>submit_tool_result\<close>) and a waiting deletion (\<open>wait_for_session_idle\<close>) all use it the same way:
  they take the lock of the session from the table, or put a new one there, wait for it, hold it,
  let it go, and call \<open>release_session_lock\<close>, which takes the entry out of the table when it counts
  no other reference to it.

  A lock is the identity of an \<open>Arc<Mutex<()>>\<close>; its references are the entry of the table and the
  variables of the tasks. The table itself is only touched under its own mutex, so what happens
  there is one step. A task may also be dropped while it waits or holds the lock, which drops its
  guard and its reference: a worker at shutdown, a request whose client went away.
\<close>

section \<open>Tasks and table\<close>

type_synonym lock = nat

datatype task =
    Tk_Start string
  | Tk_Waiting string lock
  | Tk_Holding string lock
  | Tk_Unlocked string lock
  | Tk_Released string lock
  | Tk_Done

record lock_table =
  lt_locks :: "(string, lock) bt_map"
  lt_next :: lock
  lt_tasks :: "task list"

definition table_start :: lock_table where
  "table_start = \<lparr>lt_locks = bt_empty, lt_next = 0, lt_tasks = []\<rparr>"

fun task_lock :: "task \<Rightarrow> lock option" where
  "task_lock (Tk_Waiting sid l) = Some l"
| "task_lock (Tk_Holding sid l) = Some l"
| "task_lock (Tk_Unlocked sid l) = Some l"
| "task_lock (Tk_Released sid l) = Some l"
| "task_lock _ = None"

fun holds :: "lock \<Rightarrow> task \<Rightarrow> bool" where
  "holds l (Tk_Holding sid l') = (l' = l)"
| "holds l _ = False"

section \<open>The operations\<close>

text \<open>\<open>locks.entry(session_id).or_insert_with(...).clone()\<close>.\<close>

definition session_lock :: "string \<Rightarrow> lock_table \<Rightarrow> lock \<times> lock_table" where
  "session_lock sid t =
     (case bt_get (lt_locks t) sid of
        Some l \<Rightarrow> (l, t)
      | None \<Rightarrow> (lt_next t, t\<lparr>lt_locks := bt_insert sid (lt_next t) (lt_locks t), lt_next := Suc (lt_next t)\<rparr>))"

definition strong_count :: "lock \<Rightarrow> lock_table \<Rightarrow> nat" where
  "strong_count l t =
     length (filter (\<lambda>(_, l'). l' = l) (lt_locks t)) + length (filter (\<lambda>k. task_lock k = Some l) (lt_tasks t))"

definition release_session_lock :: "string \<Rightarrow> lock \<Rightarrow> lock_table \<Rightarrow> lock_table" where
  "release_session_lock sid l t =
     (if strong_count l t = 2 \<and> bt_get (lt_locks t) sid = Some l
      then t\<lparr>lt_locks := bt_remove sid (lt_locks t)\<rparr> else t)"

definition put_task :: "nat \<Rightarrow> task \<Rightarrow> lock_table \<Rightarrow> lock_table" where
  "put_task i k t = t\<lparr>lt_tasks := (lt_tasks t)[i := k]\<rparr>"

text \<open>The next point a task reaches; nothing when it has to wait for the lock or has ended.\<close>

definition advance :: "nat \<Rightarrow> lock_table \<Rightarrow> lock_table option" where
  "advance i t =
     (if length (lt_tasks t) \<le> i then None
      else case lt_tasks t ! i of
        Tk_Start sid \<Rightarrow> (case session_lock sid t of (l, t') \<Rightarrow> Some (put_task i (Tk_Waiting sid l) t'))
      | Tk_Waiting sid l \<Rightarrow>
          if list_ex (holds l) (lt_tasks t) then None else Some (put_task i (Tk_Holding sid l) t)
      | Tk_Holding sid l \<Rightarrow> Some (put_task i (Tk_Unlocked sid l) t)
      | Tk_Unlocked sid l \<Rightarrow> Some (put_task i (Tk_Released sid l) (release_session_lock sid l t))
      | Tk_Released sid l \<Rightarrow> Some (put_task i Tk_Done t)
      | Tk_Done \<Rightarrow> None)"

text \<open>What can happen: a task arrives, a task goes on, a task is dropped where it waits.\<close>

inductive lock_step :: "lock_table \<Rightarrow> lock_table \<Rightarrow> bool" where
  arrive: "lock_step t (t\<lparr>lt_tasks := lt_tasks t @ [Tk_Start sid]\<rparr>)"
| go_on: "advance i t = Some t' \<Longrightarrow> lock_step t t'"
| abandon: "i < length (lt_tasks t) \<Longrightarrow> lock_step t (put_task i Tk_Done t)"

inductive lock_reachable :: "lock_table \<Rightarrow> bool" where
  table_start: "lock_reachable table_start"
| table_step: "lock_reachable t \<Longrightarrow> lock_step t t' \<Longrightarrow> lock_reachable t'"

inductive_cases lock_stepE: "lock_step t t'"

section \<open>The invariant\<close>

text \<open>The session and the lock of a task that still relies on the table.\<close>

fun relies :: "task \<Rightarrow> (string \<times> lock) option" where
  "relies (Tk_Waiting sid l) = Some (sid, l)"
| "relies (Tk_Holding sid l) = Some (sid, l)"
| "relies (Tk_Unlocked sid l) = Some (sid, l)"
| "relies _ = None"

definition table_ok :: "lock_table \<Rightarrow> bool" where
  "table_ok t \<longleftrightarrow>
     bt_sorted (lt_locks t) \<and>
     (\<forall>sid l. bt_get (lt_locks t) sid = Some l \<longrightarrow> l < lt_next t) \<and>
     (\<forall>sid sid' l. bt_get (lt_locks t) sid = Some l \<longrightarrow> bt_get (lt_locks t) sid' = Some l \<longrightarrow> sid = sid') \<and>
     (\<forall>k \<in> set (lt_tasks t). \<forall>l. task_lock k = Some l \<longrightarrow> l < lt_next t) \<and>
     (\<forall>k \<in> set (lt_tasks t). \<forall>sid l. relies k = Some (sid, l) \<longrightarrow> bt_get (lt_locks t) sid = Some l) \<and>
     (\<forall>i < length (lt_tasks t). \<forall>j < length (lt_tasks t). \<forall>l.
        holds l (lt_tasks t ! i) \<longrightarrow> holds l (lt_tasks t ! j) \<longrightarrow> i = j)"

lemma relies_lock: "relies k = Some (sid, l) \<Longrightarrow> task_lock k = Some l"
  by (cases k) simp_all

lemma table_okI:
  assumes "bt_sorted (lt_locks t)"
    and "\<And>sid l. bt_get (lt_locks t) sid = Some l \<Longrightarrow> l < lt_next t"
    and "\<And>sid sid' l. bt_get (lt_locks t) sid = Some l \<Longrightarrow> bt_get (lt_locks t) sid' = Some l \<Longrightarrow> sid = sid'"
    and "\<And>k l. k \<in> set (lt_tasks t) \<Longrightarrow> task_lock k = Some l \<Longrightarrow> l < lt_next t"
    and "\<And>k sid l. k \<in> set (lt_tasks t) \<Longrightarrow> relies k = Some (sid, l) \<Longrightarrow> bt_get (lt_locks t) sid = Some l"
    and "\<And>i j l. i < length (lt_tasks t) \<Longrightarrow> j < length (lt_tasks t) \<Longrightarrow>
      holds l (lt_tasks t ! i) \<Longrightarrow> holds l (lt_tasks t ! j) \<Longrightarrow> i = j"
  shows "table_ok t"
  unfolding table_ok_def using assms by blast

lemma table_okD:
  assumes "table_ok t"
  shows "bt_sorted (lt_locks t)"
    and "bt_get (lt_locks t) sid = Some l \<Longrightarrow> l < lt_next t"
    and "bt_get (lt_locks t) sid = Some l \<Longrightarrow> bt_get (lt_locks t) sid' = Some l \<Longrightarrow> sid = sid'"
    and "k \<in> set (lt_tasks t) \<Longrightarrow> task_lock k = Some l \<Longrightarrow> l < lt_next t"
    and "k \<in> set (lt_tasks t) \<Longrightarrow> relies k = Some (sid, l) \<Longrightarrow> bt_get (lt_locks t) sid = Some l"
    and "i < length (lt_tasks t) \<Longrightarrow> j < length (lt_tasks t) \<Longrightarrow>
      holds l (lt_tasks t ! i) \<Longrightarrow> holds l (lt_tasks t ! j) \<Longrightarrow> i = j"
  using assms unfolding table_ok_def by blast+

lemma put_task_simps [simp]:
  "lt_locks (put_task i k t) = lt_locks t" "lt_next (put_task i k t) = lt_next t"
  "lt_tasks (put_task i k t) = (lt_tasks t)[i := k]"
  by (simp_all add: put_task_def)

lemma put_task_ok:
  assumes "table_ok t" and "i < length (lt_tasks t)"
    and "\<And>l. task_lock k = Some l \<Longrightarrow> l < lt_next t"
    and "\<And>sid l. relies k = Some (sid, l) \<Longrightarrow> bt_get (lt_locks t) sid = Some l"
    and "\<And>l. holds l k \<Longrightarrow> \<not> list_ex (holds l) (lt_tasks t)"
  shows "table_ok (put_task i k t)"
proof (rule table_okI)
  fix j j' l
  assume j: "j < length (lt_tasks (put_task i k t))" "j' < length (lt_tasks (put_task i k t))"
    "holds l (lt_tasks (put_task i k t) ! j)" "holds l (lt_tasks (put_task i k t) ! j')"
  have "\<not> holds l k" if "x < length (lt_tasks t)" "holds l (lt_tasks t ! x)" for x
    using assms(5) [of l] that by (auto simp: list_ex_iff)
  with j table_okD(6) [OF assms(1), of j j' l] show "j = j'"
    by (cases "j = i"; cases "j' = i") auto
next
  have tasks: "x = k \<or> x \<in> set (lt_tasks t)" if "x \<in> set (lt_tasks (put_task i k t))" for x
    using that set_update_subset_insert [of "lt_tasks t" i k] by auto
  show "l < lt_next (put_task i k t)" if "x \<in> set (lt_tasks (put_task i k t))" "task_lock x = Some l" for x l
    using tasks [OF that(1)] that(2) assms(3) table_okD(4) [OF assms(1)] by auto
  show "bt_get (lt_locks (put_task i k t)) sid = Some l"
    if "x \<in> set (lt_tasks (put_task i k t))" "relies x = Some (sid, l)" for x sid l
    using tasks [OF that(1)] that(2) assms(4) table_okD(5) [OF assms(1)] by auto
qed (use table_okD(1-3) [OF assms(1)] in auto)

lemma session_lock_ok:
  assumes "table_ok t" and "session_lock sid t = (l, t')"
  shows "table_ok t' \<and> bt_get (lt_locks t') sid = Some l \<and> l < lt_next t' \<and> lt_tasks t' = lt_tasks t"
proof (cases "bt_get (lt_locks t) sid")
  case None
  note ok = table_okD [OF assms(1)]
  have t': "t' = t\<lparr>lt_locks := bt_insert sid (lt_next t) (lt_locks t), lt_next := Suc (lt_next t)\<rparr>" "l = lt_next t"
    using assms(2) None by (auto simp: session_lock_def)
  have "table_ok t'"
  proof (rule table_okI)
    show "a = b" if "bt_get (lt_locks t') a = Some m" "bt_get (lt_locks t') b = Some m" for a b m
      using that ok(2) [of a m] ok(2) [of b m] ok(3) [of a m b] by (auto simp: t' split: if_splits)
    show "bt_get (lt_locks t') a = Some m" if "k \<in> set (lt_tasks t')" "relies k = Some (a, m)" for k a m
      using that ok(5) [of k a m] None by (auto simp: t')
    show "m < lt_next t'" if "bt_get (lt_locks t') a = Some m" for a m
      using that ok(2) [of a m] by (auto simp: t' split: if_splits)
    show "m < lt_next t'" if "k \<in> set (lt_tasks t')" "task_lock k = Some m" for k m
      using that ok(4) [of k m] by (auto simp: t')
  qed (use ok in \<open>simp_all add: t'\<close>)
  then show ?thesis by (simp add: t')
next
  case (Some m)
  with assms table_okD(2) [OF assms(1) Some] show ?thesis by (simp add: session_lock_def)
qed

text \<open>Counting references.\<close>

lemma filter_update_length:
  "i < length xs \<Longrightarrow> P y = P (xs ! i) \<Longrightarrow> length (filter P (xs[i := y])) = length (filter P xs)"
  by (induction xs arbitrary: i) (auto simp: nth_Cons split: nat.splits)

lemma two_in_filter:
  assumes "i < length xs" and "j < length xs" and "i \<noteq> j" and "P (xs ! i)" and "P (xs ! j)"
  shows "2 \<le> length (filter P xs)"
proof -
  have "card {i, j} \<le> card {k. k < length xs \<and> P (xs ! k)}"
    using assms by (intro card_mono) auto
  with assms(3) show ?thesis by (simp add: length_filter_conv_card)
qed

lemma release_put:
  assumes "i < length (lt_tasks t)" and "lt_tasks t ! i = Tk_Unlocked sid l"
  shows "put_task i (Tk_Released sid l) (release_session_lock sid l t) =
         release_session_lock sid l (put_task i (Tk_Released sid l) t)"
proof -
  have "strong_count l (put_task i (Tk_Released sid l) t) = strong_count l t"
    using assms filter_update_length [of i "lt_tasks t" "\<lambda>k. task_lock k = Some l" "Tk_Released sid l"]
    by (simp add: strong_count_def)
  then show ?thesis by (simp add: release_session_lock_def put_task_def)
qed

lemma release_lock_ok:
  assumes "table_ok t" and "i < length (lt_tasks t)" and "lt_tasks t ! i = Tk_Released sid l"
  shows "table_ok (release_session_lock sid l t)"
proof (cases "strong_count l t = 2 \<and> bt_get (lt_locks t) sid = Some l")
  case True
  note ok = table_okD [OF assms(1)]
  have "(sid, l) \<in> set (lt_locks t)" using True ok(1) by (simp add: bt_in_iff_get)
  then have "filter (\<lambda>(_, l'). l' = l) (lt_locks t) \<noteq> []" by (auto simp: filter_empty_conv)
  then have entry: "1 \<le> length (filter (\<lambda>(_, l'). l' = l) (lt_locks t))"
    by (cases "filter (\<lambda>(_, l'). l' = l) (lt_locks t)") auto
  have none: "a \<noteq> sid" if k: "k \<in> set (lt_tasks t)" and r: "relies k = Some (a, m)" for k a m
  proof
    assume "a = sid"
    with r ok(5) [OF k r] True have "task_lock k = Some l" by (simp add: relies_lock)
    moreover obtain j where j: "j < length (lt_tasks t)" "lt_tasks t ! j = k"
      using k by (auto simp: in_set_conv_nth)
    moreover have "j \<noteq> i" using j(2) assms(3) r by auto
    ultimately have "2 \<le> length (filter (\<lambda>k. task_lock k = Some l) (lt_tasks t))"
      using assms(2,3) by (intro two_in_filter [of j _ i]) auto
    with entry True show False by (simp add: strong_count_def)
  qed
  let ?t = "t\<lparr>lt_locks := bt_remove sid (lt_locks t)\<rparr>"
  have "table_ok ?t"
  proof (rule table_okI)
    show "bt_get (lt_locks ?t) a = Some m" if "k \<in> set (lt_tasks ?t)" "relies k = Some (a, m)" for k a m
      using that none [of k a m] ok(5) [of k a m] by (simp add: bt_get_remove [OF ok(1)])
  qed (use ok(2-4,6) in \<open>simp_all add: ok(1) bt_get_remove [OF ok(1)] split: if_splits\<close>)
  with True show ?thesis by (simp add: release_session_lock_def)
qed (use assms(1) in \<open>auto simp: release_session_lock_def\<close>)

lemma advance_ok:
  assumes "table_ok t" and "advance i t = Some t'"
  shows "table_ok t'"
proof -
  have i: "i < length (lt_tasks t)" using assms(2) by (auto simp: advance_def split: if_splits)
  note ok = table_okD [OF assms(1)]
  have k: "lt_tasks t ! i \<in> set (lt_tasks t)" using i by simp
  show ?thesis
  proof (cases "lt_tasks t ! i")
    case (Tk_Start sid)
    obtain l u where u: "session_lock sid t = (l, u)" by (cases "session_lock sid t")
    with assms(2) i Tk_Start have "t' = put_task i (Tk_Waiting sid l) u" by (simp add: advance_def)
    with session_lock_ok [OF assms(1) u] i show ?thesis by (auto intro!: put_task_ok)
  next
    case (Tk_Waiting sid l)
    with assms(2) i have "t' = put_task i (Tk_Holding sid l) t" "\<not> list_ex (holds l) (lt_tasks t)"
      by (simp_all add: advance_def split: if_splits)
    with Tk_Waiting ok(4,5) [OF k] i assms(1) show ?thesis by (auto intro!: put_task_ok)
  next
    case (Tk_Holding sid l)
    with assms(2) i have "t' = put_task i (Tk_Unlocked sid l) t" by (simp add: advance_def)
    with Tk_Holding ok(4,5) [OF k] i assms(1) show ?thesis by (auto intro!: put_task_ok)
  next
    case (Tk_Unlocked sid l)
    let ?u = "put_task i (Tk_Released sid l) t"
    have "table_ok ?u" using Tk_Unlocked ok(4,5) [OF k] i assms(1) by (auto intro!: put_task_ok)
    then have "table_ok (release_session_lock sid l ?u)" using i by (intro release_lock_ok [of _ i]) simp_all
    with assms(2) i Tk_Unlocked release_put [OF i Tk_Unlocked] show ?thesis by (simp add: advance_def)
  next
    case (Tk_Released sid l)
    with assms(2) i have "t' = put_task i Tk_Done t" by (simp add: advance_def)
    with i assms(1) show ?thesis by (auto intro!: put_task_ok)
  next
    case Tk_Done
    with assms(2) i show ?thesis by (simp add: advance_def)
  qed
qed

lemma arrive_ok:
  assumes "table_ok t"
  shows "table_ok (t\<lparr>lt_tasks := lt_tasks t @ [Tk_Start sid]\<rparr>)"
proof (rule table_okI)
  let ?t = "t\<lparr>lt_tasks := lt_tasks t @ [Tk_Start sid]\<rparr>"
  show "i = j" if "i < length (lt_tasks ?t)" "j < length (lt_tasks ?t)" "holds l (lt_tasks ?t ! i)"
    "holds l (lt_tasks ?t ! j)" for i j l
    using that table_okD(6) [OF assms, of i j l] by (auto simp: nth_append less_Suc_eq split: if_splits)
next
  show "l < lt_next (t\<lparr>lt_tasks := lt_tasks t @ [Tk_Start sid]\<rparr>)"
    if "k \<in> set (lt_tasks (t\<lparr>lt_tasks := lt_tasks t @ [Tk_Start sid]\<rparr>))" "task_lock k = Some l" for k l
    using that table_okD(4) [OF assms, of k l] by auto
  show "bt_get (lt_locks (t\<lparr>lt_tasks := lt_tasks t @ [Tk_Start sid]\<rparr>)) a = Some l"
    if "k \<in> set (lt_tasks (t\<lparr>lt_tasks := lt_tasks t @ [Tk_Start sid]\<rparr>))" "relies k = Some (a, l)" for k a l
    using that table_okD(5) [OF assms, of k a l] by auto
  show "a = b" if "bt_get (lt_locks (t\<lparr>lt_tasks := lt_tasks t @ [Tk_Start sid]\<rparr>)) a = Some l"
    "bt_get (lt_locks (t\<lparr>lt_tasks := lt_tasks t @ [Tk_Start sid]\<rparr>)) b = Some l" for a b l
    using that table_okD(3) [OF assms, of a l b] by simp
qed (use table_okD(1,2) [OF assms] in simp_all)

lemma lock_step_ok: "lock_step t t' \<Longrightarrow> table_ok t \<Longrightarrow> table_ok t'"
  by (induction rule: lock_step.induct) (auto intro: arrive_ok advance_ok put_task_ok)

lemma lock_reachable_ok: "lock_reachable t \<Longrightarrow> table_ok t"
proof (induction rule: lock_reachable.induct)
  case table_start
  show ?case by (rule table_okI) (simp_all add: table_start_def)
qed (rule lock_step_ok)

section \<open>Progress\<close>

text \<open>How many points a task has before it.\<close>

fun stages :: "task \<Rightarrow> nat" where
  "stages (Tk_Start sid) = 5"
| "stages (Tk_Waiting sid l) = 4"
| "stages (Tk_Holding sid l) = 3"
| "stages (Tk_Unlocked sid l) = 2"
| "stages (Tk_Released sid l) = 1"
| "stages Tk_Done = 0"

definition work :: "lock_table \<Rightarrow> nat" where
  "work t = sum_list (map stages (lt_tasks t))"

lemma sum_list_update_less:
  "i < length xs \<Longrightarrow> f y < (f (xs ! i) :: nat) \<Longrightarrow> sum_list (map f (xs[i := y])) < sum_list (map f xs)"
  by (induction xs arbitrary: i) (auto simp: nth_Cons split: nat.splits)

lemma advance_work:
  assumes "advance i t = Some t'"
  shows "work t' < work t"
proof -
  have i: "i < length (lt_tasks t)" using assms by (auto simp: advance_def split: if_splits)
  have "\<exists>k. lt_tasks t' = (lt_tasks t)[i := k] \<and> stages k < stages (lt_tasks t ! i)"
  proof (cases "lt_tasks t ! i")
    case (Tk_Start sid)
    obtain l u where u: "session_lock sid t = (l, u)" by (cases "session_lock sid t")
    then have "lt_tasks u = lt_tasks t" by (auto simp: session_lock_def split: option.splits)
    with assms i Tk_Start u show ?thesis by (intro exI [of _ "Tk_Waiting sid l"]) (auto simp: advance_def)
  next
    case (Tk_Unlocked sid l)
    with assms i show ?thesis
      by (intro exI [of _ "Tk_Released sid l"]) (auto simp: advance_def release_session_lock_def)
  next
    case (Tk_Waiting sid l)
    with assms i show ?thesis by (intro exI [of _ "Tk_Holding sid l"]) (auto simp: advance_def split: if_splits)
  next
    case (Tk_Holding sid l)
    with assms i show ?thesis by (intro exI [of _ "Tk_Unlocked sid l"]) (auto simp: advance_def)
  qed (use assms i in \<open>auto simp: advance_def\<close>)
  then obtain k where "lt_tasks t' = (lt_tasks t)[i := k]" "stages k < stages (lt_tasks t ! i)" by blast
  with sum_list_update_less [OF i, of stages k] show ?thesis by (simp add: work_def)
qed

lemma someone_advances:
  assumes "k \<in> set (lt_tasks t)" and "k \<noteq> Tk_Done"
  shows "\<exists>i t'. advance i t = Some t'"
proof -
  have free: "\<exists>t'. advance i t = Some t'" if "i < length (lt_tasks t)"
    "\<nexists>sid l. lt_tasks t ! i = Tk_Waiting sid l" "lt_tasks t ! i \<noteq> Tk_Done" for i
    using that by (cases "lt_tasks t ! i") (auto simp: advance_def split: prod.splits)
  obtain i where i: "i < length (lt_tasks t)" "lt_tasks t ! i = k"
    using assms(1) by (auto simp: in_set_conv_nth)
  show ?thesis
  proof (cases "\<exists>sid l. k = Tk_Waiting sid l")
    case True
    then obtain sid l where k: "k = Tk_Waiting sid l" by blast
    show ?thesis
    proof (cases "list_ex (holds l) (lt_tasks t)")
      case True
      then obtain j where j: "j < length (lt_tasks t)" "holds l (lt_tasks t ! j)"
        by (auto simp: list_ex_iff in_set_conv_nth)
      then obtain s where "lt_tasks t ! j = Tk_Holding s l" by (cases "lt_tasks t ! j") auto
      with free [OF j(1)] show ?thesis by auto
    next
      case False
      with i k show ?thesis by (intro exI [of _ i]) (simp add: advance_def)
    qed
  next
    case False
    with free [OF i(1)] i(2) assms(2) show ?thesis by auto
  qed
qed

text \<open>A schedule: which task goes on next.\<close>

fun schedule :: "nat list \<Rightarrow> lock_table \<Rightarrow> lock_table option" where
  "schedule [] t = Some t"
| "schedule (i # order) t = Option.bind (advance i t) (schedule order)"

lemma schedule_work: "schedule order t = Some t' \<Longrightarrow> length order + work t' \<le> work t"
proof (induction order arbitrary: t)
  case (Cons i order)
  then obtain u where u: "advance i t = Some u" "schedule order u = Some t'"
    by (auto simp: bind_eq_Some_conv)
  from advance_work [OF u(1)] Cons.IH [OF u(2)] show ?case by simp
qed simp

lemma work_bound: "work t \<le> 5 * length (lt_tasks t)"
proof -
  have "stages k \<le> 5" for k by (cases k) simp_all
  then have "sum_list (map stages ks) \<le> 5 * length ks" for ks
    by (induction ks) (auto intro: add_mono)
  then show ?thesis by (simp add: work_def)
qed

section \<open>Properties\<close>

text \<open>C8. Whatever tasks arrive, go on or are dropped, and in whatever order: no two tasks hold the lock
  of one session at the same time. The entry of the table is taken out only when no other task
  relies on it, so every task that waits for, holds or has just let go of a session's lock has the
  one that is in the table, and a task that arrives queues behind it.\<close>

theorem session_lock_exclusive:
  assumes "lock_reachable t"
  shows "(\<forall>i < length (lt_tasks t). \<forall>j < length (lt_tasks t). \<forall>sid l l'.
       lt_tasks t ! i = Tk_Holding sid l \<longrightarrow> lt_tasks t ! j = Tk_Holding sid l' \<longrightarrow> i = j) \<and>
    (\<forall>k \<in> set (lt_tasks t). \<forall>sid l. relies k = Some (sid, l) \<longrightarrow> fst (session_lock sid t) = l)"
proof -
  note ok = table_okD [OF lock_reachable_ok [OF assms]]
  have "i = j" if "i < length (lt_tasks t)" "j < length (lt_tasks t)" "lt_tasks t ! i = Tk_Holding sid l"
    "lt_tasks t ! j = Tk_Holding sid l'" for i j sid l l'
  proof -
    have "bt_get (lt_locks t) sid = Some l" "bt_get (lt_locks t) sid = Some l'"
      using that(3,4) ok(5) [OF nth_mem [OF that(1)]] ok(5) [OF nth_mem [OF that(2)]] by simp_all
    then have "l' = l" by simp
    with that ok(6) [of i j l] show ?thesis by simp
  qed
  moreover have "fst (session_lock sid t) = l" if "k \<in> set (lt_tasks t)" "relies k = Some (sid, l)" for k sid l
    using ok(5) [OF that] by (simp add: session_lock_def)
  ultimately show ?thesis by blast
qed


section \<open>Examples\<close>

text \<open>Two tasks of one session that end at about the same time.\<close>

definition two_tasks :: lock_table where
  "two_tasks = \<lparr>lt_locks = bt_empty, lt_next = 0, lt_tasks = [Tk_Start ''s'', Tk_Start ''s'']\<rparr>"

lemma two_tasks_reachable: "lock_reachable two_tasks"
proof -
  have "lock_reachable (table_start\<lparr>lt_tasks := [Tk_Start ''s'']\<rparr>)"
    using table_step [OF lock_reachable.table_start arrive [of _ "''s''"]] by (simp add: table_start_def)
  from table_step [OF this arrive [of _ "''s''"]] show ?thesis by (simp add: table_start_def two_tasks_def)
qed

definition leaked :: lock_table where
  "leaked = \<lparr>lt_locks = [(''s'', 0)], lt_next = 1, lt_tasks = [Tk_Done, Tk_Done]\<rparr>"

text \<open>
  Both reach \<open>release_session_lock\<close> before either has dropped its reference: each counts three
  references and leaves the entry, and it stays in the table.
\<close>

lemma lock_entry_stays: "schedule [0, 1, 0, 0, 1, 1, 0, 1, 0, 1] two_tasks = Some leaked"
  by code_simp


theorem session_lock_exclusive_witness:
  "fst (session_lock ''s'' \<lparr>lt_locks = [(''s'', 0)], lt_next = 1,
     lt_tasks = [Tk_Waiting ''s'' 0, Tk_Start ''s'']\<rparr>) = 0"
proof -
  let ?t = "\<lparr>lt_locks = [(''s'', 0)], lt_next = 1, lt_tasks = [Tk_Waiting ''s'' 0, Tk_Start ''s'']\<rparr>"
  have "advance 0 two_tasks = Some ?t"
    by (simp add: two_tasks_def advance_def session_lock_def put_task_def bt_empty_def)
  from session_lock_exclusive [OF table_step [OF two_tasks_reachable go_on [OF this]]]
  show ?thesis by simp
qed

end
