(* ===== verification/Event_Hub.thy ===== *)
theory Event_Hub
  imports Events
begin

text \<open>
  \<open>EventHub\<close> of piqo-server/src/supervisor.rs: one broadcast channel per session that somebody
  listens to. The channels are tokio's: creating one, subscribing, sending and counting receivers
  are an argument, and what the hub relies on is \<open>broadcast_laws\<close>. Every operation of the hub
  holds its mutex from beginning to end, so an operation is one step; a receiver is dropped between
  two of them.
\<close>

section \<open>The channels\<close>

text \<open>\<open>bc_send\<close> returns whether the value was refused, the \<open>is_err()\<close> of the source.\<close>

record ('w, 'c, 'r) broadcast =
  bc_channel :: "nat \<Rightarrow> 'w \<Rightarrow> 'c \<times> 'w"
  bc_subscribe :: "'c \<Rightarrow> 'w \<Rightarrow> 'r \<times> 'w"
  bc_send :: "'c \<Rightarrow> recorded_event \<Rightarrow> 'w \<Rightarrow> bool \<times> 'w"
  bc_receiver_count :: "'c \<Rightarrow> 'w \<Rightarrow> nat"
  bc_drop :: "'r \<Rightarrow> 'w \<Rightarrow> 'w"

text \<open>
  The channels that exist, the live receivers of one, and the values sent on a receiver's channel
  since it subscribed. A channel is created without receivers; a new receiver has been sent
  nothing; a value goes to the live receivers of the channel and is refused when there is none.
\<close>

record ('w, 'c, 'r) channel_view =
  cv_opened :: "'w \<Rightarrow> 'c set"
  cv_live :: "'w \<Rightarrow> 'c \<Rightarrow> 'r set"
  cv_sent :: "'w \<Rightarrow> 'r \<Rightarrow> recorded_event list"

definition channel_law :: "('w, 'c, 'r) broadcast \<Rightarrow> ('w, 'c, 'r) channel_view \<Rightarrow> bool" where
  "channel_law bc v \<longleftrightarrow> (\<forall>n w. case bc_channel bc n w of (c, w') \<Rightarrow>
     c \<notin> cv_opened v w \<and> cv_opened v w' = insert c (cv_opened v w) \<and>
     cv_live v w' = (cv_live v w)(c := {}) \<and> cv_sent v w' = cv_sent v w)"

definition subscribe_law :: "('w, 'c, 'r) broadcast \<Rightarrow> ('w, 'c, 'r) channel_view \<Rightarrow> bool" where
  "subscribe_law bc v \<longleftrightarrow> (\<forall>c w. c \<in> cv_opened v w \<longrightarrow> (case bc_subscribe bc c w of (r, w') \<Rightarrow>
     (\<forall>d \<in> cv_opened v w. r \<notin> cv_live v w d) \<and> cv_opened v w' = cv_opened v w \<and>
     cv_live v w' = (cv_live v w)(c := insert r (cv_live v w c)) \<and> cv_sent v w' = (cv_sent v w)(r := [])))"

definition send_law :: "('w, 'c, 'r) broadcast \<Rightarrow> ('w, 'c, 'r) channel_view \<Rightarrow> bool" where
  "send_law bc v \<longleftrightarrow> (\<forall>c e w. c \<in> cv_opened v w \<longrightarrow> (case bc_send bc c e w of (refused, w') \<Rightarrow>
     refused = (cv_live v w c = {}) \<and> cv_opened v w' = cv_opened v w \<and> cv_live v w' = cv_live v w \<and>
     (\<forall>r. cv_sent v w' r = cv_sent v w r @ (if r \<in> cv_live v w c then [e] else []))))"

definition count_law :: "('w, 'c, 'r) broadcast \<Rightarrow> ('w, 'c, 'r) channel_view \<Rightarrow> bool" where
  "count_law bc v \<longleftrightarrow> (\<forall>c w. c \<in> cv_opened v w \<longrightarrow> (bc_receiver_count bc c w = 0) = (cv_live v w c = {}))"

definition drop_law :: "('w, 'c, 'r) broadcast \<Rightarrow> ('w, 'c, 'r) channel_view \<Rightarrow> bool" where
  "drop_law bc v \<longleftrightarrow> (\<forall>r w. cv_opened v (bc_drop bc r w) = cv_opened v w \<and>
     (\<forall>c \<in> cv_opened v w. cv_live v (bc_drop bc r w) c = cv_live v w c - {r}) \<and>
     (\<forall>x. x \<noteq> r \<longrightarrow> cv_sent v (bc_drop bc r w) x = cv_sent v w x))"

definition broadcast_laws :: "('w, 'c, 'r) broadcast \<Rightarrow> ('w, 'c, 'r) channel_view \<Rightarrow> bool" where
  "broadcast_laws bc v \<longleftrightarrow>
     channel_law bc v \<and> subscribe_law bc v \<and> send_law bc v \<and> count_law bc v \<and> drop_law bc v"

section \<open>The hub\<close>

record 'c event_hub =
  hb_channels :: "(string \<times> 'c) list"
  hb_capacity :: nat

definition with_capacity :: "nat \<Rightarrow> 'c event_hub" where
  "with_capacity capacity = \<lparr>hb_channels = bt_empty, hb_capacity = capacity\<rparr>"

text \<open>\<open>channels.retain(|_, sender| sender.receiver_count() > 0)\<close>\<close>

definition retain_used :: "('w, 'c, 'r) broadcast \<Rightarrow> 'w \<Rightarrow> (string \<times> 'c) list \<Rightarrow> (string \<times> 'c) list" where
  "retain_used bc w channels = filter (\<lambda>(_, sender). 0 < bc_receiver_count bc sender w) channels"

definition hub_subscribe ::
  "('w, 'c, 'r) broadcast \<Rightarrow> string \<Rightarrow> 'c event_hub \<Rightarrow> 'w \<Rightarrow> 'r \<times> 'c event_hub \<times> 'w" where
  "hub_subscribe bc sid h w =
     (let channels = retain_used bc w (hb_channels h);
          (sender, w) = (case bt_get channels sid of Some c \<Rightarrow> (c, w) | None \<Rightarrow> bc_channel bc (hb_capacity h) w);
          (receiver, w) = bc_subscribe bc sender w
      in (receiver, h\<lparr>hb_channels := bt_insert sid sender channels\<rparr>, w))"

definition hub_publish ::
  "('w, 'c, 'r) broadcast \<Rightarrow> recorded_event \<Rightarrow> 'c event_hub \<Rightarrow> 'w \<Rightarrow> 'c event_hub \<times> 'w" where
  "hub_publish bc e h w =
     (let (should_remove, w) =
            (case bt_get (hb_channels h) (re_session_id e) of
               None \<Rightarrow> (False, w)
             | Some sender \<Rightarrow>
                 (case bc_send bc sender e w of (refused, w') \<Rightarrow>
                    (refused \<or> bc_receiver_count bc sender w' = 0, w')));
          channels = (if should_remove then bt_remove (re_session_id e) (hb_channels h) else hb_channels h)
      in (h\<lparr>hb_channels := retain_used bc w channels\<rparr>, w))"

definition remove_if_unused ::
  "('w, 'c, 'r) broadcast \<Rightarrow> string \<Rightarrow> 'c event_hub \<Rightarrow> 'w \<Rightarrow> 'c event_hub" where
  "remove_if_unused bc sid h w =
     (case bt_get (hb_channels h) sid of
        Some sender \<Rightarrow>
          if bc_receiver_count bc sender w = 0 then h\<lparr>hb_channels := bt_remove sid (hb_channels h)\<rparr> else h
      | None \<Rightarrow> h)"

definition close_sessions :: "string list \<Rightarrow> 'c event_hub \<Rightarrow> 'c event_hub" where
  "close_sessions sids h = h\<lparr>hb_channels := fold bt_remove sids (hb_channels h)\<rparr>"

section \<open>The hub in use\<close>

text \<open>
  A subscription: the session, its receiver, and the events published to the session since. It
  ends when the receiver is dropped or the session's channel is closed.
\<close>

record ('w, 'c, 'r) hub_state =
  hs_hub :: "'c event_hub"
  hs_world :: 'w
  hs_subscriptions :: "(string \<times> 'r \<times> recorded_event list) list"

datatype 'r hub_op =
    H_Subscribe string
  | H_Publish recorded_event
  | H_Remove_If_Unused string
  | H_Close "string list"
  | H_Drop 'r

fun hub_do :: "('w, 'c, 'r) broadcast \<Rightarrow> 'r hub_op \<Rightarrow> ('w, 'c, 'r) hub_state \<Rightarrow> ('w, 'c, 'r) hub_state" where
  "hub_do bc (H_Subscribe sid) s =
     (case hub_subscribe bc sid (hs_hub s) (hs_world s) of (r, h, w) \<Rightarrow>
        \<lparr>hs_hub = h, hs_world = w, hs_subscriptions = hs_subscriptions s @ [(sid, r, [])]\<rparr>)"
| "hub_do bc (H_Publish e) s =
     (case hub_publish bc e (hs_hub s) (hs_world s) of (h, w) \<Rightarrow>
        \<lparr>hs_hub = h, hs_world = w,
         hs_subscriptions = map (\<lambda>(sid, r, es). (sid, r, if sid = re_session_id e then es @ [e] else es))
           (hs_subscriptions s)\<rparr>)"
| "hub_do bc (H_Remove_If_Unused sid) s = s\<lparr>hs_hub := remove_if_unused bc sid (hs_hub s) (hs_world s)\<rparr>"
| "hub_do bc (H_Close sids) s =
     s\<lparr>hs_hub := close_sessions sids (hs_hub s),
       hs_subscriptions := filter (\<lambda>(sid, _). sid \<notin> set sids) (hs_subscriptions s)\<rparr>"
| "hub_do bc (H_Drop r) s =
     s\<lparr>hs_world := bc_drop bc r (hs_world s),
       hs_subscriptions := filter (\<lambda>(_, x, _). x \<noteq> r) (hs_subscriptions s)\<rparr>"

definition hub_start :: "nat \<Rightarrow> 'w \<Rightarrow> ('w, 'c, 'r) hub_state" where
  "hub_start capacity w = \<lparr>hs_hub = with_capacity capacity, hs_world = w, hs_subscriptions = []\<rparr>"


lemma bt_sorted_filter: "bt_sorted m \<Longrightarrow> bt_sorted (filter f m)"
proof (induction m)
  case (Cons kv m)
  then show ?case by (cases kv) (force simp: bt_sorted_Cons)
qed simp

lemma bt_get_filter:
  "bt_sorted m \<Longrightarrow> bt_get (filter f m) k = (case bt_get m k of None \<Rightarrow> None | Some c \<Rightarrow> if f (k, c) then Some c else None)"
proof (induction m)
  case (Cons kv m)
  obtain k' c where kv: "kv = (k', c)" by (cases kv)
  with Cons.prems have "bt_sorted m" "k = k' \<Longrightarrow> bt_get m k = None"
    by (auto simp: bt_sorted_Cons intro: bt_get_above)
  with Cons.IH show ?case by (auto simp: kv split: option.splits)
qed simp

lemma retain_used_facts:
  "bt_sorted m \<Longrightarrow> bt_sorted (retain_used bc w m)"
  "bt_sorted m \<Longrightarrow> bt_get (retain_used bc w m) k =
     (case bt_get m k of None \<Rightarrow> None | Some c \<Rightarrow> if 0 < bc_receiver_count bc c w then Some c else None)"
  by (simp_all add: retain_used_def bt_sorted_filter bt_get_filter split: option.splits)

lemma fold_remove:
  "bt_sorted m \<Longrightarrow> bt_sorted (fold bt_remove ks m) \<and>
     bt_get (fold bt_remove ks m) k = (if k \<in> set ks then None else bt_get m k)"
  by (induction ks arbitrary: m) (auto simp: bt_get_remove)

section \<open>The invariant\<close>

text \<open>Each session has its own channel, and each receiver listens to one channel.\<close>

definition hub_ok :: "('w, 'c, 'r) channel_view \<Rightarrow> 'c event_hub \<Rightarrow> 'w \<Rightarrow> bool" where
  "hub_ok v h w \<longleftrightarrow> bt_sorted (hb_channels h) \<and>
     (\<forall>sid c. bt_get (hb_channels h) sid = Some c \<longrightarrow> c \<in> cv_opened v w) \<and>
     (\<forall>sid k c. bt_get (hb_channels h) sid = Some c \<longrightarrow> bt_get (hb_channels h) k = Some c \<longrightarrow> sid = k) \<and>
     (\<forall>c \<in> cv_opened v w. \<forall>d \<in> cv_opened v w. c \<noteq> d \<longrightarrow> cv_live v w c \<inter> cv_live v w d = {})"

definition listens :: "('w, 'c, 'r) channel_view \<Rightarrow> 'c event_hub \<Rightarrow> 'w \<Rightarrow> string \<Rightarrow> 'r \<Rightarrow> bool" where
  "listens v h w sid r \<longleftrightarrow> (\<exists>c. bt_get (hb_channels h) sid = Some c \<and> r \<in> cv_live v w c)"

definition hub_state_ok :: "('w, 'c, 'r) channel_view \<Rightarrow> ('w, 'c, 'r) hub_state \<Rightarrow> bool" where
  "hub_state_ok v s \<longleftrightarrow> hub_ok v (hs_hub s) (hs_world s) \<and>
     (\<forall>(sid, r, es) \<in> set (hs_subscriptions s).
        cv_sent v (hs_world s) r = es \<and> listens v (hs_hub s) (hs_world s) sid r)"

lemma channel_new:
  assumes "broadcast_laws bc v" and "bc_channel bc n w = (c, w')"
  shows "c \<notin> cv_opened v w" "cv_opened v w' = insert c (cv_opened v w)"
    "cv_live v w' = (cv_live v w)(c := {})" "cv_sent v w' = cv_sent v w"
proof -
  have "case bc_channel bc n w of (c, w') \<Rightarrow> c \<notin> cv_opened v w \<and> cv_opened v w' = insert c (cv_opened v w) \<and>
     cv_live v w' = (cv_live v w)(c := {}) \<and> cv_sent v w' = cv_sent v w"
    using assms(1) by (simp only: broadcast_laws_def channel_law_def)
  with assms(2) show "c \<notin> cv_opened v w" "cv_opened v w' = insert c (cv_opened v w)"
    "cv_live v w' = (cv_live v w)(c := {})" "cv_sent v w' = cv_sent v w" by simp_all
qed

lemma channel_subscribe:
  assumes "broadcast_laws bc v" and "c \<in> cv_opened v w" and "bc_subscribe bc c w = (r, w')"
  shows "\<forall>d \<in> cv_opened v w. r \<notin> cv_live v w d" "cv_opened v w' = cv_opened v w"
    "cv_live v w' = (cv_live v w)(c := insert r (cv_live v w c))" "cv_sent v w' = (cv_sent v w)(r := [])"
proof -
  have "case bc_subscribe bc c w of (r, w') \<Rightarrow>
     (\<forall>d \<in> cv_opened v w. r \<notin> cv_live v w d) \<and> cv_opened v w' = cv_opened v w \<and>
     cv_live v w' = (cv_live v w)(c := insert r (cv_live v w c)) \<and> cv_sent v w' = (cv_sent v w)(r := [])"
    using assms(1,2) by (simp only: broadcast_laws_def subscribe_law_def)
  with assms(3) show "\<forall>d \<in> cv_opened v w. r \<notin> cv_live v w d" "cv_opened v w' = cv_opened v w"
    "cv_live v w' = (cv_live v w)(c := insert r (cv_live v w c))" "cv_sent v w' = (cv_sent v w)(r := [])" by simp_all
qed

lemma channel_send:
  assumes "broadcast_laws bc v" and "c \<in> cv_opened v w" and "bc_send bc c e w = (refused, w')"
  shows "refused = (cv_live v w c = {})" "cv_opened v w' = cv_opened v w" "cv_live v w' = cv_live v w"
    "cv_sent v w' r = cv_sent v w r @ (if r \<in> cv_live v w c then [e] else [])"
proof -
  have "case bc_send bc c e w of (refused, w') \<Rightarrow>
     refused = (cv_live v w c = {}) \<and> cv_opened v w' = cv_opened v w \<and> cv_live v w' = cv_live v w \<and>
     (\<forall>r. cv_sent v w' r = cv_sent v w r @ (if r \<in> cv_live v w c then [e] else []))"
    using assms(1,2) by (simp only: broadcast_laws_def send_law_def)
  with assms(3) show "refused = (cv_live v w c = {})" "cv_opened v w' = cv_opened v w" "cv_live v w' = cv_live v w"
    "cv_sent v w' r = cv_sent v w r @ (if r \<in> cv_live v w c then [e] else [])" by simp_all
qed

lemma count_pos:
  "broadcast_laws bc v \<Longrightarrow> c \<in> cv_opened v w \<Longrightarrow> (0 < bc_receiver_count bc c w) = (cv_live v w c \<noteq> {})"
  by (metis broadcast_laws_def count_law_def neq0_conv)

text \<open>Channels that nobody listens to can be taken from the hub.\<close>

lemma hub_shrinks:
  assumes "hub_ok v h w" and "bt_sorted m"
    and "\<And>k c. bt_get m k = Some c \<Longrightarrow> bt_get (hb_channels h) k = Some c"
  shows "hub_ok v (h\<lparr>hb_channels := m\<rparr>) w"
  using assms(1,2) unfolding hub_ok_def by (simp add: assms(3)) (meson assms(3))

lemma listens_stays:
  assumes "listens v h w sid r"
    and "\<And>c. bt_get (hb_channels h) sid = Some c \<Longrightarrow> cv_live v w c \<noteq> {} \<Longrightarrow> bt_get m sid = Some c"
  shows "listens v (h\<lparr>hb_channels := m\<rparr>) w sid r"
  using assms by (auto simp: listens_def)


lemma used_channel_stays:
  assumes "broadcast_laws bc v" and "hub_ok v h w" and "bt_get (hb_channels h) sid = Some c" and "cv_live v w c \<noteq> {}"
  shows "bt_get (retain_used bc w (hb_channels h)) sid = Some c"
  using assms count_pos [OF assms(1), of c w] by (simp add: hub_ok_def retain_used_facts)

text \<open>The sender a subscription uses: the session's own, or one of a new channel.\<close>

lemma sender_chosen:
  assumes laws: "broadcast_laws bc v" and ok: "hub_ok v h w" and m: "m = retain_used bc w (hb_channels h)"
    and c: "(case bt_get m sid of Some c \<Rightarrow> (c, w) | None \<Rightarrow> bc_channel bc (hb_capacity h) w) = (c, w1)"
  shows "c \<in> cv_opened v w1 \<and> cv_opened v w \<subseteq> cv_opened v w1 \<and> cv_sent v w1 = cv_sent v w \<and>
      (\<forall>d \<in> cv_opened v w. cv_live v w1 d = cv_live v w d) \<and>
      (\<forall>d \<in> cv_opened v w1. d \<notin> cv_opened v w \<longrightarrow> cv_live v w1 d = {}) \<and>
      (\<forall>k. bt_get m k = Some c \<longrightarrow> k = sid) \<and> (\<forall>d. bt_get m sid = Some d \<longrightarrow> d = c)"
proof -
  have sub: "bt_get (hb_channels h) k = Some d" if "bt_get m k = Some d" for k d
    using that ok by (simp add: m hub_ok_def retain_used_facts split: option.splits if_splits)
  show ?thesis
  proof (cases "bt_get m sid")
    case None
    with c have "bc_channel bc (hb_capacity h) w = (c, w1)" by simp
    note n = channel_new [OF laws this]
    have "\<not> bt_get m k = Some c" for k using n(1) sub ok unfolding hub_ok_def by blast
    with n None show ?thesis by auto
  next
    case (Some d)
    with c have "d = c" "w1 = w" by simp_all
    with Some sub ok show ?thesis unfolding hub_ok_def by (metis option.inject subsetI)
  qed
qed

lemma subscribe_ok:
  assumes laws: "broadcast_laws bc v" and ok: "hub_ok v h w" and sub: "hub_subscribe bc sid h w = (r, h', w')"
  shows "hub_ok v h' w' \<and> listens v h' w' sid r \<and> cv_sent v w' r = [] \<and>
    (\<forall>k x. listens v h w k x \<longrightarrow> listens v h' w' k x \<and> cv_sent v w' x = cv_sent v w x)"
proof -
  let ?m = "retain_used bc w (hb_channels h)"
  obtain c w1 where c: "(case bt_get ?m sid of Some c \<Rightarrow> (c, w) | None \<Rightarrow> bc_channel bc (hb_capacity h) w) = (c, w1)"
    by fastforce
  obtain w2 where s: "bc_subscribe bc c w1 = (r, w2)" "h' = h\<lparr>hb_channels := bt_insert sid c ?m\<rparr>" "w' = w2"
    using sub c by (auto simp: hub_subscribe_def split: prod.splits)
  have sorted: "bt_sorted (hb_channels h)" using ok by (simp add: hub_ok_def)
  have m: "bt_get (hb_channels h) k = Some d" if "bt_get ?m k = Some d" for k d
    using that sorted by (simp add: retain_used_facts split: option.splits if_splits)
  from sender_chosen [OF laws ok refl c] have n: "c \<in> cv_opened v w1" "cv_opened v w \<subseteq> cv_opened v w1"
    "cv_sent v w1 = cv_sent v w" "\<And>d. d \<in> cv_opened v w \<Longrightarrow> cv_live v w1 d = cv_live v w d"
    "\<And>d. d \<in> cv_opened v w1 \<Longrightarrow> d \<notin> cv_opened v w \<Longrightarrow> cv_live v w1 d = {}"
    "\<And>k. bt_get ?m k = Some c \<Longrightarrow> k = sid" "\<And>d. bt_get ?m sid = Some d \<Longrightarrow> d = c"
    by blast+
  note w2 = channel_subscribe [OF laws n(1) s(1)]
  have known: "d \<in> cv_opened v w1" if "bt_get ?m k = Some d" for k d
    using m [OF that] ok n(2) unfolding hub_ok_def by blast
  have own: "k = l" if "bt_get ?m k = Some d" "bt_get ?m l = Some d" for k l d
    using m [OF that(1)] m [OF that(2)] ok unfolding hub_ok_def by blast
  have apart: "cv_live v w1 a \<inter> cv_live v w1 b = {}"
    if "a \<in> cv_opened v w1" "b \<in> cv_opened v w1" "a \<noteq> b" for a b
    using that ok n(4) [of a] n(4) [of b] n(5) [of a] n(5) [of b] unfolding hub_ok_def
    by (metis inf_bot_left inf_bot_right)
  have get: "bt_get (hb_channels h') k = (if k = sid then Some c else bt_get ?m k)" for k by (simp add: s(2))
  have "hub_ok v h' w'"
    unfolding hub_ok_def
  proof (intro conjI allI ballI impI)
    show "bt_sorted (hb_channels h')" using sorted by (simp add: s retain_used_facts)
    show "d \<in> cv_opened v w'" if "bt_get (hb_channels h') k = Some d" for k d
      using that n(1) known unfolding get s(3) w2(2) by (metis option.inject)
    show "k = l" if "bt_get (hb_channels h') k = Some d" "bt_get (hb_channels h') l = Some d" for k l d
      using that unfolding get by (metis n(6) option.inject own)
    show "cv_live v w' a \<inter> cv_live v w' b = {}"
      if "a \<in> cv_opened v w'" "b \<in> cv_opened v w'" "a \<noteq> b" for a b
      using that apart [of a b] w2(1) by (auto simp: s w2)
  qed
  moreover have "listens v h' w' k x \<and> cv_sent v w' x = cv_sent v w x" if l: "listens v h w k x" for k x
  proof -
    obtain d where d: "bt_get (hb_channels h) k = Some d" "x \<in> cv_live v w d" using l by (auto simp: listens_def)
    then have "d \<in> cv_opened v w" using ok unfolding hub_ok_def by blast
    with d(2) n(2) n(4) [of d] have d1: "d \<in> cv_opened v w1" "x \<in> cv_live v w1 d" by auto
    with w2(1) have "x \<noteq> r" "x \<in> cv_live v w2 d" by (auto simp: w2)
    moreover have "bt_get ?m k = Some d" using d by (intro used_channel_stays [OF laws ok]) auto
    moreover have "k = sid \<Longrightarrow> d = c" using n(7) [of d] calculation(3) by simp
    ultimately show ?thesis using n(3) by (auto simp: listens_def s w2)
  qed
  ultimately show ?thesis by (simp add: listens_def s w2)
qed


lemma publish_ok:
  assumes laws: "broadcast_laws bc v" and ok: "hub_ok v h w" and pub: "hub_publish bc e h w = (h', w')"
  shows "hub_ok v h' w' \<and>
    (\<forall>k x. listens v h w k x \<longrightarrow> listens v h' w' k x \<and>
       cv_sent v w' x = cv_sent v w x @ (if k = re_session_id e then [e] else []))"
proof (cases "bt_get (hb_channels h) (re_session_id e)")
  case None
  then have h': "h' = h\<lparr>hb_channels := retain_used bc w (hb_channels h)\<rparr>" "w' = w"
    using pub by (auto simp: hub_publish_def)
  have "hub_ok v h' w"
    using ok unfolding h' by (intro hub_shrinks) (auto simp: hub_ok_def retain_used_facts split: option.splits if_splits)
  moreover have "listens v h' w k x" if "listens v h w k x" for k x
    unfolding h' by (rule listens_stays [OF that used_channel_stays [OF laws ok]])
  ultimately show ?thesis using None by (auto simp: h'(2) listens_def)
next
  case (Some c)
  obtain refused where send: "bc_send bc c e w = (refused, w')"
    using pub Some by (auto simp: hub_publish_def Let_def split: prod.splits)
  have c: "c \<in> cv_opened v w" using ok Some unfolding hub_ok_def by blast
  note w' = channel_send [OF laws c send]
  have ok': "hub_ok v h w'" using ok by (simp add: hub_ok_def w')
  let ?m = "if cv_live v w c = {} then bt_remove (re_session_id e) (hb_channels h) else hb_channels h"
  have "(refused \<or> bc_receiver_count bc c w' = 0) = (cv_live v w c = {})"
    using count_pos [OF laws, of c w'] c by (auto simp: w')
  then have h': "h' = h\<lparr>hb_channels := retain_used bc w' ?m\<rparr>"
    using pub Some send by (simp add: hub_publish_def Let_def)
  have sorted: "bt_sorted (hb_channels h)" using ok by (simp add: hub_ok_def)
  have get: "bt_get (retain_used bc w' ?m) k = Some d" if "bt_get (hb_channels h) k = Some d" "cv_live v w' d \<noteq> {}" for k d
    using that used_channel_stays [OF laws ok' that] sorted Some
    by (auto simp: retain_used_facts bt_get_remove w')
  have "hub_ok v h' w'"
    using ok' sorted unfolding h' by (intro hub_shrinks)
      (auto simp: retain_used_facts bt_get_remove split: option.splits if_splits)
  moreover have "listens v h' w' k x" if l: "listens v h w k x" for k x
  proof -
    obtain d where d: "bt_get (hb_channels h) k = Some d" "x \<in> cv_live v w' d"
      using l by (auto simp: listens_def w'(3))
    then have "cv_live v w' d \<noteq> {}" by blast
    from get [OF d(1) this] have "bt_get (hb_channels h') k = Some d" unfolding h' by simp
    with d(2) show ?thesis by (auto simp: listens_def)
  qed
  moreover have "x \<in> cv_live v w c \<longleftrightarrow> k = re_session_id e" if l: "listens v h w k x" for k x
  proof -
    obtain d where d: "bt_get (hb_channels h) k = Some d" "x \<in> cv_live v w d" using l by (auto simp: listens_def)
    then have "d \<in> cv_opened v w" using ok unfolding hub_ok_def by blast
    with d Some ok c show ?thesis unfolding hub_ok_def by (metis disjoint_iff option.inject)
  qed
  ultimately show ?thesis by (simp add: w'(4))
qed

lemma unused_removed:
  assumes laws: "broadcast_laws bc v" and ok: "hub_ok v h w"
  shows "hub_ok v (remove_if_unused bc sid h w) w \<and>
    (\<forall>k x. listens v h w k x \<longrightarrow> listens v (remove_if_unused bc sid h w) w k x)"
proof -
  have sorted: "bt_sorted (hb_channels h)" using ok by (simp add: hub_ok_def)
  have "hub_ok v (remove_if_unused bc sid h w) w"
    using ok sorted by (auto simp: remove_if_unused_def bt_get_remove split: option.splits if_splits intro!: hub_shrinks)
  moreover have "cv_live v w c = {}" if "bt_get (hb_channels h) sid = Some c" "bc_receiver_count bc c w = 0" for c
    using that ok count_pos [OF laws, of c w] unfolding hub_ok_def by auto
  ultimately show ?thesis
    using sorted by (auto simp: remove_if_unused_def listens_def bt_get_remove split: option.splits if_splits)
qed

lemma drop_ok:
  assumes laws: "broadcast_laws bc v" and ok: "hub_ok v h w"
  shows "hub_ok v h (bc_drop bc r w) \<and>
    (\<forall>k x. listens v h w k x \<longrightarrow> x \<noteq> r \<longrightarrow>
       listens v h (bc_drop bc r w) k x \<and> cv_sent v (bc_drop bc r w) x = cv_sent v w x)"
proof -
  have d: "cv_opened v (bc_drop bc r w) = cv_opened v w"
    "c \<in> cv_opened v w \<Longrightarrow> cv_live v (bc_drop bc r w) c = cv_live v w c - {r}"
    "x \<noteq> r \<Longrightarrow> cv_sent v (bc_drop bc r w) x = cv_sent v w x" for c x
    using laws by (simp_all add: broadcast_laws_def drop_law_def)
  have "hub_ok v h (bc_drop bc r w)"
    using ok unfolding hub_ok_def d(1) by (simp add: d(2)) blast
  moreover have "listens v h (bc_drop bc r w) k x" if "listens v h w k x" "x \<noteq> r" for k x
    using that ok d(2) unfolding listens_def hub_ok_def by fastforce
  ultimately show ?thesis using d(3) by blast
qed

text \<open>A subscriber misses nothing and gets nothing twice, whatever is done with the hub.\<close>

lemma hub_do_ok:
  assumes laws: "broadcast_laws bc v" and ok: "hub_state_ok v s"
  shows "hub_state_ok v (hub_do bc op s)"
proof -
  have hub: "hub_ok v (hs_hub s) (hs_world s)"
    and subs: "\<And>sid r es. (sid, r, es) \<in> set (hs_subscriptions s) \<Longrightarrow>
      cv_sent v (hs_world s) r = es \<and> listens v (hs_hub s) (hs_world s) sid r"
    using ok by (auto simp: hub_state_ok_def)
  have sorted: "bt_sorted (hb_channels (hs_hub s))" using hub by (simp add: hub_ok_def)
  show ?thesis
  proof (cases op)
    case (H_Subscribe sid)
    obtain r h w where sub: "hub_subscribe bc sid (hs_hub s) (hs_world s) = (r, h, w)" by (metis prod_cases3)
    from subscribe_ok [OF laws hub this] H_Subscribe sub show ?thesis
      by (auto simp: hub_state_ok_def dest!: subs)
  next
    case (H_Publish e)
    obtain h w where pub: "hub_publish bc e (hs_hub s) (hs_world s) = (h, w)" by (metis surj_pair)
    from publish_ok [OF laws hub this] H_Publish pub show ?thesis
      by (auto simp: hub_state_ok_def dest!: subs)
  next
    case (H_Remove_If_Unused sid)
    from unused_removed [OF laws hub, of sid] H_Remove_If_Unused show ?thesis
      by (auto simp: hub_state_ok_def dest!: subs)
  next
    case (H_Close sids)
    have "hub_ok v (close_sessions sids (hs_hub s)) (hs_world s)"
      using hub fold_remove [OF sorted] unfolding close_sessions_def
      by (intro hub_shrinks) (auto split: if_splits)
    with H_Close fold_remove [OF sorted] show ?thesis
      by (auto simp: hub_state_ok_def listens_def close_sessions_def dest!: subs)
  next
    case (H_Drop r)
    from drop_ok [OF laws hub, of r] H_Drop show ?thesis by (auto simp: hub_state_ok_def dest!: subs)
  qed
qed

section \<open>What the hub promises\<close>

text \<open>C19. Whatever subscriptions, publications, clean-ups of unused channels, closings of sessions
  and drops of receivers follow each other, a receiver that is not dropped and whose session was not
  closed has been sent exactly the events published to its session since it subscribed, in their
  order, and it is still connected to the channel the hub has for that session: no clean-up takes
  the channel from under a subscriber.\<close>

theorem hub_delivers:
  assumes "broadcast_laws bc v" and "cv_opened v w = {}"
    and "(sid, r, es) \<in> set (hs_subscriptions (fold (hub_do bc) ops (hub_start capacity w)))"
  shows "cv_sent v (hs_world (fold (hub_do bc) ops (hub_start capacity w))) r = es \<and>
    listens v (hs_hub (fold (hub_do bc) ops (hub_start capacity w)))
      (hs_world (fold (hub_do bc) ops (hub_start capacity w))) sid r"
proof -
  have "hub_state_ok v (hub_start capacity w)"
    using assms(2) by (simp add: hub_state_ok_def hub_start_def with_capacity_def hub_ok_def)
  then have "hub_state_ok v (fold (hub_do bc) ops (hub_start capacity w))"
    using hub_do_ok [OF assms(1)] by (induction ops rule: rev_induct) simp_all
  with assms(3) show ?thesis by (auto simp: hub_state_ok_def)
qed

text \<open>
  Channels kept in lists: a world numbers its channels and receivers and has for each receiver its
  channel, whether it is live, and what it was sent.
\<close>

record channel_list =
  cl_channels :: nat
  cl_receivers :: "(nat \<times> bool \<times> recorded_event list) list"

definition list_view :: "(channel_list, nat, nat) channel_view" where
  "list_view =
     \<lparr>cv_opened = (\<lambda>w. {..< cl_channels w}),
      cv_live = (\<lambda>w c. {r. c < cl_channels w \<and> r < length (cl_receivers w) \<and>
        fst (cl_receivers w ! r) = c \<and> fst (snd (cl_receivers w ! r))}),
      cv_sent = (\<lambda>w r. if r < length (cl_receivers w) then snd (snd (cl_receivers w ! r)) else [])\<rparr>"

definition list_channels :: "(channel_list, nat, nat) broadcast" where
  "list_channels =
     \<lparr>bc_channel = (\<lambda>n w. (cl_channels w, w\<lparr>cl_channels := Suc (cl_channels w),
        cl_receivers := map (\<lambda>(c, live, es). (c, live \<and> c \<noteq> cl_channels w, es)) (cl_receivers w)\<rparr>)),
      bc_subscribe = (\<lambda>c w. (length (cl_receivers w), w\<lparr>cl_receivers := cl_receivers w @ [(c, True, [])]\<rparr>)),
      bc_send = (\<lambda>c e w. (\<not> list_ex (\<lambda>(d, live, _). d = c \<and> live) (cl_receivers w),
        w\<lparr>cl_receivers := map (\<lambda>(d, live, es). (d, live, if d = c \<and> live then es @ [e] else es)) (cl_receivers w)\<rparr>)),
      bc_receiver_count = (\<lambda>c w. length (filter (\<lambda>(d, live, _). d = c \<and> live) (cl_receivers w))),
      bc_drop = (\<lambda>r w. if r < length (cl_receivers w)
        then w\<lparr>cl_receivers := (cl_receivers w)[r := (fst (cl_receivers w ! r), False, snd (snd (cl_receivers w ! r)))]\<rparr>
        else w)\<rparr>"

lemma list_channels_laws: "broadcast_laws list_channels list_view"
  unfolding broadcast_laws_def
proof (intro conjI)
  have none: "filter f xs = [] \<longleftrightarrow> (\<forall>i < length xs. \<not> f (xs ! i))" for f and xs :: "(nat \<times> bool \<times> recorded_event list) list"
    by (metis filter_empty_conv in_set_conv_nth)
  show "channel_law list_channels list_view"
    by (auto simp: channel_law_def list_channels_def list_view_def fun_eq_iff split: prod.splits)
  show "subscribe_law list_channels list_view"
    by (auto simp: subscribe_law_def list_channels_def list_view_def fun_eq_iff nth_append less_Suc_eq split: if_splits)
  show "send_law list_channels list_view"
    by (auto simp: send_law_def list_channels_def list_view_def fun_eq_iff list_ex_length case_prod_beta)
  show "count_law list_channels list_view"
    by (auto simp: count_law_def list_channels_def list_view_def none case_prod_beta)
  show "drop_law list_channels list_view"
    by (auto simp: drop_law_def list_channels_def list_view_def nth_list_update split: if_splits)
qed


definition example_published :: "nat \<Rightarrow> recorded_event" where
  "example_published n = \<lparr>re_id = n, re_session_id = ''s'', re_schema_version = 1, re_occurred_at = ''t'',
     re_event = QueuePaused, re_raw_data = None\<rparr>"

definition example_hub :: "(channel_list, nat, nat) hub_state" where
  "example_hub = fold (hub_do list_channels)
     [H_Subscribe ''s'', H_Publish (example_published 1), H_Subscribe ''s'', H_Publish (example_published 2),
      H_Drop 0, H_Remove_If_Unused ''s'', H_Publish (example_published 3)]
     (hub_start 256 \<lparr>cl_channels = 0, cl_receivers = []\<rparr>)"

lemma example_hub_subscription:
  "(''s'', 1, [example_published 2, example_published 3]) \<in> set (hs_subscriptions example_hub)"
  by (simp add: example_hub_def hub_start_def with_capacity_def list_channels_def hub_subscribe_def hub_publish_def
      remove_if_unused_def retain_used_def example_published_def bt_empty_def)

theorem hub_delivers_witness:
  "cv_sent list_view (hs_world example_hub) 1 = [example_published 2, example_published 3]"
proof -
  have "cv_opened list_view \<lparr>cl_channels = 0, cl_receivers = []\<rparr> = {}" by (simp add: list_view_def)
  from hub_delivers [OF list_channels_laws this example_hub_subscription [unfolded example_hub_def]]
  show ?thesis unfolding example_hub_def by (rule conjunct1)
qed

end
