(* ===== verification/Request_Dumps.thy ===== *)
theory Request_Dumps
  imports Config
begin

text \<open>
  Dumps of provider requests: \<open>dump_request\<close> of piqo-server/src/supervisor.rs and its call at the
  head of each attempt in \<open>execute_run\<close>. The file system is an argument: creating directories and
  writing a file, each of which can fail and leaves some state; so is \<open>serde_json::to_vec_pretty\<close>.
\<close>

section \<open>Model\<close>

record 'w dump_fs =
  df_create_dir_all :: "string \<Rightarrow> 'w \<Rightarrow> (string, unit) result \<times> 'w"
  df_write :: "string \<Rightarrow> string \<Rightarrow> 'w \<Rightarrow> (string, unit) result \<times> 'w"

definition dump_body_path :: "string \<Rightarrow> string \<Rightarrow> nat \<Rightarrow> string" where
  "dump_body_path directory run_id attempt = path_join directory (run_id @ ''-'' @ decimal attempt @ ''.json'')"

definition dump_metadata_path :: "string \<Rightarrow> string \<Rightarrow> nat \<Rightarrow> string" where
  "dump_metadata_path directory run_id attempt =
     path_join directory (run_id @ ''-'' @ decimal attempt @ ''.meta.json'')"

definition dump_metadata :: "string \<Rightarrow> nat \<Rightarrow> resolved_provider \<Rightarrow> json" where
  "dump_metadata run_id attempt provider =
     jobj [(''run_id'', JStr run_id), (''attempt'', jnat attempt), (''provider'', JStr (rv_name provider)),
       (''protocol'', JStr (case rv_protocol provider of
          ChatCompletions \<Rightarrow> ''chat_completions'' | Responses \<Rightarrow> ''responses''))]"

definition write_pretty ::
  "'w dump_fs \<Rightarrow> (json \<Rightarrow> (string, string) result) \<Rightarrow> string \<Rightarrow> json \<Rightarrow> 'w \<Rightarrow> (string, unit) result \<times> 'w" where
  "write_pretty fs to_pretty path v w =
     (case to_pretty v of Inl e \<Rightarrow> (Inl e, w) | Inr bytes \<Rightarrow> df_write fs path bytes w)"

definition dump_request ::
  "'w dump_fs \<Rightarrow> (json \<Rightarrow> (string, string) result) \<Rightarrow> string \<Rightarrow> string \<Rightarrow> nat \<Rightarrow> resolved_provider \<Rightarrow> json
   \<Rightarrow> 'w \<Rightarrow> (string, unit) result \<times> 'w" where
  "dump_request fs to_pretty directory run_id attempt provider body w =
     (case df_create_dir_all fs directory w of
        (Inl e, w) \<Rightarrow> (Inl e, w)
      | (Inr _, w) \<Rightarrow>
          (case write_pretty fs to_pretty (dump_body_path directory run_id attempt) body w of
             (Inl e, w) \<Rightarrow> (Inl e, w)
           | (Inr _, w) \<Rightarrow>
               write_pretty fs to_pretty (dump_metadata_path directory run_id attempt)
                 (dump_metadata run_id attempt provider) w))"

text \<open>
  The call in \<open>execute_run\<close>: nothing without a dump directory, a warning when it fails. The number
  of the attempt is a \<open>u8\<close>.
\<close>

definition u8_saturating_add :: "nat \<Rightarrow> nat \<Rightarrow> nat" where
  "u8_saturating_add a b = min (a + b) 255"

definition dump_attempt ::
  "'w dump_fs \<Rightarrow> (json \<Rightarrow> (string, string) result) \<Rightarrow> string option \<Rightarrow> string \<Rightarrow> nat \<Rightarrow> resolved_provider
   \<Rightarrow> json \<Rightarrow> 'w \<Rightarrow> 'w" where
  "dump_attempt fs to_pretty dump_dir run_id retries provider body w =
     (case dump_dir of
        None \<Rightarrow> w
      | Some directory \<Rightarrow>
          snd (dump_request fs to_pretty directory run_id (u8_saturating_add retries 1) provider body w))"

section \<open>Files\<close>

text \<open>What the dumps rely on: a directory is created beside the files, a write that succeeds
  replaces the contents of its file, and no other.\<close>

definition dump_fs_laws :: "'w dump_fs \<Rightarrow> ('w \<Rightarrow> string \<Rightarrow> string option) \<Rightarrow> bool" where
  "dump_fs_laws fs contents \<longleftrightarrow>
     (\<forall>d w w'. df_create_dir_all fs d w = (Inr (), w') \<longrightarrow> contents w' = contents w) \<and>
     (\<forall>p bytes w w'. df_write fs p bytes w = (Inr (), w') \<longrightarrow> contents w' = (contents w)(p := Some bytes))"

lemma decimal_chars: "c \<in> set (decimal n) \<Longrightarrow> c \<noteq> CHR ''-'' \<and> c \<noteq> CHR ''a''"
  using decimal_digits [of n] by (force simp: list_all_iff is_digit_def byte_def)

lemma dash_split:
  assumes "r @ CHR ''-'' # decimal m = r' @ CHR ''-'' # decimal n"
  shows "r = r' \<and> m = n"
proof -
  have "takeWhile (\<lambda>c. c \<noteq> CHR ''-'') (rev (s @ CHR ''-'' # decimal k)) = rev (decimal k)" for s k
    using decimal_chars by (subst rev_append) (simp add: takeWhile_tail takeWhile_append2)
  with arg_cong [OF assms, of "\<lambda>s. takeWhile (\<lambda>c. c \<noteq> CHR ''-'') (rev s)"]
  have "decimal m = decimal n" by simp
  with assms show ?thesis by (auto dest: decimal_inject)
qed

lemma path_join_inject: "\<not> is_absolute p \<Longrightarrow> \<not> is_absolute q \<Longrightarrow> path_join d p = path_join d q \<Longrightarrow> p = q"
  by (simp add: path_join_def split: if_splits)

lemma dump_name_relative:
  "\<not> is_absolute r \<Longrightarrow> \<not> is_absolute (r @ ''-'' @ s)"
  by (cases r) (auto simp: is_absolute_def starts_with_def)

lemma dump_paths_apart:
  assumes "\<not> is_absolute r" "\<not> is_absolute r'"
  shows "dump_body_path d r m = dump_body_path d r' n \<longleftrightarrow> r = r' \<and> m = n"
    and "dump_metadata_path d r m = dump_metadata_path d r' n \<longleftrightarrow> r = r' \<and> m = n"
    and "dump_body_path d r m \<noteq> dump_metadata_path d r' n"
proof -
  note rel = dump_name_relative [OF assms(1)] dump_name_relative [OF assms(2)]
  show "dump_body_path d r m = dump_body_path d r' n \<longleftrightarrow> r = r' \<and> m = n"
    using path_join_inject [OF rel(1) rel(2)] dash_split [of r m r' n] by (force simp: dump_body_path_def)
  show "dump_metadata_path d r m = dump_metadata_path d r' n \<longleftrightarrow> r = r' \<and> m = n"
    using path_join_inject [OF rel(1) rel(2)] dash_split [of r m r' n] by (force simp: dump_metadata_path_def)
  show "dump_body_path d r m \<noteq> dump_metadata_path d r' n"
  proof
    assume "dump_body_path d r m = dump_metadata_path d r' n"
    then have names: "r @ ''-'' @ decimal m @ ''.json'' = r' @ ''-'' @ decimal n @ ''.meta.json''"
      unfolding dump_body_path_def dump_metadata_path_def by (rule path_join_inject [OF rel])
    have "rev (decimal m) @ CHR ''-'' # rev r = CHR ''a'' # ''tem.'' @ rev (decimal n) @ CHR ''-'' # rev r'"
      using arg_cong [OF names, of rev] by simp
    moreover obtain c cs where "rev (decimal m) = c # cs"
      using decimal_digits [of m] by (cases "rev (decimal m)") auto
    ultimately have "CHR ''a'' \<in> set (rev (decimal m))" by simp
    then show False using decimal_chars [of "CHR ''a''" m] by simp
  qed
qed


section \<open>What a dump leaves\<close>

lemma write_pretty_ok:
  assumes "dump_fs_laws fs contents" and "write_pretty fs to_pretty path v w = (Inr (), w')"
  shows "\<exists>bytes. to_pretty v = Inr bytes \<and> contents w' = (contents w)(path := Some bytes)"
  using assms by (auto simp: write_pretty_def dump_fs_laws_def split: sum.splits)

text \<open>A dump that succeeds leaves the body that was sent and the metadata of the attempt in two
  files of its own: what was dumped for any other run or attempt is still there as it was.\<close>

theorem dump_kept_apart:
  assumes laws: "dump_fs_laws fs contents" and run: "\<not> is_absolute run_id"
    and ok: "dump_request fs to_pretty directory run_id attempt provider body w = (Inr (), w')"
  shows "(\<exists>bytes. to_pretty body = Inr bytes \<and> contents w' (dump_body_path directory run_id attempt) = Some bytes) \<and>
    (\<exists>bytes. to_pretty (dump_metadata run_id attempt provider) = Inr bytes \<and>
       contents w' (dump_metadata_path directory run_id attempt) = Some bytes) \<and>
    (\<forall>r n. \<not> is_absolute r \<longrightarrow> (r, n) \<noteq> (run_id, attempt) \<longrightarrow>
       contents w' (dump_body_path directory r n) = contents w (dump_body_path directory r n) \<and>
       contents w' (dump_metadata_path directory r n) = contents w (dump_metadata_path directory r n))"
proof -
  obtain w1 w2 where steps: "df_create_dir_all fs directory w = (Inr (), w1)"
    "write_pretty fs to_pretty (dump_body_path directory run_id attempt) body w1 = (Inr (), w2)"
    "write_pretty fs to_pretty (dump_metadata_path directory run_id attempt)
       (dump_metadata run_id attempt provider) w2 = (Inr (), w')"
    using ok by (auto simp: dump_request_def split: prod.splits sum.splits)
  have "contents w1 = contents w" using laws steps(1) by (simp add: dump_fs_laws_def)
  moreover obtain b where "to_pretty body = Inr b"
    "contents w2 = (contents w1)(dump_body_path directory run_id attempt := Some b)"
    using write_pretty_ok [OF laws steps(2)] by blast
  moreover obtain m where "to_pretty (dump_metadata run_id attempt provider) = Inr m"
    "contents w' = (contents w2)(dump_metadata_path directory run_id attempt := Some m)"
    using write_pretty_ok [OF laws steps(3)] by blast
  ultimately show ?thesis
    by (auto simp: dump_paths_apart [OF run run] dump_paths_apart [OF run] dump_paths_apart(3) [OF run, symmetric]
        dump_paths_apart(1,2,3) [OF _ run])
qed

text \<open>A file system that is a function from paths to contents.\<close>

definition map_fs :: "(string \<Rightarrow> string option) dump_fs" where
  "map_fs = \<lparr>df_create_dir_all = (\<lambda>d w. (Inr (), w)), df_write = (\<lambda>p bytes w. (Inr (), w(p := Some bytes)))\<rparr>"

lemma map_fs_laws: "dump_fs_laws map_fs (\<lambda>w. w)"
  by (auto simp: dump_fs_laws_def map_fs_def)

definition example_dump :: "resolved_provider \<Rightarrow> (string, unit) result \<times> (string \<Rightarrow> string option)" where
  "example_dump provider = dump_request map_fs (\<lambda>v. Inr (case v of JNull \<Rightarrow> ''null'' | _ \<Rightarrow> ''object''))
     ''/dumps'' ''r'' 1 provider JNull ((\<lambda>_. None)(''/dumps/r-2.json'' := Some ''before''))"

theorem dump_kept_apart_witness:
  "fst (example_dump (resolved_provider.make ''p'' ''e'' ''m'' ChatCompletions [] 1)) = Inr () \<and>
   snd (example_dump (resolved_provider.make ''p'' ''e'' ''m'' ChatCompletions [] 1)) ''/dumps/r-1.json'' = Some ''null'' \<and>
   snd (example_dump (resolved_provider.make ''p'' ''e'' ''m'' ChatCompletions [] 1)) ''/dumps/r-2.json'' = Some ''before''"
proof -
  have numeral_digits: "char_of (49 :: nat) = CHR ''1''" "char_of (50 :: nat) = CHR ''2''" by code_simp+
  let ?p = "resolved_provider.make ''p'' ''e'' ''m'' ChatCompletions [] 1"
  have paths: "dump_body_path ''/dumps'' ''r'' 1 = ''/dumps/r-1.json''" "dump_body_path ''/dumps'' ''r'' 2 = ''/dumps/r-2.json''"
    by (simp_all add: dump_body_path_def path_join_def is_absolute_def starts_with_def decimal.simps numeral_digits)
  have ran: "example_dump ?p = (Inr (), snd (example_dump ?p))"
    by (simp add: example_dump_def dump_request_def map_fs_def write_pretty_def)
  have r: "\<not> is_absolute ''r''" by (simp add: is_absolute_def starts_with_def)
  note kept = dump_kept_apart [OF map_fs_laws r ran [unfolded example_dump_def], folded example_dump_def]
  have "snd (example_dump ?p) (dump_body_path ''/dumps'' ''r'' 1) = Some ''null''"
    using conjunct1 [OF kept] by auto
  moreover have "snd (example_dump ?p) (dump_body_path ''/dumps'' ''r'' 2) = Some ''before''"
    using conjunct2 [OF conjunct2 [OF kept], rule_format, of "''r''" 2] r by (simp add: paths)
  ultimately show ?thesis using ran unfolding paths by (metis fst_conv)
qed

text \<open>The headers of a provider, its bearer token among them, and its endpoint are in no dump: two
  providers of one name and protocol leave the same files.\<close>

lemma dump_without_headers:
  "dump_request fs to_pretty directory run_id attempt (provider\<lparr>rv_headers := hs, rv_endpoint := e\<rparr>) body w =
   dump_request fs to_pretty directory run_id attempt provider body w"
proof -
  have "dump_metadata run_id attempt (provider\<lparr>rv_headers := hs, rv_endpoint := e\<rparr>) = dump_metadata run_id attempt provider"
    by (simp add: dump_metadata_def)
  then show ?thesis unfolding dump_request_def by (simp only:)
qed

text \<open>
  The number of an attempt restarts with every turn of a run, so the request of a turn that
  continues after tool results replaces the dump of the turn before.
\<close>

lemma dump_of_next_turn:
  assumes "dump_fs_laws fs contents" and "\<not> is_absolute run_id"
    and "dump_request fs to_pretty directory run_id (u8_saturating_add 0 1) provider body w = (Inr (), w')"
  shows "contents (dump_attempt fs to_pretty (Some directory) run_id 0 provider body w)
    (dump_body_path directory run_id 1) \<in> Some ` {bytes. to_pretty body = Inr bytes}"
proof -
  obtain w1 w2 where steps: "df_create_dir_all fs directory w = (Inr (), w1)"
    "write_pretty fs to_pretty (dump_body_path directory run_id 1) body w1 = (Inr (), w2)"
    "write_pretty fs to_pretty (dump_metadata_path directory run_id 1) (dump_metadata run_id 1 provider) w2 = (Inr (), w')"
    using assms(3) by (auto simp: dump_request_def u8_saturating_add_def split: prod.splits sum.splits)
  from write_pretty_ok [OF assms(1) steps(2)] write_pretty_ok [OF assms(1) steps(3)] assms(3) show ?thesis
    by (auto simp: dump_attempt_def dump_paths_apart [OF assms(2) assms(2)])
qed

end
